(* ===== verification/Prelude.thy ===== *)
theory Prelude
  imports Complex_Main "HOL-Library.AList"
begin

section \<open>Prelude: results, exceptions, dictionaries, clock\<close>

text \<open>
  What every component shares.
  \<^item> \<open>py_error\<close> names the exceptions the modelled code can raise; a function that may raise
    returns \<open>py_error + 'a\<close> (\<open>Inl\<close> the exception, \<open>Inr\<close> the result), and \<open>bindE\<close>
    is the sequencing of Python statements: the first exception ends the sequence.
  \<^item> A Python \<^verbatim>\<open>dict\<close> whose iteration order matters is an association list:
    \<open>AList.update\<close> overwrites in place or appends at the end, \<open>AList.delete\<close> drops a
    key, exactly as assignment and \<^verbatim>\<open>pop\<close> do, and \<open>map_of\<close> is the lookup.
  \<^item> A \<^verbatim>\<open>datetime\<close> is its number of microseconds since the epoch (UTC), a
    \<^verbatim>\<open>date\<close> the number of whole days.
  \<^item> Human-readable sentences (the \<open>detail\<close>, \<open>basis\<close> and \<open>reason\<close> texts that the code
    formats for a reader) are not modelled: no branch of the program reads them.
\<close>

subsection \<open>Exceptions and results\<close>

datatype py_error =
    InvalidOperation
  | DivisionByZero
  | InvalidMoneyError
  | ValidationError
  | KeyError
  | ValueError
  | TypeError
  | IllegalTransitionError
  | DuplicateClientOrderIdError
  | DatabaseUnavailableError
  | SymbolNotFoundError
  | AetherisError
  | ExchangeError
  | HedgeModeNotSupportedError
  | MarginModeRefusedError
  | VenueRejection int
  | AttributeError

type_synonym 'a result = "py_error + 'a"

fun bindE :: "'a result \<Rightarrow> ('a \<Rightarrow> 'b result) \<Rightarrow> 'b result" where
  "bindE (Inl e) f = Inl e"
| "bindE (Inr x) f = f x"

definition guardE :: "bool \<Rightarrow> py_error \<Rightarrow> unit result" where
  "guardE b e = (if b then Inr () else Inl e)"

fun is_ok :: "'a result \<Rightarrow> bool" where
  "is_ok (Inl e) = False"
| "is_ok (Inr x) = True"

text \<open>The statement \<^verbatim>\<open>[f(x) for x in xs]\<close> where \<open>f\<close> may raise.\<close>

fun mapE :: "('a \<Rightarrow> 'b result) \<Rightarrow> 'a list \<Rightarrow> 'b list result" where
  "mapE f [] = Inr []"
| "mapE f (x # xs) = bindE (f x) (\<lambda>y. bindE (mapE f xs) (\<lambda>ys. Inr (y # ys)))"

named_theorems result_simps "rewriting of sequenced results"

lemma bindE_Inr_iff [result_simps]: "bindE m f = Inr y \<longleftrightarrow> (\<exists>x. m = Inr x \<and> f x = Inr y)"
  by (cases m) auto

lemma bindE_Inl_iff [result_simps]:
  "bindE m f = Inl e \<longleftrightarrow> m = Inl e \<or> (\<exists>x. m = Inr x \<and> f x = Inl e)"
  by (cases m) auto

lemma bindE_assoc: "bindE (bindE m f) g = bindE m (\<lambda>x. bindE (f x) g)"
  by (cases m) auto

lemma bindE_Inr_right [simp]: "bindE m Inr = m"
  by (cases m) auto

lemma guardE_Inr [result_simps]: "guardE b e = Inr u \<longleftrightarrow> b"
  by (simp add: guardE_def)

lemma guardE_Inl [result_simps]: "guardE b e = Inl e' \<longleftrightarrow> \<not> b \<and> e' = e"
  by (auto simp: guardE_def)

lemma guardE_True [simp]: "guardE True e = Inr ()"
  by (simp add: guardE_def)

lemma guardE_False [simp]: "guardE False e = Inl e"
  by (simp add: guardE_def)

lemma is_ok_iff [result_simps]: "is_ok r \<longleftrightarrow> (\<exists>x. r = Inr x)"
  by (cases r) auto

lemma mapE_Inr_length: "mapE f xs = Inr ys \<Longrightarrow> length ys = length xs"
  by (induction xs arbitrary: ys) (auto simp: result_simps)

lemma mapE_Inr_set:
  assumes "mapE f xs = Inr ys" and "y \<in> set ys"
  shows "\<exists>x \<in> set xs. f x = Inr y"
  using assms by (induction xs arbitrary: ys) (auto simp: result_simps)

lemma mapE_Inr_all: "mapE f xs = Inr ys \<Longrightarrow> x \<in> set xs \<Longrightarrow> \<exists>y. f x = Inr y"
  by (induction xs arbitrary: ys) (auto simp: result_simps)

lemma mapE_Inl: "mapE f xs = Inl e \<Longrightarrow> \<exists>x \<in> set xs. f x = Inl e"
  by (induction xs) (auto simp: result_simps)

subsection \<open>Actions: state that survives an exception\<close>

text \<open>
  A method that changes its object and may raise is an action: it returns the state it leaves
  behind together with its result, because what was written before an exception stays written.
\<close>

type_synonym ('s, 'a) act = "'s \<Rightarrow> 's \<times> 'a result"

definition returnA :: "'a \<Rightarrow> ('s, 'a) act" where
  "returnA x s = (s, Inr x)"

definition raiseA :: "py_error \<Rightarrow> ('s, 'a) act" where
  "raiseA e s = (s, Inl e)"

definition liftA :: "'a result \<Rightarrow> ('s, 'a) act" where
  "liftA r s = (s, r)"

definition bindA :: "('s, 'a) act \<Rightarrow> ('a \<Rightarrow> ('s, 'b) act) \<Rightarrow> ('s, 'b) act" where
  "bindA m f s = (case m s of (s', Inl e) \<Rightarrow> (s', Inl e) | (s', Inr x) \<Rightarrow> f x s')"

text \<open>Reading the state, changing it, and assigning a value whose computation may raise.\<close>

definition readA :: "('s \<Rightarrow> 'a) \<Rightarrow> ('s, 'a) act" where
  "readA f s = (s, Inr (f s))"

definition modifyA :: "('s \<Rightarrow> 's) \<Rightarrow> ('s, unit) act" where
  "modifyA f s = (f s, Inr ())"

definition updateA :: "('s \<Rightarrow> 'v result) \<Rightarrow> ('v \<Rightarrow> 's \<Rightarrow> 's) \<Rightarrow> ('s, unit) act" where
  "updateA compute put s =
     (case compute s of Inl e \<Rightarrow> (s, Inl e) | Inr v \<Rightarrow> (put v s, Inr ()))"

definition thenA :: "('s, 'a) act \<Rightarrow> ('s, 'b) act \<Rightarrow> ('s, 'b) act" where
  "thenA m k = bindA m (\<lambda>_. k)"

named_theorems act_simps "rewriting of actions"

lemma bindA_returnA [act_simps]: "bindA (returnA x) f = f x"
  by (rule ext) (simp add: bindA_def returnA_def)

lemma bindA_raiseA [act_simps]: "bindA (raiseA e) f = raiseA e"
  by (rule ext) (simp add: bindA_def raiseA_def)

lemma bindA_liftA [act_simps]:
  "bindA (liftA r) f = (case r of Inl e \<Rightarrow> raiseA e | Inr x \<Rightarrow> f x)"
  by (rule ext) (simp add: bindA_def liftA_def raiseA_def split: sum.splits)

lemma bindA_assoc: "bindA (bindA m f) g = bindA m (\<lambda>x. bindA (f x) g)"
  by (rule ext) (simp add: bindA_def split: prod.splits sum.splits)

lemmas act_run = returnA_def raiseA_def liftA_def readA_def modifyA_def updateA_def

subsection \<open>Time\<close>

type_synonym timestamp = int

definition us_per_second :: int where "us_per_second = 1000000"
definition us_per_day :: int where "us_per_day = 86400000000"

text \<open>\<^verbatim>\<open>(a - b).total_seconds()\<close>, as the exact rational it approximates.\<close>

definition total_seconds :: "timestamp \<Rightarrow> timestamp \<Rightarrow> rat" where
  "total_seconds a b = of_int (a - b) / 1000000"

text \<open>\<^verbatim>\<open>now.date()\<close>.\<close>

definition date_of :: "timestamp \<Rightarrow> int" where
  "date_of t = t div us_per_day"

lemma date_of_mono: "s \<le> t \<Longrightarrow> date_of s \<le> date_of t"
  by (simp add: date_of_def us_per_day_def zdiv_mono1)

subsection \<open>Dictionaries as association lists\<close>

type_synonym ('k, 'v) dict = "('k \<times> 'v) list"

definition values_of :: "('k, 'v) dict \<Rightarrow> 'v list" where
  "values_of d = map snd d"

definition keys_of :: "('k, 'v) dict \<Rightarrow> 'k list" where
  "keys_of d = map fst d"

named_theorems dict_simps "lookup, update and deletion in dictionaries"

lemma map_of_update [dict_simps]: "map_of (AList.update k v d) = (map_of d)(k \<mapsto> v)"
  by (rule update_conv')

lemma map_of_delete [dict_simps]: "map_of (AList.delete k d) = (map_of d)(k := None)"
  by (rule delete_conv')

lemma keys_distinct_update: "distinct (map fst d) \<Longrightarrow> distinct (map fst (AList.update k v d))"
  by (rule distinct_update)

lemma keys_distinct_delete: "distinct (map fst d) \<Longrightarrow> distinct (map fst (AList.delete k d))"
  by (rule distinct_delete)

lemma keys_update [dict_simps]: "fst ` set (AList.update k v d) = insert k (fst ` set d)"
  by (simp add: dom_update)

lemma set_delete_eq [dict_simps]: "set (AList.delete k d) = {p \<in> set d. fst p \<noteq> k}"
  by (induction d) (auto split: if_splits)

lemma keys_delete [dict_simps]: "fst ` set (AList.delete k d) = fst ` set d - {k}"
  by (auto simp: set_delete_eq image_iff)

lemma set_update_subset: "x \<in> set (AList.update k v d) \<Longrightarrow> x = (k, v) \<or> x \<in> set d"
  by (induction d) (auto split: if_splits)

lemma update_fresh: "k \<notin> fst ` set d \<Longrightarrow> AList.update k v d = d @ [(k, v)]"
  by (induction d) auto

lemma set_update_distinct:
  "distinct (map fst d) \<Longrightarrow>
   set (AList.update k v d) = insert (k, v) {p \<in> set d. fst p \<noteq> k}"
  by (induction d) (auto simp: image_iff)

lemma map_of_eq_None_notin [dict_simps]: "map_of d k = None \<longleftrightarrow> k \<notin> fst ` set d"
  by (rule map_of_eq_None_iff)

lemma in_keys_iff [dict_simps]: "k \<in> fst ` set d \<longleftrightarrow> (\<exists>v. map_of d k = Some v)"
  by (metis map_of_eq_None_iff not_None_eq)

lemma map_of_Some_set: "distinct (map fst d) \<Longrightarrow> map_of d k = Some v \<longleftrightarrow> (k, v) \<in> set d"
  by (rule map_of_eq_Some_iff)

end
