(* ===== verification/Decimal.thy ===== *)
theory Decimal
  imports Prelude
begin

section \<open>Python's decimal arithmetic\<close>

text \<open>
  Every amount of the program is a \<^verbatim>\<open>decimal.Decimal\<close>. A finite Decimal is modelled by the
  rational number it denotes; what the standard library does beyond exact arithmetic is written
  out. The program never changes the default context, so every \<open>+\<close>, \<open>-\<close>, \<open>*\<close>, \<open>/\<close> rounds
  its exact result to 28 significant digits, ties to even (\<open>ctx_round\<close>); \<open>/\<close> and \<open>//\<close> by
  zero raise; \<open>//\<close> truncates towards zero and raises when the integer part needs more than 28
  digits; \<^verbatim>\<open>quantize\<close> rounds to a number of decimal places in the given mode and raises when
  the coefficient would need more than 28 digits. Comparisons, \<^verbatim>\<open>min\<close> and \<^verbatim>\<open>max\<close> are exact.
  Not modelled: the exponent range of the context (magnitudes beyond \<open>10 ^ 999999\<close>), NaN and
  infinities (they occur in the model only as values of \<open>Leverage.pyobj\<close>).
\<close>

subsection \<open>Rounding to an integer\<close>

datatype rounding = ROUND_HALF_EVEN | ROUND_HALF_UP | ROUND_DOWN | ROUND_UP

definition half_even :: "rat \<Rightarrow> int" where
  "half_even x =
     (let f = \<lfloor>x\<rfloor>; d = x - of_int f
      in if d < 1 / 2 then f else if 1 / 2 < d then f + 1 else if even f then f else f + 1)"

definition half_up :: "rat \<Rightarrow> int" where
  "half_up x = (if 0 \<le> x then \<lfloor>x + 1 / 2\<rfloor> else - \<lfloor>1 / 2 - x\<rfloor>)"

definition round_down :: "rat \<Rightarrow> int" where
  "round_down x = (if 0 \<le> x then \<lfloor>x\<rfloor> else \<lceil>x\<rceil>)"

definition round_up :: "rat \<Rightarrow> int" where
  "round_up x = (if 0 \<le> x then \<lceil>x\<rceil> else \<lfloor>x\<rfloor>)"

fun to_int :: "rounding \<Rightarrow> rat \<Rightarrow> int" where
  "to_int ROUND_HALF_EVEN x = half_even x"
| "to_int ROUND_HALF_UP x = half_up x"
| "to_int ROUND_DOWN x = round_down x"
| "to_int ROUND_UP x = round_up x"

text \<open>The contract of a rounding mode, and what follows from it alone.\<close>

locale int_rounding =
  fixes r :: "rat \<Rightarrow> int"
  assumes r_of_int: "r (of_int n) = n"
    and r_mono: "x \<le> y \<Longrightarrow> r x \<le> r y"
    and r_minus: "r (- x) = - r x"
begin

lemma r_ge: "of_int n \<le> x \<Longrightarrow> n \<le> r x"
  using r_mono [of "of_int n" x] by (simp add: r_of_int)

lemma r_le: "x \<le> of_int n \<Longrightarrow> r x \<le> n"
  using r_mono [of x "of_int n"] by (simp add: r_of_int)

lemma r_zero [simp]: "r 0 = 0"
  using r_of_int [of 0] by simp

lemma r_nonneg: "0 \<le> x \<Longrightarrow> 0 \<le> r x"
  using r_ge [of 0 x] by simp

lemma r_between: "\<lfloor>x\<rfloor> \<le> r x \<and> r x \<le> \<lceil>x\<rceil>"
  by (simp add: r_ge r_le)

lemma r_close: "\<bar>of_int (r x) - x\<bar> < 1"
proof -
  have "of_int \<lfloor>x\<rfloor> \<le> (of_int (r x) :: rat)" and "of_int (r x) \<le> (of_int \<lceil>x\<rceil> :: rat)"
    using r_between [of x] by (simp_all only: of_int_le_iff)
  moreover have "x < of_int \<lfloor>x\<rfloor> + 1" and "of_int \<lceil>x\<rceil> < x + 1"
    by linarith+
  ultimately show ?thesis by linarith
qed

lemma r_abs: "r \<bar>x\<bar> = \<bar>r x\<bar>"
proof (cases "0 \<le> x")
  case True
  then show ?thesis using r_nonneg [of x] by simp
next
  case False
  then have "0 \<le> r (- x)" by (intro r_nonneg) simp
  with False show ?thesis by (simp add: r_minus)
qed

lemma r_abs_ge: "of_int n \<le> \<bar>x\<bar> \<Longrightarrow> n \<le> \<bar>r x\<bar>"
  using r_ge [of n "\<bar>x\<bar>"] by (simp add: r_abs)

lemma r_abs_le: "\<bar>x\<bar> \<le> of_int n \<Longrightarrow> \<bar>r x\<bar> \<le> n"
  using r_le [of "\<bar>x\<bar>" n] by (simp add: r_abs)

end

locale nearest_rounding = int_rounding +
  assumes r_near: "\<bar>of_int (r x) - x\<bar> \<le> 1 / 2"

lemma half_even_of_int: "half_even (of_int n) = n"
  by (simp add: half_even_def)

lemma half_even_minus: "half_even (- x) = - half_even x"
proof (cases "x = of_int \<lfloor>x\<rfloor>")
  case True
  then obtain n where "x = of_int n" by blast
  then show ?thesis by (simp add: half_even_def Let_def)
next
  case False
  then have f: "\<lfloor>- x\<rfloor> = - \<lfloor>x\<rfloor> - 1"
    by linarith
  show ?thesis
    unfolding half_even_def Let_def f by (auto simp: field_simps)
qed

lemma half_even_near: "\<bar>of_int (half_even x) - x\<bar> \<le> 1 / 2"
  unfolding half_even_def Let_def abs_le_iff
  by (auto; use of_int_floor_le [of x] in linarith)

lemma half_even_mono: "x \<le> y \<Longrightarrow> half_even x \<le> half_even y"
proof -
  assume le: "x \<le> y"
  show ?thesis
  proof (cases "\<lfloor>x\<rfloor> = \<lfloor>y\<rfloor>")
    case True
    with le show ?thesis unfolding half_even_def Let_def by auto
  next
    case False
    with le have "\<lfloor>x\<rfloor> + 1 \<le> \<lfloor>y\<rfloor>" by linarith
    moreover have "half_even x \<le> \<lfloor>x\<rfloor> + 1" and "\<lfloor>y\<rfloor> \<le> half_even y"
      unfolding half_even_def Let_def by auto
    ultimately show ?thesis by linarith
  qed
qed

lemma half_up_of_int: "half_up (of_int n) = n"
  unfolding half_up_def by (auto; linarith)

lemma half_up_mono: "x \<le> y \<Longrightarrow> half_up x \<le> half_up y"
  unfolding half_up_def by (auto; linarith)

lemma half_up_minus: "half_up (- x) = - half_up x"
proof (cases "x = 0")
  case True
  have "\<lfloor>1 / 2 :: rat\<rfloor> = 0" by (simp add: floor_eq_iff)
  with True show ?thesis by (simp add: half_up_def)
next
  case False
  then show ?thesis by (auto simp: half_up_def add.commute)
qed

lemma half_up_near: "\<bar>of_int (half_up x) - x\<bar> \<le> 1 / 2"
  unfolding half_up_def abs_le_iff
  by (simp, intro conjI impI;
      use of_int_floor_le [of "x + 1 / 2"] of_int_floor_le [of "1 / 2 - x"] in linarith)

interpretation even: nearest_rounding half_even
  by unfold_locales
    (rule half_even_of_int half_even_mono half_even_minus half_even_near, assumption?)+

interpretation up: nearest_rounding half_up
  by unfold_locales (rule half_up_of_int half_up_mono half_up_minus half_up_near, assumption?)+

lemma round_down_of_int: "round_down (of_int n) = n"
  by (simp add: round_down_def)

lemma round_down_mono:
  assumes "x \<le> y"
  shows "round_down x \<le> round_down y"
proof (cases "x < 0 \<and> 0 \<le> y")
  case True
  then have "\<lceil>x\<rceil> \<le> 0" and "0 \<le> \<lfloor>y\<rfloor>" by (simp_all add: ceiling_le_iff)
  then have "\<lceil>x\<rceil> \<le> \<lfloor>y\<rfloor>" by (rule order_trans)
  with True show ?thesis by (simp add: round_down_def)
next
  case False
  with assms show ?thesis by (auto simp: round_down_def floor_mono ceiling_mono)
qed

lemma round_down_minus: "round_down (- x) = - round_down x"
  unfolding round_down_def by (auto simp: ceiling_def)

lemma round_up_of_int: "round_up (of_int n) = n"
  by (simp add: round_up_def)

lemma round_up_mono: "x \<le> y \<Longrightarrow> round_up x \<le> round_up y"
  unfolding round_up_def by (simp add: floor_mono ceiling_mono; linarith)

lemma round_up_minus: "round_up (- x) = - round_up x"
  unfolding round_up_def by (auto simp: ceiling_def)

interpretation down: int_rounding round_down
  by unfold_locales (rule round_down_of_int round_down_mono round_down_minus, assumption?)+

interpretation away: int_rounding round_up
  by unfold_locales (rule round_up_of_int round_up_mono round_up_minus, assumption?)+

interpretation mode: int_rounding "to_int m" for m
proof unfold_locales
  show "to_int m (of_int n) = n" for n
    by (cases m) (simp_all add: even.r_of_int up.r_of_int down.r_of_int away.r_of_int)
  show "to_int m x \<le> to_int m y" if "x \<le> y" for x y
    using that by (cases m) (simp_all add: even.r_mono up.r_mono down.r_mono away.r_mono)
  show "to_int m (- x) = - to_int m x" for x
    by (cases m) (simp_all add: even.r_minus up.r_minus down.r_minus away.r_minus)
qed

lemma of_int_less_power10: "(of_int c :: rat) < 10 ^ n \<longleftrightarrow> c < 10 ^ n"
  by (metis of_int_less_iff of_int_numeral of_int_power)

lemma abs_less_power10: "\<bar>of_int c :: rat\<bar> < 10 ^ n \<longleftrightarrow> \<bar>c\<bar> < 10 ^ n"
  using of_int_less_power10 [of "\<bar>c\<bar>" n] by simp

subsection \<open>Rounding to 28 significant digits\<close>

text \<open>
  \<open>adjusted x\<close> is the exponent of the leading digit of a positive \<open>x\<close>
  (\<^verbatim>\<open>Decimal.adjusted\<close>).
\<close>

function adjusted :: "rat \<Rightarrow> int" where
  "adjusted x =
     (if x \<le> 0 then 0
      else if 10 \<le> x then adjusted (x / 10) + 1
      else if x < 1 then adjusted (x * 10) - 1
      else 0)"
  by pat_completeness auto
termination
proof (relation "measure (\<lambda>x. if 10 \<le> x then nat \<lfloor>x\<rfloor>
                              else if 0 < x \<and> x < 1 then nat \<lfloor>1 / x\<rfloor> else 0)")
  fix x :: rat
  assume x: "10 \<le> x"
  then have "\<lfloor>x / 10\<rfloor> < \<lfloor>x\<rfloor>" and "0 < \<lfloor>x\<rfloor>" by linarith+
  with x show "(x / 10, x) \<in> measure (\<lambda>x. if 10 \<le> x then nat \<lfloor>x\<rfloor>
      else if 0 < x \<and> x < 1 then nat \<lfloor>1 / x\<rfloor> else 0)"
    by auto
next
  fix x :: rat
  assume x: "\<not> x \<le> 0" "\<not> 10 \<le> x" "x < 1"
  define y where "y = 1 / x"
  have "1 < y" using x by (simp add: y_def)
  have "\<lfloor>y / 10\<rfloor> < \<lfloor>y\<rfloor> \<and> 0 < \<lfloor>y\<rfloor>"
  proof (cases "y < 10")
    case True
    with \<open>1 < y\<close> have "\<lfloor>y / 10\<rfloor> = 0" and "1 \<le> \<lfloor>y\<rfloor>" by (simp_all add: floor_eq_iff)
    then show ?thesis by simp
  next
    case False
    then show ?thesis by linarith
  qed
  then have "\<lfloor>1 / (x * 10)\<rfloor> < \<lfloor>1 / x\<rfloor>" and "0 < \<lfloor>1 / x\<rfloor>"
    by (simp_all add: y_def)
  with x show "(x * 10, x) \<in> measure (\<lambda>x. if 10 \<le> x then nat \<lfloor>x\<rfloor>
      else if 0 < x \<and> x < 1 then nat \<lfloor>1 / x\<rfloor> else 0)"
    by (auto simp: field_simps)
qed simp

declare adjusted.simps [simp del]

abbreviation ten :: "int \<Rightarrow> rat" where
  "ten e \<equiv> 10 powi e"

definition ctx_prec :: int where "ctx_prec = 28"

definition ctx_round :: "rat \<Rightarrow> rat" where
  "ctx_round x =
     (if x = 0 then 0
      else let e = adjusted \<bar>x\<bar> - (ctx_prec - 1) in of_int (half_even (x / ten e)) * ten e)"

text \<open>The arithmetic of the default context.\<close>

definition d_add :: "rat \<Rightarrow> rat \<Rightarrow> rat" where "d_add x y = ctx_round (x + y)"
definition d_sub :: "rat \<Rightarrow> rat \<Rightarrow> rat" where "d_sub x y = ctx_round (x - y)"
definition d_mul :: "rat \<Rightarrow> rat \<Rightarrow> rat" where "d_mul x y = ctx_round (x * y)"
definition d_neg :: "rat \<Rightarrow> rat" where "d_neg x = ctx_round (- x)"
definition d_abs :: "rat \<Rightarrow> rat" where "d_abs x = ctx_round \<bar>x\<bar>"

definition d_div :: "rat \<Rightarrow> rat \<Rightarrow> rat result" where
  "d_div x y =
     (if y = 0 then Inl (if x = 0 then InvalidOperation else DivisionByZero)
      else Inr (ctx_round (x / y)))"

definition d_floordiv :: "rat \<Rightarrow> rat \<Rightarrow> rat result" where
  "d_floordiv x y =
     (if y = 0 then Inl (if x = 0 then InvalidOperation else DivisionByZero)
      else let q = round_down (x / y)
           in if \<bar>q\<bar> < 10 ^ 28 then Inr (of_int q) else Inl InvalidOperation)"

text \<open>\<^verbatim>\<open>x.quantize(Decimal(10) ** -k, rounding=m)\<close>.\<close>

definition quantize :: "rounding \<Rightarrow> nat \<Rightarrow> rat \<Rightarrow> rat result" where
  "quantize m k x =
     (let c = to_int m (x * 10 ^ k)
      in if \<bar>c\<bar> < 10 ^ 28 then Inr (of_int c / 10 ^ k) else Inl InvalidOperation)"

text \<open>\<^verbatim>\<open>sum(xs, Decimal(0))\<close>: additions from the left, each rounded.\<close>

definition d_sum :: "rat list \<Rightarrow> rat" where
  "d_sum xs = foldl d_add 0 xs"

lemma d_sum_snoc: "d_sum (xs @ [x]) = d_add (d_sum xs) x"
  by (simp add: d_sum_def)

subsubsection \<open>The leading digit\<close>

lemma adjusted_bounds:
  "0 < x \<Longrightarrow> ten (adjusted x) \<le> x \<and> x < ten (adjusted x + 1)"
proof (induction x rule: adjusted.induct)
  case (1 x)
  consider "10 \<le> x" | "x < 1" | "1 \<le> x" "x < 10" by linarith
  then show ?case
  proof cases
    case 1
    then have "ten (adjusted (x / 10)) \<le> x / 10 \<and> x / 10 < ten (adjusted (x / 10) + 1)"
      using "1.IH"(1) "1.prems" by simp
    with 1 show ?thesis
      by (subst (1 2) adjusted.simps) (simp add: power_int_add field_simps)
  next
    case 2
    then have "ten (adjusted (x * 10)) \<le> x * 10 \<and> x * 10 < ten (adjusted (x * 10) + 1)"
      using "1.IH"(2) "1.prems" by simp
    with 2 "1.prems" show ?thesis
      by (subst (1 2) adjusted.simps) (simp add: power_int_add power_int_diff field_simps)
  next
    case 3
    then show ?thesis by (subst (1 2) adjusted.simps) simp
  qed
qed

lemma ten_le_iff: "ten a \<le> ten b \<longleftrightarrow> a \<le> b"
  using power_int_strict_increasing [of b a "10 :: rat"] power_int_increasing [of a b "10 :: rat"]
  by (auto simp: not_le [symmetric])

lemma ten_less_iff: "ten a < ten b \<longleftrightarrow> a < b"
  using ten_le_iff [of b a] by (simp add: not_le [symmetric])

lemma ten_pos [simp]: "0 < ten e"
  by simp

lemma ten_add: "ten (a + b) = ten a * ten b"
  by (simp add: power_int_add)

lemma ten_nat: "ten (int n) = 10 ^ n"
  by simp

lemma adjusted_mono: "0 < x \<Longrightarrow> x \<le> y \<Longrightarrow> adjusted x \<le> adjusted y"
  using adjusted_bounds [of x] adjusted_bounds [of y] ten_less_iff [of "adjusted x" "adjusted y + 1"]
  by linarith

lemma adjusted_less: "0 < x \<Longrightarrow> x < ten e \<Longrightarrow> adjusted x < e"
  using adjusted_bounds [of x] ten_less_iff [of "adjusted x" e] by linarith

lemma adjusted_ge: "ten e \<le> x \<Longrightarrow> e \<le> adjusted x"
proof -
  assume le: "ten e \<le> x"
  then have "0 < x" using ten_pos [of e] by linarith
  with le show ?thesis
    using adjusted_bounds [of x] ten_less_iff [of e "adjusted x + 1"] by linarith
qed

subsubsection \<open>Representable numbers and the context rounding\<close>

text \<open>The numbers with a coefficient of at most 28 digits.\<close>

definition dec28 :: "rat \<Rightarrow> bool" where
  "dec28 x \<longleftrightarrow> (\<exists>m e. x = of_int m * ten e \<and> \<bar>m\<bar> < 10 ^ 28)"

lemma ctx_round_0 [simp]: "ctx_round 0 = 0"
  by (simp add: ctx_round_def)

lemma ctx_round_eq:
  "x \<noteq> 0 \<Longrightarrow>
   ctx_round x = of_int (half_even (x / ten (adjusted \<bar>x\<bar> - 27))) * ten (adjusted \<bar>x\<bar> - 27)"
  by (simp add: ctx_round_def ctx_prec_def Let_def)

lemma ctx_round_minus: "ctx_round (- x) = - ctx_round x"
  by (simp add: ctx_round_def Let_def even.r_minus)

lemma ctx_round_pos_bounds:
  assumes "0 < x"
  shows "ten (adjusted x) \<le> ctx_round x" and "ctx_round x \<le> ten (adjusted x + 1)"
proof -
  define e where "e = adjusted x - 27"
  have rd: "ctx_round x = of_int (half_even (x / ten e)) * ten e"
    using assms ctx_round_eq [of x] by (simp add: e_def)
  have split: "ten (adjusted x) = 10 ^ 27 * ten e" "ten (adjusted x + 1) = 10 ^ 28 * ten e"
  proof -
    have "adjusted x = 27 + e" and "adjusted x + 1 = 28 + e" by (simp_all add: e_def)
    then show "ten (adjusted x) = 10 ^ 27 * ten e" "ten (adjusted x + 1) = 10 ^ 28 * ten e"
      by (simp_all only: ten_add) simp_all
  qed
  have "10 ^ 27 \<le> x / ten e" and "x / ten e \<le> 10 ^ 28"
    using adjusted_bounds [OF assms] unfolding split by (simp_all add: field_simps)
  then have "10 ^ 27 \<le> half_even (x / ten e)" and "half_even (x / ten e) \<le> 10 ^ 28"
    using even.r_ge [of "10 ^ 27" "x / ten e"] even.r_le [of "x / ten e" "10 ^ 28"] by simp_all
  then have "(10 ^ 27 :: rat) \<le> of_int (half_even (x / ten e))"
    and "of_int (half_even (x / ten e)) \<le> (10 ^ 28 :: rat)"
    by (metis of_int_le_iff of_int_numeral of_int_power)+
  then show "ten (adjusted x) \<le> ctx_round x" and "ctx_round x \<le> ten (adjusted x + 1)"
    unfolding split rd by (simp_all add: mult_right_mono)
qed

lemma ctx_round_pos: "0 < x \<Longrightarrow> 0 < ctx_round x"
  using ctx_round_pos_bounds(1) [of x] ten_pos [of "adjusted x"] by linarith

lemma ctx_round_neg: "x < 0 \<Longrightarrow> ctx_round x < 0"
  using ctx_round_pos [of "- x"] by (simp add: ctx_round_minus)

lemma ctx_round_pos_iff [simp]: "0 < ctx_round x \<longleftrightarrow> 0 < x"
  by (metis ctx_round_0 ctx_round_neg ctx_round_pos less_asym less_irrefl linorder_neqE_linordered_idom)

lemma ctx_round_nonneg_iff [simp]: "0 \<le> ctx_round x \<longleftrightarrow> 0 \<le> x"
  by (metis ctx_round_0 ctx_round_neg ctx_round_pos_iff not_le order.order_iff_strict)

lemma ctx_round_eq_0_iff [simp]: "ctx_round x = 0 \<longleftrightarrow> x = 0"
  by (metis ctx_round_0 ctx_round_neg ctx_round_pos_iff less_irrefl linorder_neqE_linordered_idom)

lemma ctx_round_nonpos_iff [simp]: "ctx_round x \<le> 0 \<longleftrightarrow> x \<le> 0"
  using ctx_round_pos_iff [of x] by linarith

lemma ctx_round_mono_pos:
  assumes "0 < x" and "x \<le> y"
  shows "ctx_round x \<le> ctx_round y"
proof (cases "adjusted x = adjusted y")
  case True
  have "0 < y" using assms by linarith
  have "x / ten (adjusted y - 27) \<le> y / ten (adjusted y - 27)"
    using assms by (simp add: divide_right_mono)
  then have "half_even (x / ten (adjusted y - 27)) \<le> half_even (y / ten (adjusted y - 27))"
    by (rule even.r_mono)
  with assms \<open>0 < y\<close> True show ?thesis
    by (simp add: ctx_round_eq mult_right_mono)
next
  case False
  with adjusted_mono [OF assms] have "adjusted x + 1 \<le> adjusted y" by linarith
  then have "ten (adjusted x + 1) \<le> ten (adjusted y)" by (simp only: ten_le_iff)
  with ctx_round_pos_bounds [OF assms(1)] ctx_round_pos_bounds [of y] assms
  show ?thesis by linarith
qed

lemma ctx_round_mono: "x \<le> y \<Longrightarrow> ctx_round x \<le> ctx_round y"
proof -
  assume le: "x \<le> y"
  consider "0 < x" | "x \<le> 0" "0 \<le> y" | "y < 0" by linarith
  then show ?thesis
  proof cases
    case 1
    then show ?thesis using le by (rule ctx_round_mono_pos)
  next
    case 2
    have "ctx_round x \<le> 0" using 2(1) ctx_round_pos_iff [of x] by linarith
    also have "0 \<le> ctx_round y" using 2(2) by simp
    finally show ?thesis .
  next
    case 3
    then have "ctx_round (- y) \<le> ctx_round (- x)"
      using le by (intro ctx_round_mono_pos) auto
    then show ?thesis by (simp add: ctx_round_minus)
  qed
qed

lemma ctx_round_exact:
  assumes "dec28 x"
  shows "ctx_round x = x"
proof (cases "x = 0")
  case False
  obtain m e where x: "x = of_int m * ten e" and m: "\<bar>m\<bar> < 10 ^ 28"
    using assms by (auto simp: dec28_def)
  have "\<bar>x\<bar> = of_int \<bar>m\<bar> * ten e" using x by (simp add: abs_mult)
  also have "\<dots> < 10 ^ 28 * ten e"
    using m by (metis mult_less_cancel_right_pos of_int_less_iff of_int_numeral of_int_power ten_pos)
  also have "\<dots> = ten (28 + e)" using ten_add [of 28 e] by simp
  finally have lt: "adjusted \<bar>x\<bar> < 28 + e" using False by (intro adjusted_less) auto
  define d where "d = adjusted \<bar>x\<bar> - 27"
  define n where "n = nat (e - d)"
  have "e = int n + d" using lt by (simp add: n_def d_def)
  then have "x / ten d = of_int (m * 10 ^ n)"
    unfolding x by (simp add: power_int_add)
  then have "half_even (x / ten d) = m * 10 ^ n" by (simp only: even.r_of_int)
  with ctx_round_eq [OF False] have "ctx_round x = of_int (m * 10 ^ n) * ten d"
    by (simp add: d_def)
  with \<open>e = int n + d\<close> show ?thesis by (simp add: x power_int_add)
qed simp

lemma dec28_scaled:
  assumes "x = of_int m / 10 ^ k" and "\<bar>m\<bar> < 10 ^ 28"
  shows "dec28 x"
proof -
  have "x = of_int m * ten (- int k)"
    using assms(1) by (simp add: power_int_minus field_simps)
  with assms(2) show ?thesis by (auto simp: dec28_def)
qed

lemma dec28_ten: "dec28 (ten e)"
  unfolding dec28_def by (rule exI [of _ 1], rule exI [of _ e]) simp

lemma dec28_power [simp]: "dec28 (10 ^ n)"
  using dec28_ten [of "int n"] by simp

lemma dec28_minus: "dec28 x \<Longrightarrow> dec28 (- x)"
  unfolding dec28_def by (metis abs_minus_cancel mult_minus_left of_int_minus)

lemma dec28_ctx_round: "dec28 (ctx_round x)"
proof -
  have pos: "dec28 (ctx_round y)" if "0 < y" for y
  proof -
    define d where "d = adjusted y - 27"
    define m where "m = half_even (y / ten d)"
    have v: "ctx_round y = of_int m * ten d"
      using that ctx_round_eq [of y] by (simp add: d_def m_def)
    have sum: "ten (adjusted y + 1) = 10 ^ 28 * ten d"
      using ten_add [of 28 d] by (simp add: d_def algebra_simps)
    have le: "of_int m \<le> (10 ^ 28 :: rat)"
      using ctx_round_pos_bounds(2) [OF that] unfolding v sum by simp
    have "0 < of_int m * ten d" using ctx_round_pos [OF that] unfolding v .
    then have pos: "0 < (of_int m :: rat)" by (rule zero_less_mult_pos2) simp
    show ?thesis
    proof (cases "m = 10 ^ 28")
      case True
      with v sum have "ctx_round y = ten (adjusted y + 1)" by simp
      then show ?thesis by (simp only: dec28_ten)
    next
      case False
      from le have "m \<le> 10 ^ 28" by (metis of_int_le_iff of_int_numeral of_int_power)
      with False pos have "\<bar>m\<bar> < 10 ^ 28" by simp
      with v show ?thesis unfolding dec28_def by blast
    qed
  qed
  consider "x = 0" | "0 < x" | "0 < - x" by linarith
  then show ?thesis
  proof cases
    case 1
    have "dec28 0" unfolding dec28_def by (rule exI [of _ 0], rule exI [of _ 0]) simp
    with 1 show ?thesis by simp
  next
    case 3
    from dec28_minus [OF pos [OF 3]] show ?thesis by (simp add: ctx_round_minus)
  qed (rule pos)
qed

lemma dec28_d_add: "dec28 (d_add x y)"
  by (simp add: d_add_def dec28_ctx_round)

lemma ctx_round_ge: "dec28 c \<Longrightarrow> c \<le> x \<Longrightarrow> c \<le> ctx_round x"
  using ctx_round_mono [of c x] by (simp add: ctx_round_exact)

lemma ctx_round_le: "dec28 c \<Longrightarrow> x \<le> c \<Longrightarrow> ctx_round x \<le> c"
  using ctx_round_mono [of x c] by (simp add: ctx_round_exact)

lemma ctx_round_error:
  "\<bar>ctx_round x - x\<bar> \<le> \<bar>x\<bar> / (2 * 10 ^ 27)"
proof (cases "x = 0")
  case False
  define e where "e = adjusted \<bar>x\<bar> - 27"
  define y where "y = x / ten e"
  have x: "x = y * ten e" by (simp add: y_def)
  have "ctx_round x - x = (of_int (half_even y) - y) * ten e"
    using ctx_round_eq [OF False] by (simp add: e_def [symmetric] y_def algebra_simps)
  then have "\<bar>ctx_round x - x\<bar> = \<bar>of_int (half_even y) - y\<bar> * ten e"
    by (simp add: abs_mult)
  also have "\<dots> \<le> 1 / 2 * ten e"
    by (rule mult_right_mono [OF even.r_near]) simp
  also have "ten e = ten (adjusted \<bar>x\<bar>) / 10 ^ 27"
    by (simp add: e_def power_int_diff)
  also have "1 / 2 * (ten (adjusted \<bar>x\<bar>) / 10 ^ 27) \<le> \<bar>x\<bar> / (2 * 10 ^ 27)"
    using adjusted_bounds [of "\<bar>x\<bar>"] False by (simp add: field_simps)
  finally show ?thesis .
qed simp

subsection \<open>Fixed-point values and quantize\<close>

text \<open>\<open>on_grid k x\<close>: \<open>x\<close> has at most \<open>k\<close> decimal places.\<close>

definition on_grid :: "nat \<Rightarrow> rat \<Rightarrow> bool" where
  "on_grid k x \<longleftrightarrow> (\<exists>m. x = of_int m / 10 ^ k)"

named_theorems grid_intros "values with a bounded number of decimal places"

lemma on_grid_0 [grid_intros, simp]: "on_grid k 0"
  unfolding on_grid_def by (rule exI [of _ 0]) simp

lemma on_grid_add [grid_intros]: "on_grid k x \<Longrightarrow> on_grid k y \<Longrightarrow> on_grid k (x + y)"
  unfolding on_grid_def by (metis add_divide_distrib of_int_add)

lemma on_grid_minus [grid_intros]: "on_grid k x \<Longrightarrow> on_grid k (- x)"
  unfolding on_grid_def by (metis minus_divide_left of_int_minus)

lemma on_grid_diff [grid_intros]: "on_grid k x \<Longrightarrow> on_grid k y \<Longrightarrow> on_grid k (x - y)"
  using on_grid_add [of k x "- y"] by (simp add: on_grid_minus)

lemma on_grid_of_int [grid_intros]: "on_grid k (of_int n)"
  unfolding on_grid_def by (rule exI [of _ "n * 10 ^ k"]) simp

lemma grid_dec28:
  assumes "on_grid k x" and "\<bar>x\<bar> < 10 ^ 28 / 10 ^ k"
  shows "dec28 x"
proof -
  obtain m where m: "x = of_int m / 10 ^ k" using assms(1) by (auto simp: on_grid_def)
  with assms(2) have "of_int \<bar>m\<bar> < (10 ^ 28 :: rat)"
    by (simp add: abs_div divide_less_cancel)
  then have "\<bar>m\<bar> < 10 ^ 28" by (metis of_int_less_iff of_int_numeral of_int_power)
  with m show ?thesis by (rule dec28_scaled)
qed

lemma quantize_Inr_iff:
  "quantize m k x = Inr y \<longleftrightarrow>
   y = of_int (to_int m (x * 10 ^ k)) / 10 ^ k \<and> \<bar>to_int m (x * 10 ^ k)\<bar> < 10 ^ 28"
  by (auto simp: quantize_def Let_def)

lemma quantize_Inl_iff:
  "quantize m k x = Inl e \<longleftrightarrow> 10 ^ 28 \<le> \<bar>to_int m (x * 10 ^ k)\<bar> \<and> e = InvalidOperation"
  by (auto simp: quantize_def Let_def)

lemma quantize_grid: "quantize m k x = Inr y \<Longrightarrow> on_grid k y"
  by (auto simp: quantize_Inr_iff on_grid_def)

lemma quantize_bound: "quantize m k x = Inr y \<Longrightarrow> \<bar>y\<bar> < 10 ^ 28 / 10 ^ k"
proof -
  assume "quantize m k x = Inr y"
  then have y: "y = of_int (to_int m (x * 10 ^ k)) / 10 ^ k"
    and c: "\<bar>to_int m (x * 10 ^ k)\<bar> < 10 ^ 28" by (auto simp: quantize_Inr_iff)
  from c have "of_int \<bar>to_int m (x * 10 ^ k)\<bar> < (10 ^ 28 :: rat)"
    by (metis of_int_less_iff of_int_numeral of_int_power)
  then show ?thesis unfolding y by (simp add: abs_div divide_strict_right_mono)
qed

lemma quantize_dec28: "quantize m k x = Inr y \<Longrightarrow> dec28 y"
  by (rule grid_dec28 [OF quantize_grid quantize_bound])

lemma quantize_nonneg: "quantize m k x = Inr y \<Longrightarrow> 0 \<le> x \<Longrightarrow> 0 \<le> y"
  by (auto simp: quantize_Inr_iff mode.r_nonneg)

lemma quantize_mono:
  "quantize m k x = Inr x' \<Longrightarrow> quantize m k y = Inr y' \<Longrightarrow> x \<le> y \<Longrightarrow> x' \<le> y'"
  by (auto simp: quantize_Inr_iff intro!: divide_right_mono mode.r_mono mult_right_mono)

lemma quantize_down_le:
  assumes "quantize ROUND_DOWN k x = Inr y" and "0 \<le> x"
  shows "y \<le> x"
proof -
  have y: "y = of_int \<lfloor>x * 10 ^ k\<rfloor> / 10 ^ k"
    using assms by (simp add: quantize_def Let_def round_down_def split: if_splits)
  have "of_int \<lfloor>x * 10 ^ k\<rfloor> \<le> x * 10 ^ k" by (rule of_int_floor_le)
  then show ?thesis unfolding y by (simp add: field_simps)
qed

lemma abs_scaled: "\<bar>(a - b) * 10 ^ k\<bar> = \<bar>a - b\<bar> * (10 ^ k :: rat)"
  by (simp only: abs_mult) simp

lemma quantize_close: "quantize m k x = Inr y \<Longrightarrow> \<bar>y - x\<bar> < 1 / 10 ^ k"
proof -
  assume "quantize m k x = Inr y"
  then have "(y - x) * 10 ^ k = of_int (to_int m (x * 10 ^ k)) - x * 10 ^ k"
    by (simp add: quantize_Inr_iff field_simps)
  then have "\<bar>y - x\<bar> * 10 ^ k < 1"
    using mode.r_close [of m "x * 10 ^ k"] by (simp only: abs_scaled [symmetric])
  then show ?thesis by (simp add: pos_less_divide_eq)
qed

lemma quantize_half_up_near: "quantize ROUND_HALF_UP k x = Inr y \<Longrightarrow> \<bar>y - x\<bar> \<le> 1 / 10 ^ k / 2"
proof -
  assume "quantize ROUND_HALF_UP k x = Inr y"
  then have "(y - x) * 10 ^ k = of_int (half_up (x * 10 ^ k)) - x * 10 ^ k"
    by (simp add: quantize_Inr_iff field_simps)
  then have "\<bar>y - x\<bar> * 10 ^ k \<le> 1 / 2"
    using up.r_near [of "x * 10 ^ k"] by (simp only: abs_scaled [symmetric])
  then show ?thesis by (simp add: field_simps)
qed

lemma quantize_exact:
  assumes "on_grid k x" and "\<bar>x\<bar> < 10 ^ 28 / 10 ^ k"
  shows "quantize m k x = Inr x"
proof -
  obtain n where n: "x = of_int n / 10 ^ k" using assms(1) by (auto simp: on_grid_def)
  with assms(2) have "of_int \<bar>n\<bar> < (10 ^ 28 :: rat)" by (simp add: abs_div divide_less_cancel)
  then have "\<bar>n\<bar> < 10 ^ 28" by (metis of_int_less_iff of_int_numeral of_int_power)
  then show ?thesis by (simp add: quantize_def n mode.r_of_int)
qed

lemma quantize_fits:
  assumes "\<bar>x\<bar> \<le> 10 ^ 27 / 10 ^ k"
  shows "\<exists>y. quantize m k x = Inr y"
proof -
  have "\<bar>x * 10 ^ k\<bar> \<le> of_int (10 ^ 27)"
    using assms by (simp add: abs_mult field_simps)
  then have "\<bar>to_int m (x * 10 ^ k)\<bar> \<le> 10 ^ 27" by (rule mode.r_abs_le)
  then show ?thesis by (simp add: quantize_def Let_def)
qed

text \<open>
  The lemma behind every ledger equation: when the exact value lies on the grid, rounding to the
  context and then quantizing returns exactly that value, or raises.
\<close>

lemma quantize_ctx_round_grid:
  assumes grid: "on_grid k x" and ok: "quantize m k (ctx_round x) = Inr y"
  shows "y = x"
proof (cases "\<bar>x\<bar> < 10 ^ 28 / 10 ^ k")
  case True
  with grid have "ctx_round x = x" by (intro ctx_round_exact grid_dec28)
  with ok quantize_exact [OF grid True, of m] show ?thesis by simp
next
  case False
  define c where "c = (10 ^ 28 / 10 ^ k :: rat)"
  have "c = ten (28 - int k)" by (simp add: c_def power_int_diff)
  then have c28: "dec28 c" by (simp add: dec28_ten)
  have "c \<le> \<bar>ctx_round x\<bar>"
  proof (cases "0 \<le> x")
    case True
    with False have "c \<le> ctx_round x" by (intro ctx_round_ge c28) (simp add: c_def)
    then show ?thesis by linarith
  next
    case neg: False
    with False have "ctx_round x \<le> - c" by (intro ctx_round_le dec28_minus c28) (simp add: c_def)
    then show ?thesis by linarith
  qed
  then have "of_int (10 ^ 28) \<le> \<bar>ctx_round x * 10 ^ k\<bar>"
    by (simp add: c_def abs_mult field_simps)
  then have "10 ^ 28 \<le> \<bar>to_int m (ctx_round x * 10 ^ k)\<bar>" by (rule mode.r_abs_ge)
  with ok show ?thesis by (simp add: quantize_Inr_iff)
qed

subsection \<open>Evaluating closed decimal terms\<close>

text \<open>\<open>simp add: dec_eval\<close> computes a closed term of this arithmetic.\<close>

named_theorems dec_eval "kernel evaluation of decimal arithmetic"

lemma rat_floor_numerals [dec_eval]:
  "\<lfloor>numeral a / numeral b :: rat\<rfloor> = numeral a div numeral b"
  "\<lfloor>1 / numeral b :: rat\<rfloor> = 1 div numeral b"
  "\<lfloor>- numeral a / numeral b :: rat\<rfloor> = - numeral a div numeral b"
  "\<lfloor>- 1 / numeral b :: rat\<rfloor> = - 1 div numeral b"
  using floor_divide_of_int_eq [of "numeral a" "numeral b", where ?'a = rat]
    floor_divide_of_int_eq [of 1 "numeral b", where ?'a = rat]
    floor_divide_of_int_eq [of "- numeral a" "numeral b", where ?'a = rat]
    floor_divide_of_int_eq [of "- 1" "numeral b", where ?'a = rat]
  by simp_all

lemmas [dec_eval] =
  ctx_round_eq adjusted.simps half_even_def half_up_def round_down_def round_up_def ceiling_def
  power_int_def power_one_over Let_def quantize_def d_add_def d_sub_def d_mul_def d_neg_def
  d_abs_def d_div_def d_floordiv_def d_sum_def

end
