(* ===== verification/Money.thy ===== *)
theory Money
  imports Decimal
begin

section \<open>Monetary arithmetic\<close>

text \<open>
  \<^verbatim>\<open>core/money.py\<close>: the accounting quantum of eight decimal places, the truncation of a
  quantity to the venue's step and the snapping of a price to the venue's tick.
\<close>

definition USDT_PLACES :: nat where "USDT_PLACES = 8"

text \<open>The smallest accounted amount, \<^verbatim>\<open>USDT_EXPONENT\<close>.\<close>

definition USDT_EXPONENT :: rat where "USDT_EXPONENT = 1 / 10 ^ 8"

definition quantize_usdt :: "rat \<Rightarrow> rat result" where
  "quantize_usdt v = quantize ROUND_HALF_UP USDT_PLACES v"

definition floor_to_step :: "rat \<Rightarrow> rat \<Rightarrow> rat result" where
  "floor_to_step v step =
     (if step \<le> 0 then Inl InvalidMoneyError
      else bindE (d_floordiv v step) (\<lambda>n. Inr (d_mul n step)))"

definition round_price_to_tick :: "rat \<Rightarrow> rat \<Rightarrow> bool \<Rightarrow> rat result" where
  "round_price_to_tick v tick side_is_buy =
     (if tick \<le> 0 then Inl InvalidMoneyError
      else bindE (d_div v tick) (\<lambda>q.
           bindE (quantize (if side_is_buy then ROUND_DOWN else ROUND_UP) 0 q) (\<lambda>n.
           Inr (d_mul n tick))))"

subsection \<open>The accounting quantum\<close>

lemma quantize_usdt_grid: "quantize_usdt x = Inr y \<Longrightarrow> on_grid 8 y"
  by (simp add: quantize_usdt_def USDT_PLACES_def quantize_grid)

lemma quantize_usdt_bound: "quantize_usdt x = Inr y \<Longrightarrow> \<bar>y\<bar> < 10 ^ 20"
  using quantize_bound [of ROUND_HALF_UP 8 x y] by (simp add: quantize_usdt_def USDT_PLACES_def)

lemma quantize_usdt_dec28: "quantize_usdt x = Inr y \<Longrightarrow> dec28 y"
  by (simp add: quantize_usdt_def quantize_dec28)

lemma quantize_usdt_nonneg: "quantize_usdt x = Inr y \<Longrightarrow> 0 \<le> x \<Longrightarrow> 0 \<le> y"
  by (simp add: quantize_usdt_def quantize_nonneg)

lemma quantize_usdt_mono:
  "quantize_usdt x = Inr x' \<Longrightarrow> quantize_usdt y = Inr y' \<Longrightarrow> x \<le> y \<Longrightarrow> x' \<le> y'"
  by (simp add: quantize_usdt_def quantize_mono)

lemma quantize_usdt_near: "quantize_usdt x = Inr y \<Longrightarrow> \<bar>y - x\<bar> \<le> USDT_EXPONENT / 2"
  using quantize_half_up_near [of 8 x y]
  by (simp add: quantize_usdt_def USDT_PLACES_def USDT_EXPONENT_def)

lemma quantize_usdt_exact: "on_grid 8 x \<Longrightarrow> \<bar>x\<bar> < 10 ^ 20 \<Longrightarrow> quantize_usdt x = Inr x"
  using quantize_exact [of 8 x ROUND_HALF_UP] by (simp add: quantize_usdt_def USDT_PLACES_def)

lemma quantize_usdt_add:
  "on_grid 8 x \<Longrightarrow> on_grid 8 y \<Longrightarrow> quantize_usdt (d_add x y) = Inr z \<Longrightarrow> z = x + y"
  unfolding quantize_usdt_def USDT_PLACES_def d_add_def
  by (rule quantize_ctx_round_grid [OF on_grid_add])

lemma quantize_usdt_sub:
  "on_grid 8 x \<Longrightarrow> on_grid 8 y \<Longrightarrow> quantize_usdt (d_sub x y) = Inr z \<Longrightarrow> z = x - y"
  unfolding quantize_usdt_def USDT_PLACES_def d_sub_def
  by (rule quantize_ctx_round_grid [OF on_grid_diff])

lemma d_add_grid: "on_grid 8 x \<Longrightarrow> on_grid 8 y \<Longrightarrow> \<bar>x + y\<bar> < 10 ^ 20 \<Longrightarrow> d_add x y = x + y"
  unfolding d_add_def by (rule ctx_round_exact, rule grid_dec28 [of 8]) (auto intro: grid_intros)

lemma quantize_usdt_pos: "quantize_usdt x = Inr y \<Longrightarrow> USDT_EXPONENT \<le> x \<Longrightarrow> USDT_EXPONENT \<le> y"
proof -
  assume q: "quantize_usdt x = Inr y" and le: "USDT_EXPONENT \<le> x"
  have "on_grid 8 USDT_EXPONENT"
    unfolding on_grid_def USDT_EXPONENT_def by (rule exI [of _ 1]) simp
  then have "quantize_usdt USDT_EXPONENT = Inr USDT_EXPONENT"
    by (intro quantize_usdt_exact) (simp_all add: USDT_EXPONENT_def)
  then show ?thesis using q le by (rule quantize_usdt_mono)
qed

subsection \<open>Truncation to a step\<close>

lemma floor_to_step_cases:
  assumes "floor_to_step v step = Inr r"
  obtains n where "0 < step" and "n = round_down (v / step)" and "\<bar>n\<bar> < 10 ^ 28"
    and "r = ctx_round (of_int n * step)"
  using assms that
  by (auto simp: floor_to_step_def d_floordiv_def d_mul_def result_simps Let_def split: if_splits)

lemma floor_to_step_floor:
  assumes ok: "floor_to_step v step = Inr r" and v: "0 \<le> v"
  shows "\<exists>n \<ge> 0. r = ctx_round (of_int n * step) \<and> of_int n * step \<le> v \<and> v < (of_int n + 1) * step"
proof -
  obtain n where n: "0 < step" "n = round_down (v / step)" "r = ctx_round (of_int n * step)"
    using ok by (rule floor_to_step_cases)
  then have q: "n = \<lfloor>v / step\<rfloor>" using v by (simp add: round_down_def)
  then have "of_int n \<le> v / step" and "v / step < of_int n + 1" by linarith+
  then have "of_int n * step \<le> v" and "v < (of_int n + 1) * step"
    using n(1) by (simp_all add: field_simps)
  moreover have "0 \<le> n" using q v n(1) by simp
  ultimately show ?thesis using n(3) by blast
qed

lemma floor_to_step_le:
  assumes "floor_to_step v step = Inr r" and "0 \<le> v" and "dec28 v"
  shows "0 \<le> r \<and> r \<le> v"
proof -
  obtain n where n: "0 \<le> n" "r = ctx_round (of_int n * step)" "of_int n * step \<le> v"
    using floor_to_step_floor [OF assms(1,2)] by blast
  have "0 < step" using assms(1) by (rule floor_to_step_cases)
  with n(1) have "0 \<le> of_int n * step" by simp
  with n(2) have "0 \<le> r" by simp
  moreover have "r \<le> v" unfolding n(2) using assms(3) n(3) by (rule ctx_round_le)
  ultimately show ?thesis ..
qed

lemma floor_to_step_multiple:
  assumes ok: "floor_to_step v step = Inr r" and v: "0 \<le> v" "v < 10 ^ 28 / 10 ^ k"
    and step: "on_grid k step"
  shows "\<exists>n \<ge> 0. r = of_int n * step \<and> r \<le> v \<and> v < r + step"
proof -
  obtain n where n: "0 \<le> n" "r = ctx_round (of_int n * step)" "of_int n * step \<le> v"
      "v < (of_int n + 1) * step"
    using floor_to_step_floor [OF ok v(1)] by blast
  obtain b where b: "step = of_int b / 10 ^ k" using step by (auto simp: on_grid_def)
  have "0 < step" using ok by (rule floor_to_step_cases)
  have "on_grid k (of_int n * step)"
    unfolding on_grid_def b by (rule exI [of _ "n * b"]) simp
  moreover have "\<bar>of_int n * step\<bar> < 10 ^ 28 / 10 ^ k"
    using n(1,3) v(2) \<open>0 < step\<close> by (simp add: abs_mult)
  ultimately have "r = of_int n * step" unfolding n(2) by (intro ctx_round_exact grid_dec28)
  with n show ?thesis by (auto simp: algebra_simps)
qed

lemma floor_to_step_total:
  assumes "0 < step" and "\<bar>v / step\<bar> < 10 ^ 28 - 1"
  shows "\<exists>r. floor_to_step v step = Inr r"
proof -
  have "\<bar>of_int (round_down (v / step)) :: rat\<bar> < 10 ^ 28"
    using down.r_close [of "v / step"] assms(2) by linarith
  then have "\<bar>round_down (v / step)\<bar> < 10 ^ 28" by (simp only: abs_less_power10)
  with assms(1) show ?thesis
    by (simp add: floor_to_step_def d_floordiv_def Let_def)
qed

subsection \<open>Snapping a price to the tick\<close>

text \<open>
  A quotient of two fixed-point numbers with fewer than 27 digits never rounds across an integer,
  so truncating the rounded quotient is truncating the exact one.
\<close>

lemma quotient_not_rounded_up:
  fixes a b :: int
  assumes "0 < b" and "0 \<le> a" and "a < 10 ^ 27" and "of_int a / of_int b < (of_int n :: rat)"
  shows "ctx_round (of_int a / of_int b) < of_int n"
proof -
  define q where "q = (of_int a / of_int b :: rat)"
  have b: "(0 :: rat) < of_int b" using assms(1) by simp
  have "of_int a < (of_int (n * b) :: rat)" using assms(4) b by (simp add: field_simps)
  then have "a < n * b" by (simp only: of_int_less_iff)
  then have "a + 1 \<le> n * b" by simp
  then have "of_int (a + 1) \<le> (of_int (n * b) :: rat)" by (simp only: of_int_le_iff)
  then have gap: "q + 1 / of_int b \<le> of_int n" using b by (simp add: q_def field_simps)
  have "of_int a < (10 ^ 27 :: rat)" using assms(3) by (simp only: of_int_less_power10)
  then have "\<bar>q\<bar> / (2 * 10 ^ 27) < 1 / of_int b"
    using assms(2) b by (simp add: q_def abs_div field_simps)
  moreover have "ctx_round q - q \<le> \<bar>q\<bar> / (2 * 10 ^ 27)" using ctx_round_error [of q] by linarith
  ultimately show ?thesis using gap unfolding q_def by linarith
qed

lemma quotient_not_rounded_down:
  fixes a b :: int
  assumes "0 < b" and "0 \<le> a" and "a < 10 ^ 27" and "(of_int n :: rat) < of_int a / of_int b"
  shows "of_int n < ctx_round (of_int a / of_int b)"
proof -
  define q where "q = (of_int a / of_int b :: rat)"
  have b: "(0 :: rat) < of_int b" using assms(1) by simp
  have "of_int (n * b) < (of_int a :: rat)" using assms(4) b by (simp add: field_simps)
  then have "n * b < a" by (simp only: of_int_less_iff)
  then have "n * b + 1 \<le> a" by simp
  then have "of_int (n * b + 1) \<le> (of_int a :: rat)" by (simp only: of_int_le_iff)
  then have "(of_int n + 1 / of_int b) * of_int b \<le> (of_int a :: rat)"
    using b by (simp add: distrib_right)
  then have gap: "of_int n + 1 / of_int b \<le> q" using b by (simp add: q_def pos_le_divide_eq)
  have "of_int a < (10 ^ 27 :: rat)" using assms(3) by (simp only: of_int_less_power10)
  then have "\<bar>q\<bar> / (2 * 10 ^ 27) < 1 / of_int b"
    using assms(2) b by (simp add: q_def abs_div field_simps)
  moreover have "q - ctx_round q \<le> \<bar>q\<bar> / (2 * 10 ^ 27)" using ctx_round_error [of q] by linarith
  ultimately show ?thesis using gap unfolding q_def by linarith
qed

lemma quotient_small_int:
  fixes a b :: int
  assumes "0 < b" and "0 \<le> a" and "a < 10 ^ 27"
  shows "0 \<le> \<lfloor>of_int a / of_int b :: rat\<rfloor>" and "\<lceil>of_int a / of_int b :: rat\<rceil> < 10 ^ 28"
proof -
  show "0 \<le> \<lfloor>of_int a / of_int b :: rat\<rfloor>" using assms by simp
  have "of_int a / of_int b \<le> (of_int a :: rat)"
    using assms mult_left_mono [of 1 "of_int b :: rat" "of_int a"] by (simp add: field_simps)
  then have "\<lceil>of_int a / of_int b :: rat\<rceil> \<le> a" by (simp add: ceiling_le_iff)
  also have "a < 10 ^ 28" using assms(3) by simp
  finally show "\<lceil>of_int a / of_int b :: rat\<rceil> < 10 ^ 28" .
qed

lemma ctx_round_quotient_floor:
  fixes a b :: int
  assumes "0 < b" and "0 \<le> a" and "a < 10 ^ 27"
  shows "round_down (ctx_round (of_int a / of_int b)) = \<lfloor>of_int a / of_int b :: rat\<rfloor>"
proof -
  define n where "n = \<lfloor>of_int a / of_int b :: rat\<rfloor>"
  have q: "of_int n \<le> (of_int a / of_int b :: rat)" "of_int a / of_int b < (of_int (n + 1) :: rat)"
    unfolding n_def by linarith+
  have n: "0 \<le> n" and "n \<le> \<lceil>of_int a / of_int b :: rat\<rceil>"
    using quotient_small_int(1) [OF assms] by (simp_all add: n_def)
  then have "\<bar>n\<bar> < 10 ^ 28" using quotient_small_int(2) [OF assms] by linarith
  then have "dec28 (of_int n)" by (intro dec28_scaled [of _ n 0]) simp_all
  then have "of_int n \<le> ctx_round (of_int a / of_int b)" using q(1) by (rule ctx_round_ge)
  moreover have "ctx_round (of_int a / of_int b) < of_int (n + 1)"
    using assms q(2) by (rule quotient_not_rounded_up)
  ultimately have "\<lfloor>ctx_round (of_int a / of_int b)\<rfloor> = n" by (simp add: floor_eq_iff)
  then show ?thesis using assms by (simp add: round_down_def n_def)
qed

lemma ctx_round_quotient_ceiling:
  fixes a b :: int
  assumes "0 < b" and "0 \<le> a" and "a < 10 ^ 27"
  shows "round_up (ctx_round (of_int a / of_int b)) = \<lceil>of_int a / of_int b :: rat\<rceil>"
proof -
  define n where "n = \<lceil>of_int a / of_int b :: rat\<rceil>"
  have q: "(of_int a / of_int b :: rat) \<le> of_int n" "(of_int (n - 1) :: rat) < of_int a / of_int b"
    unfolding n_def by linarith+
  have "\<lfloor>of_int a / of_int b :: rat\<rfloor> \<le> n" by (simp add: n_def)
  then have "0 \<le> n" using quotient_small_int(1) [OF assms] by linarith
  then have "\<bar>n\<bar> < 10 ^ 28" using quotient_small_int(2) [OF assms] by (simp add: n_def)
  then have "dec28 (of_int n)" by (intro dec28_scaled [of _ n 0]) simp_all
  then have "ctx_round (of_int a / of_int b) \<le> of_int n" using q(1) by (rule ctx_round_le)
  moreover have "of_int (n - 1) < ctx_round (of_int a / of_int b)"
    using assms q(2) by (rule quotient_not_rounded_down)
  ultimately have "\<lceil>ctx_round (of_int a / of_int b)\<rceil> = n" by (simp add: ceiling_eq_iff)
  then show ?thesis using assms by (simp add: round_up_def n_def)
qed

lemma grid_quotient:
  assumes "on_grid k v" and "on_grid k tick" and "0 \<le> v" and "v < 10 ^ 27 / 10 ^ k" and "0 < tick"
  obtains a b where "v = of_int a / 10 ^ k" and "tick = of_int b / 10 ^ k"
    and "v / tick = of_int a / of_int b" and "0 < b" and "0 \<le> a" and "a < 10 ^ 27"
proof -
  obtain a b where ab: "v = of_int a / 10 ^ k" "tick = of_int b / 10 ^ k"
    using assms(1,2) by (auto simp: on_grid_def)
  have "of_int a < (10 ^ 27 :: rat)" using assms(4) ab(1) by (simp add: divide_less_cancel)
  then have "a < 10 ^ 27" by (simp only: of_int_less_power10)
  moreover have "0 \<le> a" and "0 < b" using assms(3,5) ab by (simp_all add: field_simps)
  moreover have "v / tick = of_int a / of_int b" using ab by simp
  ultimately show ?thesis using ab that by blast
qed

lemma round_price_buy:
  assumes ok: "round_price_to_tick v tick True = Inr r"
    and v: "on_grid k v" "0 \<le> v" "v < 10 ^ 27 / 10 ^ k" and tick: "on_grid k tick"
  shows "\<exists>n \<ge> 0. r = of_int n * tick \<and> r \<le> v \<and> v < r + tick"
proof -
  have pos: "0 < tick" using ok by (simp add: round_price_to_tick_def split: if_splits)
  obtain a b where ab: "v = of_int a / 10 ^ k" "tick = of_int b / 10 ^ k"
      "v / tick = of_int a / of_int b" "0 < b" "0 \<le> a" "a < 10 ^ 27"
    using grid_quotient [OF v(1) tick v(2,3) pos] by blast
  define n where "n = \<lfloor>v / tick\<rfloor>"
  have r: "r = ctx_round (of_int n * tick)"
    using ok pos ctx_round_quotient_floor [OF ab(4-6)]
    by (auto simp: round_price_to_tick_def d_div_def result_simps quantize_Inr_iff d_mul_def ab(3)
        n_def split: if_splits)
  have "of_int n \<le> v / tick" and "v / tick < of_int n + 1" unfolding n_def by linarith+
  then have le: "of_int n * tick \<le> v" "v < (of_int n + 1) * tick"
    using pos by (simp_all add: field_simps)
  have "0 \<le> n" using v(2) pos by (simp add: n_def)
  moreover have "on_grid k (of_int n * tick)"
    unfolding on_grid_def ab(2) by (rule exI [of _ "n * b"]) simp
  moreover have "(10 ^ 27 / 10 ^ k :: rat) < 10 ^ 28 / 10 ^ k" by (simp add: divide_less_cancel)
  then have "\<bar>of_int n * tick\<bar> < 10 ^ 28 / 10 ^ k"
    using \<open>0 \<le> n\<close> pos le(1) v(3) by (simp add: abs_mult)
  ultimately have "r = of_int n * tick" unfolding r by (intro ctx_round_exact grid_dec28)
  with \<open>0 \<le> n\<close> le show ?thesis by (auto simp: algebra_simps)
qed

lemma round_price_sell:
  assumes ok: "round_price_to_tick v tick False = Inr r"
    and v: "on_grid k v" "0 \<le> v" "v < 10 ^ 27 / 10 ^ k"
    and tick: "on_grid k tick" "tick < 10 ^ 27 / 10 ^ k"
  shows "\<exists>n \<ge> 0. r = of_int n * tick \<and> v \<le> r \<and> r < v + tick"
proof -
  have pos: "0 < tick" using ok by (simp add: round_price_to_tick_def split: if_splits)
  obtain a b where ab: "v = of_int a / 10 ^ k" "tick = of_int b / 10 ^ k"
      "v / tick = of_int a / of_int b" "0 < b" "0 \<le> a" "a < 10 ^ 27"
    using grid_quotient [OF v(1) tick(1) v(2,3) pos] by blast
  define n where "n = \<lceil>v / tick\<rceil>"
  have r: "r = ctx_round (of_int n * tick)"
    using ok pos ctx_round_quotient_ceiling [OF ab(4-6)]
    by (auto simp: round_price_to_tick_def d_div_def result_simps quantize_Inr_iff d_mul_def ab(3)
        n_def split: if_splits)
  have "v / tick \<le> of_int n" and "of_int n - 1 < v / tick" unfolding n_def by linarith+
  then have le: "v \<le> of_int n * tick" "(of_int n - 1) * tick < v"
    using pos by (simp_all add: field_simps)
  have "0 \<le> v / tick" using v(2) pos by simp
  then have "0 \<le> n" unfolding n_def by linarith
  moreover have "on_grid k (of_int n * tick)"
    unfolding on_grid_def ab(2) by (rule exI [of _ "n * b"]) simp
  moreover have "of_int n * tick < v + tick" using le(2) by (simp add: algebra_simps)
  have "(10 ^ 27 / 10 ^ k + 10 ^ 27 / 10 ^ k :: rat) < 10 ^ 28 / 10 ^ k"
    by (simp add: add_divide_distrib [symmetric] divide_less_cancel)
  then have "\<bar>of_int n * tick\<bar> < 10 ^ 28 / 10 ^ k"
    using \<open>0 \<le> n\<close> pos \<open>of_int n * tick < v + tick\<close> v(3) tick(2) by (simp add: abs_mult)
  ultimately have "r = of_int n * tick" unfolding r by (intro ctx_round_exact grid_dec28)
  with \<open>0 \<le> n\<close> le show ?thesis by (auto simp: algebra_simps)
qed

end
