(* ===== verification/Leverage.thy ===== *)
theory Leverage
  imports Money
begin

section \<open>The leverage chain\<close>

text \<open>
  \<^verbatim>\<open>domain/leverage.py\<close> and \<^verbatim>\<open>analysis/leverage.py\<close>: a leverage candidate is derived from
  measured volatility (\<open>propose_leverage\<close>) and ruled on by the constraint chain
  (\<open>resolve_leverage\<close>), which approves \<open>min(requested, exchange, risk)\<close> when all three are
  known and refuses with a reason otherwise. The explanatory texts (\<^verbatim>\<open>basis\<close>,
  \<^verbatim>\<open>detail\<close>, \<^verbatim>\<open>note\<close>) are not modelled.
\<close>

subsection \<open>domain/leverage.py\<close>

definition LEVERAGE_MIN :: rat where "LEVERAGE_MIN = 1"
definition LEVERAGE_MAX :: rat where "LEVERAGE_MAX = 500"

datatype leverage_outcome = APPROVED | REDUCED | LEVERAGE_REJECTED

definition outcome_is_usable :: "leverage_outcome \<Rightarrow> bool" where
  "outcome_is_usable out \<longleftrightarrow> out \<in> {APPROVED, REDUCED}"

datatype leverage_reason =
    APPROVED_IN_FULL
  | BOUND_BY_EXCHANGE_MAX
  | BOUND_BY_RISK_MAX
  | APPROVED_AT_DOMAIN_MINIMUM
  | EXCHANGE_MAX_UNKNOWN
  | RISK_MAX_UNKNOWN
  | EXCHANGE_MAX_INVALID
  | RISK_MAX_INVALID
  | RISK_ENGINE_UNAVAILABLE
  | REQUEST_OUT_OF_RANGE
  | NO_DIRECTIONAL_BIAS
  | INSUFFICIENT_DATA

record leverage_request =
  requested_leverage :: rat
  lr_inputs :: "(string \<times> rat) list"

text \<open>The constructor checks \<^verbatim>\<open>Field(ge=LEVERAGE_MIN, le=LEVERAGE_MAX)\<close>.\<close>

definition mk_leverage_request :: "rat \<Rightarrow> (string \<times> rat) list \<Rightarrow> leverage_request result" where
  "mk_leverage_request lev inputs =
     (if LEVERAGE_MIN \<le> lev \<and> lev \<le> LEVERAGE_MAX
      then Inr \<lparr>requested_leverage = lev, lr_inputs = inputs\<rparr>
      else Inl ValidationError)"

record leverage_decision =
  ld_requested :: "rat option"
  ld_exchange_max :: "rat option"
  ld_risk_max :: "rat option"
  ld_approved :: "rat option"
  ld_outcome :: leverage_outcome
  ld_reason :: leverage_reason
  ld_binding :: "string option"
  ld_inputs :: "(string \<times> rat) list"

definition decision_is_usable :: "leverage_decision \<Rightarrow> bool" where
  "decision_is_usable d \<longleftrightarrow> outcome_is_usable (ld_outcome d) \<and> ld_approved d \<noteq> None"

subsection \<open>Deriving a candidate\<close>

definition TARGET_ADVERSE_MOVE_PERCENT :: rat where "TARGET_ADVERSE_MOVE_PERCENT = 2"

definition propose_leverage :: "rat \<Rightarrow> int \<Rightarrow> int \<Rightarrow> leverage_request option result" where
  "propose_leverage atr_percent conditions_met conditions_total =
     (if atr_percent \<le> 0 then Inr None
      else if conditions_total \<le> 0 then Inr None
      else if conditions_met < 0 \<or> conditions_met > conditions_total then Inr None
      else bindE (d_div (of_int conditions_met) (of_int conditions_total)) (\<lambda>agreement.
        if agreement \<le> 0 then Inr None
        else bindE (quantize ROUND_HALF_EVEN 4 atr_percent) (\<lambda>shown_atr.
             bindE (d_div TARGET_ADVERSE_MOVE_PERCENT atr_percent) (\<lambda>scale.
             let raw = d_mul scale agreement in
             bindE (quantize ROUND_DOWN 0 raw) (\<lambda>candidate.
             let clamped = max LEVERAGE_MIN (min candidate LEVERAGE_MAX) in
             bindE (mk_leverage_request clamped
                      [(''atr_percent'', atr_percent),
                       (''target_adverse_move_percent'', TARGET_ADVERSE_MOVE_PERCENT),
                       (''agreement'', agreement),
                       (''raw_candidate'', raw)])
               (\<lambda>req. Inr (Some req)))))))"

subsection \<open>Checking one ceiling\<close>

text \<open>
  \<^verbatim>\<open>_validate_ceiling\<close> takes any object: a finite Decimal, a NaN, an infinity, or something
  that is not a Decimal at all. The problem it reports is a value.
\<close>

datatype pyobj = PyDecimal rat | PyNaN | PyInfinity bool | PyOther string

datatype ceiling_problem = NotADecimal string | NotFinite | BelowMinimum rat | AboveDomain rat

fun validate_ceiling :: "pyobj \<Rightarrow> ceiling_problem option" where
  "validate_ceiling (PyOther ty) = Some (NotADecimal ty)"
| "validate_ceiling PyNaN = Some NotFinite"
| "validate_ceiling (PyInfinity neg) = Some NotFinite"
| "validate_ceiling (PyDecimal v) =
     (if v < LEVERAGE_MIN then Some (BelowMinimum v)
      else if v > LEVERAGE_MAX then Some (AboveDomain v)
      else None)"

definition ceiling_ok :: "rat \<Rightarrow> bool" where
  "ceiling_ok v \<longleftrightarrow> validate_ceiling (PyDecimal v) = None"

subsection \<open>The constraint chain\<close>

text \<open>The keyword arguments every decision of one call shares (\<^verbatim>\<open>common\<close>).\<close>

definition decision ::
    "leverage_request \<Rightarrow> rat option \<Rightarrow> rat option \<Rightarrow> rat option \<Rightarrow> leverage_outcome \<Rightarrow>
     leverage_reason \<Rightarrow> string option \<Rightarrow> leverage_decision" where
  "decision req exch risk approved out reason binding =
     \<lparr>ld_requested = Some (requested_leverage req), ld_exchange_max = exch, ld_risk_max = risk,
      ld_approved = approved, ld_outcome = out, ld_reason = reason, ld_binding = binding,
      ld_inputs = lr_inputs req\<rparr>"

definition ceiling_absent_or_ok :: "rat option \<Rightarrow> bool" where
  "ceiling_absent_or_ok c = (case c of None \<Rightarrow> True | Some v \<Rightarrow> ceiling_ok v)"

definition domain_minimum_decision ::
    "leverage_request \<Rightarrow> rat option \<Rightarrow> rat option \<Rightarrow> leverage_decision option" where
  "domain_minimum_decision req exch risk =
     (if requested_leverage req \<noteq> LEVERAGE_MIN then None
      else if \<not> ceiling_absent_or_ok exch then None
      else if \<not> ceiling_absent_or_ok risk then None
      else Some (decision req exch risk (Some LEVERAGE_MIN) APPROVED
                   APPROVED_AT_DOMAIN_MINIMUM (Some ''domain_minimum'')))"

text \<open>The part of the chain below the domain-minimum shortcut.\<close>

definition resolve_chain ::
    "leverage_request \<Rightarrow> rat option \<Rightarrow> rat option \<Rightarrow> bool \<Rightarrow> leverage_decision" where
  "resolve_chain req exch risk engine =
     (let rejected = (\<lambda>reason. decision req exch risk None LEVERAGE_REJECTED reason None);
          requested = requested_leverage req
      in case exch of
           None \<Rightarrow> rejected EXCHANGE_MAX_UNKNOWN
         | Some e \<Rightarrow>
             if \<not> ceiling_ok e then rejected EXCHANGE_MAX_INVALID
             else if \<not> engine then rejected RISK_ENGINE_UNAVAILABLE
             else case risk of
                    None \<Rightarrow> rejected RISK_MAX_UNKNOWN
                  | Some r \<Rightarrow>
                      if \<not> ceiling_ok r then rejected RISK_MAX_INVALID
                      else let approved = min (min requested e) r
                           in if approved \<ge> requested
                              then decision req exch risk (Some approved) APPROVED
                                     APPROVED_IN_FULL None
                              else decision req exch risk (Some approved) REDUCED
                                     (if approved = e then BOUND_BY_EXCHANGE_MAX
                                      else BOUND_BY_RISK_MAX)
                                     (Some (if approved = e then ''exchange_max_leverage''
                                            else ''risk_max_leverage'')))"

definition resolve_leverage ::
    "leverage_request option \<Rightarrow> rat option \<Rightarrow> rat option \<Rightarrow> bool \<Rightarrow> leverage_decision" where
  "resolve_leverage request exch risk engine =
     (case request of
        None \<Rightarrow>
          \<lparr>ld_requested = None, ld_exchange_max = exch, ld_risk_max = risk, ld_approved = None,
           ld_outcome = LEVERAGE_REJECTED, ld_reason = INSUFFICIENT_DATA, ld_binding = None,
           ld_inputs = []\<rparr>
      | Some req \<Rightarrow>
          if \<not> ceiling_ok (requested_leverage req)
          then decision req exch risk None LEVERAGE_REJECTED REQUEST_OUT_OF_RANGE None
          else if exch = None \<or> \<not> engine \<or> risk = None
          then (case domain_minimum_decision req exch risk of
                  Some d \<Rightarrow> d
                | None \<Rightarrow> resolve_chain req exch risk engine)
          else resolve_chain req exch risk engine)"

subsection \<open>The candidate\<close>

named_theorems leverage_simps "unfolding the leverage chain"

lemmas [leverage_simps] =
  LEVERAGE_MIN_def LEVERAGE_MAX_def ceiling_ok_def decision_def resolve_leverage_def
  resolve_chain_def domain_minimum_decision_def ceiling_absent_or_ok_def decision_is_usable_def
  outcome_is_usable_def Let_def

lemma mk_leverage_request_Inr:
  "mk_leverage_request lev inputs = Inr req \<longleftrightarrow>
   1 \<le> lev \<and> lev \<le> 500 \<and> req = \<lparr>requested_leverage = lev, lr_inputs = inputs\<rparr>"
  by (auto simp: mk_leverage_request_def LEVERAGE_MIN_def LEVERAGE_MAX_def)

text \<open>What a successful derivation computes, with the two roundings in place.\<close>

lemma propose_leverage_Some:
  assumes "propose_leverage atr met tot = Inr (Some req)"
  obtains c where "0 < atr" and "0 < met" and "met \<le> tot"
    and "c = round_down (ctx_round (ctx_round (2 / atr) * ctx_round (of_int met / of_int tot)))"
    and "\<bar>c\<bar> < 10 ^ 28" and "requested_leverage req = max 1 (min (of_int c) 500)"
proof -
  have "0 < atr" and "0 < tot" and "0 \<le> met" "met \<le> tot"
    using assms by (auto simp: propose_leverage_def split: if_splits)
  moreover have "0 < met"
    using assms calculation
    by (auto simp: propose_leverage_def d_div_def divide_le_0_iff not_le [symmetric] split: if_splits)
  ultimately show ?thesis
    using assms that
    by (auto simp: propose_leverage_def d_div_def d_mul_def result_simps quantize_Inr_iff Let_def
        mk_leverage_request_Inr LEVERAGE_MIN_def LEVERAGE_MAX_def TARGET_ADVERSE_MOVE_PERCENT_def
        split: if_splits)
qed

lemma propose_leverage_bounds:
  assumes "propose_leverage atr met tot = Inr (Some req)"
  shows "1 \<le> requested_leverage req \<and> requested_leverage req \<le> 500 \<and>
         (\<exists>n. requested_leverage req = of_int n)"
proof -
  obtain c where c: "requested_leverage req = max 1 (min (of_int c) 500)"
    using assms by (rule propose_leverage_Some)
  have "max 1 (min (of_int c) 500) = (of_int (max 1 (min c 500)) :: rat)"
    by (simp add: of_int_max of_int_min)
  with c show ?thesis by auto
qed

text \<open>The candidate is monotone in the agreement and antitone in the measured volatility.\<close>

lemma propose_leverage_mono:
  assumes p: "propose_leverage atr met tot = Inr (Some req)"
    and p': "propose_leverage atr' met' tot = Inr (Some req')"
    and le: "atr' \<le> atr" "met \<le> met'"
  shows "requested_leverage req \<le> requested_leverage req'"
proof -
  obtain c where c: "0 < atr" "0 < met"
      "c = round_down (ctx_round (ctx_round (2 / atr) * ctx_round (of_int met / of_int tot)))"
      "requested_leverage req = max 1 (min (of_int c) 500)"
    using p by (rule propose_leverage_Some)
  obtain c' where c': "0 < atr'" "met' \<le> tot"
      "c' = round_down (ctx_round (ctx_round (2 / atr') * ctx_round (of_int met' / of_int tot)))"
      "requested_leverage req' = max 1 (min (of_int c') 500)"
    using p' by (rule propose_leverage_Some)
  have tot: "(0 :: rat) < of_int tot" using c(2) le(2) c'(2) by simp
  have "ctx_round (2 / atr) \<le> ctx_round (2 / atr')"
    using le(1) c'(1) by (intro ctx_round_mono divide_left_mono) simp_all
  moreover have "of_int met / of_int tot \<le> (of_int met' / of_int tot :: rat)"
    using le(2) tot by (simp add: divide_right_mono)
  then have "ctx_round (of_int met / of_int tot) \<le> ctx_round (of_int met' / of_int tot)"
    by (rule ctx_round_mono)
  moreover have "0 \<le> ctx_round (of_int met / of_int tot)" and "0 \<le> ctx_round (2 / atr')"
    using c(2) c'(1) tot by simp_all
  ultimately have "ctx_round (2 / atr) * ctx_round (of_int met / of_int tot)
      \<le> ctx_round (2 / atr') * ctx_round (of_int met' / of_int tot)"
    by (intro mult_mono) simp_all
  then have "c \<le> c'" unfolding c(3) c'(3) by (intro down.r_mono ctx_round_mono)
  then show ?thesis unfolding c(4) c'(4) by (auto simp: max_def min_def)
qed

text \<open>No candidate exactly when an input is unusable (or when no condition holds).\<close>

lemma propose_leverage_None:
  "propose_leverage atr met tot = Inr None \<longleftrightarrow>
   atr \<le> 0 \<or> tot \<le> 0 \<or> met \<le> 0 \<or> tot < met"
  by (auto simp: propose_leverage_def d_div_def result_simps Let_def divide_le_0_iff split: if_splits)

subsection \<open>The chain\<close>

text \<open>The declarative reading: which leverage is approved, as one formula.\<close>

definition min_known :: "rat \<Rightarrow> rat option \<Rightarrow> rat" where
  "min_known x c = (case c of None \<Rightarrow> x | Some v \<Rightarrow> min x v)"

definition approved_spec ::
    "leverage_request option \<Rightarrow> rat option \<Rightarrow> rat option \<Rightarrow> bool \<Rightarrow> rat option" where
  "approved_spec request exch risk engine =
     (case request of None \<Rightarrow> None
      | Some req \<Rightarrow>
          if ceiling_ok (requested_leverage req) \<and> ceiling_absent_or_ok exch \<and>
             ceiling_absent_or_ok risk \<and>
             (requested_leverage req = 1 \<or> exch \<noteq> None \<and> risk \<noteq> None \<and> engine)
          then Some (min_known (min_known (requested_leverage req) exch) risk)
          else None)"

lemma resolve_leverage_approved:
  "ld_approved (resolve_leverage request exch risk engine) = approved_spec request exch risk engine"
  by (cases request; cases exch; cases risk)
    (auto simp: leverage_simps approved_spec_def min_known_def min_def)

lemma resolve_leverage_coherent:
  "decision_is_usable (resolve_leverage request exch risk engine) \<longleftrightarrow>
   ld_approved (resolve_leverage request exch risk engine) \<noteq> None"
  "ld_outcome (resolve_leverage request exch risk engine) = LEVERAGE_REJECTED \<longleftrightarrow>
   ld_approved (resolve_leverage request exch risk engine) = None"
  by (cases request; cases exch; cases risk; auto simp: leverage_simps)+

lemma resolve_leverage_bounds:
  assumes "ld_approved (resolve_leverage (Some req) exch risk engine) = Some a"
  shows "1 \<le> a" and "a \<le> requested_leverage req" and "a \<le> 500"
    and "\<And>e. exch = Some e \<Longrightarrow> a \<le> e" and "\<And>r. risk = Some r \<Longrightarrow> a \<le> r"
  using assms unfolding resolve_leverage_approved
  by (auto simp: approved_spec_def min_known_def leverage_simps split: option.splits if_splits)

end
