(* ===== verification/Vocabulary.thy ===== *)
theory Vocabulary
  imports Prelude
begin

section \<open>The core vocabulary\<close>

text \<open>
  The enumerations of \<^verbatim>\<open>domain/enums.py\<close>, the provenance envelope of
  \<^verbatim>\<open>core/freshness.py\<close> and the refusal and error codes of \<^verbatim>\<open>core/errors.py\<close>. An
  enumeration is a datatype with the source's members; where two enumerations share a member name
  the constructor carries a prefix (\<open>SYM_UNKNOWN\<close>, \<open>CT_UNKNOWN\<close>, \<open>CONN_UNKNOWN\<close>).
\<close>

subsection \<open>domain/enums.py\<close>

datatype trading_mode = ANALYSIS | PAPER | TESTNET | LIVE

definition places_real_orders :: "trading_mode \<Rightarrow> bool" where
  "places_real_orders m \<longleftrightarrow> m \<in> {TESTNET, LIVE}"

definition risks_real_funds :: "trading_mode \<Rightarrow> bool" where
  "risks_real_funds m \<longleftrightarrow> m = LIVE"

datatype order_side = BUY | SELL

definition opposite :: "order_side \<Rightarrow> order_side" where
  "opposite s = (if s = BUY then SELL else BUY)"

fun order_side_value :: "order_side \<Rightarrow> string" where
  "order_side_value BUY = ''BUY''"
| "order_side_value SELL = ''SELL''"

datatype position_side = LONG | SHORT | FLAT

datatype order_type = MARKET | LIMIT | STOP | STOP_MARKET | TAKE_PROFIT | TAKE_PROFIT_MARKET

datatype time_in_force = GTC | IOC | FOK

datatype order_state =
    CREATED
  | VALIDATING
  | SUBMITTED
  | ACCEPTED
  | PARTIALLY_FILLED
  | FILLED
  | CANCEL_REQUESTED
  | CANCELLED
  | REJECTED
  | EXPIRED
  | UNKNOWN
  | RECONCILING

definition terminal_order_states :: "order_state set" where
  "terminal_order_states = {FILLED, CANCELLED, REJECTED, EXPIRED}"

definition open_order_states :: "order_state set" where
  "open_order_states = {SUBMITTED, ACCEPTED, PARTIALLY_FILLED, CANCEL_REQUESTED}"

definition is_terminal :: "order_state \<Rightarrow> bool" where
  "is_terminal s \<longleftrightarrow> s \<in> terminal_order_states"

definition is_open :: "order_state \<Rightarrow> bool" where
  "is_open s \<longleftrightarrow> s \<in> open_order_states"

datatype timeframe = M1 | M5 | M15 | H1 | H4 | D1

fun timeframe_seconds :: "timeframe \<Rightarrow> int" where
  "timeframe_seconds M1 = 60"
| "timeframe_seconds M5 = 300"
| "timeframe_seconds M15 = 900"
| "timeframe_seconds H1 = 3600"
| "timeframe_seconds H4 = 14400"
| "timeframe_seconds D1 = 86400"

datatype symbol_status =
    TRADING | PENDING_TRADING | PRE_DELIVERING | DELIVERING | DELIVERED | PRE_SETTLE | SETTLING
  | CLOSE | HALT | BREAK | AUCTION_MATCH | SYM_UNKNOWN

definition is_tradable :: "symbol_status \<Rightarrow> bool" where
  "is_tradable s \<longleftrightarrow> s = TRADING"

datatype contract_type =
    PERPETUAL | CURRENT_MONTH | NEXT_MONTH | CURRENT_QUARTER | NEXT_QUARTER | PERPETUAL_DELIVERING
  | CT_UNKNOWN

datatype connection_status = CONNECTED | DEGRADED | CONN_UNAVAILABLE | CONN_UNKNOWN

text \<open>The order states are finitely many; a statement about all of them is decided by cases.\<close>

instantiation order_state :: enum
begin

definition enum_order_state :: "order_state list" where
  "enum_order_state =
     [CREATED, VALIDATING, SUBMITTED, ACCEPTED, PARTIALLY_FILLED, FILLED, CANCEL_REQUESTED,
      CANCELLED, REJECTED, EXPIRED, UNKNOWN, RECONCILING]"

definition enum_all_order_state :: "(order_state \<Rightarrow> bool) \<Rightarrow> bool" where
  "enum_all_order_state P \<longleftrightarrow> list_all P enum_class.enum"

definition enum_ex_order_state :: "(order_state \<Rightarrow> bool) \<Rightarrow> bool" where
  "enum_ex_order_state P \<longleftrightarrow> list_ex P enum_class.enum"

lemma order_state_UNIV: "(UNIV :: order_state set) = set enum_class.enum"
proof -
  have "s \<in> set enum_class.enum" for s :: order_state
    by (cases s) (simp_all add: enum_order_state_def)
  then show ?thesis by blast
qed

instance
  by standard
    (simp_all only: order_state_UNIV enum_all_order_state_def enum_ex_order_state_def
       list_all_iff list_ex_iff,
     simp_all add: enum_order_state_def)

end

text \<open>The modes form an escalation ladder; no component may move up it.\<close>

instantiation trading_mode :: linorder
begin

fun mode_rank :: "trading_mode \<Rightarrow> nat" where
  "mode_rank ANALYSIS = 0"
| "mode_rank PAPER = 1"
| "mode_rank TESTNET = 2"
| "mode_rank LIVE = 3"

definition less_eq_trading_mode :: "trading_mode \<Rightarrow> trading_mode \<Rightarrow> bool" where
  "less_eq_trading_mode a b \<longleftrightarrow> mode_rank a \<le> mode_rank b"

definition less_trading_mode :: "trading_mode \<Rightarrow> trading_mode \<Rightarrow> bool" where
  "less_trading_mode a b \<longleftrightarrow> mode_rank a < mode_rank b"

lemma mode_rank_inj: "mode_rank a = mode_rank b \<Longrightarrow> a = b"
  by (cases a; cases b) simp_all

instance
  by standard (auto simp: less_eq_trading_mode_def less_trading_mode_def mode_rank_inj)

end

lemma opposite_opposite [simp]: "opposite (opposite s) = s"
  by (cases s) (simp_all add: opposite_def)

lemma terminal_not_open: "is_terminal s \<Longrightarrow> \<not> is_open s"
  by (cases s) (simp_all add: is_terminal_def terminal_order_states_def is_open_def
    open_order_states_def)

subsection \<open>core/freshness.py\<close>

datatype data_status = OK | STALE | UNAVAILABLE | ERROR

definition is_usable_for_trading :: "data_status \<Rightarrow> bool" where
  "is_usable_for_trading s \<longleftrightarrow> s = OK"

record 'a observation =
  ob_value :: "'a option"
  ob_status :: data_status
  ob_source :: string
  ob_event_ts :: "timestamp option"
  ob_received_ts :: timestamp

text \<open>
  Constructing an \<^verbatim>\<open>Observation\<close> runs the validator: status \<open>OK\<close> needs a value, every other
  status forbids one.
\<close>

definition mk_observation ::
    "'a option \<Rightarrow> data_status \<Rightarrow> string \<Rightarrow> timestamp option \<Rightarrow> timestamp \<Rightarrow> 'a observation result"
where
  "mk_observation v s src ev now =
     (if s = OK \<and> v = None then Inl ValidationError
      else if s \<noteq> OK \<and> v \<noteq> None then Inl ValidationError
      else Inr \<lparr>ob_value = v, ob_status = s, ob_source = src, ob_event_ts = ev,
                ob_received_ts = now\<rparr>)"

definition age_seconds :: "'a observation \<Rightarrow> rat option" where
  "age_seconds ob =
     (case ob_event_ts ob of None \<Rightarrow> None
      | Some ev \<Rightarrow> Some (total_seconds (ob_received_ts ob) ev))"

definition observation_ok ::
    "'a \<Rightarrow> string \<Rightarrow> timestamp option \<Rightarrow> timestamp \<Rightarrow> 'a observation result" where
  "observation_ok v src ev now = mk_observation (Some v) OK src ev now"

definition observation_unavailable :: "string \<Rightarrow> timestamp \<Rightarrow> 'a observation result" where
  "observation_unavailable src now = mk_observation None UNAVAILABLE src None now"

definition observation_stale ::
    "string \<Rightarrow> timestamp option \<Rightarrow> timestamp \<Rightarrow> 'a observation result" where
  "observation_stale src ev now = mk_observation None STALE src ev now"

definition observation_error :: "string \<Rightarrow> timestamp \<Rightarrow> 'a observation result" where
  "observation_error src now = mk_observation None ERROR src None now"

lemma mk_observation_value:
  "mk_observation v s src ev now = Inr ob \<Longrightarrow>
   ob_status ob = s \<and> ob_value ob = v \<and> (ob_value ob \<noteq> None \<longleftrightarrow> ob_status ob = OK)"
  by (auto simp: mk_observation_def split: if_splits)

subsection \<open>core/errors.py\<close>

datatype risk_rejection_code =
    DAILY_LOSS_LIMIT
  | DAILY_PROFIT_TARGET
  | MAX_LEVERAGE
  | POSITION_SIZE
  | SYMBOL_LIMIT
  | STRATEGY_LIMIT
  | MAX_OPEN_POSITIONS
  | PORTFOLIO_EXPOSURE
  | STALE_DATA
  | INSUFFICIENT_HISTORY
  | ABNORMAL_VOLATILITY
  | INSUFFICIENT_BALANCE
  | MIN_NOTIONAL
  | EXCHANGE_PRECISION
  | COOLDOWN
  | EMERGENCY_STOP
  | MODE_NOT_ENABLED
  | RECONCILIATION_PENDING

end
