(* ===== verification/OrderIdentity.thy ===== *)
theory OrderIdentity
  imports Vocabulary
begin

section \<open>Deterministic order identity\<close>

text \<open>
  \<^verbatim>\<open>engines/order/identity.py\<close>. The venue identity is the hexadecimal form of a 10-byte digest
  of \<open>account|intent\<close> behind a fixed prefix. The hash itself (\<^verbatim>\<open>hashlib.blake2b\<close>) is a
  parameter: a function from the canonical text and a digest size to that many bytes. The random
  local handle (\<^verbatim>\<open>uuid4\<close>) is a parameter too: the 32 hexadecimal digits it drew.
  Strings are ASCII.
\<close>

definition VENUE_ID_MAX_LENGTH :: nat where "VENUE_ID_MAX_LENGTH = 36"

definition DIGEST_BYTES :: nat where "DIGEST_BYTES = 10"

definition venue_prefix :: string where "venue_prefix = ''aeth''"

definition new_order_id :: "string \<Rightarrow> string" where
  "new_order_id uuid_hex = ''order-'' @ uuid_hex"

text \<open>\<^verbatim>\<open>str.upper\<close> on ASCII text.\<close>

definition char_in :: "char \<Rightarrow> char \<Rightarrow> char \<Rightarrow> bool" where
  "char_in lo hi c \<longleftrightarrow> (of_char lo :: nat) \<le> of_char c \<and> (of_char c :: nat) \<le> of_char hi"

definition upper_char :: "char \<Rightarrow> char" where
  "upper_char c =
     (if char_in (CHR ''a'') (CHR ''z'') c then char_of ((of_char c :: nat) - 32) else c)"

definition upper :: "string \<Rightarrow> string" where
  "upper s = map upper_char s"

definition build_intent_key :: "string \<Rightarrow> order_side \<Rightarrow> string \<Rightarrow> string \<Rightarrow> string" where
  "build_intent_key symbol side purpose bucket =
     purpose @ '':'' @ upper symbol @ '':'' @ order_side_value side @ '':'' @ bucket"

text \<open>The pattern \<^verbatim>\<open>^[.A-Za-z0-9:/_-]{1,36}$\<close>, matched in full.\<close>

definition venue_char :: "char \<Rightarrow> bool" where
  "venue_char c \<longleftrightarrow>
     c \<in> set ''.:/_-'' \<or> char_in (CHR ''A'') (CHR ''Z'') c \<or> char_in (CHR ''a'') (CHR ''z'') c \<or>
     char_in (CHR ''0'') (CHR ''9'') c"

definition is_valid_venue_id :: "string \<Rightarrow> bool" where
  "is_valid_venue_id v \<longleftrightarrow>
     1 \<le> length v \<and> length v \<le> VENUE_ID_MAX_LENGTH \<and> list_all venue_char v"

definition hex_char :: "nat \<Rightarrow> char" where
  "hex_char n = ''0123456789abcdef'' ! n"

fun hexdigest :: "nat list \<Rightarrow> string" where
  "hexdigest [] = []"
| "hexdigest (b # bs) = hex_char (b div 16) # hex_char (b mod 16) # hexdigest bs"

definition canonical :: "string \<Rightarrow> string \<Rightarrow> string" where
  "canonical account_id intent_key = account_id @ ''|'' @ intent_key"

definition client_order_id ::
    "(string \<Rightarrow> nat \<Rightarrow> nat list) \<Rightarrow> string \<Rightarrow> string \<Rightarrow> string result" where
  "client_order_id blake2b account_id intent_key =
     (let digest = hexdigest (blake2b (canonical account_id intent_key) DIGEST_BYTES);
          candidate = venue_prefix @ ''-'' @ digest
      in if \<not> is_valid_venue_id candidate then Inl ValueError else Inr candidate)"

text \<open>What the program relies on of the hash: \<open>digest_size\<close> bytes come back.\<close>

definition digest_ok :: "(string \<Rightarrow> nat \<Rightarrow> nat list) \<Rightarrow> bool" where
  "digest_ok h \<longleftrightarrow> (\<forall>s n. length (h s n) = n \<and> (\<forall>b \<in> set (h s n). b < 256))"

subsection \<open>The encoding\<close>

lemma less_16: "n < 16 \<Longrightarrow> n \<in> {0, 1, 2, 3, 4, 5, 6, 7, 8, 9, 10, 11, 12, 13, 14, 15 :: nat}"
  by (auto simp: numeral_eq_Suc less_Suc_eq)

lemma hex_char_venue: "n < 16 \<Longrightarrow> venue_char (hex_char n)"
  by (drule less_16) (auto simp: hex_char_def venue_char_def char_in_def)

lemma hex_char_inj: "m < 16 \<Longrightarrow> n < 16 \<Longrightarrow> hex_char m = hex_char n \<Longrightarrow> m = n"
proof -
  have "distinct ''0123456789abcdef''" by simp
  moreover assume "m < 16" "n < 16" "hex_char m = hex_char n"
  ultimately show "m = n" by (simp add: hex_char_def nth_eq_iff_index_eq del: distinct.simps)
qed

lemma hexdigest_length: "length (hexdigest bs) = 2 * length bs"
  by (induction bs) auto

lemma hexdigest_venue: "\<forall>b \<in> set bs. b < 256 \<Longrightarrow> list_all venue_char (hexdigest bs)"
  by (induction bs) (auto intro: hex_char_venue)

lemma byte_hex_inj:
  assumes "b < 256" and "c < 256"
    and "hex_char (b div 16) = hex_char (c div 16)" and "hex_char (b mod 16) = hex_char (c mod 16)"
  shows "b = c"
proof -
  have "b div 16 < 16" and "c div 16 < 16"
    using assms(1,2) by (simp_all only: div_less_iff_less_mult zero_less_numeral)
  then have "b div 16 = c div 16" using assms(3) by (rule hex_char_inj)
  moreover have "b mod 16 = c mod 16"
    using assms(4) by (intro hex_char_inj mod_less_divisor) simp_all
  ultimately show ?thesis by (metis div_mult_mod_eq)
qed

lemma hexdigest_inj:
  "list_all (\<lambda>b. b < 256) bs \<Longrightarrow> list_all (\<lambda>b. b < 256) cs \<Longrightarrow>
   hexdigest bs = hexdigest cs \<Longrightarrow> bs = cs"
proof (induction bs arbitrary: cs)
  case Nil
  then show ?case by (cases cs) simp_all
next
  case (Cons b bs)
  show ?case
  proof (cases cs)
    case Nil
    with Cons.prems(3) show ?thesis by simp
  next
    case (Cons c cs')
    with Cons.prems byte_hex_inj [of b c] Cons.IH [of cs'] show ?thesis by simp
  qed
qed

lemma client_order_id_form:
  assumes "digest_ok h"
  shows "client_order_id h account key =
           Inr (''aeth-'' @ hexdigest (h (canonical account key) 10))"
proof -
  have h: "length (h (canonical account key) 10) = 10"
      "\<forall>b \<in> set (h (canonical account key) 10). b < 256"
    using assms by (auto simp: digest_ok_def)
  have "list_all venue_char ''aeth-''" by (simp add: venue_char_def char_in_def)
  with hexdigest_venue [OF h(2)] h(1) show ?thesis
    by (simp add: client_order_id_def venue_prefix_def DIGEST_BYTES_def is_valid_venue_id_def
        VENUE_ID_MAX_LENGTH_def hexdigest_length)
qed

lemma split_at_separator:
  assumes "x @ c # y = x' @ c # y'" and "c \<notin> set x" and "c \<notin> set x'"
  shows "x = x' \<and> y = y'"
  using assms
proof (induction x arbitrary: x')
  case Nil
  then show ?case by (cases x') auto
next
  case (Cons a x)
  then show ?case by (cases x') auto
qed

lemma canonical_inj:
  "canonical a k = canonical a' k' \<Longrightarrow> CHR ''|'' \<notin> set a \<Longrightarrow> CHR ''|'' \<notin> set a' \<Longrightarrow>
   a = a' \<and> k = k'"
  unfolding canonical_def by (rule split_at_separator [of _ "CHR ''|''"]) simp_all

lemma build_intent_key_inj:
  assumes eq: "build_intent_key s d p b = build_intent_key s' d' p' b'"
    and p: "CHR '':'' \<notin> set p" "CHR '':'' \<notin> set p'"
    and s: "CHR '':'' \<notin> set (upper s)" "CHR '':'' \<notin> set (upper s')"
  shows "p = p' \<and> upper s = upper s' \<and> d = d' \<and> b = b'"
proof -
  have 1: "p = p' \<and> upper s @ '':'' @ order_side_value d @ '':'' @ b =
      upper s' @ '':'' @ order_side_value d' @ '':'' @ b'"
    using eq p unfolding build_intent_key_def
    by (intro split_at_separator [of _ "CHR '':''"]) simp_all
  then have 2: "upper s = upper s' \<and> order_side_value d @ '':'' @ b =
      order_side_value d' @ '':'' @ b'"
    using s by (intro split_at_separator [of _ "CHR '':''"]) simp_all
  have "CHR '':'' \<notin> set (order_side_value d)" and "CHR '':'' \<notin> set (order_side_value d')"
    by (cases d; simp)(cases d'; simp)
  with 2 have "order_side_value d = order_side_value d' \<and> b = b'"
    by (intro split_at_separator [of _ "CHR '':''"]) simp_all
  with 1 2 show ?thesis by (cases d; cases d') auto
qed

end
