(* ===== verification/OrderDomain.thy ===== *)
theory OrderDomain
  imports Vocabulary Money
begin

section \<open>The order lifecycle's data\<close>

text \<open>
  \<^verbatim>\<open>domain/order.py\<close> and the two venue enumerations of \<^verbatim>\<open>domain/venue.py\<close> it uses. Each
  pydantic model is a record; its \<^verbatim>\<open>Field\<close> constraints and validators are the predicate
  \<open>*_valid\<close>, which construction checks and \<^verbatim>\<open>model_copy(update=...)\<close> does not, as in
  pydantic.
\<close>

datatype margin_mode = ISOLATED | CROSSED

datatype position_mode = ONE_WAY | HEDGE

datatype order_origin = MANUAL | AUTONOMOUS | RECOVERY

record order_intent =
  oi_account_id :: string
  oi_symbol :: string
  oi_side :: order_side
  oi_order_type :: order_type
  oi_quantity :: rat
  oi_price :: "rat option"
  oi_reduce_only :: bool
  oi_mode :: trading_mode
  oi_origin :: order_origin
  oi_intent_key :: string
  oi_created_at :: timestamp

definition order_intent_valid :: "order_intent \<Rightarrow> bool" where
  "order_intent_valid oi \<longleftrightarrow>
     0 < oi_quantity oi \<and> (case oi_price oi of None \<Rightarrow> True | Some p \<Rightarrow> 0 < p)"

record order_fill =
  of_fill_id :: string
  of_price :: rat
  of_quantity :: rat
  of_fee :: rat
  of_filled_at :: timestamp
  of_venue_trade_id :: "string option"

definition order_fill_valid :: "order_fill \<Rightarrow> bool" where
  "order_fill_valid f \<longleftrightarrow> 0 < of_price f \<and> 0 < of_quantity f \<and> 0 \<le> of_fee f"

text \<open>
  The text of a discrepancy is the one sentence the program compares (a store does not write the
  same evidence twice), so it is kept as its template and the values formatted into it.
  \<open>DecisionDetail\<close> is the explanatory sentence of a decision that names no discrepancy, which
  \<^verbatim>\<open>decide\<close> never returns.
\<close>

datatype evidence =
    FillPastQuantity rat string rat rat
  | TerminalDisagreement order_state order_state timestamp
  | FilledBackwards rat rat
  | VenueOverfill rat rat
  | UnresolvableVenueState order_state
  | NotLoadable py_error order_state
  | VenueReset int
  | DecisionDetail

record order_discrepancy =
  od_observed_at :: timestamp
  od_detail :: evidence
  od_local_state :: order_state
  od_venue_state :: "order_state option"

record order_record =
  or_order_id :: string
  or_client_order_id :: string
  or_venue_order_id :: "string option"
  or_intent :: order_intent
  or_state :: order_state
  or_filled_quantity :: rat
  or_average_fill_price :: "rat option"
  or_fills :: "order_fill list"
  or_created_at :: timestamp
  or_updated_at :: timestamp
  or_submitted_at :: "timestamp option"
  or_terminal_at :: "timestamp option"
  or_rejection_code :: "risk_rejection_code option"
  or_venue_rejection :: "string option"
  or_venue_status_raw :: "string option"
  or_last_polled_at :: "timestamp option"
  or_venue_leverage :: "rat option"
  or_venue_margin_mode :: "margin_mode option"
  or_reconciliation_attempts :: int
  or_last_reconciled_at :: "timestamp option"
  or_discrepancies :: "order_discrepancy list"
  or_resolved_by_operator :: "string option"
  or_operator_reason :: "string option"

definition or_is_terminal :: "order_record \<Rightarrow> bool" where
  "or_is_terminal r \<longleftrightarrow> is_terminal (or_state r)"

definition is_unreconciled :: "order_record \<Rightarrow> bool" where
  "is_unreconciled r \<longleftrightarrow> or_state r \<in> {UNKNOWN, RECONCILING}"

definition reached_venue :: "order_record \<Rightarrow> bool" where
  "reached_venue r \<longleftrightarrow> or_submitted_at r \<noteq> None"

definition remaining_quantity :: "order_record \<Rightarrow> rat" where
  "remaining_quantity r = max (d_sub (oi_quantity (or_intent r)) (or_filled_quantity r)) 0"

text \<open>The validator \<^verbatim>\<open>_fills_agree_with_filled_quantity\<close>.\<close>

definition fills_agree :: "order_record \<Rightarrow> bool" where
  "fills_agree r \<longleftrightarrow>
     (if or_fills r = [] then True
      else d_sum (map of_quantity (or_fills r)) = or_filled_quantity r)"

definition order_record_valid :: "order_record \<Rightarrow> bool" where
  "order_record_valid r \<longleftrightarrow>
     0 \<le> or_filled_quantity r \<and>
     (case or_venue_leverage r of None \<Rightarrow> True | Some l \<Rightarrow> 0 < l) \<and>
     0 \<le> or_reconciliation_attempts r \<and> fills_agree r"

record venue_order_view =
  vv_client_order_id :: string
  vv_venue_order_id :: "string option"
  vv_state :: order_state
  vv_filled_quantity :: rat
  vv_average_fill_price :: "rat option"
  vv_observed_at :: timestamp
  vv_venue_rejection :: "string option"

datatype reconciliation_action =
    ADOPT_VENUE_STATE
  | RESOLVE_NEVER_SUBMITTED
  | REMAIN_UNKNOWN
  | RECORD_DISCREPANCY
  | VENUE_UNREACHABLE

record reconciliation_decision =
  rd_action :: reconciliation_action
  rd_target_state :: "order_state option"
  rd_discrepancy :: "evidence option"
  rd_venue_order_id :: "string option"
  rd_filled_quantity :: "rat option"
  rd_average_fill_price :: "rat option"

definition decision_resolves :: "reconciliation_decision \<Rightarrow> bool" where
  "decision_resolves d \<longleftrightarrow>
     (case rd_target_state d of None \<Rightarrow> False | Some s \<Rightarrow> is_terminal s)"

record order_bookkeeping =
  bk_total :: int
  bk_open_orders :: int
  bk_unreconciled :: int
  bk_terminal :: int
  bk_discrepancies :: int

definition blocks_entry :: "order_bookkeeping \<Rightarrow> bool" where
  "blocks_entry b \<longleftrightarrow> 0 < bk_unreconciled b"

lemma unreconciled_not_terminal: "is_unreconciled r \<Longrightarrow> \<not> or_is_terminal r"
  by (auto simp: is_unreconciled_def or_is_terminal_def is_terminal_def terminal_order_states_def)

text \<open>Appending one fill: the validator's sum is the engine's running total.\<close>

lemma d_sum_Nil [simp]: "d_sum [] = 0"
  by (simp add: d_sum_def)

lemma foldl_d_add_nonneg: "0 \<le> a \<Longrightarrow> \<forall>x \<in> set xs. 0 \<le> x \<Longrightarrow> 0 \<le> foldl d_add a xs"
  by (induction xs arbitrary: a) (auto simp: d_add_def)

lemma d_sum_nonneg: "\<forall>x \<in> set xs. 0 \<le> x \<Longrightarrow> 0 \<le> d_sum xs"
  by (simp add: d_sum_def foldl_d_add_nonneg)

end
