(* ===== verification/OrderMachine.thy ===== *)
theory OrderMachine
  imports OrderDomain
begin

section \<open>The order state machine\<close>

text \<open>
  \<^verbatim>\<open>engines/order/machine.py\<close>: the transition table as data, the test and the checked move,
  and the machine it induces (\<open>transition\<close>), with the three safety properties its docstring
  promises.
\<close>

fun legal_transitions :: "order_state \<Rightarrow> order_state set" where
  "legal_transitions CREATED = {VALIDATING, CANCELLED, REJECTED}"
| "legal_transitions VALIDATING = {SUBMITTED, REJECTED, CANCELLED}"
| "legal_transitions SUBMITTED =
     {ACCEPTED, PARTIALLY_FILLED, FILLED, REJECTED, CANCELLED, EXPIRED, UNKNOWN}"
| "legal_transitions ACCEPTED =
     {PARTIALLY_FILLED, FILLED, CANCEL_REQUESTED, CANCELLED, EXPIRED, UNKNOWN}"
| "legal_transitions PARTIALLY_FILLED =
     {PARTIALLY_FILLED, FILLED, CANCEL_REQUESTED, CANCELLED, EXPIRED, UNKNOWN}"
| "legal_transitions CANCEL_REQUESTED = {CANCELLED, FILLED, PARTIALLY_FILLED, EXPIRED, UNKNOWN}"
| "legal_transitions UNKNOWN = {RECONCILING}"
| "legal_transitions RECONCILING =
     {ACCEPTED, PARTIALLY_FILLED, FILLED, CANCELLED, REJECTED, EXPIRED, UNKNOWN}"
| "legal_transitions FILLED = {}"
| "legal_transitions CANCELLED = {}"
| "legal_transitions REJECTED = {}"
| "legal_transitions EXPIRED = {}"

definition can_transition :: "order_state \<Rightarrow> order_state \<Rightarrow> bool" where
  "can_transition current target \<longleftrightarrow> target \<in> legal_transitions current"

definition check_transition :: "order_state \<Rightarrow> order_state \<Rightarrow> unit result" where
  "check_transition current target =
     (if can_transition current target then Inr () else Inl IllegalTransitionError)"

definition RESOLVABLE_FROM_RECONCILING :: "order_state set" where
  "RESOLVABLE_FROM_RECONCILING = legal_transitions RECONCILING"

definition resolvable_from_reconciling :: "order_state \<Rightarrow> bool" where
  "resolvable_from_reconciling target \<longleftrightarrow> target \<in> RESOLVABLE_FROM_RECONCILING"

subsection \<open>The machine as a step relation\<close>

inductive transition :: "order_state \<Rightarrow> order_state \<Rightarrow> bool" where
  move: "can_transition s t \<Longrightarrow> transition s t"

inductive_simps transition_iff: "transition s t"

inductive_cases from_unknown: "transition UNKNOWN t"

named_theorems machine_simps "deciding the transition table"

lemmas [machine_simps] =
  can_transition_def check_transition_def RESOLVABLE_FROM_RECONCILING_def
  resolvable_from_reconciling_def is_terminal_def terminal_order_states_def

lemma check_transition_Inr: "check_transition s t = Inr u \<longleftrightarrow> can_transition s t"
  by (simp add: check_transition_def)

lemma check_transition_Inl:
  "check_transition s t = Inl e \<longleftrightarrow> \<not> can_transition s t \<and> e = IllegalTransitionError"
  by (auto simp: check_transition_def)

lemma terminal_iff_stuck: "is_terminal s \<longleftrightarrow> legal_transitions s = {}"
  by (cases s) (simp_all add: machine_simps)

lemma unknown_exit: "can_transition UNKNOWN t \<longleftrightarrow> t = RECONCILING"
  by (simp add: machine_simps)

lemma reconciling_entry: "can_transition s RECONCILING \<longleftrightarrow> s = UNKNOWN"
  by (cases s) (simp_all add: machine_simps)

lemma submitted_entry: "can_transition s SUBMITTED \<longleftrightarrow> s = VALIDATING"
  by (cases s) (simp_all add: machine_simps)

lemma validating_entry: "can_transition s VALIDATING \<longleftrightarrow> s = CREATED"
  by (cases s) (simp_all add: machine_simps)

lemma created_entry: "\<not> can_transition s CREATED"
  by (cases s) (simp_all add: machine_simps)

subsection \<open>Histories\<close>

text \<open>A history is the list of states an order has gone through, oldest first.\<close>

fun history :: "order_state list \<Rightarrow> bool" where
  "history [] = False"
| "history [s] = True"
| "history (s # t # ss) = (can_transition s t \<and> history (t # ss))"

text \<open>The states in which an order has left for the venue.\<close>

definition sent_states :: "order_state set" where
  "sent_states = {SUBMITTED, ACCEPTED, PARTIALLY_FILLED, FILLED, CANCEL_REQUESTED, EXPIRED, UNKNOWN,
                  RECONCILING}"

lemma sent_needs_submission:
  "can_transition s t \<Longrightarrow> t \<in> sent_states \<Longrightarrow> t = SUBMITTED \<or> s \<in> sent_states"
  by (cases s; cases t) (simp_all add: machine_simps sent_states_def)

lemma history_append1:
  "history (xs @ [s]) \<Longrightarrow> can_transition s t \<Longrightarrow> history (xs @ [s, t])"
  by (induction xs rule: history.induct) auto

lemma history_terminal_last:
  "history (s # ss) \<Longrightarrow> is_terminal s \<Longrightarrow> ss = []"
  by (cases ss) (auto simp: can_transition_def terminal_iff_stuck)

lemma history_successor:
  "history (xs @ s # t # ys) \<Longrightarrow> can_transition s t"
proof (induction xs)
  case Nil
  then show ?case by simp
next
  case (Cons x xs)
  then show ?case by (cases xs) auto
qed

lemma history_suffix: "history (xs @ s # ys) \<Longrightarrow> history (s # ys)"
proof (induction xs)
  case Nil
  then show ?case by simp
next
  case (Cons x xs)
  then show ?case by (cases xs) auto
qed

lemma history_sent_from:
  assumes "history (s # ss)" and "s \<notin> sent_states" and "t \<in> set ss" and "t \<in> sent_states"
  shows "\<exists>as bs. s # ss = as @ VALIDATING # SUBMITTED # bs"
  using assms
proof (induction ss arbitrary: s)
  case Nil
  then show ?case by simp
next
  case (Cons u us)
  show ?case
  proof (cases "u \<in> sent_states")
    case True
    with Cons.prems have "can_transition s u" by simp
    with True Cons.prems(2) have "u = SUBMITTED" using sent_needs_submission by blast
    with \<open>can_transition s u\<close> have "s = VALIDATING" by (simp add: submitted_entry)
    with \<open>u = SUBMITTED\<close> show ?thesis by (metis append_Nil)
  next
    case False
    with Cons.prems have "\<exists>as bs. u # us = as @ VALIDATING # SUBMITTED # bs"
      by (intro Cons.IH) auto
    then show ?thesis by (metis append_Cons)
  qed
qed

end
