(* ===== verification/CoreProperties.thy ===== *)
theory CoreProperties
  imports Leverage OrderIdentity OrderMachine
begin

section \<open>Properties of the pure modules\<close>

text \<open>
  The leverage authority chain, the candidate it is asked for, price ticks, order identity and the
  order state machine, each stated over the functions of its module.
\<close>

subsection \<open>Leverage\<close>

text \<open>C40: the chain of checks computes one formula: the leverage it approves is the least of the
  requested leverage and the ceilings that are known, and nothing is approved unless every supplied
  limit lies in the domain and either all of them are known, with the risk engine available, or the
  request is for exactly one; and a decision is usable exactly when it approves something.\<close>

theorem leverage_is_least_known_limit:
  "ld_approved (resolve_leverage request exch risk engine) = approved_spec request exch risk engine \<and>
   (decision_is_usable (resolve_leverage request exch risk engine) \<longleftrightarrow>
      approved_spec request exch risk engine \<noteq> None) \<and>
   (ld_outcome (resolve_leverage request exch risk engine) = LEVERAGE_REJECTED \<longleftrightarrow>
      approved_spec request exch risk engine = None)"
  using resolve_leverage_coherent [of request exch risk engine]
  by (simp only: resolve_leverage_approved)

text \<open>A candidate leverage is a whole number between 1 and 500, never rises with the measured
  volatility and never falls when more conditions are met.\<close>

theorem candidate_leverage_monotone:
  assumes "propose_leverage atr met tot = Inr (Some req)"
    and "propose_leverage atr' met' tot = Inr (Some req')" and "atr' \<le> atr" and "met \<le> met'"
  shows "1 \<le> requested_leverage req \<and> requested_leverage req \<le> requested_leverage req' \<and>
    requested_leverage req' \<le> 500 \<and> (\<exists>n. requested_leverage req = of_int n)"
  using propose_leverage_bounds [OF assms(1)] propose_leverage_bounds [OF assms(2)]
    propose_leverage_mono [OF assms] by simp

subsection \<open>Ticks\<close>

text \<open>Rounding a price to the venue's tick never makes an order worse: a buy price becomes the
  greatest multiple of the tick that is not above it, a sell price the least that is not below.\<close>

theorem tick_rounding_never_worse:
  assumes "round_price_to_tick v tick is_buy = Inr r"
    and "on_grid k v" and "on_grid k tick" and "0 \<le> v"
    and "v < 10 ^ 27 / 10 ^ k" and "tick < 10 ^ 27 / 10 ^ k"
  shows "\<exists>n \<ge> 0. r = of_int n * tick \<and>
    (if is_buy then r \<le> v \<and> v < r + tick else v \<le> r \<and> r < v + tick)"
proof (cases is_buy)
  case True
  then show ?thesis using assms round_price_buy [of v tick r k] by simp
next
  case False
  then show ?thesis using assms round_price_sell [of v tick r k] by simp
qed

subsection \<open>Identity\<close>

text \<open>Every account and intent get a client order id, it is in the venue's alphabet and at most 36
  characters long; and two different pairs share an id only when the hash collides on two different
  texts, provided the account ids do not contain the separator.\<close>

theorem client_ids_distinguish_intents:
  assumes "digest_ok h" and "CHR ''|'' \<notin> set a" and "CHR ''|'' \<notin> set a'"
  shows "\<exists>x x'. client_order_id h a k = Inr x \<and> client_order_id h a' k' = Inr x' \<and>
    is_valid_venue_id x \<and> is_valid_venue_id x' \<and>
    (x = x' \<and> (a, k) \<noteq> (a', k') \<longrightarrow>
       canonical a k \<noteq> canonical a' k' \<and> h (canonical a k) 10 = h (canonical a' k') 10)"
proof -
  let ?id = "\<lambda>a k. ''aeth-'' @ hexdigest (h (canonical a k) 10)"
  have id: "client_order_id h b l = Inr (?id b l)" for b l
    by (rule client_order_id_form [OF assms(1)])
  have valid: "is_valid_venue_id (?id b l)" for b l
    using id [of b l] by (simp add: client_order_id_def Let_def split: if_splits)
  have bytes: "list_all (\<lambda>b. b < 256) (h (canonical b l) 10)" for b l
    using assms(1) by (simp add: digest_ok_def list_all_iff)
  have "canonical a k \<noteq> canonical a' k' \<and> h (canonical a k) 10 = h (canonical a' k') 10"
    if "?id a k = ?id a' k'" and "(a, k) \<noteq> (a', k')"
    using that hexdigest_inj [OF bytes bytes, of a k a' k'] canonical_inj [OF _ assms(2,3), of k k']
    by auto
  with id valid show ?thesis by blast
qed

subsection \<open>The state machine\<close>

text \<open>Whatever path an order takes through the machine, it reaches a state in which it may exist at
  the venue only by being validated and then submitted, and nothing follows a terminal state.\<close>

theorem sent_only_through_submission:
  assumes "history (CREATED # ss)"
  shows "(\<forall>t \<in> set ss. t \<in> sent_states \<longrightarrow>
      (\<exists>as bs. CREATED # ss = as @ VALIDATING # SUBMITTED # bs)) \<and>
    (\<forall>as t bs. ss = as @ t # bs \<and> is_terminal t \<longrightarrow> bs = [])"
proof (intro conjI ballI allI impI)
  show "\<exists>as bs. CREATED # ss = as @ VALIDATING # SUBMITTED # bs" if "t \<in> set ss" "t \<in> sent_states" for t
    using assms that by (intro history_sent_from) (simp_all add: sent_states_def)
  show "bs = []" if "ss = as @ t # bs \<and> is_terminal t" for as t bs
  proof -
    from that assms have "history ((CREATED # as) @ t # bs)" by simp
    then have "history (t # bs)" by (rule history_suffix)
    with that show ?thesis using history_terminal_last by blast
  qed
qed

subsection \<open>Witnesses\<close>

lemma example_candidate:
  "\<exists>req. propose_leverage (1 / 2) 1 2 = Inr (Some req) \<and> requested_leverage req = 2"
  "\<exists>req. propose_leverage (1 / 4) 2 2 = Inr (Some req) \<and> requested_leverage req = 8"
proof -
  have "d_div 1 2 = Inr (1 / 2)" "d_div 2 2 = Inr 1" "d_div 2 (1 / 2) = Inr 4" "d_div 2 (1 / 4) = Inr 8"
    "d_mul 4 (1 / 2) = 2" "d_mul 8 1 = 8" "quantize ROUND_HALF_EVEN 4 (1 / 2) = Inr (1 / 2)"
    "quantize ROUND_HALF_EVEN 4 (1 / 4) = Inr (1 / 4)" "quantize ROUND_DOWN 0 2 = Inr 2"
    "quantize ROUND_DOWN 0 8 = Inr 8"
    by (simp_all add: dec_eval)
  then show "\<exists>req. propose_leverage (1 / 2) 1 2 = Inr (Some req) \<and> requested_leverage req = 2"
    "\<exists>req. propose_leverage (1 / 4) 2 2 = Inr (Some req) \<and> requested_leverage req = 8"
    by (simp_all add: propose_leverage_def TARGET_ADVERSE_MOVE_PERCENT_def mk_leverage_request_def
        LEVERAGE_MIN_def LEVERAGE_MAX_def)
qed

theorem candidate_leverage_monotone_witness:
  "\<exists>req req'. propose_leverage (1 / 2) 1 2 = Inr (Some req) \<and>
     propose_leverage (1 / 4) 2 2 = Inr (Some req') \<and> 1 \<le> requested_leverage req \<and>
     requested_leverage req \<le> requested_leverage req'"
proof -
  obtain req req' where "propose_leverage (1 / 2) 1 2 = Inr (Some req)"
      "propose_leverage (1 / 4) 2 2 = Inr (Some req')"
    using example_candidate by blast
  then show ?thesis using candidate_leverage_monotone [of "1 / 2" 1 2 req "1 / 4" 2 req'] by auto
qed

theorem tick_rounding_never_worse_witness:
  "\<exists>n \<ge> 0. 21 / 2 = of_int n * (1 / 2 :: rat) \<and> (21 / 2 :: rat) \<le> 107 / 10 \<and> (107 / 10 :: rat) < 21 / 2 + 1 / 2"
proof -
  have "d_div (107 / 10) (1 / 2) = Inr (107 / 5)" "quantize ROUND_DOWN 0 (107 / 5) = Inr 21"
    "d_mul 21 (1 / 2) = 21 / 2"
    by (simp_all add: dec_eval)
  then have "round_price_to_tick (107 / 10) (1 / 2) True = Inr (21 / 2)"
    by (simp add: round_price_to_tick_def)
  moreover have "on_grid 1 (107 / 10 :: rat)" and "on_grid 1 (1 / 2 :: rat)"
    unfolding on_grid_def by (rule exI [of _ 107], simp) (rule exI [of _ 5], simp)
  ultimately show ?thesis using tick_rounding_never_worse [of "107 / 10" "1 / 2" True "21 / 2" 1] by simp
qed

theorem client_ids_distinguish_intents_witness:
  "\<exists>x x'. client_order_id (\<lambda>_ n. replicate n 7) ''a'' ''k'' = Inr x \<and>
     client_order_id (\<lambda>_ n. replicate n 7) ''b'' ''k'' = Inr x' \<and>
     is_valid_venue_id x \<and> is_valid_venue_id x'"
  using client_ids_distinguish_intents [of "\<lambda>_ n. replicate n 7" "''a''" "''b''" "''k''" "''k''"]
  by (auto simp: digest_ok_def)

theorem sent_only_through_submission_witness:
  "\<exists>as bs. [CREATED, VALIDATING, SUBMITTED, FILLED] = as @ VALIDATING # SUBMITTED # bs"
proof -
  have "history (CREATED # [VALIDATING, SUBMITTED, FILLED])" by (simp add: machine_simps)
  from sent_only_through_submission [OF this] show ?thesis by (simp add: sent_states_def)
qed

end
