(* ===== verification/Reconcile.thy ===== *)
theory Reconcile
  imports OrderMachine
begin

section \<open>The reconciliation protocol\<close>

text \<open>
  \<^verbatim>\<open>engines/order/reconcile.py\<close>: the pure decision about one order given the venue's answer
  (\<open>None\<close> is "no such order"), and the two filters the risk gate uses. The lemmas state, for each
  answer, what is concluded, and that a decision to adopt is always one the state machine and the
  fill bounds permit.
\<close>

definition plain_decision :: "reconciliation_action \<Rightarrow> order_state option \<Rightarrow> reconciliation_decision"
where
  "plain_decision a t =
     \<lparr>rd_action = a, rd_target_state = t, rd_discrepancy = None, rd_venue_order_id = None,
      rd_filled_quantity = None, rd_average_fill_price = None\<rparr>"

definition discrepancy_decision :: "evidence \<Rightarrow> reconciliation_decision" where
  "discrepancy_decision e =
     (plain_decision RECORD_DISCREPANCY None)\<lparr>rd_discrepancy := Some e\<rparr>"

definition decide ::
    "order_record \<Rightarrow> venue_order_view option \<Rightarrow> bool \<Rightarrow> reconciliation_decision" where
  "decide r view venue_reachable =
     (if \<not> venue_reachable then plain_decision VENUE_UNREACHABLE None
      else case view of
        None \<Rightarrow>
          (if \<not> reached_venue r then plain_decision RESOLVE_NEVER_SUBMITTED (Some CANCELLED)
           else plain_decision REMAIN_UNKNOWN (Some UNKNOWN))
      | Some v \<Rightarrow>
          (if or_is_terminal r \<and> vv_state v \<noteq> or_state r
           then discrepancy_decision
                  (TerminalDisagreement (or_state r) (vv_state v) (vv_observed_at v))
           else if vv_filled_quantity v < or_filled_quantity r
           then discrepancy_decision
                  (FilledBackwards (or_filled_quantity r) (vv_filled_quantity v))
           else if oi_quantity (or_intent r) < vv_filled_quantity v
           then discrepancy_decision
                  (VenueOverfill (oi_quantity (or_intent r)) (vv_filled_quantity v))
           else if \<not> resolvable_from_reconciling (vv_state v)
           then discrepancy_decision (UnresolvableVenueState (vv_state v))
           else \<lparr>rd_action = ADOPT_VENUE_STATE, rd_target_state = Some (vv_state v),
                 rd_discrepancy = None, rd_venue_order_id = vv_venue_order_id v,
                 rd_filled_quantity = Some (vv_filled_quantity v),
                 rd_average_fill_price = vv_average_fill_price v\<rparr>))"

definition needs_reconciliation :: "order_record \<Rightarrow> bool" where
  "needs_reconciliation r \<longleftrightarrow> \<not> or_is_terminal r"

definition blocking_orders :: "order_record list \<Rightarrow> order_record list" where
  "blocking_orders rs = filter is_unreconciled rs"

definition unreconciled_count :: "order_record list \<Rightarrow> int" where
  "unreconciled_count rs = int (length (blocking_orders rs))"

subsection \<open>What each answer concludes\<close>

lemma plain_decision_sel [simp]:
  "rd_action (plain_decision a t) = a" "rd_target_state (plain_decision a t) = t"
  "rd_discrepancy (plain_decision a t) = None"
  "rd_venue_order_id (plain_decision a t) = None" "rd_filled_quantity (plain_decision a t) = None"
  "rd_average_fill_price (plain_decision a t) = None"
  by (simp_all add: plain_decision_def)

lemma discrepancy_decision_sel [simp]:
  "rd_action (discrepancy_decision e) = RECORD_DISCREPANCY"
  "rd_target_state (discrepancy_decision e) = None"
  "rd_discrepancy (discrepancy_decision e) = Some e"
  by (simp_all add: discrepancy_decision_def)

lemma decide_unreachable: "decide r view False = plain_decision VENUE_UNREACHABLE None"
  by (simp add: decide_def)

lemma decide_absent:
  "decide r None True =
     (if reached_venue r then plain_decision REMAIN_UNKNOWN (Some UNKNOWN)
      else plain_decision RESOLVE_NEVER_SUBMITTED (Some CANCELLED))"
  by (simp add: decide_def)

text \<open>Adoption happens only for a reachable venue's answer that passes every check.\<close>

definition adoptable :: "order_record \<Rightarrow> venue_order_view \<Rightarrow> bool" where
  "adoptable r v \<longleftrightarrow>
     (or_is_terminal r \<longrightarrow> vv_state v = or_state r) \<and>
     or_filled_quantity r \<le> vv_filled_quantity v \<and>
     vv_filled_quantity v \<le> oi_quantity (or_intent r) \<and>
     can_transition RECONCILING (vv_state v)"

text \<open>The evidence recorded for an answer that cannot be adopted: the first check that fails.\<close>

definition evidence_of :: "order_record \<Rightarrow> venue_order_view \<Rightarrow> evidence" where
  "evidence_of r v =
     (if or_is_terminal r \<and> vv_state v \<noteq> or_state r
      then TerminalDisagreement (or_state r) (vv_state v) (vv_observed_at v)
      else if vv_filled_quantity v < or_filled_quantity r
      then FilledBackwards (or_filled_quantity r) (vv_filled_quantity v)
      else if oi_quantity (or_intent r) < vv_filled_quantity v
      then VenueOverfill (oi_quantity (or_intent r)) (vv_filled_quantity v)
      else UnresolvableVenueState (vv_state v))"

lemma decide_view:
  "decide r (Some v) True =
     (if adoptable r v
      then \<lparr>rd_action = ADOPT_VENUE_STATE, rd_target_state = Some (vv_state v),
            rd_discrepancy = None, rd_venue_order_id = vv_venue_order_id v,
            rd_filled_quantity = Some (vv_filled_quantity v),
            rd_average_fill_price = vv_average_fill_price v\<rparr>
      else discrepancy_decision (evidence_of r v))"
  by (auto simp: decide_def adoptable_def evidence_of_def resolvable_from_reconciling_def can_transition_def
      RESOLVABLE_FROM_RECONCILING_def)

lemma decide_cases:
  obtains (unreachable) "\<not> reach" "decide r view reach = plain_decision VENUE_UNREACHABLE None"
  | (never) "reach" "view = None" "\<not> reached_venue r"
      "decide r view reach = plain_decision RESOLVE_NEVER_SUBMITTED (Some CANCELLED)"
  | (remain) "reach" "view = None" "reached_venue r"
      "decide r view reach = plain_decision REMAIN_UNKNOWN (Some UNKNOWN)"
  | (discrepancy) v where "reach" "view = Some v" "\<not> adoptable r v"
      "decide r view reach = discrepancy_decision (evidence_of r v)"
  | (adopt) v where "reach" "view = Some v" "adoptable r v"
      "decide r view reach = \<lparr>rd_action = ADOPT_VENUE_STATE, rd_target_state = Some (vv_state v),
            rd_discrepancy = None, rd_venue_order_id = vv_venue_order_id v,
            rd_filled_quantity = Some (vv_filled_quantity v),
            rd_average_fill_price = vv_average_fill_price v\<rparr>"
proof (cases reach)
  case False
  then show ?thesis by (intro unreachable) (simp_all add: decide_unreachable)
next
  case reach: True
  show ?thesis
  proof (cases view)
    case None
    show ?thesis
      by (cases "reached_venue r")
        (use reach None never remain in \<open>simp_all add: decide_absent\<close>)
  next
    case (Some v)
    show ?thesis
      by (cases "adoptable r v")
        (use reach Some adopt [of v] discrepancy [of v] in \<open>simp_all add: decide_view\<close>)
  qed
qed

text \<open>
  The case the module exists for: the same absence settles an order that never left, and settles
  nothing for one that did.
\<close>

lemma absence_proves_only_unsent:
  "decide r None True = decide r' None True \<longleftrightarrow> (reached_venue r \<longleftrightarrow> reached_venue r')"
  by (simp add: decide_absent plain_decision_def)

lemma submitted_never_cancelled_by_absence:
  assumes "reached_venue r" and "rd_action (decide r view reach) = RESOLVE_NEVER_SUBMITTED"
  shows False
  using assms by (cases rule: decide_cases [of reach r view]) simp_all

lemma blocking_orders_iff: "r \<in> set (blocking_orders rs) \<longleftrightarrow> r \<in> set rs \<and> is_unreconciled r"
  by (simp add: blocking_orders_def)

lemma unreconciled_count_zero:
  "unreconciled_count rs = 0 \<longleftrightarrow> list_all (\<lambda>r. \<not> is_unreconciled r) rs"
  by (induction rs) (simp_all add: unreconciled_count_def blocking_orders_def)

end
