(* ===== verification/OrderStore.thy ===== *)
theory OrderStore
  imports OrderMachine
begin

section \<open>Order record storage\<close>

text \<open>
  \<^verbatim>\<open>engines/order/store.py\<close>. The abstract class \<^verbatim>\<open>OrderRepository\<close> is the record
  \<open>order_ops\<close> of its operations over a store of type \<open>'r\<close>, passed to the lifecycle engine the way
  the repository object is; its contract is the locale \<open>order_repository\<close>; the in-memory
  implementation is \<open>mem_ops\<close>. A repository method that mutates returns the new store. Every
  engine method runs under the lock of the one order it changes, so a method call is one atomic
  step of the model; lock acquisition and the event loop are not modelled.
\<close>

record unreadable_order =
  uo_order_id :: string
  uo_state :: order_state
  uo_reason :: py_error

record open_scan =
  sc_records :: "order_record list"
  sc_unreadable :: "unreadable_order list"

definition scan_blocking :: "open_scan \<Rightarrow> int" where
  "scan_blocking sc =
     int (length (filter is_unreconciled (sc_records sc))) + int (length (sc_unreadable sc))"

record 'r order_ops =
  repo_durable :: bool
  repo_add :: "'r \<Rightarrow> order_record \<Rightarrow> 'r result"
  repo_add_or_get :: "'r \<Rightarrow> order_record \<Rightarrow> ('r \<times> order_record \<times> bool) result"
  repo_update :: "'r \<Rightarrow> order_record \<Rightarrow> 'r result"
  repo_get :: "'r \<Rightarrow> string \<Rightarrow> order_record option result"
  repo_get_by_client :: "'r \<Rightarrow> string \<Rightarrow> order_record option result"
  repo_all :: "'r \<Rightarrow> order_record list result"
  repo_open :: "'r \<Rightarrow> order_record list result"
  repo_scan_open :: "'r \<Rightarrow> open_scan result"
  repo_record_unreadable :: "'r \<Rightarrow> string \<Rightarrow> evidence \<Rightarrow> timestamp \<Rightarrow> 'r result"
  repo_abort :: "'r \<Rightarrow> 'r \<Rightarrow> 'r"

subsection \<open>The in-memory repository\<close>

record mem_repo =
  by_order_id :: "(string, order_record) dict"
  by_client_id :: "(string, string) dict"

definition mem_empty :: mem_repo where
  "mem_empty = \<lparr>by_order_id = [], by_client_id = []\<rparr>"

definition mem_add :: "mem_repo \<Rightarrow> order_record \<Rightarrow> mem_repo result" where
  "mem_add s r =
     (if map_of (by_client_id s) (or_client_order_id r) \<noteq> None then Inl DuplicateClientOrderIdError
      else Inr (s\<lparr>by_order_id := AList.update (or_order_id r) r (by_order_id s),
                  by_client_id := AList.update (or_client_order_id r) (or_order_id r)
                                    (by_client_id s)\<rparr>))"

definition mem_add_or_get ::
    "mem_repo \<Rightarrow> order_record \<Rightarrow> (mem_repo \<times> order_record \<times> bool) result" where
  "mem_add_or_get s r =
     (case map_of (by_client_id s) (or_client_order_id r) of
        Some existing \<Rightarrow>
          (case map_of (by_order_id s) existing of
             None \<Rightarrow> Inl KeyError
           | Some x \<Rightarrow> Inr (s, x, False))
      | None \<Rightarrow> bindE (mem_add s r) (\<lambda>s'. Inr (s', r, True)))"

definition mem_update :: "mem_repo \<Rightarrow> order_record \<Rightarrow> mem_repo result" where
  "mem_update s r =
     (if map_of (by_order_id s) (or_order_id r) = None then Inl KeyError
      else Inr (s\<lparr>by_order_id := AList.update (or_order_id r) r (by_order_id s)\<rparr>))"

definition mem_get :: "mem_repo \<Rightarrow> string \<Rightarrow> order_record option result" where
  "mem_get s oid = Inr (map_of (by_order_id s) oid)"

definition mem_get_by_client :: "mem_repo \<Rightarrow> string \<Rightarrow> order_record option result" where
  "mem_get_by_client s cid =
     (case map_of (by_client_id s) cid of
        None \<Rightarrow> Inr None
      | Some oid \<Rightarrow> if oid = [] then Inr None else Inr (map_of (by_order_id s) oid))"

definition mem_all :: "mem_repo \<Rightarrow> order_record list result" where
  "mem_all s = Inr (values_of (by_order_id s))"

definition mem_open :: "mem_repo \<Rightarrow> order_record list result" where
  "mem_open s = Inr (filter (\<lambda>r. \<not> or_is_terminal r) (values_of (by_order_id s)))"

definition mem_scan_open :: "mem_repo \<Rightarrow> open_scan result" where
  "mem_scan_open s =
     bindE (mem_open s) (\<lambda>rs. Inr \<lparr>sc_records = rs, sc_unreadable = []\<rparr>)"

definition mem_record_unreadable ::
    "mem_repo \<Rightarrow> string \<Rightarrow> evidence \<Rightarrow> timestamp \<Rightarrow> mem_repo result" where
  "mem_record_unreadable s oid detail now = Inl KeyError"

text \<open>
  What an exception that leaves \<^verbatim>\<open>locked()\<close> makes of the store, from the store at entry and the
  store at the raise: here there is no transaction, and what was written stays.
\<close>

definition mem_abort :: "mem_repo \<Rightarrow> mem_repo \<Rightarrow> mem_repo" where
  "mem_abort entry raised = raised"

definition mem_ops :: "mem_repo order_ops" where
  "mem_ops =
     \<lparr>repo_durable = False, repo_add = mem_add, repo_add_or_get = mem_add_or_get,
      repo_update = mem_update, repo_get = mem_get, repo_get_by_client = mem_get_by_client,
      repo_all = mem_all, repo_open = mem_open, repo_scan_open = mem_scan_open,
      repo_record_unreadable = mem_record_unreadable, repo_abort = mem_abort\<rparr>"

subsection \<open>The contract\<close>

text \<open>
  A store may normalise the two lists a record carries (a database returns fills in its own order
  and drops repeated evidence) and may round an amount to what its column holds: \<open>col\<close> maps an
  amount to the stored one, \<open>None\<close> when the column cannot hold it. Every other field comes back
  as it was given.
\<close>

definition col_option :: "(rat \<Rightarrow> rat option) \<Rightarrow> rat option \<Rightarrow> rat option \<Rightarrow> bool" where
  "col_option col a b \<longleftrightarrow>
     (case a of None \<Rightarrow> b = None | Some x \<Rightarrow> col x \<noteq> None \<and> b = col x)"

definition bare :: "order_record \<Rightarrow> order_record" where
  "bare r =
     r\<lparr>or_filled_quantity := 0, or_average_fill_price := None, or_venue_leverage := None,
       or_fills := [], or_discrepancies := []\<rparr>"

definition same_columns ::
    "(rat \<Rightarrow> rat option) \<Rightarrow> order_record \<Rightarrow> order_record \<Rightarrow> bool" where
  "same_columns col r x \<longleftrightarrow>
     col (or_filled_quantity r) = Some (or_filled_quantity x) \<and>
     col_option col (or_average_fill_price r) (or_average_fill_price x) \<and>
     col_option col (or_venue_leverage r) (or_venue_leverage x) \<and> bare x = bare r"

lemma same_columns_refl [simp]: "same_columns Some r r"
  by (simp add: same_columns_def col_option_def split: option.splits)

lemma same_columns_field:
  assumes "same_columns col r x" and "\<And>y. f (bare y) = f y"
  shows "f x = f r"
proof -
  have "bare x = bare r" using assms(1) by (simp add: same_columns_def)
  then have "f (bare x) = f (bare r)" by (rule arg_cong)
  then show ?thesis by (simp only: assms(2))
qed

lemma same_columns_sel:
  assumes "same_columns col r x"
  shows "or_order_id x = or_order_id r" "or_client_order_id x = or_client_order_id r"
    "or_intent x = or_intent r" "or_state x = or_state r"
    "or_created_at x = or_created_at r" "or_updated_at x = or_updated_at r"
    "or_submitted_at x = or_submitted_at r" "or_terminal_at x = or_terminal_at r"
    "or_reconciliation_attempts x = or_reconciliation_attempts r"
    "or_resolved_by_operator x = or_resolved_by_operator r"
  by (rule same_columns_field [OF assms], simp add: bare_def)+

text \<open>
  The testnet service writes the quantity of an order that has not been sent a second time; every other
  field of an intent is written once.
\<close>

definition resized :: "rat \<Rightarrow> order_record \<Rightarrow> order_record" where
  "resized q r = r\<lparr>or_intent := (or_intent r)\<lparr>oi_quantity := q\<rparr>\<rparr>"

lemma resized_same: "q = oi_quantity (or_intent r) \<Longrightarrow> resized q r = r"
  by (simp add: resized_def)

text \<open>The amounts of a record that a store already holds.\<close>

definition money_stored :: "(rat \<Rightarrow> rat option) \<Rightarrow> order_record \<Rightarrow> bool" where
  "money_stored col r \<longleftrightarrow>
     col (or_filled_quantity r) = Some (or_filled_quantity r) \<and>
     col (oi_quantity (or_intent r)) = Some (oi_quantity (or_intent r)) \<and>
     col_option col (or_average_fill_price r) (or_average_fill_price r)"

text \<open>
  \<open>rows s\<close> is the abstract content of a store: the readable record of every order id. A store may
  also hold rows it cannot read back (\<open>damaged s\<close>). An update that succeeds replaces exactly one
  row; one that restates the state, the attempt count or the stamp of a stored order succeeds, and
  is read back exactly. An order that is added comes back as given when it is \<open>storable\<close>.
\<close>

locale order_repository =
  fixes R :: "'r order_ops"
    and inv :: "'r \<Rightarrow> bool"
    and rows :: "'r \<Rightarrow> string \<Rightarrow> order_record option"
    and damaged :: "'r \<Rightarrow> string set"
    and storable :: "order_record \<Rightarrow> bool"
    and col :: "rat \<Rightarrow> rat option"
  assumes get_row: "inv s \<Longrightarrow> oid \<notin> damaged s \<Longrightarrow> repo_get R s oid = Inr (rows s oid)"
    and get_damaged: "inv s \<Longrightarrow> oid \<in> damaged s \<Longrightarrow> \<exists>e. repo_get R s oid = Inl e"
    and row_id: "inv s \<Longrightarrow> rows s oid = Some r \<Longrightarrow> or_order_id r = oid"
    and row_not_damaged: "inv s \<Longrightarrow> rows s oid = Some r \<Longrightarrow> oid \<notin> damaged s"
    and client_unique:
      "inv s \<Longrightarrow> rows s a = Some r \<Longrightarrow> rows s b = Some r' \<Longrightarrow>
       or_client_order_id r = or_client_order_id r' \<Longrightarrow> a = b"
    and col_mono: "col p = Some p' \<Longrightarrow> col q = Some q' \<Longrightarrow> p \<le> q \<Longrightarrow> p' \<le> q'"
    and col_dec28: "col p = Some q \<Longrightarrow> dec28 p \<Longrightarrow> dec28 q"
    and row_stored: "inv s \<Longrightarrow> rows s oid = Some r \<Longrightarrow> money_stored col r"
    and restate_row:
      "inv s \<Longrightarrow> rows s oid = Some r \<Longrightarrow> or_reconciliation_attempts r \<le> n \<Longrightarrow>
       x = r\<lparr>or_state := st, or_reconciliation_attempts := n, or_updated_at := now\<rparr> \<Longrightarrow>
       \<exists>s'. repo_update R s x = Inr s' \<and> inv s' \<and> rows s' = (rows s)(oid \<mapsto> x) \<and>
            damaged s' = damaged s"
    and update_law:
      "inv s \<Longrightarrow> rows s (or_order_id r) = Some old \<Longrightarrow>
       or_client_order_id r = or_client_order_id old \<Longrightarrow>
       or_intent r = (or_intent old)\<lparr>oi_quantity := q\<rparr> \<Longrightarrow>
       or_created_at r = or_created_at old \<Longrightarrow> repo_update R s r = Inr s' \<Longrightarrow>
       inv s' \<and>
       ((\<exists>x q'. col q = Some q' \<and> same_columns col (resized q' r) x \<and>
                rows s' = (rows s)(or_order_id r \<mapsto> x)) \<and>
          damaged s' = damaged s \<or>
        rows s' = (rows s)(or_order_id r := None) \<and>
        damaged s' = insert (or_order_id r) (damaged s))"
    and add_row:
      "inv s \<Longrightarrow> rows s (or_order_id r) = None \<Longrightarrow> or_order_id r \<notin> damaged s \<Longrightarrow>
       or_order_id r \<noteq> [] \<Longrightarrow> storable r \<Longrightarrow> repo_add_or_get R s r = Inr (s', x, created) \<Longrightarrow>
       inv s' \<and> damaged s' = damaged s \<and>
       (if created then x = r \<and> rows s' = (rows s)(or_order_id r \<mapsto> r)
        else s' = s \<and> rows s (or_order_id x) = Some x \<and>
             or_client_order_id x = or_client_order_id r)"
    and scan_rows:
      "inv s \<Longrightarrow>
       \<exists>sc. repo_scan_open R s = Inr sc \<and> distinct (map or_order_id (sc_records sc)) \<and>
            (\<forall>r. r \<in> set (sc_records sc) \<longleftrightarrow>
                 rows s (or_order_id r) = Some r \<and> \<not> or_is_terminal r) \<and>
            (uo_order_id ` set (sc_unreadable sc) \<subseteq> damaged s)"
    and unreadable_law:
      "inv s \<Longrightarrow> oid \<in> damaged s \<Longrightarrow>
       \<exists>s'. repo_record_unreadable R s oid detail now = Inr s' \<and> inv s' \<and> rows s' = rows s \<and>
            damaged s' = damaged s"
    and abort_law: "repo_abort R s s' = s \<or> repo_abort R s s' = s'"
begin

lemma get_Some:
  "inv s \<Longrightarrow> repo_get R s oid = Inr (Some r) \<longleftrightarrow> rows s oid = Some r"
  using get_row [of s oid] get_damaged [of s oid] row_not_damaged [of s oid r] by fastforce

lemma get_Inr: "inv s \<Longrightarrow> repo_get R s oid = Inr x \<Longrightarrow> rows s oid = x"
  using get_row [of s oid] get_damaged [of s oid] by fastforce

text \<open>Writing a record whose quantity is the stored one.\<close>

lemma update_result:
  assumes "inv s" and old: "rows s (or_order_id r) = Some old"
    and "or_client_order_id r = or_client_order_id old" and same: "or_intent r = or_intent old"
    and "or_created_at r = or_created_at old" and "repo_update R s r = Inr s'"
  shows "inv s' \<and>
       ((\<exists>x. same_columns col r x \<and> rows s' = (rows s)(or_order_id r \<mapsto> x)) \<and>
          damaged s' = damaged s \<or>
        rows s' = (rows s)(or_order_id r := None) \<and>
        damaged s' = insert (or_order_id r) (damaged s))"
proof -
  let ?q = "oi_quantity (or_intent old)"
  have "col ?q = Some ?q" using row_stored [OF assms(1) old] by (simp add: money_stored_def)
  moreover have "resized ?q r = r" by (rule resized_same) (simp add: same)
  ultimately show ?thesis
    using update_law [OF assms(1,2,3) _ assms(5,6), of ?q] same by (auto simp: same)
qed

text \<open>An update touches one order: every other order reads as before.\<close>

lemma update_frame:
  assumes "inv s" and "rows s (or_order_id r) = Some old"
    and "or_client_order_id r = or_client_order_id old" and "or_intent r = or_intent old"
    and "or_created_at r = or_created_at old" and "repo_update R s r = Inr s'"
    and "oid \<noteq> or_order_id r"
  shows "rows s' oid = rows s oid"
  using update_result [OF assms(1-6)] assms(7) by (elim conjE disjE exE) simp_all

end

subsection \<open>The in-memory repository keeps the contract\<close>

text \<open>The two dictionaries index the same orders: \<open>B\<close> by order id, \<open>C\<close> by client order id.\<close>

definition index_ok ::
    "('v \<Rightarrow> string) \<Rightarrow> ('v \<Rightarrow> string) \<Rightarrow> (string \<Rightarrow> 'v option) \<Rightarrow> (string \<Rightarrow> string option) \<Rightarrow> bool"
where
  "index_ok f g B C \<longleftrightarrow>
     (\<forall>oid r. B oid = Some r \<longrightarrow> f r = oid \<and> oid \<noteq> [] \<and> C (g r) = Some oid) \<and>
     (\<forall>cid oid. C cid = Some oid \<longrightarrow> (\<exists>r. B oid = Some r \<and> g r = cid))"

lemma index_ok_row:
  "index_ok f g B C \<Longrightarrow> B oid = Some r \<Longrightarrow> f r = oid \<and> oid \<noteq> [] \<and> C (g r) = Some oid"
  by (simp add: index_ok_def)

lemma index_ok_client:
  "index_ok f g B C \<Longrightarrow> C cid = Some oid \<Longrightarrow> \<exists>r. B oid = Some r \<and> g r = cid"
  by (simp add: index_ok_def)

lemma index_ok_empty: "index_ok f g (\<lambda>_. None) (\<lambda>_. None)"
  by (simp add: index_ok_def)

lemma index_ok_unique:
  assumes "index_ok f g B C" and "B a = Some r" and "B b = Some r'" and "g r = g r'"
  shows "a = b"
  using index_ok_row [OF assms(1,2)] index_ok_row [OF assms(1,3)] assms(4) by simp

lemma index_ok_update:
  assumes "index_ok f g B C" and "B (f r) = Some old" and "g r = g old"
  shows "index_ok f g (B(f r \<mapsto> r)) C"
  unfolding index_ok_def
proof (intro conjI allI impI)
  fix oid x
  assume "(B(f r \<mapsto> r)) oid = Some x"
  then show "f x = oid" "oid \<noteq> []" "C (g x) = Some oid"
    using index_ok_row [OF assms(1,2)] index_ok_row [OF assms(1), of oid x] assms(3)
    by (auto split: if_splits)
next
  fix cid oid
  assume c: "C cid = Some oid"
  show "\<exists>x. (B(f r \<mapsto> r)) oid = Some x \<and> g x = cid"
    using index_ok_client [OF assms(1) c] assms(2,3) by (cases "oid = f r") auto
qed

lemma index_ok_add:
  assumes "index_ok f g B C" and "B (f r) = None" and "C (g r) = None" and "f r \<noteq> []"
  shows "index_ok f g (B(f r \<mapsto> r)) (C(g r \<mapsto> f r))"
  unfolding index_ok_def
proof (intro conjI allI impI)
  fix oid x
  assume "(B(f r \<mapsto> r)) oid = Some x"
  then show "f x = oid" "oid \<noteq> []" "(C(g r \<mapsto> f r)) (g x) = Some oid"
    using index_ok_row [OF assms(1), of oid x] assms(3,4) by (auto split: if_splits)
next
  fix cid oid
  assume c: "(C(g r \<mapsto> f r)) cid = Some oid"
  show "\<exists>x. (B(f r \<mapsto> r)) oid = Some x \<and> g x = cid"
    using index_ok_client [OF assms(1), of cid oid] assms(2) c by (cases "cid = g r") auto
qed

text \<open>The values of a dictionary keyed by a field of the value.\<close>

lemma in_values_iff:
  assumes "distinct (map fst d)" and "\<And>k v. map_of d k = Some v \<Longrightarrow> f v = k"
  shows "v \<in> set (values_of d) \<longleftrightarrow> map_of d (f v) = Some v"
proof
  assume "v \<in> set (values_of d)"
  then obtain k where "(k, v) \<in> set d" by (auto simp: values_of_def)
  then have "map_of d k = Some v" by (simp add: map_of_Some_set [OF assms(1)])
  with assms(2) show "map_of d (f v) = Some v" by metis
next
  assume "map_of d (f v) = Some v"
  then show "v \<in> set (values_of d)" unfolding values_of_def by (force dest: map_of_SomeD)
qed

lemma values_distinct:
  assumes "distinct (map fst d)" and "\<And>k v. map_of d k = Some v \<Longrightarrow> f v = k"
  shows "distinct (map f (values_of d))"
proof -
  have "f (snd p) = fst p" if "p \<in> set d" for p
    by (rule assms(2)) (use that in \<open>simp add: map_of_Some_set [OF assms(1)]\<close>)
  then have "map f (values_of d) = map fst d" by (simp add: values_of_def)
  with assms(1) show ?thesis by simp
qed

definition mem_index :: "mem_repo \<Rightarrow> bool" where
  "mem_index s \<longleftrightarrow> index_ok or_order_id or_client_order_id
     (map_of (by_order_id s)) (map_of (by_client_id s))"

definition mem_inv :: "mem_repo \<Rightarrow> bool" where
  "mem_inv s \<longleftrightarrow> distinct (map fst (by_order_id s)) \<and> mem_index s"

definition mem_rows :: "mem_repo \<Rightarrow> string \<Rightarrow> order_record option" where
  "mem_rows s = map_of (by_order_id s)"

lemma mem_inv_empty: "mem_inv mem_empty"
  unfolding mem_inv_def mem_index_def mem_empty_def by (simp add: index_ok_empty)

lemma mem_inv_index:
  "mem_inv s \<Longrightarrow> index_ok or_order_id or_client_order_id (mem_rows s) (map_of (by_client_id s))"
  unfolding mem_inv_def mem_index_def mem_rows_def by (rule conjunct2)

lemma mem_row_id: "mem_inv s \<Longrightarrow> mem_rows s oid = Some r \<Longrightarrow> or_order_id r = oid"
  by (drule mem_inv_index, drule (1) index_ok_row) (rule conjunct1)

lemma mem_client_unique:
  "mem_inv s \<Longrightarrow> mem_rows s a = Some r \<Longrightarrow> mem_rows s b = Some r' \<Longrightarrow>
   or_client_order_id r = or_client_order_id r' \<Longrightarrow> a = b"
  by (drule mem_inv_index) (rule index_ok_unique)

lemma mem_update_inv:
  assumes "mem_inv s" and "mem_rows s (or_order_id r) = Some old"
    and "or_client_order_id r = or_client_order_id old"
  shows "\<exists>s'. mem_update s r = Inr s' \<and> mem_inv s' \<and>
           mem_rows s' = (mem_rows s)(or_order_id r \<mapsto> r)"
proof -
  have "index_ok or_order_id or_client_order_id ((mem_rows s)(or_order_id r \<mapsto> r))
      (map_of (by_client_id s))"
    using mem_inv_index [OF assms(1)] assms(2,3) by (rule index_ok_update)
  with assms(1,2) show ?thesis
    unfolding mem_update_def mem_rows_def mem_inv_def mem_index_def
    by (simp add: map_of_update keys_distinct_update)
qed

lemma mem_add_inv:
  assumes inv: "mem_inv s" and fresh: "mem_rows s (or_order_id r) = None" "or_order_id r \<noteq> []"
    and new: "map_of (by_client_id s) (or_client_order_id r) = None"
  shows "\<exists>s'. mem_add s r = Inr s' \<and> mem_inv s' \<and> mem_rows s' = (mem_rows s)(or_order_id r \<mapsto> r)"
proof -
  have "index_ok or_order_id or_client_order_id ((mem_rows s)(or_order_id r \<mapsto> r))
      ((map_of (by_client_id s))(or_client_order_id r \<mapsto> or_order_id r))"
    using mem_inv_index [OF inv] fresh(1) new fresh(2) by (rule index_ok_add)
  with inv new show ?thesis
    unfolding mem_add_def mem_rows_def mem_inv_def mem_index_def
    by (simp add: map_of_update keys_distinct_update)
qed

lemma mem_add_or_get_inv:
  assumes inv: "mem_inv s" and fresh: "mem_rows s (or_order_id r) = None" "or_order_id r \<noteq> []"
    and ok: "mem_add_or_get s r = Inr (s', x, created)"
  shows "mem_inv s' \<and>
       (if created then x = r \<and> mem_rows s' = (mem_rows s)(or_order_id r \<mapsto> r)
        else s' = s \<and> mem_rows s (or_order_id x) = Some x \<and>
             or_client_order_id x = or_client_order_id r)"
proof (cases "map_of (by_client_id s) (or_client_order_id r)")
  case None
  from mem_add_inv [OF inv fresh None] obtain s2 where
    s2: "mem_add s r = Inr s2" "mem_inv s2" "mem_rows s2 = (mem_rows s)(or_order_id r \<mapsto> r)"
    by iprover
  have "s' = s2" "x = r" "created" using ok None s2(1) by (simp_all add: mem_add_or_get_def)
  with s2(2,3) show ?thesis by simp
next
  case (Some oid)
  from index_ok_client [OF mem_inv_index [OF inv] Some] obtain y where
    y: "mem_rows s oid = Some y" "or_client_order_id y = or_client_order_id r" by iprover
  have "s' = s" "x = y" "\<not> created"
    using ok Some y(1) by (simp_all add: mem_add_or_get_def mem_rows_def)
  with y mem_row_id [OF inv y(1)] inv show ?thesis by simp
qed

lemma mem_scan_rows:
  assumes inv: "mem_inv s"
  shows "\<exists>sc. mem_scan_open s = Inr sc \<and> distinct (map or_order_id (sc_records sc)) \<and>
      (\<forall>r. r \<in> set (sc_records sc) \<longleftrightarrow> mem_rows s (or_order_id r) = Some r \<and> \<not> or_is_terminal r) \<and>
      uo_order_id ` set (sc_unreadable sc) \<subseteq> {}"
proof -
  have d: "distinct (map fst (by_order_id s))"
    using inv unfolding mem_inv_def by (rule conjunct1)
  have k: "or_order_id v = k" if "map_of (by_order_id s) k = Some v" for k v
    using mem_row_id [OF inv] that unfolding mem_rows_def by iprover
  show ?thesis
    unfolding mem_scan_open_def mem_open_def mem_rows_def
    using in_values_iff [OF d k] values_distinct [OF d k]
    by (simp add: distinct_map_filter)
qed

lemma mem_ops_sel [simp]:
  "repo_durable mem_ops = False" "repo_add mem_ops = mem_add"
  "repo_add_or_get mem_ops = mem_add_or_get" "repo_update mem_ops = mem_update"
  "repo_get mem_ops = mem_get" "repo_get_by_client mem_ops = mem_get_by_client"
  "repo_all mem_ops = mem_all" "repo_open mem_ops = mem_open"
  "repo_scan_open mem_ops = mem_scan_open"
  "repo_record_unreadable mem_ops = mem_record_unreadable" "repo_abort mem_ops = mem_abort"
  by (simp_all add: mem_ops_def)

interpretation mem: order_repository mem_ops mem_inv mem_rows "\<lambda>_. {}" "\<lambda>_. True" Some
proof (unfold_locales, goal_cases)
  case (1 s oid)
  show ?case by (simp add: mem_get_def mem_rows_def)
next
  case (2 s oid)
  from 2(2) show ?case by simp
next
  case (3 s oid r)
  then show ?case by (rule mem_row_id)
next
  case (4 s oid r)
  show ?case by simp
next
  case (5 s a r b r')
  then show ?case by (rule mem_client_unique)
next
  case (6 p p2 q q2)
  then show ?case by simp
next
  case (7 p q)
  then show ?case by simp
next
  case (8 s oid r)
  show ?case by (simp add: money_stored_def col_option_def split: option.splits)
next
  case (9 s oid r n x st now)
  have ids: "or_order_id x = oid" "or_client_order_id x = or_client_order_id r"
    using mem_row_id [OF 9(1,2)] by (simp_all add: 9(4))
  from mem_update_inv [of s x r] 9(1,2) show ?case unfolding ids by simp
next
  case (10 s r old q s')
  have "resized q r = r" by (rule resized_same) (simp add: 10(4))
  with mem_update_inv [OF 10(1-3)] 10(6) same_columns_refl [of r]
  show ?case by (elim exE conjE) (intro conjI disjI1 exI [of _ r] exI [of _ q], simp_all)
next
  case (11 s r s' x created)
  from 11(6) have "mem_add_or_get s r = Inr (s', x, created)" by simp
  from mem_add_or_get_inv [OF 11(1,2,4) this] show ?case by simp
next
  case (12 s)
  from mem_scan_rows [OF 12] show ?case by simp
next
  case (13 s oid detail now)
  from 13(2) show ?case by simp
next
  case (14 s s')
  show ?case by (simp add: mem_abort_def)
qed

end
