(* ===== verification/OrderEngine.thy ===== *)
theory OrderEngine
  imports Reconcile OrderIdentity OrderStore
begin

section \<open>The order lifecycle engine\<close>

text \<open>
  \<^verbatim>\<open>engines/order/engine.py\<close>. The engine holds nothing but its repository, so every method is an
  action over the repository's store, with the repository \<open>R\<close> as a parameter and \<open>now\<close> passed in.
  What a method computes from the record it holds is a pure function of that record
  (\<open>move_to\<close>, \<open>fill_step\<close>, \<open>conclude\<close>, \ldots); the method is that function between the locked read
  and the write.
\<close>

subsection \<open>Access to the repository\<close>

definition save :: "'r order_ops \<Rightarrow> order_record \<Rightarrow> ('r, order_record) act" where
  "save R r s = (case repo_update R s r of Inl e \<Rightarrow> (s, Inl e) | Inr s' \<Rightarrow> (s', Inr r))"

text \<open>\<^verbatim>\<open>async with repository.locked(order_id)\<close>: an exception inside the block reaches the store.\<close>

definition locked ::
    "'r order_ops \<Rightarrow> string \<Rightarrow> (order_record option \<Rightarrow> ('r, 'a) act) \<Rightarrow> ('r, 'a) act" where
  "locked R oid body s =
     (case repo_get R s oid of
        Inl e \<Rightarrow> (s, Inl e)
      | Inr m \<Rightarrow>
          (case body m s of
             (s', Inl e) \<Rightarrow> (repo_abort R s s', Inl e)
           | (s', Inr x) \<Rightarrow> (s', Inr x)))"

definition held ::
    "'r order_ops \<Rightarrow> string \<Rightarrow> (order_record \<Rightarrow> ('r, 'a) act) \<Rightarrow> ('r, 'a) act" where
  "held R oid body =
     locked R oid (\<lambda>m. case m of None \<Rightarrow> raiseA KeyError | Some r \<Rightarrow> body r)"

definition require :: "'r order_ops \<Rightarrow> string \<Rightarrow> ('r, order_record) act" where
  "require R oid s =
     (s, bindE (repo_get R s oid) (\<lambda>m. case m of None \<Rightarrow> Inl KeyError | Some r \<Rightarrow> Inr r))"

text \<open>Read one order under its lock, compute its next version, write it.\<close>

definition update_held ::
    "'r order_ops \<Rightarrow> string \<Rightarrow> (order_record \<Rightarrow> order_record result) \<Rightarrow> ('r, order_record) act" where
  "update_held R oid f = held R oid (\<lambda>r. bindA (liftA (f r)) (save R))"

subsection \<open>Creation and the risk gate\<close>

definition build :: "(string \<Rightarrow> nat \<Rightarrow> nat list) \<Rightarrow> string \<Rightarrow> order_intent \<Rightarrow> order_record result" where
  "build blake2b uuid_hex intent =
     bindE (client_order_id blake2b (oi_account_id intent) (oi_intent_key intent)) (\<lambda>cid.
       Inr \<lparr>or_order_id = new_order_id uuid_hex, or_client_order_id = cid,
            or_venue_order_id = None, or_intent = intent, or_state = CREATED,
            or_filled_quantity = 0, or_average_fill_price = None, or_fills = [],
            or_created_at = oi_created_at intent, or_updated_at = oi_created_at intent,
            or_submitted_at = None, or_terminal_at = None, or_rejection_code = None,
            or_venue_rejection = None, or_venue_status_raw = None, or_last_polled_at = None,
            or_venue_leverage = None, or_venue_margin_mode = None,
            or_reconciliation_attempts = 0, or_last_reconciled_at = None,
            or_discrepancies = [], or_resolved_by_operator = None, or_operator_reason = None\<rparr>)"

definition create ::
    "'r order_ops \<Rightarrow> (string \<Rightarrow> nat \<Rightarrow> nat list) \<Rightarrow> string \<Rightarrow> order_intent \<Rightarrow>
     ('r, order_record) act" where
  "create R blake2b uuid_hex intent s =
     (case bindE (build blake2b uuid_hex intent)
             (\<lambda>r. bindE (repo_add R s r) (\<lambda>s'. Inr (s', r))) of
        Inl e \<Rightarrow> (s, Inl e) | Inr (s', r) \<Rightarrow> (s', Inr r))"

definition create_or_get ::
    "'r order_ops \<Rightarrow> (string \<Rightarrow> nat \<Rightarrow> nat list) \<Rightarrow> string \<Rightarrow> order_intent \<Rightarrow>
     ('r, order_record \<times> bool) act" where
  "create_or_get R blake2b uuid_hex intent s =
     (case bindE (build blake2b uuid_hex intent) (repo_add_or_get R s) of
        Inl e \<Rightarrow> (s, Inl e) | Inr (s', r, created) \<Rightarrow> (s', Inr (r, created)))"

text \<open>\<^verbatim>\<open>_move\<close>.\<close>

definition move_to ::
    "order_state \<Rightarrow> timestamp \<Rightarrow> timestamp option \<Rightarrow> order_record \<Rightarrow> order_record result" where
  "move_to target now submitted_at r =
     bindE (check_transition (or_state r) target) (\<lambda>_.
       Inr (r\<lparr>or_state := target, or_updated_at := now,
              or_submitted_at :=
                (case submitted_at of None \<Rightarrow> or_submitted_at r | Some t \<Rightarrow> Some t),
              or_terminal_at := (if is_terminal target then Some now else or_terminal_at r)\<rparr>))"

definition mark_validating ::
    "'r order_ops \<Rightarrow> string \<Rightarrow> timestamp \<Rightarrow> ('r, order_record) act" where
  "mark_validating R oid now = update_held R oid (move_to VALIDATING now None)"

definition reject_by_risk ::
    "risk_rejection_code \<Rightarrow> timestamp \<Rightarrow> order_record \<Rightarrow> order_record result" where
  "reject_by_risk code now r =
     bindE (check_transition (or_state r) REJECTED) (\<lambda>_.
       Inr (r\<lparr>or_state := REJECTED, or_rejection_code := Some code, or_updated_at := now,
              or_terminal_at := Some now\<rparr>))"

definition mark_risk_rejected ::
    "'r order_ops \<Rightarrow> string \<Rightarrow> risk_rejection_code \<Rightarrow> timestamp \<Rightarrow> ('r, order_record) act" where
  "mark_risk_rejected R oid code now = update_held R oid (reject_by_risk code now)"

definition cancel_unsent :: "timestamp \<Rightarrow> order_record \<Rightarrow> order_record result" where
  "cancel_unsent now r =
     (if reached_venue r then Inl IllegalTransitionError
      else bindE (check_transition (or_state r) CANCELLED) (\<lambda>_.
        Inr (r\<lparr>or_state := CANCELLED, or_updated_at := now, or_terminal_at := Some now\<rparr>)))"

definition cancel_before_submission ::
    "'r order_ops \<Rightarrow> string \<Rightarrow> timestamp \<Rightarrow> ('r, order_record) act" where
  "cancel_before_submission R oid now = update_held R oid (cancel_unsent now)"

subsection \<open>The uncertainty window\<close>

definition mark_submitting ::
    "'r order_ops \<Rightarrow> string \<Rightarrow> timestamp \<Rightarrow> ('r, order_record) act" where
  "mark_submitting R oid now = update_held R oid (move_to SUBMITTED now (Some now))"

definition acknowledge ::
    "string \<Rightarrow> order_state \<Rightarrow> timestamp \<Rightarrow> order_record \<Rightarrow> order_record result" where
  "acknowledge venue_order_id state now r =
     bindE (check_transition (or_state r) state) (\<lambda>_.
       Inr (r\<lparr>or_state := state, or_venue_order_id := Some venue_order_id, or_updated_at := now,
              or_terminal_at := (if is_terminal state then Some now else or_terminal_at r)\<rparr>))"

definition apply_venue_ack ::
    "'r order_ops \<Rightarrow> string \<Rightarrow> string \<Rightarrow> order_state \<Rightarrow> timestamp \<Rightarrow> ('r, order_record) act" where
  "apply_venue_ack R oid venue_order_id state now =
     update_held R oid (acknowledge venue_order_id state now)"

definition lose_track :: "timestamp \<Rightarrow> order_record \<Rightarrow> order_record result" where
  "lose_track now r =
     bindE (check_transition (or_state r) UNKNOWN) (\<lambda>_.
       Inr (r\<lparr>or_state := UNKNOWN, or_updated_at := now\<rparr>))"

definition mark_unknown ::
    "'r order_ops \<Rightarrow> string \<Rightarrow> timestamp \<Rightarrow> ('r, order_record) act" where
  "mark_unknown R oid now = update_held R oid (lose_track now)"

subsection \<open>Fills\<close>

text \<open>\<^verbatim>\<open>_record_discrepancy\<close>.\<close>

definition with_discrepancy :: "evidence \<Rightarrow> timestamp \<Rightarrow> order_record \<Rightarrow> order_record" where
  "with_discrepancy detail now r =
     r\<lparr>or_discrepancies := or_discrepancies r @
          [\<lparr>od_observed_at = now, od_detail = detail, od_local_state = or_state r,
            od_venue_state = None\<rparr>],
       or_last_reconciled_at := Some now, or_updated_at := now\<rparr>"

definition fill_average :: "order_fill list \<Rightarrow> rat \<Rightarrow> rat option result" where
  "fill_average fills new_total =
     (let notional = d_sum (map (\<lambda>f. d_mul (of_price f) (of_quantity f)) fills)
      in if 0 < new_total
         then bindE (d_div notional new_total) (\<lambda>q. bindE (quantize_usdt q) (\<lambda>a. Inr (Some a)))
         else Inr None)"

definition fill_step :: "order_fill \<Rightarrow> timestamp \<Rightarrow> order_record \<Rightarrow> order_record result" where
  "fill_step fill now r =
     (let new_total = d_add (or_filled_quantity r) (of_quantity fill)
      in if oi_quantity (or_intent r) < new_total
         then Inr (with_discrepancy (FillPastQuantity (of_quantity fill) (or_order_id r) new_total
                     (oi_quantity (or_intent r))) now r)
         else
           let target = (if new_total = oi_quantity (or_intent r) then FILLED else PARTIALLY_FILLED)
           in bindE (check_transition (or_state r) target) (\<lambda>_.
              let fills = or_fills r @ [fill]
              in bindE (fill_average fills new_total) (\<lambda>average.
                 Inr (r\<lparr>or_state := target, or_fills := fills, or_filled_quantity := new_total,
                        or_average_fill_price := average, or_updated_at := now,
                        or_terminal_at :=
                          (if is_terminal target then Some now else or_terminal_at r)\<rparr>))))"

definition apply_fill ::
    "'r order_ops \<Rightarrow> string \<Rightarrow> order_fill \<Rightarrow> timestamp \<Rightarrow> ('r, order_record) act" where
  "apply_fill R oid fill now = update_held R oid (fill_step fill now)"

subsection \<open>Reconciliation\<close>

definition start_reconciling :: "timestamp \<Rightarrow> order_record \<Rightarrow> order_record result" where
  "start_reconciling now r =
     bindE (check_transition (or_state r) RECONCILING) (\<lambda>_.
       Inr (r\<lparr>or_state := RECONCILING,
              or_reconciliation_attempts := or_reconciliation_attempts r + 1,
              or_updated_at := now\<rparr>))"

definition begin_reconciliation ::
    "'r order_ops \<Rightarrow> string \<Rightarrow> timestamp \<Rightarrow> ('r, order_record) act" where
  "begin_reconciliation R oid now = update_held R oid (start_reconciling now)"

definition touched :: "timestamp \<Rightarrow> order_record \<Rightarrow> order_record" where
  "touched now r = r\<lparr>or_last_reconciled_at := Some now, or_updated_at := now\<rparr>"

definition adopt ::
    "reconciliation_decision \<Rightarrow> order_state \<Rightarrow> timestamp \<Rightarrow> order_record \<Rightarrow> order_record" where
  "adopt d target now r =
     (let r1 = r\<lparr>or_state := target, or_last_reconciled_at := Some now, or_updated_at := now\<rparr>;
          r2 = (case rd_venue_order_id d of None \<Rightarrow> r1
                | Some v \<Rightarrow> r1\<lparr>or_venue_order_id := Some v\<rparr>);
          r3 = (case rd_filled_quantity d of None \<Rightarrow> r2
                | Some q \<Rightarrow> r2\<lparr>or_filled_quantity := q, or_fills := [],
                               or_average_fill_price := rd_average_fill_price d\<rparr>)
      in if is_terminal target then r3\<lparr>or_terminal_at := Some now\<rparr> else r3)"

text \<open>What one decision makes of one record; \<open>None\<close> is "return it, write nothing".\<close>

definition conclude ::
    "reconciliation_decision \<Rightarrow> timestamp \<Rightarrow> order_record \<Rightarrow> order_record option result" where
  "conclude d now r =
     (if rd_action d = RECORD_DISCREPANCY
      then Inr (Some (with_discrepancy
             (case rd_discrepancy d of None \<Rightarrow> DecisionDetail | Some e \<Rightarrow> e) now r))
      else if rd_action d = VENUE_UNREACHABLE then Inr (Some (touched now r))
      else case rd_target_state d of
        None \<Rightarrow> Inr None
      | Some target \<Rightarrow>
          if target = or_state r then Inr (Some (touched now r))
          else bindE (check_transition (or_state r) target) (\<lambda>_.
            Inr (Some (adopt d target now r))))"

definition apply_reconciliation ::
    "'r order_ops \<Rightarrow> string \<Rightarrow> reconciliation_decision \<Rightarrow> timestamp \<Rightarrow> ('r, order_record) act" where
  "apply_reconciliation R oid d now =
     held R oid (\<lambda>r. bindA (liftA (conclude d now r))
       (\<lambda>m. case m of None \<Rightarrow> returnA r | Some r' \<Rightarrow> save R r'))"

definition reconcile ::
    "'r order_ops \<Rightarrow> string \<Rightarrow> venue_order_view option \<Rightarrow> bool \<Rightarrow> timestamp \<Rightarrow>
     ('r, order_record \<times> reconciliation_decision) act" where
  "reconcile R oid view venue_reachable now =
     held R oid (\<lambda>h. let d = decide h view venue_reachable
       in bindA (apply_reconciliation R oid d now) (\<lambda>r. returnA (r, d)))"

definition settle_by_operator ::
    "order_state \<Rightarrow> string \<Rightarrow> string \<Rightarrow> timestamp \<Rightarrow> order_record \<Rightarrow> order_record result" where
  "settle_by_operator to_state operator reason now r =
     bindE (check_transition (or_state r) to_state) (\<lambda>_.
       Inr (r\<lparr>or_state := to_state, or_resolved_by_operator := Some operator,
              or_operator_reason := Some reason, or_last_reconciled_at := Some now,
              or_updated_at := now,
              or_terminal_at := (if is_terminal to_state then Some now else or_terminal_at r)\<rparr>))"

definition resolve_manually ::
    "'r order_ops \<Rightarrow> string \<Rightarrow> order_state \<Rightarrow> string \<Rightarrow> string \<Rightarrow> timestamp \<Rightarrow>
     ('r, order_record) act" where
  "resolve_manually R oid to_state operator reason now =
     held R oid (\<lambda>r.
       if \<not> is_unreconciled r then raiseA IllegalTransitionError
       else bindA (if or_state r = UNKNOWN then begin_reconciliation R oid now else returnA r)
         (\<lambda>r1. bindA (liftA (settle_by_operator to_state operator reason now r1)) (save R)))"

subsection \<open>What the risk engine asks\<close>

definition bookkeeping :: "'r order_ops \<Rightarrow> 'r \<Rightarrow> order_bookkeeping result" where
  "bookkeeping R s =
     bindE (repo_all R s) (\<lambda>rs. Inr
       \<lparr>bk_total = int (length rs),
        bk_open_orders = int (length (filter (\<lambda>r. is_open (or_state r)) rs)),
        bk_unreconciled = int (length (blocking_orders rs)),
        bk_terminal = int (length (filter or_is_terminal rs)),
        bk_discrepancies = sum_list (map (\<lambda>r. int (length (or_discrepancies r))) rs)\<rparr>)"

definition unreconciled_orders :: "'r order_ops \<Rightarrow> 'r \<Rightarrow> order_record list result" where
  "unreconciled_orders R s = bindE (repo_all R s) (\<lambda>rs. Inr (blocking_orders rs))"

definition reconciliation_pending :: "'r order_ops \<Rightarrow> 'r \<Rightarrow> int result" where
  "reconciliation_pending R s =
     bindE (repo_scan_open R s) (\<lambda>sc. if scan_blocking sc = 0 then Inr 0 else Inr (scan_blocking sc))"

definition orders_needing_reconciliation :: "'r order_ops \<Rightarrow> 'r \<Rightarrow> order_record list result" where
  "orders_needing_reconciliation R s = repo_open R s"

subsection \<open>Recovery\<close>

record recovery_report =
  rr_durable :: bool
  rr_scanned :: int
  rr_interrupted :: "string list"
  rr_never_submitted :: "string list"
  rr_already_unresolved :: "string list"
  rr_unreadable :: "string list"

definition rr_blocking :: "recovery_report \<Rightarrow> int" where
  "rr_blocking p =
     int (length (rr_interrupted p)) + int (length (rr_already_unresolved p)) +
     int (length (rr_unreadable p))"

definition empty_report :: "bool \<Rightarrow> recovery_report" where
  "empty_report d =
     \<lparr>rr_durable = d, rr_scanned = 0, rr_interrupted = [], rr_never_submitted = [],
      rr_already_unresolved = [], rr_unreadable = []\<rparr>"

fun recover_records ::
    "'r order_ops \<Rightarrow> timestamp \<Rightarrow> order_record list \<Rightarrow> recovery_report \<Rightarrow> ('r, recovery_report) act"
where
  "recover_records R now [] p = returnA p"
| "recover_records R now (r # rs) p =
     (if is_unreconciled r
      then recover_records R now rs
             (p\<lparr>rr_already_unresolved := rr_already_unresolved p @ [or_order_id r]\<rparr>)
      else if \<not> reached_venue r
      then recover_records R now rs
             (p\<lparr>rr_never_submitted := rr_never_submitted p @ [or_order_id r]\<rparr>)
      else bindA (mark_unknown R (or_order_id r) now)
             (\<lambda>_. recover_records R now rs
                    (p\<lparr>rr_interrupted := rr_interrupted p @ [or_order_id r]\<rparr>)))"

fun record_damaged ::
    "'r order_ops \<Rightarrow> timestamp \<Rightarrow> unreadable_order list \<Rightarrow> ('r, unit) act" where
  "record_damaged R now [] = returnA ()"
| "record_damaged R now (d # ds) =
     (\<lambda>s. case repo_record_unreadable R s (uo_order_id d) (NotLoadable (uo_reason d) (uo_state d)) now of
        Inl e \<Rightarrow> (s, Inl e) | Inr s' \<Rightarrow> record_damaged R now ds s')"

definition recover :: "'r order_ops \<Rightarrow> timestamp \<Rightarrow> ('r, recovery_report) act" where
  "recover R now =
     (if \<not> repo_durable R then returnA (empty_report False)
      else bindA (\<lambda>s. (s, repo_scan_open R s)) (\<lambda>sc.
        bindA (recover_records R now (sc_records sc) (empty_report True)) (\<lambda>p.
        bindA (record_damaged R now (sc_unreadable sc)) (\<lambda>_.
        returnA (p\<lparr>rr_scanned := int (length (sc_records sc)) + int (length (sc_unreadable sc)),
                   rr_unreadable := map uo_order_id (sc_unreadable sc)\<rparr>)))))"

end
