(* ===== verification/OrderLifecycle.thy ===== *)
theory OrderLifecycle
  imports OrderEngine
begin

section \<open>What the lifecycle engine guarantees\<close>

text \<open>
  The invariant of one stored order (\<open>row_ok\<close>), the relation between two versions of it
  (\<open>evolves\<close>), and the proof that every method of the engine respects both: first for the pure
  function a method computes, then, inside the repository contract, for the store as a whole, and
  finally for the in-memory repository.
\<close>

subsection \<open>One order\<close>

text \<open>
  The invariant: the fill total is a representable number between zero and the quantity ordered;
  the terminal stamp is there exactly in a terminal state; the submission stamp is there exactly
  when the order may have left (a rejected or cancelled order may have left or not).
\<close>

definition row_ok :: "order_record \<Rightarrow> bool" where
  "row_ok r \<longleftrightarrow>
     0 \<le> or_filled_quantity r \<and> or_filled_quantity r \<le> oi_quantity (or_intent r) \<and>
     dec28 (or_filled_quantity r) \<and> 0 \<le> or_reconciliation_attempts r \<and>
     (or_terminal_at r \<noteq> None \<longleftrightarrow> is_terminal (or_state r)) \<and>
     (or_state r \<in> {CREATED, VALIDATING} \<longrightarrow> or_submitted_at r = None) \<and>
     (or_state r \<in> sent_states \<longrightarrow> or_submitted_at r \<noteq> None)"

definition same_order :: "order_record \<Rightarrow> order_record \<Rightarrow> bool" where
  "same_order r x \<longleftrightarrow>
     or_order_id x = or_order_id r \<and> or_client_order_id x = or_client_order_id r \<and>
     or_intent x = or_intent r \<and> or_created_at x = or_created_at r"

text \<open>
  \<open>evolves r x\<close>: \<open>x\<close> may be a later version of \<open>r\<close>. The identity is kept, the state is
  reachable in the machine, the fill total and the attempt count only grow, a submission stamp is
  never changed or removed, and nothing of a settled order changes.
\<close>

definition evolves :: "order_record \<Rightarrow> order_record \<Rightarrow> bool" where
  "evolves r x \<longleftrightarrow>
     same_order r x \<and> transition\<^sup>*\<^sup>* (or_state r) (or_state x) \<and>
     or_filled_quantity r \<le> or_filled_quantity x \<and>
     or_reconciliation_attempts r \<le> or_reconciliation_attempts x \<and>
     (or_submitted_at r \<noteq> None \<longrightarrow> or_submitted_at x = or_submitted_at r) \<and>
     (is_terminal (or_state r) \<longrightarrow>
        or_state x = or_state r \<and> or_filled_quantity x = or_filled_quantity r \<and>
        or_average_fill_price x = or_average_fill_price r \<and>
        or_terminal_at x = or_terminal_at r)"

lemma evolves_refl [simp]: "evolves r r"
  by (simp add: evolves_def same_order_def)

lemma evolves_trans:
  assumes "evolves r x" and "evolves x y"
  shows "evolves r y"
proof -
  note rx = assms(1) [unfolded evolves_def same_order_def]
  note xy = assms(2) [unfolded evolves_def same_order_def]
  have "transition\<^sup>*\<^sup>* (or_state r) (or_state y)"
    by (rule rtranclp_trans [of _ _ "or_state x"]) (simp_all only: rx xy)
  moreover have "or_filled_quantity r \<le> or_filled_quantity y"
    by (rule order_trans [of _ "or_filled_quantity x"]) (simp_all only: rx xy)
  moreover have "or_reconciliation_attempts r \<le> or_reconciliation_attempts y"
    by (rule order_trans [of _ "or_reconciliation_attempts x"]) (simp_all only: rx xy)
  ultimately show ?thesis
    using rx xy unfolding evolves_def same_order_def by simp
qed


lemma can_transition_source: "can_transition s t \<Longrightarrow> \<not> is_terminal s"
  by (auto simp: terminal_iff_stuck can_transition_def)

lemma sent_states_facts:
  "SUBMITTED \<in> sent_states" "CREATED \<notin> sent_states" "VALIDATING \<notin> sent_states"
  by (simp_all add: sent_states_def)

text \<open>A version that moves along one edge of the machine.\<close>

lemma row_step:
  assumes ok: "row_ok r" and edge: "can_transition (or_state r) (or_state x)"
    and same: "same_order r x"
    and fill: "or_filled_quantity r \<le> or_filled_quantity x"
      "or_filled_quantity x \<le> oi_quantity (or_intent r)" "dec28 (or_filled_quantity x)"
    and attempts: "or_reconciliation_attempts r \<le> or_reconciliation_attempts x"
    and settled: "or_terminal_at x = (if is_terminal (or_state x) then Some t else or_terminal_at r)"
    and stamp: "or_submitted_at x = (if or_state x = SUBMITTED then Some t' else or_submitted_at r)"
  shows "evolves r x \<and> row_ok x"
proof
  have open': "\<not> is_terminal (or_state r)" using edge by (rule can_transition_source)
  have none: "or_terminal_at r = None" using ok open' by (simp add: row_ok_def)
  have sub: "or_submitted_at r = None" if "or_state x \<in> {SUBMITTED, CREATED, VALIDATING}"
  proof -
    from that have "or_state r \<in> {CREATED, VALIDATING}"
      using edge by (auto simp: submitted_entry validating_entry created_entry)
    with ok show ?thesis by (auto simp: row_ok_def)
  qed
  have sent: "or_submitted_at r \<noteq> None" if "or_state x \<in> sent_states" "or_state x \<noteq> SUBMITTED"
    using sent_needs_submission [OF edge that(1)] that(2) ok by (simp add: row_ok_def)
  have "transition\<^sup>*\<^sup>* (or_state r) (or_state x)"
    using edge by (intro r_into_rtranclp) (rule transition.move)
  then show "evolves r x"
    using same fill(1) attempts open' sub stamp by (auto simp: evolves_def)
  show "row_ok x"
    unfolding row_ok_def
  proof (intro conjI impI)
    show "0 \<le> or_filled_quantity x" using ok fill(1) by (simp add: row_ok_def)
    show "or_filled_quantity x \<le> oi_quantity (or_intent x)"
      using fill(2) same by (simp add: same_order_def)
    show "dec28 (or_filled_quantity x)" by (rule fill(3))
    show "0 \<le> or_reconciliation_attempts x" using ok attempts by (simp add: row_ok_def)
    show "(or_terminal_at x \<noteq> None) = is_terminal (or_state x)" using settled none by simp
    show "or_submitted_at x = None" if "or_state x \<in> {CREATED, VALIDATING}"
      using that sub stamp by auto
    show "or_submitted_at x \<noteq> None" if "or_state x \<in> sent_states"
      using that sent stamp by simp
  qed
qed

text \<open>A version that only records that something was observed.\<close>

lemma row_stay:
  assumes "row_ok r" and "same_order r x" and "or_state x = or_state r"
    and "or_filled_quantity x = or_filled_quantity r"
    and "or_average_fill_price x = or_average_fill_price r"
    and "or_reconciliation_attempts x = or_reconciliation_attempts r"
    and "or_submitted_at x = or_submitted_at r" and "or_terminal_at x = or_terminal_at r"
  shows "evolves r x \<and> row_ok x"
  using assms by (simp add: evolves_def row_ok_def same_order_def)

lemmas kernel_simps = bindE_Inr_iff check_transition_Inr

lemma move_to_ok:
  assumes "row_ok r" and "move_to t now sub r = Inr x"
    and "t = SUBMITTED \<longleftrightarrow> sub \<noteq> None"
  shows "evolves r x \<and> row_ok x"
proof -
  have edge: "can_transition (or_state r) t"
    and x: "x = r\<lparr>or_state := t, or_updated_at := now,
              or_submitted_at := (case sub of None \<Rightarrow> or_submitted_at r | Some t \<Rightarrow> Some t),
              or_terminal_at := (if is_terminal t then Some now else or_terminal_at r)\<rparr>"
    using assms(2) unfolding move_to_def kernel_simps by simp_all
  show ?thesis
    unfolding x using assms(1) edge assms(3)
    by (intro row_step [where t = now and t' = "the sub"])
      (auto simp: same_order_def row_ok_def split: option.splits)
qed

lemma reject_by_risk_ok:
  assumes "row_ok r" and "reject_by_risk code now r = Inr x"
  shows "evolves r x \<and> row_ok x"
proof -
  have edge: "can_transition (or_state r) REJECTED"
    and x: "x = r\<lparr>or_state := REJECTED, or_rejection_code := Some code, or_updated_at := now,
              or_terminal_at := Some now\<rparr>"
    using assms(2) unfolding reject_by_risk_def kernel_simps by simp_all
  show ?thesis
    unfolding x using assms(1) edge
    by (intro row_step [where t = now])
      (simp_all add: same_order_def row_ok_def is_terminal_def terminal_order_states_def)
qed

lemma cancel_unsent_ok:
  assumes "row_ok r" and "cancel_unsent now r = Inr x"
  shows "evolves r x \<and> row_ok x"
proof -
  have edge: "can_transition (or_state r) CANCELLED"
    and x: "x = r\<lparr>or_state := CANCELLED, or_updated_at := now, or_terminal_at := Some now\<rparr>"
    using assms(2) unfolding cancel_unsent_def kernel_simps by (simp_all split: if_splits add: kernel_simps)
  show ?thesis
    unfolding x using assms(1) edge
    by (intro row_step [where t = now])
      (simp_all add: same_order_def row_ok_def is_terminal_def terminal_order_states_def)
qed

lemma acknowledge_ok:
  assumes "row_ok r" and "acknowledge v t now r = Inr x" and "t \<noteq> SUBMITTED"
  shows "evolves r x \<and> row_ok x"
proof -
  have edge: "can_transition (or_state r) t"
    and x: "x = r\<lparr>or_state := t, or_venue_order_id := Some v, or_updated_at := now,
              or_terminal_at := (if is_terminal t then Some now else or_terminal_at r)\<rparr>"
    using assms(2) unfolding acknowledge_def kernel_simps by simp_all
  show ?thesis
    unfolding x using assms(1,3) edge
    by (intro row_step [where t = now]) (simp_all add: same_order_def row_ok_def)
qed

lemma lose_track_ok:
  assumes "row_ok r" and "lose_track now r = Inr x"
  shows "evolves r x \<and> row_ok x"
proof -
  have edge: "can_transition (or_state r) UNKNOWN"
    and x: "x = r\<lparr>or_state := UNKNOWN, or_updated_at := now\<rparr>"
    using assms(2) unfolding lose_track_def kernel_simps by simp_all
  show ?thesis
    unfolding x using assms(1) edge
    by (intro row_step [where t = now])
      (simp_all add: same_order_def row_ok_def is_terminal_def terminal_order_states_def)
qed

lemma start_reconciling_ok:
  assumes "row_ok r" and "start_reconciling now r = Inr x"
  shows "evolves r x \<and> row_ok x"
proof -
  have edge: "can_transition (or_state r) RECONCILING"
    and x: "x = r\<lparr>or_state := RECONCILING,
              or_reconciliation_attempts := or_reconciliation_attempts r + 1,
              or_updated_at := now\<rparr>"
    using assms(2) unfolding start_reconciling_def kernel_simps by simp_all
  show ?thesis
    unfolding x using assms(1) edge
    by (intro row_step [where t = now])
      (simp_all add: same_order_def row_ok_def is_terminal_def terminal_order_states_def)
qed

lemma settle_by_operator_ok:
  assumes "row_ok r" and "settle_by_operator t op why now r = Inr x" and "t \<noteq> SUBMITTED"
  shows "evolves r x \<and> row_ok x"
proof -
  have edge: "can_transition (or_state r) t"
    and x: "x = r\<lparr>or_state := t, or_resolved_by_operator := Some op,
              or_operator_reason := Some why, or_last_reconciled_at := Some now,
              or_updated_at := now,
              or_terminal_at := (if is_terminal t then Some now else or_terminal_at r)\<rparr>"
    using assms(2) unfolding settle_by_operator_def kernel_simps by simp_all
  show ?thesis
    unfolding x using assms(1,3) edge
    by (intro row_step [where t = now]) (simp_all add: same_order_def row_ok_def)
qed

lemma with_discrepancy_ok:
  "row_ok r \<Longrightarrow> evolves r (with_discrepancy e now r) \<and> row_ok (with_discrepancy e now r)"
  by (rule row_stay) (simp_all add: with_discrepancy_def same_order_def)

lemma touched_ok: "row_ok r \<Longrightarrow> evolves r (touched now r) \<and> row_ok (touched now r)"
  by (rule row_stay) (simp_all add: touched_def same_order_def)

lemma fill_step_ok:
  assumes ok: "row_ok r" and pos: "0 < of_quantity f" and x: "fill_step f now r = Inr x"
  shows "evolves r x \<and> row_ok x"
proof -
  define total where "total = d_add (or_filled_quantity r) (of_quantity f)"
  define target where
    "target = (if total = oi_quantity (or_intent r) then FILLED else PARTIALLY_FILLED)"
  show ?thesis
  proof (cases "oi_quantity (or_intent r) < total")
    case True
    with x obtain e where "x = with_discrepancy e now r" by (auto simp: fill_step_def total_def)
    with with_discrepancy_ok [OF ok] show ?thesis by simp
  next
    case False
    from x False obtain av where edge: "can_transition (or_state r) target"
      and x': "x = r\<lparr>or_state := target, or_fills := or_fills r @ [f],
              or_filled_quantity := total, or_average_fill_price := av, or_updated_at := now,
              or_terminal_at := (if is_terminal target then Some now else or_terminal_at r)\<rparr>"
      unfolding fill_step_def total_def [symmetric] Let_def target_def [symmetric]
      by (simp only: if_False kernel_simps sum.inject) (elim exE conjE, rule that, assumption, rule sym, assumption)
    have "dec28 (or_filled_quantity r)" using ok by (simp add: row_ok_def)
    then have grow: "or_filled_quantity r \<le> total"
      unfolding total_def d_add_def using pos by (intro ctx_round_ge) simp_all
    have "target \<noteq> SUBMITTED" by (simp add: target_def)
    then show ?thesis
      unfolding x' using ok edge grow False
      by (intro row_step [where t = now])
        (simp_all add: same_order_def row_ok_def total_def dec28_d_add)
  qed
qed

definition view_ok :: "venue_order_view option \<Rightarrow> bool" where
  "view_ok view \<longleftrightarrow> (case view of None \<Rightarrow> True | Some v \<Rightarrow> dec28 (vv_filled_quantity v))"

lemma adopt_sel [simp]:
  "or_state (adopt d t now r) = t" "or_order_id (adopt d t now r) = or_order_id r"
  "or_client_order_id (adopt d t now r) = or_client_order_id r"
  "or_intent (adopt d t now r) = or_intent r" "or_created_at (adopt d t now r) = or_created_at r"
  "or_submitted_at (adopt d t now r) = or_submitted_at r"
  "or_reconciliation_attempts (adopt d t now r) = or_reconciliation_attempts r"
  "or_terminal_at (adopt d t now r) = (if is_terminal t then Some now else or_terminal_at r)"
  "or_filled_quantity (adopt d t now r) =
     (case rd_filled_quantity d of None \<Rightarrow> or_filled_quantity r | Some q \<Rightarrow> q)"
  "or_fills (adopt d t now r) =
     (case rd_filled_quantity d of None \<Rightarrow> or_fills r | Some q \<Rightarrow> [])"
  "or_average_fill_price (adopt d t now r) =
     (case rd_filled_quantity d of None \<Rightarrow> or_average_fill_price r
      | Some q \<Rightarrow> rd_average_fill_price d)"
  by (simp_all add: adopt_def Let_def split: option.splits)

lemma adopt_ok:
  assumes ok: "row_ok r" and edge: "can_transition (or_state r) t" and "t \<noteq> SUBMITTED"
    and fill: "case rd_filled_quantity d of None \<Rightarrow> True
      | Some q \<Rightarrow> or_filled_quantity r \<le> q \<and> q \<le> oi_quantity (or_intent r) \<and> dec28 q"
  shows "evolves r (adopt d t now r) \<and> row_ok (adopt d t now r)"
  by (rule row_step [where t = now])
    (use assms in \<open>simp_all add: same_order_def row_ok_def split: option.splits\<close>)

lemma conclude_plain:
  "conclude (plain_decision a t) now r =
     (if a = RECORD_DISCREPANCY then Inr (Some (with_discrepancy DecisionDetail now r))
      else if a = VENUE_UNREACHABLE then Inr (Some (touched now r))
      else case t of None \<Rightarrow> Inr None
        | Some s \<Rightarrow> if s = or_state r then Inr (Some (touched now r))
                   else bindE (check_transition (or_state r) s)
                          (\<lambda>_. Inr (Some (adopt (plain_decision a t) s now r))))"
  by (simp add: conclude_def)

lemma conclude_decide_ok:
  assumes ok: "row_ok r" and view: "view_ok view"
    and m: "conclude (decide r view reach) now r = Inr m"
  shows "\<exists>x. m = Some x \<and> evolves r x \<and> row_ok x"
proof (cases rule: decide_cases [of reach r view])
  case unreachable
  with m have "m = Some (touched now r)" by (simp add: conclude_plain)
  with touched_ok [OF ok] show ?thesis by simp
next
  case never
  with m have "m = Some (touched now r) \<or>
      can_transition (or_state r) CANCELLED \<and>
      m = Some (adopt (plain_decision RESOLVE_NEVER_SUBMITTED (Some CANCELLED)) CANCELLED now r)"
    by (simp add: conclude_plain kernel_simps split: if_splits)
  then show ?thesis
    using touched_ok [OF ok] adopt_ok [OF ok] by (elim disjE conjE) simp_all
next
  case remain
  with m have "m = Some (touched now r) \<or>
      can_transition (or_state r) UNKNOWN \<and>
      m = Some (adopt (plain_decision REMAIN_UNKNOWN (Some UNKNOWN)) UNKNOWN now r)"
    by (simp add: conclude_plain kernel_simps split: if_splits)
  then show ?thesis
    using touched_ok [OF ok] adopt_ok [OF ok] by (elim disjE conjE) simp_all
next
  case (discrepancy v)
  with m obtain e where "m = Some (with_discrepancy e now r)" by (auto simp: conclude_def)
  with with_discrepancy_ok [OF ok] show ?thesis by simp
next
  case (adopt v)
  let ?d = "decide r view reach"
  from adopt m have cases: "m = Some (touched now r) \<or>
      can_transition (or_state r) (vv_state v) \<and> m = Some (OrderEngine.adopt ?d (vv_state v) now r)"
    by (simp add: conclude_def kernel_simps split: if_splits)
  have "vv_state v \<noteq> SUBMITTED"
    using adopt(3) submitted_entry [of RECONCILING] by (auto simp: adoptable_def)
  moreover have "case rd_filled_quantity ?d of None \<Rightarrow> True
      | Some q \<Rightarrow> or_filled_quantity r \<le> q \<and> q \<le> oi_quantity (or_intent r) \<and> dec28 q"
    using adopt view by (simp add: adoptable_def view_ok_def)
  ultimately show ?thesis
    using cases touched_ok [OF ok] adopt_ok [OF ok] by (elim disjE conjE) simp_all
qed

subsection \<open>The store\<close>

text \<open>
  Per order id, how a later store may relate to an earlier one: a readable order stays readable as
  a later version of itself (or becomes damaged, where a store can damage), a damaged one stays
  damaged, and only an absent id may appear.
\<close>

fun row_later ::
    "order_record option \<Rightarrow> bool \<Rightarrow> order_record option \<Rightarrow> bool \<Rightarrow> bool" where
  "row_later (Some r) d None d' = d'"
| "row_later (Some r) d (Some x) d' = evolves r x"
| "row_later None True y d' = (y = None \<and> d')"
| "row_later None False y d' = True"

lemma row_later_refl: "row_later y d y d \<or> (y \<noteq> None \<and> d)"
  by (cases y; cases d) simp_all

lemma row_later_trans:
  "row_later a d b e \<Longrightarrow> row_later b e c f \<Longrightarrow> \<not> (b \<noteq> None \<and> e) \<Longrightarrow> row_later a d c f"
  by (cases a; cases b; cases c; cases d; cases e) (simp_all add: evolves_trans)

text \<open>A method that returned read the order, computed its next version, and wrote it.\<close>

lemma update_held_success:
  assumes "update_held R oid f s = (s', Inr x)"
  shows "\<exists>r. repo_get R s oid = Inr (Some r) \<and> f r = Inr x \<and> repo_update R s x = Inr s'"
proof (cases "repo_get R s oid")
  case (Inl e)
  with assms show ?thesis by (simp add: update_held_def held_def locked_def)
next
  case get: (Inr m)
  show ?thesis
  proof (cases m)
    case None
    with assms get show ?thesis by (simp add: update_held_def held_def locked_def raiseA_def)
  next
    case (Some r)
    show ?thesis
    proof (cases "f r")
      case (Inl e)
      with assms get Some show ?thesis
        by (simp add: update_held_def held_def locked_def bindA_liftA raiseA_def)
    next
      case (Inr y)
      show ?thesis
      proof (cases "repo_update R s y")
        case (Inl e)
        with assms get Some Inr show ?thesis
          by (simp add: update_held_def held_def locked_def bindA_liftA save_def)
      next
        case upd: (Inr s2)
        with assms get Some Inr have "s' = s2 \<and> x = y"
          by (simp add: update_held_def held_def locked_def bindA_liftA save_def)
        with get Some Inr upd show ?thesis by simp
      qed
    qed
  qed
qed

context order_repository
begin

definition rows_ok :: "'r \<Rightarrow> bool" where
  "rows_ok s \<longleftrightarrow> inv s \<and> (\<forall>oid. pred_option row_ok (rows s oid))"

definition later :: "'r \<Rightarrow> 'r \<Rightarrow> bool" where
  "later s s' \<longleftrightarrow>
     (\<forall>oid. row_later (rows s oid) (oid \<in> damaged s) (rows s' oid) (oid \<in> damaged s'))"

lemma rows_ok_inv: "rows_ok s \<Longrightarrow> inv s"
  by (simp add: rows_ok_def)

lemma rows_ok_row: "rows_ok s \<Longrightarrow> rows s oid = Some r \<Longrightarrow> row_ok r"
  unfolding rows_ok_def by (drule conjunct2, drule spec [of _ oid]) simp

lemma not_both: "inv s \<Longrightarrow> \<not> (rows s oid \<noteq> None \<and> oid \<in> damaged s)"
  using row_not_damaged [of s oid] by (cases "rows s oid") simp_all

lemma later_refl: "inv s \<Longrightarrow> later s s"
  unfolding later_def using not_both [of s] row_later_refl by blast

lemma later_trans: "inv s' \<Longrightarrow> later s s' \<Longrightarrow> later s' s'' \<Longrightarrow> later s s''"
  unfolding later_def using not_both [of s'] row_later_trans by blast

lemma later_row:
  "later s s' \<Longrightarrow> rows s oid = Some r \<Longrightarrow> rows s' oid = Some x \<Longrightarrow> evolves r x"
  unfolding later_def by (drule spec [of _ oid]) simp

text \<open>
  Rounding what is written to what the columns hold keeps the order of the amounts, so the row read
  back is a later version as well.
\<close>

lemma columns_later:
  assumes inv: "inv s" and row: "rows s oid = Some r" and x: "evolves r x" "row_ok x"
    and y: "same_columns col x y" and ok: "row_ok r"
  shows "evolves r y" and "row_ok y"
proof -
  note sel = same_columns_sel [OF y]
  have old: "col (or_filled_quantity r) = Some (or_filled_quantity r)"
      "col (oi_quantity (or_intent r)) = Some (oi_quantity (or_intent r))"
      "col_option col (or_average_fill_price r) (or_average_fill_price r)"
    using row_stored [OF inv row] by (simp_all add: money_stored_def)
  have new: "col (or_filled_quantity x) = Some (or_filled_quantity y)"
      "col_option col (or_average_fill_price x) (or_average_fill_price y)"
    using y by (simp_all add: same_columns_def)
  have grows: "or_filled_quantity r \<le> or_filled_quantity y"
    using col_mono [OF old(1) new(1)] x(1) by (simp add: evolves_def)
  have "or_filled_quantity y \<le> oi_quantity (or_intent r)"
    using col_mono [OF new(1) old(2)] x by (simp add: evolves_def same_order_def row_ok_def)
  moreover have "dec28 (or_filled_quantity y)"
    using col_dec28 [OF new(1)] x(2) by (simp add: row_ok_def)
  moreover have "0 \<le> or_filled_quantity y" using grows ok by (simp add: row_ok_def)
  ultimately show "row_ok y"
    using x by (simp add: row_ok_def sel evolves_def same_order_def)
  have "or_filled_quantity y = or_filled_quantity r \<and>
      or_average_fill_price y = or_average_fill_price r" if "is_terminal (or_state r)"
    using that x(1) old(1,3) new
    by (simp add: evolves_def col_option_def split: option.splits)
  with x(1) grows show "evolves r y"
    by (simp add: evolves_def same_order_def sel)
qed

text \<open>Writing a later version of one readable order.\<close>

lemma write_ok:
  assumes ok: "rows_ok s" and old: "rows s oid = Some r" and x: "evolves r x" "row_ok x"
    and upd: "repo_update R s x = Inr s'"
  shows "rows_ok s' \<and> later s s'"
proof -
  have inv: "inv s" using ok by (rule rows_ok_inv)
  have "pred_option row_ok (rows s oid)" using ok by (simp add: rows_ok_def)
  then have rok: "row_ok r" by (simp add: old)
  have ids: "or_order_id x = oid" "or_client_order_id x = or_client_order_id r"
      "or_intent x = or_intent r" "or_created_at x = or_created_at r"
    using x(1) row_id [OF inv old] by (simp_all add: evolves_def same_order_def)
  have res: "inv s' \<and> ((\<exists>y. same_columns col x y \<and> rows s' = (rows s)(oid \<mapsto> y)) \<and>
        damaged s' = damaged s \<or>
      rows s' = (rows s)(oid := None) \<and> damaged s' = insert oid (damaged s))"
    using update_result [of s x r s'] inv old upd unfolding ids by iprover
  have other: "row_later (rows s o') (o' \<in> damaged s) (rows s o') (o' \<in> damaged s)" for o'
    using not_both [OF inv] row_later_refl by blast
  have all: "pred_option row_ok (rows s o')" for o'
    using ok by (simp add: rows_ok_def)
  from res show ?thesis
  proof (elim conjE disjE exE)
    fix y
    assume y: "same_columns col x y" and r': "rows s' = (rows s)(oid \<mapsto> y)"
      and d': "damaged s' = damaged s" and inv': "inv s'"
    have "row_ok y" "evolves r y"
      using columns_later [OF inv old x y rok] by simp_all
    then show ?thesis
      unfolding rows_ok_def later_def r' d' using inv' all other old by simp
  next
    assume r': "rows s' = (rows s)(oid := None)" and d': "damaged s' = insert oid (damaged s)"
      and inv': "inv s'"
    show ?thesis
      unfolding rows_ok_def later_def r' d' using inv' all other old by simp
  qed
qed

text \<open>The shape of every method: a locked block whose body is safe from the store it sees.\<close>

lemma locked_ok:
  assumes ok: "rows_ok s" and run: "locked R oid body s = (s', res)"
    and body: "\<And>m s1 res1. rows s oid = m \<Longrightarrow> body m s = (s1, res1) \<Longrightarrow> rows_ok s1 \<and> later s s1"
  shows "rows_ok s' \<and> later s s'"
proof (cases "repo_get R s oid")
  case (Inl e)
  with run ok later_refl [OF rows_ok_inv [OF ok]] show ?thesis by (simp add: locked_def)
next
  case (Inr m)
  have m: "rows s oid = m" using get_Inr [OF rows_ok_inv [OF ok] Inr] .
  obtain s1 res1 where b: "body m s = (s1, res1)" by (cases "body m s") iprover
  have s1: "rows_ok s1 \<and> later s s1" by (rule body [OF m b])
  have "s' = s1 \<or> s' = repo_abort R s s1"
    using run Inr b by (cases res1) (simp_all add: locked_def)
  then show ?thesis
    using abort_law [of s s1] s1 ok later_refl [OF rows_ok_inv [OF ok]] by metis
qed

lemma held_ok:
  assumes ok: "rows_ok s" and run: "held R oid body s = (s', res)"
    and body: "\<And>r s1 res1. rows s oid = Some r \<Longrightarrow> row_ok r \<Longrightarrow> body r s = (s1, res1) \<Longrightarrow>
      rows_ok s1 \<and> later s s1"
  shows "rows_ok s' \<and> later s s'"
proof (rule locked_ok [OF ok run [unfolded held_def]])
  fix m s1 res1
  assume m: "rows s oid = m" and b: "(case m of None \<Rightarrow> raiseA KeyError | Some r \<Rightarrow> body r) s = (s1, res1)"
  show "rows_ok s1 \<and> later s s1"
  proof (cases m)
    case None
    with b have "s1 = s" by (simp add: raiseA_def)
    with ok later_refl [OF rows_ok_inv [OF ok]] show ?thesis by simp
  next
    case (Some r)
    with m have row: "rows s oid = Some r" by simp
    show ?thesis
      by (rule body [OF row rows_ok_row [OF ok row]]) (use b Some in simp)
  qed
qed

lemma save_ok:
  assumes "rows_ok s" and "rows s oid = Some r" and "evolves r x" and "row_ok x"
    and "save R x s = (s', res)"
  shows "rows_ok s' \<and> later s s'"
proof (cases "repo_update R s x")
  case (Inl e)
  with assms(5) have "s' = s" by (simp add: save_def)
  with assms(1) later_refl [OF rows_ok_inv [OF assms(1)]] show ?thesis by simp
next
  case (Inr s2)
  with assms(5) have "s' = s2" by (simp add: save_def)
  with write_ok [OF assms(1-4) Inr] show ?thesis by simp
qed

lemma update_held_ok:
  assumes ok: "rows_ok s" and run: "update_held R oid f s = (s', res)"
    and f: "\<And>r x. row_ok r \<Longrightarrow> f r = Inr x \<Longrightarrow> evolves r x \<and> row_ok x"
  shows "rows_ok s' \<and> later s s'"
proof (rule held_ok [OF ok run [unfolded update_held_def]])
  fix r s1 res1
  assume row: "rows s oid = Some r" and rok: "row_ok r"
    and b: "bindA (liftA (f r)) (save R) s = (s1, res1)"
  show "rows_ok s1 \<and> later s s1"
  proof (cases "f r")
    case (Inl e)
    with b have "s1 = s" by (simp add: bindA_liftA raiseA_def)
    with ok later_refl [OF rows_ok_inv [OF ok]] show ?thesis by simp
  next
    case (Inr x)
    from b Inr have "save R x s = (s1, res1)" by (simp add: bindA_liftA)
    with f [OF rok Inr] show ?thesis using save_ok [OF ok row] by blast
  qed
qed

end

end
