(* ===== verification/OrderHistory.thy ===== *)
theory OrderHistory
  imports OrderLifecycle
begin

section \<open>Every call on the lifecycle engine\<close>

text \<open>
  The calls a service can make on the engine, as commands over the repository, and the proof that
  each of them keeps the invariant of the store and takes every order to a later version of itself.
  Recovery is shown never to fail on such a store and to be idempotent.
\<close>

datatype order_command =
    CreateOrGet string order_intent
  | MarkValidating string timestamp
  | MarkRiskRejected string risk_rejection_code timestamp
  | CancelBeforeSubmission string timestamp
  | MarkSubmitting string timestamp
  | ApplyVenueAck string string order_state timestamp
  | MarkUnknown string timestamp
  | ApplyFill string order_fill timestamp
  | BeginReconciliation string timestamp
  | Reconcile string "venue_order_view option" bool timestamp
  | ResolveManually string order_state string string timestamp
  | Recover timestamp

definition void :: "('r, 'a) act \<Rightarrow> ('r, unit) act" where
  "void m = bindA m (\<lambda>_. returnA ())"

fun perform ::
    "'r order_ops \<Rightarrow> (string \<Rightarrow> nat \<Rightarrow> nat list) \<Rightarrow> order_command \<Rightarrow> ('r, unit) act" where
  "perform R h (CreateOrGet u i) = void (create_or_get R h u i)"
| "perform R h (MarkValidating oid now) = void (mark_validating R oid now)"
| "perform R h (MarkRiskRejected oid code now) = void (mark_risk_rejected R oid code now)"
| "perform R h (CancelBeforeSubmission oid now) = void (cancel_before_submission R oid now)"
| "perform R h (MarkSubmitting oid now) = void (mark_submitting R oid now)"
| "perform R h (ApplyVenueAck oid v st now) = void (apply_venue_ack R oid v st now)"
| "perform R h (MarkUnknown oid now) = void (mark_unknown R oid now)"
| "perform R h (ApplyFill oid f now) = void (apply_fill R oid f now)"
| "perform R h (BeginReconciliation oid now) = void (begin_reconciliation R oid now)"
| "perform R h (Reconcile oid v reach now) = void (reconcile R oid v reach now)"
| "perform R h (ResolveManually oid st op why now) = void (resolve_manually R oid st op why now)"
| "perform R h (Recover now) = void (recover R now)"

text \<open>
  What the callers supply: a fill passed its own validation, an acknowledgement names a state of the
  venue's (not our \<open>SUBMITTED\<close>), a venue total is a representable decimal. A new order's random
  local id is not in use.
\<close>

definition built_fresh ::
    "(string \<Rightarrow> nat \<Rightarrow> nat list) \<Rightarrow> string \<Rightarrow> order_intent \<Rightarrow> (string \<Rightarrow> bool) \<Rightarrow>
     (order_record \<Rightarrow> bool) \<Rightarrow> bool" where
  "built_fresh h u i used storable \<longleftrightarrow>
     (case build h u i of Inl e \<Rightarrow> True
      | Inr r \<Rightarrow> \<not> used (or_order_id r) \<and> storable r)"

fun input_ok :: "order_command \<Rightarrow> bool" where
  "input_ok (CreateOrGet u i) = order_intent_valid i"
| "input_ok (ApplyVenueAck oid v st now) = (st \<noteq> SUBMITTED)"
| "input_ok (ApplyFill oid f now) = order_fill_valid f"
| "input_ok (Reconcile oid view reach now) = view_ok view"
| "input_ok _ = True"

lemma void_fst: "fst (void m s) = fst (m s)"
  by (simp add: void_def bindA_def returnA_def split: prod.splits sum.splits)

lemma void_ok: "(\<And>s' res. m s = (s', res) \<Longrightarrow> P s') \<Longrightarrow> P (fst (void m s))"
  by (cases "m s") (simp add: void_fst)

lemma build_Inr:
  assumes "build h u i = Inr r"
  shows "or_order_id r = new_order_id u" "or_intent r = i" "or_state r = CREATED"
    "or_filled_quantity r = 0" "or_submitted_at r = None" "or_terminal_at r = None"
    "or_reconciliation_attempts r = 0" "or_fills r = []"
    "client_order_id h (oi_account_id i) (oi_intent_key i) = Inr (or_client_order_id r)"
  using assms unfolding build_def
  by (cases "client_order_id h (oi_account_id i) (oi_intent_key i)"; force)+

lemma dec28_0 [simp]: "dec28 0"
  using dec28_ctx_round [of 0] by simp

lemma build_row_ok: "build h u i = Inr r \<Longrightarrow> order_intent_valid i \<Longrightarrow> row_ok r"
  by (simp add: row_ok_def build_Inr order_intent_valid_def sent_states_def is_terminal_def
      terminal_order_states_def)

context order_repository
begin

lemma mark_ok:
  assumes "rows_ok s"
  shows "mark_validating R oid now s = (s', res) \<Longrightarrow> rows_ok s' \<and> later s s'"
    and "mark_submitting R oid now s = (s', res) \<Longrightarrow> rows_ok s' \<and> later s s'"
    and "mark_risk_rejected R oid code now s = (s', res) \<Longrightarrow> rows_ok s' \<and> later s s'"
    and "cancel_before_submission R oid now s = (s', res) \<Longrightarrow> rows_ok s' \<and> later s s'"
    and "mark_unknown R oid now s = (s', res) \<Longrightarrow> rows_ok s' \<and> later s s'"
    and "begin_reconciliation R oid now s = (s', res) \<Longrightarrow> rows_ok s' \<and> later s s'"
  subgoal unfolding mark_validating_def
    by (rule update_held_ok [OF assms], assumption, rule move_to_ok, assumption+, simp)
  subgoal unfolding mark_submitting_def
    by (rule update_held_ok [OF assms], assumption, rule move_to_ok, assumption+, simp)
  subgoal unfolding mark_risk_rejected_def
    by (rule update_held_ok [OF assms], assumption, rule reject_by_risk_ok)
  subgoal unfolding cancel_before_submission_def
    by (rule update_held_ok [OF assms], assumption, rule cancel_unsent_ok)
  subgoal unfolding mark_unknown_def
    by (rule update_held_ok [OF assms], assumption, rule lose_track_ok)
  subgoal unfolding begin_reconciliation_def
    by (rule update_held_ok [OF assms], assumption, rule start_reconciling_ok)
  done

lemma ack_ok:
  assumes "rows_ok s" and "st \<noteq> SUBMITTED" and "apply_venue_ack R oid v st now s = (s', res)"
  shows "rows_ok s' \<and> later s s'"
  using update_held_ok [OF assms(1) assms(3) [unfolded apply_venue_ack_def]] acknowledge_ok assms(2)
  by metis

lemma apply_fill_ok:
  assumes "rows_ok s" and "order_fill_valid f" and "apply_fill R oid f now s = (s', res)"
  shows "rows_ok s' \<and> later s s'"
  using update_held_ok [OF assms(1) assms(3) [unfolded apply_fill_def]] fill_step_ok assms(2)
  unfolding order_fill_valid_def by metis

text \<open>Re-reading inside the same lock sees the record the decision was made on.\<close>

lemma reconcile_ok:
  assumes ok: "rows_ok s" and view: "view_ok view"
    and run: "reconcile R oid view reach now s = (s', res)"
  shows "rows_ok s' \<and> later s s'"
proof (rule held_ok [OF ok run [unfolded reconcile_def Let_def]])
  fix r s1 res1
  assume row: "rows s oid = Some r" and rok: "row_ok r"
    and b: "bindA (apply_reconciliation R oid (decide r view reach) now)
              (\<lambda>x. returnA (x, decide r view reach)) s = (s1, res1)"
  obtain s2 res2 where a: "apply_reconciliation R oid (decide r view reach) now s = (s2, res2)"
    by (cases "apply_reconciliation R oid (decide r view reach) now s") iprover
  with b have "s1 = s2" by (cases res2) (simp_all add: bindA_def returnA_def)
  moreover have "rows_ok s2 \<and> later s s2"
  proof (rule held_ok [OF ok a [unfolded apply_reconciliation_def]])
    fix r' s3 res3
    assume row': "rows s oid = Some r'"
      and b': "bindA (liftA (conclude (decide r view reach) now r'))
                (\<lambda>m. case m of None \<Rightarrow> returnA r' | Some x \<Rightarrow> save R x) s = (s3, res3)"
    have "r' = r" using row row' by simp
    show "rows_ok s3 \<and> later s s3"
    proof (cases "conclude (decide r view reach) now r")
      case (Inl e)
      with b' \<open>r' = r\<close> have "s3 = s" by (simp add: bindA_liftA raiseA_def)
      with ok later_refl [OF rows_ok_inv [OF ok]] show ?thesis by simp
    next
      case (Inr m)
      with conclude_decide_ok [OF rok view Inr] obtain x where
        x: "m = Some x" "evolves r x" "row_ok x" by iprover
      with b' Inr \<open>r' = r\<close> have "save R x s = (s3, res3)" by (simp add: bindA_liftA)
      then show ?thesis by (rule save_ok [OF ok row x(2,3)])
    qed
  qed
  ultimately show "rows_ok s1 \<and> later s s1" by simp
qed

text \<open>A change that keeps the fills can be written, and comes back exactly.\<close>

lemma restate_written:
  assumes inv: "inv s" and row: "rows s oid = Some r" and n: "or_reconciliation_attempts r \<le> n"
    and x: "x = r\<lparr>or_state := st, or_reconciliation_attempts := n, or_updated_at := now\<rparr>"
  shows "\<exists>s'. save R x s = (s', Inr x) \<and> inv s' \<and> rows s' = (rows s)(oid \<mapsto> x) \<and>
           damaged s' = damaged s"
proof -
  from restate_row [OF inv row n x] obtain s' where "repo_update R s x = Inr s'" "inv s'" "rows s' = (rows s)(oid \<mapsto> x)"
      "damaged s' = damaged s"
    by iprover
  then show ?thesis by (intro exI [of _ s']) (simp add: save_def)
qed

lemma held_run:
  assumes "inv s" and "rows s oid = Some r" and "body r s = (s1, Inr x)"
  shows "held R oid body s = (s1, Inr x)"
  using get_row [OF assms(1) ] row_not_damaged [OF assms(1,2)] assms
  by (simp add: held_def locked_def)

lemma begin_reconciliation_run:
  assumes inv: "inv s" and row: "rows s oid = Some r" and "or_state r = UNKNOWN"
  shows "\<exists>s1 r1. begin_reconciliation R oid now s = (s1, Inr r1) \<and> inv s1 \<and>
           rows s1 oid = Some r1 \<and> or_state r1 = RECONCILING \<and> start_reconciling now r = Inr r1"
proof -
  define r1 where "r1 = r\<lparr>or_state := RECONCILING,
      or_reconciliation_attempts := or_reconciliation_attempts r + 1, or_updated_at := now\<rparr>"
  have st: "start_reconciling now r = Inr r1"
    using assms(3) by (simp add: start_reconciling_def machine_simps r1_def)
  from restate_written [OF inv row _ r1_def] obtain s1 where
    s1: "save R r1 s = (s1, Inr r1)" "inv s1" "rows s1 = (rows s)(oid \<mapsto> r1)" by auto
  have "begin_reconciliation R oid now s = (s1, Inr r1)"
    unfolding begin_reconciliation_def update_held_def
    by (rule held_run [OF inv row]) (simp add: st s1(1) bindA_liftA)
  with s1 st show ?thesis by (intro exI [of _ s1] exI [of _ r1]) (simp add: r1_def)
qed

lemma settle_then_save_ok:
  assumes ok: "rows_ok s" and row: "rows s oid = Some r"
    and b: "bindA (liftA (settle_by_operator st op why now r)) (save R) s = (s1, res1)"
    and "or_state r \<in> {UNKNOWN, RECONCILING}"
  shows "rows_ok s1 \<and> later s s1"
proof (cases "settle_by_operator st op why now r")
  case (Inl e)
  with b have "s1 = s" by (simp add: bindA_liftA raiseA_def)
  with ok later_refl [OF rows_ok_inv [OF ok]] show ?thesis by simp
next
  case (Inr x)
  from Inr assms(4) have "st \<noteq> SUBMITTED"
    by (auto simp: settle_by_operator_def kernel_simps submitted_entry)
  from settle_by_operator_ok [OF rows_ok_row [OF ok row] Inr this]
  have "evolves r x \<and> row_ok x" .
  moreover from b Inr have "save R x s = (s1, res1)" by (simp add: bindA_liftA)
  ultimately show ?thesis using save_ok [OF ok row] by blast
qed

lemma resolve_manually_ok:
  assumes ok: "rows_ok s" and run: "resolve_manually R oid st op why now s = (s', res)"
  shows "rows_ok s' \<and> later s s'"
proof (rule held_ok [OF ok run [unfolded resolve_manually_def]])
  fix r s1 res1
  assume row: "rows s oid = Some r" and rok: "row_ok r"
    and b: "(if \<not> is_unreconciled r then raiseA IllegalTransitionError
       else bindA (if or_state r = UNKNOWN then begin_reconciliation R oid now else returnA r)
         (\<lambda>r1. bindA (liftA (settle_by_operator st op why now r1)) (save R))) s = (s1, res1)"
  consider "\<not> is_unreconciled r" | "or_state r = UNKNOWN" | "or_state r = RECONCILING"
    by (auto simp: is_unreconciled_def)
  then show "rows_ok s1 \<and> later s s1"
  proof cases
    case 1
    with b have "s1 = s" by (simp add: raiseA_def)
    with ok later_refl [OF rows_ok_inv [OF ok]] show ?thesis by simp
  next
    case 2
    from begin_reconciliation_run [OF rows_ok_inv [OF ok] row 2] obtain s2 r2 where
      s2: "begin_reconciliation R oid now s = (s2, Inr r2)" "rows s2 oid = Some r2"
        "or_state r2 = RECONCILING" by iprover
    from mark_ok(6) [OF ok s2(1)] have ok2: "rows_ok s2" "later s s2" by simp_all
    from b 2 s2(1) have
      b2: "bindA (liftA (settle_by_operator st op why now r2)) (save R) s2 = (s1, res1)"
      by (simp add: is_unreconciled_def bindA_def [of "begin_reconciliation R oid now"])
    from settle_then_save_ok [OF ok2(1) s2(2) b2] s2(3)
    have "rows_ok s1 \<and> later s2 s1" by simp
    with ok2 later_trans [OF rows_ok_inv [OF ok2(1)]] show ?thesis by blast
  next
    case 3
    with b have "bindA (liftA (settle_by_operator st op why now r)) (save R) s = (s1, res1)"
      by (simp add: is_unreconciled_def bindA_returnA)
    from settle_then_save_ok [OF ok row this] 3 show ?thesis by simp
  qed
qed

lemma create_or_get_ok:
  assumes ok: "rows_ok s" and valid: "order_intent_valid i"
    and fresh: "built_fresh h u i (\<lambda>oid. rows s oid \<noteq> None \<or> oid \<in> damaged s) storable"
    and run: "create_or_get R h u i s = (s', res)"
  shows "rows_ok s' \<and> later s s'"
proof (cases "bindE (build h u i) (repo_add_or_get R s)")
  case (Inl e)
  with run have "s' = s" by (simp add: create_or_get_def)
  with ok later_refl [OF rows_ok_inv [OF ok]] show ?thesis by simp
next
  case (Inr t)
  obtain s1 x c where t: "t = (s1, x, c)" by (cases t) iprover
  from Inr run t have s1: "s' = s1" by (simp add: create_or_get_def)
  obtain r where r: "build h u i = Inr r" "repo_add_or_get R s r = Inr (s1, x, c)"
    using Inr t by (cases "build h u i") simp_all
  from fresh r(1) have new: "rows s (or_order_id r) = None" "or_order_id r \<notin> damaged s" "storable r"
    by (simp_all add: built_fresh_def)
  have "or_order_id r \<noteq> []" using build_Inr(1) [OF r(1)] by (simp add: new_order_id_def)
  from add_row [OF rows_ok_inv [OF ok] new(1,2) this new(3) r(2)]
  have added: "inv s1" "damaged s1 = damaged s"
    "c \<longrightarrow> rows s1 = (rows s)(or_order_id r \<mapsto> r)" "\<not> c \<longrightarrow> s1 = s"
    by (cases c; simp)+
  show ?thesis
  proof (cases c)
    case False
    with added(4) s1 ok later_refl [OF rows_ok_inv [OF ok]] show ?thesis by simp
  next
    case True
    with added(3) have rows1: "rows s1 = (rows s)(or_order_id r \<mapsto> r)" by simp
    have all: "pred_option row_ok (rows s o')" for o' using ok by (simp add: rows_ok_def)
    have other: "row_later (rows s o') (o' \<in> damaged s) (rows s o') (o' \<in> damaged s)" for o'
      using not_both [OF rows_ok_inv [OF ok]] row_later_refl by blast
    show ?thesis
      unfolding s1 rows_ok_def later_def rows1 added(2)
      using added(1) all other build_row_ok [OF r(1) valid] new(1,2) by simp
  qed
qed

end

subsection \<open>Recovery\<close>

definition in_flight :: "order_record \<Rightarrow> bool" where
  "in_flight r \<longleftrightarrow> \<not> or_is_terminal r \<and> \<not> is_unreconciled r \<and> reached_venue r"

definition lost :: "timestamp \<Rightarrow> order_record \<Rightarrow> order_record" where
  "lost now r = r\<lparr>or_state := UNKNOWN, or_updated_at := now\<rparr>"

definition recovered :: "timestamp \<Rightarrow> order_record \<Rightarrow> order_record" where
  "recovered now r = (if in_flight r then lost now r else r)"

lemma in_flight_unknown:
  assumes "row_ok r" and "in_flight r"
  shows "can_transition (or_state r) UNKNOWN"
  using assms
  by (cases "or_state r")
    (simp_all add: row_ok_def in_flight_def reached_venue_def or_is_terminal_def is_unreconciled_def
      machine_simps)

lemma lose_track_lost: "row_ok r \<Longrightarrow> in_flight r \<Longrightarrow> lose_track now r = Inr (lost now r)"
  by (simp add: lose_track_def lost_def in_flight_unknown check_transition_def)

lemma lost_sel [simp]:
  "or_order_id (lost now r) = or_order_id r" "or_state (lost now r) = UNKNOWN"
  by (simp_all add: lost_def)

lemma lost_restate:
  "lost now r = r\<lparr>or_state := UNKNOWN, or_reconciliation_attempts := or_reconciliation_attempts r,
     or_updated_at := now\<rparr>"
  by (cases r) (simp add: lost_def)

lemma recovered_not_in_flight: "\<not> in_flight (recovered now r)"
  by (simp add: recovered_def in_flight_def is_unreconciled_def)

definition extend_report :: "order_record list \<Rightarrow> recovery_report \<Rightarrow> recovery_report" where
  "extend_report rs p =
     p\<lparr>rr_interrupted := rr_interrupted p @ map or_order_id (filter in_flight rs),
       rr_never_submitted := rr_never_submitted p @
         map or_order_id (filter (\<lambda>r. \<not> is_unreconciled r \<and> \<not> reached_venue r) rs),
       rr_already_unresolved := rr_already_unresolved p @ map or_order_id (filter is_unreconciled rs)\<rparr>"

context order_repository
begin

lemma mark_unknown_run:
  assumes ok: "rows_ok s" and row: "rows s oid = Some r" and "in_flight r"
  shows "\<exists>s'. mark_unknown R oid now s = (s', Inr (lost now r)) \<and> inv s' \<and>
           rows s' = (rows s)(oid \<mapsto> lost now r) \<and> damaged s' = damaged s"
proof -
  have inv: "inv s" using ok by (rule rows_ok_inv)
  from restate_written [OF inv row order_refl lost_restate] obtain s' where
    s': "save R (lost now r) s = (s', Inr (lost now r))" "inv s'"
      "rows s' = (rows s)(oid \<mapsto> lost now r)" "damaged s' = damaged s" by iprover
  have "mark_unknown R oid now s = (s', Inr (lost now r))"
    unfolding mark_unknown_def update_held_def
    by (rule held_run [OF inv row])
      (simp add: lose_track_lost [OF rows_ok_row [OF ok row] assms(3)] s'(1) bindA_liftA)
  with s' show ?thesis by (intro exI [of _ s']) simp
qed

text \<open>The loop over the scanned records, one record at a time.\<close>

lemma recover_records_run:
  assumes "rows_ok s" and "distinct (map or_order_id rs)"
    and "list_all (\<lambda>r. rows s (or_order_id r) = Some r \<and> \<not> or_is_terminal r) rs"
  shows "\<exists>s'. recover_records R now rs p s = (s', Inr (extend_report rs p)) \<and> rows_ok s' \<and>
           damaged s' = damaged s \<and>
           rows s' = (\<lambda>oid. if oid \<in> set (map or_order_id (filter in_flight rs))
                           then map_option (lost now) (rows s oid) else rows s oid)"
  using assms
proof (induction rs arbitrary: s p)
  case Nil
  then show ?case by (simp add: returnA_def extend_report_def)
next
  case (Cons r rs)
  show ?case
  proof (cases "in_flight r")
    case False
    have tail: "distinct (map or_order_id rs)"
      "list_all (\<lambda>r. rows s (or_order_id r) = Some r \<and> \<not> or_is_terminal r) rs"
      using Cons.prems(2,3) by simp_all
    from Cons.IH [OF Cons.prems(1) tail] obtain s' where
      s': "recover_records R now rs
             (if is_unreconciled r
              then p\<lparr>rr_already_unresolved := rr_already_unresolved p @ [or_order_id r]\<rparr>
              else p\<lparr>rr_never_submitted := rr_never_submitted p @ [or_order_id r]\<rparr>) s =
           (s', Inr (extend_report rs
             (if is_unreconciled r
              then p\<lparr>rr_already_unresolved := rr_already_unresolved p @ [or_order_id r]\<rparr>
              else p\<lparr>rr_never_submitted := rr_never_submitted p @ [or_order_id r]\<rparr>)))"
        "rows_ok s'" "damaged s' = damaged s"
        "rows s' = (\<lambda>oid. if oid \<in> set (map or_order_id (filter in_flight rs))
                           then map_option (lost now) (rows s oid) else rows s oid)"
      by iprover
    have "recover_records R now (r # rs) p s = (s', Inr (extend_report (r # rs) p))"
      using s'(1) False Cons.prems(3)
      by (simp add: extend_report_def in_flight_def split: if_splits)
    with s' False show ?thesis by (intro exI [of _ s']) simp
  next
    case True
    then have br: "\<not> is_unreconciled r" "reached_venue r" by (simp_all add: in_flight_def)
    from Cons.prems(3) have row: "rows s (or_order_id r) = Some r" by simp
    from mark_unknown_run [OF Cons.prems(1) row True] obtain s1 where
      s1: "mark_unknown R (or_order_id r) now s = (s1, Inr (lost now r))"
        "rows s1 = (rows s)(or_order_id r \<mapsto> lost now r)" "damaged s1 = damaged s" by iprover
    have ok1: "rows_ok s1" using mark_ok(5) [OF Cons.prems(1) s1(1)] by simp
    have apart: "or_order_id r \<notin> set (map or_order_id rs)" using Cons.prems(2) by simp
    have rest: "list_all (\<lambda>r. rows s1 (or_order_id r) = Some r \<and> \<not> or_is_terminal r) rs"
      unfolding list_all_iff
    proof (rule ballI)
      fix x
      assume x: "x \<in> set rs"
      then have "or_order_id x \<in> set (map or_order_id rs)" by simp
      with apart have "or_order_id x \<noteq> or_order_id r" by metis
      moreover have "rows s (or_order_id x) = Some x \<and> \<not> or_is_terminal x"
        by (rule bspec [OF Cons.prems(3) [unfolded list_all_iff]]) (simp add: x)
      ultimately show "rows s1 (or_order_id x) = Some x \<and> \<not> or_is_terminal x"
        by (simp add: s1(2))
    qed
    let ?p = "p\<lparr>rr_interrupted := rr_interrupted p @ [or_order_id r]\<rparr>"
    have tail: "distinct (map or_order_id rs)" using Cons.prems(2) by simp
    from Cons.IH [OF ok1 tail rest, of ?p] obtain s' where
      s': "recover_records R now rs ?p s1 = (s', Inr (extend_report rs ?p))"
        "rows_ok s'" "damaged s' = damaged s1"
        "rows s' = (\<lambda>oid. if oid \<in> set (map or_order_id (filter in_flight rs))
                           then map_option (lost now) (rows s1 oid) else rows s1 oid)"
      by iprover
    have "recover_records R now (r # rs) p s = (s', Inr (extend_report (r # rs) p))"
      using s'(1) s1(1) True br by (simp add: bindA_def extend_report_def)
    moreover have "rows s' = (\<lambda>oid. if oid \<in> set (map or_order_id (filter in_flight (r # rs)))
        then map_option (lost now) (rows s oid) else rows s oid)"
    proof (rule ext)
      fix oid
      have "or_order_id r \<notin> set (map or_order_id (filter in_flight rs))"
        using apart by (metis filter_is_subset image_mono set_map subsetD)
      then show "rows s' oid = (if oid \<in> set (map or_order_id (filter in_flight (r # rs)))
          then map_option (lost now) (rows s oid) else rows s oid)"
        using True row unfolding s'(4) s1(2) by (cases "oid = or_order_id r") (simp_all del: set_map)
    qed
    ultimately show ?thesis using s'(2,3) s1(3) by (intro exI [of _ s']) simp
  qed
qed

lemma record_damaged_run:
  assumes "rows_ok s" and "uo_order_id ` set ds \<subseteq> damaged s"
  shows "\<exists>s'. record_damaged R now ds s = (s', Inr ()) \<and> rows_ok s' \<and> rows s' = rows s \<and>
           damaged s' = damaged s"
  using assms
proof (induction ds arbitrary: s)
  case Nil
  then show ?case by (simp add: returnA_def)
next
  case (Cons d ds)
  let ?e = "NotLoadable (uo_reason d) (uo_state d)"
  from unreadable_law [OF rows_ok_inv [OF Cons.prems(1)], of "uo_order_id d" ?e now] Cons.prems(2)
  obtain s1 where s1: "repo_record_unreadable R s (uo_order_id d) ?e now = Inr s1" "inv s1"
    "rows s1 = rows s" "damaged s1 = damaged s" by auto
  have "rows_ok s1" using Cons.prems(1) s1(2,3) by (simp add: rows_ok_def)
  with Cons.IH [of s1] Cons.prems(2) s1 show ?case by auto
qed

text \<open>
  Recovery of a durable store succeeds and moves exactly the orders in flight to \<open>UNKNOWN\<close>.
\<close>

lemma recover_run:
  assumes ok: "rows_ok s" and durable: "repo_durable R"
  shows "\<exists>s' p. recover R now s = (s', Inr p) \<and> rows_ok s' \<and> damaged s' = damaged s \<and>
           rows s' = (\<lambda>oid. map_option (recovered now) (rows s oid)) \<and>
           set (rr_interrupted p) = {oid. pred_option in_flight (rows s oid) \<and> rows s oid \<noteq> None}"
proof -
  from scan_rows [OF rows_ok_inv [OF ok]] obtain sc where sc: "repo_scan_open R s = Inr sc"
    "distinct (map or_order_id (sc_records sc))"
    "\<forall>r. r \<in> set (sc_records sc) \<longleftrightarrow> rows s (or_order_id r) = Some r \<and> \<not> or_is_terminal r"
    "uo_order_id ` set (sc_unreadable sc) \<subseteq> damaged s" by iprover
  have la: "list_all (\<lambda>r. rows s (or_order_id r) = Some r \<and> \<not> or_is_terminal r) (sc_records sc)"
    unfolding list_all_iff using sc(3) by (intro ballI) iprover
  from recover_records_run [OF ok sc(2) la, of now "empty_report True"] obtain s1 where
    s1: "recover_records R now (sc_records sc) (empty_report True) s =
           (s1, Inr (extend_report (sc_records sc) (empty_report True)))"
      "rows_ok s1" "damaged s1 = damaged s"
      "rows s1 = (\<lambda>oid. if oid \<in> set (map or_order_id (filter in_flight (sc_records sc)))
                           then map_option (lost now) (rows s oid) else rows s oid)" by iprover
  from record_damaged_run [OF s1(2), of "sc_unreadable sc" now] sc(4) s1(3) obtain s2 where
    s2: "record_damaged R now (sc_unreadable sc) s1 = (s2, Inr ())" "rows_ok s2"
      "rows s2 = rows s1" "damaged s2 = damaged s" by auto
  have hit: "oid \<in> set (map or_order_id (filter in_flight (sc_records sc))) \<longleftrightarrow>
      pred_option in_flight (rows s oid) \<and> rows s oid \<noteq> None" for oid
  proof
    assume "oid \<in> set (map or_order_id (filter in_flight (sc_records sc)))"
    then obtain r where r: "r \<in> set (sc_records sc)" "in_flight r" "oid = or_order_id r"
      unfolding set_map set_filter by (elim imageE CollectE conjE) iprover
    from r(1) sc(3) have "rows s (or_order_id r) = Some r" by iprover
    with r(2,3) show "pred_option in_flight (rows s oid) \<and> rows s oid \<noteq> None" by simp
  next
    assume a: "pred_option in_flight (rows s oid) \<and> rows s oid \<noteq> None"
    then obtain r where r: "rows s oid = Some r" "in_flight r" by (cases "rows s oid") simp_all
    from row_id [OF rows_ok_inv [OF ok] r(1)] r have
      "rows s (or_order_id r) = Some r \<and> \<not> or_is_terminal r" by (simp add: in_flight_def)
    with sc(3) have "r \<in> set (sc_records sc)" by iprover
    with r(2) row_id [OF rows_ok_inv [OF ok] r(1)]
    show "oid \<in> set (map or_order_id (filter in_flight (sc_records sc)))"
      unfolding set_map set_filter by (intro image_eqI [of _ _ r]) simp_all
  qed
  have "rows s2 oid = map_option (recovered now) (rows s oid)" for oid
    unfolding s2(3) s1(4) hit by (cases "rows s oid") (simp_all add: recovered_def)
  moreover have "\<exists>p. recover R now s = (s2, Inr p) \<and>
      set (rr_interrupted p) = {oid. pred_option in_flight (rows s oid) \<and> rows s oid \<noteq> None}"
    using durable sc(1) s1(1) s2(1) hit
    by (simp add: recover_def bindA_def returnA_def extend_report_def empty_report_def
        set_eq_iff del: set_map)
  ultimately show ?thesis using s2(2,4) by (intro exI [of _ s2]) auto
qed

lemma recovered_ok: "row_ok r \<Longrightarrow> evolves r (recovered now r) \<and> row_ok (recovered now r)"
  using lose_track_ok [of r now "lost now r"] lose_track_lost [of r now] by (simp add: recovered_def)

lemma recover_ok:
  assumes ok: "rows_ok s" and run: "recover R now s = (s', res)"
  shows "rows_ok s' \<and> later s s'"
proof (cases "repo_durable R")
  case False
  with run have "s' = s" by (simp add: recover_def returnA_def)
  with ok later_refl [OF rows_ok_inv [OF ok]] show ?thesis by simp
next
  case True
  from recover_run [OF ok True, of now] run obtain
    "rows_ok s'" "damaged s' = damaged s" "rows s' = (\<lambda>oid. map_option (recovered now) (rows s oid))"
    by (elim exE conjE) simp
  moreover have "row_later (rows s oid) (oid \<in> damaged s)
      (map_option (recovered now) (rows s oid)) (oid \<in> damaged s)" for oid
  proof (cases "rows s oid")
    case None
    then show ?thesis by (cases "oid \<in> damaged s") simp_all
  next
    case (Some r)
    with recovered_ok [OF rows_ok_row [OF ok Some]] show ?thesis by simp
  qed
  ultimately show ?thesis unfolding later_def by simp
qed

lemma perform_ok:
  assumes ok: "rows_ok s" and input: "input_ok c"
    and new: "\<And>u i. c = CreateOrGet u i \<Longrightarrow>
      built_fresh h u i (\<lambda>oid. rows s oid \<noteq> None \<or> oid \<in> damaged s) storable"
  shows "rows_ok (fst (perform R h c s)) \<and> later s (fst (perform R h c s))"
proof (cases c)
  case (CreateOrGet u i)
  then show ?thesis
    using create_or_get_ok [OF ok _ new [OF CreateOrGet]] input
    by (simp only: perform.simps) (rule void_ok, simp)
next
  case (ApplyVenueAck oid v st now)
  then show ?thesis
    using ack_ok [OF ok] input by (simp only: perform.simps) (rule void_ok, simp)
next
  case (ApplyFill oid f now)
  then show ?thesis
    using apply_fill_ok [OF ok] input by (simp only: perform.simps) (rule void_ok, simp)
next
  case (Reconcile oid view reach now)
  then show ?thesis
    using reconcile_ok [OF ok] input by (simp only: perform.simps) (rule void_ok, simp)
next
  case (ResolveManually oid st op why now)
  show ?thesis
    unfolding ResolveManually perform.simps by (rule void_ok) (rule resolve_manually_ok [OF ok])
next
  case (Recover now)
  show ?thesis unfolding Recover perform.simps by (rule void_ok) (rule recover_ok [OF ok])
qed (simp only: perform.simps, rule void_ok, erule mark_ok [OF ok])+

end

subsection \<open>Histories of the in-memory store\<close>

text \<open>The in-memory store under any sequence of calls, each interleaving one step.\<close>

definition mem_fresh :: "(string \<Rightarrow> nat \<Rightarrow> nat list) \<Rightarrow> mem_repo \<Rightarrow> order_command \<Rightarrow> bool" where
  "mem_fresh h s c \<longleftrightarrow>
     (case c of CreateOrGet u i \<Rightarrow> built_fresh h u i (\<lambda>oid. mem_rows s oid \<noteq> None) (\<lambda>_. True)
      | _ \<Rightarrow> True)"

inductive mem_step :: "(string \<Rightarrow> nat \<Rightarrow> nat list) \<Rightarrow> mem_repo \<Rightarrow> mem_repo \<Rightarrow> bool" for h where
  call: "input_ok c \<Longrightarrow> mem_fresh h s c \<Longrightarrow> mem_step h s (fst (perform mem_ops h c s))"

inductive_cases mem_stepE: "mem_step h s s'"

inductive mem_run :: "(string \<Rightarrow> nat \<Rightarrow> nat list) \<Rightarrow> mem_repo \<Rightarrow> mem_repo \<Rightarrow> bool" for h where
  start: "mem_run h s s"
| more: "mem_run h s s1 \<Longrightarrow> mem_step h s1 s2 \<Longrightarrow> mem_run h s s2"

definition mem_ok :: "mem_repo \<Rightarrow> bool" where
  "mem_ok s \<longleftrightarrow> mem_inv s \<and> (\<forall>oid. pred_option row_ok (mem_rows s oid))"

lemma mem_ok_rows_ok: "mem_ok s \<longleftrightarrow> mem.rows_ok s"
  by (simp add: mem_ok_def mem.rows_ok_def)

lemma mem_ok_empty: "mem_ok mem_empty"
  unfolding mem_ok_def using mem_inv_empty by (simp add: mem_rows_def mem_empty_def)

lemma mem_step_ok: "mem_step h s s' \<Longrightarrow> mem_ok s \<Longrightarrow> mem_ok s' \<and> mem.later s s'"
proof (elim mem_stepE)
  fix c
  assume ok: "mem_ok s" and s': "s' = fst (perform mem_ops h c s)"
    and c: "input_ok c" "mem_fresh h s c"
  have "mem.rows_ok (fst (perform mem_ops h c s)) \<and> mem.later s (fst (perform mem_ops h c s))"
    by (rule mem.perform_ok [OF _ c(1)])
      (use ok c(2) in \<open>simp_all add: mem_ok_rows_ok mem_fresh_def\<close>)
  then show ?thesis by (simp add: s' mem_ok_rows_ok)
qed

lemma mem_run_ok: "mem_run h s s' \<Longrightarrow> mem_ok s \<Longrightarrow> mem_ok s' \<and> mem.later s s'"
proof (induction rule: mem_run.induct)
  case (start s)
  then show ?case using mem.later_refl [of s] by (simp add: mem_ok_rows_ok mem.rows_ok_inv)
next
  case (more s s1 s2)
  from more.IH [OF more.prems] have one: "mem_ok s1" "mem.later s s1" by simp_all
  from mem_step_ok [OF more.hyps(2) one(1)] have two: "mem_ok s2" "mem.later s1 s2" by simp_all
  have "mem_inv s1" using one(1) unfolding mem_ok_def by (rule conjunct1)
  with one two mem.later_trans [of s1 s s2] show ?case by simp
qed

lemma mem_later_iff:
  "mem.later s s' \<longleftrightarrow> (\<forall>oid. row_later (mem_rows s oid) False (mem_rows s' oid) False)"
  by (simp add: mem.later_def)

lemma mem_later_row:
  assumes "mem.later s s'" and "mem_rows s oid = Some r"
  shows "\<exists>x. mem_rows s' oid = Some x \<and> evolves r x"
  using assms(1) [unfolded mem_later_iff, THEN spec, of oid] assms(2)
  by (cases "mem_rows s' oid") simp_all

end
