(* ===== verification/OrderProperties.thy ===== *)
theory OrderProperties
  imports OrderHistory
begin

section \<open>Properties of the order lifecycle\<close>

text \<open>
  The theorems about the lifecycle engine over the in-memory repository, each over the calls
  themselves. Every history starts from a store that keeps the invariant; interleaving of callers
  is the order of the steps.
\<close>

subsection \<open>What one call writes\<close>

context order_repository
begin

lemma update_held_write:
  assumes inv: "inv s" and run: "update_held R oid f s = (s', res)"
  shows "s' = s \<or> (\<exists>r x. rows s oid = Some r \<and> f r = Inr x \<and> repo_update R s x = Inr s')"
proof (cases "repo_get R s oid")
  case (Inl e)
  with run show ?thesis by (simp add: update_held_def held_def locked_def)
next
  case (Inr m)
  have m: "rows s oid = m" using get_Inr [OF inv Inr] .
  have stay: "repo_abort R s s = s" using abort_law [of s s] by simp
  show ?thesis
  proof (cases m)
    case None
    with run Inr stay show ?thesis by (simp add: update_held_def held_def locked_def raiseA_def)
  next
    case (Some r)
    note get = Inr [unfolded Some]
    show ?thesis
    proof (cases "f r")
      case (Inl e)
      with run get stay show ?thesis
        by (simp add: update_held_def held_def locked_def bindA_liftA raiseA_def)
    next
      case (Inr x)
      show ?thesis
      proof (cases "repo_update R s x")
        case (Inl e)
        with run get Inr stay show ?thesis
          by (simp add: update_held_def held_def locked_def bindA_liftA save_def)
      next
        case upd: (Inr s2)
        with run get Inr have "s' = s2"
          by (simp add: update_held_def held_def locked_def bindA_liftA save_def)
        with upd Inr m Some show ?thesis by iprover
      qed
    qed
  qed
qed

lemma reconcile_write:
  assumes inv: "inv s" and run: "reconcile R oid view reach now s = (s', res)"
  shows "s' = s \<or> (\<exists>r x. rows s oid = Some r \<and>
      conclude (decide r view reach) now r = Inr (Some x) \<and> repo_update R s x = Inr s')"
proof (cases "repo_get R s oid")
  case (Inl e)
  with run show ?thesis by (simp add: reconcile_def held_def locked_def)
next
  case (Inr m)
  have m: "rows s oid = m" using get_Inr [OF inv Inr] .
  have stay: "repo_abort R s s = s" using abort_law [of s s] by simp
  show ?thesis
  proof (cases m)
    case None
    with run Inr stay show ?thesis by (simp add: reconcile_def held_def locked_def raiseA_def)
  next
    case (Some r)
    note get = Inr [unfolded Some]
    have nested: "reconcile R oid view reach now s =
        (case apply_reconciliation R oid (decide r view reach) now s of
           (s1, Inl e) \<Rightarrow> (repo_abort R s s1, Inl e)
         | (s1, Inr x) \<Rightarrow> (s1, Inr (x, decide r view reach)))"
      using get by (simp add: reconcile_def held_def locked_def Let_def bindA_def returnA_def
          split: prod.splits sum.splits)
    let ?c = "conclude (decide r view reach) now r"
    consider e where "?c = Inl e" | "?c = Inr None" | x where "?c = Inr (Some x)"
      by (cases ?c; cases "projr ?c") simp_all
    then show ?thesis
    proof cases
      case 1
      with run get stay nested show ?thesis
        by (simp add: apply_reconciliation_def held_def locked_def bindA_liftA raiseA_def)
    next
      case 2
      with run get stay nested show ?thesis
        by (simp add: apply_reconciliation_def held_def locked_def bindA_liftA returnA_def)
    next
      case (3 x)
      show ?thesis
      proof (cases "repo_update R s x")
        case (Inl e)
        with run get stay nested 3 show ?thesis
          by (simp add: apply_reconciliation_def held_def locked_def bindA_liftA save_def)
      next
        case upd: (Inr s2)
        with run get nested 3 have "s' = s2"
          by (simp add: apply_reconciliation_def held_def locked_def bindA_liftA save_def)
        with upd 3 m Some show ?thesis by iprover
      qed
    qed
  qed
qed

end

text \<open>A successful update of the in-memory store, given that the record kept its identity.\<close>

lemma mem_update_rows:
  assumes "mem_inv s" and "mem_rows s oid = Some r" and "same_order r x"
    and "mem_update s x = Inr s'"
  shows "mem_rows s' = (mem_rows s)(oid \<mapsto> x)"
proof -
  have id: "or_order_id x = oid" "or_client_order_id x = or_client_order_id r"
    using mem_row_id [OF assms(1,2)] assms(3) by (simp_all add: same_order_def)
  with mem_update_inv [OF assms(1), of x r] assms(2,4) show ?thesis by auto
qed

lemma mem_held_success:
  assumes "mem_inv s" and row: "mem_rows s oid = Some r" and "f r = Inr x" and "same_order r x"
  shows "\<exists>s'. update_held mem_ops oid f s = (s', Inr x) \<and> mem_inv s' \<and>
           mem_rows s' = (mem_rows s)(oid \<mapsto> x)"
proof -
  have id: "or_order_id x = oid" "or_client_order_id x = or_client_order_id r"
    using mem_row_id [OF assms(1,2)] assms(4) by (simp_all add: same_order_def)
  from mem_update_inv [OF assms(1), of x r] id row obtain s' where
    s': "mem_update s x = Inr s'" "mem_inv s'" "mem_rows s' = (mem_rows s)(oid \<mapsto> x)"
    by simp (elim exE conjE, simp)
  have "update_held mem_ops oid f s = (s', Inr x)"
    unfolding update_held_def
    by (rule mem.held_run [OF assms(1,2)]) (simp add: assms(3) bindA_liftA save_def s'(1))
  with s' show ?thesis by (intro exI [of _ s']) simp
qed

lemma mem_held_error:
  assumes "mem_inv s" and "mem_rows s oid = Some r" and "f r = Inl e"
  shows "update_held mem_ops oid f s = (s, Inl e)"
  using assms(2,3)
  by (simp add: update_held_def held_def locked_def mem_get_def mem_rows_def bindA_liftA raiseA_def
      mem_abort_def)

lemma mem_held_absent:
  assumes "mem_rows s oid = None"
  shows "held mem_ops oid body s = (s, Inl KeyError)"
  using assms
  by (simp add: held_def locked_def mem_get_def mem_rows_def raiseA_def mem_abort_def)

lemma mem_reconcile_success:
  assumes inv: "mem_inv s" and row: "mem_rows s oid = Some r"
    and c: "conclude (decide r view reach) now r = Inr (Some x)" and same: "same_order r x"
  shows "\<exists>s'. reconcile mem_ops oid view reach now s = (s', Inr (x, decide r view reach)) \<and>
           mem_inv s' \<and> mem_rows s' = (mem_rows s)(oid \<mapsto> x)"
proof -
  have id: "or_order_id x = oid" "or_client_order_id x = or_client_order_id r"
    using mem_row_id [OF inv row] same by (simp_all add: same_order_def)
  from mem_update_inv [OF inv, of x r] id row obtain s' where
    s': "mem_update s x = Inr s'" "mem_inv s'" "mem_rows s' = (mem_rows s)(oid \<mapsto> x)"
    by simp (elim exE conjE, simp)
  have "apply_reconciliation mem_ops oid (decide r view reach) now s = (s', Inr x)"
    unfolding apply_reconciliation_def
    by (rule mem.held_run [OF inv row]) (simp add: c bindA_liftA save_def s'(1))
  then have "reconcile mem_ops oid view reach now s = (s', Inr (x, decide r view reach))"
    unfolding reconcile_def Let_def
    by (intro mem.held_run [OF inv row]) (simp add: bindA_def returnA_def)
  with s' show ?thesis by (intro exI [of _ s']) simp
qed

lemma mem_reconcile_error:
  assumes inv: "mem_inv s" and row: "mem_rows s oid = Some r"
    and c: "conclude (decide r view reach) now r = Inl e"
  shows "reconcile mem_ops oid view reach now s = (s, Inl e)"
  using row c
  by (simp add: reconcile_def apply_reconciliation_def held_def locked_def mem_get_def mem_rows_def
      Let_def bindA_liftA raiseA_def mem_abort_def bindA_def [of "\<lambda>s. locked _ _ _ s"] bindA_def)

subsection \<open>Concrete orders for the witnesses\<close>

definition example_hash :: "string \<Rightarrow> nat \<Rightarrow> nat list" where
  "example_hash text n = replicate n 7"

definition example_intent :: order_intent where
  "example_intent =
     \<lparr>oi_account_id = ''acct'', oi_symbol = ''BTCUSDT'', oi_side = BUY, oi_order_type = MARKET,
      oi_quantity = 2, oi_price = None, oi_reduce_only = False, oi_mode = TESTNET,
      oi_origin = MANUAL, oi_intent_key = ''k1'', oi_created_at = 100\<rparr>"

definition example_order :: "order_state \<Rightarrow> timestamp option \<Rightarrow> timestamp option \<Rightarrow> order_record" where
  "example_order st sent settled =
     \<lparr>or_order_id = ''order-1'', or_client_order_id = ''aeth-07070707070707070707'',
      or_venue_order_id = None, or_intent = example_intent, or_state = st, or_filled_quantity = 0,
      or_average_fill_price = None, or_fills = [], or_created_at = 100, or_updated_at = 100,
      or_submitted_at = sent, or_terminal_at = settled, or_rejection_code = None,
      or_venue_rejection = None, or_venue_status_raw = None, or_last_polled_at = None,
      or_venue_leverage = None, or_venue_margin_mode = None, or_reconciliation_attempts = 0,
      or_last_reconciled_at = None, or_discrepancies = [], or_resolved_by_operator = None,
      or_operator_reason = None\<rparr>"

definition one_order :: "order_record \<Rightarrow> mem_repo" where
  "one_order r =
     \<lparr>by_order_id = [(or_order_id r, r)], by_client_id = [(or_client_order_id r, or_order_id r)]\<rparr>"

lemma one_order_rows: "mem_rows (one_order r) oid = (if oid = or_order_id r then Some r else None)"
  by (simp add: mem_rows_def one_order_def)

lemma one_order_ok:
  assumes "row_ok r" and "or_order_id r \<noteq> []"
  shows "mem_ok (one_order r)"
proof -
  have "index_ok or_order_id or_client_order_id
      ((\<lambda>_. None)(or_order_id r \<mapsto> r)) ((\<lambda>_. None)(or_client_order_id r \<mapsto> or_order_id r))"
    by (rule index_ok_add [OF index_ok_empty]) (simp_all add: assms(2))
  then have "mem_inv (one_order r)"
    unfolding mem_inv_def mem_index_def by (simp add: one_order_def)
  then show ?thesis
    unfolding mem_ok_def using assms(1) by (simp add: one_order_rows)
qed

lemma example_order_sel [simp]:
  "or_order_id (example_order st a b) = ''order-1''" "or_state (example_order st a b) = st"
  "or_filled_quantity (example_order st a b) = 0" "or_intent (example_order st a b) = example_intent"
  "or_submitted_at (example_order st a b) = a" "or_terminal_at (example_order st a b) = b"
  "or_reconciliation_attempts (example_order st a b) = 0" "or_fills (example_order st a b) = []"
  by (simp_all add: example_order_def)

lemma example_order_ok:
  assumes "(b \<noteq> None) = is_terminal st" and "st \<in> {CREATED, VALIDATING} \<longrightarrow> a = None"
    and "st \<in> sent_states \<longrightarrow> a \<noteq> None"
  shows "row_ok (example_order st a b)"
  using assms by (simp add: row_ok_def example_intent_def)

lemma example_store_ok:
  assumes "(b \<noteq> None) = is_terminal st" and "st \<in> {CREATED, VALIDATING} \<longrightarrow> a = None"
    and "st \<in> sent_states \<longrightarrow> a \<noteq> None"
  shows "mem_ok (one_order (example_order st a b))"
  by (rule one_order_ok [OF example_order_ok [OF assms]]) simp

lemma example_client_id:
  "client_order_id example_hash ''acct'' ''k1'' = Inr ''aeth-07070707070707070707''"
  by code_simp

lemma example_build: "build example_hash ''1'' example_intent = Inr (example_order CREATED None None)"
  by (simp add: build_def example_client_id new_order_id_def example_order_def example_intent_def)

lemma example_intent_valid: "order_intent_valid example_intent"
  by (simp add: order_intent_valid_def example_intent_def)

lemma example_create:
  "mem_step example_hash mem_empty (one_order (example_order CREATED None None))"
proof -
  have "mem_add_or_get mem_empty (example_order CREATED None None) =
      Inr (one_order (example_order CREATED None None), example_order CREATED None None, True)"
    by (simp add: mem_add_or_get_def mem_add_def mem_empty_def one_order_def)
  then have "fst (perform mem_ops example_hash (CreateOrGet ''1'' example_intent) mem_empty) =
      one_order (example_order CREATED None None)"
    by (simp add: void_fst create_or_get_def example_build)
  moreover have "mem_step example_hash mem_empty
      (fst (perform mem_ops example_hash (CreateOrGet ''1'' example_intent) mem_empty))"
    by (rule mem_step.call)
      (simp_all add: mem_fresh_def built_fresh_def example_build mem_rows_def mem_empty_def
        example_intent_valid)
  ultimately show ?thesis by simp
qed

subsection \<open>Invariants of every history\<close>





subsection \<open>One call, one edge\<close>

definition along_edge :: "order_record \<Rightarrow> order_record \<Rightarrow> bool" where
  "along_edge r x \<longleftrightarrow>
     same_order r x \<and> (or_state x = or_state r \<or> can_transition (or_state r) (or_state x))"

lemma along_edge_refl [simp]: "along_edge r r"
  by (simp add: along_edge_def same_order_def)

named_theorems kernel_edges "the methods' pure parts move along one edge"

lemma move_to_edge [kernel_edges]: "move_to t now sub r = Inr x \<Longrightarrow> along_edge r x"
  by (auto simp: move_to_def kernel_simps along_edge_def same_order_def)

lemma reject_edge [kernel_edges]: "reject_by_risk code now r = Inr x \<Longrightarrow> along_edge r x"
  by (auto simp: reject_by_risk_def kernel_simps along_edge_def same_order_def)

lemma cancel_edge [kernel_edges]: "cancel_unsent now r = Inr x \<Longrightarrow> along_edge r x"
  by (auto simp: cancel_unsent_def kernel_simps along_edge_def same_order_def split: if_splits)

lemma acknowledge_edge [kernel_edges]: "acknowledge v t now r = Inr x \<Longrightarrow> along_edge r x"
  by (auto simp: acknowledge_def kernel_simps along_edge_def same_order_def)

lemma lose_track_edge [kernel_edges]: "lose_track now r = Inr x \<Longrightarrow> along_edge r x"
  by (auto simp: lose_track_def kernel_simps along_edge_def same_order_def)

lemma start_edge [kernel_edges]: "start_reconciling now r = Inr x \<Longrightarrow> along_edge r x"
  by (auto simp: start_reconciling_def kernel_simps along_edge_def same_order_def)

lemma fill_edge [kernel_edges]: "fill_step f now r = Inr x \<Longrightarrow> along_edge r x"
  by (auto simp: fill_step_def Let_def kernel_simps along_edge_def same_order_def
      with_discrepancy_def split: if_splits)

lemma conclude_edge [kernel_edges]: "conclude d now r = Inr (Some x) \<Longrightarrow> along_edge r x"
  by (auto simp: conclude_def kernel_simps along_edge_def same_order_def with_discrepancy_def
      touched_def split: if_splits option.splits)

lemma along_edge_same: "along_edge r x \<Longrightarrow> same_order r x"
  by (simp add: along_edge_def)

lemma mem_held_edge:
  assumes inv: "mem_inv s" and f: "\<And>r x. f r = Inr x \<Longrightarrow> along_edge r x"
    and run: "update_held mem_ops o' f s = (s', res)"
    and row: "mem_rows s oid = Some r" and row': "mem_rows s' oid = Some x"
  shows "along_edge r x"
  using mem.update_held_write [OF inv run]
proof (elim disjE exE conjE)
  assume "s' = s"
  with row row' show ?thesis by simp
next
  fix r1 x1
  assume w: "mem_rows s o' = Some r1" "f r1 = Inr x1" "repo_update mem_ops s x1 = Inr s'"
  note e = f [OF w(2)]
  from mem_update_rows [OF inv w(1) along_edge_same [OF e]] w(3)
  have "mem_rows s' = (mem_rows s)(o' \<mapsto> x1)" by simp
  with e w(1) row row' show ?thesis by (cases "oid = o'") simp_all
qed

lemma mem_reconcile_edge:
  assumes inv: "mem_inv s" and run: "reconcile mem_ops o' view reach now s = (s', res)"
    and row: "mem_rows s oid = Some r" and row': "mem_rows s' oid = Some x"
  shows "along_edge r x"
  using mem.reconcile_write [OF inv run]
proof (elim disjE exE conjE)
  assume "s' = s"
  with row row' show ?thesis by simp
next
  fix r1 x1
  assume w: "mem_rows s o' = Some r1" "conclude (decide r1 view reach) now r1 = Inr (Some x1)"
    "repo_update mem_ops s x1 = Inr s'"
  note e = conclude_edge [OF w(2)]
  from mem_update_rows [OF inv w(1) along_edge_same [OF e]] w(3)
  have "mem_rows s' = (mem_rows s)(o' \<mapsto> x1)" by simp
  with e w(1) row row' show ?thesis by (cases "oid = o'") simp_all
qed

lemma mem_create_rows:
  assumes inv: "mem_inv s" and fresh: "built_fresh h u i (\<lambda>o'. mem_rows s o' \<noteq> None) (\<lambda>_. True)"
    and run: "create_or_get mem_ops h u i s = (s', res)" and row: "mem_rows s oid = Some r"
  shows "mem_rows s' oid = Some r"
proof (cases "bindE (build h u i) (mem_add_or_get s)")
  case (Inl e)
  with run row show ?thesis by (simp add: create_or_get_def)
next
  case (Inr t)
  obtain s1 y c where t: "t = (s1, y, c)" by (cases t) iprover
  from Inr run t have s1: "s' = s1" by (simp add: create_or_get_def)
  obtain b where b: "build h u i = Inr b" "mem_add_or_get s b = Inr (s1, y, c)"
    using Inr t by (cases "build h u i") simp_all
  from fresh b(1) have new: "mem_rows s (or_order_id b) = None" by (simp add: built_fresh_def)
  have "or_order_id b \<noteq> []" using build_Inr(1) [OF b(1)] by (simp add: new_order_id_def)
  from mem_add_or_get_inv [OF inv new this b(2)] row new s1 show ?thesis
    by (cases c; cases "oid = or_order_id b") simp_all
qed

lemma perform_edge:
  assumes ok: "mem_ok s" and fresh: "mem_fresh h s c"
    and row: "mem_rows s oid = Some r" and row': "mem_rows (fst (perform mem_ops h c s)) oid = Some x"
    and "\<And>o' st op why now. c \<noteq> ResolveManually o' st op why now"
  shows "along_edge r x"
proof -
  have inv: "mem_inv s" using ok by (simp add: mem_ok_def)
  have held: "along_edge r x"
    if "fst (perform mem_ops h c s) = fst (update_held mem_ops o' f s)"
      and "\<And>r x. f r = Inr x \<Longrightarrow> along_edge r x" for o' f
  proof -
    obtain s1 res where u: "update_held mem_ops o' f s = (s1, res)"
      by (cases "update_held mem_ops o' f s") iprover
    show ?thesis by (rule mem_held_edge [OF inv that(2) u row]) (use row' that(1) u in simp_all)
  qed
  show ?thesis
  proof (cases c)
    case (CreateOrGet u i)
    obtain s1 res where run: "create_or_get mem_ops h u i s = (s1, res)"
      by (cases "create_or_get mem_ops h u i s") iprover
    from fresh CreateOrGet have "built_fresh h u i (\<lambda>o'. mem_rows s o' \<noteq> None) (\<lambda>_. True)"
      by (simp add: mem_fresh_def)
    from mem_create_rows [OF inv this run row] row' run CreateOrGet show ?thesis
      by (simp add: void_fst)
  next
    case (Reconcile o' view reach now)
    obtain s1 res where run: "reconcile mem_ops o' view reach now s = (s1, res)"
      by (cases "reconcile mem_ops o' view reach now s") iprover
    show ?thesis
      by (rule mem_reconcile_edge [OF inv run row]) (use row' run Reconcile in \<open>simp add: void_fst\<close>)
  next
    case (Recover now)
    with row row' show ?thesis by (simp add: void_fst recover_def returnA_def)
  next
    case (ResolveManually o' st op why now)
    with assms(5) show ?thesis by iprover
  next
    case (MarkValidating o' now)
    show ?thesis
      by (rule held [where o' = o' and f = "move_to VALIDATING now None"])
        (simp_all add: MarkValidating void_fst mark_validating_def kernel_edges)
  next
    case (MarkRiskRejected o' code now)
    show ?thesis
      by (rule held [where o' = o' and f = "reject_by_risk code now"])
        (simp_all add: MarkRiskRejected void_fst mark_risk_rejected_def kernel_edges)
  next
    case (CancelBeforeSubmission o' now)
    show ?thesis
      by (rule held [where o' = o' and f = "cancel_unsent now"])
        (simp_all add: CancelBeforeSubmission void_fst cancel_before_submission_def kernel_edges)
  next
    case (MarkSubmitting o' now)
    show ?thesis
      by (rule held [where o' = o' and f = "move_to SUBMITTED now (Some now)"])
        (simp_all add: MarkSubmitting void_fst mark_submitting_def kernel_edges)
  next
    case (ApplyVenueAck o' v st now)
    show ?thesis
      by (rule held [where o' = o' and f = "acknowledge v st now"])
        (simp_all add: ApplyVenueAck void_fst apply_venue_ack_def kernel_edges)
  next
    case (MarkUnknown o' now)
    show ?thesis
      by (rule held [where o' = o' and f = "lose_track now"])
        (simp_all add: MarkUnknown void_fst mark_unknown_def kernel_edges)
  next
    case (ApplyFill o' f now)
    show ?thesis
      by (rule held [where o' = o' and f = "fill_step f now"])
        (simp_all add: ApplyFill void_fst apply_fill_def kernel_edges)
  next
    case (BeginReconciliation o' now)
    show ?thesis
      by (rule held [where o' = o' and f = "start_reconciling now"])
        (simp_all add: BeginReconciliation void_fst begin_reconciliation_def kernel_edges)
  qed
qed

text \<open>An order whose fate is unknown is settled by no call but a manual resolution: after any
  other single call, whatever the venue or a caller says in it, the order is still \<open>UNKNOWN\<close> or has
  been declared \<open>RECONCILING\<close>.\<close>

theorem unknown_needs_reconciling:
  assumes "mem_ok s" and "mem_fresh h s c" and "mem_rows s oid = Some r" and "or_state r = UNKNOWN"
    and "mem_rows (fst (perform mem_ops h c s)) oid = Some x"
    and "\<And>o' st op why now. c \<noteq> ResolveManually o' st op why now"
  shows "or_state x \<in> {UNKNOWN, RECONCILING}"
  using perform_edge [OF assms(1-3,5,6)] assms(4)
  by (auto simp: along_edge_def unknown_exit)

theorem unknown_needs_reconciling_witness:
  "mem_rows (fst (perform mem_ops example_hash (BeginReconciliation ''order-1'' 7)
       (one_order (example_order UNKNOWN (Some 5) None)))) ''order-1'' =
     Some ((example_order UNKNOWN (Some 5) None)
       \<lparr>or_state := RECONCILING, or_reconciliation_attempts := 1, or_updated_at := 7\<rparr>) \<and>
   RECONCILING \<in> {UNKNOWN, RECONCILING}"
proof -
  let ?s = "one_order (example_order UNKNOWN (Some 5) None)"
  let ?c = "BeginReconciliation ''order-1'' 7"
  let ?x = "(example_order UNKNOWN (Some 5) None)
       \<lparr>or_state := RECONCILING, or_reconciliation_attempts := 1, or_updated_at := 7\<rparr>"
  have ok: "mem_ok ?s"
    by (rule example_store_ok) (simp_all add: is_terminal_def terminal_order_states_def)
  have row: "mem_rows ?s ''order-1'' = Some (example_order UNKNOWN (Some 5) None)"
    by (simp add: one_order_rows)
  have "start_reconciling 7 (example_order UNKNOWN (Some 5) None) = Inr ?x"
    by (simp add: start_reconciling_def machine_simps)
  then have "mem_rows (fst (perform mem_ops example_hash ?c ?s)) ''order-1'' = Some ?x"
    using mem_held_success [OF _ row, of "start_reconciling 7" ?x] ok
    by (auto simp: void_fst begin_reconciliation_def mem_ok_def same_order_def)
  moreover from unknown_needs_reconciling [OF ok _ row _ this] this
  have "or_state ?x \<in> {UNKNOWN, RECONCILING}" by (simp add: mem_fresh_def)
  ultimately show ?thesis by simp
qed

subsection \<open>Reconciliation\<close>

lemma adopt_same_order: "same_order r (adopt d t now r)"
  by (simp add: same_order_def)

text \<open>Asking a reachable venue that has no such order settles an open order as cancelled exactly
  when it was never submitted; an order that was submitted ends \<open>UNKNOWN\<close>, whatever open state
  it was in, and no fill or stamp of it changes.\<close>

theorem absence_settles_only_unsent:
  assumes "mem_ok s" and "mem_rows s oid = Some r" and "\<not> or_is_terminal r"
  shows "\<exists>s' x. reconcile mem_ops oid None True now s = (s', Inr (x, decide r None True)) \<and>
    mem_rows s' = (mem_rows s)(oid \<mapsto> x) \<and>
    or_state x = (if reached_venue r then UNKNOWN else CANCELLED) \<and>
    or_filled_quantity x = or_filled_quantity r \<and> or_fills x = or_fills r \<and>
    or_submitted_at x = or_submitted_at r"
proof -
  have inv: "mem_inv s" using assms(1) by (simp add: mem_ok_def)
  have ok: "row_ok r" using assms(1) mem.rows_ok_row [OF _ assms(2)] by (simp add: mem_ok_rows_ok)
  define t where "t = (if reached_venue r then UNKNOWN else CANCELLED)"
  define x where "x = (if t = or_state r then touched now r
      else adopt (decide r None True) t now r)"
  have edge: "t = or_state r \<or> can_transition (or_state r) t"
    using ok assms(3)
    by (cases "or_state r")
      (simp_all add: row_ok_def t_def reached_venue_def or_is_terminal_def sent_states_def machine_simps)
  have c: "conclude (decide r None True) now r = Inr (Some x)"
  proof (cases "t = or_state r")
    case True
    then show ?thesis
      by (cases "reached_venue r")
        (simp_all add: t_def decide_absent conclude_plain x_def split: if_splits)
  next
    case False
    with edge have "check_transition (or_state r) t = Inr ()" by (simp add: check_transition_def)
    with False show ?thesis
      by (cases "reached_venue r")
        (simp_all add: t_def decide_absent conclude_plain x_def split: if_splits)
  qed
  have same: "same_order r x" by (simp add: x_def adopt_same_order touched_def same_order_def)
  have "rd_filled_quantity (decide r None True) = None" by (simp add: decide_absent)
  then have fields: "or_state x = t" "or_filled_quantity x = or_filled_quantity r"
    "or_fills x = or_fills r" "or_submitted_at x = or_submitted_at r"
    by (simp_all add: x_def touched_def)
  from mem_reconcile_success [OF inv assms(2) c same] obtain s' where
    "reconcile mem_ops oid None True now s = (s', Inr (x, decide r None True))"
    "mem_rows s' = (mem_rows s)(oid \<mapsto> x)" by iprover
  with fields show ?thesis
    unfolding t_def by (intro exI [of _ s'] exI [of _ x]) simp
qed

theorem absence_settles_only_unsent_witness:
  "(\<exists>s' x d. reconcile mem_ops ''order-1'' None True 9
       (one_order (example_order SUBMITTED (Some 5) None)) = (s', Inr (x, d)) \<and>
       or_state x = UNKNOWN) \<and>
   (\<exists>s' x d. reconcile mem_ops ''order-1'' None True 9
       (one_order (example_order VALIDATING None None)) = (s', Inr (x, d)) \<and>
       or_state x = CANCELLED)"
proof
  let ?r = "example_order SUBMITTED (Some 5) None"
  have "mem_ok (one_order ?r)"
    by (rule example_store_ok) (simp_all add: is_terminal_def terminal_order_states_def)
  from absence_settles_only_unsent [OF this, of "''order-1''" ?r 9]
  show "\<exists>s' x d. reconcile mem_ops ''order-1'' None True 9 (one_order ?r) = (s', Inr (x, d)) \<and>
      or_state x = UNKNOWN"
    by (simp add: one_order_rows or_is_terminal_def is_terminal_def terminal_order_states_def
        reached_venue_def) iprover
next
  let ?r = "example_order VALIDATING None None"
  have "mem_ok (one_order ?r)"
    by (rule example_store_ok) (simp_all add: is_terminal_def terminal_order_states_def
        sent_states_def)
  from absence_settles_only_unsent [OF this, of "''order-1''" ?r 9]
  show "\<exists>s' x d. reconcile mem_ops ''order-1'' None True 9 (one_order ?r) = (s', Inr (x, d)) \<and>
      or_state x = CANCELLED"
    by (simp add: one_order_rows or_is_terminal_def is_terminal_def terminal_order_states_def
        reached_venue_def) iprover
qed

text \<open>Once an order is being reconciled, a venue answer that passes the checks is adopted whole:
  state, fill total and average become the venue's, the local fills are dropped, and a terminal
  answer is stamped.\<close>

theorem reconciling_adopts_venue:
  assumes "mem_inv s" and "mem_rows s oid = Some r" and "or_state r = RECONCILING"
    and "adoptable r v"
  shows "\<exists>s' x. reconcile mem_ops oid (Some v) True now s = (s', Inr (x, decide r (Some v) True)) \<and>
    mem_rows s' = (mem_rows s)(oid \<mapsto> x) \<and> or_state x = vv_state v \<and>
    or_filled_quantity x = vv_filled_quantity v \<and> or_fills x = [] \<and>
    or_average_fill_price x = vv_average_fill_price v \<and>
    (is_terminal (vv_state v) \<longrightarrow> or_terminal_at x = Some now)"
proof -
  define x where "x = adopt (decide r (Some v) True) (vv_state v) now r"
  have edge: "can_transition RECONCILING (vv_state v)" using assms(4) by (simp add: adoptable_def)
  then have ne: "vv_state v \<noteq> RECONCILING" by (auto simp: machine_simps)
  have c: "conclude (decide r (Some v) True) now r = Inr (Some x)"
    using assms(3,4) edge ne
    by (simp add: conclude_def decide_view check_transition_def x_def)
  have fields: "or_state x = vv_state v" "or_filled_quantity x = vv_filled_quantity v"
    "or_fills x = []" "or_average_fill_price x = vv_average_fill_price v"
    "is_terminal (vv_state v) \<longrightarrow> or_terminal_at x = Some now"
    using assms(4) by (simp_all add: x_def decide_view)
  from mem_reconcile_success [OF assms(1,2) c] adopt_same_order obtain s' where
    "reconcile mem_ops oid (Some v) True now s = (s', Inr (x, decide r (Some v) True))"
    "mem_rows s' = (mem_rows s)(oid \<mapsto> x)" unfolding x_def by iprover
  with fields show ?thesis by (intro exI [of _ s'] exI [of _ x]) simp
qed

definition example_view :: "order_state \<Rightarrow> rat \<Rightarrow> venue_order_view" where
  "example_view st q =
     \<lparr>vv_client_order_id = ''aeth-07070707070707070707'', vv_venue_order_id = Some ''v1'',
      vv_state = st, vv_filled_quantity = q, vv_average_fill_price = Some 100,
      vv_observed_at = 8, vv_venue_rejection = None\<rparr>"

lemma example_adoptable:
  "adoptable (example_order RECONCILING (Some 5) None) (example_view FILLED 2)"
  "adoptable (example_order UNKNOWN (Some 5) None) (example_view FILLED 2)"
  by (simp_all add: adoptable_def example_view_def example_intent_def or_is_terminal_def machine_simps)

theorem reconciling_adopts_venue_witness:
  "\<exists>s' x d. reconcile mem_ops ''order-1'' (Some (example_view FILLED 2)) True 9
     (one_order (example_order RECONCILING (Some 5) None)) = (s', Inr (x, d)) \<and>
     or_state x = FILLED \<and> or_filled_quantity x = 2 \<and> or_terminal_at x = Some 9"
proof -
  let ?r = "example_order RECONCILING (Some 5) None"
  have "mem_ok (one_order ?r)"
    by (rule example_store_ok) (simp_all add: is_terminal_def terminal_order_states_def)
  then have "mem_inv (one_order ?r)" by (simp add: mem_ok_def)
  from reconciling_adopts_venue [OF this _ _ example_adoptable(1), of "''order-1''" 9]
  show ?thesis
    by (simp add: one_order_rows example_view_def is_terminal_def terminal_order_states_def) iprover
qed

text \<open>C34: asked directly about an order that is still \<open>UNKNOWN\<close>, reconciliation cannot adopt any
  answer of the venue: it raises the illegal-transition error and the store is left as it was; the
  order has to be declared \<open>RECONCILING\<close> first.\<close>

theorem unknown_cannot_adopt:
  assumes "mem_inv s" and "mem_rows s oid = Some r" and "or_state r = UNKNOWN"
    and "adoptable r v" and "vv_state v \<noteq> UNKNOWN"
  shows "reconcile mem_ops oid (Some v) True now s = (s, Inl IllegalTransitionError)"
proof -
  have "vv_state v \<noteq> RECONCILING"
    using assms(4) by (auto simp: adoptable_def machine_simps)
  then have "conclude (decide r (Some v) True) now r = Inl IllegalTransitionError"
    using assms(3-5) by (simp add: conclude_def decide_view check_transition_def unknown_exit)
  then show ?thesis by (rule mem_reconcile_error [OF assms(1,2)])
qed

theorem unknown_cannot_adopt_witness:
  "reconcile mem_ops ''order-1'' (Some (example_view FILLED 2)) True 9
     (one_order (example_order UNKNOWN (Some 5) None)) =
   (one_order (example_order UNKNOWN (Some 5) None), Inl IllegalTransitionError)"
proof -
  let ?r = "example_order UNKNOWN (Some 5) None"
  have "mem_ok (one_order ?r)"
    by (rule example_store_ok) (simp_all add: is_terminal_def terminal_order_states_def)
  then have "mem_inv (one_order ?r)" by (simp add: mem_ok_def)
  then show ?thesis
    by (rule unknown_cannot_adopt [OF _ _ _ example_adoptable(2)])
      (simp_all add: one_order_rows example_view_def)
qed

text \<open>When the venue confirms a partial fill with a larger total than ours, the decision is to adopt
  it, but the application drops it: the order keeps its old fill total.\<close>

theorem partial_adoption_dropped:
  assumes "mem_inv s" and "mem_rows s oid = Some r" and "or_state r = PARTIALLY_FILLED"
    and "adoptable r v" and "vv_state v = PARTIALLY_FILLED"
  shows "\<exists>s' x. reconcile mem_ops oid (Some v) True now s = (s', Inr (x, decide r (Some v) True)) \<and>
    rd_action (decide r (Some v) True) = ADOPT_VENUE_STATE \<and>
    rd_filled_quantity (decide r (Some v) True) = Some (vv_filled_quantity v) \<and>
    mem_rows s' = (mem_rows s)(oid \<mapsto> x) \<and> or_filled_quantity x = or_filled_quantity r"
proof -
  have c: "conclude (decide r (Some v) True) now r = Inr (Some (touched now r))"
    using assms(3-5) by (simp add: conclude_def decide_view)
  from mem_reconcile_success [OF assms(1,2) c] obtain s' where
    "reconcile mem_ops oid (Some v) True now s = (s', Inr (touched now r, decide r (Some v) True))"
    "mem_rows s' = (mem_rows s)(oid \<mapsto> touched now r)" by (auto simp: same_order_def touched_def)
  with assms(4) show ?thesis
    by (intro exI [of _ s'] exI [of _ "touched now r"]) (simp add: touched_def decide_view)
qed

theorem partial_adoption_dropped_witness:
  "\<exists>s' x d. reconcile mem_ops ''order-1'' (Some (example_view PARTIALLY_FILLED 1)) True 9
     (one_order (example_order PARTIALLY_FILLED (Some 5) None)) = (s', Inr (x, d)) \<and>
     rd_filled_quantity d = Some 1 \<and> or_filled_quantity x = 0"
proof -
  let ?r = "example_order PARTIALLY_FILLED (Some 5) None"
  have "mem_ok (one_order ?r)"
    by (rule example_store_ok) (simp_all add: is_terminal_def terminal_order_states_def)
  then have inv: "mem_inv (one_order ?r)" by (simp add: mem_ok_def)
  have "adoptable ?r (example_view PARTIALLY_FILLED 1)"
    by (simp add: adoptable_def example_view_def example_intent_def or_is_terminal_def machine_simps)
  from partial_adoption_dropped [OF inv _ _ this, of "''order-1''" 9]
  show ?thesis by (simp add: one_order_rows example_view_def) iprover
qed

subsection \<open>Fills\<close>

lemma fill_over:
  "oi_quantity (or_intent r) < d_add (or_filled_quantity r) (of_quantity f) \<Longrightarrow>
   fill_step f now r =
     Inr (with_discrepancy (FillPastQuantity (of_quantity f) (or_order_id r)
            (d_add (or_filled_quantity r) (of_quantity f)) (oi_quantity (or_intent r))) now r)"
  by (simp add: fill_step_def)

text \<open>A fill that would take the total past the quantity ordered is never applied: it is written
  down as a discrepancy and the state, total, average and fills stay.\<close>

theorem overfill_recorded_not_applied:
  assumes "mem_inv s" and "mem_rows s oid = Some r"
    and "oi_quantity (or_intent r) < d_add (or_filled_quantity r) (of_quantity f)"
  shows "\<exists>s' x. apply_fill mem_ops oid f now s = (s', Inr x) \<and>
    mem_rows s' = (mem_rows s)(oid \<mapsto> x) \<and> or_state x = or_state r \<and>
    or_filled_quantity x = or_filled_quantity r \<and> or_fills x = or_fills r \<and>
    or_average_fill_price x = or_average_fill_price r \<and>
    length (or_discrepancies x) = length (or_discrepancies r) + 1"
proof -
  obtain x where x: "fill_step f now r = Inr x" "\<exists>e. x = with_discrepancy e now r"
    using fill_over [OF assms(3)] by iprover
  then have same: "same_order r x" by (auto simp: same_order_def with_discrepancy_def)
  from mem_held_success [where f = "fill_step f now", OF assms(1,2) x(1) same]
  obtain s' where "apply_fill mem_ops oid f now s = (s', Inr x)"
    "mem_rows s' = (mem_rows s)(oid \<mapsto> x)"
    unfolding apply_fill_def by iprover
  with x(2) show ?thesis
    by (intro exI [of _ s'] exI [of _ x]) (auto simp: with_discrepancy_def)
qed

definition example_fill :: "rat \<Rightarrow> rat \<Rightarrow> order_fill" where
  "example_fill p q =
     \<lparr>of_fill_id = ''f1'', of_price = p, of_quantity = q, of_fee = 0, of_filled_at = 8,
      of_venue_trade_id = None\<rparr>"

theorem overfill_recorded_not_applied_witness:
  "\<exists>s' x. apply_fill mem_ops ''order-1'' (example_fill 100 3) 9
     (one_order (example_order ACCEPTED (Some 5) None)) = (s', Inr x) \<and>
     or_state x = ACCEPTED \<and> or_filled_quantity x = 0"
proof -
  let ?r = "example_order ACCEPTED (Some 5) None"
  have "mem_ok (one_order ?r)"
    by (rule example_store_ok) (simp_all add: is_terminal_def terminal_order_states_def)
  then have inv: "mem_inv (one_order ?r)" by (simp add: mem_ok_def)
  have "oi_quantity (or_intent ?r) < d_add (or_filled_quantity ?r) (of_quantity (example_fill 100 3))"
    by (simp add: example_intent_def example_fill_def dec_eval)
  from overfill_recorded_not_applied [OF inv _ this, of "''order-1''" 9]
  show ?thesis by (simp add: one_order_rows) iprover
qed

text \<open>A believable fill is applied exactly: with quantities of at most eight decimals the new total
  is the exact sum, the fill is appended, and the order is \<open>FILLED\<close> exactly when the total is the
  quantity ordered.\<close>

theorem fill_applied_exactly:
  assumes "mem_inv s" and "mem_rows s oid = Some r"
    and "can_transition (or_state r) FILLED" and "can_transition (or_state r) PARTIALLY_FILLED"
    and "on_grid 8 (or_filled_quantity r)" and "on_grid 8 (of_quantity f)"
    and "0 \<le> or_filled_quantity r" and "0 < of_quantity f"
    and "or_filled_quantity r + of_quantity f \<le> oi_quantity (or_intent r)"
    and "oi_quantity (or_intent r) < 10 ^ 20"
    and "fill_average (or_fills r @ [f]) (or_filled_quantity r + of_quantity f) = Inr av"
  shows "\<exists>s' x. apply_fill mem_ops oid f now s = (s', Inr x) \<and>
    mem_rows s' = (mem_rows s)(oid \<mapsto> x) \<and>
    or_filled_quantity x = or_filled_quantity r + of_quantity f \<and>
    or_fills x = or_fills r @ [f] \<and> or_average_fill_price x = av \<and>
    (or_state x = FILLED \<longleftrightarrow> or_filled_quantity x = oi_quantity (or_intent x)) \<and>
    (or_state x = FILLED \<or> or_state x = PARTIALLY_FILLED) \<and> or_intent x = or_intent r"
proof -
  define total where "total = or_filled_quantity r + of_quantity f"
  have "on_grid 8 total" using assms(5,6) by (simp add: total_def on_grid_add)
  moreover have "\<bar>total\<bar> < 10 ^ 20" using assms(7-10) unfolding total_def by linarith
  ultimately have add: "d_add (or_filled_quantity r) (of_quantity f) = total"
    unfolding d_add_def total_def [symmetric]
    by (intro ctx_round_exact grid_dec28 [of 8]) simp_all
  define t where "t = (if total = oi_quantity (or_intent r) then FILLED else PARTIALLY_FILLED)"
  define x where "x = r\<lparr>or_state := t, or_fills := or_fills r @ [f], or_filled_quantity := total,
      or_average_fill_price := av, or_updated_at := now,
      or_terminal_at := (if is_terminal t then Some now else or_terminal_at r)\<rparr>"
  have edge: "can_transition (or_state r) t" using assms(3,4) by (simp add: t_def)
  have step: "fill_step f now r = Inr x"
    using assms(9,11) edge
    unfolding fill_step_def add Let_def t_def [symmetric] x_def total_def [symmetric]
    by (simp add: check_transition_def)
  have same: "same_order r x" by (simp add: same_order_def x_def)
  have fields: "or_filled_quantity x = total" "or_fills x = or_fills r @ [f]"
    "or_average_fill_price x = av" "or_intent x = or_intent r" "or_state x = t"
    by (simp_all add: x_def)
  from mem_held_success [where f = "fill_step f now", OF assms(1,2) step same] obtain s' where
    "apply_fill mem_ops oid f now s = (s', Inr x)" "mem_rows s' = (mem_rows s)(oid \<mapsto> x)"
    unfolding apply_fill_def by iprover
  with fields show ?thesis
    unfolding total_def [symmetric] by (intro exI [of _ s'] exI [of _ x]) (simp add: t_def)
qed

lemma example_average: "fill_average [example_fill 100 2] 2 = Inr (Some 100)"
proof -
  have "d_mul 100 2 = 200" "d_div 200 2 = Inr 100" by (simp_all add: dec_eval)
  moreover have "d_sum [200] = 200" by (simp add: d_sum_def dec_eval)
  moreover have "quantize_usdt 100 = Inr 100"
    by (simp add: quantize_usdt_def USDT_PLACES_def dec_eval)
  ultimately show ?thesis by (simp add: fill_average_def example_fill_def)
qed

theorem fill_applied_exactly_witness:
  "\<exists>s' x. apply_fill mem_ops ''order-1'' (example_fill 100 2) 9
     (one_order (example_order ACCEPTED (Some 5) None)) = (s', Inr x) \<and>
     or_state x = FILLED \<and> or_filled_quantity x = 2 \<and> or_average_fill_price x = Some 100"
proof -
  let ?r = "example_order ACCEPTED (Some 5) None"
  let ?f = "example_fill 100 2"
  have "mem_ok (one_order ?r)"
    by (rule example_store_ok) (simp_all add: is_terminal_def terminal_order_states_def)
  then have inv: "mem_inv (one_order ?r)" by (simp add: mem_ok_def)
  have av: "fill_average (or_fills ?r @ [?f]) (or_filled_quantity ?r + of_quantity ?f) = Inr (Some 100)"
    using example_average by (simp add: example_fill_def)
  have row: "mem_rows (one_order ?r) ''order-1'' = Some ?r" by (simp add: one_order_rows)
  have g: "on_grid 8 2" using on_grid_of_int [of 8 2] by simp
  have "\<exists>s' x. apply_fill mem_ops ''order-1'' ?f 9 (one_order ?r) = (s', Inr x) \<and>
    mem_rows s' = (mem_rows (one_order ?r))(''order-1'' \<mapsto> x) \<and>
    or_filled_quantity x = or_filled_quantity ?r + of_quantity ?f \<and>
    or_fills x = or_fills ?r @ [?f] \<and> or_average_fill_price x = Some 100 \<and>
    (or_state x = FILLED \<longleftrightarrow> or_filled_quantity x = oi_quantity (or_intent x)) \<and>
    (or_state x = FILLED \<or> or_state x = PARTIALLY_FILLED) \<and> or_intent x = or_intent ?r"
    by (rule fill_applied_exactly [OF inv row _ _ _ _ _ _ _ _ av])
      (use g in \<open>simp_all add: example_intent_def example_fill_def machine_simps\<close>)
  then obtain s' x where "apply_fill mem_ops ''order-1'' ?f 9 (one_order ?r) = (s', Inr x)"
    "or_filled_quantity x = 2" "or_average_fill_price x = Some 100" "or_state x = FILLED"
    by (elim exE conjE) (rule that, simp_all add: example_fill_def example_intent_def)
  then show ?thesis by (intro exI [of _ s'] exI [of _ x]) simp
qed

subsection \<open>Creation, cancellation, the entry gate\<close>

text \<open>Creating an order for an intent that already has one returns the stored order, reports that
  nothing was created, and changes nothing, whatever random local id was drawn and whatever else the
  second intent says.\<close>

theorem create_or_get_idempotent:
  assumes "mem_inv s" and "mem_rows s oid = Some r"
    and "client_order_id h (oi_account_id i) (oi_intent_key i) = Inr (or_client_order_id r)"
  shows "create_or_get mem_ops h u i s = (s, Inr (r, False))"
proof -
  obtain b where b: "build h u i = Inr b" "or_client_order_id b = or_client_order_id r"
    using assms(3) by (simp add: build_def)
  from index_ok_row [OF mem_inv_index [OF assms(1)] assms(2)]
  have "map_of (by_client_id s) (or_client_order_id r) = Some oid" by simp
  with b assms(2) have "mem_add_or_get s b = Inr (s, r, False)"
    by (simp add: mem_add_or_get_def mem_rows_def)
  with b(1) show ?thesis by (simp add: create_or_get_def)
qed

theorem create_or_get_idempotent_witness:
  "create_or_get mem_ops example_hash ''2'' (example_intent\<lparr>oi_quantity := 5\<rparr>)
     (one_order (example_order SUBMITTED (Some 5) None)) =
   (one_order (example_order SUBMITTED (Some 5) None),
    Inr (example_order SUBMITTED (Some 5) None, False))"
proof -
  let ?r = "example_order SUBMITTED (Some 5) None"
  have "mem_ok (one_order ?r)"
    by (rule example_store_ok) (simp_all add: is_terminal_def terminal_order_states_def)
  then have inv: "mem_inv (one_order ?r)" by (simp add: mem_ok_def)
  show ?thesis
    by (rule create_or_get_idempotent [OF inv, of "''order-1''"])
      (simp_all add: one_order_rows example_intent_def example_client_id,
        simp add: example_order_def)
qed

text \<open>A local cancellation refuses every order that was submitted, leaving the store as it was, and
  cancels every order that was not.\<close>

theorem local_cancel_only_unsent:
  assumes "mem_ok s" and "mem_rows s oid = Some r" and "\<not> or_is_terminal r"
  shows "if reached_venue r
    then cancel_before_submission mem_ops oid now s = (s, Inl IllegalTransitionError)
    else \<exists>s' x. cancel_before_submission mem_ops oid now s = (s', Inr x) \<and>
      or_state x = CANCELLED \<and> or_terminal_at x = Some now \<and> mem_rows s' = (mem_rows s)(oid \<mapsto> x)"
proof -
  have inv: "mem_inv s" using assms(1) by (simp add: mem_ok_def)
  have ok: "row_ok r" using assms(1) mem.rows_ok_row [OF _ assms(2)] by (simp add: mem_ok_rows_ok)
  show ?thesis
  proof (cases "reached_venue r")
    case True
    then have "cancel_unsent now r = Inl IllegalTransitionError" by (simp add: cancel_unsent_def)
    with mem_held_error [OF inv assms(2)] True show ?thesis
      by (simp add: cancel_before_submission_def)
  next
    case False
    define x where "x = r\<lparr>or_state := CANCELLED, or_updated_at := now, or_terminal_at := Some now\<rparr>"
    have "can_transition (or_state r) CANCELLED"
      using ok assms(3) False
      by (cases "or_state r")
        (simp_all add: row_ok_def reached_venue_def or_is_terminal_def sent_states_def machine_simps)
    with False have c: "cancel_unsent now r = Inr x"
      by (simp add: cancel_unsent_def check_transition_def x_def)
    from mem_held_success [where f = "cancel_unsent now", OF inv assms(2) c] obtain s' where
      "cancel_before_submission mem_ops oid now s = (s', Inr x)" "mem_rows s' = (mem_rows s)(oid \<mapsto> x)"
      unfolding cancel_before_submission_def by (auto simp: same_order_def x_def)
    then have "\<exists>s' x. cancel_before_submission mem_ops oid now s = (s', Inr x) \<and>
        or_state x = CANCELLED \<and> or_terminal_at x = Some now \<and> mem_rows s' = (mem_rows s)(oid \<mapsto> x)"
      by (intro exI [of _ s'] exI [of _ x]) (simp add: x_def)
    with False show ?thesis by simp
  qed
qed

theorem local_cancel_only_unsent_witness:
  "cancel_before_submission mem_ops ''order-1'' 9 (one_order (example_order SUBMITTED (Some 5) None)) =
     (one_order (example_order SUBMITTED (Some 5) None), Inl IllegalTransitionError)"
proof -
  let ?r = "example_order SUBMITTED (Some 5) None"
  have "mem_ok (one_order ?r)"
    by (rule example_store_ok) (simp_all add: is_terminal_def terminal_order_states_def)
  from local_cancel_only_unsent [OF this, of "''order-1''" ?r 9]
  show ?thesis
    by (simp add: one_order_rows or_is_terminal_def is_terminal_def terminal_order_states_def
        reached_venue_def)
qed

text \<open>The count the risk engine reads is zero exactly when no stored order is \<open>UNKNOWN\<close> or
  \<open>RECONCILING\<close>.\<close>

theorem entry_gate_open_iff:
  assumes "mem_inv s"
  shows "\<exists>n. reconciliation_pending mem_ops s = Inr n \<and>
    (n = 0 \<longleftrightarrow> (\<forall>oid r. mem_rows s oid = Some r \<longrightarrow> \<not> is_unreconciled r))"
proof -
  from mem.scan_rows [OF assms] obtain sc where sc: "mem_scan_open s = Inr sc"
    "\<forall>r. r \<in> set (sc_records sc) \<longleftrightarrow> mem_rows s (or_order_id r) = Some r \<and> \<not> or_is_terminal r"
    by (simp only: mem_ops_sel) iprover
  have none: "sc_unreadable sc = []"
    using sc(1) by (simp add: mem_scan_open_def mem_open_def) (drule sym, simp)
  have "scan_blocking sc = 0 \<longleftrightarrow> (\<forall>r \<in> set (sc_records sc). \<not> is_unreconciled r)"
    by (simp add: scan_blocking_def none filter_empty_conv)
  also have "\<dots> \<longleftrightarrow> (\<forall>oid r. mem_rows s oid = Some r \<longrightarrow> \<not> is_unreconciled r)"
  proof
    assume a: "\<forall>r \<in> set (sc_records sc). \<not> is_unreconciled r"
    show "\<forall>oid r. mem_rows s oid = Some r \<longrightarrow> \<not> is_unreconciled r"
    proof (intro allI impI notI)
      fix oid r
      assume r: "mem_rows s oid = Some r" and u: "is_unreconciled r"
      from mem_row_id [OF assms r] r unreconciled_not_terminal [OF u]
      have "mem_rows s (or_order_id r) = Some r \<and> \<not> or_is_terminal r" by simp
      with sc(2) have "r \<in> set (sc_records sc)" by iprover
      from bspec [OF a this] u show False by (rule notE)
    qed
  next
    assume a: "\<forall>oid r. mem_rows s oid = Some r \<longrightarrow> \<not> is_unreconciled r"
    show "\<forall>r \<in> set (sc_records sc). \<not> is_unreconciled r"
      using a sc(2) by (intro ballI) iprover
  qed
  finally have "scan_blocking sc = 0 \<longleftrightarrow> (\<forall>oid r. mem_rows s oid = Some r \<longrightarrow> \<not> is_unreconciled r)" .
  moreover have "reconciliation_pending mem_ops s = Inr (scan_blocking sc)"
    by (simp add: reconciliation_pending_def sc(1))
  ultimately show ?thesis by (intro exI [of _ "scan_blocking sc"] conjI)
qed

theorem entry_gate_open_iff_witness:
  "\<exists>n. reconciliation_pending mem_ops (one_order (example_order UNKNOWN (Some 5) None)) = Inr n \<and>
     n \<noteq> 0"
proof -
  let ?r = "example_order UNKNOWN (Some 5) None"
  have "mem_ok (one_order ?r)"
    by (rule example_store_ok) (simp_all add: is_terminal_def terminal_order_states_def)
  then have inv: "mem_inv (one_order ?r)" by (simp add: mem_ok_def)
  have row: "mem_rows (one_order ?r) ''order-1'' = Some ?r" by (simp add: one_order_rows)
  have u: "is_unreconciled ?r" by (simp add: is_unreconciled_def)
  from entry_gate_open_iff [OF inv] row u show ?thesis by metis
qed

end
