(* ===== verification/RiskPolicy.thy ===== *)
theory RiskPolicy
  imports Leverage OrderIdentity
begin

section \<open>The risk envelope's data and its leverage ceiling\<close>

text \<open>
  \<^verbatim>\<open>engines/risk/policy.py\<close> (what the risk engine is given and what it answers),
  \<^verbatim>\<open>SymbolFilters\<close> of \<^verbatim>\<open>domain/market.py\<close>, \<^verbatim>\<open>RiskLockState\<close> of \<^verbatim>\<open>domain/paper.py\<close>, the
  measurement envelope of \<^verbatim>\<open>analysis/volatility.py\<close>, and the derived ceiling of
  \<^verbatim>\<open>engines/risk/leverage.py\<close>. Seconds that the code holds in floats are rationals.
\<close>

datatype risk_lock_state =
    LOCK_NONE
  | LOCK_DAILY_PROFIT_TARGET
  | LOCK_DAILY_LOSS_LIMIT
  | LOCK_EMERGENCY_STOP

definition blocks_entries :: "risk_lock_state \<Rightarrow> bool" where
  "blocks_entries l \<longleftrightarrow> l \<noteq> LOCK_NONE"

record symbol_filters =
  sf_tick_size :: rat
  sf_step_size :: rat
  sf_min_quantity :: rat
  sf_max_quantity :: "rat option"
  sf_min_price :: "rat option"
  sf_max_price :: "rat option"
  sf_min_notional :: "rat option"
  sf_market_step_size :: "rat option"
  sf_market_min_quantity :: "rat option"
  sf_market_max_quantity :: "rat option"

definition symbol_filters_valid :: "symbol_filters \<Rightarrow> bool" where
  "symbol_filters_valid f \<longleftrightarrow> 0 < sf_tick_size f \<and> 0 < sf_step_size f \<and> 0 \<le> sf_min_quantity f"

datatype volatility_status = MEASURED | VOL_INSUFFICIENT_HISTORY | CANDLES_UNAVAILABLE | CANDLES_STALE

definition is_measured :: "volatility_status \<Rightarrow> bool" where
  "is_measured v \<longleftrightarrow> v = MEASURED"

record volatility_measurement =
  vm_status :: volatility_status
  vm_atr_percent :: "rat option"
  vm_candles_used :: int

definition mk_volatility_measurement ::
    "volatility_status \<Rightarrow> rat option \<Rightarrow> int \<Rightarrow> volatility_measurement result" where
  "mk_volatility_measurement st v n =
     (if is_measured st \<and> v = None then Inl ValueError
      else if \<not> is_measured st \<and> v \<noteq> None then Inl ValueError
      else Inr \<lparr>vm_status = st, vm_atr_percent = v, vm_candles_used = n\<rparr>)"

record risk_policy =
  rp_max_open_positions :: int
  rp_max_position_notional :: rat
  rp_max_portfolio_exposure :: rat
  rp_max_leverage :: rat
  rp_max_data_age_seconds :: rat
  rp_entry_cooldown_seconds :: rat
  rp_max_atr_percent :: rat

record risk_proposal =
  pr_symbol :: string
  pr_side :: order_side
  pr_requested_margin :: rat
  pr_requested_leverage :: rat
  pr_stop_loss_percent :: "rat option"
  pr_take_profit_percent :: "rat option"
  pr_trailing_stop_percent :: "rat option"
  pr_origin :: string
  pr_bias :: "string option"
  pr_conditions_met :: "int option"
  pr_conditions_total :: "int option"

record risk_account_view =
  av_balance :: rat
  av_available_balance :: rat
  av_equity :: rat
  av_margin_used :: rat
  av_open_symbols :: "string list"
  av_open_position_count :: int
  av_total_notional :: rat
  av_session_realized_pnl :: rat
  av_daily_profit_target :: rat
  av_daily_loss_limit :: rat
  av_lock_state :: risk_lock_state
  av_emergency_stopped :: bool
  av_mode_enabled :: bool
  av_unreconciled_orders :: int
  av_last_entry_at :: "timestamp option"

record risk_market_view =
  mv_symbol :: string
  mv_status :: data_status
  mv_age_seconds :: "rat option"
  mv_last_price :: "rat option"
  mv_atr_percent :: "rat option"
  mv_volatility_status :: volatility_status
  mv_filters :: "symbol_filters option"
  mv_exchange_max_leverage :: "rat option"

record risk_verdict =
  rv_approved :: bool
  rv_leverage :: leverage_decision
  rv_code :: "risk_rejection_code option"
  rv_approved_margin :: "rat option"
  rv_approved_quantity :: "rat option"
  rv_approved_notional :: "rat option"
  rv_risk_max_leverage :: "rat option"
  rv_checks_performed :: "string list"

text \<open>\<^verbatim>\<open>__post_init__\<close>: a verdict is either approved with a margin or refused with a code.\<close>

definition check_verdict :: "risk_verdict \<Rightarrow> risk_verdict result" where
  "check_verdict v =
     (if rv_approved v \<and> rv_code v \<noteq> None then Inl ValueError
      else if \<not> rv_approved v \<and> rv_code v = None then Inl ValueError
      else if rv_approved v \<and> rv_approved_margin v = None then Inl ValueError
      else Inr v)"

subsection \<open>The ceiling derived from stop, margin and budget\<close>

definition LIQUIDATION_SAFETY_FACTOR :: rat where "LIQUIDATION_SAFETY_FACTOR = 2"

definition derive_risk_max_leverage ::
    "rat option \<Rightarrow> rat \<Rightarrow> rat \<Rightarrow> rat \<Rightarrow> rat \<Rightarrow> rat option result" where
  "derive_risk_max_leverage stop_loss_percent requested_margin session_realized_pnl
     daily_loss_limit configured_max_leverage =
     (case stop_loss_percent of
        None \<Rightarrow> Inr None
      | Some stop \<Rightarrow>
          if stop \<le> 0 then Inr None
          else if requested_margin \<le> 0 \<or> configured_max_leverage < LEVERAGE_MIN then Inr None
          else bindE (d_div 100 (d_mul stop LIQUIDATION_SAFETY_FACTOR)) (\<lambda>from_liquidation.
            let remaining_budget = d_sub session_realized_pnl daily_loss_limit
            in if remaining_budget \<le> 0 then Inr (Some LEVERAGE_MIN)
               else bindE (d_div (d_mul requested_margin stop) 100) (\<lambda>loss_per_leverage.
                 bindE (if 0 < loss_per_leverage then d_div remaining_budget loss_per_leverage
                        else Inr LEVERAGE_MAX) (\<lambda>from_budget.
                 let ceiling = min (min (min from_liquidation from_budget) configured_max_leverage)
                                 LEVERAGE_MAX
                 in bindE (quantize ROUND_DOWN 2 ceiling) (\<lambda>c.
                    Inr (Some (if c < LEVERAGE_MIN then LEVERAGE_MIN else c)))))))"

text \<open>The four constraints, as the rounded quotients the code compares.\<close>

definition liquidation_bound :: "rat \<Rightarrow> rat" where
  "liquidation_bound stop = ctx_round (100 / ctx_round (stop * 2))"

definition budget_bound :: "rat \<Rightarrow> rat \<Rightarrow> rat \<Rightarrow> rat \<Rightarrow> rat" where
  "budget_bound margin stop pnl limit =
     ctx_round (ctx_round (pnl - limit) / ctx_round (ctx_round (margin * stop) / 100))"

lemma derive_cases:
  assumes "derive_risk_max_leverage stop margin pnl limit cfg = Inr (Some c)"
  obtains st where "stop = Some st" "0 < st" "0 < margin" "1 \<le> cfg" "pnl \<le> limit" "c = 1"
  | st q where "stop = Some st" "0 < st" "0 < margin" "1 \<le> cfg" "limit < pnl"
      "quantize ROUND_DOWN 2
         (min (min (min (liquidation_bound st) (budget_bound margin st pnl limit)) cfg) 500) = Inr q"
      "c = max 1 q"
proof -
  obtain st where st: "stop = Some st" "0 < st" "0 < margin" "1 \<le> cfg"
    using assms
    by (cases stop) (auto simp: derive_risk_max_leverage_def LEVERAGE_MIN_def split: if_splits)
  show ?thesis
  proof (cases "pnl \<le> limit")
    case True
    then have "d_sub pnl limit \<le> 0" by (simp add: d_sub_def)
    with assms st have "c = 1"
      by (simp add: derive_risk_max_leverage_def LIQUIDATION_SAFETY_FACTOR_def d_mul_def d_div_def
          LEVERAGE_MIN_def)
    with st True show ?thesis by (intro that(1))
  next
    case False
    have pos: "0 < d_mul margin st" using st by (simp add: d_mul_def)
    have "\<not> d_sub pnl limit \<le> 0" using False by (simp add: d_sub_def)
    with assms st pos obtain q where
      q: "quantize ROUND_DOWN 2
         (min (min (min (liquidation_bound st) (budget_bound margin st pnl limit)) cfg) 500) = Inr q"
      and "c = (if q < 1 then 1 else q)"
      by (auto simp: derive_risk_max_leverage_def LIQUIDATION_SAFETY_FACTOR_def d_mul_def d_div_def
          LEVERAGE_MIN_def LEVERAGE_MAX_def liquidation_bound_def budget_bound_def d_sub_def
          Let_def result_simps)
    then have "c = max 1 q" by (simp add: max_def)
    with st False q show ?thesis by (intro that(2)) simp_all
  qed
qed

lemma liquidation_bound_pos: "0 < st \<Longrightarrow> 0 < liquidation_bound st"
  by (simp add: liquidation_bound_def)

lemma budget_bound_pos: "0 < st \<Longrightarrow> 0 < margin \<Longrightarrow> limit < pnl \<Longrightarrow> 0 < budget_bound margin st pnl limit"
  by (simp add: budget_bound_def)

text \<open>A ceiling above one is no more than any of the four constraints.\<close>

lemma derive_below:
  assumes "derive_risk_max_leverage stop margin pnl limit cfg = Inr (Some c)" and "1 < c"
  obtains st where "stop = Some st" "0 < st" "0 < margin" "limit < pnl"
    "c \<le> liquidation_bound st" "c \<le> budget_bound margin st pnl limit" "c \<le> cfg" "c \<le> 500"
  using assms(1)
proof (cases rule: derive_cases)
  case 1
  with assms(2) show ?thesis by simp
next
  case (2 st q)
  let ?m = "min (min (min (liquidation_bound st) (budget_bound margin st pnl limit)) cfg) 500"
  have "0 \<le> ?m"
    using 2 liquidation_bound_pos [of st] budget_bound_pos [of st margin limit pnl]
    by (simp add: less_imp_le)
  with 2(6) have "q \<le> ?m" by (rule quantize_down_le)
  moreover have "c = q" using 2(7) assms(2) by (simp add: max_def split: if_splits)
  ultimately show ?thesis using 2 by (intro that [of st]) simp_all
qed

lemma derive_range:
  assumes "derive_risk_max_leverage stop margin pnl limit cfg = Inr (Some c)"
  shows "1 \<le> c \<and> c \<le> 500 \<and> c \<le> cfg"
proof (cases "1 < c")
  case True
  with assms obtain st where "c \<le> cfg" "c \<le> 500" by (rule derive_below)
  with True show ?thesis by simp
next
  case False
  from assms have "1 \<le> c \<and> 1 \<le> cfg" by (cases rule: derive_cases) auto
  with False show ?thesis by simp
qed

lemma derive_None:
  "derive_risk_max_leverage stop margin pnl limit cfg = Inr None \<longleftrightarrow>
   (case stop of None \<Rightarrow> True | Some st \<Rightarrow> st \<le> 0) \<or> margin \<le> 0 \<or> cfg < 1"
  by (cases stop)
    (auto simp: derive_risk_max_leverage_def LEVERAGE_MIN_def result_simps Let_def d_div_def
      d_mul_def LIQUIDATION_SAFETY_FACTOR_def)

end
