(* ===== verification/RiskEngine.thy ===== *)
theory RiskEngine
  imports RiskPolicy
begin

section \<open>The risk engine\<close>

text \<open>
  \<^verbatim>\<open>engines/risk/engine.py\<close>, the single entry point \<open>evaluate\<close>. The first eight checks compare
  values and cannot raise; they are the list \<open>entry_checks\<close> of named checks in the order of the
  code, each with the code it refuses with, run up to the first refusal. The stages that compute
  (leverage ceiling, leverage chain, sizing against the venue's filters, ceilings) follow as
  functions of their own, each receiving the names performed so far.
\<close>

text \<open>Named checks, in order, up to the first that refuses.\<close>

fun run_checks ::
    "(string \<times> risk_rejection_code option) list \<Rightarrow> string list \<times> risk_rejection_code option" where
  "run_checks [] = ([], None)"
| "run_checks ((name, outcome) # rest) =
     (case outcome of
        Some code \<Rightarrow> ([name], Some code)
      | None \<Rightarrow> (let (names, code) = run_checks rest in (name # names, code)))"

definition mode_check :: "risk_account_view \<Rightarrow> risk_rejection_code option" where
  "mode_check a = (if \<not> av_mode_enabled a then Some MODE_NOT_ENABLED else None)"

definition emergency_check :: "risk_account_view \<Rightarrow> risk_rejection_code option" where
  "emergency_check a = (if av_emergency_stopped a then Some EMERGENCY_STOP else None)"

definition reconciliation_check :: "risk_account_view \<Rightarrow> risk_rejection_code option" where
  "reconciliation_check a = (if 0 < av_unreconciled_orders a then Some RECONCILIATION_PENDING else None)"

definition lock_check :: "risk_account_view \<Rightarrow> risk_rejection_code option" where
  "lock_check a =
     (if blocks_entries (av_lock_state a)
      then Some (if av_lock_state a = LOCK_DAILY_PROFIT_TARGET then DAILY_PROFIT_TARGET
                 else DAILY_LOSS_LIMIT)
      else None)"

definition market_check :: "risk_market_view \<Rightarrow> risk_policy \<Rightarrow> risk_rejection_code option" where
  "market_check m pol =
     (if mv_status m \<noteq> OK \<or> mv_last_price m = None then Some STALE_DATA
      else case mv_age_seconds m of
             None \<Rightarrow> Some STALE_DATA
           | Some age \<Rightarrow> if rp_max_data_age_seconds pol < age then Some STALE_DATA else None)"

definition symbol_check :: "string \<Rightarrow> risk_account_view \<Rightarrow> risk_rejection_code option" where
  "symbol_check symbol a = (if symbol \<in> set (av_open_symbols a) then Some SYMBOL_LIMIT else None)"

definition slots_check :: "risk_account_view \<Rightarrow> risk_policy \<Rightarrow> risk_rejection_code option" where
  "slots_check a pol =
     (if rp_max_open_positions pol \<le> av_open_position_count a then Some MAX_OPEN_POSITIONS else None)"

definition cooldown_check ::
    "risk_account_view \<Rightarrow> risk_policy \<Rightarrow> timestamp \<Rightarrow> risk_rejection_code option" where
  "cooldown_check a pol now =
     (case av_last_entry_at a of
        None \<Rightarrow> None
      | Some t \<Rightarrow>
          if 0 < rp_entry_cooldown_seconds pol \<and>
             total_seconds now t < rp_entry_cooldown_seconds pol
          then Some COOLDOWN else None)"

definition volatility_check :: "risk_market_view \<Rightarrow> risk_policy \<Rightarrow> risk_rejection_code option" where
  "volatility_check m pol =
     (case (mv_volatility_status m, mv_atr_percent m) of
        (MEASURED, Some atr) \<Rightarrow>
          if rp_max_atr_percent pol < atr then Some ABNORMAL_VOLATILITY else None
      | (VOL_INSUFFICIENT_HISTORY, _) \<Rightarrow> Some INSUFFICIENT_HISTORY
      | _ \<Rightarrow> Some STALE_DATA)"

definition entry_checks ::
    "risk_proposal \<Rightarrow> risk_account_view \<Rightarrow> risk_market_view \<Rightarrow> risk_policy \<Rightarrow> timestamp \<Rightarrow>
     (string \<times> risk_rejection_code option) list" where
  "entry_checks p a m pol now =
     [(''mode_enabled'', mode_check a),
      (''emergency_stop'', emergency_check a),
      (''reconciliation_pending'', reconciliation_check a),
      (''daily_session_lock'', lock_check a),
      (''market_data_usable'', market_check m pol),
      (''symbol_not_already_open'', symbol_check (upper (pr_symbol p)) a),
      (''max_open_positions'', slots_check a pol),
      (''entry_cooldown'', cooldown_check a pol now),
      (''measured_volatility'', volatility_check m pol)]"

definition no_leverage_decision :: leverage_decision where
  "no_leverage_decision =
     \<lparr>ld_requested = None, ld_exchange_max = None, ld_risk_max = None, ld_approved = None,
      ld_outcome = LEVERAGE_REJECTED, ld_reason = INSUFFICIENT_DATA, ld_binding = None,
      ld_inputs = []\<rparr>"

text \<open>\<^verbatim>\<open>_refuse\<close>.\<close>

definition refuse ::
    "risk_rejection_code \<Rightarrow> leverage_decision \<Rightarrow> string list \<Rightarrow> rat option \<Rightarrow> risk_verdict result"
where
  "refuse code lev checks risk_max =
     check_verdict
       \<lparr>rv_approved = False, rv_leverage = lev, rv_code = Some code, rv_approved_margin = None,
        rv_approved_quantity = None, rv_approved_notional = None,
        rv_risk_max_leverage = risk_max, rv_checks_performed = checks\<rparr>"

text \<open>
  The venue's filters: truncate to the step, refuse what rounds away or is below a minimum, and
  recompute the notional from the quantity that would be submitted.
\<close>

definition apply_filters ::
    "symbol_filters option \<Rightarrow> rat \<Rightarrow> rat \<Rightarrow> rat \<Rightarrow> (risk_rejection_code + rat \<times> rat) result" where
  "apply_filters filters price quantity notional =
     (case filters of
        None \<Rightarrow> Inr (Inr (quantity, notional))
      | Some f \<Rightarrow>
          bindE (floor_to_step quantity (sf_step_size f)) (\<lambda>q.
            if q \<le> 0 then Inr (Inl EXCHANGE_PRECISION)
            else if 0 < sf_min_quantity f \<and> q < sf_min_quantity f
            then Inr (Inl EXCHANGE_PRECISION)
            else bindE (quantize_usdt (d_mul q price)) (\<lambda>n.
              case sf_min_notional f of
                None \<Rightarrow> Inr (Inr (q, n))
              | Some least \<Rightarrow> if n < least then Inr (Inl MIN_NOTIONAL) else Inr (Inr (q, n)))))"

definition approve ::
    "leverage_decision \<Rightarrow> rat \<Rightarrow> rat \<Rightarrow> rat \<Rightarrow> rat option \<Rightarrow> string list \<Rightarrow> risk_verdict result" where
  "approve dec lev quantity notional risk_max checks =
     bindE (bindE (d_div notional lev) quantize_usdt) (\<lambda>margin.
       check_verdict
         \<lparr>rv_approved = True, rv_leverage = dec, rv_code = None,
          rv_approved_margin = Some margin, rv_approved_quantity = Some quantity,
          rv_approved_notional = Some notional, rv_risk_max_leverage = risk_max,
          rv_checks_performed = checks @ [''approved'']\<rparr>)"

definition ceilings ::
    "risk_account_view \<Rightarrow> risk_policy \<Rightarrow> leverage_decision \<Rightarrow> rat \<Rightarrow> rat \<Rightarrow> rat \<Rightarrow> rat option \<Rightarrow>
     string list \<Rightarrow> risk_verdict result" where
  "ceilings a pol dec lev quantity notional risk_max checks0 =
     (let checks1 = checks0 @ [''max_position_notional''] in
      if rp_max_position_notional pol < notional
      then refuse POSITION_SIZE dec checks1 risk_max
      else let checks2 = checks1 @ [''portfolio_exposure''] in
        if rp_max_portfolio_exposure pol < d_add (av_total_notional a) notional
        then refuse PORTFOLIO_EXPOSURE dec checks2 risk_max
        else approve dec lev quantity notional risk_max checks2)"

text \<open>The ceilings are judged against the quantity the filters left.\<close>

definition after_filters ::
    "risk_account_view \<Rightarrow> risk_policy \<Rightarrow> leverage_decision \<Rightarrow> rat \<Rightarrow> rat option \<Rightarrow> string list \<Rightarrow>
     risk_rejection_code + rat \<times> rat \<Rightarrow> risk_verdict result" where
  "after_filters a pol dec lev risk_max checks sized =
     (case sized of
        Inl code \<Rightarrow> refuse code dec checks risk_max
      | Inr (q, n) \<Rightarrow> ceilings a pol dec lev q n risk_max checks)"

definition sizing ::
    "risk_proposal \<Rightarrow> risk_account_view \<Rightarrow> risk_market_view \<Rightarrow> risk_policy \<Rightarrow>
     leverage_decision \<Rightarrow> rat \<Rightarrow> rat option \<Rightarrow> string list \<Rightarrow> risk_verdict result" where
  "sizing p a m pol dec lev risk_max checks0 =
     (let checks1 = checks0 @ [''margin_positive''] in
      if pr_requested_margin p \<le> 0 then refuse POSITION_SIZE dec checks1 risk_max
      else let checks2 = checks1 @ [''sufficient_balance''] in
      if av_available_balance a < pr_requested_margin p
      then refuse INSUFFICIENT_BALANCE dec checks2 risk_max
      else bindE (quantize_usdt (d_mul (pr_requested_margin p) lev)) (\<lambda>notional.
        case mv_last_price m of
          None \<Rightarrow> Inl TypeError
        | Some price \<Rightarrow>
            bindE (d_div notional price) (\<lambda>quantity.
            let checks3 = checks2 @ [''venue_filters''] in
            bindE (apply_filters (mv_filters m) price quantity notional)
              (after_filters a pol dec lev risk_max checks3))))"

definition leverage_stage ::
    "risk_proposal \<Rightarrow> risk_account_view \<Rightarrow> risk_market_view \<Rightarrow> risk_policy \<Rightarrow> string list \<Rightarrow>
     risk_verdict result" where
  "leverage_stage p a m pol checks0 =
     (let checks1 = checks0 @ [''risk_max_leverage_derived''] in
      bindE (derive_risk_max_leverage (pr_stop_loss_percent p) (pr_requested_margin p)
               (av_session_realized_pnl a) (av_daily_loss_limit a) (rp_max_leverage pol)) (\<lambda>risk_max.
      let checks2 = checks1 @ [''leverage_constraint_chain''] in
      bindE (mk_leverage_request (pr_requested_leverage p)
               [(''requested_leverage'', pr_requested_leverage p),
                (''stop_loss_percent'',
                   case pr_stop_loss_percent p of None \<Rightarrow> 0 | Some s \<Rightarrow> s),
                (''requested_margin'', pr_requested_margin p)]) (\<lambda>req.
      let dec = resolve_leverage (Some req) (mv_exchange_max_leverage m) risk_max True in
      if \<not> decision_is_usable dec then refuse MAX_LEVERAGE dec checks2 risk_max
      else case ld_approved dec of
             None \<Rightarrow> refuse MAX_LEVERAGE dec checks2 risk_max
           | Some lev \<Rightarrow> sizing p a m pol dec lev risk_max checks2)))"

definition evaluate ::
    "risk_proposal \<Rightarrow> risk_account_view \<Rightarrow> risk_market_view \<Rightarrow> risk_policy \<Rightarrow> timestamp \<Rightarrow>
     risk_verdict result" where
  "evaluate p a m pol now =
     (case run_checks (entry_checks p a m pol now) of
        (checks, Some code) \<Rightarrow> refuse code no_leverage_decision checks None
      | (checks, None) \<Rightarrow> leverage_stage p a m pol checks)"

end
