(* ===== verification/RiskProperties.thy ===== *)
theory RiskProperties
  imports RiskEngine
begin

section \<open>Properties of the risk engine\<close>

text \<open>
  What an approval implies, what a refusal reports, and what the derived ceiling guarantees. The
  helper lemmas invert each stage of \<open>evaluate\<close>.
\<close>

subsection \<open>The named checks\<close>

lemma run_checks_None:
  "run_checks cs = (names, None) \<longleftrightarrow> names = map fst cs \<and> list_all (\<lambda>c. snd c = None) cs"
proof (induction cs arbitrary: names)
  case Nil
  then show ?case by auto
next
  case (Cons c cs)
  obtain n out where c: "c = (n, out)" by (cases c)
  obtain ns r where run: "run_checks cs = (ns, r)" by (cases "run_checks cs")
  show ?case using Cons.IH [of ns] Cons.IH [of "map fst cs"] c run by (cases out; cases r) auto
qed

lemma run_checks_Some:
  "run_checks cs = (names, Some code) \<Longrightarrow>
   \<exists>pre n post. cs = pre @ (n, Some code) # post \<and> list_all (\<lambda>c. snd c = None) pre \<and>
     names = map fst pre @ [n]"
proof (induction cs arbitrary: names)
  case Nil
  then show ?case by simp
next
  case (Cons c cs)
  obtain n out where c: "c = (n, out)" by (cases c)
  show ?case
  proof (cases out)
    case (Some code')
    with Cons.prems c have "code' = code" "names = [n]" by simp_all
    with c Some show ?thesis by (intro exI [of _ "[]"] exI [of _ n] exI [of _ cs]) simp
  next
    case None
    obtain ns r where run: "run_checks cs = (ns, r)" by (cases "run_checks cs")
    with Cons.prems c None have "r = Some code" "names = n # ns" by simp_all
    with Cons.IH run obtain pre n' post where
      "cs = pre @ (n', Some code) # post" "list_all (\<lambda>c. snd c = None) pre" "ns = map fst pre @ [n']"
      by blast
    with c None \<open>names = n # ns\<close> show ?thesis
      by (intro exI [of _ "(n, None) # pre"] exI [of _ n'] exI [of _ post]) simp
  qed
qed

lemma run_checks_first:
  "list_all (\<lambda>c. snd c = None) pre \<Longrightarrow>
   run_checks (pre @ (n, Some code) # post) = (map fst pre @ [n], Some code)"
  by (induction pre) auto

subsection \<open>Refusals and approvals are well formed\<close>

lemma refuse_Inr [simp]:
  "refuse code lev checks rmax = Inr v \<longleftrightarrow>
   v = \<lparr>rv_approved = False, rv_leverage = lev, rv_code = Some code, rv_approved_margin = None,
        rv_approved_quantity = None, rv_approved_notional = None,
        rv_risk_max_leverage = rmax, rv_checks_performed = checks\<rparr>"
  by (auto simp: refuse_def check_verdict_def)

lemma refuse_ok: "\<exists>v. refuse code lev checks rmax = Inr v \<and> rv_code v = Some code"
  by simp

lemma refuse_not_Inl [simp]: "refuse code lev checks rmax \<noteq> Inl e"
  by (simp add: refuse_def check_verdict_def)

definition well_formed :: "risk_verdict \<Rightarrow> bool" where
  "well_formed v \<longleftrightarrow>
     (if rv_approved v
      then rv_code v = None \<and> rv_approved_margin v \<noteq> None \<and> rv_approved_quantity v \<noteq> None \<and>
           rv_approved_notional v \<noteq> None
      else rv_code v \<noteq> None \<and> rv_approved_margin v = None \<and> rv_approved_quantity v = None \<and>
           rv_approved_notional v = None)"

lemma approve_Inr:
  "approve dec lev q n rmax checks = Inr v \<longleftrightarrow>
   (\<exists>x margin. d_div n lev = Inr x \<and> quantize_usdt x = Inr margin \<and>
     v = \<lparr>rv_approved = True, rv_leverage = dec, rv_code = None, rv_approved_margin = Some margin,
          rv_approved_quantity = Some q, rv_approved_notional = Some n,
          rv_risk_max_leverage = rmax, rv_checks_performed = checks @ [''approved'']\<rparr>)"
  by (auto simp: approve_def result_simps check_verdict_def)

lemma approve_Inl: "approve dec lev q n rmax checks = Inl e \<Longrightarrow> e \<in> {InvalidOperation, DivisionByZero}"
  by (auto simp: approve_def result_simps check_verdict_def d_div_def quantize_usdt_def
      quantize_Inl_iff split: if_splits)

subsection \<open>Inverting an approval\<close>

lemma ceilings_approved:
  assumes "ceilings a pol dec lev q n rmax checks = Inr v" and "rv_approved v"
  shows "n \<le> rp_max_position_notional pol \<and>
    d_add (av_total_notional a) n \<le> rp_max_portfolio_exposure pol \<and>
    rv_leverage v = dec \<and> rv_approved_quantity v = Some q \<and> rv_approved_notional v = Some n \<and>
    (\<exists>x. d_div n lev = Inr x \<and> (\<exists>g. quantize_usdt x = Inr g \<and> rv_approved_margin v = Some g)) \<and>
    rv_risk_max_leverage v = rmax"
  using assms by (auto simp: ceilings_def Let_def approve_Inr split: if_splits)

lemma apply_filters_sized:
  assumes "apply_filters fs price q0 n0 = Inr (Inr (q, n))"
  shows "case fs of None \<Rightarrow> q = q0 \<and> n = n0
    | Some f \<Rightarrow> floor_to_step q0 (sf_step_size f) = Inr q \<and> 0 < q \<and> sf_min_quantity f \<le> q \<and>
        quantize_usdt (d_mul q price) = Inr n \<and>
        (case sf_min_notional f of None \<Rightarrow> True | Some least \<Rightarrow> least \<le> n)"
  using assms
  by (cases fs) (auto simp: apply_filters_def result_simps split: if_splits option.splits)

lemma sizing_approved:
  assumes "sizing p a m pol dec lev rmax checks = Inr v" and "rv_approved v"
  obtains price n0 q0 q n where "mv_last_price m = Some price"
    "0 < pr_requested_margin p" "pr_requested_margin p \<le> av_available_balance a"
    "quantize_usdt (d_mul (pr_requested_margin p) lev) = Inr n0" "d_div n0 price = Inr q0"
    "apply_filters (mv_filters m) price q0 n0 = Inr (Inr (q, n))"
    "\<exists>checks'. ceilings a pol dec lev q n rmax checks' = Inr v"
proof -
  have marg: "0 < pr_requested_margin p" "pr_requested_margin p \<le> av_available_balance a"
    using assms by (auto simp: sizing_def Let_def split: if_splits)
  with assms obtain n0 where n0: "quantize_usdt (d_mul (pr_requested_margin p) lev) = Inr n0"
    by (cases "quantize_usdt (d_mul (pr_requested_margin p) lev)") (simp_all add: sizing_def Let_def)
  with assms marg obtain price where price: "mv_last_price m = Some price"
    by (cases "mv_last_price m") (simp_all add: sizing_def Let_def)
  with assms marg n0 obtain q0 where q0: "d_div n0 price = Inr q0"
    by (cases "d_div n0 price") (simp_all add: sizing_def Let_def)
  with assms marg n0 price obtain sized where
    sized: "apply_filters (mv_filters m) price q0 n0 = Inr sized"
    by (cases "apply_filters (mv_filters m) price q0 n0") (simp_all add: sizing_def Let_def)
  have c: "\<exists>checks'. after_filters a pol dec lev rmax checks' sized = Inr v"
    using assms marg n0 price q0 sized by (simp add: sizing_def Let_def) iprover
  note s = marg n0 price q0 sized
  show ?thesis
  proof (cases sized)
    case (Inl code)
    with c assms(2) show ?thesis by (auto simp: after_filters_def)
  next
    case (Inr qn)
    obtain q n where "qn = (q, n)" by (cases qn)
    with c Inr s show ?thesis by (intro that [of price n0 q0 q n]) (auto simp: after_filters_def)
  qed
qed

lemma leverage_stage_approved:
  assumes "leverage_stage p a m pol checks = Inr v" and "rv_approved v"
  obtains rmax req lev where
    "derive_risk_max_leverage (pr_stop_loss_percent p) (pr_requested_margin p)
       (av_session_realized_pnl a) (av_daily_loss_limit a) (rp_max_leverage pol) = Inr rmax"
    "requested_leverage req = pr_requested_leverage p"
    "ld_approved (resolve_leverage (Some req) (mv_exchange_max_leverage m) rmax True) = Some lev"
    "\<exists>checks'. sizing p a m pol (resolve_leverage (Some req) (mv_exchange_max_leverage m) rmax True)
       lev rmax checks' = Inr v"
proof -
  define inputs where "inputs =
     [(''requested_leverage'', pr_requested_leverage p),
      (''stop_loss_percent'', case pr_stop_loss_percent p of None \<Rightarrow> 0 | Some s \<Rightarrow> s),
      (''requested_margin'', pr_requested_margin p)]"
  obtain rmax where rmax: "derive_risk_max_leverage (pr_stop_loss_percent p)
      (pr_requested_margin p) (av_session_realized_pnl a) (av_daily_loss_limit a)
      (rp_max_leverage pol) = Inr rmax"
    using assms(1) by (auto simp: leverage_stage_def Let_def result_simps)
  obtain req where req: "mk_leverage_request (pr_requested_leverage p) inputs = Inr req"
    using assms(1) unfolding leverage_stage_def inputs_def [symmetric]
    by (auto simp: Let_def result_simps)
  let ?d = "resolve_leverage (Some req) (mv_exchange_max_leverage m) rmax True"
  let ?c = "(checks @ [''risk_max_leverage_derived'']) @ [''leverage_constraint_chain'']"
  have run: "(if \<not> decision_is_usable ?d then refuse MAX_LEVERAGE ?d ?c rmax
      else case ld_approved ?d of None \<Rightarrow> refuse MAX_LEVERAGE ?d ?c rmax
        | Some lev \<Rightarrow> sizing p a m pol ?d lev rmax ?c) = Inr v"
    using assms(1) unfolding leverage_stage_def inputs_def [symmetric]
    by (simp only: rmax req Let_def bindE.simps)
  then obtain lev where lev: "ld_approved ?d = Some lev"
    using assms(2) by (cases "ld_approved ?d") (auto split: if_splits)
  with run assms(2) have "sizing p a m pol ?d lev rmax ?c = Inr v" by (auto split: if_splits)
  moreover have "requested_leverage req = pr_requested_leverage p"
    using req by (simp add: mk_leverage_request_Inr)
  ultimately show ?thesis using rmax lev by (intro that [of rmax req lev]) auto
qed

lemma evaluate_approved:
  assumes "evaluate p a m pol now = Inr v" and "rv_approved v"
  shows "list_all (\<lambda>c. snd c = None) (entry_checks p a m pol now) \<and>
    (\<exists>checks. leverage_stage p a m pol checks = Inr v)"
proof -
  obtain names code where run: "run_checks (entry_checks p a m pol now) = (names, code)"
    by (cases "run_checks (entry_checks p a m pol now)")
  with assms have "code = None" by (cases code) (auto simp: evaluate_def)
  with run assms run_checks_None [of "entry_checks p a m pol now" names] show ?thesis
    by (auto simp: evaluate_def)
qed

lemma approved_decision:
  assumes "evaluate p a m pol now = Inr v" and "rv_approved v"
  shows "\<exists>rmax req lev.
    derive_risk_max_leverage (pr_stop_loss_percent p) (pr_requested_margin p)
      (av_session_realized_pnl a) (av_daily_loss_limit a) (rp_max_leverage pol) = Inr rmax \<and>
    requested_leverage req = pr_requested_leverage p \<and>
    ld_approved (resolve_leverage (Some req) (mv_exchange_max_leverage m) rmax True) = Some lev \<and>
    rv_leverage v = resolve_leverage (Some req) (mv_exchange_max_leverage m) rmax True \<and>
    rv_risk_max_leverage v = rmax"
proof -
  from evaluate_approved [OF assms] obtain checks where
    "leverage_stage p a m pol checks = Inr v" by blast
  then obtain rmax req lev checks' where
    d: "derive_risk_max_leverage (pr_stop_loss_percent p) (pr_requested_margin p)
       (av_session_realized_pnl a) (av_daily_loss_limit a) (rp_max_leverage pol) = Inr rmax"
    and rq: "requested_leverage req = pr_requested_leverage p"
    and lev: "ld_approved (resolve_leverage (Some req) (mv_exchange_max_leverage m) rmax True) = Some lev"
    and sz: "sizing p a m pol (resolve_leverage (Some req) (mv_exchange_max_leverage m) rmax True)
       lev rmax checks' = Inr v"
    using assms(2) by (rule leverage_stage_approved) blast
  obtain q n checks2 where
    ceil: "ceilings a pol (resolve_leverage (Some req) (mv_exchange_max_leverage m) rmax True)
       lev q n rmax checks2 = Inr v"
    using sz assms(2) by (rule sizing_approved) blast
  from ceilings_approved [OF ceil assms(2)] d rq lev show ?thesis by blast
qed

lemma entry_checks_pass:
  "list_all (\<lambda>c. snd c = None) (entry_checks p a m pol now) \<longleftrightarrow>
   mode_check a = None \<and> emergency_check a = None \<and> reconciliation_check a = None \<and>
   lock_check a = None \<and> market_check m pol = None \<and> symbol_check (upper (pr_symbol p)) a = None \<and>
   slots_check a pol = None \<and> cooldown_check a pol now = None \<and> volatility_check m pol = None"
  by (simp add: entry_checks_def)

lemma market_check_None:
  "market_check m pol = None \<longleftrightarrow>
   mv_status m = OK \<and> mv_last_price m \<noteq> None \<and>
   (\<exists>age. mv_age_seconds m = Some age \<and> age \<le> rp_max_data_age_seconds pol)"
  by (auto simp: market_check_def split: option.splits)

lemma volatility_check_None:
  "volatility_check m pol = None \<longleftrightarrow>
   mv_volatility_status m = MEASURED \<and>
   (\<exists>atr. mv_atr_percent m = Some atr \<and> atr \<le> rp_max_atr_percent pol)"
  by (auto simp: volatility_check_def split: option.splits volatility_status.splits)

lemma cooldown_check_None:
  "cooldown_check a pol now = None \<longleftrightarrow>
   (\<forall>t. av_last_entry_at a = Some t \<longrightarrow> 0 < rp_entry_cooldown_seconds pol \<longrightarrow>
      rp_entry_cooldown_seconds pol \<le> total_seconds now t)"
  by (auto simp: cooldown_check_def split: option.splits)

subsection \<open>A concrete case for the witnesses\<close>

definition example_policy :: risk_policy where
  "example_policy =
     \<lparr>rp_max_open_positions = 3, rp_max_position_notional = 1000, rp_max_portfolio_exposure = 2000,
      rp_max_leverage = 5, rp_max_data_age_seconds = 10, rp_entry_cooldown_seconds = 60,
      rp_max_atr_percent = 8\<rparr>"

definition example_proposal :: risk_proposal where
  "example_proposal =
     \<lparr>pr_symbol = ''ABC'', pr_side = BUY, pr_requested_margin = 100, pr_requested_leverage = 1,
      pr_stop_loss_percent = Some 2, pr_take_profit_percent = None, pr_trailing_stop_percent = None,
      pr_origin = ''m'', pr_bias = None, pr_conditions_met = None, pr_conditions_total = None\<rparr>"

definition example_account :: risk_account_view where
  "example_account =
     \<lparr>av_balance = 1000, av_available_balance = 1000, av_equity = 1000, av_margin_used = 0,
      av_open_symbols = [], av_open_position_count = 0, av_total_notional = 0,
      av_session_realized_pnl = 0, av_daily_profit_target = 50, av_daily_loss_limit = - 50,
      av_lock_state = LOCK_NONE, av_emergency_stopped = False, av_mode_enabled = True,
      av_unreconciled_orders = 0, av_last_entry_at = None\<rparr>"

definition example_market :: risk_market_view where
  "example_market =
     \<lparr>mv_symbol = ''ABC'', mv_status = OK, mv_age_seconds = Some 1, mv_last_price = Some 50,
      mv_atr_percent = Some 2, mv_volatility_status = MEASURED, mv_filters = None,
      mv_exchange_max_leverage = None\<rparr>"

lemmas example_risk_defs =
  example_policy_def example_proposal_def example_account_def example_market_def

lemma example_entry_pass:
  "list_all (\<lambda>c. snd c = None)
     (entry_checks example_proposal example_account example_market example_policy 0)"
  by (simp add: entry_checks_pass mode_check_def emergency_check_def reconciliation_check_def
      lock_check_def blocks_entries_def market_check_None symbol_check_def slots_check_def
      cooldown_check_None volatility_check_None example_risk_defs)

lemma example_derive: "derive_risk_max_leverage (Some 2) 100 0 (- 50) 5 = Inr (Some 5)"
proof -
  have e: "d_mul 2 2 = 4" "d_div 100 4 = Inr 25" "d_sub 0 (- 50) = 50" "d_mul 100 2 = 200"
    "d_div 200 100 = Inr 2" "d_div 50 2 = Inr 25" "quantize ROUND_DOWN 2 5 = Inr 5"
    by (simp_all add: dec_eval)
  show ?thesis
    by (simp add: derive_risk_max_leverage_def LEVERAGE_MIN_def LEVERAGE_MAX_def
        LIQUIDATION_SAFETY_FACTOR_def Let_def e)
qed

lemma example_sizes: "d_mul 100 1 = 100" "quantize_usdt 100 = Inr 100" "d_div 100 50 = Inr 2"
  "d_add 0 100 = 100" "d_div 100 1 = Inr 100"
  by (simp_all add: quantize_usdt_def USDT_PLACES_def dec_eval)

lemma example_evaluate:
  "\<exists>v. evaluate example_proposal example_account example_market example_policy 0 = Inr v \<and>
     rv_approved v \<and> rv_approved_margin v = Some 100 \<and> rv_approved_notional v = Some 100 \<and>
     rv_approved_quantity v = Some 2"
proof -
  obtain names where run:
    "run_checks (entry_checks example_proposal example_account example_market example_policy 0) =
      (names, None)"
    using example_entry_pass
      run_checks_None [of "entry_checks example_proposal example_account example_market
          example_policy 0"] by blast
  show ?thesis
    unfolding evaluate_def run
    by (simp add: leverage_stage_def example_risk_defs example_derive mk_leverage_request_def
        leverage_simps sizing_def apply_filters_def after_filters_def ceilings_def approve_def check_verdict_def
        example_sizes)
qed

subsection \<open>What an approval implies\<close>

text \<open>An approval means that the mode is enabled, no stop or lock is in force, nothing awaits
  reconciliation, the price is usable and fresh enough, the symbol is free, a slot is free, the
  cooldown has passed, and volatility was measured and is below its ceiling.\<close>

theorem approval_has_authority:
  assumes "evaluate p a m pol now = Inr v" and "rv_approved v"
  shows "av_mode_enabled a \<and> \<not> av_emergency_stopped a \<and> av_unreconciled_orders a \<le> 0 \<and>
    av_lock_state a = LOCK_NONE \<and>
    mv_status m = OK \<and> mv_last_price m \<noteq> None \<and>
    (\<exists>age. mv_age_seconds m = Some age \<and> age \<le> rp_max_data_age_seconds pol) \<and>
    upper (pr_symbol p) \<notin> set (av_open_symbols a) \<and>
    av_open_position_count a < rp_max_open_positions pol \<and>
    (\<forall>t. av_last_entry_at a = Some t \<longrightarrow> 0 < rp_entry_cooldown_seconds pol \<longrightarrow>
       rp_entry_cooldown_seconds pol \<le> total_seconds now t) \<and>
    (\<exists>atr. mv_atr_percent m = Some atr \<and> atr \<le> rp_max_atr_percent pol)"
proof -
  from evaluate_approved [OF assms]
  have pass: "mode_check a = None" "emergency_check a = None" "reconciliation_check a = None"
    "lock_check a = None" "market_check m pol = None" "symbol_check (upper (pr_symbol p)) a = None"
    "slots_check a pol = None" "cooldown_check a pol now = None" "volatility_check m pol = None"
    by (simp_all add: entry_checks_pass)
  show ?thesis
    using pass(1-4,6,7) pass(5) [unfolded market_check_None]
      pass(8) [unfolded cooldown_check_None] pass(9) [unfolded volatility_check_None]
    by (simp add: mode_check_def emergency_check_def reconciliation_check_def lock_check_def
        blocks_entries_def symbol_check_def slots_check_def split: if_splits)
qed

theorem approval_has_authority_witness:
  "av_mode_enabled example_account \<and>
   av_open_position_count example_account < rp_max_open_positions example_policy"
proof -
  from example_evaluate obtain v where
    "evaluate example_proposal example_account example_market example_policy 0 = Inr v"
    "rv_approved v" by blast
  from approval_has_authority [OF this] show ?thesis by simp
qed



text \<open>C36: an approval always carries a usable leverage decision whose leverage is at least one and at
  most what was requested, at most the venue's ceiling when it is known, and at most the ceiling the
  engine derived; without a venue ceiling, or without a derivable one, it is exactly one.\<close>

theorem approval_bounds_leverage:
  assumes "evaluate p a m pol now = Inr v" and "rv_approved v"
  shows "\<exists>lev. ld_approved (rv_leverage v) = Some lev \<and> decision_is_usable (rv_leverage v) \<and>
    1 \<le> lev \<and> lev \<le> pr_requested_leverage p \<and>
    (\<forall>e. mv_exchange_max_leverage m = Some e \<longrightarrow> lev \<le> e) \<and>
    (\<forall>c. rv_risk_max_leverage v = Some c \<longrightarrow> lev \<le> c \<and> c \<le> rp_max_leverage pol) \<and>
    (mv_exchange_max_leverage m = None \<or> rv_risk_max_leverage v = None \<longrightarrow> lev = 1)"
proof -
  from approved_decision [OF assms] obtain rmax req lev where
    d: "derive_risk_max_leverage (pr_stop_loss_percent p) (pr_requested_margin p)
       (av_session_realized_pnl a) (av_daily_loss_limit a) (rp_max_leverage pol) = Inr rmax"
    and rq: "requested_leverage req = pr_requested_leverage p"
    and lev: "ld_approved (resolve_leverage (Some req) (mv_exchange_max_leverage m) rmax True) = Some lev"
    and v: "rv_leverage v = resolve_leverage (Some req) (mv_exchange_max_leverage m) rmax True"
      "rv_risk_max_leverage v = rmax" by blast
  have cfg: "c \<le> rp_max_leverage pol" if "rmax = Some c" for c
    using derive_range [OF d [unfolded that]] by simp
  have one: "lev = 1" if "mv_exchange_max_leverage m = None \<or> rmax = None"
    using lev that unfolding resolve_leverage_approved approved_spec_def
    by (auto simp: leverage_simps min_known_def split: if_splits option.splits)
  show ?thesis
    using lev rq resolve_leverage_bounds [OF lev] resolve_leverage_coherent(1) cfg one
    unfolding v by (intro exI [of _ lev]) auto
qed

theorem approval_bounds_leverage_witness:
  "\<exists>v. evaluate example_proposal example_account example_market example_policy 0 = Inr v \<and>
     ld_approved (rv_leverage v) = Some 1"
proof -
  from example_evaluate obtain v where v:
    "evaluate example_proposal example_account example_market example_policy 0 = Inr v"
    "rv_approved v" by blast
  from approval_bounds_leverage [OF this] v(1) show ?thesis
    by (auto simp: example_market_def)
qed

subsection \<open>Refusals\<close>

text \<open>An account-level halt is never masked: with the mode enabled, an emergency stop is reported
  as such, and failing that pending reconciliation, whatever the proposal, the market and the policy
  are, and the evaluation does not raise.\<close>

theorem halt_never_masked:
  assumes "av_mode_enabled a" and "av_emergency_stopped a \<or> 0 < av_unreconciled_orders a"
  shows "\<exists>v. evaluate p a m pol now = Inr v \<and> \<not> rv_approved v \<and>
    rv_code v = Some (if av_emergency_stopped a then EMERGENCY_STOP else RECONCILIATION_PENDING) \<and>
    rv_leverage v = no_leverage_decision"
proof (cases "av_emergency_stopped a")
  case True
  with assms(1) have "run_checks (entry_checks p a m pol now) =
      ([''mode_enabled'', ''emergency_stop''], Some EMERGENCY_STOP)"
    by (simp add: entry_checks_def mode_check_def emergency_check_def)
  with True show ?thesis by (simp add: evaluate_def)
next
  case False
  with assms have "run_checks (entry_checks p a m pol now) =
      ([''mode_enabled'', ''emergency_stop'', ''reconciliation_pending''], Some RECONCILIATION_PENDING)"
    by (simp add: entry_checks_def mode_check_def emergency_check_def reconciliation_check_def)
  with False show ?thesis by (simp add: evaluate_def)
qed

theorem halt_never_masked_witness:
  "\<exists>v. evaluate (example_proposal\<lparr>pr_requested_margin := - 1, pr_requested_leverage := 900\<rparr>)
       (example_account\<lparr>av_emergency_stopped := True\<rparr>) (example_market\<lparr>mv_status := ERROR\<rparr>)
       example_policy 0 = Inr v \<and> rv_code v = Some EMERGENCY_STOP"
  using halt_never_masked [of "example_account\<lparr>av_emergency_stopped := True\<rparr>"
      "example_proposal\<lparr>pr_requested_margin := - 1, pr_requested_leverage := 900\<rparr>"
      "example_market\<lparr>mv_status := ERROR\<rparr>" example_policy 0]
  by (auto simp: example_account_def)

text \<open>A refusal by one of the nine entry checks reports the first one that fails: the names
  performed are the passed checks in order and then the failing one.\<close>

theorem refusal_reports_first_failure:
  assumes "entry_checks p a m pol now = passed @ (name, Some code) # rest"
    and "list_all (\<lambda>c. snd c = None) passed"
  shows "\<exists>v. evaluate p a m pol now = Inr v \<and> rv_code v = Some code \<and> \<not> rv_approved v \<and>
    rv_checks_performed v = map fst passed @ [name]"
  using run_checks_first [OF assms(2), of name code rest] unfolding evaluate_def assms(1) by simp

theorem refusal_reports_first_failure_witness:
  "\<exists>v. evaluate example_proposal (example_account\<lparr>av_lock_state := LOCK_DAILY_LOSS_LIMIT\<rparr>)
      example_market example_policy 0 = Inr v \<and> rv_code v = Some DAILY_LOSS_LIMIT \<and>
      rv_checks_performed v =
        [''mode_enabled'', ''emergency_stop'', ''reconciliation_pending'', ''daily_session_lock'']"
proof -
  let ?a = "example_account\<lparr>av_lock_state := LOCK_DAILY_LOSS_LIMIT\<rparr>"
  let ?pre = "[(''mode_enabled'', None), (''emergency_stop'', None), (''reconciliation_pending'', None)]
    :: (string \<times> risk_rejection_code option) list"
  have "entry_checks example_proposal ?a example_market example_policy 0 =
      ?pre @ (''daily_session_lock'', Some DAILY_LOSS_LIMIT) #
        drop 4 (entry_checks example_proposal ?a example_market example_policy 0)"
    by (simp add: entry_checks_def mode_check_def emergency_check_def reconciliation_check_def
        lock_check_def blocks_entries_def example_account_def)
  from refusal_reports_first_failure [OF this] show ?thesis by auto
qed

lemma ceilings_wf: "ceilings a pol dec lev q n rmax checks = Inr v \<Longrightarrow> well_formed v"
  by (auto simp: ceilings_def Let_def approve_Inr well_formed_def split: if_splits)

lemma refuse_wf: "refuse code lev checks rmax = Inr v \<Longrightarrow> well_formed v"
  by (simp add: well_formed_def)

lemma after_filters_wf: "after_filters a pol dec lev rmax checks sized = Inr v \<Longrightarrow> well_formed v"
  by (cases sized) (auto simp: after_filters_def well_formed_def dest: ceilings_wf)

lemma sizing_wf: "sizing p a m pol dec lev rmax checks = Inr v \<Longrightarrow> well_formed v"
  by (auto simp: sizing_def Let_def result_simps simp del: refuse_Inr
      intro: after_filters_wf refuse_wf split: if_splits option.split_asm)

lemma leverage_stage_wf: "leverage_stage p a m pol checks = Inr v \<Longrightarrow> well_formed v"
  by (auto simp: leverage_stage_def Let_def result_simps simp del: refuse_Inr
      intro: sizing_wf refuse_wf split: if_splits option.split_asm)

named_theorems raises "what each stage can raise"

lemma d_div_raises [raises]: "d_div x y = Inl e \<Longrightarrow> e \<in> {InvalidOperation, DivisionByZero}"
  by (auto simp: d_div_def split: if_splits)

lemma d_floordiv_raises [raises]: "d_floordiv x y = Inl e \<Longrightarrow> e \<in> {InvalidOperation, DivisionByZero}"
  by (auto simp: d_floordiv_def Let_def split: if_splits)

lemma quantize_raises [raises]: "quantize r k x = Inl e \<Longrightarrow> e = InvalidOperation"
  by (simp add: quantize_Inl_iff)

lemma quantize_usdt_raises [raises]: "quantize_usdt x = Inl e \<Longrightarrow> e = InvalidOperation"
  by (simp add: quantize_usdt_def quantize_Inl_iff)

lemma floor_to_step_raises [raises]:
  "floor_to_step x st = Inl e \<Longrightarrow> e \<in> {InvalidMoneyError, InvalidOperation, DivisionByZero}"
  by (auto simp: floor_to_step_def result_simps dest: raises split: if_splits)

lemma derive_raises [raises]:
  "derive_risk_max_leverage stop margin pnl limit cfg = Inl e \<Longrightarrow>
   e \<in> {InvalidOperation, DivisionByZero}"
  by (cases stop)
    (auto simp: derive_risk_max_leverage_def result_simps Let_def dest!: raises split: if_splits)

lemma apply_filters_raises [raises]:
  "apply_filters fs price q n = Inl e \<Longrightarrow> e \<in> {InvalidMoneyError, InvalidOperation, DivisionByZero}"
  by (cases fs)
    (auto simp: apply_filters_def result_simps dest!: raises split: if_splits option.splits)

lemma approve_raises [raises]:
  "approve dec lev q n rmax checks = Inl e \<Longrightarrow> e \<in> {InvalidOperation, DivisionByZero}"
  by (auto simp: approve_def result_simps check_verdict_def dest: raises split: if_splits)

lemma ceilings_raises [raises]:
  "ceilings a pol dec lev q n rmax checks = Inl e \<Longrightarrow> e \<in> {InvalidOperation, DivisionByZero}"
  by (auto simp: ceilings_def Let_def dest: raises split: if_splits)

lemma after_filters_raises [raises]:
  "after_filters a pol dec lev rmax checks sized = Inl e \<Longrightarrow> e \<in> {InvalidOperation, DivisionByZero}"
  by (cases sized) (auto simp: after_filters_def dest: ceilings_raises)

lemma sizing_raises [raises]:
  assumes "sizing p a m pol dec lev rmax checks = Inl e" and "mv_last_price m \<noteq> None"
  shows "e \<in> {InvalidMoneyError, InvalidOperation, DivisionByZero}"
  using assms
  by (auto simp: sizing_def Let_def result_simps dest!: raises
      split: if_splits option.split_asm)

lemma leverage_stage_raises:
  assumes "leverage_stage p a m pol checks = Inl e" and "mv_last_price m \<noteq> None"
  shows "e \<in> {InvalidMoneyError, InvalidOperation, DivisionByZero} \<or>
    e = ValidationError \<and> (pr_requested_leverage p < 1 \<or> 500 < pr_requested_leverage p)"
proof -
  define inputs where "inputs =
     [(''requested_leverage'', pr_requested_leverage p),
      (''stop_loss_percent'', case pr_stop_loss_percent p of None \<Rightarrow> 0 | Some s \<Rightarrow> s),
      (''requested_margin'', pr_requested_margin p)]"
  note stage = assms(1) [unfolded leverage_stage_def inputs_def [symmetric] Let_def]
  show ?thesis
  proof (cases "derive_risk_max_leverage (pr_stop_loss_percent p) (pr_requested_margin p)
      (av_session_realized_pnl a) (av_daily_loss_limit a) (rp_max_leverage pol)")
    case (Inl e')
    with stage derive_raises [OF Inl] show ?thesis by auto
  next
    case (Inr rmax)
    note derived = Inr
    show ?thesis
    proof (cases "mk_leverage_request (pr_requested_leverage p) inputs")
      case (Inl e')
      then have "e' = ValidationError" "pr_requested_leverage p < 1 \<or> 500 < pr_requested_leverage p"
        by (auto simp: mk_leverage_request_def LEVERAGE_MIN_def LEVERAGE_MAX_def split: if_splits)
      with stage derived Inl show ?thesis by simp
    next
      case (Inr req)
      with stage derived assms(2) show ?thesis
        by (auto dest!: sizing_raises split: if_splits option.splits)
    qed
  qed
qed

text \<open>Evaluation answers or raises, never in between: a verdict is well formed (an approval carries
  margin, quantity and notional and no code, a refusal a code and none of them); and an exception
  means that all nine entry checks passed and is one of arithmetic or money, or the validation error
  of a requested leverage outside the domain.\<close>

theorem evaluate_outcome:
  "case evaluate p a m pol now of
     Inr v \<Rightarrow> well_formed v
   | Inl e \<Rightarrow> list_all (\<lambda>c. snd c = None) (entry_checks p a m pol now) \<and>
       (e \<in> {InvalidMoneyError, InvalidOperation, DivisionByZero} \<or>
        e = ValidationError \<and> (pr_requested_leverage p < 1 \<or> 500 < pr_requested_leverage p))"
proof -
  obtain names code where run: "run_checks (entry_checks p a m pol now) = (names, code)"
    by (cases "run_checks (entry_checks p a m pol now)")
  show ?thesis
  proof (cases code)
    case (Some c)
    with run show ?thesis by (simp add: evaluate_def refuse_def check_verdict_def well_formed_def)
  next
    case None
    with run have pass: "list_all (\<lambda>c. snd c = None) (entry_checks p a m pol now)"
      by (simp add: run_checks_None)
    then have price: "mv_last_price m \<noteq> None" by (simp add: entry_checks_pass market_check_None)
    have ev: "evaluate p a m pol now = leverage_stage p a m pol names"
      using run None by (simp add: evaluate_def)
    show ?thesis
    proof (cases "leverage_stage p a m pol names")
      case (Inl e)
      with leverage_stage_raises [OF Inl price] pass ev show ?thesis by simp
    next
      case (Inr v)
      with leverage_stage_wf [OF Inr] ev show ?thesis by simp
    qed
  qed
qed

text \<open>A requested leverage outside the domain of 1 to 500 is not refused: when the entry checks
  pass and the ceiling can be derived, the evaluation raises a validation error instead of answering
  with a code.\<close>

theorem leverage_outside_domain_raises:
  assumes "list_all (\<lambda>c. snd c = None) (entry_checks p a m pol now)"
    and "derive_risk_max_leverage (pr_stop_loss_percent p) (pr_requested_margin p)
       (av_session_realized_pnl a) (av_daily_loss_limit a) (rp_max_leverage pol) = Inr rmax"
    and "pr_requested_leverage p < 1 \<or> 500 < pr_requested_leverage p"
  shows "evaluate p a m pol now = Inl ValidationError"
proof -
  obtain names where "run_checks (entry_checks p a m pol now) = (names, None)"
    using assms(1) run_checks_None [of "entry_checks p a m pol now"] by blast
  with assms(2,3) show ?thesis
    by (auto simp: evaluate_def leverage_stage_def Let_def mk_leverage_request_def
        LEVERAGE_MIN_def LEVERAGE_MAX_def)
qed

theorem leverage_outside_domain_raises_witness:
  "evaluate (example_proposal\<lparr>pr_requested_leverage := 0\<rparr>) example_account example_market
     example_policy 0 = Inl ValidationError"
proof -
  have "list_all (\<lambda>c. snd c = None) (entry_checks (example_proposal\<lparr>pr_requested_leverage := 0\<rparr>)
      example_account example_market example_policy 0)"
    using example_entry_pass by (simp add: entry_checks_pass)
  then show ?thesis
    by (rule leverage_outside_domain_raises [where rmax = "Some 5"])
      (simp_all add: example_risk_defs example_derive)
qed

subsection \<open>The derived ceiling\<close>

lemma ctx_round_factors:
  assumes "0 \<le> x"
  shows "ctx_round x \<le> x * (1 + 1 / 10 ^ 27)" and "x * (1 - 1 / 10 ^ 27) \<le> ctx_round x"
proof -
  have "\<bar>ctx_round x - x\<bar> \<le> x / (2 * 10 ^ 27)" using ctx_round_error [of x] assms by simp
  also have "\<dots> \<le> x / 10 ^ 27" using assms by (intro divide_left_mono) simp_all
  finally have "\<bar>ctx_round x - x\<bar> \<le> x / 10 ^ 27" .
  then show "ctx_round x \<le> x * (1 + 1 / 10 ^ 27)" and "x * (1 - 1 / 10 ^ 27) \<le> ctx_round x"
    by (simp_all only: distrib_left right_diff_distrib mult_1_right times_divide_eq_right abs_le_iff)
      linarith+
qed

text \<open>The derived ceiling is at least one and at most the configured maximum, and whenever it
  exceeds one the stop, taken at that leverage and doubled for safety, stays inside the liquidation
  distance of 100 percent, up to the relative rounding error of 28-digit arithmetic.\<close>

theorem derived_ceiling_keeps_stop_inside:
  assumes "derive_risk_max_leverage stop margin pnl limit cfg = Inr (Some c)"
  shows "1 \<le> c \<and> c \<le> cfg \<and> c \<le> 500 \<and>
    (1 < c \<longrightarrow> (\<exists>st. stop = Some st \<and> 0 < st \<and>
       c * (st * 2) * (1 - 1 / 10 ^ 27) \<le> 100 * (1 + 1 / 10 ^ 27)))"
proof -
  have "\<exists>st. stop = Some st \<and> 0 < st \<and> c * (st * 2) * (1 - 1 / 10 ^ 27) \<le> 100 * (1 + 1 / 10 ^ 27)"
    if gt: "1 < c"
  proof -
    obtain st where st: "stop = Some st" "0 < st" "c \<le> liquidation_bound st"
      using assms gt by (rule derive_below)
    define d where "d = ctx_round (st * 2)"
    have d: "0 < d" "st * 2 * (1 - 1 / 10 ^ 27) \<le> d"
      using st(2) ctx_round_factors(2) [of "st * 2"] by (simp_all add: d_def)
    have "liquidation_bound st \<le> 100 / d * (1 + 1 / 10 ^ 27)"
      unfolding liquidation_bound_def d_def [symmetric] using d(1) by (intro ctx_round_factors(1)) simp
    with st(3) have "c \<le> 100 / d * (1 + 1 / 10 ^ 27)" by linarith
    then have "c * d \<le> 100 / d * (1 + 1 / 10 ^ 27) * d"
      using d(1) by (intro mult_right_mono) simp_all
    then have "c * d \<le> 100 * (1 + 1 / 10 ^ 27)" using d(1) by simp
    moreover have "c * (st * 2 * (1 - 1 / 10 ^ 27)) \<le> c * d"
      using gt d(2) by (intro mult_left_mono) simp_all
    ultimately have "c * (st * 2 * (1 - 1 / 10 ^ 27)) \<le> 100 * (1 + 1 / 10 ^ 27)"
      by (rule order_trans [rotated])
    then have "c * (st * 2) * (1 - 1 / 10 ^ 27) \<le> 100 * (1 + 1 / 10 ^ 27)"
      by (simp only: mult.assoc)
    with st show ?thesis by iprover
  qed
  with derive_range [OF assms] show ?thesis by simp
qed

theorem derived_ceiling_keeps_stop_inside_witness:
  "derive_risk_max_leverage (Some 2) 100 0 (- 50) 5 = Inr (Some 5) \<and>
   (5 :: rat) * (2 * 2) * (1 - 1 / 10 ^ 27) \<le> 100 * (1 + 1 / 10 ^ 27)"
  using derived_ceiling_keeps_stop_inside [OF example_derive] example_derive by simp

end
