(* ===== verification/Actions.thy ===== *)
theory Actions
  imports Prelude
begin

section \<open>Reasoning about actions\<close>

text \<open>
  Triples for actions with exceptions. \<open>triple X P m Q E\<close>: from a state satisfying \<open>P\<close>, a normal
  result \<open>x\<close> ends in \<open>Q x\<close>, and an exception outside \<open>X\<close> in \<open>E\<close>. The set \<open>X\<close> holds the exceptions
  nothing is claimed about (an amount too large for the decimal context).
  \<open>keeps X P m\<close> is the invariant form.
\<close>

definition triple ::
    "py_error set \<Rightarrow> ('s \<Rightarrow> bool) \<Rightarrow> ('s, 'a) act \<Rightarrow> ('a \<Rightarrow> 's \<Rightarrow> bool) \<Rightarrow> ('s \<Rightarrow> bool) \<Rightarrow> bool" where
  "triple X P m Q E \<longleftrightarrow>
     (\<forall>s. P s \<longrightarrow> (case m s of (s', Inr x) \<Rightarrow> Q x s' | (s', Inl e) \<Rightarrow> e \<in> X \<or> E s'))"

definition keeps :: "py_error set \<Rightarrow> ('s \<Rightarrow> bool) \<Rightarrow> ('s, 'a) act \<Rightarrow> bool" where
  "keeps X P m \<longleftrightarrow> triple X P m (\<lambda>_. P) P"

lemma tripleI:
  assumes "\<And>s. P s \<Longrightarrow> (case m s of (s', Inr x) \<Rightarrow> Q x s' | (s', Inl e) \<Rightarrow> e \<in> X \<or> E s')"
  shows "triple X P m Q E"
  using assms by (simp add: triple_def)

lemma triple_Inr: "triple X P m Q E \<Longrightarrow> P s \<Longrightarrow> m s = (s', Inr x) \<Longrightarrow> Q x s'"
  by (auto simp: triple_def)

lemma triple_Inl: "triple X P m Q E \<Longrightarrow> P s \<Longrightarrow> m s = (s', Inl e) \<Longrightarrow> e \<notin> X \<Longrightarrow> E s'"
  by (auto simp: triple_def)

lemma keeps_run:
  assumes "keeps X P m" and "P s" and "\<And>e. snd (m s) = Inl e \<Longrightarrow> e \<notin> X"
  shows "P (fst (m s))"
proof (cases "m s")
  case (Pair s' r)
  with assms show ?thesis
    by (cases r) (auto simp: keeps_def dest: triple_Inr triple_Inl)
qed

lemma triple_bind:
  assumes "triple X P m Q E" and "\<And>x. triple X (Q x) (f x) R E"
  shows "triple X P (bindA m f) R E"
proof (rule tripleI)
  fix s
  assume P: "P s"
  show "case bindA m f s of (s', Inr x) \<Rightarrow> R x s' | (s', Inl e) \<Rightarrow> e \<in> X \<or> E s'"
  proof (cases "m s")
    case (Pair s1 r)
    show ?thesis
    proof (cases r)
      case (Inl e)
      with Pair triple_Inl [OF assms(1) P, of s1 e] show ?thesis by (auto simp: bindA_def)
    next
      case (Inr x)
      with Pair triple_Inr [OF assms(1) P, of s1 x] have "Q x s1" by simp
      with assms(2) [of x] Pair Inr show ?thesis by (simp add: bindA_def triple_def)
    qed
  qed
qed

lemma triple_weaken:
  "triple X P m Q E \<Longrightarrow> (\<And>s. P' s \<Longrightarrow> P s) \<Longrightarrow> (\<And>x s. Q x s \<Longrightarrow> Q' x s) \<Longrightarrow> (\<And>s. E s \<Longrightarrow> E' s) \<Longrightarrow>
   triple X P' m Q' E'"
  unfolding triple_def by (fastforce split: prod.splits sum.splits)

lemma triple_then: "triple X P m (\<lambda>_. Q) E \<Longrightarrow> triple X Q k R E \<Longrightarrow> triple X P (thenA m k) R E"
  unfolding thenA_def by (rule triple_bind)

lemma triple_modify: "(\<And>s. P s \<Longrightarrow> Q () (f s)) \<Longrightarrow> triple X P (modifyA f) Q E"
  by (simp add: triple_def modifyA_def)

lemma triple_update:
  assumes "\<And>s v. P s \<Longrightarrow> compute s = Inr v \<Longrightarrow> Q () (put v s)"
    and "\<And>s e. P s \<Longrightarrow> compute s = Inl e \<Longrightarrow> e \<in> X \<or> E s"
  shows "triple X P (updateA compute put) Q E"
proof (rule tripleI)
  fix s
  assume "P s"
  with assms [of s] show "case updateA compute put s of (s', Inr x) \<Rightarrow> Q x s'
      | (s', Inl e) \<Rightarrow> e \<in> X \<or> E s'"
    by (cases "compute s") (simp_all add: updateA_def)
qed

lemma triple_return: "(\<And>s. P s \<Longrightarrow> Q x s) \<Longrightarrow> triple X P (returnA x) Q E"
  by (simp add: triple_def returnA_def)

lemma triple_read: "(\<And>s. P s \<Longrightarrow> Q (f s) s) \<Longrightarrow> triple X P (readA f) Q E"
  by (simp add: triple_def readA_def)

named_theorems keep_rules "actions that keep an invariant, by their shape"

lemma keeps_bind [keep_rules]: "keeps X P m \<Longrightarrow> (\<And>x. keeps X P (f x)) \<Longrightarrow> keeps X P (bindA m f)"
  unfolding keeps_def by (rule triple_bind)

lemma keeps_then [keep_rules]: "keeps X P m \<Longrightarrow> keeps X P k \<Longrightarrow> keeps X P (thenA m k)"
  unfolding keeps_def by (rule triple_then)

lemma keeps_return [keep_rules]: "keeps X P (returnA x)"
  by (simp add: keeps_def triple_def returnA_def)

lemma keeps_raise [keep_rules]: "keeps X P (raiseA e)"
  by (simp add: keeps_def triple_def raiseA_def)

lemma keeps_lift [keep_rules]: "keeps X P (liftA r)"
  by (cases r) (simp_all add: keeps_def triple_def liftA_def)

lemma keeps_read [keep_rules]: "keeps X P (readA f)"
  by (simp add: keeps_def triple_def readA_def)

lemma keeps_let [keep_rules]: "(\<And>x. keeps X P (f x)) \<Longrightarrow> keeps X P (Let v f)"
  by (simp add: Let_def)

lemma keeps_if [keep_rules]: "keeps X P a \<Longrightarrow> keeps X P b \<Longrightarrow> keeps X P (if c then a else b)"
  by simp

lemma keeps_case_option [keep_rules]:
  "keeps X P a \<Longrightarrow> (\<And>x. keeps X P (f x)) \<Longrightarrow> keeps X P (case m of None \<Rightarrow> a | Some x \<Rightarrow> f x)"
  by (cases m) simp_all

lemma keeps_case_sum [keep_rules]:
  "(\<And>x. keeps X P (f x)) \<Longrightarrow> (\<And>y. keeps X P (g y)) \<Longrightarrow>
   keeps X P (case m of Inl x \<Rightarrow> f x | Inr y \<Rightarrow> g y)"
  by (cases m) simp_all

lemma keeps_case_prod [keep_rules]:
  "(\<And>x y. keeps X P (f x y)) \<Longrightarrow> keeps X P (case p of (x, y) \<Rightarrow> f x y)"
  by (cases p) simp_all

lemma keeps_modify: "(\<And>s. P s \<Longrightarrow> P (f s)) \<Longrightarrow> keeps X P (modifyA f)"
  unfolding keeps_def by (rule triple_modify)

lemma keeps_update: "(\<And>s v. P s \<Longrightarrow> P (put v s)) \<Longrightarrow> keeps X P (updateA f put)"
  unfolding keeps_def by (rule triple_update) simp_all

text \<open>Reading a value whose property the invariant gives.\<close>

lemma keeps_bind_read:
  assumes "\<And>s. P s \<Longrightarrow> R (f s)" and "\<And>x. R x \<Longrightarrow> keeps X P (k x)"
  shows "keeps X P (bindA (readA f) k)"
  unfolding keeps_def
proof (rule triple_bind [where Q = "\<lambda>x s. P s \<and> R x"])
  show "triple X P (readA f) (\<lambda>x s. P s \<and> R x) P"
    by (rule triple_read) (simp add: assms(1))
  show "triple X (\<lambda>s. P s \<and> R x) (k x) (\<lambda>_. P) P" for x
  proof (cases "R x")
    case True
    with assms(2) [OF True] show ?thesis unfolding keeps_def by simp
  next
    case False
    then show ?thesis by (simp add: triple_def)
  qed
qed

text \<open>A computed value whose property its success gives.\<close>

lemma keeps_bind_lift:
  assumes "\<And>x. r = Inr x \<Longrightarrow> keeps X P (k x)"
  shows "keeps X P (bindA (liftA r) k)"
proof (cases r)
  case (Inl e)
  then show ?thesis by (simp add: bindA_liftA keeps_raise)
next
  case (Inr x)
  with assms show ?thesis by (simp add: bindA_liftA)
qed

end
