(* ===== verification/PaperDomain.thy ===== *)
theory PaperDomain
  imports RiskPolicy Actions
begin

section \<open>The paper account's data\<close>

text \<open>
  \<^verbatim>\<open>domain/paper.py\<close>, \<^verbatim>\<open>domain/thesis.py\<close> (with the small vocabularies it uses from
  \<^verbatim>\<open>domain/regime.py\<close>, \<^verbatim>\<open>domain/strategy.py\<close> and \<^verbatim>\<open>domain/setup.py\<close>), the mutable state of
  \<^verbatim>\<open>engines/paper/state.py\<close> and the engine's own value types. The frozen pydantic models have
  their \<^verbatim>\<open>Field\<close> constraints as \<open>*_valid\<close> predicates, checked by \<open>construct\<close> where the code
  constructs them. Where a price came from is a value of \<open>price_basis\<close> instead of the formatted
  text, and the explanatory sentences are left out.
\<close>

definition construct :: "('a \<Rightarrow> bool) \<Rightarrow> 'a \<Rightarrow> 'a result" where
  "construct valid x = (if valid x then Inr x else Inl ValidationError)"

lemma construct_Inr [result_simps]: "construct valid x = Inr y \<longleftrightarrow> valid x \<and> y = x"
  by (auto simp: construct_def)

lemma construct_Inl [result_simps]: "construct valid x = Inl e \<longleftrightarrow> \<not> valid x \<and> e = ValidationError"
  by (auto simp: construct_def)

subsection \<open>The thesis of a position\<close>

datatype market_regime =
  TREND_UP | TREND_DOWN | RANGE | HIGH_VOLATILITY | LOW_VOLATILITY | REGIME_UNKNOWN

definition is_trending :: "market_regime \<Rightarrow> bool" where
  "is_trending r \<longleftrightarrow> r \<in> {TREND_UP, TREND_DOWN}"

definition is_known :: "market_regime \<Rightarrow> bool" where
  "is_known r \<longleftrightarrow> r \<noteq> REGIME_UNKNOWN"

datatype volatility_band = BAND_HIGH | BAND_NORMAL | BAND_LOW | BAND_UNKNOWN

record condition_outcome =
  co_name :: string
  co_satisfied :: bool
  co_values :: "(string, rat) dict"

record setup_score_component =
  sc_name :: string
  sc_raw_value :: "rat option"
  sc_normalized :: rat
  sc_weight :: rat
  sc_contribution :: rat

datatype thesis_status = CAPTURED | NO_STRATEGY_CONTEXT

definition has_strategy :: "thesis_status \<Rightarrow> bool" where
  "has_strategy s \<longleftrightarrow> s = CAPTURED"

record strategy_context =
  sx_strategy_id :: string
  sx_strategy_version :: string
  sx_timeframe :: timeframe
  sx_setup_score :: "rat option"
  sx_score_components :: "setup_score_component list"
  sx_entry_conditions :: "condition_outcome list"
  sx_regime :: "market_regime option"
  sx_volatility_band :: "volatility_band option"
  sx_data_source :: "string option"
  sx_data_status :: "string option"
  sx_data_age_seconds :: "rat option"
  sx_bar_close_time :: "timestamp option"

record position_thesis =
  th_status :: thesis_status
  th_captured_at :: timestamp
  th_side :: position_side
  th_entry_price :: rat
  th_stop_price :: "rat option"
  th_target_price :: "rat option"
  th_planned_risk_per_unit :: "rat option"
  th_planned_risk_total :: "rat option"
  th_planned_reward_per_unit :: "rat option"
  th_risk_reward_ratio :: "rat option"
  th_strategy :: "strategy_context option"

definition positive_if_given :: "rat option \<Rightarrow> bool" where
  "positive_if_given x \<longleftrightarrow> (case x of None \<Rightarrow> True | Some v \<Rightarrow> 0 < v)"

definition position_thesis_valid :: "position_thesis \<Rightarrow> bool" where
  "position_thesis_valid t \<longleftrightarrow>
     0 < th_entry_price t \<and> positive_if_given (th_planned_risk_per_unit t) \<and>
     positive_if_given (th_planned_risk_total t) \<and>
     positive_if_given (th_planned_reward_per_unit t) \<and>
     positive_if_given (th_risk_reward_ratio t) \<and>
     \<not> (th_status t = CAPTURED \<and> th_strategy t = None) \<and>
     \<not> (th_status t = NO_STRATEGY_CONTEXT \<and> th_strategy t \<noteq> None)"

definition condition_count :: "position_thesis \<Rightarrow> int" where
  "condition_count t =
     (case th_strategy t of None \<Rightarrow> 0 | Some c \<Rightarrow> int (length (sx_entry_conditions c)))"

subsection \<open>Orders, fills, positions, trades\<close>

datatype paper_exit_reason =
    MANUAL_CLOSE
  | STOP_LOSS
  | EXIT_TAKE_PROFIT
  | TRAILING_STOP
  | LIQUIDATION
  | SIGNAL_FLIP
  | ACCOUNT_RESET

datatype durability = IN_MEMORY | DURABLE

text \<open>Where a price came from: the venue's book, the last trade moved by slippage, or a mark.\<close>

datatype price_basis =
    BestAsk string
  | BestBid string
  | LastPriceSlipped string rat
  | Marked string

record paper_fill =
  pf_fill_id :: string
  pf_price :: rat
  pf_quantity :: rat
  pf_fee :: rat
  pf_filled_at :: timestamp
  pf_price_source :: price_basis
  pf_price_age_seconds :: "rat option"

definition paper_fill_valid :: "paper_fill \<Rightarrow> bool" where
  "paper_fill_valid f \<longleftrightarrow> 0 < pf_price f \<and> 0 < pf_quantity f \<and> 0 \<le> pf_fee f"

record paper_order =
  po_order_id :: string
  po_client_order_id :: string
  po_symbol :: string
  po_side :: order_side
  po_order_type :: order_type
  po_state :: order_state
  po_reduce_only :: bool
  po_requested_quantity :: rat
  po_filled_quantity :: rat
  po_average_fill_price :: "rat option"
  po_fills :: "paper_fill list"
  po_leverage :: "leverage_decision option"
  po_created_at :: timestamp
  po_updated_at :: timestamp
  po_rejection_code :: "risk_rejection_code option"
  po_idempotent_replay :: bool

definition paper_order_valid :: "paper_order \<Rightarrow> bool" where
  "paper_order_valid o' \<longleftrightarrow> 0 < po_requested_quantity o' \<and> 0 \<le> po_filled_quantity o'"

definition is_filled :: "paper_order \<Rightarrow> bool" where
  "is_filled o' \<longleftrightarrow> po_state o' = FILLED"

record paper_position =
  pp_position_id :: string
  pp_symbol :: string
  pp_side :: position_side
  pp_quantity :: rat
  pp_entry_price :: rat
  pp_notional :: rat
  pp_margin :: rat
  pp_approved_leverage :: rat
  pp_entry_fee :: rat
  pp_stop_price :: "rat option"
  pp_target_price :: "rat option"
  pp_trailing_stop_percent :: "rat option"
  pp_trail_extreme :: "rat option"
  pp_liquidation_price :: "rat option"
  pp_opened_at :: timestamp
  pp_updated_at :: timestamp
  pp_opening_order_id :: string
  pp_mark_price :: "rat option"
  pp_mark_source :: "price_basis option"
  pp_mark_status :: "data_status option"
  pp_unrealized_pnl :: "rat option"
  pp_thesis :: "position_thesis option"
  pp_best_price :: "rat option"
  pp_worst_price :: "rat option"

definition paper_position_valid :: "paper_position \<Rightarrow> bool" where
  "paper_position_valid p \<longleftrightarrow>
     0 < pp_quantity p \<and> 0 < pp_entry_price p \<and> 0 < pp_notional p \<and> 0 < pp_margin p \<and>
     1 \<le> pp_approved_leverage p \<and> 0 \<le> pp_entry_fee p"

record paper_trade =
  pt_trade_id :: string
  pt_symbol :: string
  pt_side :: position_side
  pt_quantity :: rat
  pt_entry_price :: rat
  pt_exit_price :: rat
  pt_notional :: rat
  pt_margin :: rat
  pt_approved_leverage :: rat
  pt_opened_at :: timestamp
  pt_closed_at :: timestamp
  pt_exit_reason :: paper_exit_reason
  pt_gross_pnl :: rat
  pt_fees :: rat
  pt_net_pnl :: rat
  pt_return_percent :: rat
  pt_balance_after :: rat

record daily_session =
  ds_session_date :: int
  ds_realized_pnl :: rat
  ds_fees :: rat
  ds_trades_closed :: int
  ds_orders_submitted :: int
  ds_orders_rejected :: int
  ds_profit_target :: rat
  ds_loss_limit :: rat
  ds_lock_state :: risk_lock_state
  ds_locked_at :: "timestamp option"

definition daily_session_valid :: "daily_session \<Rightarrow> bool" where
  "daily_session_valid s \<longleftrightarrow>
     0 \<le> ds_trades_closed s \<and> 0 \<le> ds_orders_submitted s \<and> 0 \<le> ds_orders_rejected s"

definition target_reached :: "daily_session \<Rightarrow> bool" where
  "target_reached s \<longleftrightarrow> ds_profit_target s \<le> ds_realized_pnl s"

definition loss_limit_reached :: "daily_session \<Rightarrow> bool" where
  "loss_limit_reached s \<longleftrightarrow> ds_realized_pnl s \<le> ds_loss_limit s"

record paper_account =
  pa_account_id :: string
  pa_mode :: trading_mode
  pa_created_at :: timestamp
  pa_updated_at :: timestamp
  pa_starting_balance :: rat
  pa_balance :: rat
  pa_equity :: rat
  pa_available_balance :: rat
  pa_margin_used :: rat
  pa_realized_pnl :: rat
  pa_unrealized_pnl :: "rat option"
  pa_total_fees :: rat
  pa_positions :: "paper_position list"
  pa_open_orders :: "paper_order list"
  pa_recent_orders :: "paper_order list"
  pa_recent_trades :: "paper_trade list"
  pa_session :: daily_session
  pa_autonomous_enabled :: bool
  pa_durability :: durability
  pa_mark_source :: "price_basis option"
  pa_mark_status :: "data_status option"

record paper_order_result =
  pr_accepted :: bool
  pr_order :: paper_order
  pr_position :: "paper_position option"
  pr_trade :: "paper_trade option"
  pr_account :: paper_account
  pr_checks_performed :: "string list"
  pr_risk_max_leverage :: "rat option"

datatype reconciliation_status = NOT_APPLICABLE | CONSISTENT | INCONSISTENT | RECON_UNAVAILABLE

record reconciliation_report =
  rc_status :: reconciliation_status
  rc_checked_at :: timestamp
  rc_positions_checked :: int
  rc_orders_checked :: int

subsection \<open>engines/paper/state.py\<close>

record mutable_position =
  mp_position_id :: string
  mp_symbol :: string
  mp_side :: position_side
  mp_quantity :: rat
  mp_entry_price :: rat
  mp_notional :: rat
  mp_margin :: rat
  mp_approved_leverage :: rat
  mp_entry_fee :: rat
  mp_opened_at :: timestamp
  mp_updated_at :: timestamp
  mp_opening_order_id :: string
  mp_stop_price :: "rat option"
  mp_target_price :: "rat option"
  mp_trailing_stop_percent :: "rat option"
  mp_trail_extreme :: "rat option"
  mp_liquidation_price :: "rat option"
  mp_mark_price :: "rat option"
  mp_mark_source :: "price_basis option"
  mp_mark_status :: "data_status option"
  mp_thesis :: "position_thesis option"
  mp_best_price :: "rat option"
  mp_worst_price :: "rat option"

record mutable_session =
  ms_session_date :: int
  ms_profit_target :: rat
  ms_loss_limit :: rat
  ms_realized_pnl :: rat
  ms_fees :: rat
  ms_trades_closed :: int
  ms_orders_submitted :: int
  ms_orders_rejected :: int
  ms_lock_state :: risk_lock_state
  ms_locked_at :: "timestamp option"

definition session_to_model :: "mutable_session \<Rightarrow> daily_session result" where
  "session_to_model s =
     construct daily_session_valid
       \<lparr>ds_session_date = ms_session_date s, ds_realized_pnl = ms_realized_pnl s,
        ds_fees = ms_fees s, ds_trades_closed = ms_trades_closed s,
        ds_orders_submitted = ms_orders_submitted s, ds_orders_rejected = ms_orders_rejected s,
        ds_profit_target = ms_profit_target s, ds_loss_limit = ms_loss_limit s,
        ds_lock_state = ms_lock_state s, ds_locked_at = ms_locked_at s\<rparr>"

record paper_state =
  ps_account_id :: string
  ps_created_at :: timestamp
  ps_updated_at :: timestamp
  ps_starting_balance :: rat
  ps_balance :: rat
  ps_realized_pnl :: rat
  ps_total_fees :: rat
  ps_autonomous_enabled :: bool
  ps_emergency_stopped :: bool
  ps_positions :: "(string, mutable_position) dict"
  ps_orders_by_client_id :: "(string, paper_order) dict"
  ps_order_log :: "paper_order list"
  ps_trades :: "paper_trade list"
  ps_session :: "mutable_session option"
  ps_sequence :: nat

text \<open>\<^verbatim>\<open>next_sequence\<close>: the counter and the state that has counted.\<close>

definition next_sequence :: "(paper_state, nat) act" where
  "next_sequence s = (s\<lparr>ps_sequence := ps_sequence s + 1\<rparr>, Inr (ps_sequence s + 1))"

text \<open>The decimal digits of a counter, as the f-strings print it.\<close>

fun nat_str :: "nat \<Rightarrow> string" where
  "nat_str n =
     (if n < 10 then [char_of (48 + n)] else nat_str (n div 10) @ [char_of (48 + n mod 10)])"

declare nat_str.simps [simp del]

definition seq_id :: "string \<Rightarrow> nat \<Rightarrow> string" where
  "seq_id prefix n = prefix @ nat_str n"

subsection \<open>engines/paper/store.py\<close>

definition DEFAULT_ACCOUNT_ID :: string where "DEFAULT_ACCOUNT_ID = ''paper-default''"

definition fresh_state :: "rat \<Rightarrow> timestamp \<Rightarrow> paper_state" where
  "fresh_state starting_balance now =
     \<lparr>ps_account_id = DEFAULT_ACCOUNT_ID, ps_created_at = now, ps_updated_at = now,
      ps_starting_balance = starting_balance, ps_balance = starting_balance,
      ps_realized_pnl = 0, ps_total_fees = 0, ps_autonomous_enabled = False,
      ps_emergency_stopped = False, ps_positions = [], ps_orders_by_client_id = [],
      ps_order_log = [], ps_trades = [], ps_session = None, ps_sequence = 0\<rparr>"

definition paper_reconcile :: "timestamp \<Rightarrow> paper_state \<Rightarrow> reconciliation_report" where
  "paper_reconcile now s =
     \<lparr>rc_status = NOT_APPLICABLE, rc_checked_at = now,
      rc_positions_checked = int (length (ps_positions s)),
      rc_orders_checked = int (length (ps_order_log s))\<rparr>"

subsection \<open>The engine's value types\<close>

record paper_config =
  pc_starting_balance :: rat
  pc_daily_profit_target :: rat
  pc_daily_loss_limit :: rat
  pc_max_open_positions :: int
  pc_max_position_notional :: rat
  pc_max_portfolio_exposure :: rat
  pc_max_data_age_seconds :: rat
  pc_taker_fee_bps :: rat
  pc_slippage_bps :: rat
  pc_max_order_log :: int
  pc_max_trade_log :: int

record mark_price =
  mk_symbol :: string
  mk_status :: data_status
  mk_source :: string
  mk_last_price :: "rat option"
  mk_bid_price :: "rat option"
  mk_ask_price :: "rat option"
  mk_age_seconds :: "rat option"

definition mark_is_usable :: "mark_price \<Rightarrow> bool" where
  "mark_is_usable m \<longleftrightarrow> mk_status m = OK \<and> mk_last_price m \<noteq> None"

record submit_order_request =
  sr_symbol :: string
  sr_side :: order_side
  sr_quantity :: "rat option"
  sr_margin :: "rat option"
  sr_stop_loss_percent :: "rat option"
  sr_take_profit_percent :: "rat option"
  sr_trailing_stop_percent :: "rat option"
  sr_client_order_id :: "string option"
  sr_strategy_context :: "strategy_context option"

end
