(* ===== verification/PaperEngine.thy ===== *)
theory PaperEngine
  imports PaperDomain
begin

section \<open>The paper engine\<close>

text \<open>
  \<^verbatim>\<open>engines/paper/risk.py\<close> and \<^verbatim>\<open>engines/paper/engine.py\<close>. The engine mutates the one
  \<open>paper_state\<close> its repository holds, so every method is an action over it; what was assigned
  before an exception stays assigned. The configuration and the repository's durability are
  parameters. A refusal is its code; the sentence beside it is not modelled.
\<close>

subsection \<open>engines/paper/risk.py\<close>

definition check_market_data ::
    "data_status \<Rightarrow> rat option \<Rightarrow> rat \<Rightarrow> risk_rejection_code option" where
  "check_market_data mark_status mark_age_seconds max_data_age_seconds =
     (if mark_status \<noteq> OK then Some STALE_DATA
      else case mark_age_seconds of
             None \<Rightarrow> Some STALE_DATA
           | Some age \<Rightarrow> if max_data_age_seconds < age then Some STALE_DATA else None)"

definition check_authority :: "bool \<Rightarrow> paper_state \<Rightarrow> risk_rejection_code option" where
  "check_authority paper_enabled s =
     (if \<not> paper_enabled then Some MODE_NOT_ENABLED
      else if ps_emergency_stopped s then Some EMERGENCY_STOP
      else case ps_session s of
             None \<Rightarrow> None
           | Some session \<Rightarrow>
               if blocks_entries (ms_lock_state session)
               then Some (if ms_lock_state session = LOCK_DAILY_PROFIT_TARGET
                          then DAILY_PROFIT_TARGET else DAILY_LOSS_LIMIT)
               else None)"

definition exposure :: "paper_state \<Rightarrow> rat" where
  "exposure s = d_sum (map mp_notional (values_of (ps_positions s)))"

definition check_entry ::
    "paper_config \<Rightarrow> bool \<Rightarrow> string \<Rightarrow> rat \<Rightarrow> rat \<Rightarrow> rat \<Rightarrow> data_status \<Rightarrow> rat option \<Rightarrow>
     leverage_decision \<Rightarrow> rat \<Rightarrow> paper_state \<Rightarrow> risk_rejection_code option" where
  "check_entry cfg paper_enabled symbol quantity notional margin_required mark_status
     mark_age_seconds leverage available_balance s =
     (case check_authority paper_enabled s of
        Some code \<Rightarrow> Some code
      | None \<Rightarrow>
     (case check_market_data mark_status mark_age_seconds (pc_max_data_age_seconds cfg) of
        Some code \<Rightarrow> Some code
      | None \<Rightarrow>
      if \<not> decision_is_usable leverage \<or> ld_approved leverage = None then Some MAX_LEVERAGE
      else if quantity \<le> 0 then Some POSITION_SIZE
      else if notional \<le> 0 then Some MIN_NOTIONAL
      else if pc_max_position_notional cfg < notional then Some POSITION_SIZE
      else if map_of (ps_positions s) symbol \<noteq> None then Some SYMBOL_LIMIT
      else if pc_max_open_positions cfg \<le> int (length (ps_positions s)) then Some MAX_OPEN_POSITIONS
      else if pc_max_portfolio_exposure cfg < d_add (exposure s) notional then Some PORTFOLIO_EXPOSURE
      else if available_balance < margin_required then Some INSUFFICIENT_BALANCE
      else None))"

subsection \<open>Pricing\<close>

definition BPS :: rat where "BPS = 10000"

definition NOMINAL_QUANTITY :: rat where "NOMINAL_QUANTITY = 1 / 10 ^ 8"

text \<open>The fallback of \<^verbatim>\<open>_fill_price\<close>: the last trade moved adversely.\<close>

definition slipped_price :: "mark_price \<Rightarrow> bool \<Rightarrow> rat \<Rightarrow> (rat \<times> price_basis) result" where
  "slipped_price m side_is_buy slippage_bps =
     (case mk_last_price m of
        None \<Rightarrow> Inl ValueError
      | Some last_price \<Rightarrow>
          bindE (d_div slippage_bps BPS) (\<lambda>adjustment.
            let factor = (if side_is_buy then d_add 1 adjustment else d_sub 1 adjustment)
            in Inr (d_mul last_price factor, LastPriceSlipped (mk_source m) slippage_bps)))"

definition fill_price :: "mark_price \<Rightarrow> bool \<Rightarrow> rat \<Rightarrow> (rat \<times> price_basis) result" where
  "fill_price m side_is_buy slippage_bps =
     (case (if side_is_buy then mk_ask_price m else mk_bid_price m) of
        None \<Rightarrow> slipped_price m side_is_buy slippage_bps
      | Some quote \<Rightarrow>
          if 0 < quote
          then Inr (quote, if side_is_buy then BestAsk (mk_source m) else BestBid (mk_source m))
          else slipped_price m side_is_buy slippage_bps)"

definition liquidation_price :: "rat \<Rightarrow> rat \<Rightarrow> bool \<Rightarrow> rat option result" where
  "liquidation_price entry leverage is_long =
     bindE (d_div entry leverage) (\<lambda>move.
       let level = (if is_long then d_sub entry move else d_add entry move)
       in Inr (if 0 < level then Some level else None))"

definition is_long :: "mutable_position \<Rightarrow> bool" where
  "is_long p \<longleftrightarrow> mp_side p = LONG"

text \<open>One extreme of the excursion: replaced when absent or passed.\<close>

definition widen :: "bool \<Rightarrow> rat option \<Rightarrow> rat \<Rightarrow> rat option" where
  "widen up current price =
     (case current of
        None \<Rightarrow> Some price
      | Some c \<Rightarrow> if (up \<and> c < price) \<or> (\<not> up \<and> price < c) then Some price else Some c)"

definition record_excursion :: "rat \<Rightarrow> mutable_position \<Rightarrow> mutable_position" where
  "record_excursion price p =
     (if price \<le> 0 then p
      else p\<lparr>mp_best_price := widen (is_long p) (mp_best_price p) price,
             mp_worst_price := widen (\<not> is_long p) (mp_worst_price p) price\<rparr>)"

definition positive_gap :: "rat \<Rightarrow> rat option \<Rightarrow> rat option" where
  "positive_gap a b =
     (case b of None \<Rightarrow> None
      | Some v \<Rightarrow> let gap = d_abs (d_sub a v) in if gap \<le> 0 then None else Some gap)"

definition capture_thesis ::
    "submit_order_request \<Rightarrow> position_side \<Rightarrow> rat \<Rightarrow> rat option \<Rightarrow> rat option \<Rightarrow> rat \<Rightarrow> timestamp \<Rightarrow>
     position_thesis result" where
  "capture_thesis req side entry_price stop target quantity now =
     (let risk_per_unit = positive_gap entry_price stop;
          reward_per_unit = (case target of None \<Rightarrow> None
            | Some t \<Rightarrow> positive_gap t (Some entry_price))
      in bindE (case (risk_per_unit, reward_per_unit) of
                  (Some risk, Some reward) \<Rightarrow> bindE (d_div reward risk) (\<lambda>x. Inr (Some x))
                | _ \<Rightarrow> Inr None) (\<lambda>ratio.
         bindE (case risk_per_unit of
                  None \<Rightarrow> Inr None
                | Some risk \<Rightarrow> bindE (quantize_usdt (d_mul risk quantity))
                    (\<lambda>t. Inr (if t \<le> 0 then None else Some t))) (\<lambda>total_risk.
         construct position_thesis_valid
           \<lparr>th_status = (if sr_strategy_context req \<noteq> None then CAPTURED else NO_STRATEGY_CONTEXT),
            th_captured_at = now, th_side = side, th_entry_price = entry_price,
            th_stop_price = stop, th_target_price = target,
            th_planned_risk_per_unit = risk_per_unit, th_planned_risk_total = total_risk,
            th_planned_reward_per_unit = reward_per_unit, th_risk_reward_ratio = ratio,
            th_strategy = sr_strategy_context req\<rparr>)))"

subsection \<open>Exits\<close>

definition trailing_level :: "mutable_position \<Rightarrow> rat option result" where
  "trailing_level p =
     (case (mp_trailing_stop_percent p, mp_trail_extreme p) of
        (Some percent, Some extreme) \<Rightarrow>
          bindE (d_div (d_mul extreme percent) 100) (\<lambda>move.
            Inr (Some (if is_long p then d_sub extreme move else d_add extreme move)))
      | _ \<Rightarrow> Inr None)"

definition reached :: "bool \<Rightarrow> rat \<Rightarrow> rat option \<Rightarrow> bool" where
  "reached long price level =
     (case level of None \<Rightarrow> False | Some l \<Rightarrow> if long then price \<le> l else l \<le> price)"

text \<open>The adverse levels that were reached, in the order the code collects them.\<close>

definition candidate ::
    "bool \<Rightarrow> rat \<Rightarrow> rat option \<Rightarrow> paper_exit_reason \<Rightarrow> (rat \<times> paper_exit_reason) list" where
  "candidate long price level reason =
     (case level of None \<Rightarrow> [] | Some l \<Rightarrow> if reached long price level then [(l, reason)] else [])"

text \<open>Python's \<^verbatim>\<open>max\<close> and \<^verbatim>\<open>min\<close> with a key: the first extremal element.\<close>

fun first_best :: "('a \<Rightarrow> 'a \<Rightarrow> bool) \<Rightarrow> 'a \<Rightarrow> 'a list \<Rightarrow> 'a" where
  "first_best better best [] = best"
| "first_best better best (x # xs) = first_best better (if better x best then x else best) xs"

definition nearest :: "bool \<Rightarrow> (rat \<times> paper_exit_reason) list \<Rightarrow> paper_exit_reason option" where
  "nearest long cs =
     (case cs of [] \<Rightarrow> None
      | c # rest \<Rightarrow>
          Some (snd (first_best (\<lambda>x y. if long then fst y < fst x else fst x < fst y) c rest)))"

definition triggered_exit :: "mutable_position \<Rightarrow> rat \<Rightarrow> paper_exit_reason option result" where
  "triggered_exit p price =
     bindE (trailing_level p) (\<lambda>trailing.
       let long = is_long p;
           adverse = candidate long price (mp_liquidation_price p) LIQUIDATION @
                     candidate long price (mp_stop_price p) STOP_LOSS @
                     candidate long price trailing TRAILING_STOP
       in Inr (case nearest long adverse of
                 Some reason \<Rightarrow> Some reason
               | None \<Rightarrow>
                   (case mp_target_price p of
                      None \<Rightarrow> None
                    | Some target \<Rightarrow>
                        if (if long then target \<le> price else price \<le> target)
                        then Some EXIT_TAKE_PROFIT else None)))"

definition advance_trail :: "rat \<Rightarrow> mutable_position \<Rightarrow> mutable_position" where
  "advance_trail price p =
     (if mp_trailing_stop_percent p = None then p
      else p\<lparr>mp_trail_extreme :=
               (case mp_trail_extreme p of
                  None \<Rightarrow> Some price
                | Some e \<Rightarrow> Some (if is_long p then max e price else min e price))\<rparr>)"

subsection \<open>Sessions, balances, the order log\<close>

definition new_session :: "paper_config \<Rightarrow> int \<Rightarrow> mutable_session" where
  "new_session cfg today =
     \<lparr>ms_session_date = today, ms_profit_target = pc_daily_profit_target cfg,
      ms_loss_limit = pc_daily_loss_limit cfg, ms_realized_pnl = 0, ms_fees = 0,
      ms_trades_closed = 0, ms_orders_submitted = 0, ms_orders_rejected = 0,
      ms_lock_state = LOCK_NONE, ms_locked_at = None\<rparr>"

definition ensured_session :: "paper_config \<Rightarrow> timestamp \<Rightarrow> paper_state \<Rightarrow> mutable_session" where
  "ensured_session cfg now s =
     (case ps_session s of
        None \<Rightarrow> new_session cfg (date_of now)
      | Some x \<Rightarrow> if ms_session_date x \<noteq> date_of now then new_session cfg (date_of now) else x)"

definition ensure_session :: "paper_config \<Rightarrow> timestamp \<Rightarrow> (paper_state, mutable_session) act" where
  "ensure_session cfg now s =
     (s\<lparr>ps_session := Some (ensured_session cfg now s)\<rparr>, Inr (ensured_session cfg now s))"

text \<open>An assignment to one field of the session object the state holds.\<close>

definition on_session :: "(mutable_session \<Rightarrow> mutable_session) \<Rightarrow> paper_state \<Rightarrow> paper_state" where
  "on_session f s = s\<lparr>ps_session := map_option f (ps_session s)\<rparr>"

definition session_value :: "(mutable_session \<Rightarrow> rat result) \<Rightarrow> paper_state \<Rightarrow> rat result" where
  "session_value f s = (case ps_session s of None \<Rightarrow> Inl TypeError | Some x \<Rightarrow> f x)"

definition available_balance :: "paper_state \<Rightarrow> rat" where
  "available_balance s =
     d_sub (ps_balance s) (d_sum (map mp_margin (values_of (ps_positions s))))"

definition validate_sizing :: "submit_order_request \<Rightarrow> risk_rejection_code option" where
  "validate_sizing req =
     (let bad_size = (\<lambda>v. case v of None \<Rightarrow> False | Some x \<Rightarrow> x \<le> (0 :: rat));
          bad_percent = (\<lambda>v. case v of None \<Rightarrow> False | Some x \<Rightarrow> x \<le> (0 :: rat) \<or> 100 \<le> x)
      in if (sr_quantity req = None) = (sr_margin req = None) then Some POSITION_SIZE
         else if bad_size (sr_quantity req) \<or> bad_size (sr_margin req) then Some POSITION_SIZE
         else if bad_percent (sr_stop_loss_percent req) \<or> bad_percent (sr_take_profit_percent req) \<or>
                 bad_percent (sr_trailing_stop_percent req)
         then Some POSITION_SIZE
         else None)"

definition resolve_quantity ::
    "submit_order_request \<Rightarrow> rat \<Rightarrow> rat \<Rightarrow> symbol_filters option \<Rightarrow>
     (rat \<times> risk_rejection_code option) result" where
  "resolve_quantity req price leverage filters =
     bindE (case sr_quantity req of
              Some q \<Rightarrow> Inr (Some q)
            | None \<Rightarrow>
                (case sr_margin req of
                   Some m \<Rightarrow> bindE (d_div (d_mul m leverage) price) (\<lambda>q. Inr (Some q))
                 | None \<Rightarrow> Inr None)) (\<lambda>asked.
       case asked of
         None \<Rightarrow> Inr (0, Some POSITION_SIZE)
       | Some quantity \<Rightarrow>
           (case filters of
              Some f \<Rightarrow>
                bindE (floor_to_step quantity (sf_step_size f)) (\<lambda>q.
                  if q \<le> 0 then Inr (0, Some EXCHANGE_PRECISION)
                  else if 0 < sf_min_quantity f \<and> q < sf_min_quantity f
                  then Inr (q, Some EXCHANGE_PRECISION)
                  else (case sf_max_quantity f of
                          None \<Rightarrow> Inr (q, None)
                        | Some most \<Rightarrow> if most < q then Inr (q, Some POSITION_SIZE) else Inr (q, None)))
            | None \<Rightarrow>
                bindE (floor_to_step quantity USDT_EXPONENT) (\<lambda>q.
                  if q \<le> 0 then Inr (0, Some POSITION_SIZE) else Inr (q, None))))"

definition record_order :: "paper_config \<Rightarrow> paper_order \<Rightarrow> paper_state \<Rightarrow> paper_state" where
  "record_order cfg o' s =
     (let log = ps_order_log s @ [o'];
          overflow = int (length log) - pc_max_order_log cfg
      in if 0 < overflow
         then s\<lparr>ps_orders_by_client_id :=
                  foldl (\<lambda>d e. AList.delete (po_client_order_id e) d) (ps_orders_by_client_id s)
                    (take (nat overflow) log),
                ps_order_log := drop (nat overflow) log\<rparr>
         else s\<lparr>ps_order_log := log\<rparr>)"

text \<open>\<^verbatim>\<open>orders_by_client_id[...] = order\<close>, then \<^verbatim>\<open>_record_order\<close>.\<close>

definition file_order :: "paper_config \<Rightarrow> paper_order \<Rightarrow> paper_state \<Rightarrow> paper_state" where
  "file_order cfg o' s =
     record_order cfg o'
       (s\<lparr>ps_orders_by_client_id :=
            AList.update (po_client_order_id o') o' (ps_orders_by_client_id s)\<rparr>)"

definition lock_session :: "timestamp \<Rightarrow> mutable_session \<Rightarrow> mutable_session" where
  "lock_session now x =
     (if ms_lock_state x \<noteq> LOCK_NONE then x
      else if ms_profit_target x \<le> ms_realized_pnl x
      then x\<lparr>ms_lock_state := LOCK_DAILY_PROFIT_TARGET, ms_locked_at := Some now\<rparr>
      else if ms_realized_pnl x \<le> ms_loss_limit x
      then x\<lparr>ms_lock_state := LOCK_DAILY_LOSS_LIMIT, ms_locked_at := Some now\<rparr>
      else x)"

subsection \<open>Snapshots\<close>

definition mark_trusted :: "paper_config \<Rightarrow> mark_price \<Rightarrow> bool" where
  "mark_trusted cfg m \<longleftrightarrow>
     mark_is_usable m \<and>
     check_market_data (mk_status m) (mk_age_seconds m) (pc_max_data_age_seconds cfg) = None"

definition position_model ::
    "paper_config \<Rightarrow> timestamp \<Rightarrow> (string, mark_price) dict \<Rightarrow> mutable_position \<Rightarrow>
     paper_position result" where
  "position_model cfg now marks p =
     (let (mark_price, mark_source, mark_status) =
            (case map_of marks (mp_symbol p) of
               None \<Rightarrow> (mp_mark_price p, mp_mark_source p, mp_mark_status p)
             | Some m \<Rightarrow>
                 (if mark_trusted cfg m then mk_last_price m else None,
                  Some (Marked (mk_source m)),
                  Some (if mark_trusted cfg m then mk_status m else STALE)))
      in bindE (case mark_price of
                  None \<Rightarrow> Inr None
                | Some price \<Rightarrow>
                    let move = d_mul (d_sub price (mp_entry_price p)) (mp_quantity p)
                    in bindE (quantize_usdt (if mp_side p = SHORT then d_neg move else move))
                         (\<lambda>u. Inr (Some u))) (\<lambda>unrealized.
         construct paper_position_valid
           \<lparr>pp_position_id = mp_position_id p, pp_symbol = mp_symbol p, pp_side = mp_side p,
            pp_quantity = mp_quantity p, pp_entry_price = mp_entry_price p,
            pp_notional = mp_notional p, pp_margin = mp_margin p,
            pp_approved_leverage = mp_approved_leverage p, pp_entry_fee = mp_entry_fee p,
            pp_stop_price = mp_stop_price p, pp_target_price = mp_target_price p,
            pp_trailing_stop_percent = mp_trailing_stop_percent p,
            pp_trail_extreme = mp_trail_extreme p, pp_liquidation_price = mp_liquidation_price p,
            pp_opened_at = mp_opened_at p, pp_updated_at = now,
            pp_opening_order_id = mp_opening_order_id p, pp_mark_price = mark_price,
            pp_mark_source = mark_source, pp_mark_status = mark_status,
            pp_unrealized_pnl = unrealized, pp_thesis = mp_thesis p,
            pp_best_price = mp_best_price p, pp_worst_price = mp_worst_price p\<rparr>))"

definition position_model_option ::
    "paper_config \<Rightarrow> timestamp \<Rightarrow> (string, mark_price) dict \<Rightarrow> mutable_position option \<Rightarrow>
     paper_position option result" where
  "position_model_option cfg now marks m =
     (case m of None \<Rightarrow> Inr None
      | Some p \<Rightarrow> bindE (position_model cfg now marks p) (\<lambda>x. Inr (Some x)))"

definition last_n :: "nat \<Rightarrow> 'a list \<Rightarrow> 'a list" where
  "last_n n xs = drop (length xs - n) xs"

definition freshest :: "paper_position list \<Rightarrow> paper_position option" where
  "freshest ps =
     (case filter (\<lambda>p. pp_mark_source p \<noteq> None) ps of
        [] \<Rightarrow> None
      | p # rest \<Rightarrow> Some (first_best (\<lambda>x y. pp_updated_at y < pp_updated_at x) p rest))"

definition unrealized_total :: "paper_position list \<Rightarrow> rat option result" where
  "unrealized_total positions =
     (let marked = List.map_filter pp_unrealized_pnl positions
      in if positions = [] then Inr (Some 0)
         else if length marked = length positions
         then bindE (quantize_usdt (d_sum marked)) (\<lambda>u. Inr (Some u))
         else Inr None)"

definition build_account ::
    "paper_config \<Rightarrow> durability \<Rightarrow> timestamp \<Rightarrow> (string, mark_price) dict \<Rightarrow>
     (paper_state, paper_account) act" where
  "build_account cfg dur now marks =
     bindA (readA (\<lambda>s. s)) (\<lambda>s.
     bindA (liftA (mapE (position_model cfg now marks) (values_of (ps_positions s)))) (\<lambda>positions.
     bindA (liftA (quantize_usdt (d_sum (map pp_margin positions)))) (\<lambda>margin_used.
     bindA (liftA (unrealized_total positions)) (\<lambda>unrealized.
     bindA (liftA (quantize_usdt
       (d_add (ps_balance s) (case unrealized of None \<Rightarrow> 0 | Some u \<Rightarrow> u)))) (\<lambda>equity.
     bindA (ensure_session cfg now) (\<lambda>session.
     bindA (liftA (session_to_model session)) (\<lambda>daily.
     bindA (liftA (quantize_usdt (d_sub (ps_balance s) margin_used))) (\<lambda>available.
     returnA
       \<lparr>pa_account_id = ps_account_id s, pa_mode = PAPER, pa_created_at = ps_created_at s,
        pa_updated_at = ps_updated_at s, pa_starting_balance = ps_starting_balance s,
        pa_balance = ps_balance s, pa_equity = equity, pa_available_balance = available,
        pa_margin_used = margin_used, pa_realized_pnl = ps_realized_pnl s,
        pa_unrealized_pnl = unrealized, pa_total_fees = ps_total_fees s,
        pa_positions = positions, pa_open_orders = [],
        pa_recent_orders = rev (last_n 25 (ps_order_log s)),
        pa_recent_trades = rev (last_n 25 (ps_trades s)), pa_session = daily,
        pa_autonomous_enabled = ps_autonomous_enabled s, pa_durability = dur,
        pa_mark_source = (case freshest positions of None \<Rightarrow> None | Some p \<Rightarrow> pp_mark_source p),
        pa_mark_status = (case freshest positions of None \<Rightarrow> None | Some p \<Rightarrow> pp_mark_status p)\<rparr>))))))))"

end
