(* ===== verification/PaperTrading.thy ===== *)
theory PaperTrading
  imports PaperEngine
begin

section \<open>The paper engine's operations\<close>

text \<open>
  The methods of \<^verbatim>\<open>PaperEngine\<close> that change the account: submitting, ticking, closing, refusing,
  replaying, resetting and the emergency stop, with \<^verbatim>\<open>_open_position\<close>, \<^verbatim>\<open>_close\<close> and \<^verbatim>\<open>_reject\<close>
  below them. \<open>marks\<close> is the mapping of prices the caller passes.
\<close>

type_synonym marks = "(string, mark_price) dict"

text \<open>\<^verbatim>\<open>all_marks.setdefault(symbol, mark)\<close>.\<close>

definition setdefault :: "string \<Rightarrow> mark_price \<Rightarrow> marks \<Rightarrow> marks" where
  "setdefault k m d = (if map_of d k = None then d @ [(k, m)] else d)"

text \<open>\<^verbatim>\<open>request.client_order_id or f"paper-{state.next_sequence()}"\<close>.\<close>

definition client_id_of :: "string option \<Rightarrow> (paper_state, string) act" where
  "client_id_of given =
     (case given of
        Some cid \<Rightarrow>
          if cid \<noteq> [] then returnA cid
          else bindA next_sequence (\<lambda>n. returnA (seq_id ''paper-'' n))
      | None \<Rightarrow> bindA next_sequence (\<lambda>n. returnA (seq_id ''paper-'' n)))"

definition result_of ::
    "bool \<Rightarrow> paper_order \<Rightarrow> paper_position option \<Rightarrow> paper_trade option \<Rightarrow> string list \<Rightarrow>
     rat option \<Rightarrow> paper_account \<Rightarrow> paper_order_result" where
  "result_of accepted o' position trade checks rmax account =
     \<lparr>pr_accepted = accepted, pr_order = o', pr_position = position, pr_trade = trade,
      pr_account = account, pr_checks_performed = checks, pr_risk_max_leverage = rmax\<rparr>"

subsection \<open>Refusals\<close>

definition requested_or_nominal :: "rat option \<Rightarrow> rat" where
  "requested_or_nominal q = (case q of None \<Rightarrow> NOMINAL_QUANTITY
     | Some x \<Rightarrow> if 0 < x then x else NOMINAL_QUANTITY)"

definition rejected_order ::
    "nat \<Rightarrow> string \<Rightarrow> string \<Rightarrow> submit_order_request \<Rightarrow> bool \<Rightarrow> leverage_decision option \<Rightarrow>
     risk_rejection_code \<Rightarrow> timestamp \<Rightarrow> paper_order" where
  "rejected_order n cid symbol req reduce_only leverage code now =
     \<lparr>po_order_id = seq_id ''paper-order-'' n, po_client_order_id = cid, po_symbol = symbol,
      po_side = sr_side req, po_order_type = MARKET, po_state = REJECTED,
      po_reduce_only = reduce_only,
      po_requested_quantity = requested_or_nominal (sr_quantity req), po_filled_quantity = 0,
      po_average_fill_price = None, po_fills = [], po_leverage = leverage, po_created_at = now,
      po_updated_at = now, po_rejection_code = Some code, po_idempotent_replay = False\<rparr>"

definition reject ::
    "paper_config \<Rightarrow> durability \<Rightarrow> string \<Rightarrow> submit_order_request \<Rightarrow> string \<Rightarrow> risk_rejection_code \<Rightarrow>
     timestamp \<Rightarrow> marks \<Rightarrow> leverage_decision option \<Rightarrow> bool \<Rightarrow> string list \<Rightarrow> rat option \<Rightarrow>
     (paper_state, paper_order_result) act" where
  "reject cfg dur symbol req cid code now marks leverage reduce_only checks rmax =
     thenA (ensure_session cfg now)
    (thenA (modifyA (on_session (\<lambda>x. x\<lparr>ms_orders_rejected := ms_orders_rejected x + 1\<rparr>)))
    (bindA next_sequence (\<lambda>n.
     bindA (liftA (construct paper_order_valid
              (rejected_order n cid symbol req reduce_only leverage code now))) (\<lambda>o'.
     thenA (modifyA (file_order cfg o'))
    (thenA (modifyA (\<lambda>s. s\<lparr>ps_updated_at := now\<rparr>))
    (bindA (build_account cfg dur now marks) (\<lambda>account.
     returnA (result_of False o' None None checks rmax account))))))))"

definition refuse_order ::
    "paper_config \<Rightarrow> durability \<Rightarrow> submit_order_request \<Rightarrow> timestamp \<Rightarrow> risk_rejection_code \<Rightarrow>
     leverage_decision \<Rightarrow> marks \<Rightarrow> string list \<Rightarrow> rat option \<Rightarrow> (paper_state, paper_order_result) act"
where
  "refuse_order cfg dur req now code leverage marks checks rmax =
     thenA (ensure_session cfg now)
    (bindA (client_id_of (sr_client_order_id req)) (\<lambda>cid.
     reject cfg dur (upper (sr_symbol req)) req cid code now marks (Some leverage) False checks rmax))"

subsection \<open>Replays\<close>

text \<open>The stored outcome of an id already used; \<open>symbol\<close> is whose position is shown with it.\<close>

definition replay_outcome ::
    "paper_config \<Rightarrow> durability \<Rightarrow> timestamp \<Rightarrow> marks \<Rightarrow> string \<Rightarrow> paper_order \<Rightarrow>
     (paper_state, paper_order_result) act" where
  "replay_outcome cfg dur now marks symbol existing =
     bindA (readA (\<lambda>s. map_of (ps_positions s) symbol)) (\<lambda>held.
     bindA (liftA (position_model_option cfg now marks held)) (\<lambda>position.
     bindA (build_account cfg dur now marks) (\<lambda>account.
     returnA (result_of (is_filled existing) (existing\<lparr>po_idempotent_replay := True\<rparr>) position None
                [] None account))))"

definition replay ::
    "paper_config \<Rightarrow> durability \<Rightarrow> string \<Rightarrow> timestamp \<Rightarrow> marks \<Rightarrow>
     (paper_state, paper_order_result option) act" where
  "replay cfg dur cid now marks =
     bindA (readA (\<lambda>s. map_of (ps_orders_by_client_id s) cid)) (\<lambda>found.
     case found of
       None \<Rightarrow> returnA None
     | Some existing \<Rightarrow>
         thenA (ensure_session cfg now)
        (bindA (replay_outcome cfg dur now marks (po_symbol existing) existing) (\<lambda>r. returnA (Some r))))"

subsection \<open>Opening\<close>

definition charge_entry_fee :: "rat \<Rightarrow> (paper_state, unit) act" where
  "charge_entry_fee fee =
     thenA (updateA (\<lambda>s. quantize_usdt (d_sub (ps_balance s) fee)) (\<lambda>v s. s\<lparr>ps_balance := v\<rparr>))
    (thenA (updateA (\<lambda>s. quantize_usdt (d_sub (ps_realized_pnl s) fee)) (\<lambda>v s. s\<lparr>ps_realized_pnl := v\<rparr>))
    (thenA (updateA (\<lambda>s. quantize_usdt (d_add (ps_total_fees s) fee)) (\<lambda>v s. s\<lparr>ps_total_fees := v\<rparr>))
    (thenA (updateA (session_value (\<lambda>x. quantize_usdt (d_sub (ms_realized_pnl x) fee)))
              (\<lambda>v. on_session (\<lambda>x. x\<lparr>ms_realized_pnl := v\<rparr>)))
    (thenA (updateA (session_value (\<lambda>x. quantize_usdt (d_add (ms_fees x) fee)))
              (\<lambda>v. on_session (\<lambda>x. x\<lparr>ms_fees := v\<rparr>)))
    (modifyA (on_session (\<lambda>x. x\<lparr>ms_orders_submitted := ms_orders_submitted x + 1\<rparr>)))))))"

text \<open>A protective level a percentage away from the price: below it or above it.\<close>

definition level_at :: "rat \<Rightarrow> rat option \<Rightarrow> bool \<Rightarrow> rat option result" where
  "level_at price percent below =
     (case percent of
        None \<Rightarrow> Inr None
      | Some pc \<Rightarrow> bindE (d_div (d_mul price pc) 100) (\<lambda>move.
          Inr (Some (if below then d_sub price move else d_add price move))))"

definition opened_position ::
    "submit_order_request \<Rightarrow> string \<Rightarrow> rat \<Rightarrow> price_basis \<Rightarrow> rat \<Rightarrow> rat \<Rightarrow> rat \<Rightarrow> rat \<Rightarrow> rat \<Rightarrow>
     rat option \<Rightarrow> rat option \<Rightarrow> rat option \<Rightarrow> position_thesis \<Rightarrow> nat \<Rightarrow> string \<Rightarrow> timestamp \<Rightarrow>
     mutable_position" where
  "opened_position req symbol price source quantity notional margin approved fee stop target liq
     thesis n order_id now =
     \<lparr>mp_position_id = seq_id ''paper-position-'' n, mp_symbol = symbol,
      mp_side = (if sr_side req = BUY then LONG else SHORT), mp_quantity = quantity,
      mp_entry_price = price, mp_notional = notional, mp_margin = margin,
      mp_approved_leverage = approved, mp_entry_fee = fee, mp_opened_at = now,
      mp_updated_at = now, mp_opening_order_id = order_id, mp_stop_price = stop,
      mp_target_price = target, mp_trailing_stop_percent = sr_trailing_stop_percent req,
      mp_trail_extreme = (if sr_trailing_stop_percent req \<noteq> None then Some price else None),
      mp_liquidation_price = liq, mp_mark_price = Some price, mp_mark_source = Some source,
      mp_mark_status = Some OK, mp_thesis = Some thesis, mp_best_price = Some price,
      mp_worst_price = Some price\<rparr>"

definition filled_order ::
    "string \<Rightarrow> string \<Rightarrow> string \<Rightarrow> submit_order_request \<Rightarrow> rat \<Rightarrow> rat \<Rightarrow> paper_fill \<Rightarrow>
     leverage_decision \<Rightarrow> timestamp \<Rightarrow> paper_order" where
  "filled_order order_id cid symbol req quantity price fill leverage now =
     \<lparr>po_order_id = order_id, po_client_order_id = cid, po_symbol = symbol, po_side = sr_side req,
      po_order_type = MARKET, po_state = FILLED, po_reduce_only = False,
      po_requested_quantity = quantity, po_filled_quantity = quantity,
      po_average_fill_price = Some price, po_fills = [fill], po_leverage = Some leverage,
      po_created_at = now, po_updated_at = now, po_rejection_code = None,
      po_idempotent_replay = False\<rparr>"

definition open_position ::
    "paper_config \<Rightarrow> durability \<Rightarrow> submit_order_request \<Rightarrow> string \<Rightarrow> string \<Rightarrow> rat \<Rightarrow> price_basis \<Rightarrow>
     rat option \<Rightarrow> rat \<Rightarrow> rat \<Rightarrow> rat \<Rightarrow> leverage_decision \<Rightarrow> timestamp \<Rightarrow> marks \<Rightarrow> string list \<Rightarrow>
     rat option \<Rightarrow> (paper_state, paper_order_result) act" where
  "open_position cfg dur req symbol cid price source age quantity notional margin leverage now marks
     checks rmax =
     (case ld_approved leverage of
        None \<Rightarrow> raiseA ValueError
      | Some approved \<Rightarrow>
     let long = (sr_side req = BUY) in
     bindA (liftA (bindE (d_div (d_mul notional (pc_taker_fee_bps cfg)) BPS) quantize_usdt)) (\<lambda>fee.
     thenA (ensure_session cfg now)
    (thenA (charge_entry_fee fee)
    (bindA (liftA (level_at price (sr_stop_loss_percent req) long)) (\<lambda>stop.
     bindA (liftA (level_at price (sr_take_profit_percent req) (\<not> long))) (\<lambda>target.
     bindA next_sequence (\<lambda>n1.
     bindA next_sequence (\<lambda>n2.
     bindA (liftA (liquidation_price price approved long)) (\<lambda>liq.
     bindA (liftA (capture_thesis req (if long then LONG else SHORT) price stop target quantity now))
       (\<lambda>thesis.
     let order_id = seq_id ''paper-order-'' n1;
         position = opened_position req symbol price source quantity notional margin approved fee
           stop target liq thesis n2 order_id now
     in
     thenA (modifyA (\<lambda>s. s\<lparr>ps_positions := AList.update symbol position (ps_positions s)\<rparr>))
    (bindA next_sequence (\<lambda>n3.
     bindA (liftA (construct paper_fill_valid
        \<lparr>pf_fill_id = seq_id ''paper-fill-'' n3, pf_price = price, pf_quantity = quantity,
         pf_fee = fee, pf_filled_at = now, pf_price_source = source,
         pf_price_age_seconds = age\<rparr>)) (\<lambda>fill.
     bindA (liftA (construct paper_order_valid
        (filled_order order_id cid symbol req quantity price fill leverage now))) (\<lambda>o'.
     thenA (modifyA (file_order cfg o'))
    (thenA (modifyA (\<lambda>s. s\<lparr>ps_updated_at := now\<rparr>))
    (bindA (liftA (position_model cfg now marks position)) (\<lambda>shown.
     bindA (build_account cfg dur now marks) (\<lambda>account.
     returnA (result_of True o' (Some shown) None checks rmax account)))))))))))))))))))"

definition price_problem :: "paper_config \<Rightarrow> mark_price \<Rightarrow> risk_rejection_code option" where
  "price_problem cfg mark =
     (case check_market_data (mk_status mark) (mk_age_seconds mark) (pc_max_data_age_seconds cfg) of
        Some code \<Rightarrow> Some code
      | None \<Rightarrow> if \<not> mark_is_usable mark then Some STALE_DATA else None)"

text \<open>The checks before a size is computed: authority, price, the shape of the sizing request.\<close>

definition early_refusal ::
    "paper_config \<Rightarrow> bool \<Rightarrow> mark_price \<Rightarrow> submit_order_request \<Rightarrow> paper_state \<Rightarrow>
     risk_rejection_code option" where
  "early_refusal cfg paper_enabled mark req s =
     (case check_authority paper_enabled s of
        Some code \<Rightarrow> Some code
      | None \<Rightarrow> (case price_problem cfg mark of Some code \<Rightarrow> Some code
                 | None \<Rightarrow> validate_sizing req))"

text \<open>What sizing arrives at: a refusal or price, source, quantity, notional and margin.\<close>

definition size_order ::
    "paper_config \<Rightarrow> submit_order_request \<Rightarrow> mark_price \<Rightarrow> symbol_filters option \<Rightarrow> rat \<Rightarrow>
     (risk_rejection_code + rat \<times> price_basis \<times> rat \<times> rat \<times> rat) result" where
  "size_order cfg req mark filters approved =
     bindE (fill_price mark (sr_side req = BUY) (pc_slippage_bps cfg)) (\<lambda>(price, source).
     bindE (resolve_quantity req price approved filters) (\<lambda>(quantity, problem).
     case problem of
       Some code \<Rightarrow> Inr (Inl code)
     | None \<Rightarrow>
         bindE (quantize_usdt (d_mul quantity price)) (\<lambda>notional.
         bindE (bindE (d_div notional approved) quantize_usdt) (\<lambda>margin.
         if (case filters of None \<Rightarrow> False
             | Some f \<Rightarrow> (case sf_min_notional f of None \<Rightarrow> False | Some least \<Rightarrow> notional < least))
         then Inr (Inl MIN_NOTIONAL)
         else Inr (Inr (price, source, quantity, notional, margin))))))"

definition submit_order ::
    "paper_config \<Rightarrow> durability \<Rightarrow> submit_order_request \<Rightarrow> timestamp \<Rightarrow> mark_price \<Rightarrow>
     symbol_filters option \<Rightarrow> leverage_decision \<Rightarrow> bool \<Rightarrow> marks \<Rightarrow> string list \<Rightarrow> rat option \<Rightarrow>
     (paper_state, paper_order_result) act" where
  "submit_order cfg dur req now mark filters leverage paper_enabled marks checks rmax =
     thenA (ensure_session cfg now)
    (let symbol = upper (sr_symbol req); all_marks = setdefault symbol mark marks in
     bindA (client_id_of (sr_client_order_id req)) (\<lambda>cid.
     bindA (readA (\<lambda>s. map_of (ps_orders_by_client_id s) cid)) (\<lambda>found.
     case found of
       Some existing \<Rightarrow> replay_outcome cfg dur now all_marks symbol existing
     | None \<Rightarrow>
     bindA (readA (early_refusal cfg paper_enabled mark req)) (\<lambda>early.
     case early of
       Some code \<Rightarrow> reject cfg dur symbol req cid code now all_marks None False [] None
     | None \<Rightarrow>
     (case (if decision_is_usable leverage then ld_approved leverage else None) of
       None \<Rightarrow> reject cfg dur symbol req cid MAX_LEVERAGE now all_marks (Some leverage) False checks rmax
     | Some approved \<Rightarrow>
     bindA (liftA (size_order cfg req mark filters approved)) (\<lambda>sized.
     case sized of
       Inl code \<Rightarrow> reject cfg dur symbol req cid code now all_marks (Some leverage) False checks rmax
     | Inr (price, source, quantity, notional, margin) \<Rightarrow>
     bindA (readA (\<lambda>s. check_entry cfg paper_enabled symbol quantity notional margin (mk_status mark)
              (mk_age_seconds mark) leverage (available_balance s) s)) (\<lambda>gate.
     case gate of
       Some code \<Rightarrow> reject cfg dur symbol req cid code now all_marks (Some leverage) False checks rmax
     | None \<Rightarrow>
         open_position cfg dur req symbol cid price source (mk_age_seconds mark) quantity notional
           margin leverage now all_marks checks rmax)))))))"

subsection \<open>Closing\<close>

definition realise :: "rat \<Rightarrow> rat \<Rightarrow> (paper_state, unit) act" where
  "realise gross exit_fee =
     thenA (updateA (\<lambda>s. quantize_usdt (d_sub (d_add (ps_balance s) gross) exit_fee))
              (\<lambda>v s. s\<lparr>ps_balance := v\<rparr>))
    (thenA (updateA (\<lambda>s. quantize_usdt (d_sub (d_add (ps_realized_pnl s) gross) exit_fee))
              (\<lambda>v s. s\<lparr>ps_realized_pnl := v\<rparr>))
    (thenA (updateA (\<lambda>s. quantize_usdt (d_add (ps_total_fees s) exit_fee))
              (\<lambda>v s. s\<lparr>ps_total_fees := v\<rparr>))
    (thenA (updateA (session_value (\<lambda>x.
                quantize_usdt (d_sub (d_add (ms_realized_pnl x) gross) exit_fee)))
              (\<lambda>v. on_session (\<lambda>x. x\<lparr>ms_realized_pnl := v\<rparr>)))
    (thenA (updateA (session_value (\<lambda>x. quantize_usdt (d_add (ms_fees x) exit_fee)))
              (\<lambda>v. on_session (\<lambda>x. x\<lparr>ms_fees := v\<rparr>)))
    (modifyA (on_session (\<lambda>x. x\<lparr>ms_trades_closed := ms_trades_closed x + 1\<rparr>)))))))"

definition gross_pnl :: "mutable_position \<Rightarrow> rat \<Rightarrow> rat result" where
  "gross_pnl p exit_price =
     (let g = d_mul (d_sub exit_price (mp_entry_price p)) (mp_quantity p)
      in quantize_usdt (if \<not> is_long p then d_neg g else g))"

text \<open>The figures of a close: gross, exit fee and net.\<close>

definition close_figures ::
    "paper_config \<Rightarrow> mutable_position \<Rightarrow> rat \<Rightarrow> (rat \<times> rat \<times> rat) result" where
  "close_figures cfg p exit_price =
     bindE (gross_pnl p exit_price) (\<lambda>gross.
     bindE (quantize_usdt (d_mul (mp_quantity p) exit_price)) (\<lambda>exit_notional.
     bindE (bindE (d_div (d_mul exit_notional (pc_taker_fee_bps cfg)) BPS) quantize_usdt) (\<lambda>exit_fee.
     bindE (quantize_usdt (d_sub (d_sub gross exit_fee) (mp_entry_fee p))) (\<lambda>net.
     Inr (gross, exit_fee, net)))))"

definition return_percent :: "rat \<Rightarrow> rat \<Rightarrow> rat result" where
  "return_percent net margin =
     (if 0 < margin then bindE (d_div net margin) (\<lambda>x. quantize_usdt (d_mul x 100)) else Inr 0)"

definition append_trade :: "paper_config \<Rightarrow> paper_trade \<Rightarrow> paper_state \<Rightarrow> paper_state" where
  "append_trade cfg t s =
     (let ts = ps_trades s @ [t]
      in s\<lparr>ps_trades := drop (nat (max 0 (int (length ts) - pc_max_trade_log cfg))) ts\<rparr>)"

definition close_held ::
    "paper_config \<Rightarrow> mutable_position \<Rightarrow> mark_price \<Rightarrow> paper_exit_reason \<Rightarrow> timestamp \<Rightarrow>
     (paper_state, paper_trade) act" where
  "close_held cfg p mark reason now =
     bindA (liftA (fill_price mark (\<not> is_long p) (pc_slippage_bps cfg))) (\<lambda>(exit_price, _).
     bindA (liftA (close_figures cfg p exit_price)) (\<lambda>(gross, exit_fee, net).
     thenA (ensure_session cfg now)
    (thenA (realise gross exit_fee)
    (bindA next_sequence (\<lambda>n.
     bindA (liftA (quantize_usdt (d_add (mp_entry_fee p) exit_fee))) (\<lambda>fees.
     bindA (liftA (return_percent net (mp_margin p))) (\<lambda>percent.
     bindA (readA ps_balance) (\<lambda>balance.
     let trade =
       \<lparr>pt_trade_id = seq_id ''paper-trade-'' n, pt_symbol = mp_symbol p,
        pt_side = (if is_long p then LONG else SHORT), pt_quantity = mp_quantity p,
        pt_entry_price = mp_entry_price p, pt_exit_price = exit_price,
        pt_notional = mp_notional p, pt_margin = mp_margin p,
        pt_approved_leverage = mp_approved_leverage p, pt_opened_at = mp_opened_at p,
        pt_closed_at = now, pt_exit_reason = reason, pt_gross_pnl = gross, pt_fees = fees,
        pt_net_pnl = net, pt_return_percent = percent, pt_balance_after = balance\<rparr>
     in
     thenA (modifyA (append_trade cfg trade))
    (thenA (modifyA (\<lambda>s. s\<lparr>ps_positions := AList.delete (mp_symbol p) (ps_positions s)\<rparr>))
    (thenA (modifyA (\<lambda>s. s\<lparr>ps_updated_at := now\<rparr>))
    (thenA (modifyA (on_session (lock_session now)))
    (returnA trade))))))))))))"

text \<open>One symbol of a tick: mark it, widen its excursion, then exit or ratchet its trail.\<close>

definition unmark :: "mark_price option \<Rightarrow> mutable_position \<Rightarrow> mutable_position" where
  "unmark m p =
     p\<lparr>mp_mark_price := None,
       mp_mark_source := (case m of None \<Rightarrow> None | Some x \<Rightarrow> Some (Marked (mk_source x))),
       mp_mark_status := (case m of None \<Rightarrow> Some UNAVAILABLE | Some x \<Rightarrow> Some (mk_status x))\<rparr>"

definition mark_to :: "mark_price \<Rightarrow> rat \<Rightarrow> timestamp \<Rightarrow> mutable_position \<Rightarrow> mutable_position" where
  "mark_to m price now p =
     record_excursion price
       (p\<lparr>mp_mark_price := Some price, mp_mark_source := Some (Marked (mk_source m)),
          mp_mark_status := Some (mk_status m), mp_updated_at := now\<rparr>)"

definition put_position :: "string \<Rightarrow> mutable_position \<Rightarrow> paper_state \<Rightarrow> paper_state" where
  "put_position symbol p s = s\<lparr>ps_positions := AList.update symbol p (ps_positions s)\<rparr>"

definition tick_symbol ::
    "paper_config \<Rightarrow> timestamp \<Rightarrow> marks \<Rightarrow> string \<Rightarrow> (paper_state, paper_trade list) act" where
  "tick_symbol cfg now marks symbol =
     bindA (readA (\<lambda>s. map_of (ps_positions s) symbol)) (\<lambda>held.
     case held of
       None \<Rightarrow> returnA []
     | Some p \<Rightarrow>
         (case (case map_of marks symbol of
                  None \<Rightarrow> None
                | Some m \<Rightarrow> (case (if mark_trusted cfg m then mk_last_price m else None) of
                              None \<Rightarrow> None | Some price \<Rightarrow> Some (m, price))) of
            None \<Rightarrow> thenA (modifyA (put_position symbol (unmark (map_of marks symbol) p))) (returnA [])
          | Some (m, price) \<Rightarrow>
              let p1 = mark_to m price now p in
              thenA (modifyA (put_position symbol p1))
             (bindA (liftA (triggered_exit p1 price)) (\<lambda>exit.
              case exit of
                Some reason \<Rightarrow> bindA (close_held cfg p1 m reason now) (\<lambda>t. returnA [t])
              | None \<Rightarrow> thenA (modifyA (put_position symbol (advance_trail price p1))) (returnA [])))))"

fun tick_symbols ::
    "paper_config \<Rightarrow> timestamp \<Rightarrow> marks \<Rightarrow> string list \<Rightarrow> (paper_state, paper_trade list) act" where
  "tick_symbols cfg now marks [] = returnA []"
| "tick_symbols cfg now marks (x # xs) =
     bindA (tick_symbol cfg now marks x) (\<lambda>ts.
     bindA (tick_symbols cfg now marks xs) (\<lambda>us. returnA (ts @ us)))"

definition tick ::
    "paper_config \<Rightarrow> durability \<Rightarrow> timestamp \<Rightarrow> marks \<Rightarrow>
     (paper_state, paper_account \<times> paper_trade list) act" where
  "tick cfg dur now marks =
     thenA (ensure_session cfg now)
    (bindA (readA (\<lambda>s. keys_of (ps_positions s))) (\<lambda>symbols.
     bindA (tick_symbols cfg now marks symbols) (\<lambda>closed.
     thenA (modifyA (\<lambda>s. s\<lparr>ps_updated_at := now\<rparr>))
    (bindA (build_account cfg dur now marks) (\<lambda>account.
     returnA (account, closed))))))"

definition closing_request :: "string \<Rightarrow> mutable_position option \<Rightarrow> submit_order_request" where
  "closing_request symbol held =
     \<lparr>sr_symbol = symbol,
      sr_side = (case held of None \<Rightarrow> SELL | Some p \<Rightarrow> if is_long p then SELL else BUY),
      sr_quantity = None, sr_margin = None, sr_stop_loss_percent = None,
      sr_take_profit_percent = None, sr_trailing_stop_percent = None, sr_client_order_id = None,
      sr_strategy_context = None\<rparr>"

definition closing_order :: "nat \<Rightarrow> string \<Rightarrow> string \<Rightarrow> order_side \<Rightarrow> paper_trade \<Rightarrow> timestamp \<Rightarrow> paper_order"
where
  "closing_order n cid symbol side trade now =
     \<lparr>po_order_id = seq_id ''paper-order-'' n, po_client_order_id = cid, po_symbol = symbol,
      po_side = side, po_order_type = MARKET, po_state = FILLED, po_reduce_only = True,
      po_requested_quantity = pt_quantity trade, po_filled_quantity = pt_quantity trade,
      po_average_fill_price = Some (pt_exit_price trade), po_fills = [], po_leverage = None,
      po_created_at = now, po_updated_at = now, po_rejection_code = None,
      po_idempotent_replay = False\<rparr>"

definition close_position ::
    "paper_config \<Rightarrow> durability \<Rightarrow> string \<Rightarrow> timestamp \<Rightarrow> mark_price \<Rightarrow> paper_exit_reason \<Rightarrow> marks \<Rightarrow>
     (paper_state, paper_order_result) act" where
  "close_position cfg dur symbol now mark reason marks =
     thenA (ensure_session cfg now)
    (let key = upper symbol; all_marks = setdefault key mark marks in
     bindA (readA (\<lambda>s. map_of (ps_positions s) key)) (\<lambda>held.
     bindA next_sequence (\<lambda>n0.
     let cid = seq_id ''paper-close-'' n0; req = closing_request key held in
     case held of
       None \<Rightarrow> reject cfg dur key req cid POSITION_SIZE now all_marks None True [] None
     | Some p \<Rightarrow>
     (case price_problem cfg mark of
       Some code \<Rightarrow> reject cfg dur key req cid code now all_marks None True [] None
     | None \<Rightarrow>
     bindA (close_held cfg p mark reason now) (\<lambda>trade.
     bindA next_sequence (\<lambda>n.
     bindA (liftA (construct paper_order_valid
              (closing_order n cid key (sr_side req) trade now))) (\<lambda>o'.
     thenA (modifyA (file_order cfg o'))
    (thenA (modifyA (\<lambda>s. s\<lparr>ps_updated_at := now\<rparr>))
    (bindA (build_account cfg dur now all_marks) (\<lambda>account.
     returnA (result_of True o' None (Some trade) [] None account)))))))))))"

subsection \<open>The account as a whole\<close>

definition snapshot ::
    "paper_config \<Rightarrow> durability \<Rightarrow> timestamp \<Rightarrow> marks \<Rightarrow> (paper_state, paper_account) act" where
  "snapshot cfg dur now marks = thenA (ensure_session cfg now) (build_account cfg dur now marks)"

definition reset_account ::
    "paper_config \<Rightarrow> durability \<Rightarrow> timestamp \<Rightarrow> rat option \<Rightarrow> (paper_state, paper_account) act" where
  "reset_account cfg dur now starting_balance =
     thenA (modifyA (\<lambda>_. fresh_state
       (case starting_balance of None \<Rightarrow> pc_starting_balance cfg | Some b \<Rightarrow> b) now))
    (thenA (ensure_session cfg now) (build_account cfg dur now []))"

definition set_emergency_stop ::
    "paper_config \<Rightarrow> durability \<Rightarrow> bool \<Rightarrow> timestamp \<Rightarrow> (paper_state, paper_account) act" where
  "set_emergency_stop cfg dur engaged now =
     thenA (ensure_session cfg now)
    (thenA (modifyA (\<lambda>s. s\<lparr>ps_emergency_stopped := engaged, ps_updated_at := now\<rparr>))
    (build_account cfg dur now []))"

definition open_symbols :: "paper_state \<Rightarrow> string list" where
  "open_symbols s = keys_of (ps_positions s)"

end
