(* ===== verification/PaperFrame.thy ===== *)
theory PaperFrame
  imports PaperTrading
begin

section \<open>What the paper operations keep\<close>

text \<open>
  The contract between an invariant of the account and the engine's operations. An invariant has to
  survive the primitive changes (filing an order, charging a fee, storing a position, marking it,
  realising a result, dropping the position); then every operation keeps it. The locale has a second
  predicate \<open>Q\<close>, which may be weaker: what holds right after an amount was realised.
\<close>

subsection \<open>Bookkeeping\<close>

text \<open>Two states with the same money, positions and orders.\<close>

definition same_book :: "paper_state \<Rightarrow> paper_state \<Rightarrow> bool" where
  "same_book s t \<longleftrightarrow>
     ps_starting_balance t = ps_starting_balance s \<and> ps_balance t = ps_balance s \<and>
     ps_realized_pnl t = ps_realized_pnl s \<and> ps_positions t = ps_positions s \<and>
     ps_order_log t = ps_order_log s \<and> ps_orders_by_client_id t = ps_orders_by_client_id s"

named_theorems book_simps "changes that touch no amount, position or order"

lemma same_book_refl [book_simps]: "same_book s s"
  by (simp add: same_book_def)

lemma on_session_book [book_simps]: "same_book s (on_session f s)"
  by (simp add: same_book_def on_session_def)

lemma append_trade_book [book_simps]: "same_book s (append_trade cfg t s)"
  by (simp add: same_book_def append_trade_def Let_def)

lemma update_book [book_simps]:
  "same_book s (s\<lparr>ps_updated_at := t\<rparr>)" "same_book s (s\<lparr>ps_session := x\<rparr>)"
  "same_book s (s\<lparr>ps_sequence := n\<rparr>)" "same_book s (s\<lparr>ps_total_fees := v\<rparr>)"
  "same_book s (s\<lparr>ps_emergency_stopped := b, ps_updated_at := t\<rparr>)"
  by (simp_all add: same_book_def)

lemma charge_positions: "ps_positions (fst (charge_entry_fee fee s)) = ps_positions s"
  by (simp add: charge_entry_fee_def thenA_def bindA_def act_run on_session_def
      split: sum.splits prod.splits)

text \<open>What the entry gate establishes about the positions.\<close>

definition may_open :: "paper_config \<Rightarrow> string \<Rightarrow> rat \<Rightarrow> paper_state \<Rightarrow> bool" where
  "may_open cfg symbol notional s \<longleftrightarrow>
     map_of (ps_positions s) symbol = None \<and>
     int (length (ps_positions s)) < pc_max_open_positions cfg \<and>
     d_add (exposure s) notional \<le> pc_max_portfolio_exposure cfg"

definition fresh_position :: "string \<Rightarrow> mutable_position \<Rightarrow> bool" where
  "fresh_position symbol p \<longleftrightarrow>
     mp_symbol p = symbol \<and> 0 < mp_quantity p \<and> 0 < mp_entry_price p \<and> 0 < mp_notional p \<and>
     mp_best_price p = Some (mp_entry_price p) \<and> mp_worst_price p = Some (mp_entry_price p) \<and>
     mp_mark_price p = Some (mp_entry_price p) \<and>
     mp_trail_extreme p =
       (if mp_trailing_stop_percent p = None then None else Some (mp_entry_price p))"

lemma check_entry_None:
  assumes "check_entry cfg en symbol q n m st age lev bal s = None"
  shows "may_open cfg symbol n s" and "0 < q" and "0 < n" and "n \<le> pc_max_position_notional cfg"
    and "m \<le> bal" and "check_authority en s = None"
    and "check_market_data st age (pc_max_data_age_seconds cfg) = None"
  using assms
  by (auto simp: check_entry_def may_open_def not_le not_less split: option.splits if_splits)

lemma may_open_positions:
  "ps_positions t = ps_positions s \<Longrightarrow> may_open cfg symbol n t = may_open cfg symbol n s"
  by (simp add: may_open_def exposure_def)

lemma opened_position_fresh:
  "0 < q \<Longrightarrow> 0 < price \<Longrightarrow> 0 < n \<Longrightarrow>
   fresh_position symbol (opened_position req symbol price source q n m lev fee stop target liq th k oid now)"
  by (simp add: fresh_position_def opened_position_def)

lemma price_of_notional:
  assumes "quantize_usdt (d_mul q price) = Inr n" and "0 < q" and "0 < n"
  shows "0 < price"
proof (rule ccontr)
  assume "\<not> 0 < price"
  with assms(2) have "q * price \<le> 0" by (simp add: mult_nonneg_nonpos)
  then have "d_mul q price \<le> 0" by (simp add: d_mul_def)
  moreover have "quantize_usdt 0 = Inr 0" using quantize_usdt_exact [of 0] by simp
  ultimately have "n \<le> 0" using quantize_usdt_mono [OF assms(1)] by simp
  with assms(3) show False by simp
qed

lemma size_order_sized:
  assumes "size_order cfg req mark filters approved = Inr (Inr (price, source, q, n, m))"
  shows "quantize_usdt (d_mul q price) = Inr n" and "bindE (d_div n approved) quantize_usdt = Inr m"
    and "fill_price mark (sr_side req = BUY) (pc_slippage_bps cfg) = Inr (price, source)"
    and "resolve_quantity req price approved filters = Inr (q, None)"
  using assms
  by (auto simp: size_order_def result_simps split: prod.splits option.splits if_splits)

subsection \<open>General rules\<close>

lemma triple_keeps: "keeps X P m \<Longrightarrow> (\<And>s. P s \<Longrightarrow> Q s) \<Longrightarrow> triple X P m (\<lambda>_. Q) Q"
  unfolding keeps_def by (erule triple_weaken) simp_all

lemma triple_read_bind:
  assumes "\<And>x. triple X (\<lambda>s. P s \<and> f s = x) (k x) R E"
  shows "triple X P (bindA (readA f) k) R E"
  by (rule triple_bind [where Q = "\<lambda>x s. P s \<and> f s = x"]) (rule triple_read, simp, rule assms)

lemma triple_pre: "(\<And>s. P' s \<Longrightarrow> P s) \<Longrightarrow> triple X P m Q E \<Longrightarrow> triple X P' m Q E"
  by (simp add: triple_def)

lemma triple_guard:
  assumes "G \<Longrightarrow> triple X P m Q E"
  shows "triple X (\<lambda>s. P s \<and> G) m Q E"
  using assms by (cases G) (simp_all add: triple_def)

lemma triple_lift:
  assumes "\<And>x. r = Inr x \<Longrightarrow> triple X P (k x) Q E" and "\<And>s. P s \<Longrightarrow> E s"
  shows "triple X P (bindA (liftA r) k) Q E"
proof (cases r)
  case (Inl e)
  then show ?thesis using assms(2) by (simp add: bindA_liftA triple_def raiseA_def)
next
  case (Inr x)
  with assms(1) show ?thesis by (simp add: bindA_liftA)
qed

lemma triple_lift2:
  assumes "\<And>x y. r = Inr (x, y) \<Longrightarrow> triple X P (k x y) Q E" and "\<And>s. P s \<Longrightarrow> E s"
  shows "triple X P (bindA (liftA r) (\<lambda>(x, y). k x y)) Q E"
  using assms by (intro triple_lift) (auto split: prod.splits)

lemma triple_lift3:
  assumes "\<And>x y z. r = Inr (x, y, z) \<Longrightarrow> triple X P (k x y z) Q E" and "\<And>s. P s \<Longrightarrow> E s"
  shows "triple X P (bindA (liftA r) (\<lambda>(x, y, z). k x y z)) Q E"
  using assms by (intro triple_lift) (auto split: prod.splits)

lemma keeps_triple: "keeps X P m \<Longrightarrow> (\<And>s. P s \<Longrightarrow> E s) \<Longrightarrow> triple X P m (\<lambda>_. P) E"
  unfolding keeps_def by (erule triple_weaken) simp_all

lemma keeps_then_triple:
  assumes "keeps X P m" and "triple X P k R E" and "\<And>s. P s \<Longrightarrow> E s"
  shows "triple X P (thenA m k) R E"
  by (rule triple_then [OF keeps_triple [OF assms(1,3)] assms(2)])

lemma keeps_bind_triple:
  assumes "keeps X P m" and "\<And>x. triple X P (k x) R E" and "\<And>s. P s \<Longrightarrow> E s"
  shows "triple X P (bindA m k) R E"
  by (rule triple_bind [OF keeps_triple [OF assms(1,3)] assms(2)])

lemma keeps_frame:
  assumes "keeps X P m" and "\<And>s. R (fst (m s)) = R s"
  shows "triple X (\<lambda>s. P s \<and> R s) m (\<lambda>_ s. P s \<and> R s) P"
proof (rule tripleI)
  fix s
  assume pre: "P s \<and> R s"
  obtain t r where run: "m s = (t, r)" by (cases "m s")
  have frame: "R t" using assms(2) [of s] pre run by simp
  have keep: "triple X P m (\<lambda>_. P) P" using assms(1) by (simp only: keeps_def)
  show "case m s of (s', Inr x) \<Rightarrow> P s' \<and> R s' | (s', Inl e) \<Rightarrow> e \<in> X \<or> P s'"
  proof (cases r)
    case (Inl e)
    then show ?thesis using triple_Inl [OF keep, of s t e] pre run by (cases "e \<in> X") simp_all
  next
    case (Inr x)
    then show ?thesis using triple_Inr [OF keep, of s t x] pre run frame by simp
  qed
qed

subsection \<open>The contract\<close>

locale book_invariant =
  fixes P :: "paper_state \<Rightarrow> bool"
  assumes quiet: "same_book s t \<Longrightarrow> P s \<Longrightarrow> P t"
    and filed: "P s \<Longrightarrow> P (file_order cfg o' s)"
begin

lemma keeps_quiet: "(\<And>s. same_book s (f s)) \<Longrightarrow> keeps X P (modifyA f)"
  using quiet by (intro keeps_modify) blast

lemma keeps_file [keep_rules]: "keeps X P (modifyA (file_order cfg o'))"
  by (rule keeps_modify) (rule filed)

lemma keeps_sequence [keep_rules]: "keeps X P next_sequence"
  by (simp add: keeps_def triple_def next_sequence_def quiet [OF update_book(3)])

lemma keeps_session [keep_rules]: "keeps X P (ensure_session cfg now)"
  by (simp add: keeps_def triple_def ensure_session_def quiet [OF update_book(2)])

lemma keeps_client_id [keep_rules]: "keeps X P (client_id_of g)"
  unfolding client_id_of_def by (intro keep_rules)

lemma keeps_build_account [keep_rules]: "keeps X P (build_account cfg dur now marks)"
  unfolding build_account_def by (intro keep_rules)

lemma keeps_reject [keep_rules]:
  "keeps X P (reject cfg dur symbol req cid code now marks lev ro checks rmax)"
  unfolding reject_def by (intro keep_rules keeps_quiet book_simps)

lemma keeps_refuse [keep_rules]: "keeps X P (refuse_order cfg dur req now code lev marks checks rmax)"
  unfolding refuse_order_def by (intro keep_rules)

lemma keeps_replay_outcome [keep_rules]: "keeps X P (replay_outcome cfg dur now marks symbol o')"
  unfolding replay_outcome_def by (intro keep_rules)

lemma keeps_replay [keep_rules]: "keeps X P (replay cfg dur cid now marks)"
  unfolding replay_def by (intro keep_rules)

lemma keeps_snapshot [keep_rules]: "keeps X P (snapshot cfg dur now marks)"
  unfolding snapshot_def by (intro keep_rules)

lemma keeps_emergency_stop [keep_rules]: "keeps X P (set_emergency_stop cfg dur b now)"
  unfolding set_emergency_stop_def by (intro keep_rules keeps_quiet book_simps)

text \<open>The end of every filled order.\<close>

lemma keeps_stamp [keep_rules]: "keeps X P (modifyA (\<lambda>s. s\<lparr>ps_updated_at := now\<rparr>))"
  by (rule keeps_quiet) (rule book_simps)

end

locale account_invariant = before: book_invariant P + after: book_invariant Q
    for P Q :: "paper_state \<Rightarrow> bool" +
  fixes X :: "py_error set" and cfg :: paper_config
  assumes weaken: "P s \<Longrightarrow> Q s"
    and charged: "on_grid 8 fee \<Longrightarrow> keeps X P (charge_entry_fee fee)"
    and opened: "P s \<Longrightarrow> may_open cfg symbol (mp_notional p) s \<Longrightarrow> fresh_position symbol p \<Longrightarrow>
      P (put_position symbol p s)"
    and unmarked: "P s \<Longrightarrow> map_of (ps_positions s) k = Some p \<Longrightarrow> P (put_position k (unmark m p) s)"
    and marked: "P s \<Longrightarrow> map_of (ps_positions s) k = Some p \<Longrightarrow>
      P (put_position k (mark_to x price now p) s)"
    and trailed: "P s \<Longrightarrow> map_of (ps_positions s) k = Some (mark_to x price now p) \<Longrightarrow>
      P (put_position k (advance_trail price (mark_to x price now p)) s)"
    and realised: "close_figures cfg p price = Inr (gross, fee, net) \<Longrightarrow>
      triple X P (realise gross fee) (\<lambda>_. Q) Q"
    and dropped: "Q s \<Longrightarrow> Q (s\<lparr>ps_positions := AList.delete k (ps_positions s)\<rparr>)"
    and renewed: "P s \<Longrightarrow> on_grid 8 b \<Longrightarrow> P (fresh_state b now)"
begin

lemma charge_slot:
  assumes "on_grid 8 fee"
  shows "triple X (\<lambda>s. P s \<and> may_open cfg symbol n s) (charge_entry_fee fee)
    (\<lambda>_ s. P s \<and> may_open cfg symbol n s) P"
proof (rule keeps_frame [OF charged [OF assms]])
  show "may_open cfg symbol n (fst (charge_entry_fee fee s)) = may_open cfg symbol n s" for s
    by (rule may_open_positions) (rule charge_positions)
qed

text \<open>Opening: the gate's facts hold until the position is stored.\<close>

lemma open_keeps:
  assumes "0 < q" and "0 < price" and "0 < n"
  shows "triple X (\<lambda>s. P s \<and> may_open cfg symbol n s)
    (open_position cfg dur req symbol cid price source age q n m lev now marks checks rmax)
    (\<lambda>_. P) P"
proof -
  let ?R = "\<lambda>s. P s \<and> may_open cfg symbol n s"
  have fee: "on_grid 8 f"
    if "bindE (d_div (d_mul n (pc_taker_fee_bps cfg)) BPS) quantize_usdt = Inr f" for f
    using that by (auto simp: result_simps dest: quantize_usdt_grid)
  have quiet: "?R t" if "same_book s t" "?R s" for s t
    using that before.quiet may_open_positions [of t s] by (simp add: same_book_def)
  have R: "?R s \<Longrightarrow> P s" for s by simp
  have session: "keeps X ?R (ensure_session cfg now)"
    using quiet [OF update_book(2)] by (simp add: keeps_def triple_def ensure_session_def)
  have seq: "keeps X ?R next_sequence"
    using quiet [OF update_book(3)] by (simp add: keeps_def triple_def next_sequence_def)
  have put: "triple X ?R (modifyA (\<lambda>s. s\<lparr>ps_positions := AList.update symbol p (ps_positions s)\<rparr>))
      (\<lambda>_. P) P" if "fresh_position symbol p" "mp_notional p = n" for p
    using opened that by (intro triple_modify) (simp add: put_position_def)
  have fresh: "fresh_position symbol
        (opened_position req symbol price source q n m a f st tg lq th k oid now)"
      "mp_notional (opened_position req symbol price source q n m a f st tg lq th k oid now) = n"
    for a f st tg lq th k oid
    by (rule opened_position_fresh [OF assms]) (simp add: opened_position_def)
  note lift = triple_lift [OF _ R]
  show ?thesis
    unfolding open_position_def
  proof (cases "ld_approved lev", goal_cases)
    case 1
    then show ?case by (simp add: triple_def raiseA_def)
  next
    case (2 approved)
    show ?case
      unfolding 2 option.case Let_def
      by (intro lift keeps_then_triple [OF session _ R] triple_then [OF charge_slot [OF fee]]
          keeps_bind_triple [OF seq _ R] triple_then [OF put [OF fresh]]; assumption?)
        (unfold keeps_def [symmetric], intro keep_rules)
  qed
qed

lemma submit_keeps:
  "keeps X P (submit_order cfg dur req now mark filters lev en marks checks rmax)"
proof -
  have gate: "triple X P
      (bindA (readA (\<lambda>s. check_entry cfg en symbol q n m st age lev (available_balance s) s)) (\<lambda>gate.
       case gate of
         Some code \<Rightarrow> reject cfg dur symbol req cid code now mk (Some lev) False checks rmax
       | None \<Rightarrow> open_position cfg dur req symbol cid price source age q n m lev now mk checks rmax))
      (\<lambda>_. P) P"
    if sized: "size_order cfg req mark filters approved = Inr (Inr (price, source, q, n, m))"
    for symbol cid mk price source q n m approved st age
  proof (rule triple_read_bind)
    fix x
    show "triple X (\<lambda>s. P s \<and> check_entry cfg en symbol q n m st age lev (available_balance s) s = x)
      (case x of
         Some code \<Rightarrow> reject cfg dur symbol req cid code now mk (Some lev) False checks rmax
       | None \<Rightarrow> open_position cfg dur req symbol cid price source age q n m lev now mk checks rmax)
      (\<lambda>_. P) P"
    proof (cases x)
      case None
      have "triple X (\<lambda>s. (P s \<and> may_open cfg symbol n s) \<and> 0 < q \<and> 0 < n)
          (open_position cfg dur req symbol cid price source age q n m lev now mk checks rmax) (\<lambda>_. P) P"
        by (rule triple_guard) (use price_of_notional [OF size_order_sized(1) [OF sized]] in
          \<open>auto intro: open_keeps\<close>)
      then show ?thesis unfolding None option.case
        by (rule triple_pre [rotated]) (auto dest: check_entry_None)
    next
      case (Some code)
      show ?thesis unfolding Some option.case
        by (rule triple_pre [of _ P, OF _ before.keeps_reject [unfolded keeps_def]]) simp
    qed
  qed
  have sizing: "keeps X P (bindA (liftA (size_order cfg req mark filters approved)) (\<lambda>sized.
      case sized of
        Inl code \<Rightarrow> reject cfg dur symbol req cid code now mk (Some lev) False checks rmax
      | Inr (price, source, q, n, m) \<Rightarrow>
          bindA (readA (\<lambda>s. check_entry cfg en symbol q n m st age lev (available_balance s) s)) (\<lambda>gate.
          case gate of
            Some code \<Rightarrow> reject cfg dur symbol req cid code now mk (Some lev) False checks rmax
          | None \<Rightarrow> open_position cfg dur req symbol cid price source age q n m lev now mk checks rmax)))"
    for approved symbol cid mk st age
  proof (rule keeps_bind_lift)
    fix sized
    assume "size_order cfg req mark filters approved = Inr sized"
    then show "keeps X P (case sized of
        Inl code \<Rightarrow> reject cfg dur symbol req cid code now mk (Some lev) False checks rmax
      | Inr (price, source, q, n, m) \<Rightarrow>
          bindA (readA (\<lambda>s. check_entry cfg en symbol q n m st age lev (available_balance s) s)) (\<lambda>gate.
          case gate of
            Some code \<Rightarrow> reject cfg dur symbol req cid code now mk (Some lev) False checks rmax
          | None \<Rightarrow> open_position cfg dur req symbol cid price source age q n m lev now mk checks rmax))"
      using gate by (cases sized) (auto simp: keeps_def intro: before.keeps_reject [unfolded keeps_def])
  qed
  show ?thesis
    unfolding submit_order_def
    by (rule sizing keep_rules)+
qed

text \<open>Closing: what holds before, and the weaker predicate after.\<close>

lemma after_then: "keeps X Q m \<Longrightarrow> triple X Q m (\<lambda>_. Q) Q"
  by (simp only: keeps_def)

lemma close_held_keeps: "triple X P (close_held cfg p mark reason now) (\<lambda>_. Q) Q"
proof -
  have drop: "keeps X Q (modifyA (\<lambda>s. s\<lparr>ps_positions := AList.delete k (ps_positions s)\<rparr>))" for k
    by (rule keeps_modify) (rule dropped)
  have book: "keeps X Q (bindA next_sequence (\<lambda>n.
      bindA (liftA (quantize_usdt (d_add (mp_entry_fee p) exit_fee))) (\<lambda>fees.
      bindA (liftA (return_percent net (mp_margin p))) (\<lambda>percent.
      bindA (readA ps_balance) (\<lambda>balance.
      let trade = k n fees percent balance in
      thenA (modifyA (append_trade cfg trade))
     (thenA (modifyA (\<lambda>s. s\<lparr>ps_positions := AList.delete (mp_symbol p) (ps_positions s)\<rparr>))
     (thenA (modifyA (\<lambda>s. s\<lparr>ps_updated_at := now\<rparr>))
     (thenA (modifyA (on_session (lock_session now))) (returnA trade)))))))))"
    for exit_fee net k
    by (intro keep_rules drop after.keeps_quiet book_simps)
  show ?thesis
    unfolding close_held_def
    by (intro triple_lift2 triple_lift3 weaken keeps_then_triple [OF before.keeps_session]
        triple_then [OF realised] book [unfolded keeps_def]) assumption
qed

lemma tick_symbol_keeps: "triple X P (tick_symbol cfg now marks symbol) (\<lambda>_. Q) Q"
proof -
  have unmark: "triple X (\<lambda>s. P s \<and> map_of (ps_positions s) symbol = Some p)
      (thenA (modifyA (put_position symbol (unmark m p))) (returnA [])) (\<lambda>_. Q) Q" for m p
    by (rule triple_then [where Q = P]) (auto intro!: triple_modify triple_return unmarked weaken)
  have manage: "triple X (\<lambda>s. P s \<and> map_of (ps_positions s) symbol = Some p)
      (thenA (modifyA (put_position symbol p1))
        (bindA (liftA (triggered_exit p1 price)) (\<lambda>exit. case exit of
             Some reason \<Rightarrow> bindA (close_held cfg p1 m reason now) (\<lambda>t. returnA [t])
           | None \<Rightarrow> thenA (modifyA (put_position symbol (advance_trail price p1))) (returnA []))))
      (\<lambda>_. Q) Q" if p1: "p1 = mark_to m price now p" for p p1 m price
  proof (rule triple_then [where Q = "\<lambda>s. P s \<and> map_of (ps_positions s) symbol = Some p1"])
    show "triple X (\<lambda>s. P s \<and> map_of (ps_positions s) symbol = Some p)
        (modifyA (put_position symbol p1)) (\<lambda>_ s. P s \<and> map_of (ps_positions s) symbol = Some p1) Q"
      unfolding p1 by (rule triple_modify, elim conjE, rule conjI, erule (1) marked)
        (simp add: put_position_def dict_simps)
    show "triple X (\<lambda>s. P s \<and> map_of (ps_positions s) symbol = Some p1)
        (bindA (liftA (triggered_exit p1 price)) (\<lambda>exit. case exit of
             Some reason \<Rightarrow> bindA (close_held cfg p1 m reason now) (\<lambda>t. returnA [t])
           | None \<Rightarrow> thenA (modifyA (put_position symbol (advance_trail price p1))) (returnA [])))
        (\<lambda>_. Q) Q"
    proof (rule triple_lift)
      fix exit
      show "triple X (\<lambda>s. P s \<and> map_of (ps_positions s) symbol = Some p1)
          (case exit of
             Some reason \<Rightarrow> bindA (close_held cfg p1 m reason now) (\<lambda>t. returnA [t])
           | None \<Rightarrow> thenA (modifyA (put_position symbol (advance_trail price p1))) (returnA []))
          (\<lambda>_. Q) Q"
      proof (cases exit)
        case None
        show ?thesis unfolding None option.case p1
          by (rule triple_then [where Q = P]) (auto intro!: triple_modify triple_return trailed weaken)
      next
        case (Some reason)
        show ?thesis unfolding Some option.case
          by (rule triple_pre [of _ P], simp, rule triple_bind [OF close_held_keeps])
            (rule triple_return, assumption)
      qed
    qed (simp add: weaken)
  qed
  show ?thesis
    unfolding tick_symbol_def
  proof (rule triple_read_bind, goal_cases)
    case (1 held)
    show ?case
    proof (cases held)
      case None
      show ?thesis unfolding None option.case by (rule triple_return) (simp add: weaken)
    next
      case (Some p)
      show ?thesis unfolding Some option.case Let_def
        by (cases "map_of marks symbol") (auto split: option.splits intro!: unmark manage)
    qed
  qed
qed

lemma close_position_keeps: "triple X P (close_position cfg dur symbol now mark reason marks) (\<lambda>_. Q) Q"
proof -
  have rejected: "triple X P (reject cfg dur key req cid code now mk lev ro checks rmax) (\<lambda>_. Q) Q"
    for key req cid code mk lev ro checks rmax
    using before.keeps_reject weaken by (rule triple_keeps)
  have filed: "keeps X Q (bindA next_sequence (\<lambda>n.
      bindA (liftA (construct paper_order_valid (closing_order n cid key side trade now))) (\<lambda>o'.
      thenA (modifyA (file_order cfg o'))
     (thenA (modifyA (\<lambda>s. s\<lparr>ps_updated_at := now\<rparr>))
     (bindA (build_account cfg dur now mk) (\<lambda>account.
      returnA (result_of True o' None (Some trade) [] None account)))))))" for cid key side trade mk
    by (intro keep_rules)
  have closed: "triple X P (bindA (close_held cfg p mark reason now) (\<lambda>trade.
      bindA next_sequence (\<lambda>n.
      bindA (liftA (construct paper_order_valid (closing_order n cid key side trade now))) (\<lambda>o'.
      thenA (modifyA (file_order cfg o'))
     (thenA (modifyA (\<lambda>s. s\<lparr>ps_updated_at := now\<rparr>))
     (bindA (build_account cfg dur now mk) (\<lambda>account.
      returnA (result_of True o' None (Some trade) [] None account))))))))
      (\<lambda>_. Q) Q" for p cid key side mk
    by (rule triple_bind [OF close_held_keeps filed [unfolded keeps_def]])
  have gate: "triple X P (case c of None \<Rightarrow> a | Some x \<Rightarrow> f x) (\<lambda>_. Q) Q"
    if "triple X P a (\<lambda>_. Q) Q" and "\<And>x. triple X P (f x) (\<lambda>_. Q) Q"
    for c :: "'z option" and a and f :: "'z \<Rightarrow> (paper_state, paper_order_result) act"
    using that by (cases c) simp_all
  show ?thesis
    unfolding close_position_def Let_def
    by (intro keeps_then_triple [OF before.keeps_session] keeps_bind_triple [OF keeps_read]
        keeps_bind_triple [OF before.keeps_sequence] gate rejected closed weaken)
qed

end

end
