(* ===== verification/PaperHistory.thy ===== *)
theory PaperHistory
  imports PaperFrame
begin

section \<open>Histories of the paper account\<close>

text \<open>
  One step is one call of the engine, except that a tick is taken apart into its own pieces: the
  session it ensures, the positions it manages one after the other, and the final time stamp. A step
  may end in an exception that is not in \<open>X\<close>; what was assigned before it stays. \<open>M\<close> is what every
  state of a run satisfies.
\<close>

inductive paper_step ::
    "py_error set \<Rightarrow> paper_config \<Rightarrow> durability \<Rightarrow> paper_state \<Rightarrow> paper_state \<Rightarrow> bool"
  for X cfg dur where
  Submitted: "submit_order cfg dur req now mark filters lev en marks checks rmax s = (t, r) \<Longrightarrow>
    r \<notin> Inl ` X \<Longrightarrow> paper_step X cfg dur s t"
| Refused: "refuse_order cfg dur req now code lev marks checks rmax s = (t, r) \<Longrightarrow>
    r \<notin> Inl ` X \<Longrightarrow> paper_step X cfg dur s t"
| Replayed: "replay cfg dur cid now marks s = (t, r') \<Longrightarrow> r' \<notin> Inl ` X \<Longrightarrow> paper_step X cfg dur s t"
| Closed: "close_position cfg dur symbol now mark reason marks s = (t, r) \<Longrightarrow>
    r \<notin> Inl ` X \<Longrightarrow> paper_step X cfg dur s t"
| Shown: "snapshot cfg dur now marks s = (t, a) \<Longrightarrow> a \<notin> Inl ` X \<Longrightarrow> paper_step X cfg dur s t"
| Stopped: "set_emergency_stop cfg dur engaged now s = (t, a) \<Longrightarrow> a \<notin> Inl ` X \<Longrightarrow>
    paper_step X cfg dur s t"
| Reset: "on_grid 8 (case b of None \<Rightarrow> pc_starting_balance cfg | Some v \<Rightarrow> v) \<Longrightarrow>
    reset_account cfg dur now b s = (t, a) \<Longrightarrow> a \<notin> Inl ` X \<Longrightarrow> paper_step X cfg dur s t"
| Day: "ensure_session cfg now s = (t, x) \<Longrightarrow> paper_step X cfg dur s t"
| Viewed: "build_account cfg dur now marks s = (t, a) \<Longrightarrow> a \<notin> Inl ` X \<Longrightarrow> paper_step X cfg dur s t"
| Managed: "tick_symbol cfg now marks symbol s = (t, ts) \<Longrightarrow> ts \<notin> Inl ` X \<Longrightarrow> paper_step X cfg dur s t"
| Stamped: "paper_step X cfg dur s (s\<lparr>ps_updated_at := now\<rparr>)"

inductive paper_run ::
    "py_error set \<Rightarrow> (paper_state \<Rightarrow> bool) \<Rightarrow> paper_config \<Rightarrow> durability \<Rightarrow> paper_state \<Rightarrow> paper_state \<Rightarrow> bool"
  for X M cfg dur where
  Start: "paper_run X M cfg dur s s"
| Step: "paper_run X M cfg dur s t \<Longrightarrow> paper_step X cfg dur t u \<Longrightarrow> M u \<Longrightarrow> paper_run X M cfg dur s u"

lemma run_one: "paper_step X cfg dur s t \<Longrightarrow> paper_run X (\<lambda>_. True) cfg dur s t"
  by (rule Step [OF Start]) simp_all

lemma run_trans:
  assumes "paper_run X M cfg dur s t" and "paper_run X M cfg dur t u"
  shows "paper_run X M cfg dur s u"
  using assms(2,1) by (induction rule: paper_run.induct) (auto intro: Step)

subsection \<open>A tick is a run\<close>

lemma bind_run:
  assumes "bindA m f s = (t, r)" and "r \<notin> Inl ` X"
  obtains (raised) e where "m s = (t, Inl e)" and "e \<notin> X"
  | (went) x s1 where "m s = (s1, Inr x)" and "f x s1 = (t, r)"
  using assms by (cases "m s", cases "snd (m s)") (auto simp: bindA_def)

lemma tick_symbols_run:
  "tick_symbols cfg now marks symbols s = (t, r) \<Longrightarrow> r \<notin> Inl ` X \<Longrightarrow>
   paper_run X (\<lambda>_. True) cfg dur s t"
proof (induction symbols arbitrary: s t r)
  case Nil
  then show ?case by (auto simp: returnA_def intro: Start)
next
  case (Cons x xs)
  from Cons.prems show ?case
    unfolding tick_symbols.simps
  proof (cases rule: bind_run)
    case (raised e)
    then show ?thesis by (intro run_one Managed [of cfg now marks x s t "Inl e"]) auto
  next
    case (went ts s1)
    have step: "paper_run X (\<lambda>_. True) cfg dur s s1"
      by (rule run_one, rule Managed [OF went(1)]) auto
    from went(2) Cons.prems(2) show ?thesis
    proof (cases rule: bind_run)
      case (raised e)
      then have "paper_run X (\<lambda>_. True) cfg dur s1 t" by (intro Cons.IH) auto
      with step show ?thesis by (rule run_trans)
    next
      case (went us s2)
      then have "paper_run X (\<lambda>_. True) cfg dur s1 s2" by (intro Cons.IH) auto
      moreover have "s2 = t" using went(2) by (simp add: returnA_def)
      ultimately show ?thesis using step run_trans by blast
    qed
  qed
qed


lemma then_session:
  "thenA (ensure_session cfg now) k s = k (s\<lparr>ps_session := Some (ensured_session cfg now s)\<rparr>)"
  by (simp add: thenA_def bindA_def ensure_session_def)

lemma bind_read: "bindA (readA f) k s = k (f s) s"
  by (simp add: bindA_def readA_def)

lemma then_modify: "thenA (modifyA f) k s = k (f s)"
  by (simp add: thenA_def bindA_def modifyA_def)

lemma tick_run:
  assumes "tick cfg dur now marks s = (t, r)" and "r \<notin> Inl ` X"
  shows "paper_run X (\<lambda>_. True) cfg dur s t"
proof -
  define s0 where "s0 = s\<lparr>ps_session := Some (ensured_session cfg now s)\<rparr>"
  have day: "paper_run X (\<lambda>_. True) cfg dur s s0"
    by (rule run_one, rule Day [of cfg now _ _ "Inr (ensured_session cfg now s)"])
      (simp only: s0_def ensure_session_def)
  have "bindA (tick_symbols cfg now marks (keys_of (ps_positions s0))) (\<lambda>closed.
      thenA (modifyA (\<lambda>s. s\<lparr>ps_updated_at := now\<rparr>))
     (bindA (build_account cfg dur now marks) (\<lambda>account. returnA (account, closed)))) s0 = (t, r)"
    using assms(1) by (simp only: tick_def then_session bind_read s0_def)
  then show ?thesis using assms(2)
  proof (cases rule: bind_run)
    case (raised e)
    then have "paper_run X (\<lambda>_. True) cfg dur s0 t" by (intro tick_symbols_run) auto
    with day show ?thesis by (rule run_trans)
  next
    case (went closed s1)
    have "paper_run X (\<lambda>_. True) cfg dur s0 s1" by (rule tick_symbols_run [OF went(1)]) auto
    moreover have "paper_run X (\<lambda>_. True) cfg dur s1 (s1\<lparr>ps_updated_at := now\<rparr>)"
      by (rule run_one) (rule Stamped)
    ultimately have "paper_run X (\<lambda>_. True) cfg dur s0 (s1\<lparr>ps_updated_at := now\<rparr>)"
      by (rule run_trans)
    with day have run: "paper_run X (\<lambda>_. True) cfg dur s (s1\<lparr>ps_updated_at := now\<rparr>)"
      by (rule run_trans)
    have "bindA (build_account cfg dur now marks) (\<lambda>account. returnA (account, closed))
        (s1\<lparr>ps_updated_at := now\<rparr>) = (t, r)"
      using went(2) by (simp only: then_modify)
    then show ?thesis using assms(2)
    proof (cases rule: bind_run)
      case (raised e)
      then have "paper_step X cfg dur (s1\<lparr>ps_updated_at := now\<rparr>) t" by (intro Viewed) auto
      with run show ?thesis by (rule Step) simp
    next
      case (went account s2)
      then have "s2 = t" by (simp add: returnA_def)
      with went(1) have "paper_step X cfg dur (s1\<lparr>ps_updated_at := now\<rparr>) t" by (intro Viewed) auto
      with run show ?thesis by (rule Step) simp
    qed
  qed
qed

subsection \<open>Invariants along a run\<close>

context account_invariant
begin

lemma triple_end:
  assumes "triple X P m (\<lambda>_. R) R" and "P s" and "m s = (t, r)" and "r \<notin> Inl ` X"
  shows "R t"
  using triple_Inr [OF assms(1,2), of t] triple_Inl [OF assms(1,2), of t] assms(3,4)
  by (cases r) auto

lemma before_end:
  assumes "keeps X P m" and "P s" and "m s = (t, r)" and "r \<notin> Inl ` X"
  shows "Q t"
  using triple_end [OF assms(1) [unfolded keeps_def] assms(2-4)] by (rule weaken)

lemma reset_keeps:
  assumes "on_grid 8 (case b of None \<Rightarrow> pc_starting_balance cfg | Some v \<Rightarrow> v)"
  shows "keeps X P (reset_account cfg dur now b)"
  unfolding reset_account_def
  by (intro keep_rules keeps_modify renewed assms)

lemma step_after:
  assumes "paper_step X cfg dur s t" and "P s"
  shows "Q t"
  using assms
proof (cases rule: paper_step.cases)
  case Submitted
  then show ?thesis using before_end [OF submit_keeps] assms(2) by blast
next
  case Refused
  then show ?thesis using before_end [OF before.keeps_refuse] assms(2) by blast
next
  case Replayed
  then show ?thesis using before_end [OF before.keeps_replay] assms(2) by blast
next
  case Closed
  then show ?thesis using triple_end [OF close_position_keeps] assms(2) by blast
next
  case Shown
  then show ?thesis using before_end [OF before.keeps_snapshot] assms(2) by blast
next
  case Stopped
  then show ?thesis using before_end [OF before.keeps_emergency_stop] assms(2) by blast
next
  case (Reset b now a)
  then show ?thesis using before_end [OF reset_keeps] assms(2) by blast
next
  case (Day now x)
  then show ?thesis using before_end [OF before.keeps_session assms(2) Day]
    by (auto simp: ensure_session_def)
next
  case Viewed
  then show ?thesis using before_end [OF before.keeps_build_account] assms(2) by blast
next
  case Managed
  then show ?thesis using triple_end [OF tick_symbol_keeps] assms(2) by blast
next
  case (Stamped now)
  have "P (s\<lparr>ps_updated_at := now\<rparr>)" by (rule before.quiet [OF update_book(1) assms(2)])
  then show ?thesis unfolding Stamped by (rule weaken)
qed

lemma run_keeps:
  assumes "paper_run X M cfg dur s t" and "P s" and "\<And>u. Q u \<Longrightarrow> M u \<Longrightarrow> P u"
  shows "P t"
  using assms(1,2)
proof (induction rule: paper_run.induct)
  case Start
  then show ?case .
next
  case (Step s t u)
  then show ?case using step_after [OF Step.hyps(2)] assms(3) by blast
qed

end

end
