(* ===== verification/PaperLedger.thy ===== *)
theory PaperLedger
  imports PaperHistory
begin

section \<open>The paper ledger\<close>

text \<open>
  The invariant the engine's comments promise: the balance is the starting balance plus the
  realised PnL, at all times. Every amount is on the grid of eight decimals. Opening charges one
  rounded amount to both sides; closing adds two amounts, which is exact as long as the result is
  below \<open>8 * 10 ^ 19\<close> and the fee rate is at most 1000 basis points.
\<close>

definition on_books :: "paper_state \<Rightarrow> bool" where
  "on_books s \<longleftrightarrow>
     on_grid 8 (ps_starting_balance s) \<and> on_grid 8 (ps_balance s) \<and> on_grid 8 (ps_realized_pnl s)"

definition balanced :: "paper_state \<Rightarrow> bool" where
  "balanced s \<longleftrightarrow> ps_balance s = ps_starting_balance s + ps_realized_pnl s"

definition modest :: "paper_state \<Rightarrow> bool" where
  "modest s \<longleftrightarrow> \<bar>ps_balance s\<bar> < 8 * 10 ^ 19 \<and> \<bar>ps_realized_pnl s\<bar> < 8 * 10 ^ 19"

definition ledger_ok :: "paper_state \<Rightarrow> bool" where
  "ledger_ok s \<longleftrightarrow> on_books s \<and> balanced s"

abbreviation overflow :: "py_error set" where
  "overflow \<equiv> {InvalidOperation}"

subsection \<open>Arithmetic\<close>

lemma ctx_round_abs: "ctx_round \<bar>x\<bar> = \<bar>ctx_round x\<bar>"
proof (cases "0 \<le> x")
  case True
  then show ?thesis using ctx_round_ge [of 0 x] by simp
next
  case False
  then show ?thesis using ctx_round_neg [of x] by (simp add: ctx_round_minus)
qed

lemma realise_exact:
  assumes grid: "on_grid 8 b" "on_grid 8 g" "on_grid 8 f" and f: "\<bar>f\<bar> \<le> 10 ^ 19"
    and ok: "quantize_usdt (d_sub (d_add b g) f) = Inr v" and small: "\<bar>v\<bar> < 8 * 10 ^ 19"
  shows "v = b + g - f"
proof -
  define y where "y = ctx_round (b + g)"
  define z where "z = ctx_round (y - f)"
  have q: "quantize_usdt z = Inr v" using ok by (simp add: z_def y_def d_sub_def d_add_def)
  have "\<bar>v - z\<bar> \<le> 1 / 10 ^ 8 / 2"
    using quantize_usdt_near [OF q] by (simp add: USDT_EXPONENT_def)
  then have "\<bar>v - z\<bar> \<le> 1" by simp
  then have "\<bar>z\<bar> \<le> \<bar>v\<bar> + 1" by arith
  then have z: "\<bar>z\<bar> < 9 * 10 ^ 19 - 1" using small by simp
  have "\<bar>y - f\<bar> < 9 * 10 ^ 19"
  proof (rule ccontr)
    assume "\<not> \<bar>y - f\<bar> < 9 * 10 ^ 19"
    then have big: "9 * 10 ^ 19 \<le> \<bar>y - f\<bar>" by simp
    have "dec28 (9 * 10 ^ 19)" unfolding dec28_def
      by (rule exI [of _ 9], rule exI [of _ 19]) simp
    then have "9 * 10 ^ 19 \<le> ctx_round \<bar>y - f\<bar>" using big by (rule ctx_round_ge)
    moreover have "ctx_round \<bar>y - f\<bar> = \<bar>z\<bar>"
      by (simp add: ctx_round_abs z_def)
    ultimately show False using z by simp
  qed
  moreover have "\<bar>y\<bar> \<le> \<bar>y - f\<bar> + \<bar>f\<bar>" by arith
  ultimately have "\<bar>y\<bar> < 10 ^ 20" using f by simp
  have "\<bar>b + g\<bar> < 10 ^ 20"
  proof (rule ccontr)
    assume "\<not> \<bar>b + g\<bar> < 10 ^ 20"
    then have "10 ^ 20 \<le> ctx_round \<bar>b + g\<bar>" by (intro ctx_round_ge [OF dec28_power]) simp
    moreover have "ctx_round \<bar>b + g\<bar> = \<bar>y\<bar>"
      by (simp add: ctx_round_abs y_def)
    ultimately show False using \<open>\<bar>y\<bar> < 10 ^ 20\<close> by simp
  qed
  then have "d_add b g = b + g"
    using grid unfolding d_add_def
    by (intro ctx_round_exact grid_dec28 [of 8] on_grid_add) simp_all
  with ok have "quantize_usdt (d_sub (b + g) f) = Inr v" by simp
  then show ?thesis using grid by (intro quantize_usdt_sub) (simp_all add: on_grid_add)
qed

lemma ctx_round_abs_le: "dec28 c \<Longrightarrow> \<bar>x\<bar> \<le> c \<Longrightarrow> \<bar>ctx_round x\<bar> \<le> c"
  using ctx_round_le [of c x] ctx_round_ge [of "- c" x] dec28_minus [of c] by (simp add: abs_le_iff)

definition fee_rate_ok :: "paper_config \<Rightarrow> bool" where
  "fee_rate_ok cfg \<longleftrightarrow> 0 \<le> pc_taker_fee_bps cfg \<and> pc_taker_fee_bps cfg \<le> 1000"

text \<open>A fee of at most a tenth of a representable notional.\<close>

lemma fee_bound:
  assumes rate: "fee_rate_ok cfg" and n: "\<bar>n\<bar> < 10 ^ 20"
    and fee: "bindE (d_div (d_mul n (pc_taker_fee_bps cfg)) BPS) quantize_usdt = Inr f"
  shows "on_grid 8 f \<and> \<bar>f\<bar> \<le> 10 ^ 19"
proof -
  define x where "x = d_mul n (pc_taker_fee_bps cfg)"
  have q: "quantize_usdt (ctx_round (x / 10000)) = Inr f"
    using fee by (simp add: d_div_def BPS_def x_def)
  have "\<bar>n * pc_taker_fee_bps cfg\<bar> \<le> 10 ^ 20 * 1000"
    unfolding abs_mult using rate n by (intro mult_mono) (simp_all add: fee_rate_ok_def)
  then have "\<bar>n * pc_taker_fee_bps cfg\<bar> \<le> 10 ^ 23" by simp
  then have "\<bar>x\<bar> \<le> 10 ^ 23"
    unfolding x_def d_mul_def by (rule ctx_round_abs_le [OF dec28_power])
  then have "\<bar>x / 10000\<bar> \<le> 10 ^ 19" by (simp add: abs_divide)
  then have y: "\<bar>ctx_round (x / 10000)\<bar> \<le> 10 ^ 19"
    by (rule ctx_round_abs_le [OF dec28_power])
  have grid: "on_grid 8 (10 ^ 19)"
    using on_grid_of_int [of 8 "10 ^ 19"] by simp
  have hi: "quantize_usdt (10 ^ 19) = Inr (10 ^ 19)" and lo: "quantize_usdt (- (10 ^ 19)) = Inr (- (10 ^ 19))"
    by (rule quantize_usdt_exact [OF grid], simp, rule quantize_usdt_exact [OF on_grid_minus [OF grid]], simp)
  have "f \<le> 10 ^ 19" by (rule quantize_usdt_mono [OF q hi]) (use y in linarith)
  moreover have "- (10 ^ 19) \<le> f" by (rule quantize_usdt_mono [OF lo q]) (use y in linarith)
  ultimately show ?thesis using quantize_usdt_grid [OF q] by (simp add: abs_le_iff)
qed

subsection \<open>What each primitive change does to the ledger\<close>

definition ledger_at :: "paper_config \<Rightarrow> paper_state \<Rightarrow> bool" where
  "ledger_at cfg s \<longleftrightarrow> fee_rate_ok cfg \<and> ledger_ok s"

definition ledger_after :: "paper_config \<Rightarrow> paper_state \<Rightarrow> bool" where
  "ledger_after cfg s \<longleftrightarrow> fee_rate_ok cfg \<and> on_books s \<and> (modest s \<longrightarrow> balanced s)"

definition same_money :: "paper_state \<Rightarrow> paper_state \<Rightarrow> bool" where
  "same_money s t \<longleftrightarrow>
     ps_starting_balance t = ps_starting_balance s \<and> ps_balance t = ps_balance s \<and>
     ps_realized_pnl t = ps_realized_pnl s"

lemma same_money_ledger:
  assumes "same_money s t"
  shows "ledger_at cfg t = ledger_at cfg s" and "ledger_after cfg t = ledger_after cfg s"
  using assms
  by (simp_all add: same_money_def ledger_at_def ledger_after_def ledger_ok_def on_books_def
      balanced_def modest_def)

named_theorems money_simps "changes that touch no amount of the ledger"

lemma same_book_money: "same_book s t \<Longrightarrow> same_money s t"
  by (simp add: same_book_def same_money_def)

lemma file_order_money [money_simps]: "same_money s (file_order cfg o' s)"
  by (simp add: same_money_def file_order_def record_order_def Let_def)

lemma put_position_money [money_simps]: "same_money s (put_position k p s)"
  by (simp add: same_money_def put_position_def)

lemma update_money [money_simps]:
  "same_money s (s\<lparr>ps_positions := d\<rparr>)" "same_money s (s\<lparr>ps_total_fees := v\<rparr>)"
  "same_money s (on_session f s)"
  by (simp_all add: same_money_def on_session_def)

lemma charged_exact:
  assumes "on_grid 8 b" "on_grid 8 fee" "quantize_usdt (d_sub b fee) = Inr v"
  shows "v = b - fee"
  by (rule quantize_usdt_sub [OF assms])

text \<open>The changes after the two amounts of the ledger keep what holds of them.\<close>

lemma keeps_fees:
  assumes "\<And>s t. same_money s t \<Longrightarrow> R t = R s"
  shows "keeps X R (updateA (\<lambda>s. quantize_usdt (g (ps_total_fees s))) (\<lambda>v s. s\<lparr>ps_total_fees := v\<rparr>))"
    and "keeps X R (updateA (session_value f) (\<lambda>v. on_session (h v)))"
    and "keeps X R (modifyA (on_session k))"
proof -
  show "keeps X R (updateA (\<lambda>s. quantize_usdt (g (ps_total_fees s))) (\<lambda>v s. s\<lparr>ps_total_fees := v\<rparr>))"
    unfolding keeps_def by (rule triple_update) (simp_all add: assms [OF update_money(2)])
  show "keeps X R (updateA (session_value f) (\<lambda>v. on_session (h v)))"
    unfolding keeps_def by (rule triple_update) (simp_all add: assms [OF update_money(3)])
  show "keeps X R (modifyA (on_session k))"
    by (rule keeps_modify) (simp add: assms [OF update_money(3)])
qed

lemma update_overflow:
  assumes "\<And>s v. R s \<Longrightarrow> quantize_usdt (f s) = Inr v \<Longrightarrow> S (put v s)"
  shows "triple overflow R (updateA (\<lambda>s. quantize_usdt (f s)) put) (\<lambda>_. S) E"
  by (rule triple_update) (auto simp: assms quantize_usdt_def quantize_Inl_iff)

lemma charge_keeps_ledger:
  assumes fee: "on_grid 8 fee"
  shows "keeps overflow (ledger_at cfg) (charge_entry_fee fee)"
  unfolding keeps_def charge_entry_fee_def
proof (rule triple_then, rule update_overflow)
  let ?S = "\<lambda>s. fee_rate_ok cfg \<and> on_books s \<and>
    ps_balance s = ps_starting_balance s + ps_realized_pnl s - fee"
  show "?S (s\<lparr>ps_balance := v\<rparr>)"
    if "ledger_at cfg s" and "quantize_usdt (d_sub (ps_balance s) fee) = Inr v" for s v
    using that(1) charged_exact [OF _ fee that(2)] quantize_usdt_grid [OF that(2)]
    by (auto simp: ledger_at_def ledger_ok_def on_books_def balanced_def)
  show "triple overflow ?S
      (thenA (updateA (\<lambda>s. quantize_usdt (d_sub (ps_realized_pnl s) fee))
                (\<lambda>v s. s\<lparr>ps_realized_pnl := v\<rparr>))
      (thenA (updateA (\<lambda>s. quantize_usdt (d_add (ps_total_fees s) fee)) (\<lambda>v s. s\<lparr>ps_total_fees := v\<rparr>))
      (thenA (updateA (session_value (\<lambda>x. quantize_usdt (d_sub (ms_realized_pnl x) fee)))
                (\<lambda>v. on_session (\<lambda>x. x\<lparr>ms_realized_pnl := v\<rparr>)))
      (thenA (updateA (session_value (\<lambda>x. quantize_usdt (d_add (ms_fees x) fee)))
                (\<lambda>v. on_session (\<lambda>x. x\<lparr>ms_fees := v\<rparr>)))
      (modifyA (on_session (\<lambda>x. x\<lparr>ms_orders_submitted := ms_orders_submitted x + 1\<rparr>)))))))
      (\<lambda>_. ledger_at cfg) (ledger_at cfg)"
  proof (rule triple_then, rule update_overflow)
    show "ledger_at cfg (s\<lparr>ps_realized_pnl := v\<rparr>)"
      if "?S s" and "quantize_usdt (d_sub (ps_realized_pnl s) fee) = Inr v" for s v
      using that(1) charged_exact [OF _ fee that(2)] quantize_usdt_grid [OF that(2)]
      by (auto simp: ledger_at_def ledger_ok_def on_books_def balanced_def)
  qed (fold keeps_def, intro keep_rules keeps_fees same_money_ledger(1))
qed

text \<open>A close adds the same two amounts to both sides; below the bound both additions are exact.\<close>

lemma close_figures_fee:
  assumes "close_figures cfg p price = Inr (gross, fee, net)" and "fee_rate_ok cfg"
  shows "on_grid 8 gross" and "on_grid 8 fee" and "\<bar>fee\<bar> \<le> 10 ^ 19"
proof -
  obtain n where n: "quantize_usdt (d_mul (mp_quantity p) price) = Inr n"
      "bindE (d_div (d_mul n (pc_taker_fee_bps cfg)) BPS) quantize_usdt = Inr fee"
      "gross_pnl p price = Inr gross"
    using assms(1) by (auto simp: close_figures_def result_simps)
  show "on_grid 8 fee" "\<bar>fee\<bar> \<le> 10 ^ 19"
    using fee_bound [OF assms(2) quantize_usdt_bound [OF n(1)] n(2)] by simp_all
  show "on_grid 8 gross"
    using n(3) unfolding gross_pnl_def Let_def by (rule quantize_usdt_grid)
qed

lemma realise_keeps_ledger:
  assumes "close_figures cfg p price = Inr (gross, fee, net)"
  shows "triple overflow (ledger_at cfg) (realise gross fee) (\<lambda>_. ledger_after cfg) (ledger_after cfg)"
  unfolding realise_def
proof (rule triple_then, rule update_overflow)
  let ?new = "\<lambda>s v b. \<bar>v\<bar> < 8 * 10 ^ 19 \<longrightarrow> v = b + gross - fee"
  let ?S = "\<lambda>s. fee_rate_ok cfg \<and> on_books s \<and>
    (\<bar>ps_balance s\<bar> < 8 * 10 ^ 19 \<longrightarrow>
       ps_balance s = ps_starting_balance s + ps_realized_pnl s + gross - fee)"
  show "?S (s\<lparr>ps_balance := v\<rparr>)"
    if "ledger_at cfg s" and "quantize_usdt (d_sub (d_add (ps_balance s) gross) fee) = Inr v" for s v
    using that(1) realise_exact [OF _ _ _ _ that(2)] quantize_usdt_grid [OF that(2)]
      close_figures_fee [OF assms]
    by (auto simp: ledger_at_def ledger_ok_def on_books_def balanced_def)
  show "triple overflow ?S
      (thenA (updateA (\<lambda>s. quantize_usdt (d_sub (d_add (ps_realized_pnl s) gross) fee))
                (\<lambda>v s. s\<lparr>ps_realized_pnl := v\<rparr>))
      (thenA (updateA (\<lambda>s. quantize_usdt (d_add (ps_total_fees s) fee)) (\<lambda>v s. s\<lparr>ps_total_fees := v\<rparr>))
      (thenA (updateA (session_value (\<lambda>x. quantize_usdt (d_sub (d_add (ms_realized_pnl x) gross) fee)))
                (\<lambda>v. on_session (\<lambda>x. x\<lparr>ms_realized_pnl := v\<rparr>)))
      (thenA (updateA (session_value (\<lambda>x. quantize_usdt (d_add (ms_fees x) fee)))
                (\<lambda>v. on_session (\<lambda>x. x\<lparr>ms_fees := v\<rparr>)))
      (modifyA (on_session (\<lambda>x. x\<lparr>ms_trades_closed := ms_trades_closed x + 1\<rparr>)))))))
      (\<lambda>_. ledger_after cfg) (ledger_after cfg)"
  proof (rule triple_then, rule update_overflow)
    show "ledger_after cfg (s\<lparr>ps_realized_pnl := v\<rparr>)"
      if "?S s" and "quantize_usdt (d_sub (d_add (ps_realized_pnl s) gross) fee) = Inr v" for s v
      using that(1) realise_exact [OF _ _ _ _ that(2)] quantize_usdt_grid [OF that(2)]
        close_figures_fee [OF assms]
      by (auto simp: ledger_after_def on_books_def balanced_def modest_def)
  qed (fold keeps_def, intro keep_rules keeps_fees same_money_ledger(2))
qed

lemma fresh_ledger:
  assumes "on_grid 8 b"
  shows "ledger_ok (fresh_state b now)"
  using assms by (simp add: ledger_ok_def on_books_def balanced_def fresh_state_def)

interpretation ledger: account_invariant "ledger_at cfg" "ledger_after cfg" overflow cfg for cfg
proof unfold_locales
  show "same_book s t \<Longrightarrow> ledger_at cfg s \<Longrightarrow> ledger_at cfg t" for s t
    by (simp add: same_money_ledger(1) [OF same_book_money])
  show "same_book s t \<Longrightarrow> ledger_after cfg s \<Longrightarrow> ledger_after cfg t" for s t
    by (simp add: same_money_ledger(2) [OF same_book_money])
  show "ledger_at cfg s \<Longrightarrow> ledger_after cfg s" for s
    by (simp add: ledger_at_def ledger_after_def ledger_ok_def)
  show "on_grid 8 fee \<Longrightarrow> keeps overflow (ledger_at cfg) (charge_entry_fee fee)" for fee
    by (rule charge_keeps_ledger)
  show "close_figures cfg p price = Inr (gross, fee, net) \<Longrightarrow>
      triple overflow (ledger_at cfg) (realise gross fee) (\<lambda>_. ledger_after cfg) (ledger_after cfg)"
    for p price gross fee net
    by (rule realise_keeps_ledger)
  show "ledger_at cfg s \<Longrightarrow> on_grid 8 b \<Longrightarrow> ledger_at cfg (fresh_state b now)" for s b now
    by (simp add: ledger_at_def fresh_ledger)
qed (simp_all add: same_money_ledger [OF file_order_money] same_money_ledger [OF put_position_money]
      same_money_ledger [OF update_money(1)])

end
