(* ===== verification/PaperBooks.thy ===== *)
theory PaperBooks
  imports PaperHistory
begin

section \<open>The paper account's positions and orders\<close>

text \<open>
  Two more invariants through the same contract. \<open>books_ok\<close>: one position per symbol, within the
  ceilings of the configuration, each with the excursion it lived through. \<open>index_ok\<close>: the
  idempotency index refers only to orders that are still in the log.
\<close>

subsection \<open>Exposure\<close>

lemma d_add_ge: "dec28 b \<Longrightarrow> 0 \<le> x \<Longrightarrow> b \<le> d_add b x"
  unfolding d_add_def by (rule ctx_round_ge) simp_all

lemma d_add_mono: "a \<le> b \<Longrightarrow> d_add a x \<le> d_add b x"
  unfolding d_add_def by (rule ctx_round_mono) simp

lemma d_sum_delete:
  assumes "a \<le> b" and "dec28 b" and "\<forall>q \<in> set d. 0 \<le> f (snd q)"
  shows "foldl d_add a (map f (values_of (AList.delete k d))) \<le> foldl d_add b (map f (values_of d))"
  using assms
proof (induction d arbitrary: a b)
  case Nil
  then show ?case by (simp add: values_of_def)
next
  case (Cons q d)
  have ge: "b \<le> d_add b (f (snd q))" using Cons.prems by (intro d_add_ge) simp_all
  have dec: "dec28 (d_add b (f (snd q)))" by (simp add: d_add_def dec28_ctx_round)
  show ?case
  proof (cases "fst q = k")
    case True
    have "foldl d_add a (map f (values_of (AList.delete k d)))
        \<le> foldl d_add (d_add b (f (snd q))) (map f (values_of d))"
      using Cons.prems(1,3) ge dec by (intro Cons.IH) simp_all
    with True show ?thesis by (cases q) (simp add: values_of_def)
  next
    case False
    have "foldl d_add (d_add a (f (snd q))) (map f (values_of (AList.delete k d)))
        \<le> foldl d_add (d_add b (f (snd q))) (map f (values_of d))"
      using Cons.prems(1,3) dec by (intro Cons.IH d_add_mono) simp_all
    with False show ?thesis by (cases q) (simp add: values_of_def)
  qed
qed

lemma values_update:
  assumes "map_of d k = Some p" and "f p' = f p"
  shows "map f (values_of (AList.update k p' d)) = map f (values_of d)"
  using assms(1)
proof (induction d)
  case (Cons q d)
  then show ?case using assms(2) by (cases q) (auto simp: values_of_def split: if_splits)
qed simp

lemma update_length: "map_of d k = Some p \<Longrightarrow> length (AList.update k p' d) = length d"
  by (induction d) (auto split: if_splits)

subsection \<open>One position\<close>

definition between :: "bool \<Rightarrow> rat option \<Rightarrow> rat \<Rightarrow> rat option \<Rightarrow> bool" where
  "between long worst x best \<longleftrightarrow>
     (\<exists>w b. worst = Some w \<and> best = Some b \<and> (if long then w \<le> x \<and> x \<le> b else b \<le> x \<and> x \<le> w))"

definition position_ok :: "string \<Rightarrow> mutable_position \<Rightarrow> bool" where
  "position_ok symbol p \<longleftrightarrow>
     mp_symbol p = symbol \<and> 0 < mp_quantity p \<and> 0 < mp_entry_price p \<and> 0 < mp_notional p \<and>
     between (is_long p) (mp_worst_price p) (mp_entry_price p) (mp_best_price p) \<and>
     (\<forall>m. mp_mark_price p = Some m \<and> 0 < m \<longrightarrow>
        between (is_long p) (mp_worst_price p) m (mp_best_price p)) \<and>
     (case mp_trail_extreme p of None \<Rightarrow> mp_trailing_stop_percent p = None
      | Some e \<Rightarrow> mp_trailing_stop_percent p \<noteq> None \<and>
          (if is_long p then mp_entry_price p \<le> e else e \<le> mp_entry_price p))"

lemma between_widen:
  assumes "between long w x b"
  shows "between long (widen (\<not> long) w price) x (widen long b price)"
    and "between long (widen (\<not> long) w price) price (widen long b price)"
  using assms by (auto simp: between_def widen_def split: if_splits)

lemma unmark_ok: "position_ok k p \<Longrightarrow> position_ok k (unmark m p)"
  by (simp add: position_ok_def unmark_def is_long_def split: option.splits)

lemma mark_to_ok: "position_ok k p \<Longrightarrow> position_ok k (mark_to x price now p)"
  using between_widen [of "is_long p" "mp_worst_price p" "mp_entry_price p" "mp_best_price p" price]
  by (simp add: position_ok_def mark_to_def record_excursion_def is_long_def split: option.splits)

lemma advance_trail_ok: "position_ok k p \<Longrightarrow> position_ok k (advance_trail price p)"
  by (auto simp: position_ok_def advance_trail_def is_long_def split: option.splits)

lemma fresh_position_ok: "fresh_position k p \<Longrightarrow> position_ok k p"
  by (auto simp: position_ok_def fresh_position_def between_def split: option.splits)

lemma managed_notional [simp]:
  "mp_notional (unmark m p) = mp_notional p" "mp_notional (mark_to x price now p) = mp_notional p"
  "mp_notional (advance_trail price p) = mp_notional p"
  by (simp_all add: unmark_def mark_to_def record_excursion_def advance_trail_def)

subsection \<open>The book of positions\<close>

definition books_ok :: "paper_config \<Rightarrow> paper_state \<Rightarrow> bool" where
  "books_ok cfg s \<longleftrightarrow>
     distinct (keys_of (ps_positions s)) \<and>
     (\<forall>q \<in> set (ps_positions s). position_ok (fst q) (snd q)) \<and>
     (ps_positions s \<noteq> [] \<longrightarrow> int (length (ps_positions s)) \<le> pc_max_open_positions cfg \<and>
        exposure s \<le> pc_max_portfolio_exposure cfg)"

lemma books_positions: "ps_positions t = ps_positions s \<Longrightarrow> books_ok cfg t = books_ok cfg s"
  by (simp add: books_ok_def exposure_def)

lemma books_lookup: "books_ok cfg s \<Longrightarrow> map_of (ps_positions s) k = Some p \<Longrightarrow> position_ok k p"
  by (drule map_of_SomeD) (auto simp: books_ok_def)

lemma books_managed:
  assumes ok: "books_ok cfg s" and held: "map_of (ps_positions s) k = Some p"
    and p': "position_ok k p'" "mp_notional p' = mp_notional p"
  shows "books_ok cfg (put_position k p' s)"
proof -
  have "exposure (put_position k p' s) = exposure s"
    using values_update [of "ps_positions s" k p mp_notional p'] held p'(2)
    by (simp add: exposure_def put_position_def)
  moreover have "\<forall>q \<in> set (AList.update k p' (ps_positions s)). position_ok (fst q) (snd q)"
    using ok p'(1) by (auto simp: books_ok_def dest!: set_update_subset)
  moreover have "ps_positions s \<noteq> []" using held by auto
  ultimately show ?thesis
    using ok held
    by (simp add: books_ok_def put_position_def keys_of_def update_length keys_distinct_update)
qed

lemma books_opened:
  assumes ok: "books_ok cfg s" and slot: "may_open cfg symbol (mp_notional p) s"
    and fresh: "fresh_position symbol p"
  shows "books_ok cfg (put_position symbol p s)"
proof -
  have new: "AList.update symbol p (ps_positions s) = ps_positions s @ [(symbol, p)]"
    using slot by (intro update_fresh) (simp add: may_open_def map_of_eq_None_iff)
  have "symbol \<notin> fst ` set (ps_positions s)"
    using slot by (simp add: may_open_def map_of_eq_None_iff)
  then show ?thesis
    using ok slot fresh_position_ok [OF fresh]
    by (auto simp: books_ok_def put_position_def new keys_of_def may_open_def exposure_def values_of_def
        d_sum_snoc)
qed

lemma books_dropped:
  assumes "books_ok cfg s"
  shows "books_ok cfg (s\<lparr>ps_positions := AList.delete k (ps_positions s)\<rparr>)"
proof -
  have "\<forall>q \<in> set (ps_positions s). 0 \<le> mp_notional (snd q)"
    using assms by (auto simp: books_ok_def position_ok_def intro: order_less_imp_le)
  then have "d_sum (map mp_notional (values_of (AList.delete k (ps_positions s)))) \<le>
      d_sum (map mp_notional (values_of (ps_positions s)))"
    unfolding d_sum_def by (intro d_sum_delete) (simp_all add: dec28_def)
  moreover have "length (AList.delete k (ps_positions s)) \<le> length (ps_positions s)"
    by (simp add: AList.delete_eq)
  moreover have "ps_positions s \<noteq> []" if "AList.delete k (ps_positions s) \<noteq> []" using that by auto
  moreover have "distinct (map fst (AList.delete k (ps_positions s)))"
    using assms by (intro keys_distinct_delete) (simp add: books_ok_def keys_of_def)
  moreover have "\<forall>q \<in> set (AList.delete k (ps_positions s)). position_ok (fst q) (snd q)"
    using assms by (simp add: books_ok_def set_delete_eq)
  ultimately show ?thesis
    using assms unfolding books_ok_def exposure_def keys_of_def
    by auto
qed

lemma file_order_positions [simp]: "ps_positions (file_order cfg o' s) = ps_positions s"
  by (simp add: file_order_def record_order_def Let_def)

lemma realise_positions: "ps_positions (fst (realise g f s)) = ps_positions s"
  by (simp add: realise_def thenA_def bindA_def act_run on_session_def split: sum.splits prod.splits)

text \<open>An action that changes no position keeps the book.\<close>

lemma keeps_unchanged:
  assumes "\<And>s. f (fst (m s)) = f s" and "\<And>s t. f t = f s \<Longrightarrow> R t = R s"
  shows "keeps X R m"
  unfolding keeps_def
proof (rule tripleI)
  fix s
  assume "R s"
  then have "R (fst (m s))" using assms(2) [OF assms(1)] by simp
  then show "case m s of (s', Inr x) \<Rightarrow> R s' | (s', Inl e) \<Rightarrow> e \<in> X \<or> R s'"
    by (cases "m s", cases "snd (m s)") simp_all
qed

interpretation books: account_invariant "books_ok cfg" "books_ok cfg" "{}" cfg for cfg
proof unfold_locales
  show "same_book s t \<Longrightarrow> books_ok cfg s \<Longrightarrow> books_ok cfg t" for s t
    using books_positions [of t s] by (simp add: same_book_def)
  show "books_ok cfg s \<Longrightarrow> books_ok cfg (file_order c o' s)" for s c o'
    using books_positions [of "file_order c o' s" s] by simp
  show "keeps {} (books_ok cfg) (charge_entry_fee fee)" for fee
    by (rule keeps_unchanged [of ps_positions, OF charge_positions books_positions])
  show "triple {} (books_ok cfg) (realise g f) (\<lambda>_. books_ok cfg) (books_ok cfg)" for g f
    by (rule keeps_unchanged [of ps_positions, OF realise_positions books_positions,
        unfolded keeps_def])
  show "books_ok cfg s \<Longrightarrow> may_open cfg symbol (mp_notional p) s \<Longrightarrow> fresh_position symbol p \<Longrightarrow>
      books_ok cfg (put_position symbol p s)" for s symbol p
    by (rule books_opened)
  show "books_ok cfg s \<Longrightarrow> map_of (ps_positions s) k = Some p \<Longrightarrow>
      books_ok cfg (put_position k (unmark m p) s)" for s k p m
    by (rule books_managed) (auto intro: unmark_ok books_lookup)
  show "books_ok cfg s \<Longrightarrow> map_of (ps_positions s) k = Some p \<Longrightarrow>
      books_ok cfg (put_position k (mark_to x price now p) s)" for s k p x price now
    by (rule books_managed) (auto intro: mark_to_ok books_lookup)
  show "books_ok cfg s \<Longrightarrow> map_of (ps_positions s) k = Some (mark_to x price now p) \<Longrightarrow>
      books_ok cfg (put_position k (advance_trail price (mark_to x price now p)) s)"
    for s k p x price now
    by (rule books_managed [where p = "mark_to x price now p"]) (auto intro: advance_trail_ok books_lookup)
  show "books_ok cfg s \<Longrightarrow> books_ok cfg (s\<lparr>ps_positions := AList.delete k (ps_positions s)\<rparr>)" for s k
    by (rule books_dropped)
  show "books_ok cfg (fresh_state b now)" for b now
    by (simp add: books_ok_def fresh_state_def keys_of_def)
qed

subsection \<open>The idempotency index\<close>

definition index_sound :: "paper_state \<Rightarrow> bool" where
  "index_sound s \<longleftrightarrow>
     distinct (keys_of (ps_orders_by_client_id s)) \<and>
     (\<forall>q \<in> set (ps_orders_by_client_id s).
        po_client_order_id (snd q) = fst q \<and> snd q \<in> set (ps_order_log s))"

lemma evict_index:
  "set (foldl (\<lambda>d e. AList.delete (po_client_order_id e) d) d es) =
     {q \<in> set d. fst q \<notin> po_client_order_id ` set es}"
  by (induction es arbitrary: d) (auto simp: set_delete_eq)

lemma evict_distinct:
  "distinct (map fst d) \<Longrightarrow> distinct (map fst (foldl (\<lambda>d e. AList.delete (po_client_order_id e) d) d es))"
  by (induction es arbitrary: d) (auto intro: keys_distinct_delete)

lemma evict_sound:
  assumes d: "distinct (map fst d)"
    and sound: "\<forall>q \<in> set d. po_client_order_id (snd q) = fst q \<and> snd q \<in> set entries"
  shows "distinct (map fst (foldl (\<lambda>d e. AList.delete (po_client_order_id e) d) d (take n entries))) \<and>
    (\<forall>q \<in> set (foldl (\<lambda>d e. AList.delete (po_client_order_id e) d) d (take n entries)).
       po_client_order_id (snd q) = fst q \<and> snd q \<in> set (drop n entries))"
proof (rule conjI, rule evict_distinct [OF d], rule ballI, unfold evict_index)
  fix q
  assume "q \<in> {q \<in> set d. fst q \<notin> po_client_order_id ` set (take n entries)}"
  then have q: "q \<in> set d" "fst q \<notin> po_client_order_id ` set (take n entries)" by simp_all
  then have id: "po_client_order_id (snd q) = fst q" and mem: "snd q \<in> set entries"
    using sound by simp_all
  have "set entries = set (take n entries) \<union> set (drop n entries)"
    by (simp only: set_append [symmetric] append_take_drop_id)
  with mem have "snd q \<in> set (take n entries) \<or> snd q \<in> set (drop n entries)" by blast
  with q(2) id show "po_client_order_id (snd q) = fst q \<and> snd q \<in> set (drop n entries)"
    by (metis imageI)
qed

lemma index_filed:
  assumes "index_sound s"
  shows "index_sound (file_order cfg o' s)"
proof -
  define d where "d = AList.update (po_client_order_id o') o' (ps_orders_by_client_id s)"
  define entries where "entries = ps_order_log s @ [o']"
  have d: "distinct (map fst d)"
    using assms unfolding d_def by (intro keys_distinct_update) (simp add: index_sound_def keys_of_def)
  have sound: "\<forall>q \<in> set d. po_client_order_id (snd q) = fst q \<and> snd q \<in> set entries"
    using assms by (auto simp: index_sound_def d_def entries_def dest!: set_update_subset)
  have "file_order cfg o' s =
      (let n = int (length entries) - pc_max_order_log cfg in
       if 0 < n then s\<lparr>ps_orders_by_client_id :=
             foldl (\<lambda>d e. AList.delete (po_client_order_id e) d) d (take (nat n) entries),
           ps_order_log := drop (nat n) entries\<rparr>
       else s\<lparr>ps_orders_by_client_id := d, ps_order_log := entries\<rparr>)"
    unfolding d_def entries_def by (simp add: file_order_def record_order_def Let_def)
  then show ?thesis
    using evict_sound [OF d sound] d sound by (simp add: index_sound_def Let_def keys_of_def)
qed

lemma index_orders:
  "ps_orders_by_client_id t = ps_orders_by_client_id s \<and> ps_order_log t = ps_order_log s \<Longrightarrow>
   index_sound t = index_sound s"
  by (simp add: index_sound_def)

lemma charge_orders:
  "ps_orders_by_client_id (fst (charge_entry_fee fee s)) = ps_orders_by_client_id s \<and>
   ps_order_log (fst (charge_entry_fee fee s)) = ps_order_log s"
  by (simp add: charge_entry_fee_def thenA_def bindA_def act_run on_session_def
      split: sum.splits prod.splits)

lemma realise_orders:
  "ps_orders_by_client_id (fst (realise g f s)) = ps_orders_by_client_id s \<and>
   ps_order_log (fst (realise g f s)) = ps_order_log s"
  by (simp add: realise_def thenA_def bindA_def act_run on_session_def split: sum.splits prod.splits)

definition orders_of :: "paper_state \<Rightarrow> (string, paper_order) dict \<times> paper_order list" where
  "orders_of s = (ps_orders_by_client_id s, ps_order_log s)"

lemma index_orders_of: "orders_of t = orders_of s \<Longrightarrow> index_sound t = index_sound s"
  by (simp add: index_sound_def orders_of_def)

interpretation orders: account_invariant index_sound index_sound "{}" cfg for cfg
proof unfold_locales
  show "same_book s t \<Longrightarrow> index_sound s \<Longrightarrow> index_sound t" for s t
    using index_orders_of [of t s] by (simp add: same_book_def orders_of_def)
  show "index_sound s \<Longrightarrow> index_sound (file_order c o' s)" for s c o'
    by (rule index_filed)
  show "keeps {} index_sound (charge_entry_fee fee)" for fee
    by (rule keeps_unchanged [of orders_of, OF _ index_orders_of])
      (simp add: orders_of_def charge_orders)
  show "triple {} index_sound (realise g f) (\<lambda>_. index_sound) index_sound" for g f
    by (rule keeps_unchanged [of orders_of, OF _ index_orders_of, unfolded keeps_def])
      (simp add: orders_of_def realise_orders)
  show "index_sound (fresh_state b now)" for b now
    by (simp add: index_sound_def fresh_state_def keys_of_def)
qed (simp_all add: index_sound_def put_position_def)

end
