(* ===== verification/PaperProperties.thy ===== *)
theory PaperProperties
  imports PaperLedger PaperBooks
begin

section \<open>Properties of the paper engine\<close>

subsection \<open>Actions that leave a settled state alone\<close>

lemma keeps_True: "keeps X (\<lambda>_. True) m"
  by (simp add: keeps_def triple_def split: prod.splits sum.splits)

lemma ensured_again:
  "ensured_session cfg now (s\<lparr>ps_session := Some (ensured_session cfg now s)\<rparr>) = ensured_session cfg now s"
  by (simp add: ensured_session_def new_session_def split: option.splits)

text \<open>Once the day's session exists, showing the account changes nothing.\<close>

lemma keeps_today:
  assumes "s0 = s\<lparr>ps_session := Some (ensured_session cfg now s)\<rparr>"
  shows "keeps X (\<lambda>u. u = s0) (build_account cfg dur now marks)"
proof -
  have "keeps X (\<lambda>u. u = s0) (ensure_session cfg now)"
    by (simp add: keeps_def triple_def ensure_session_def assms ensured_again)
  then show ?thesis unfolding build_account_def by (intro keep_rules)
qed

subsection \<open>The ledger\<close>


subsection \<open>The book of positions\<close>


subsection \<open>Replays\<close>

text \<open>Submitting again under a client order id that is still known opens nothing: in every state a
  run can reach, the only change is the day's session, the answer is the logged order under that id
  marked as a replay, and it counts as accepted exactly when that order was filled.\<close>

theorem replay_opens_nothing:
  assumes "paper_run {} (\<lambda>_. True) cfg dur (fresh_state b start) s"
    and "map_of (ps_orders_by_client_id s) cid = Some o'" and "cid \<noteq> []"
    and "sr_client_order_id req = Some cid"
    and "submit_order cfg dur req now mark filters lev en marks checks rmax s = (t, r)"
  shows "t = s\<lparr>ps_session := Some (ensured_session cfg now s)\<rparr> \<and>
    po_client_order_id o' = cid \<and> o' \<in> set (ps_order_log s) \<and>
    (\<forall>res. r = Inr res \<longrightarrow> pr_order res = o'\<lparr>po_idempotent_replay := True\<rparr> \<and>
       pr_accepted res = is_filled o')"
proof -
  have "index_sound (fresh_state b start)"
    by (simp add: index_sound_def fresh_state_def keys_of_def)
  with assms(1) have sound: "index_sound s" by (rule orders.run_keeps)
  have "(cid, o') \<in> set (ps_orders_by_client_id s)" using assms(2) by (rule map_of_SomeD)
  with sound have logged: "po_client_order_id o' = cid" "o' \<in> set (ps_order_log s)"
    by (auto simp: index_sound_def)
  define s0 where "s0 = s\<lparr>ps_session := Some (ensured_session cfg now s)\<rparr>"
  define all_marks where "all_marks = setdefault (upper (sr_symbol req)) mark marks"
  have known: "map_of (ps_orders_by_client_id s0) cid = Some o'" using assms(2) by (simp add: s0_def)
  have run: "replay_outcome cfg dur now all_marks (upper (sr_symbol req)) o' s0 = (t, r)"
    using assms(5) known
    by (simp only: submit_order_def then_session Let_def client_id_of_def assms(4) option.case
        assms(3) if_True bindA_returnA bind_read s0_def all_marks_def not_False_eq_True)
  have "keeps {} (\<lambda>u. u = s0) (replay_outcome cfg dur now all_marks (upper (sr_symbol req)) o')"
    unfolding replay_outcome_def by (intro keep_rules keeps_today) (simp_all add: s0_def)
  from keeps_run [OF this, of s0] run have "t = s0" by simp
  moreover have "triple {} (\<lambda>_. True) (replay_outcome cfg dur now all_marks (upper (sr_symbol req)) o')
      (\<lambda>res _. pr_order res = o'\<lparr>po_idempotent_replay := True\<rparr> \<and> pr_accepted res = is_filled o') (\<lambda>_. True)"
    unfolding replay_outcome_def
    by (intro keeps_bind_triple [OF keeps_True] triple_return) (simp_all add: result_of_def)
  from triple_Inr [OF this TrueI] run
  have "pr_order res = o'\<lparr>po_idempotent_replay := True\<rparr> \<and> pr_accepted res = is_filled o'"
    if "r = Inr res" for res
    using that by blast
  ultimately show ?thesis using logged by (simp add: s0_def)
qed

subsection \<open>Refusals\<close>

definition untouched :: "paper_state \<Rightarrow> paper_state \<Rightarrow> bool" where
  "untouched s t \<longleftrightarrow>
     ps_balance t = ps_balance s \<and> ps_realized_pnl t = ps_realized_pnl s \<and>
     ps_starting_balance t = ps_starting_balance s \<and> ps_positions t = ps_positions s"

interpretation untouched: book_invariant "untouched s" for s
  by unfold_locales
    (simp_all add: untouched_def same_book_def file_order_def record_order_def Let_def)

text \<open>The answer of a call, whatever state it starts in.\<close>

definition answers :: "('a \<Rightarrow> bool) \<Rightarrow> ('s, 'a) act \<Rightarrow> bool" where
  "answers F m \<longleftrightarrow> triple {} (\<lambda>_. True) m (\<lambda>x _. F x) (\<lambda>_. True)"

named_theorems answer_rules "answers of actions, by their shape"

lemma answers_bind [answer_rules]: "(\<And>x. answers F (k x)) \<Longrightarrow> answers F (bindA m k)"
  unfolding answers_def by (rule keeps_bind_triple [OF keeps_True]) simp_all

lemma answers_then [answer_rules]: "answers F k \<Longrightarrow> answers F (thenA m k)"
  unfolding answers_def by (rule keeps_then_triple [OF keeps_True]) simp_all

lemma answers_return [answer_rules]: "F x \<Longrightarrow> answers F (returnA x)"
  unfolding answers_def by (rule triple_return)

lemma answers_raise [answer_rules]: "answers F (raiseA e)"
  by (simp add: answers_def triple_def raiseA_def)

lemma answers_let [answer_rules]: "(\<And>x. answers F (f x)) \<Longrightarrow> answers F (Let v f)"
  by (simp add: Let_def)

lemma answers_case_option [answer_rules]:
  "answers F a \<Longrightarrow> (\<And>x. answers F (f x)) \<Longrightarrow> answers F (case c of None \<Rightarrow> a | Some x \<Rightarrow> f x)"
  by (cases c) simp_all

lemma answers_run: "answers F m \<Longrightarrow> m s = (t, Inr x) \<Longrightarrow> F x"
  unfolding answers_def by (drule triple_Inr) simp_all

lemma open_accepts:
  "answers pr_accepted
     (open_position cfg dur req symbol cid price source age q n m lev now marks checks rmax)"
  unfolding open_position_def by (intro answer_rules) (simp add: result_of_def)

text \<open>A call that, unless it answers that an order was accepted, has touched no money or position.\<close>

definition harmless :: "paper_state \<Rightarrow> (paper_state, paper_order_result) act \<Rightarrow> bool" where
  "harmless s m \<longleftrightarrow>
     triple {} (untouched s) m (\<lambda>res t. \<not> pr_accepted res \<longrightarrow> untouched s t) (\<lambda>_. True)"

lemma harmless_keeps: "keeps {} (untouched s) m \<Longrightarrow> harmless s m"
  unfolding harmless_def keeps_def by (erule triple_weaken) simp_all

lemma harmless_accepts: "answers pr_accepted m \<Longrightarrow> harmless s m"
  unfolding harmless_def answers_def by (erule triple_weaken) simp_all

lemma harmless_bind: "keeps {} (untouched s) m \<Longrightarrow> (\<And>x. harmless s (k x)) \<Longrightarrow> harmless s (bindA m k)"
  unfolding harmless_def by (rule keeps_bind_triple) simp_all

lemma harmless_then: "keeps {} (untouched s) m \<Longrightarrow> harmless s k \<Longrightarrow> harmless s (thenA m k)"
  unfolding harmless_def by (rule keeps_then_triple) simp_all

lemma harmless_let: "(\<And>x. harmless s (f x)) \<Longrightarrow> harmless s (Let v f)"
  by (simp add: Let_def)

lemma harmless_case_option:
  "harmless s a \<Longrightarrow> (\<And>x. harmless s (f x)) \<Longrightarrow> harmless s (case c of None \<Rightarrow> a | Some x \<Rightarrow> f x)"
  by (cases c) simp_all

lemma harmless_case_sum:
  "(\<And>x. harmless s (f x)) \<Longrightarrow> (\<And>y. harmless s (g y)) \<Longrightarrow>
   harmless s (case c of Inl x \<Rightarrow> f x | Inr y \<Rightarrow> g y)"
  by (cases c) simp_all

lemma harmless_case_prod:
  "(\<And>x y. harmless s (f x y)) \<Longrightarrow> harmless s (case c of (x, y) \<Rightarrow> f x y)"
  by (cases c) simp_all

lemma submit_harmless:
  "harmless s (submit_order cfg dur req now mark filters lev en marks checks rmax)"
  unfolding submit_order_def
  by (intro harmless_then harmless_let harmless_bind harmless_case_option harmless_case_sum
      harmless_case_prod untouched.keeps_session untouched.keeps_client_id keeps_read keeps_lift
      harmless_keeps [OF untouched.keeps_reject] harmless_keeps [OF untouched.keeps_replay_outcome]
      harmless_accepts [OF open_accepts])

text \<open>An order that is not accepted, for whatever reason, leaves the balance, the realised result and
  every position exactly as they were.\<close>

theorem refused_order_touches_nothing:
  assumes "submit_order cfg dur req now mark filters lev en marks checks rmax s = (t, Inr res)"
    and "\<not> pr_accepted res"
  shows "ps_balance t = ps_balance s \<and> ps_realized_pnl t = ps_realized_pnl s \<and>
    ps_starting_balance t = ps_starting_balance s \<and> ps_positions t = ps_positions s"
proof -
  have "untouched s s" by (simp add: untouched_def)
  from triple_Inr [OF submit_harmless [unfolded harmless_def] this assms(1)] assms(2)
  show ?thesis by (simp add: untouched_def)
qed

subsection \<open>Authority\<close>

lemma reject_code:
  "answers (\<lambda>res. po_rejection_code (pr_order res) = Some code \<and> \<not> pr_accepted res)
     (reject cfg dur symbol req cid code now marks lev ro checks rmax)"
proof -
  have con: "answers F (bindA (liftA (construct v x)) k)"
    if "answers F (k x)" for F :: "paper_order_result \<Rightarrow> bool" and v and x :: paper_order and k
    using that by (simp add: bindA_liftA construct_def answers_raise)
  show ?thesis
    unfolding reject_def
    by (intro answers_then answers_bind con answers_return) (simp add: result_of_def rejected_order_def)
qed

text \<open>Authority is asked before anything about the order: during an emergency stop, or while the day
  is locked, a new order is refused with the code of that halt and no other, whatever the request, the
  price, the leverage and the size are.\<close>

theorem halt_reported_first:
  assumes "submit_order cfg dur req now mark filters lev True marks checks rmax s = (t, Inr res)"
    and "sr_client_order_id req = Some cid" and "cid \<noteq> []"
    and "map_of (ps_orders_by_client_id s) cid = None"
    and "ps_emergency_stopped s \<or> blocks_entries (ms_lock_state (ensured_session cfg now s))"
  shows "\<not> pr_accepted res \<and> po_rejection_code (pr_order res) = Some
    (if ps_emergency_stopped s then EMERGENCY_STOP
     else if ms_lock_state (ensured_session cfg now s) = LOCK_DAILY_PROFIT_TARGET
     then DAILY_PROFIT_TARGET else DAILY_LOSS_LIMIT)"
proof -
  define s0 where "s0 = s\<lparr>ps_session := Some (ensured_session cfg now s)\<rparr>"
  define code where "code = (if ps_emergency_stopped s then EMERGENCY_STOP
     else if ms_lock_state (ensured_session cfg now s) = LOCK_DAILY_PROFIT_TARGET
     then DAILY_PROFIT_TARGET else DAILY_LOSS_LIMIT)"
  define symbol where "symbol = upper (sr_symbol req)"
  have new: "map_of (ps_orders_by_client_id s0) cid = None" using assms(4) by (simp add: s0_def)
  have "check_authority True s0 = Some code"
    using assms(5) by (auto simp: check_authority_def s0_def code_def)
  then have early: "early_refusal cfg True mark req s0 = Some code" by (simp add: early_refusal_def)
  have "reject cfg dur symbol req cid code now (setdefault symbol mark marks) None False [] None s0
      = (t, Inr res)"
    using assms(1) new early
    by (simp only: submit_order_def then_session Let_def client_id_of_def assms(2,3) option.case
        if_True bindA_returnA bind_read s0_def symbol_def not_False_eq_True)
  from answers_run [OF reject_code this] show ?thesis unfolding code_def by simp
qed

subsection \<open>Exits\<close>

definition adverse_levels :: "mutable_position \<Rightarrow> rat option \<Rightarrow> rat \<Rightarrow> (rat \<times> paper_exit_reason) set" where
  "adverse_levels p trailing price =
     {(l, r). (mp_liquidation_price p = Some l \<and> r = LIQUIDATION \<or>
               mp_stop_price p = Some l \<and> r = STOP_LOSS \<or> trailing = Some l \<and> r = TRAILING_STOP) \<and>
              (if is_long p then price \<le> l else l \<le> price)}"

lemma first_best_in: "first_best better b xs \<in> insert b (set xs)"
proof (induction xs arbitrary: b)
  case (Cons x xs)
  show ?case using Cons.IH [of x] Cons.IH [of b] by auto
qed simp

lemma first_best_least:
  assumes "\<And>x y. better x y = (f x < (f y :: 'a :: linorder))"
  shows "\<forall>x \<in> insert b (set xs). f (first_best better b xs) \<le> f x"
proof (induction xs arbitrary: b)
  case (Cons x xs)
  show ?case
    using Cons.IH [of x] Cons.IH [of b]
    by (auto simp: assms not_less intro: order.trans less_imp_le)
qed simp

lemma nearest_spec:
  "nearest long cs = None \<longleftrightarrow> cs = []"
  "nearest long cs = Some r \<Longrightarrow> \<exists>l. (l, r) \<in> set cs \<and> (\<forall>q \<in> set cs. if long then fst q \<le> l else l \<le> fst q)"
proof -
  show "nearest long cs = None \<longleftrightarrow> cs = []" by (simp add: nearest_def split: list.splits)
  assume r: "nearest long cs = Some r"
  then obtain c rest where cs: "cs = c # rest" by (auto simp: nearest_def split: list.splits)
  define better :: "rat \<times> paper_exit_reason \<Rightarrow> rat \<times> paper_exit_reason \<Rightarrow> bool"
    where "better = (\<lambda>x y. if long then fst y < fst x else fst x < fst y)"
  define best where "best = first_best better c rest"
  have "snd best = r" using r by (simp add: nearest_def cs best_def better_def)
  moreover have "best \<in> set cs" using first_best_in [of better c rest] by (simp add: cs best_def)
  moreover have "if long then fst q \<le> fst best else fst best \<le> fst q" if "q \<in> set cs" for q
  proof (cases long)
    case True
    have "better x y = (- fst x < - fst y)" for x y by (simp add: better_def True)
    from first_best_least [of better "\<lambda>x. - fst x", OF this, of c rest] that True
    show ?thesis by (simp add: cs best_def) blast
  next
    case False
    have "better x y = (fst x < fst y)" for x y by (simp add: better_def False)
    from first_best_least [of better fst, OF this, of c rest] that False
    show ?thesis by (simp add: cs best_def) blast
  qed
  ultimately show "\<exists>l. (l, r) \<in> set cs \<and> (\<forall>q \<in> set cs. if long then fst q \<le> l else l \<le> fst q)"
    by (metis prod.collapse)
qed

lemma candidates_set:
  "set (candidate (is_long p) price (mp_liquidation_price p) LIQUIDATION @
        candidate (is_long p) price (mp_stop_price p) STOP_LOSS @
        candidate (is_long p) price trailing TRAILING_STOP) = adverse_levels p trailing price"
  by (auto simp: candidate_def adverse_levels_def reached_def split: option.splits if_splits)

text \<open>When one price passes several levels at once, an adverse level always wins over the target, and
  among the adverse levels that were reached the one nearest to the entry fires; with none reached the
  target decides; with nothing reached nothing fires.\<close>

theorem nearest_adverse_level_fires:
  assumes "trailing_level p = Inr trailing"
  shows "\<exists>x. triggered_exit p price = Inr x \<and>
    (if adverse_levels p trailing price = {}
     then x = (case mp_target_price p of None \<Rightarrow> None
       | Some target \<Rightarrow> if (if is_long p then target \<le> price else price \<le> target)
                        then Some EXIT_TAKE_PROFIT else None)
     else \<exists>l r. x = Some r \<and> (l, r) \<in> adverse_levels p trailing price \<and>
       (\<forall>(l', r') \<in> adverse_levels p trailing price. if is_long p then l' \<le> l else l \<le> l'))"
proof -
  define cs where "cs = candidate (is_long p) price (mp_liquidation_price p) LIQUIDATION @
        candidate (is_long p) price (mp_stop_price p) STOP_LOSS @
        candidate (is_long p) price trailing TRAILING_STOP"
  have cs: "set cs = adverse_levels p trailing price" unfolding cs_def by (rule candidates_set)
  have run: "triggered_exit p price = Inr (case nearest (is_long p) cs of
      Some reason \<Rightarrow> Some reason
    | None \<Rightarrow> (case mp_target_price p of None \<Rightarrow> None
       | Some target \<Rightarrow> if (if is_long p then target \<le> price else price \<le> target)
                        then Some EXIT_TAKE_PROFIT else None))"
    by (simp add: triggered_exit_def assms cs_def Let_def)
  show ?thesis
  proof (cases "nearest (is_long p) cs")
    case None
    then have "adverse_levels p trailing price = {}" using nearest_spec(1) cs by auto
    with run None show ?thesis by simp
  next
    case (Some r)
    from nearest_spec(2) [OF Some] obtain l where
      l: "(l, r) \<in> set cs" "\<forall>q \<in> set cs. if is_long p then fst q \<le> l else l \<le> fst q" by blast
    have "triggered_exit p price = Inr (Some r)" using run Some by simp
    moreover have "adverse_levels p trailing price \<noteq> {}" using l(1) cs by auto
    moreover have "\<exists>l r'. Some r = Some r' \<and> (l, r') \<in> adverse_levels p trailing price \<and>
        (\<forall>(l', r') \<in> adverse_levels p trailing price. if is_long p then l' \<le> l else l \<le> l')"
      using l unfolding cs by (intro exI [of _ l] exI [of _ r]) (simp add: split_beta)
    ultimately show ?thesis by simp
  qed
qed

subsection \<open>Accounts that cannot be shown\<close>

lemma mapE_raises: "x \<in> set xs \<Longrightarrow> f x = Inl e \<Longrightarrow> \<exists>e'. mapE f xs = Inl e'"
proof (induction xs)
  case (Cons y ys)
  then show ?case by (cases "f y"; cases "mapE f ys") auto
qed simp

lemma position_model_raises:
  assumes "mp_margin p \<le> 0"
  shows "\<exists>e. position_model cfg now marks p = Inl e"
proof (cases "position_model cfg now marks p")
  case (Inr x)
  then have "0 < mp_margin p"
    by (auto simp: position_model_def construct_Inr paper_position_valid_def Let_def result_simps
        split: prod.splits)
  with assms show ?thesis by simp
qed simp

lemma build_account_raises:
  assumes "p \<in> set (values_of (ps_positions s))" and "mp_margin p \<le> 0"
  shows "\<exists>e. build_account cfg dur now marks s = (s, Inl e)"
proof -
  obtain e where "position_model cfg now marks p = Inl e" using position_model_raises [OF assms(2)] by blast
  with mapE_raises [OF assms(1)] obtain e' where
    "mapE (position_model cfg now marks) (values_of (ps_positions s)) = Inl e'" by blast
  then show ?thesis by (simp add: build_account_def bind_read bindA_liftA raiseA_def)
qed

text \<open>A held position whose margin is zero (the margin is rounded, and the entry gate has no lower bound
  for it) makes the account unreadable: every snapshot raises, and so does engaging the emergency stop, although the stop
  is then engaged.\<close>

theorem zero_margin_wedges_account:
  assumes "p \<in> set (values_of (ps_positions s))" and "mp_margin p \<le> 0"
  shows "(\<exists>t e. snapshot cfg dur now marks s = (t, Inl e)) \<and>
    (\<exists>t e. set_emergency_stop cfg dur True now s = (t, Inl e) \<and> ps_emergency_stopped t)"
proof (intro conjI)
  let ?s0 = "s\<lparr>ps_session := Some (ensured_session cfg now s)\<rparr>"
  have "p \<in> set (values_of (ps_positions ?s0))" using assms(1) by simp
  from build_account_raises [OF this assms(2)] obtain e where
    "build_account cfg dur now marks ?s0 = (?s0, Inl e)" by blast
  then show "\<exists>t e. snapshot cfg dur now marks s = (t, Inl e)"
    by (auto simp: snapshot_def then_session)
  let ?s1 = "?s0\<lparr>ps_emergency_stopped := True, ps_updated_at := now\<rparr>"
  have "p \<in> set (values_of (ps_positions ?s1))" using assms(1) by simp
  from build_account_raises [OF this assms(2)] obtain e where
    "build_account cfg dur now [] ?s1 = (?s1, Inl e)" by blast
  then show "\<exists>t e. set_emergency_stop cfg dur True now s = (t, Inl e) \<and> ps_emergency_stopped t"
    by (intro exI [of _ ?s1] exI [of _ e]) (simp add: set_emergency_stop_def then_session then_modify)
qed

subsection \<open>Closing\<close>

lemma realise_exact_net:
  assumes "on_grid 8 g" "on_grid 8 x" "on_grid 8 f" and "\<bar>f\<bar> \<le> 10 ^ 19"
    and "quantize_usdt (d_sub (d_sub g x) f) = Inr v" and "\<bar>v\<bar> < 8 * 10 ^ 19"
  shows "v = g - x - f"
proof -
  have "d_sub g x = d_add g (- x)" by (simp add: d_sub_def d_add_def)
  then have q: "quantize_usdt (d_sub (d_add g (- x)) f) = Inr v" using assms(5) by simp
  show ?thesis using realise_exact [OF assms(1) on_grid_minus [OF assms(2)] assms(3,4) q assms(6)] by simp
qed

text \<open>What a close computes and stores, as one triple.\<close>

definition closed_from ::
    "paper_config \<Rightarrow> mutable_position \<Rightarrow> rat \<Rightarrow> paper_trade \<Rightarrow> paper_state \<Rightarrow> bool" where
  "closed_from cfg p before tr t \<longleftrightarrow>
     (\<exists>price gross fee net. close_figures cfg p price = Inr (gross, fee, net) \<and>
        pt_exit_price tr = price \<and> pt_gross_pnl tr = gross \<and> pt_net_pnl tr = net \<and>
        quantize_usdt (d_add (mp_entry_fee p) fee) = Inr (pt_fees tr) \<and>
        quantize_usdt (d_sub (d_add before gross) fee) = Inr (ps_balance t) \<and>
        pt_balance_after tr = ps_balance t) \<and>
     map_of (ps_positions t) (mp_symbol p) = None"

lemma realise_balance:
  "triple {} (\<lambda>s. ps_balance s = b) (realise gross fee)
     (\<lambda>_ s. quantize_usdt (d_sub (d_add b gross) fee) = Inr (ps_balance s)) (\<lambda>_. True)"
proof -
  let ?B = "\<lambda>s. quantize_usdt (d_sub (d_add b gross) fee) = Inr (ps_balance s)"
  have rest: "triple {} ?B m (\<lambda>_. ?B) (\<lambda>_. True)" if "keeps {} ?B m" for m :: "(paper_state, unit) act"
    using that by (rule keeps_triple) simp
  show ?thesis
    unfolding realise_def
  proof (rule triple_then, rule triple_update)
    show "?B (s\<lparr>ps_balance := v\<rparr>)"
      if "ps_balance s = b" "quantize_usdt (d_sub (d_add (ps_balance s) gross) fee) = Inr v" for s v
      using that by simp
  qed (simp, intro rest keep_rules keeps_update keeps_modify, simp_all add: on_session_def)
qed

lemma frame_sel:
  "ps_balance (on_session f s) = ps_balance s" "ps_positions (on_session f s) = ps_positions s"
  "ps_balance (append_trade cfg tr s) = ps_balance s"
  "ps_positions (append_trade cfg tr s) = ps_positions s"
  by (simp_all add: on_session_def append_trade_def Let_def)

lemma close_tail:
  assumes "\<And>n fees percent balance. pt_net_pnl (k n fees percent balance) = net \<and>
      pt_gross_pnl (k n fees percent balance) = gross \<and> pt_exit_price (k n fees percent balance) = price \<and>
      pt_fees (k n fees percent balance) = fees \<and> pt_balance_after (k n fees percent balance) = balance"
    and "close_figures cfg p price = Inr (gross, fee, net)"
  shows "triple {} (\<lambda>s. quantize_usdt (d_sub (d_add b gross) fee) = Inr (ps_balance s))
     (bindA next_sequence (\<lambda>n.
      bindA (liftA (quantize_usdt (d_add (mp_entry_fee p) fee))) (\<lambda>fees.
      bindA (liftA (return_percent net (mp_margin p))) (\<lambda>percent.
      bindA (readA ps_balance) (\<lambda>balance.
      let trade = k n fees percent balance in
      thenA (modifyA (append_trade cfg trade))
     (thenA (modifyA (\<lambda>s. s\<lparr>ps_positions := AList.delete (mp_symbol p) (ps_positions s)\<rparr>))
     (thenA (modifyA (\<lambda>s. s\<lparr>ps_updated_at := now\<rparr>))
     (thenA (modifyA (on_session (lock_session now))) (returnA trade)))))))))
     (\<lambda>tr t. closed_from cfg p b tr t) (\<lambda>_. True)"
proof (rule keeps_bind_triple, goal_cases)
  case 1
  show ?case by (simp add: keeps_def triple_def next_sequence_def)
next
  case (2 n)
  show ?case
  proof (rule triple_lift [OF _ TrueI], rule triple_lift [OF _ TrueI], rule triple_read_bind, rule tripleI,
      unfold Let_def then_modify returnA_def, goal_cases)
    case (1 fees percent balance s)
    let ?t = "on_session (lock_session now) (append_trade cfg (k n fees percent balance) s
      \<lparr>ps_positions := AList.delete (mp_symbol p) (ps_positions (append_trade cfg (k n fees percent balance) s)),
       ps_updated_at := now\<rparr>)"
    have t: "ps_balance ?t = ps_balance s" "map_of (ps_positions ?t) (mp_symbol p) = None"
      by (simp_all add: frame_sel map_of_delete)
    note k = assms(1) [of n fees percent balance]
    have "closed_from cfg p b (k n fees percent balance) ?t"
      unfolding closed_from_def t(1)
      by (intro conjI exI [of _ price] exI [of _ gross] exI [of _ fee] exI [of _ net])
        (use 1 assms(2) k t(2) in \<open>simp_all only: simp_thms\<close>)
    then show ?case by (simp only: prod.case sum.case)
  qed
qed simp

lemma close_held_figures:
  "triple {} (\<lambda>s. ps_balance s = b) (close_held cfg p mark reason now) (\<lambda>tr t. closed_from cfg p b tr t)
     (\<lambda>_. True)"
proof -
  have session: "keeps {} (\<lambda>s. ps_balance s = b) (ensure_session cfg now)"
    by (simp add: keeps_def triple_def ensure_session_def)
  show ?thesis
    unfolding close_held_def
    by (intro triple_lift2 triple_lift3 keeps_then_triple [OF session] triple_then [OF realise_balance]
        close_tail) simp_all
qed

lemma closed_from_cong:
  assumes "ps_balance u = ps_balance t" and "ps_positions u = ps_positions t"
  shows "closed_from cfg p b tr u = closed_from cfg p b tr t"
  unfolding closed_from_def assms ..

lemma file_order_balance: "ps_balance (file_order cfg o' s) = ps_balance s"
  by (simp add: file_order_def record_order_def Let_def)

interpretation closed: book_invariant "closed_from cfg p b tr" for cfg p b tr
proof
  show "closed_from cfg p b tr t" if "same_book s t" and "closed_from cfg p b tr s" for s t
    using that closed_from_cong [of t s] by (simp only: same_book_def)
  show "closed_from cfg p b tr (file_order c o' s)" if "closed_from cfg p b tr s" for s c o'
    using that closed_from_cong [OF file_order_balance file_order_positions] by simp
qed

lemma close_position_closed:
  assumes run: "close_position cfg dur symbol now mark reason marks s = (t, Inr res)"
    and held: "map_of (ps_positions s) (upper symbol) = Some p" and tr: "pr_trade res = Some tr"
  shows "closed_from cfg p (ps_balance s) tr t"
proof -
  let ?b = "ps_balance s"
  let ?Q = "\<lambda>res t. \<forall>tr. pr_trade res = Some tr \<longrightarrow> closed_from cfg p ?b tr t"
  have tail: "triple {} (closed_from cfg p ?b trade) (bindA next_sequence (\<lambda>n.
      bindA (liftA (construct paper_order_valid (closing_order n cid key side trade now))) (\<lambda>o'.
      thenA (modifyA (file_order cfg o'))
     (thenA (modifyA (\<lambda>s. s\<lparr>ps_updated_at := now\<rparr>))
     (bindA (build_account cfg dur now mk) (\<lambda>account.
      returnA (result_of True o' None (Some trade) [] None account))))))) ?Q (\<lambda>_. True)"
    for trade cid key side mk
    by (intro keeps_bind_triple [OF closed.keeps_sequence] triple_lift
        keeps_then_triple [OF closed.keeps_file] keeps_then_triple [OF closed.keeps_stamp]
        keeps_bind_triple [OF closed.keeps_build_account] triple_return)
      (simp_all add: result_of_def)
  have reject: "triple {} P (reject cfg dur key req cid code now mk lev ro checks rmax) ?Q (\<lambda>_. True)"
    for P key req cid code mk lev ro checks rmax
  proof -
    have "answers (\<lambda>res. pr_trade res = None) (reject cfg dur key req cid code now mk lev ro checks rmax)"
      unfolding reject_def by (intro answer_rules) (simp add: result_of_def)
    then show ?thesis unfolding answers_def
      by (rule triple_pre [rotated, OF triple_weaken]) simp_all
  qed
  have price: "triple {} P (case c of None \<Rightarrow> a | Some x \<Rightarrow> f x) Q E"
    if "triple {} P a Q E" and "\<And>x. triple {} P (f x) Q E"
    for c :: "'z option" and a and f :: "'z \<Rightarrow> (paper_state, paper_order_result) act" and P Q E
    using that by (cases c) simp_all
  have "map_of (ps_positions (s\<lparr>ps_session := Some (ensured_session cfg now s)\<rparr>)) (upper symbol) = Some p"
    using held by simp
  note step = run [unfolded close_position_def then_session Let_def bind_read this option.case]
  have body: "triple {} (\<lambda>s. ps_balance s = ?b)
      (case price_problem cfg mark of
         None \<Rightarrow> bindA (close_held cfg p mark reason now) (\<lambda>trade.
           bindA next_sequence (\<lambda>n.
           bindA (liftA (construct paper_order_valid (closing_order n cid key side trade now))) (\<lambda>o'.
           thenA (modifyA (file_order cfg o'))
          (thenA (modifyA (\<lambda>s. s\<lparr>ps_updated_at := now\<rparr>))
          (bindA (build_account cfg dur now mk) (\<lambda>account.
           returnA (result_of True o' None (Some trade) [] None account)))))))
       | Some code \<Rightarrow> reject cfg dur key req cid code now mk None True [] None) ?Q (\<lambda>_. True)"
    for cid key side mk req
    by (intro price reject triple_bind [OF close_held_figures tail])
  have seq: "keeps {} (\<lambda>s. ps_balance s = ?b) next_sequence"
    by (simp add: keeps_def triple_def next_sequence_def)
  have start: "ps_balance (s\<lparr>ps_session := Some (ensured_session cfg now s)\<rparr>) = ?b" by simp
  let ?req = "closing_request (upper symbol) (Some p)" and ?mk = "setdefault (upper symbol) mark marks"
  have whole: "triple {} (\<lambda>s. ps_balance s = ?b)
      (bindA next_sequence (\<lambda>n0. case price_problem cfg mark of
         None \<Rightarrow> bindA (close_held cfg p mark reason now) (\<lambda>trade.
           bindA next_sequence (\<lambda>n.
           bindA (liftA (construct paper_order_valid (closing_order n (seq_id ''paper-close-'' n0)
             (upper symbol) (sr_side ?req) trade now))) (\<lambda>o'.
           thenA (modifyA (file_order cfg o'))
          (thenA (modifyA (\<lambda>s. s\<lparr>ps_updated_at := now\<rparr>))
          (bindA (build_account cfg dur now ?mk) (\<lambda>account.
           returnA (result_of True o' None (Some trade) [] None account)))))))
       | Some code \<Rightarrow> reject cfg dur (upper symbol) ?req (seq_id ''paper-close-'' n0) code now ?mk
           None True [] None)) ?Q (\<lambda>_. True)"
    by (rule keeps_bind_triple [OF seq _ TrueI]) (rule body)
  have "?Q res t" by (rule triple_Inr [OF whole start]) (rule step)
  from this [THEN spec, THEN mp, OF tr] show ?thesis .
qed

text \<open>C39: a close books every amount once: with amounts below the bounds, the net result of the trade is
  gross minus fees, the fees are the entry fee plus the exit fee, the balance moves by the net result
  plus the entry fee (which left it at the opening), and the position is gone.\<close>

theorem close_books_each_amount_once:
  assumes "close_position cfg dur symbol now mark reason marks s = (t, Inr res)"
    and "map_of (ps_positions s) (upper symbol) = Some p" and "pr_trade res = Some tr"
    and "fee_rate_ok cfg" and "on_grid 8 (ps_balance s)" and "on_grid 8 (mp_entry_fee p)"
    and "\<bar>mp_entry_fee p\<bar> \<le> 10 ^ 19" and "\<bar>ps_balance t\<bar> < 8 * 10 ^ 19" and "\<bar>pt_net_pnl tr\<bar> < 8 * 10 ^ 19"
  shows "ps_balance t = ps_balance s + pt_net_pnl tr + mp_entry_fee p \<and>
    pt_net_pnl tr = pt_gross_pnl tr - pt_fees tr \<and> pt_balance_after tr = ps_balance t \<and>
    map_of (ps_positions t) (mp_symbol p) = None"
proof -
  obtain price gross fee net where f: "close_figures cfg p price = Inr (gross, fee, net)"
      "pt_gross_pnl tr = gross" "pt_net_pnl tr = net"
      "quantize_usdt (d_add (mp_entry_fee p) fee) = Inr (pt_fees tr)"
      "quantize_usdt (d_sub (d_add (ps_balance s) gross) fee) = Inr (ps_balance t)"
      "pt_balance_after tr = ps_balance t" "map_of (ps_positions t) (mp_symbol p) = None"
    using close_position_closed [OF assms(1-3)] by (auto simp: closed_from_def)
  note fee = close_figures_fee [OF f(1) assms(4)]
  have "quantize_usdt (d_sub (d_sub gross fee) (mp_entry_fee p)) = Inr net"
    using f(1) by (auto simp: close_figures_def result_simps)
  then have net: "net = gross - fee - mp_entry_fee p"
    using realise_exact_net fee(1,2) assms(6,7,9) f(3) by blast
  have "pt_fees tr = mp_entry_fee p + fee"
    using quantize_usdt_add [OF assms(6) fee(2) f(4)] .
  moreover have "ps_balance t = ps_balance s + gross - fee"
    by (rule realise_exact [OF assms(5) fee f(5) assms(8)])
  ultimately show ?thesis using f net by simp
qed

subsection \<open>Stale prices\<close>

text \<open>A position without what a mark says of it.\<close>

definition unmarked_view :: "mutable_position \<Rightarrow> mutable_position" where
  "unmarked_view p = p\<lparr>mp_mark_price := None, mp_mark_source := None, mp_mark_status := None\<rparr>"

definition idle :: "paper_state \<Rightarrow> paper_state \<Rightarrow> bool" where
  "idle s t \<longleftrightarrow>
     ps_balance t = ps_balance s \<and> ps_realized_pnl t = ps_realized_pnl s \<and>
     ps_starting_balance t = ps_starting_balance s \<and>
     map (\<lambda>(k, p). (k, unmarked_view p)) (ps_positions t) =
       map (\<lambda>(k, p). (k, unmarked_view p)) (ps_positions s)"

interpretation idle: book_invariant "idle s" for s
  by unfold_locales
    (simp_all add: idle_def same_book_def file_order_def record_order_def Let_def)

lemma unmark_view: "unmarked_view (unmark m p) = unmarked_view p"
  by (simp add: unmarked_view_def unmark_def)

lemma view_update:
  "map_of d k = Some p \<Longrightarrow> unmarked_view p' = unmarked_view p \<Longrightarrow>
   map (\<lambda>(k, p). (k, unmarked_view p)) (AList.update k p' d) = map (\<lambda>(k, p). (k, unmarked_view p)) d"
  by (induction d) (auto split: if_splits)

lemma idle_unmark:
  assumes "idle s t" and "map_of (ps_positions t) k = Some p"
  shows "idle s (put_position k (unmark m p) t)"
  using assms(1) view_update [OF assms(2) unmark_view, of m]
  by (simp add: idle_def put_position_def)

lemma tick_symbol_idle:
  assumes "\<forall>m \<in> snd ` set marks. \<not> mark_trusted cfg m"
  shows "triple {} (idle s) (tick_symbol cfg now marks symbol) (\<lambda>ts t. ts = [] \<and> idle s t) (idle s)"
proof -
  have none: "(case map_of marks symbol of None \<Rightarrow> None
      | Some m \<Rightarrow> (case (if mark_trusted cfg m then mk_last_price m else None) of
          None \<Rightarrow> None | Some price \<Rightarrow> Some (m, price))) = None"
    using assms by (auto dest!: map_of_SomeD split: option.splits)
  show ?thesis
    unfolding tick_symbol_def none option.case
  proof (rule triple_read_bind, goal_cases)
    case (1 held)
    show ?case
    proof (cases held)
      case None
      show ?thesis unfolding None option.case by (rule triple_return) simp
    next
      case (Some p)
      show ?thesis unfolding Some option.case
        by (rule triple_then [where Q = "idle s"], rule triple_modify, elim conjE, erule (1) idle_unmark)
          (rule triple_return, simp)
    qed
  qed
qed

lemma tick_symbols_idle:
  assumes "\<forall>m \<in> snd ` set marks. \<not> mark_trusted cfg m"
  shows "triple {} (idle s) (tick_symbols cfg now marks symbols) (\<lambda>ts t. ts = [] \<and> idle s t) (idle s)"
proof (induction symbols)
  case Nil
  show ?case unfolding tick_symbols.simps by (rule triple_return) simp
next
  case (Cons x xs)
  have tail: "triple {} (\<lambda>t. ts = [] \<and> idle s t)
      (bindA (tick_symbols cfg now marks xs) (\<lambda>us. returnA (ts @ us))) (\<lambda>ts t. ts = [] \<and> idle s t) (idle s)"
    for ts
    by (cases "ts = []")
      (simp_all add: triple_def [of _ "\<lambda>t. False"] triple_bind [OF Cons.IH] triple_return)
  show ?case unfolding tick_symbols.simps by (rule triple_bind [OF tick_symbol_idle [OF assms] tail])
qed

text \<open>A tick in which no price is usable and fresh manages nothing: it closes no trade, and the money,
  the set of positions and every level, extreme and size of each are as before; only what the
  positions say about their mark changes.\<close>

theorem stale_tick_manages_nothing:
  assumes "\<forall>m \<in> snd ` set marks. \<not> mark_trusted cfg m" and "tick cfg dur now marks s = (t, r)"
  shows "idle s t \<and> (\<forall>account closed. r = Inr (account, closed) \<longrightarrow> closed = [])"
proof -
  have "idle s s" by (simp add: idle_def)
  have tail: "triple {} (\<lambda>t. closed = [] \<and> idle s t)
      (thenA (modifyA (\<lambda>s. s\<lparr>ps_updated_at := now\<rparr>))
        (bindA (build_account cfg dur now marks) (\<lambda>account. returnA (account, closed))))
      (\<lambda>x t. snd x = [] \<and> idle s t) (idle s)" for closed
  proof (rule triple_pre [of _ "\<lambda>t. idle s t \<and> closed = []"], simp, rule triple_guard)
    assume "closed = []"
    then show "triple {} (idle s)
      (thenA (modifyA (\<lambda>s. s\<lparr>ps_updated_at := now\<rparr>))
        (bindA (build_account cfg dur now marks) (\<lambda>account. returnA (account, closed))))
      (\<lambda>x t. snd x = [] \<and> idle s t) (idle s)"
      by (intro keeps_then_triple [OF idle.keeps_stamp] keeps_bind_triple [OF idle.keeps_build_account]
          triple_return) simp_all
  qed
  have run: "triple {} (idle s) (tick cfg dur now marks) (\<lambda>x t. snd x = [] \<and> idle s t) (idle s)"
    unfolding tick_def
    by (intro keeps_then_triple [OF idle.keeps_session] keeps_bind_triple [OF keeps_read]
        triple_bind [OF tick_symbols_idle [OF assms(1)] tail])
  show ?thesis
  proof (cases r)
    case (Inl e)
    with triple_Inl [OF run \<open>idle s s\<close>, of t e] assms(2) show ?thesis by simp
  next
    case (Inr x)
    with triple_Inr [OF run \<open>idle s s\<close>, of t x] assms(2) show ?thesis by auto
  qed
qed

subsection \<open>The daily limit\<close>

definition today :: "timestamp \<Rightarrow> paper_state \<Rightarrow> bool" where
  "today now s \<longleftrightarrow> (\<exists>x. ps_session s = Some x \<and> ms_session_date x = date_of now)"

definition day_locked :: "timestamp \<Rightarrow> paper_state \<Rightarrow> bool" where
  "day_locked now s \<longleftrightarrow>
     (\<exists>x. ps_session s = Some x \<and> ms_session_date x = date_of now \<and>
        (ms_profit_target x \<le> ms_realized_pnl x \<or> ms_realized_pnl x \<le> ms_loss_limit x \<longrightarrow>
         blocks_entries (ms_lock_state x)))"

lemma today_simps:
  "today now (s\<lparr>ps_balance := v\<rparr>) = today now s" "today now (s\<lparr>ps_realized_pnl := v\<rparr>) = today now s"
  "today now (s\<lparr>ps_total_fees := v\<rparr>) = today now s" "today now (s\<lparr>ps_sequence := n\<rparr>) = today now s"
  "today now (s\<lparr>ps_positions := d\<rparr>) = today now s" "today now (s\<lparr>ps_updated_at := u\<rparr>) = today now s"
  "today now (append_trade cfg tr s) = today now s"
  by (simp_all add: today_def append_trade_def Let_def)

lemma today_session:
  "today now s \<Longrightarrow> (\<And>x. ms_session_date (f x) = ms_session_date x) \<Longrightarrow> today now (on_session f s)"
  by (auto simp: today_def on_session_def)

lemma realise_today: "keeps {} (today now) (realise gross fee)"
  unfolding realise_def
  by (intro keep_rules keeps_update keeps_modify) (simp_all add: today_simps today_session)

lemma ensure_today: "triple {} P (ensure_session cfg now) (\<lambda>_. today now) (\<lambda>_. True)"
  by (simp add: triple_def ensure_session_def today_def ensured_session_def new_session_def
      split: option.splits)

lemma lock_today: "today now s \<Longrightarrow> day_locked now (on_session (lock_session now) s)"
proof -
  assume "today now s"
  then obtain x where x: "ps_session s = Some x" "ms_session_date x = date_of now"
    unfolding today_def by (elim exE conjE)
  have "ms_session_date (lock_session now x) = ms_session_date x \<and>
      (ms_profit_target (lock_session now x) \<le> ms_realized_pnl (lock_session now x) \<or>
       ms_realized_pnl (lock_session now x) \<le> ms_loss_limit (lock_session now x) \<longrightarrow>
       blocks_entries (ms_lock_state (lock_session now x)))"
    by (simp add: lock_session_def blocks_entries_def)
  then show ?thesis
    unfolding day_locked_def by (intro exI [of _ "lock_session now x"]) (simp add: on_session_def x)
qed

lemma close_held_locks:
  "triple {} (\<lambda>_. True) (close_held cfg p mark reason now) (\<lambda>_. day_locked now) (\<lambda>_. True)"
proof -
  have real: "triple {} (today now) (realise gross fee) (\<lambda>_. today now) (\<lambda>_. True)" for gross fee
    using realise_today by (rule keeps_triple) simp
  have seq: "keeps {} (today now) next_sequence"
    by (simp add: keeps_def triple_def next_sequence_def today_simps)
  have last: "triple {} (today now)
      (thenA (modifyA (append_trade cfg trade))
      (thenA (modifyA (\<lambda>s. s\<lparr>ps_positions := AList.delete (mp_symbol p) (ps_positions s)\<rparr>))
      (thenA (modifyA (\<lambda>s. s\<lparr>ps_updated_at := now\<rparr>))
      (thenA (modifyA (on_session (lock_session now))) (returnA trade)))))
      (\<lambda>_. day_locked now) (\<lambda>_. True)" for trade
    by (rule tripleI) (simp only: then_modify returnA_def prod.case sum.case lock_today today_simps)
  show ?thesis
    unfolding close_held_def Let_def
    by (intro triple_lift2 triple_lift3 triple_then [OF ensure_today] triple_then [OF real]
        keeps_bind_triple [OF seq] triple_lift keeps_bind_triple [OF keeps_read] last TrueI)
qed

lemma locked_session: "day_locked now t = day_locked now s" if "ps_session t = ps_session s"
  using that by (simp add: day_locked_def)

lemma locked_rules:
  "keeps {} (day_locked now) next_sequence" "keeps {} (day_locked now) (modifyA (file_order cfg o'))"
  "keeps {} (day_locked now) (modifyA (\<lambda>s. s\<lparr>ps_updated_at := u\<rparr>))"
  "keeps {} (day_locked now) (ensure_session cfg now)"
proof -
  show "keeps {} (day_locked now) next_sequence"
    by (simp add: keeps_def triple_def next_sequence_def day_locked_def)
  show "keeps {} (day_locked now) (modifyA (file_order cfg o'))"
    by (rule keeps_modify) (simp add: day_locked_def file_order_def record_order_def Let_def)
  show "keeps {} (day_locked now) (modifyA (\<lambda>s. s\<lparr>ps_updated_at := u\<rparr>))"
    by (rule keeps_modify) (simp add: day_locked_def)
  show "keeps {} (day_locked now) (ensure_session cfg now)"
    by (auto simp: keeps_def triple_def ensure_session_def day_locked_def ensured_session_def)
qed

lemma keeps_locked_account: "keeps {} (day_locked now) (build_account cfg dur now marks)"
  unfolding build_account_def by (intro keep_rules locked_rules)

lemma close_position_locks:
  "triple {} (\<lambda>_. True) (close_position cfg dur symbol now mark reason marks)
     (\<lambda>res t. pr_trade res \<noteq> None \<longrightarrow> day_locked now t) (\<lambda>_. True)"
proof -
  let ?Q = "\<lambda>res t. pr_trade res \<noteq> None \<longrightarrow> day_locked now t"
  have tail: "triple {} (day_locked now) (bindA next_sequence (\<lambda>n.
      bindA (liftA (construct paper_order_valid (closing_order n cid key side trade now))) (\<lambda>o'.
      thenA (modifyA (file_order cfg o'))
     (thenA (modifyA (\<lambda>s. s\<lparr>ps_updated_at := now\<rparr>))
     (bindA (build_account cfg dur now mk) (\<lambda>account.
      returnA (result_of True o' None (Some trade) [] None account))))))) ?Q (\<lambda>_. True)"
    for trade cid key side mk
    by (intro keeps_bind_triple [OF locked_rules(1)] triple_lift keeps_then_triple [OF locked_rules(2)]
        keeps_then_triple [OF locked_rules(3)] keeps_bind_triple [OF keeps_locked_account] triple_return)
      simp_all
  have reject: "triple {} (\<lambda>_. True) (reject cfg dur key req cid code now mk lev ro checks rmax) ?Q (\<lambda>_. True)"
    for key req cid code mk lev ro checks rmax
  proof -
    have "answers (\<lambda>res. pr_trade res = None) (reject cfg dur key req cid code now mk lev ro checks rmax)"
      unfolding reject_def by (intro answer_rules) (simp add: result_of_def)
    then show ?thesis unfolding answers_def by (rule triple_weaken) simp_all
  qed
  have choice: "triple {} (\<lambda>_. True) (case c of None \<Rightarrow> a | Some x \<Rightarrow> f x) ?Q (\<lambda>_. True)"
    if "triple {} (\<lambda>_. True) a ?Q (\<lambda>_. True)" and "\<And>x. triple {} (\<lambda>_. True) (f x) ?Q (\<lambda>_. True)"
    for c :: "'z option" and a and f :: "'z \<Rightarrow> (paper_state, paper_order_result) act"
    using that by (cases c) simp_all
  show ?thesis
    unfolding close_position_def Let_def
    by (intro keeps_then_triple [OF keeps_True] keeps_bind_triple [OF keeps_True] choice reject
        triple_bind [OF close_held_locks tail] TrueI)
qed

text \<open>After a close that leaves the day's realised result at or past its profit target or loss limit,
  the day is locked: with any later time of the same day the session stays as it is, so that new
  entries are refused, and with any time of another day a new session is open and unlocked.\<close>

theorem daily_limit_locks_the_day:
  assumes "close_position cfg dur symbol now mark reason marks s = (t, Inr res)" and "pr_trade res \<noteq> None"
  shows "\<exists>x. ps_session t = Some x \<and>
    (ms_profit_target x \<le> ms_realized_pnl x \<or> ms_realized_pnl x \<le> ms_loss_limit x \<longrightarrow>
       blocks_entries (ms_lock_state x)) \<and>
    (\<forall>now'. date_of now' = date_of now \<longrightarrow> ensured_session cfg now' t = x) \<and>
    (\<forall>now'. date_of now' \<noteq> date_of now \<longrightarrow>
       \<not> blocks_entries (ms_lock_state (ensured_session cfg now' t)))"
proof -
  have "day_locked now t" using triple_Inr [OF close_position_locks TrueI assms(1)] assms(2) by (rule mp)
  then obtain x where x: "ps_session t = Some x" "ms_session_date x = date_of now"
      "ms_profit_target x \<le> ms_realized_pnl x \<or> ms_realized_pnl x \<le> ms_loss_limit x \<longrightarrow>
       blocks_entries (ms_lock_state x)"
    unfolding day_locked_def by (elim exE conjE) blast
  show ?thesis
    by (intro exI [of _ x] conjI allI impI, fact x(1), rule mp [OF x(3)], assumption)
      (simp_all add: ensured_session_def x new_session_def blocks_entries_def)
qed

subsection \<open>A concrete account for the witnesses\<close>

definition example_config :: paper_config where
  "example_config =
     \<lparr>pc_starting_balance = 10000, pc_daily_profit_target = 10, pc_daily_loss_limit = - 500,
      pc_max_open_positions = 3, pc_max_position_notional = 5000,
      pc_max_portfolio_exposure = 10000, pc_max_data_age_seconds = 5, pc_taker_fee_bps = 4,
      pc_slippage_bps = 5, pc_max_order_log = 100, pc_max_trade_log = 100\<rparr>"

definition example_mark :: "rat \<Rightarrow> mark_price" where
  "example_mark price =
     \<lparr>mk_symbol = ''X'', mk_status = OK, mk_source = ''v'', mk_last_price = Some price,
      mk_bid_price = Some price, mk_ask_price = Some price, mk_age_seconds = Some 1\<rparr>"

definition example_held :: "rat \<Rightarrow> mutable_position" where
  "example_held margin =
     \<lparr>mp_position_id = ''p'', mp_symbol = ''X'', mp_side = LONG, mp_quantity = 2, mp_entry_price = 100,
      mp_notional = 200, mp_margin = margin, mp_approved_leverage = 1, mp_entry_fee = 8 / 100,
      mp_opened_at = 0, mp_updated_at = 0, mp_opening_order_id = ''o'', mp_stop_price = Some 95,
      mp_target_price = Some 120, mp_trailing_stop_percent = None, mp_trail_extreme = None,
      mp_liquidation_price = Some 90, mp_mark_price = Some 100, mp_mark_source = None,
      mp_mark_status = Some OK, mp_thesis = None, mp_best_price = Some 100, mp_worst_price = Some 100\<rparr>"

definition example_account :: "rat \<Rightarrow> paper_state" where
  "example_account margin = (fresh_state 10000 0)
     \<lparr>ps_balance := 9999 + 92 / 100, ps_realized_pnl := - (8 / 100), ps_total_fees := 8 / 100,
      ps_positions := [(''X'', example_held margin)]\<rparr>"

lemma upper_X: "upper ''X'' = ''X''" by code_simp

lemma example_figures:
  "close_figures example_config (example_held 200) 110 = Inr (20, 88 / 1000, 19832 / 1000)"
proof -
  have sums: "d_sub 110 100 = 10" "d_mul 10 2 = 20" "d_mul 2 110 = 220" "d_mul 220 4 = 880"
    "d_div 880 10000 = Inr (11 / 125)" "d_sub 20 (11 / 125) = 2489 / 125"
    "d_sub (2489 / 125) (2 / 25) = 2479 / 125"
    by (simp_all add: dec_eval)
  have rounds: "quantize_usdt 20 = Inr 20" "quantize_usdt 220 = Inr 220"
    "quantize_usdt (11 / 125) = Inr (11 / 125)" "quantize_usdt (2479 / 125) = Inr (2479 / 125)"
    by (simp_all add: quantize_usdt_def USDT_PLACES_def dec_eval)
  show ?thesis
    by (simp add: close_figures_def gross_pnl_def example_held_def example_config_def is_long_def BPS_def
        sums rounds)
qed

lemma example_fill:
  "fill_price (example_mark price) False b = Inr (price, BestBid ''v'')" if "0 < price"
  using that by (simp add: fill_price_def example_mark_def)

lemma account_of_nothing:
  assumes "ps_positions s = []" and "on_grid 8 (ps_balance s)" and "\<bar>ps_balance s\<bar> < 10 ^ 20"
    and "ms_trades_closed (ensured_session cfg now s) \<ge> 0"
    and "ms_orders_submitted (ensured_session cfg now s) \<ge> 0"
    and "ms_orders_rejected (ensured_session cfg now s) \<ge> 0"
  shows "\<exists>a. build_account cfg dur now marks s =
    (s\<lparr>ps_session := Some (ensured_session cfg now s)\<rparr>, Inr a)"
proof -
  have "ctx_round (ps_balance s) = ps_balance s"
    using assms(2,3) by (intro ctx_round_exact grid_dec28 [of 8]) simp_all
  moreover have "quantize_usdt (ps_balance s) = Inr (ps_balance s)"
    using assms(2,3) by (rule quantize_usdt_exact)
  moreover have "quantize_usdt 0 = Inr 0" by (rule quantize_usdt_exact) simp_all
  ultimately show ?thesis
    using assms
    by (simp add: build_account_def bind_read values_of_def bindA_liftA d_sum_def d_add_def d_sub_def
        unrealized_total_def bindA_def [of "ensure_session _ _"] ensure_session_def session_to_model_def
        construct_def daily_session_valid_def returnA_def)
qed


lemma bind_sequence:
  "bindA next_sequence k s = k (ps_sequence s + 1) (s\<lparr>ps_sequence := ps_sequence s + 1\<rparr>)"
  by (simp add: bindA_def next_sequence_def)

lemma bind_run_Inr: "m s = (t, Inr x) \<Longrightarrow> bindA m f s = f x t"
  by (simp add: bindA_def)

lemma then_update:
  "thenA (updateA f put) k s = (case f s of Inl e \<Rightarrow> (s, Inl e) | Inr v \<Rightarrow> k (put v s))"
  by (simp add: thenA_def bindA_def updateA_def split: sum.splits)

lemma example_realise:
  assumes "ps_balance s = 9999 + 92 / 100" and "ps_realized_pnl s = - (8 / 100)"
    and "ps_total_fees s = 8 / 100" and "ps_session s = Some x" and "ms_realized_pnl x = 0" "ms_fees x = 0"
  shows "\<exists>t. realise 20 (88 / 1000) s = (t, Inr ()) \<and> ps_balance t = 1252479 / 125 \<and>
    (\<exists>y. ps_session t = Some y \<and> ms_trades_closed y = ms_trades_closed x + 1 \<and>
       ms_orders_submitted y = ms_orders_submitted x \<and> ms_orders_rejected y = ms_orders_rejected x \<and>
       ms_session_date y = ms_session_date x) \<and>
    ps_positions t = ps_positions s"
proof -
  have sums: "d_add (249998 / 25) 20 = 250498 / 25" "d_sub (250498 / 25) (11 / 125) = 1252479 / 125"
    "d_add (- (2 / 25)) 20 = 498 / 25" "d_sub (498 / 25) (11 / 125) = 2479 / 125"
    "d_add (2 / 25) (11 / 125) = 21 / 125" "d_add 0 20 = 20" "d_sub 20 (11 / 125) = 2489 / 125"
    "d_add 0 (11 / 125) = 11 / 125"
    by (simp_all add: dec_eval)
  have rounds: "quantize_usdt (1252479 / 125) = Inr (1252479 / 125)"
    "quantize_usdt (2479 / 125) = Inr (2479 / 125)" "quantize_usdt (21 / 125) = Inr (21 / 125)"
    "quantize_usdt (2489 / 125) = Inr (2489 / 125)" "quantize_usdt (11 / 125) = Inr (11 / 125)"
    by (simp_all add: quantize_usdt_def USDT_PLACES_def dec_eval)
  show ?thesis
    by (simp add: realise_def then_update assms sums rounds session_value_def on_session_def modifyA_def)
qed

lemma example_close_held:
  assumes "ps_balance s = 9999 + 92 / 100" and "ps_realized_pnl s = - (8 / 100)"
    and "ps_total_fees s = 8 / 100" and "ps_session s = Some (new_session example_config (date_of now))"
    and "ps_positions s = [(''X'', example_held 200)]"
  shows "\<exists>t tr. close_held example_config (example_held 200) (example_mark 110) reason now s = (t, Inr tr) \<and>
    ps_balance t = 1252479 / 125 \<and> ps_positions t = [] \<and> pt_net_pnl tr = 2479 / 125 \<and>
    pt_quantity tr = 2 \<and>
    (\<exists>y. ps_session t = Some y \<and> ms_trades_closed y = 1 \<and> ms_orders_submitted y = 0 \<and>
       ms_orders_rejected y = 0 \<and> ms_session_date y = date_of now)"
proof -
  define s0 where "s0 = s\<lparr>ps_session := Some (ensured_session example_config now s)\<rparr>"
  have s0: "ps_balance s0 = 9999 + 92 / 100" "ps_realized_pnl s0 = - (8 / 100)" "ps_total_fees s0 = 8 / 100"
    "ps_session s0 = Some (new_session example_config (date_of now))"
    "ms_realized_pnl (new_session example_config (date_of now)) = 0"
    "ms_fees (new_session example_config (date_of now)) = 0"
    using assms by (simp_all add: s0_def ensured_session_def new_session_def)
  obtain t y where t: "realise 20 (88 / 1000) s0 = (t, Inr ())" "ps_balance t = 1252479 / 125"
      "ps_positions t = ps_positions s0" "ps_session t = Some y" "ms_trades_closed y = 1"
      "ms_orders_submitted y = 0" "ms_orders_rejected y = 0" "ms_session_date y = date_of now"
    using example_realise [OF s0] by (auto simp: new_session_def)
  have positions: "ps_positions t = [(''X'', example_held 200)]" using t(3) assms(5) by (simp add: s0_def)
  have held: "is_long (example_held 200)" "mp_entry_fee (example_held 200) = 2 / 25"
    "mp_margin (example_held 200) = 200" "mp_symbol (example_held 200) = ''X''"
    "mp_quantity (example_held 200) = 2"
    by (simp_all add: example_held_def is_long_def)
  have sums: "d_add (2 / 25) (11 / 125) = 21 / 125" "d_div (2479 / 125) 200 = Inr (2479 / 25000)"
    "d_mul (2479 / 25000) 100 = 2479 / 250"
    by (simp_all add: dec_eval)
  have rounds: "quantize_usdt (21 / 125) = Inr (21 / 125)" "quantize_usdt (2479 / 250) = Inr (2479 / 250)"
    by (simp_all add: quantize_usdt_def USDT_PLACES_def dec_eval)
  have figures: "close_figures example_config (example_held 200) 110 = Inr (20, 11 / 125, 2479 / 125)"
    using example_figures by simp
  have realised: "thenA (realise 20 (11 / 125)) k s0 = k t" for k :: "(paper_state, 'z) act"
    using t(1) by (simp add: thenA_def bindA_def)
  have fill: "fill_price (example_mark 110) False b = Inr (110, BestBid ''v'')" for b
    by (rule example_fill) simp
  have ret: "return_percent (2479 / 125) 200 = Inr (2479 / 250)"
    by (simp add: return_percent_def sums rounds)
  let ?k = "\<lambda>tr. on_session (lock_session now) (append_trade example_config tr
      (t\<lparr>ps_sequence := ps_sequence t + 1\<rparr>)\<lparr>ps_positions := [], ps_updated_at := now\<rparr>)"
  have run: "\<exists>tr. close_held example_config (example_held 200) (example_mark 110) reason now s = (?k tr, Inr tr) \<and>
      pt_net_pnl tr = 2479 / 125 \<and> pt_quantity tr = 2"
    by (simp add: close_held_def bindA_liftA held fill figures then_session s0_def [symmetric] realised
        bind_sequence sums rounds ret bind_read then_modify positions returnA_def frame_sel
        append_trade_def on_session_def Let_def)
  have "ps_balance (?k tr) = 1252479 / 125 \<and> ps_positions (?k tr) = [] \<and>
      ps_session (?k tr) = Some (lock_session now y)" for tr
    using t(2,4) by (simp add: on_session_def append_trade_def Let_def)
  moreover have "ms_trades_closed (lock_session now y) = 1 \<and> ms_orders_submitted (lock_session now y) = 0 \<and>
      ms_orders_rejected (lock_session now y) = 0 \<and> ms_session_date (lock_session now y) = date_of now"
    using t(5-8) by (simp add: lock_session_def)
  ultimately show ?thesis using run by blast
qed

lemma example_close:
  "\<exists>t res tr. close_position example_config dur ''X'' now (example_mark 110) reason [] (example_account 200)
      = (t, Inr res) \<and> pr_trade res = Some tr \<and> pt_net_pnl tr = 2479 / 125 \<and>
    ps_balance t = 1252479 / 125"
proof -
  define s1 where "s1 = (example_account 200)
    \<lparr>ps_session := Some (ensured_session example_config now (example_account 200)), ps_sequence := 1\<rparr>"
  have s1: "ps_balance s1 = 9999 + 92 / 100" "ps_realized_pnl s1 = - (8 / 100)" "ps_total_fees s1 = 8 / 100"
      "ps_session s1 = Some (new_session example_config (date_of now))"
      "ps_positions s1 = [(''X'', example_held 200)]"
    by (simp_all add: s1_def example_account_def fresh_state_def ensured_session_def)
  obtain t tr y where t: "close_held example_config (example_held 200) (example_mark 110) reason now s1 = (t, Inr tr)"
      "ps_balance t = 1252479 / 125" "ps_positions t = []" "pt_net_pnl tr = 2479 / 125" "pt_quantity tr = 2"
      "ps_session t = Some y" "ms_trades_closed y = 1" "ms_orders_submitted y = 0" "ms_orders_rejected y = 0"
      "ms_session_date y = date_of now"
    using example_close_held [OF s1, where reason = reason] by blast
  have price: "price_problem example_config (example_mark 110) = None"
    by (simp add: price_problem_def check_market_data_def example_mark_def example_config_def mark_is_usable_def)
  let ?req = "closing_request ''X'' (Some (example_held 200))"
  let ?o = "closing_order (ps_sequence t + 1) (seq_id ''paper-close-'' 1) ''X'' (sr_side ?req) tr now"
  have valid: "construct paper_order_valid ?o = Inr ?o"
    by (simp add: construct_def paper_order_valid_def closing_order_def t(5))
  define t1 where "t1 = (file_order example_config ?o (t\<lparr>ps_sequence := ps_sequence t + 1\<rparr>))
      \<lparr>ps_updated_at := now\<rparr>"
  have t1: "ps_positions t1 = []" "ps_balance t1 = 1252479 / 125" "ensured_session example_config now t1 = y"
    using t(2,3,6,10)
    by (simp_all add: t1_def file_order_def record_order_def Let_def ensured_session_def)
  have grid: "on_grid 8 (1252479 / 125 :: rat)"
    unfolding on_grid_def by (rule exI [of _ 1001983200000]) simp
  obtain a where a: "build_account example_config dur now (setdefault ''X'' (example_mark 110) []) t1
      = (t1\<lparr>ps_session := Some y\<rparr>, Inr a)"
    using account_of_nothing [of t1 example_config now dur] t1 grid t(7-9) by auto
  have "close_position example_config dur ''X'' now (example_mark 110) reason [] (example_account 200)
      = (t1\<lparr>ps_session := Some y\<rparr>, Inr (result_of True ?o None (Some tr) [] None a))"
  proof -
    have held: "map_of (ps_positions (example_account 200)) ''X'' = Some (example_held 200)"
      and seq: "ps_sequence (example_account 200) = 0"
      by (simp_all add: example_account_def fresh_state_def)
    have closed: "bindA (close_held example_config (example_held 200) (example_mark 110) reason now) f s1 = f tr t"
      for f :: "paper_trade \<Rightarrow> (paper_state, 'z) act"
      using t(1) by (rule bind_run_Inr)
    have shown: "bindA (build_account example_config dur now (setdefault ''X'' (example_mark 110) [])) f t1
        = f a (t1\<lparr>ps_session := Some y\<rparr>)" for f :: "paper_account \<Rightarrow> (paper_state, 'z) act"
      using a by (rule bind_run_Inr)
    show ?thesis
      by (simp add: close_position_def then_session Let_def upper_X bind_read held bind_sequence seq price
          s1_def [symmetric, simplified] closed bindA_liftA valid [simplified] then_modify
          t1_def [symmetric, simplified] shown returnA_def)
  qed
  then show ?thesis using t1(2) t(4) by (auto simp: result_of_def)
qed

definition example_request :: submit_order_request where
  "example_request =
     \<lparr>sr_symbol = ''X'', sr_side = BUY, sr_quantity = Some 1, sr_margin = None,
      sr_stop_loss_percent = None, sr_take_profit_percent = None, sr_trailing_stop_percent = None,
      sr_client_order_id = Some ''c'', sr_strategy_context = None\<rparr>"

lemma example_refusal:
  fixes b :: rat
  assumes "ps_positions s = []" and "ps_balance s = 10000" and "ps_orders_by_client_id s = []"
    and "ps_order_log s = []" and "ps_session s = None"
    and code: "check_authority en (s\<lparr>ps_session := Some (new_session example_config (date_of now))\<rparr>) = Some code"
  shows "\<exists>t res o'. submit_order example_config dur example_request now mark None lev en [] [] None s
      = (t, Inr res) \<and> map_of (ps_orders_by_client_id t) ''c'' = Some o' \<and> \<not> pr_accepted res \<and>
    ps_balance t = 10000 \<and> ps_realized_pnl t = ps_realized_pnl s"
proof -
  let ?x = "(new_session example_config (date_of now))\<lparr>ms_orders_rejected := 1\<rparr>"
  let ?o = "rejected_order (Suc (ps_sequence s)) ''c'' ''X'' example_request False None code now"
  define t where "t = s\<lparr>ps_session := Some ?x, ps_sequence := Suc (ps_sequence s),
      ps_orders_by_client_id := [(''c'', ?o)], ps_order_log := [?o], ps_updated_at := now\<rparr>"
  have day: "ensured_session example_config now s = new_session example_config (date_of now)"
    "ensured_session example_config now (s\<lparr>ps_session := Some (new_session example_config (date_of now))\<rparr>)
       = new_session example_config (date_of now)"
    using assms(5) by (simp_all add: ensured_session_def new_session_def)
  have t: "ps_positions t = []" "ps_balance t = 10000" "ensured_session example_config now t = ?x"
    using assms(1,2) by (simp_all add: t_def ensured_session_def new_session_def)
  have "on_grid 8 (10000 :: rat)" using on_grid_of_int [of 8 10000] by simp
  then obtain a where "build_account example_config dur now (setdefault ''X'' mark []) t
      = (t\<lparr>ps_session := Some ?x\<rparr>, Inr a)"
    using account_of_nothing [of t example_config now dur] t by (auto simp: new_session_def)
  then have a: "bindA (build_account example_config dur now (setdefault ''X'' mark [])) f t
      = f a (t\<lparr>ps_session := Some ?x\<rparr>)" for f :: "paper_account \<Rightarrow> (paper_state, 'z) act"
    by (rule bind_run_Inr)
  have req: "sr_client_order_id example_request = Some ''c''" "sr_symbol example_request = ''X''"
    by (simp_all add: example_request_def)
  have valid: "construct paper_order_valid ?o = Inr ?o"
    by (simp add: construct_def paper_order_valid_def rejected_order_def requested_or_nominal_def
        example_request_def)
  have early: "early_refusal example_config en mark example_request
      (s\<lparr>ps_session := Some (new_session example_config (date_of now))\<rparr>) = Some code"
    by (simp add: early_refusal_def code)
  have filed: "(file_order example_config ?o (s\<lparr>ps_session := Some ?x, ps_sequence := Suc (ps_sequence s)\<rparr>))
      \<lparr>ps_updated_at := now\<rparr> = t"
    using assms(3,4)
    by (simp add: t_def file_order_def record_order_def rejected_order_def example_config_def Let_def)
  have marked: "on_session (\<lambda>x. x\<lparr>ms_orders_rejected := ms_orders_rejected x + 1\<rparr>)
      (s\<lparr>ps_session := Some (new_session example_config (date_of now))\<rparr>) = s\<lparr>ps_session := Some ?x\<rparr>"
    by (simp add: on_session_def new_session_def)
  have "submit_order example_config dur example_request now mark None lev en [] [] None s
      = (t\<lparr>ps_session := Some ?x\<rparr>, Inr (result_of False ?o None None [] None a))"
    unfolding submit_order_def then_session day Let_def client_id_of_def req option.case upper_X
    by (simp add: act_simps bind_read assms(3) early reject_def then_session day then_modify marked
        bind_sequence valid filed a returnA_def)
  moreover have "map_of (ps_orders_by_client_id (t\<lparr>ps_session := Some ?x\<rparr>)) ''c'' = Some ?o"
    "ps_realized_pnl (t\<lparr>ps_session := Some ?x\<rparr>) = ps_realized_pnl s"
    "ps_balance (t\<lparr>ps_session := Some ?x\<rparr>) = 10000"
    using assms(2) by (simp_all add: t_def)
  moreover have "\<not> pr_accepted (result_of False ?o None None [] None a)" by (simp add: result_of_def)
  ultimately show ?thesis by blast
qed

subsection \<open>Witnesses\<close>

lemma example_paper_off:
  "\<exists>t res o'. submit_order example_config dur example_request now mark None lev False [] [] None
      (fresh_state 10000 0) = (t, Inr res) \<and> map_of (ps_orders_by_client_id t) ''c'' = Some o' \<and>
    \<not> pr_accepted res \<and> ps_balance t = 10000 \<and> ps_realized_pnl t = 0"
  using example_refusal [of "fresh_state 10000 0" False now MODE_NOT_ENABLED dur mark lev]
  by (simp add: fresh_state_def check_authority_def)



theorem replay_opens_nothing_witness:
  "\<exists>s t r. paper_run {} (\<lambda>_. True) example_config IN_MEMORY (fresh_state 10000 0) s \<and>
    submit_order example_config IN_MEMORY example_request 7 (example_mark 100) None
      (resolve_leverage None None None False) True [] [] None s = (t, r) \<and>
    ps_positions t = ps_positions s"
proof -
  obtain s res o' where s: "submit_order example_config IN_MEMORY example_request 5 (example_mark 100) None
      (resolve_leverage None None None False) False [] [] None (fresh_state 10000 0) = (s, Inr res)"
      "map_of (ps_orders_by_client_id s) ''c'' = Some o'"
    using example_paper_off by blast
  have run: "paper_run {} (\<lambda>_. True) example_config IN_MEMORY (fresh_state 10000 0) s"
    by (rule Step [OF Start Submitted [OF s(1)]]) simp_all
  obtain t r where t: "submit_order example_config IN_MEMORY example_request 7 (example_mark 100) None
      (resolve_leverage None None None False) True [] [] None s = (t, r)"
    by (cases "submit_order example_config IN_MEMORY example_request 7 (example_mark 100) None
      (resolve_leverage None None None False) True [] [] None s")
  have "t = s\<lparr>ps_session := Some (ensured_session example_config 7 s)\<rparr>"
    using replay_opens_nothing [OF run s(2) _ _ t] by (simp add: example_request_def)
  with run t show ?thesis by (intro exI [of _ s] exI [of _ t] exI [of _ r]) simp
qed

theorem refused_order_touches_nothing_witness:
  "\<exists>t res. submit_order example_config IN_MEMORY example_request 5 (example_mark 100) None
      (resolve_leverage None None None False) False [] [] None (fresh_state 10000 0) = (t, Inr res) \<and>
    \<not> pr_accepted res \<and> ps_positions t = []"
proof -
  obtain t res o' where t: "submit_order example_config IN_MEMORY example_request 5 (example_mark 100) None
      (resolve_leverage None None None False) False [] [] None (fresh_state 10000 0) = (t, Inr res)"
      "\<not> pr_accepted res"
    using example_paper_off by blast
  with refused_order_touches_nothing [OF t] show ?thesis by (auto simp: fresh_state_def)
qed

theorem halt_reported_first_witness:
  "\<exists>t res. submit_order example_config IN_MEMORY example_request 5 (example_mark 100) None
      (resolve_leverage None None None False) True [] [] None
      ((fresh_state 10000 0)\<lparr>ps_emergency_stopped := True\<rparr>) = (t, Inr res) \<and>
    po_rejection_code (pr_order res) = Some EMERGENCY_STOP"
proof -
  let ?s = "(fresh_state 10000 0)\<lparr>ps_emergency_stopped := True\<rparr>"
  obtain t res where t: "submit_order example_config IN_MEMORY example_request 5 (example_mark 100) None
      (resolve_leverage None None None False) True [] [] None ?s = (t, Inr res)"
    using example_refusal [of ?s True 5 EMERGENCY_STOP IN_MEMORY "example_mark 100"
        "resolve_leverage None None None False"]
    by (auto simp: fresh_state_def check_authority_def)
  with halt_reported_first [OF t, of "''c''"] show ?thesis
    by (auto simp: fresh_state_def example_request_def)
qed

theorem nearest_adverse_level_fires_witness:
  "triggered_exit (example_held 200) 80 = Inr (Some STOP_LOSS)"
proof -
  have "trailing_level (example_held 200) = Inr None" by (simp add: trailing_level_def example_held_def)
  note fires = nearest_adverse_level_fires [OF this, of 80]
  have levels: "adverse_levels (example_held 200) None 80 = {(90, LIQUIDATION), (95, STOP_LOSS)}"
    by (auto simp: adverse_levels_def example_held_def is_long_def)
  have long: "is_long (example_held 200)" by (simp add: example_held_def is_long_def)
  show ?thesis using fires unfolding levels by (auto simp: long)
qed

theorem zero_margin_wedges_account_witness:
  "\<exists>t e. snapshot example_config IN_MEMORY 5 [] (example_account 0) = (t, Inl e)"
proof -
  have "example_held 0 \<in> set (values_of (ps_positions (example_account 0)))"
    and "mp_margin (example_held 0) \<le> 0"
    by (simp_all add: example_account_def values_of_def example_held_def)
  from zero_margin_wedges_account [OF this, of example_config IN_MEMORY 5 "[]"] show ?thesis by (rule conjunct1)
qed

theorem close_books_each_amount_once_witness:
  "\<exists>t res tr. close_position example_config IN_MEMORY ''X'' 5 (example_mark 110) MANUAL_CLOSE []
      (example_account 200) = (t, Inr res) \<and> pr_trade res = Some tr \<and>
    ps_balance t = ps_balance (example_account 200) + pt_net_pnl tr + 8 / 100"
proof -
  obtain t res tr where t: "close_position example_config IN_MEMORY ''X'' 5 (example_mark 110) MANUAL_CLOSE []
      (example_account 200) = (t, Inr res)" "pr_trade res = Some tr" "pt_net_pnl tr = 2479 / 125"
      "ps_balance t = 1252479 / 125"
    using example_close by blast
  have "map_of (ps_positions (example_account 200)) (upper ''X'') = Some (example_held 200)"
    by (simp add: example_account_def upper_X)
  moreover have "on_grid 8 (249998 / 25 :: rat)" unfolding on_grid_def by (rule exI [of _ 999992000000]) simp
  then have "on_grid 8 (ps_balance (example_account 200))" by (simp add: example_account_def)
  moreover have "on_grid 8 (2 / 25 :: rat)" unfolding on_grid_def by (rule exI [of _ 8000000]) simp
  then have "on_grid 8 (mp_entry_fee (example_held 200))" by (simp add: example_held_def)
  moreover have "fee_rate_ok example_config" by (simp add: fee_rate_ok_def example_config_def)
  ultimately have "ps_balance t = ps_balance (example_account 200) + pt_net_pnl tr + mp_entry_fee (example_held 200)"
    using close_books_each_amount_once [OF t(1) _ t(2)] by (simp add: t(3,4) example_held_def)
  with t show ?thesis by (auto simp: example_held_def)
qed

theorem stale_tick_manages_nothing_witness:
  "\<exists>t r. tick example_config IN_MEMORY 5 [] (example_account 200) = (t, r) \<and> idle (example_account 200) t"
proof -
  obtain t r where t: "tick example_config IN_MEMORY 5 [] (example_account 200) = (t, r)"
    by (cases "tick example_config IN_MEMORY 5 [] (example_account 200)")
  with stale_tick_manages_nothing [OF _ t] show ?thesis by auto
qed

theorem daily_limit_locks_the_day_witness:
  "\<exists>t res x. close_position example_config IN_MEMORY ''X'' 5 (example_mark 110) MANUAL_CLOSE []
      (example_account 200) = (t, Inr res) \<and> ps_session t = Some x \<and> ensured_session example_config 6 t = x"
proof -
  obtain t res tr where t: "close_position example_config IN_MEMORY ''X'' 5 (example_mark 110) MANUAL_CLOSE []
      (example_account 200) = (t, Inr res)" "pr_trade res = Some tr"
    using example_close by blast
  from t(2) have "pr_trade res \<noteq> None" by simp
  from daily_limit_locks_the_day [OF t(1) this] obtain x where
    "ps_session t = Some x" "\<forall>now'. date_of now' = date_of 5 \<longrightarrow> ensured_session example_config now' t = x"
    by blast
  moreover have "date_of 6 = date_of 5" by (simp add: date_of_def us_per_day_def)
  ultimately show ?thesis using t(1) by blast
qed

end
