(* ===== verification/OrderTable.thy ===== *)
theory OrderTable
  imports OrderStore
begin

section \<open>The durable order repository\<close>

text \<open>
  \<^verbatim>\<open>adapters/persistence/orders.py\<close> over the tables of \<^verbatim>\<open>adapters/persistence/models.py\<close>. The store
  is the table \<^verbatim>\<open>orders\<close>, every account's rows in it, each with its rows of \<^verbatim>\<open>order_fills\<close> and
  \<^verbatim>\<open>order_discrepancies\<close>; one repository is bound to one owner and one account and sees only the
  rows of both (the queries select the account, the row policy of the schema the owner). The
  uniqueness constraints and the column widths are those the schema declares.

  What is not code of the repository is a parameter, the record \<open>database\<close>: what a
  \<^verbatim>\<open>NUMERIC(24, 8)\<close> column makes of an amount (\<open>None\<close> is an overflow), how \<^verbatim>\<open>uuid.UUID\<close> reads and
  prints an identifier, and the three \<^verbatim>\<open>ORDER BY\<close> orders (by a collation, or unspecified on ties).
  \<open>database_ok\<close> states the documented behaviour the code relies on.

  An integer column is unbounded here, and the value of a state column is one the program wrote.
\<close>

subsection \<open>Tables\<close>

record 'u order_row =
  ow_owner :: 'u
  ow_account :: 'u
  ow_order_id :: string
  ow_client_order_id :: string
  ow_venue_order_id :: "string option"
  ow_state :: order_state
  ow_symbol :: string
  ow_side :: order_side
  ow_order_type :: order_type
  ow_mode :: trading_mode
  ow_origin :: order_origin
  ow_intent_key :: string
  ow_reduce_only :: bool
  ow_quantity :: rat
  ow_price :: "rat option"
  ow_filled_quantity :: rat
  ow_average_fill_price :: "rat option"
  ow_created_at :: timestamp
  ow_updated_at :: timestamp
  ow_submitted_at :: "timestamp option"
  ow_terminal_at :: "timestamp option"
  ow_rejection_code :: "risk_rejection_code option"
  ow_venue_rejection :: "string option"
  ow_reconciliation_attempts :: int
  ow_last_reconciled_at :: "timestamp option"
  ow_venue_status_raw :: "string option"
  ow_last_polled_at :: "timestamp option"
  ow_venue_leverage :: "rat option"
  ow_venue_margin_mode :: "margin_mode option"
  ow_resolved_by_operator :: "string option"
  ow_operator_reason :: "string option"
  ow_fills :: "order_fill list"
  ow_discrepancies :: "order_discrepancy list"

type_synonym 'u order_table = "'u order_row list"

record 'u database =
  db_owner :: 'u
  db_account :: 'u
  db_parse_uuid :: "string \<Rightarrow> 'u option"
  db_print_uuid :: "'u \<Rightarrow> string"
  db_money :: "rat \<Rightarrow> rat option"
  db_order_rows :: "'u order_row list \<Rightarrow> 'u order_row list"
  db_order_fills :: "order_fill list \<Rightarrow> order_fill list"
  db_order_discrepancies :: "order_discrepancy list \<Rightarrow> order_discrepancy list"

definition database_ok :: "'u database \<Rightarrow> bool" where
  "database_ok db \<longleftrightarrow>
     (\<forall>u. db_parse_uuid db (db_print_uuid db u) = Some u) \<and>
     (\<forall>x y. db_money db x = Some y \<longrightarrow> on_grid 8 y \<and> \<bar>y\<bar> < 10 ^ 16) \<and>
     (\<forall>x. on_grid 8 x \<and> \<bar>x\<bar> < 10 ^ 16 \<longrightarrow> db_money db x = Some x) \<and>
     (\<forall>x y x' y'. db_money db x = Some x' \<and> db_money db y = Some y' \<and> x \<le> y \<longrightarrow> x' \<le> y') \<and>
     (\<forall>xs. set (db_order_rows db xs) = set xs \<and> length (db_order_rows db xs) = length xs) \<and>
     (\<forall>xs. set (db_order_fills db xs) = set xs \<and> length (db_order_fills db xs) = length xs) \<and>
     (\<forall>xs. set (db_order_discrepancies db xs) = set xs \<and>
           length (db_order_discrepancies db xs) = length xs)"

definition mine :: "'u database \<Rightarrow> 'u order_row \<Rightarrow> bool" where
  "mine db w \<longleftrightarrow> ow_owner w = db_owner db \<and> ow_account w = db_account db"

text \<open>\<^verbatim>\<open>_row\<close> and the select by client id.\<close>

definition own_row :: "'u database \<Rightarrow> 'u order_table \<Rightarrow> string \<Rightarrow> 'u order_row option" where
  "own_row db t oid = find (\<lambda>w. mine db w \<and> ow_order_id w = oid) t"

definition own_client_row :: "'u database \<Rightarrow> 'u order_table \<Rightarrow> string \<Rightarrow> 'u order_row option" where
  "own_client_row db t cid = find (\<lambda>w. mine db w \<and> ow_client_order_id w = cid) t"

subsection \<open>Reading a row back\<close>

definition row_record :: "'u database \<Rightarrow> 'u order_row \<Rightarrow> order_record" where
  "row_record db w =
     \<lparr>or_order_id = ow_order_id w, or_client_order_id = ow_client_order_id w,
      or_venue_order_id = ow_venue_order_id w,
      or_intent =
        \<lparr>oi_account_id = db_print_uuid db (ow_account w), oi_symbol = ow_symbol w,
         oi_side = ow_side w, oi_order_type = ow_order_type w, oi_quantity = ow_quantity w,
         oi_price = ow_price w, oi_reduce_only = ow_reduce_only w, oi_mode = ow_mode w,
         oi_origin = ow_origin w, oi_intent_key = ow_intent_key w,
         oi_created_at = ow_created_at w\<rparr>,
      or_state = ow_state w, or_filled_quantity = ow_filled_quantity w,
      or_average_fill_price = ow_average_fill_price w,
      or_fills = db_order_fills db (ow_fills w),
      or_created_at = ow_created_at w, or_updated_at = ow_updated_at w,
      or_submitted_at = ow_submitted_at w, or_terminal_at = ow_terminal_at w,
      or_rejection_code = ow_rejection_code w, or_venue_rejection = ow_venue_rejection w,
      or_venue_status_raw = ow_venue_status_raw w, or_last_polled_at = ow_last_polled_at w,
      or_venue_leverage = ow_venue_leverage w, or_venue_margin_mode = ow_venue_margin_mode w,
      or_reconciliation_attempts = ow_reconciliation_attempts w,
      or_last_reconciled_at = ow_last_reconciled_at w,
      or_discrepancies = db_order_discrepancies db (ow_discrepancies w),
      or_resolved_by_operator = ow_resolved_by_operator w,
      or_operator_reason = ow_operator_reason w\<rparr>"

text \<open>Constructing the record, its intent and its fills validates them.\<close>

definition loadable :: "order_record \<Rightarrow> bool" where
  "loadable r \<longleftrightarrow>
     order_intent_valid (or_intent r) \<and> list_all order_fill_valid (or_fills r) \<and>
     order_record_valid r"

definition hydrate :: "'u database \<Rightarrow> 'u order_row \<Rightarrow> order_record result" where
  "hydrate db w =
     (if loadable (row_record db w) then Inr (row_record db w) else Inl ValidationError)"

subsection \<open>Writing a row\<close>

definition money_option :: "(rat \<Rightarrow> rat option) \<Rightarrow> rat option \<Rightarrow> rat option result" where
  "money_option m a =
     (case a of None \<Rightarrow> Inr None
      | Some x \<Rightarrow> (case m x of None \<Rightarrow> Inl DatabaseUnavailableError | Some y \<Rightarrow> Inr (Some y)))"

definition money_column :: "(rat \<Rightarrow> rat option) \<Rightarrow> rat \<Rightarrow> rat result" where
  "money_column m x = (case m x of None \<Rightarrow> Inl DatabaseUnavailableError | Some y \<Rightarrow> Inr y)"

definition fits :: "nat \<Rightarrow> string option \<Rightarrow> bool" where
  "fits n a \<longleftrightarrow> (case a of None \<Rightarrow> True | Some s \<Rightarrow> length s \<le> n)"

definition widths_ok :: "'u order_row \<Rightarrow> bool" where
  "widths_ok w \<longleftrightarrow>
     length (ow_order_id w) \<le> 64 \<and> length (ow_client_order_id w) \<le> 64 \<and>
     fits 64 (ow_venue_order_id w) \<and> length (ow_symbol w) \<le> 32 \<and>
     fits 32 (ow_venue_status_raw w) \<and> fits 120 (ow_resolved_by_operator w)"

text \<open>
  \<^verbatim>\<open>_columns\<close> assigned to a row and flushed: every amount passes through its column, and a value a
  column cannot hold is an error of the driver.
\<close>

definition assign_columns ::
    "order_record \<Rightarrow> rat \<Rightarrow> rat option \<Rightarrow> rat \<Rightarrow> rat option \<Rightarrow> rat option \<Rightarrow>
     'u order_row \<Rightarrow> 'u order_row" where
  "assign_columns r quantity price filled average leverage w =
     (let i = or_intent r in
      w\<lparr>ow_order_id := or_order_id r, ow_client_order_id := or_client_order_id r,
            ow_venue_order_id := or_venue_order_id r, ow_state := or_state r,
            ow_symbol := oi_symbol i, ow_side := oi_side i, ow_order_type := oi_order_type i,
            ow_mode := oi_mode i, ow_origin := oi_origin i, ow_intent_key := oi_intent_key i,
            ow_reduce_only := oi_reduce_only i, ow_quantity := quantity, ow_price := price,
            ow_filled_quantity := filled, ow_average_fill_price := average,
            ow_created_at := or_created_at r, ow_updated_at := or_updated_at r,
            ow_submitted_at := or_submitted_at r, ow_terminal_at := or_terminal_at r,
            ow_rejection_code := or_rejection_code r,
            ow_venue_rejection := or_venue_rejection r,
            ow_reconciliation_attempts := or_reconciliation_attempts r,
            ow_last_reconciled_at := or_last_reconciled_at r,
            ow_venue_status_raw := or_venue_status_raw r,
            ow_last_polled_at := or_last_polled_at r, ow_venue_leverage := leverage,
            ow_venue_margin_mode := or_venue_margin_mode r,
            ow_resolved_by_operator := or_resolved_by_operator r,
            ow_operator_reason := or_operator_reason r\<rparr>)"

definition set_columns ::
    "'u database \<Rightarrow> order_record \<Rightarrow> 'u order_row \<Rightarrow> 'u order_row result" where
  "set_columns db r w =
     bindE (money_column (db_money db) (oi_quantity (or_intent r))) (\<lambda>quantity.
     bindE (money_option (db_money db) (oi_price (or_intent r))) (\<lambda>price.
     bindE (money_column (db_money db) (or_filled_quantity r)) (\<lambda>filled.
     bindE (money_option (db_money db) (or_average_fill_price r)) (\<lambda>average.
     bindE (money_option (db_money db) (or_venue_leverage r)) (\<lambda>leverage.
     let w' = assign_columns r quantity price filled average leverage w
     in if widths_ok w' then Inr w' else Inl DatabaseUnavailableError)))))"

text \<open>
  The constraints on \<^verbatim>\<open>orders\<close>, as \<^verbatim>\<open>_integrity\<close> reads them. \<open>others\<close> are the rows beside the one
  written. A null venue id collides with nothing.
\<close>

definition integrity_error :: "'u order_row list \<Rightarrow> 'u order_row \<Rightarrow> py_error option" where
  "integrity_error others w =
     (if \<exists>x \<in> set others. ow_order_id x = ow_order_id w then Some ValueError
      else if \<exists>x \<in> set others. ow_account x = ow_account w \<and>
                ow_client_order_id x = ow_client_order_id w
      then Some DuplicateClientOrderIdError
      else if \<exists>x \<in> set others. ow_account x = ow_account w \<and> ow_venue_order_id w \<noteq> None \<and>
                ow_venue_order_id x = ow_venue_order_id w
      then Some DatabaseUnavailableError
      else None)"

definition raise_if :: "py_error option \<Rightarrow> unit result" where
  "raise_if e = (case e of None \<Rightarrow> Inr () | Some e \<Rightarrow> Inl e)"

definition fill_column :: "'u database \<Rightarrow> order_fill \<Rightarrow> order_fill result" where
  "fill_column db f =
     bindE (money_column (db_money db) (of_price f)) (\<lambda>price.
     bindE (money_column (db_money db) (of_quantity f)) (\<lambda>quantity.
     bindE (money_column (db_money db) (of_fee f)) (\<lambda>fee.
     if length (of_fill_id f) \<le> 64 \<and> fits 64 (of_venue_trade_id f)
     then Inr (f\<lparr>of_price := price, of_quantity := quantity, of_fee := fee\<rparr>)
     else Inl DatabaseUnavailableError)))"

definition fill_collides :: "order_fill list \<Rightarrow> order_fill \<Rightarrow> bool" where
  "fill_collides present f \<longleftrightarrow>
     (\<exists>g \<in> set present. of_fill_id g = of_fill_id f \<or>
        of_venue_trade_id f \<noteq> None \<and> of_venue_trade_id g = of_venue_trade_id f)"

fun insert_fills ::
    "'u database \<Rightarrow> order_fill list \<Rightarrow> order_fill list \<Rightarrow> order_fill list result" where
  "insert_fills db present [] = Inr present"
| "insert_fills db present (f # fs) =
     bindE (fill_column db f) (\<lambda>g.
       if fill_collides present g then Inl DatabaseUnavailableError
       else insert_fills db (present @ [g]) fs)"

text \<open>
  \<^verbatim>\<open>_write_children\<close>. One flush inserts before it deletes, so a new fill must not collide with a
  row about to go. Evidence already stored, by instant and text, is not written again.
\<close>

definition write_fills :: "'u database \<Rightarrow> order_record \<Rightarrow> order_fill list \<Rightarrow> order_fill list result"
where
  "write_fills db r stored =
     (let stored_ids = set (map of_fill_id stored);
          intended = set (map of_fill_id (or_fills r));
          new = filter (\<lambda>f. of_fill_id f \<notin> stored_ids) (or_fills r)
      in bindE (insert_fills db stored new) (\<lambda>present.
           Inr (filter (\<lambda>f. of_fill_id f \<in> intended) present)))"

definition evidence_key :: "order_discrepancy \<Rightarrow> timestamp \<times> evidence" where
  "evidence_key d = (od_observed_at d, od_detail d)"

definition write_discrepancies ::
    "order_record \<Rightarrow> order_discrepancy list \<Rightarrow> order_discrepancy list" where
  "write_discrepancies r stored =
     stored @ filter (\<lambda>d. evidence_key d \<notin> set (map evidence_key stored)) (or_discrepancies r)"

definition write_children ::
    "'u database \<Rightarrow> order_record \<Rightarrow> 'u order_row \<Rightarrow> 'u order_row result" where
  "write_children db r w =
     bindE (write_fills db r (ow_fills w)) (\<lambda>fills.
       Inr (w\<lparr>ow_fills := fills,
              ow_discrepancies := write_discrepancies r (ow_discrepancies w)\<rparr>))"

text \<open>\<^verbatim>\<open>_require_own_account\<close>.\<close>

definition own_account :: "'u database \<Rightarrow> order_record \<Rightarrow> bool" where
  "own_account db r \<longleftrightarrow> db_parse_uuid db (oi_account_id (or_intent r)) = Some (db_account db)"

subsection \<open>The repository's operations\<close>

definition blank_row :: "'u database \<Rightarrow> order_record \<Rightarrow> 'u order_row" where
  "blank_row db r =
     \<lparr>ow_owner = db_owner db, ow_account = db_account db, ow_order_id = or_order_id r,
      ow_client_order_id = or_client_order_id r, ow_venue_order_id = None,
      ow_state = or_state r, ow_symbol = oi_symbol (or_intent r), ow_side = oi_side (or_intent r),
      ow_order_type = oi_order_type (or_intent r), ow_mode = oi_mode (or_intent r),
      ow_origin = oi_origin (or_intent r), ow_intent_key = oi_intent_key (or_intent r),
      ow_reduce_only = False, ow_quantity = 0, ow_price = None, ow_filled_quantity = 0,
      ow_average_fill_price = None, ow_created_at = or_created_at r,
      ow_updated_at = or_updated_at r, ow_submitted_at = None, ow_terminal_at = None,
      ow_rejection_code = None, ow_venue_rejection = None, ow_reconciliation_attempts = 0,
      ow_last_reconciled_at = None, ow_venue_status_raw = None, ow_last_polled_at = None,
      ow_venue_leverage = None, ow_venue_margin_mode = None, ow_resolved_by_operator = None,
      ow_operator_reason = None, ow_fills = [], ow_discrepancies = []\<rparr>"

definition pg_add :: "'u database \<Rightarrow> 'u order_table \<Rightarrow> order_record \<Rightarrow> 'u order_table result" where
  "pg_add db t r =
     bindE (guardE (own_account db r) ValueError) (\<lambda>_.
     bindE (set_columns db r (blank_row db r)) (\<lambda>w.
     bindE (raise_if (integrity_error t w)) (\<lambda>_.
     bindE (write_children db r w) (\<lambda>w'. Inr (t @ [w'])))))"

definition pg_get_by_client ::
    "'u database \<Rightarrow> 'u order_table \<Rightarrow> string \<Rightarrow> order_record option result" where
  "pg_get_by_client db t cid =
     (case own_client_row db t cid of
        None \<Rightarrow> Inr None
      | Some w \<Rightarrow> bindE (hydrate db w) (\<lambda>r. Inr (Some r)))"

definition pg_add_or_get ::
    "'u database \<Rightarrow> 'u order_table \<Rightarrow> order_record \<Rightarrow>
     ('u order_table \<times> order_record \<times> bool) result" where
  "pg_add_or_get db t r =
     bindE (pg_get_by_client db t (or_client_order_id r)) (\<lambda>existing.
       case existing of
         Some x \<Rightarrow> Inr (t, x, False)
       | None \<Rightarrow>
           (case pg_add db t r of
              Inr t' \<Rightarrow> Inr (t', r, True)
            | Inl e \<Rightarrow>
                if e = DuplicateClientOrderIdError
                then bindE (pg_get_by_client db t (or_client_order_id r)) (\<lambda>winner.
                       case winner of
                         None \<Rightarrow> Inl DuplicateClientOrderIdError
                       | Some x \<Rightarrow> Inr (t, x, False))
                else Inl e))"

definition other_rows :: "'u order_table \<Rightarrow> string \<Rightarrow> 'u order_row list" where
  "other_rows t oid = filter (\<lambda>w. ow_order_id w \<noteq> oid) t"

definition replace_row :: "'u order_table \<Rightarrow> 'u order_row \<Rightarrow> 'u order_table" where
  "replace_row t w' = map (\<lambda>w. if ow_order_id w = ow_order_id w' then w' else w) t"

definition pg_update :: "'u database \<Rightarrow> 'u order_table \<Rightarrow> order_record \<Rightarrow> 'u order_table result"
where
  "pg_update db t r =
     bindE (guardE (own_account db r) ValueError) (\<lambda>_.
       case own_row db t (or_order_id r) of
         None \<Rightarrow> Inl KeyError
       | Some w \<Rightarrow>
           bindE (set_columns db r w) (\<lambda>w1.
           bindE (raise_if (integrity_error (other_rows t (or_order_id r)) w1)) (\<lambda>_.
           bindE (write_children db r w1) (\<lambda>w2. Inr (replace_row t w2)))))"

definition pg_get :: "'u database \<Rightarrow> 'u order_table \<Rightarrow> string \<Rightarrow> order_record option result" where
  "pg_get db t oid =
     (case own_row db t oid of
        None \<Rightarrow> Inr None
      | Some w \<Rightarrow> bindE (hydrate db w) (\<lambda>r. Inr (Some r)))"

definition own_rows :: "'u database \<Rightarrow> 'u order_table \<Rightarrow> 'u order_row list" where
  "own_rows db t = db_order_rows db (filter (mine db) t)"

definition own_open_rows :: "'u database \<Rightarrow> 'u order_table \<Rightarrow> 'u order_row list" where
  "own_open_rows db t =
     db_order_rows db (filter (\<lambda>w. mine db w \<and> \<not> is_terminal (ow_state w)) t)"

definition pg_all :: "'u database \<Rightarrow> 'u order_table \<Rightarrow> order_record list result" where
  "pg_all db t = mapE (hydrate db) (own_rows db t)"

definition pg_open :: "'u database \<Rightarrow> 'u order_table \<Rightarrow> order_record list result" where
  "pg_open db t = mapE (hydrate db) (own_open_rows db t)"

text \<open>The sweep's read: a row that does not load is reported, and the others are still read.\<close>

fun scan_rows_of ::
    "'u database \<Rightarrow> 'u order_row list \<Rightarrow> order_record list \<Rightarrow> unreadable_order list \<Rightarrow> open_scan result"
where
  "scan_rows_of db [] records unreadable =
     Inr \<lparr>sc_records = records, sc_unreadable = unreadable\<rparr>"
| "scan_rows_of db (w # ws) records unreadable =
     (case hydrate db w of
        Inr r \<Rightarrow> scan_rows_of db ws (records @ [r]) unreadable
      | Inl e \<Rightarrow>
          if e \<in> {ValidationError, ValueError}
          then scan_rows_of db ws records
                 (unreadable @ [\<lparr>uo_order_id = ow_order_id w, uo_state = ow_state w,
                                 uo_reason = e\<rparr>])
          else Inl e)"

definition pg_scan_open :: "'u database \<Rightarrow> 'u order_table \<Rightarrow> open_scan result" where
  "pg_scan_open db t = scan_rows_of db (own_open_rows db t) [] []"

definition pg_record_unreadable ::
    "'u database \<Rightarrow> 'u order_table \<Rightarrow> string \<Rightarrow> evidence \<Rightarrow> timestamp \<Rightarrow> 'u order_table result" where
  "pg_record_unreadable db t oid detail now =
     (case own_row db t oid of
        None \<Rightarrow> Inl KeyError
      | Some w \<Rightarrow>
          Inr (replace_row t
            (w\<lparr>ow_discrepancies := ow_discrepancies w @
                 [\<lparr>od_observed_at = now, od_detail = detail, od_local_state = ow_state w,
                   od_venue_state = None\<rparr>]\<rparr>)))"

definition pg_clear :: "'u database \<Rightarrow> 'u order_table \<Rightarrow> 'u order_table" where
  "pg_clear db t = filter (\<lambda>w. \<not> mine db w) t"

text \<open>An exception that leaves \<^verbatim>\<open>locked()\<close> rolls its transaction back.\<close>

definition pg_abort :: "'u order_table \<Rightarrow> 'u order_table \<Rightarrow> 'u order_table" where
  "pg_abort entry raised = entry"

definition pg_ops :: "'u database \<Rightarrow> 'u order_table order_ops" where
  "pg_ops db =
     \<lparr>repo_durable = True, repo_add = pg_add db, repo_add_or_get = pg_add_or_get db,
      repo_update = pg_update db, repo_get = pg_get db, repo_get_by_client = pg_get_by_client db,
      repo_all = pg_all db, repo_open = pg_open db, repo_scan_open = pg_scan_open db,
      repo_record_unreadable = pg_record_unreadable db, repo_abort = pg_abort\<rparr>"

end
