(* ===== verification/OrderTableLaws.thy ===== *)
theory OrderTableLaws
  imports OrderTable
begin

section \<open>The durable repository keeps the contract\<close>

subsection \<open>The table's invariant\<close>

definition row_sound :: "'u database \<Rightarrow> 'u order_row \<Rightarrow> bool" where
  "row_sound db w \<longleftrightarrow>
     widths_ok w \<and> db_money db (ow_quantity w) = Some (ow_quantity w) \<and>
     db_money db (ow_filled_quantity w) = Some (ow_filled_quantity w) \<and>
     col_option (db_money db) (ow_price w) (ow_price w) \<and>
     col_option (db_money db) (ow_average_fill_price w) (ow_average_fill_price w) \<and>
     col_option (db_money db) (ow_venue_leverage w) (ow_venue_leverage w)"

definition keys_unique :: "'u order_table \<Rightarrow> bool" where
  "keys_unique t \<longleftrightarrow>
     distinct (map ow_order_id t) \<and>
     (\<forall>x \<in> set t. \<forall>y \<in> set t. ow_account x = ow_account y \<longrightarrow>
        (ow_client_order_id x = ow_client_order_id y \<longrightarrow> ow_order_id x = ow_order_id y) \<and>
        (ow_venue_order_id x \<noteq> None \<longrightarrow> ow_venue_order_id x = ow_venue_order_id y \<longrightarrow>
         ow_order_id x = ow_order_id y))"

definition pg_inv :: "'u database \<Rightarrow> 'u order_table \<Rightarrow> bool" where
  "pg_inv db t \<longleftrightarrow> keys_unique t \<and> (\<forall>w \<in> set t. mine db w \<longrightarrow> row_sound db w)"

definition pg_rows :: "'u database \<Rightarrow> 'u order_table \<Rightarrow> string \<Rightarrow> order_record option" where
  "pg_rows db t oid =
     (case own_row db t oid of
        None \<Rightarrow> None
      | Some w \<Rightarrow> if loadable (row_record db w) then Some (row_record db w) else None)"

definition pg_damaged :: "'u database \<Rightarrow> 'u order_table \<Rightarrow> string set" where
  "pg_damaged db t =
     {oid. \<exists>w. own_row db t oid = Some w \<and> \<not> loadable (row_record db w)}"

lemma row_record_sel [simp]:
  "or_order_id (row_record db w) = ow_order_id w"
  "or_client_order_id (row_record db w) = ow_client_order_id w"
  "or_state (row_record db w) = ow_state w"
  "or_created_at (row_record db w) = ow_created_at w"
  "or_filled_quantity (row_record db w) = ow_filled_quantity w"
  "or_average_fill_price (row_record db w) = ow_average_fill_price w"
  "or_venue_leverage (row_record db w) = ow_venue_leverage w"
  "or_reconciliation_attempts (row_record db w) = ow_reconciliation_attempts w"
  "or_fills (row_record db w) = db_order_fills db (ow_fills w)"
  "oi_quantity (or_intent (row_record db w)) = ow_quantity w"
  by (simp_all add: row_record_def)

lemma hydrate_Inr: "hydrate db w = Inr r \<longleftrightarrow> loadable (row_record db w) \<and> r = row_record db w"
  by (auto simp: hydrate_def)

lemma hydrate_Inl: "hydrate db w = Inl e \<longleftrightarrow> \<not> loadable (row_record db w) \<and> e = ValidationError"
  by (auto simp: hydrate_def)

lemma key_eq:
  "distinct (map f xs) \<Longrightarrow> x \<in> set xs \<Longrightarrow> y \<in> set xs \<Longrightarrow> f x = f y \<longleftrightarrow> x = y"
  by (auto simp: distinct_map inj_on_def)

lemma find_key:
  assumes "distinct (map f xs)"
  shows "find (\<lambda>w. P w \<and> f w = k) xs = Some w \<longleftrightarrow> w \<in> set xs \<and> P w \<and> f w = k"
  using assms
  by (induction xs) (auto simp: image_iff)

lemma own_row_iff:
  "keys_unique t \<Longrightarrow> own_row db t oid = Some w \<longleftrightarrow> w \<in> set t \<and> mine db w \<and> ow_order_id w = oid"
  unfolding own_row_def keys_unique_def by (simp add: find_key)

lemma own_row_None:
  "own_row db t oid = None \<longleftrightarrow> (\<forall>w \<in> set t. mine db w \<longrightarrow> ow_order_id w \<noteq> oid)"
  by (auto simp: own_row_def find_None_iff)

lemma own_client_row_None:
  "own_client_row db t cid = None \<longleftrightarrow> (\<forall>w \<in> set t. mine db w \<longrightarrow> ow_client_order_id w \<noteq> cid)"
  by (auto simp: own_client_row_def find_None_iff)

lemma own_client_row_Some:
  "own_client_row db t cid = Some w \<Longrightarrow> w \<in> set t \<and> mine db w \<and> ow_client_order_id w = cid"
  by (auto simp: own_client_row_def find_Some_iff)

lemma pg_rows_own:
  "pg_rows db t oid = Some r \<longleftrightarrow>
   (\<exists>w. own_row db t oid = Some w \<and> loadable (row_record db w) \<and> r = row_record db w)"
  by (auto simp: pg_rows_def split: option.splits if_splits)

lemma pg_rows_Some:
  "keys_unique t \<Longrightarrow>
   pg_rows db t oid = Some r \<longleftrightarrow>
   (\<exists>w \<in> set t. mine db w \<and> ow_order_id w = oid \<and> loadable (row_record db w) \<and>
      r = row_record db w)"
  by (auto simp: pg_rows_own own_row_iff)

lemma pg_damaged_iff:
  "keys_unique t \<Longrightarrow>
   oid \<in> pg_damaged db t \<longleftrightarrow>
   (\<exists>w \<in> set t. mine db w \<and> ow_order_id w = oid \<and> \<not> loadable (row_record db w))"
  by (auto simp: pg_damaged_def own_row_iff)

subsection \<open>One row replaced\<close>

lemma replace_row_set:
  "w0 \<in> set t \<Longrightarrow> ow_order_id w0 = ow_order_id w \<Longrightarrow>
   set (replace_row t w) = insert w {x \<in> set t. ow_order_id x \<noteq> ow_order_id w}"
  by (auto simp: replace_row_def)

lemma replace_row_ids: "map ow_order_id (replace_row t w) = map ow_order_id t"
  by (induction t) (simp_all add: replace_row_def)

lemma integrity_None:
  "integrity_error others w = None \<longleftrightarrow>
   (\<forall>x \<in> set others. ow_order_id x \<noteq> ow_order_id w \<and>
      (ow_account x = ow_account w \<longrightarrow>
         ow_client_order_id x \<noteq> ow_client_order_id w \<and>
         (ow_venue_order_id w \<noteq> None \<longrightarrow> ow_venue_order_id x \<noteq> ow_venue_order_id w)))"
  by (auto simp: integrity_error_def)

text \<open>No two rows of one account share a client id or a venue id.\<close>

definition apart :: "'u order_row \<Rightarrow> 'u order_row \<Rightarrow> bool" where
  "apart x y \<longleftrightarrow>
     (ow_account x = ow_account y \<longrightarrow>
        ow_client_order_id x \<noteq> ow_client_order_id y \<and>
        (ow_venue_order_id x \<noteq> None \<longrightarrow> ow_venue_order_id x \<noteq> ow_venue_order_id y))"

lemma apart_sym: "apart x y \<Longrightarrow> apart y x"
  by (auto simp: apart_def)

lemma keys_unique_alt:
  "keys_unique t \<longleftrightarrow>
   distinct (map ow_order_id t) \<and>
   (\<forall>x \<in> set t. \<forall>y \<in> set t. ow_order_id x \<noteq> ow_order_id y \<longrightarrow> apart x y)"
  unfolding keys_unique_def apart_def by blast

lemma integrity_apart:
  "integrity_error others w = None \<longleftrightarrow>
   (\<forall>x \<in> set others. ow_order_id x \<noteq> ow_order_id w \<and> apart w x)"
  unfolding integrity_None apart_def by fastforce

lemma replace_keys_unique:
  assumes "keys_unique t" and "w0 \<in> set t" and "ow_order_id w0 = ow_order_id w"
    and "integrity_error (other_rows t (ow_order_id w)) w = None"
  shows "keys_unique (replace_row t w)"
  unfolding keys_unique_alt replace_row_ids replace_row_set [OF assms(2,3)]
proof (intro conjI ballI impI)
  show "distinct (map ow_order_id t)" using assms(1) by (simp add: keys_unique_def)
next
  fix x y
  assume xy: "x \<in> insert w {x \<in> set t. ow_order_id x \<noteq> ow_order_id w}"
    "y \<in> insert w {x \<in> set t. ow_order_id x \<noteq> ow_order_id w}" "ow_order_id x \<noteq> ow_order_id y"
  have new: "apart w z" if "z \<in> set t" "ow_order_id z \<noteq> ow_order_id w" for z
    using assms(4) that by (simp add: integrity_apart other_rows_def)
  have old: "apart x y" if "x \<in> set t" "y \<in> set t"
    using assms(1) that xy(3) by (simp add: keys_unique_alt)
  from xy show "apart x y" using new old apart_sym by blast
qed

lemma own_row_replace:
  assumes "keys_unique t" and "own_row db t (ow_order_id w) = Some w0" and "mine db w"
    and "keys_unique (replace_row t w)"
  shows "own_row db (replace_row t w) oid = (if oid = ow_order_id w then Some w else own_row db t oid)"
proof -
  have w0: "w0 \<in> set t" "ow_order_id w0 = ow_order_id w"
    using assms(1,2) by (simp_all add: own_row_iff)
  show ?thesis
  proof (cases "oid = ow_order_id w")
    case True
    then show ?thesis using assms(3,4) by (simp add: own_row_iff replace_row_set [OF w0])
  next
    case False
    have "own_row db (replace_row t w) oid = Some x \<longleftrightarrow> own_row db t oid = Some x" for x
      using False assms(1,4) by (auto simp: own_row_iff replace_row_set [OF w0])
    then show ?thesis using False by (metis option.exhaust)
  qed
qed

lemma pg_rows_replace:
  assumes "keys_unique t" and "own_row db t (ow_order_id w) = Some w0" and "mine db w"
    and "keys_unique (replace_row t w)"
  shows "pg_rows db (replace_row t w) = (pg_rows db t)(ow_order_id w :=
      (if loadable (row_record db w) then Some (row_record db w) else None))"
    and "pg_damaged db (replace_row t w) =
      (if loadable (row_record db w) then pg_damaged db t - {ow_order_id w}
       else insert (ow_order_id w) (pg_damaged db t))"
  unfolding pg_rows_def pg_damaged_def own_row_replace [OF assms] by (auto simp: fun_eq_iff)

lemma pg_inv_replace:
  assumes "pg_inv db t" and "w0 \<in> set t" and "ow_order_id w0 = ow_order_id w"
    and "integrity_error (other_rows t (ow_order_id w)) w = None" and "row_sound db w"
  shows "pg_inv db (replace_row t w)"
  using assms replace_keys_unique [of t w0 w]
  by (auto simp: pg_inv_def replace_row_set [OF assms(2,3)])

subsection \<open>What a write stores\<close>

lemma money_column_Inr [result_simps]: "money_column m x = Inr y \<longleftrightarrow> m x = Some y"
  by (simp add: money_column_def split: option.splits)

lemma money_option_Inr [result_simps]: "money_option m a = Inr b \<longleftrightarrow> col_option m a b"
  by (auto simp: money_option_def col_option_def split: option.splits)

lemma database_money:
  assumes "database_ok db"
  shows "db_money db x = Some y \<Longrightarrow> db_money db y = Some y"
    and "db_money db x = Some y \<Longrightarrow> on_grid 8 y \<and> \<bar>y\<bar> < 10 ^ 16"
    and "db_money db x = Some x' \<Longrightarrow> db_money db y = Some y' \<Longrightarrow> x \<le> y \<Longrightarrow> x' \<le> y'"
  using assms unfolding database_ok_def by blast+

lemma col_option_stored:
  "database_ok db \<Longrightarrow> col_option (db_money db) a b \<Longrightarrow> col_option (db_money db) b b"
  by (auto simp: col_option_def dest: database_money(1) split: option.splits)

lemma set_columns_cases:
  assumes "set_columns db r w = Inr w'"
  obtains q p f a l where "w' = assign_columns r q p f a l w" and "widths_ok w'"
    and "db_money db (oi_quantity (or_intent r)) = Some q"
    and "col_option (db_money db) (oi_price (or_intent r)) p"
    and "db_money db (or_filled_quantity r) = Some f"
    and "col_option (db_money db) (or_average_fill_price r) a"
    and "col_option (db_money db) (or_venue_leverage r) l"
  using assms unfolding set_columns_def Let_def result_simps
  by (elim exE conjE) (rule that; (assumption | simp split: if_splits))

lemma set_columns_Inr:
  assumes "widths_ok (assign_columns r q p f a l w)"
    and "db_money db (oi_quantity (or_intent r)) = Some q"
    and "col_option (db_money db) (oi_price (or_intent r)) p"
    and "db_money db (or_filled_quantity r) = Some f"
    and "col_option (db_money db) (or_average_fill_price r) a"
    and "col_option (db_money db) (or_venue_leverage r) l"
  shows "set_columns db r w = Inr (assign_columns r q p f a l w)"
  unfolding set_columns_def Let_def result_simps
  by (rule exI [of _ q], rule conjI, fact, rule exI [of _ p], rule conjI, fact,
      rule exI [of _ f], rule conjI, fact, rule exI [of _ a], rule conjI, fact,
      rule exI [of _ l], rule conjI, fact) (simp add: assms(1))

lemma assign_columns_sel [simp]:
  "ow_owner (assign_columns r q p f a l w) = ow_owner w"
  "ow_account (assign_columns r q p f a l w) = ow_account w"
  "ow_order_id (assign_columns r q p f a l w) = or_order_id r"
  "ow_client_order_id (assign_columns r q p f a l w) = or_client_order_id r"
  "ow_venue_order_id (assign_columns r q p f a l w) = or_venue_order_id r"
  "ow_state (assign_columns r q p f a l w) = or_state r"
  "ow_quantity (assign_columns r q p f a l w) = q"
  "ow_price (assign_columns r q p f a l w) = p"
  "ow_filled_quantity (assign_columns r q p f a l w) = f"
  "ow_average_fill_price (assign_columns r q p f a l w) = a"
  "ow_venue_leverage (assign_columns r q p f a l w) = l"
  "ow_fills (assign_columns r q p f a l w) = ow_fills w"
  "ow_discrepancies (assign_columns r q p f a l w) = ow_discrepancies w"
  by (simp_all add: assign_columns_def Let_def)

lemma mine_assign [simp]: "mine db (assign_columns r q p f a l w) = mine db w"
  by (simp add: mine_def)

lemma set_columns_sound:
  assumes "database_ok db" and "set_columns db r w = Inr w'"
  shows "row_sound db w'"
proof -
  obtain q p f a l where c: "w' = assign_columns r q p f a l w" "widths_ok w'"
    "db_money db (oi_quantity (or_intent r)) = Some q"
    "col_option (db_money db) (oi_price (or_intent r)) p"
    "db_money db (or_filled_quantity r) = Some f"
    "col_option (db_money db) (or_average_fill_price r) a"
    "col_option (db_money db) (or_venue_leverage r) l"
    using assms(2) by (rule set_columns_cases)
  show ?thesis
    unfolding row_sound_def
    using c(2) database_money(1) [OF assms(1) c(3)] database_money(1) [OF assms(1) c(5)]
      col_option_stored [OF assms(1) c(4)] col_option_stored [OF assms(1) c(6)]
      col_option_stored [OF assms(1) c(7)] by (simp add: c(1))
qed

lemma row_sound_children [simp]:
  "row_sound db (w\<lparr>ow_fills := fs\<rparr>) = row_sound db w"
  "row_sound db (w\<lparr>ow_discrepancies := ds\<rparr>) = row_sound db w"
  by (simp_all add: row_sound_def widths_ok_def)

lemma mine_children [simp]:
  "mine db (w\<lparr>ow_fills := fs\<rparr>) = mine db w"
  "mine db (w\<lparr>ow_discrepancies := ds\<rparr>) = mine db w"
  by (simp_all add: mine_def)

lemma integrity_cong:
  assumes "ow_order_id w' = ow_order_id w" and "ow_account w' = ow_account w"
    and "ow_client_order_id w' = ow_client_order_id w"
    and "ow_venue_order_id w' = ow_venue_order_id w"
  shows "integrity_error others w' = integrity_error others w"
  unfolding integrity_error_def assms ..

lemma integrity_children [simp]:
  "integrity_error others (w\<lparr>ow_fills := fs\<rparr>) = integrity_error others w"
  "integrity_error others (w\<lparr>ow_discrepancies := ds\<rparr>) = integrity_error others w"
  by (rule integrity_cong; simp)+

text \<open>Reading a written row back: every column is the record's, through its column.\<close>

lemma stored_columns:
  assumes "set_columns db r w = Inr w'"
    and "oi_account_id (or_intent r) = db_print_uuid db (ow_account w)"
    and "oi_created_at (or_intent r) = or_created_at r"
    and "col_option (db_money db) (oi_price (or_intent r)) (oi_price (or_intent r))"
  shows "\<exists>q. db_money db (oi_quantity (or_intent r)) = Some q \<and>
           same_columns (db_money db) (resized q r)
             (row_record db (w'\<lparr>ow_fills := fs, ow_discrepancies := ds\<rparr>))"
proof -
  obtain q p f a l where c: "w' = assign_columns r q p f a l w" "widths_ok w'"
    "db_money db (oi_quantity (or_intent r)) = Some q"
    "col_option (db_money db) (oi_price (or_intent r)) p"
    "db_money db (or_filled_quantity r) = Some f"
    "col_option (db_money db) (or_average_fill_price r) a"
    "col_option (db_money db) (or_venue_leverage r) l"
    using assms(1) by (rule set_columns_cases)
  have "p = oi_price (or_intent r)"
    using c(4) assms(4) by (simp add: col_option_def split: option.splits)
  then show ?thesis
    unfolding same_columns_def c(1) using c(3,5-7) assms(2,3)
    by (intro exI [of _ q])
      (simp add: bare_def row_record_def assign_columns_def resized_def Let_def)
qed

subsection \<open>Restating a stored order\<close>

lemma database_orders:
  assumes "database_ok db"
  shows "set (db_order_fills db fs) = set fs" "set (db_order_discrepancies db ds) = set ds"
    "set (db_order_rows db ws) = set ws" "length (db_order_rows db ws) = length ws"
    "length (db_order_fills db fs) = length fs"
    "length (db_order_discrepancies db ds) = length ds"
    "db_parse_uuid db (db_print_uuid db u) = Some u"
  using assms by (simp_all add: database_ok_def)

lemma write_children_same:
  assumes db: "database_ok db" and r: "or_fills r = db_order_fills db (ow_fills w)"
    "or_discrepancies r = db_order_discrepancies db (ow_discrepancies w)"
  shows "write_children db r w = Inr w"
proof -
  have no_fills: "filter (\<lambda>f. of_fill_id f \<notin> of_fill_id ` set (ow_fills w))
      (db_order_fills db (ow_fills w)) = []"
    by (simp add: filter_empty_conv database_orders(1) [OF db])
  have no_disc: "filter (\<lambda>d. evidence_key d \<notin> evidence_key ` set (ow_discrepancies w))
      (db_order_discrepancies db (ow_discrepancies w)) = []"
    by (simp add: filter_empty_conv database_orders(2) [OF db])
  have keep: "filter (\<lambda>f. of_fill_id f \<in> of_fill_id ` set (ow_fills w)) (ow_fills w) = ow_fills w"
    by (simp add: filter_id_conv)
  show ?thesis
    unfolding write_children_def write_fills_def write_discrepancies_def Let_def r
    by (simp add: no_fills no_disc keep database_orders(1) [OF db])
qed

lemma own_keys_free:
  assumes "keys_unique t" and "w \<in> set t" and "ow_order_id w' = ow_order_id w"
    and "ow_account w' = ow_account w" and "ow_client_order_id w' = ow_client_order_id w"
    and "ow_venue_order_id w' = ow_venue_order_id w"
  shows "integrity_error (other_rows t (ow_order_id w)) w' = None"
  unfolding integrity_cong [OF assms(3-6)] integrity_apart other_rows_def
  using assms(1,2) by (auto simp: keys_unique_alt)

lemma restated_columns:
  assumes "x = (row_record db w)\<lparr>or_state := st, or_reconciliation_attempts := n,
             or_updated_at := now\<rparr>"
    and "w' = w\<lparr>ow_state := st, ow_reconciliation_attempts := n, ow_updated_at := now\<rparr>"
  shows "assign_columns x (ow_quantity w) (ow_price w) (ow_filled_quantity w)
           (ow_average_fill_price w) (ow_venue_leverage w) w = w'"
    and "row_record db w' = x" and "row_sound db w' = row_sound db w" and "mine db w' = mine db w"
    and "widths_ok w' = widths_ok w"
    and "ow_fills w' = ow_fills w" and "ow_discrepancies w' = ow_discrepancies w"
  unfolding assms
  by (simp_all add: assign_columns_def row_record_def row_sound_def widths_ok_def mine_def Let_def)

lemma pg_restate:
  assumes db: "database_ok db" and inv: "pg_inv db t" and row: "pg_rows db t oid = Some r"
    and n: "or_reconciliation_attempts r \<le> n"
    and x: "x = r\<lparr>or_state := st, or_reconciliation_attempts := n, or_updated_at := now\<rparr>"
  shows "\<exists>t'. pg_update db t x = Inr t' \<and> pg_inv db t' \<and> pg_rows db t' = (pg_rows db t)(oid \<mapsto> x) \<and>
           pg_damaged db t' = pg_damaged db t"
proof -
  have keys: "keys_unique t" using inv by (simp add: pg_inv_def)
  from row [unfolded pg_rows_own] obtain w where
    own: "own_row db t oid = Some w" and load: "loadable (row_record db w)"
    and r: "r = row_record db w" by iprover
  have w: "w \<in> set t" "mine db w" "ow_order_id w = oid"
    using own own_row_iff [OF keys] by simp_all
  have sound: "row_sound db w" using inv w by (simp add: pg_inv_def)
  define w' where
    "w' = w\<lparr>ow_state := st, ow_reconciliation_attempts := n, ow_updated_at := now\<rparr>"
  note rc = restated_columns [OF x [unfolded r] w'_def]
  have id: "or_order_id x = oid" "ow_order_id w' = oid" by (simp_all add: x r w(3) w'_def)
  have acc: "own_account db x"
    using w(2) by (simp add: own_account_def x r row_record_def database_orders(7) [OF db] mine_def)
  have cols: "set_columns db x w = Inr w'"
    unfolding rc(1) [symmetric]
    by (rule set_columns_Inr)
      (use sound in \<open>simp_all add: rc row_sound_def\<close>, simp_all add: x r row_record_def)
  have free: "integrity_error (other_rows t oid) w' = None"
    using own_keys_free [OF keys w(1), of w'] by (simp add: w'_def w(3))
  have kids: "write_children db x w' = Inr w'"
    by (rule write_children_same [OF db]) (simp_all add: rc x r row_record_def)
  have upd: "pg_update db t x = Inr (replace_row t w')"
    by (simp add: pg_update_def acc id(1) own cols free kids raise_if_def)
  have load': "loadable x"
    using load n
    by (simp add: loadable_def order_record_valid_def fills_agree_def x r split: if_splits)
  have inv': "pg_inv db (replace_row t w')"
    by (rule pg_inv_replace [OF inv w(1)]) (use free sound in \<open>simp_all add: id w(3) rc\<close>)
  have keys': "keys_unique (replace_row t w')" using inv' by (simp add: pg_inv_def)
  have own': "own_row db t (ow_order_id w') = Some w" by (simp add: id own)
  have "oid \<notin> pg_damaged db t" using own load by (simp add: pg_damaged_def)
  with pg_rows_replace [OF keys own' _ keys'] show ?thesis
    using upd inv' load' w(2) by (intro exI [of _ "replace_row t w'"]) (simp add: rc id)
qed

subsection \<open>Updating, adding, scanning\<close>

lemma raise_if_Inr [result_simps]: "raise_if e = Inr u \<longleftrightarrow> e = None"
  by (simp add: raise_if_def split: option.splits)

lemma write_children_Inr:
  "write_children db r w = Inr w' \<Longrightarrow>
   \<exists>fs ds. w' = w\<lparr>ow_fills := fs, ow_discrepancies := ds\<rparr>"
  by (auto simp: write_children_def result_simps)

lemma pg_update_cases:
  assumes "pg_update db t r = Inr t'"
  obtains w w1 fs ds where "own_row db t (or_order_id r) = Some w"
    and "set_columns db r w = Inr w1"
    and "integrity_error (other_rows t (or_order_id r)) w1 = None"
    and "t' = replace_row t (w1\<lparr>ow_fills := fs, ow_discrepancies := ds\<rparr>)"
proof -
  from assms obtain w where w: "own_row db t (or_order_id r) = Some w"
    unfolding pg_update_def result_simps by (auto split: option.splits)
  with assms obtain w1 w2 where s: "set_columns db r w = Inr w1"
      "integrity_error (other_rows t (or_order_id r)) w1 = None"
      "write_children db r w1 = Inr w2" "t' = replace_row t w2"
    unfolding pg_update_def by (auto simp: result_simps)
  from write_children_Inr [OF s(3)] obtain fs ds where
    "w2 = w1\<lparr>ow_fills := fs, ow_discrepancies := ds\<rparr>" by iprover
  with w s that show ?thesis by simp
qed

lemma set_columns_keys:
  assumes "set_columns db r w = Inr w'"
  shows "ow_order_id w' = or_order_id r" "ow_account w' = ow_account w"
    "ow_client_order_id w' = or_client_order_id r" "mine db w' = mine db w"
  by (rule set_columns_cases [OF assms], simp)+

lemma own_intent:
  assumes "pg_inv db t" and "pg_rows db t oid = Some old" and "own_row db t oid = Some w"
  shows "oi_account_id (or_intent old) = db_print_uuid db (ow_account w)"
    and "oi_created_at (or_intent old) = or_created_at old"
    and "db_money db (oi_quantity (or_intent old)) = Some (oi_quantity (or_intent old))"
    and "col_option (db_money db) (oi_price (or_intent old)) (oi_price (or_intent old))"
proof -
  have keys: "keys_unique t" using assms(1) by (simp add: pg_inv_def)
  have old: "old = row_record db w" using assms(2,3) by (simp add: pg_rows_own)
  have "row_sound db w" using assms(1) own_row_iff [OF keys, of db oid w] assms(3) by (simp add: pg_inv_def)
  then show "oi_account_id (or_intent old) = db_print_uuid db (ow_account w)"
    "oi_created_at (or_intent old) = or_created_at old"
    "db_money db (oi_quantity (or_intent old)) = Some (oi_quantity (or_intent old))"
    "col_option (db_money db) (oi_price (or_intent old)) (oi_price (or_intent old))"
    by (simp_all add: old row_record_def row_sound_def)
qed

lemma pg_update_result:
  assumes db: "database_ok db" and inv: "pg_inv db t"
    and old: "pg_rows db t (or_order_id r) = Some old"
    and same: "or_intent r = (or_intent old)\<lparr>oi_quantity := q\<rparr>" "or_created_at r = or_created_at old"
    and upd: "pg_update db t r = Inr t'"
  shows "pg_inv db t' \<and>
    ((\<exists>x q'. db_money db q = Some q' \<and> same_columns (db_money db) (resized q' r) x \<and>
          pg_rows db t' = (pg_rows db t)(or_order_id r \<mapsto> x)) \<and>
       pg_damaged db t' = pg_damaged db t \<or>
     pg_rows db t' = (pg_rows db t)(or_order_id r := None) \<and>
     pg_damaged db t' = insert (or_order_id r) (pg_damaged db t))"
proof -
  obtain w w1 fs ds where own: "own_row db t (or_order_id r) = Some w"
    and cols: "set_columns db r w = Inr w1"
    and free: "integrity_error (other_rows t (or_order_id r)) w1 = None"
    and t': "t' = replace_row t (w1\<lparr>ow_fills := fs, ow_discrepancies := ds\<rparr>)"
    using upd by (rule pg_update_cases)
  define w2 where "w2 = w1\<lparr>ow_fills := fs, ow_discrepancies := ds\<rparr>"
  have keys: "keys_unique t" using inv by (simp add: pg_inv_def)
  have w: "w \<in> set t" "mine db w" "ow_order_id w = or_order_id r"
    using own own_row_iff [OF keys] by simp_all
  note ks = set_columns_keys [OF cols]
  have id2: "ow_order_id w2 = or_order_id r" "mine db w2"
    by (simp_all only: w2_def ks w mine_children) (simp add: ks)
  have free2: "integrity_error (other_rows t (or_order_id r)) w2 = None"
    by (simp only: w2_def integrity_children free)
  have sound: "row_sound db w2" using set_columns_sound [OF db cols] by (simp add: w2_def)
  have inv': "pg_inv db t'"
    unfolding t' w2_def [symmetric]
    by (rule pg_inv_replace [OF inv w(1) _ _ sound]) (simp_all add: id2(1) w(3) free2)
  have keys': "keys_unique (replace_row t w2)" using inv' by (simp add: pg_inv_def t' w2_def)
  have own': "own_row db t (ow_order_id w2) = Some w" by (simp add: id2 own)
  have ok: "or_order_id r \<notin> pg_damaged db t"
    using old own by (simp add: pg_rows_own pg_damaged_def)
  have "\<exists>q'. db_money db (oi_quantity (or_intent r)) = Some q' \<and>
      same_columns (db_money db) (resized q' r) (row_record db w2)"
    unfolding w2_def
    by (rule stored_columns [OF cols]) (use own_intent [OF inv old own] same in simp_all)
  then obtain q' where col: "db_money db q = Some q'"
      "same_columns (db_money db) (resized q' r) (row_record db w2)"
    by (auto simp: same(1))
  from pg_rows_replace [OF keys own' id2(2) keys'] show ?thesis
    unfolding t' [folded w2_def] id2(1)
    using inv' [unfolded t', folded w2_def] col ok
    by (cases "loadable (row_record db w2)") auto
qed

lemma pg_get_laws:
  "oid \<notin> pg_damaged db t \<Longrightarrow> pg_get db t oid = Inr (pg_rows db t oid)"
  "oid \<in> pg_damaged db t \<Longrightarrow> pg_get db t oid = Inl ValidationError"
  by (auto simp: pg_get_def pg_rows_def pg_damaged_def hydrate_def split: option.splits)

lemma scan_rows_of_result:
  "scan_rows_of db ws rs us =
     Inr \<lparr>sc_records = rs @ map (row_record db) (filter (\<lambda>w. loadable (row_record db w)) ws),
          sc_unreadable = us @ map (\<lambda>w. \<lparr>uo_order_id = ow_order_id w, uo_state = ow_state w,
                                       uo_reason = ValidationError\<rparr>)
            (filter (\<lambda>w. \<not> loadable (row_record db w)) ws)\<rparr>"
  by (induction ws arbitrary: rs us) (simp_all add: hydrate_def)

lemma distinct_by_set:
  "set ys = set xs \<Longrightarrow> length ys = length xs \<Longrightarrow> distinct (map f xs) \<Longrightarrow> distinct (map f ys)"
  by (metis card_distinct distinct_card length_map list.set_map)

lemma pg_scan:
  assumes db: "database_ok db" and inv: "pg_inv db t"
  shows "\<exists>sc. pg_scan_open db t = Inr sc \<and> distinct (map or_order_id (sc_records sc)) \<and>
    (\<forall>r. r \<in> set (sc_records sc) \<longleftrightarrow>
         pg_rows db t (or_order_id r) = Some r \<and> \<not> or_is_terminal r) \<and>
    uo_order_id ` set (sc_unreadable sc) \<subseteq> pg_damaged db t"
proof -
  have keys: "keys_unique t" using inv by (simp add: pg_inv_def)
  let ?ws = "filter (\<lambda>w. mine db w \<and> \<not> is_terminal (ow_state w)) t"
  let ?rows = "own_open_rows db t"
  have set_rows: "set ?rows = set ?ws"
    by (simp add: own_open_rows_def database_orders(3) [OF db])
  have "distinct (map ow_order_id ?ws)" using keys by (simp add: keys_unique_def distinct_map_filter)
  then have "distinct (map ow_order_id ?rows)"
    unfolding own_open_rows_def
    by (rule distinct_by_set [rotated 2])
      (simp_all add: database_orders(3,4) [OF db])
  then have d: "distinct (map or_order_id (map (row_record db)
      (filter (\<lambda>w. loadable (row_record db w)) ?rows)))"
    by (simp add: comp_def distinct_map_filter)
  show ?thesis
    unfolding pg_scan_open_def scan_rows_of_result
    using d set_rows
    by (auto simp: pg_rows_Some [OF keys] pg_damaged_iff [OF keys] or_is_terminal_def)
qed

text \<open>
  What a new order must satisfy to be read back as it was given: it has no fills yet, it names this
  account in its printed form, and its columns hold its amounts exactly.
\<close>

definition pg_storable :: "'u database \<Rightarrow> order_record \<Rightarrow> bool" where
  "pg_storable db r \<longleftrightarrow>
     or_fills r = [] \<and> or_discrepancies r = [] \<and> loadable r \<and>
     oi_account_id (or_intent r) = db_print_uuid db (db_account db) \<and>
     oi_created_at (or_intent r) = or_created_at r \<and>
     db_money db (oi_quantity (or_intent r)) = Some (oi_quantity (or_intent r)) \<and>
     col_option (db_money db) (oi_price (or_intent r)) (oi_price (or_intent r)) \<and>
     db_money db (or_filled_quantity r) = Some (or_filled_quantity r) \<and>
     col_option (db_money db) (or_average_fill_price r) (or_average_fill_price r) \<and>
     col_option (db_money db) (or_venue_leverage r) (or_venue_leverage r)"

lemma keys_unique_add:
  assumes "keys_unique t" and "integrity_error t w = None"
  shows "keys_unique (t @ [w])"
  unfolding keys_unique_alt
proof (intro conjI ballI impI)
  show "distinct (map ow_order_id (t @ [w]))"
    using assms by (auto simp: keys_unique_alt integrity_apart)
next
  fix x y
  assume xy: "x \<in> set (t @ [w])" "y \<in> set (t @ [w])" "ow_order_id x \<noteq> ow_order_id y"
  have new: "apart w z" if "z \<in> set t" for z using assms(2) that by (simp add: integrity_apart)
  have old: "apart x y" if "x \<in> set t" "y \<in> set t"
    using assms(1) that xy(3) by (simp add: keys_unique_alt)
  from xy show "apart x y" using new old apart_sym by auto
qed

lemma own_row_add:
  assumes "keys_unique t" and "keys_unique (t @ [w])" and "mine db w"
    and "own_row db t (ow_order_id w) = None"
  shows "own_row db (t @ [w]) oid = (if oid = ow_order_id w then Some w else own_row db t oid)"
proof (cases "oid = ow_order_id w")
  case True
  then show ?thesis using assms(2,3) by (simp add: own_row_iff)
next
  case False
  have "own_row db (t @ [w]) oid = Some x \<longleftrightarrow> own_row db t oid = Some x" for x
    using False assms(1,2) by (auto simp: own_row_iff)
  then show ?thesis using False by (metis option.exhaust)
qed

lemma write_children_new:
  assumes "ow_fills w = []" and "ow_discrepancies w = []" and "or_fills r = []"
    and "or_discrepancies r = []"
  shows "write_children db r w = Inr w"
  unfolding write_children_def write_fills_def write_discrepancies_def Let_def
  using assms by simp

lemma stored_new_row:
  assumes db: "database_ok db" and ok: "pg_storable db r"
    and cols: "set_columns db r (blank_row db r) = Inr w"
  shows "row_record db w = r" and "ow_fills w = []" and "ow_discrepancies w = []"
proof -
  obtain q p f a l where c: "w = assign_columns r q p f a l (blank_row db r)" "widths_ok w"
    "db_money db (oi_quantity (or_intent r)) = Some q"
    "col_option (db_money db) (oi_price (or_intent r)) p"
    "db_money db (or_filled_quantity r) = Some f"
    "col_option (db_money db) (or_average_fill_price r) a"
    "col_option (db_money db) (or_venue_leverage r) l"
    using cols by (rule set_columns_cases)
  have v: "q = oi_quantity (or_intent r)" "f = or_filled_quantity r" "p = oi_price (or_intent r)"
    "a = or_average_fill_price r" "l = or_venue_leverage r"
    using ok c(3-7) by (simp_all add: pg_storable_def col_option_def split: option.splits)
  have e: "db_order_fills db [] = []" "db_order_discrepancies db [] = []"
    using database_orders(5) [OF db, of "[]"] database_orders(6) [OF db, of "[]"] by simp_all
  show "row_record db w = r"
    using ok unfolding c(1) v
    by (simp add: row_record_def assign_columns_def blank_row_def Let_def e pg_storable_def)
  show "ow_fills w = []" "ow_discrepancies w = []" by (simp_all add: c(1) blank_row_def)
qed

lemma pg_add_result:
  assumes db: "database_ok db" and inv: "pg_inv db t"
    and fresh: "pg_rows db t (or_order_id r) = None" "or_order_id r \<notin> pg_damaged db t"
    and ok: "pg_storable db r" and add: "pg_add db t r = Inr t'"
  shows "pg_inv db t' \<and> pg_damaged db t' = pg_damaged db t \<and>
    pg_rows db t' = (pg_rows db t)(or_order_id r \<mapsto> r)"
proof -
  have keys: "keys_unique t" using inv by (simp add: pg_inv_def)
  obtain w w' where s: "set_columns db r (blank_row db r) = Inr w"
      "integrity_error t w = None" "write_children db r w = Inr w'" "t' = t @ [w']"
    using add unfolding pg_add_def by (auto simp: result_simps)
  note w = stored_new_row [OF db ok s(1)]
  have w': "w' = w"
    using s(3) write_children_new [OF w(2,3)] ok by (simp add: pg_storable_def)
  note ks = set_columns_keys [OF s(1)]
  have m: "mine db w" using ks(4) by (simp add: mine_def blank_row_def)
  have keys': "keys_unique (t @ [w])" using keys s(2) by (rule keys_unique_add)
  have none: "own_row db t (ow_order_id w) = None"
    using fresh by (auto simp: pg_rows_def pg_damaged_def ks split: option.splits if_splits)
  have "pg_inv db t'"
    using inv keys' set_columns_sound [OF db s(1)] by (simp add: pg_inv_def s(4) w')
  moreover have "loadable r" using ok by (simp add: pg_storable_def)
  ultimately show ?thesis
    unfolding pg_damaged_def pg_rows_def s(4) w' own_row_add [OF keys keys' m none]
    using w(1) ks(1) none by (auto simp: fun_eq_iff)
qed

lemma pg_client_row:
  assumes "pg_inv db t" and "pg_get_by_client db t cid = Inr (Some x)"
  shows "pg_rows db t (or_order_id x) = Some x \<and> or_client_order_id x = cid"
proof -
  have keys: "keys_unique t" using assms(1) by (simp add: pg_inv_def)
  obtain w where own: "own_client_row db t cid = Some w"
    using assms(2) by (cases "own_client_row db t cid") (simp_all add: pg_get_by_client_def)
  then have w: "w \<in> set t" "mine db w" "ow_client_order_id w = cid"
    using own_client_row_Some by blast+
  have x: "loadable (row_record db w)" "x = row_record db w"
    using assms(2) own by (simp_all add: pg_get_by_client_def hydrate_def split: if_splits)
  have "pg_rows db t (ow_order_id w) = Some (row_record db w)"
    unfolding pg_rows_Some [OF keys] by (rule bexI [OF _ w(1)]) (simp add: w x(1))
  then show ?thesis by (simp add: x(2) w(3))
qed

lemma pg_add_or_get_result:
  assumes db: "database_ok db" and inv: "pg_inv db t"
    and fresh: "pg_rows db t (or_order_id r) = None" "or_order_id r \<notin> pg_damaged db t"
    and ok: "pg_storable db r" and run: "pg_add_or_get db t r = Inr (t', x, created)"
  shows "pg_inv db t' \<and> pg_damaged db t' = pg_damaged db t \<and>
    (if created then x = r \<and> pg_rows db t' = (pg_rows db t)(or_order_id r \<mapsto> r)
     else t' = t \<and> pg_rows db t (or_order_id x) = Some x \<and>
          or_client_order_id x = or_client_order_id r)"
proof (cases created)
  case False
  with run have "t' = t" "pg_get_by_client db t (or_client_order_id r) = Inr (Some x)"
    unfolding pg_add_or_get_def
    by (auto simp: result_simps split: option.splits sum.splits if_splits)
  with False inv pg_client_row [OF inv] show ?thesis by simp
next
  case True
  with run have "x = r" "pg_add db t r = Inr t'"
    unfolding pg_add_or_get_def
    by (auto simp: result_simps split: option.splits sum.splits if_splits)
  with True pg_add_result [OF db inv fresh ok] show ?thesis by simp
qed

lemma pg_record_result:
  assumes inv: "pg_inv db t" and bad: "oid \<in> pg_damaged db t"
  shows "\<exists>t'. pg_record_unreadable db t oid detail now = Inr t' \<and> pg_inv db t' \<and>
    pg_rows db t' = pg_rows db t \<and> pg_damaged db t' = pg_damaged db t"
proof -
  have keys: "keys_unique t" using inv by (simp add: pg_inv_def)
  obtain w where own: "own_row db t oid = Some w" and no: "\<not> loadable (row_record db w)"
    using bad by (auto simp: pg_damaged_def)
  have w: "w \<in> set t" "mine db w" "ow_order_id w = oid" using own own_row_iff [OF keys] by simp_all
  define w' where "w' = w\<lparr>ow_discrepancies := ow_discrepancies w @
      [\<lparr>od_observed_at = now, od_detail = detail, od_local_state = ow_state w,
        od_venue_state = None\<rparr>]\<rparr>"
  have k: "ow_order_id w' = oid" "mine db w'" "row_sound db w' = row_sound db w"
    by (simp_all add: w'_def w)
  have "loadable (row_record db w') = loadable (row_record db w)"
    by (simp add: w'_def row_record_def loadable_def order_record_valid_def fills_agree_def)
  then have no': "\<not> loadable (row_record db w')" using no by simp
  have free: "integrity_error (other_rows t oid) w' = None"
    using own_keys_free [OF keys w(1), of w'] by (simp add: w'_def w(3))
  have inv': "pg_inv db (replace_row t w')"
    by (rule pg_inv_replace [OF inv w(1)]) (use inv w free in \<open>simp_all add: k pg_inv_def\<close>)
  have keys': "keys_unique (replace_row t w')" using inv' by (simp add: pg_inv_def)
  have own': "own_row db t (ow_order_id w') = Some w" by (simp add: k own)
  have "pg_rows db t oid = None" using own no by (simp add: pg_rows_def)
  with pg_rows_replace [OF keys own' k(2) keys'] inv' bad no'
  show ?thesis
    by (intro exI [of _ "replace_row t w'"])
      (simp add: pg_record_unreadable_def own w'_def [symmetric] k insert_absorb fun_upd_idem)
qed

subsection \<open>The contract holds\<close>

lemma grid8_dec28:
  assumes "on_grid 8 y" and "\<bar>y\<bar> < 10 ^ 16"
  shows "dec28 y"
  by (rule grid_dec28 [OF assms(1)]) (use assms(2) in simp)

lemma pg_ops_sel [simp]:
  "repo_durable (pg_ops db) = True" "repo_add (pg_ops db) = pg_add db"
  "repo_add_or_get (pg_ops db) = pg_add_or_get db" "repo_update (pg_ops db) = pg_update db"
  "repo_get (pg_ops db) = pg_get db" "repo_get_by_client (pg_ops db) = pg_get_by_client db"
  "repo_all (pg_ops db) = pg_all db" "repo_open (pg_ops db) = pg_open db"
  "repo_scan_open (pg_ops db) = pg_scan_open db"
  "repo_record_unreadable (pg_ops db) = pg_record_unreadable db" "repo_abort (pg_ops db) = pg_abort"
  by (simp_all add: pg_ops_def)

lemma pg_row_facts:
  assumes "pg_inv db t" and "pg_rows db t oid = Some r"
  shows "or_order_id r = oid" and "oid \<notin> pg_damaged db t" and "money_stored (db_money db) r"
proof -
  have keys: "keys_unique t" using assms(1) by (simp add: pg_inv_def)
  from assms(2) [unfolded pg_rows_own] obtain w where
    own: "own_row db t oid = Some w" and load: "loadable (row_record db w)"
    and r: "r = row_record db w" by iprover
  have w: "w \<in> set t" "mine db w" "ow_order_id w = oid" using own own_row_iff [OF keys] by simp_all
  then have "row_sound db w" using assms(1) by (simp add: pg_inv_def)
  then show "money_stored (db_money db) r" by (simp add: money_stored_def row_sound_def r)
  show "or_order_id r = oid" by (simp add: r w(3))
  show "oid \<notin> pg_damaged db t" using own load by (simp add: pg_damaged_def)
qed

lemma pg_client_unique:
  assumes "pg_inv db t" and "pg_rows db t a = Some r" and "pg_rows db t b = Some r'"
    and "or_client_order_id r = or_client_order_id r'"
  shows "a = b"
proof -
  have keys: "keys_unique t" using assms(1) by (simp add: pg_inv_def)
  from assms(2,3) [unfolded pg_rows_own] obtain w v where
    own: "own_row db t a = Some w" "own_row db t b = Some v"
    and r: "r = row_record db w" "r' = row_record db v" by iprover
  have "w \<in> set t" "mine db w" "ow_order_id w = a" "v \<in> set t" "mine db v" "ow_order_id v = b"
    using own own_row_iff [OF keys] by simp_all
  with keys assms(4) show ?thesis
    unfolding keys_unique_def mine_def r row_record_sel by metis
qed

lemma pg_repository:
  assumes db: "database_ok db"
  shows "order_repository (pg_ops db) (pg_inv db) (pg_rows db) (pg_damaged db) (pg_storable db)
           (db_money db)"
proof (unfold_locales, unfold pg_ops_sel, goal_cases)
  case (1 s oid)
  from 1(2) show ?case by (rule pg_get_laws(1))
next
  case (2 s oid)
  from pg_get_laws(2) [OF 2(2)] show ?case by (rule exI)
next
  case (3 s oid r)
  then show ?case by (rule pg_row_facts(1))
next
  case (4 s oid r)
  then show ?case by (rule pg_row_facts(2))
next
  case (5 s a r b r')
  then show ?case by (rule pg_client_unique)
next
  case (6 p p' q q')
  then show ?case by (rule database_money(3) [OF db])
next
  case (7 p q)
  then show ?case using database_money(2) [OF db] by (blast intro: grid8_dec28)
next
  case (8 s oid r)
  then show ?case by (rule pg_row_facts(3))
next
  case (9 s oid r n x st now)
  then show ?case by (rule pg_restate [OF db])
next
  case (10 s r old q s')
  from pg_update_result [OF db 10(1,2,4,5,6)] show ?case .
next
  case (11 s r s' x created)
  from pg_add_or_get_result [OF db 11(1,2,3,5,6)] show ?case .
next
  case (12 s)
  then show ?case by (rule pg_scan [OF db])
next
  case (13 s oid detail now)
  then show ?case by (rule pg_record_result)
next
  case (14 s s')
  show ?case by (rule disjI1) (rule pg_abort_def)
qed

end
