(* ===== verification/DurableProperties.thy ===== *)
theory DurableProperties
  imports OrderTableLaws OrderProperties
begin

section \<open>What the durable order store guarantees\<close>

text \<open>
  The lifecycle engine over the tables: the repository contract gives every fact of the engine, here
  for a database that behaves as documented. Any sequence of calls loses no order; a restart moves
  exactly the orders in flight; an order reads back as it was written; and the one way the engine
  can make an order unreadable.
\<close>

subsection \<open>Histories\<close>

definition pg_ok :: "'u database \<Rightarrow> 'u order_table \<Rightarrow> bool" where
  "pg_ok db t \<longleftrightarrow>
     database_ok db \<and> pg_inv db t \<and> (\<forall>oid. pred_option row_ok (pg_rows db t oid))"

definition pg_fresh ::
    "'u database \<Rightarrow> (string \<Rightarrow> nat \<Rightarrow> nat list) \<Rightarrow> 'u order_table \<Rightarrow> order_command \<Rightarrow> bool" where
  "pg_fresh db h t c \<longleftrightarrow>
     (case c of
        CreateOrGet u i \<Rightarrow>
          built_fresh h u i (\<lambda>oid. pg_rows db t oid \<noteq> None \<or> oid \<in> pg_damaged db t)
            (pg_storable db)
      | _ \<Rightarrow> True)"

inductive pg_run ::
    "'u database \<Rightarrow> (string \<Rightarrow> nat \<Rightarrow> nat list) \<Rightarrow> 'u order_table \<Rightarrow> 'u order_table \<Rightarrow> bool"
  for db h where
  start: "pg_run db h t t"
| more: "pg_run db h t t1 \<Longrightarrow> input_ok c \<Longrightarrow> pg_fresh db h t1 c \<Longrightarrow>
         pg_run db h t (fst (perform (pg_ops db) h c t1))"

lemmas pg_facts = order_repository.rows_ok_def [OF pg_repository]
lemmas pg_later = order_repository.later_def [OF pg_repository]

lemma pg_ok_rows:
  "database_ok db \<Longrightarrow> pg_ok db t \<longleftrightarrow> order_repository.rows_ok (pg_inv db) (pg_rows db) t"
  by (simp add: pg_ok_def pg_facts)

lemma pg_run_ok:
  assumes "pg_run db h t t'" and "pg_ok db t"
  shows "pg_ok db t' \<and> order_repository.later (pg_rows db) (pg_damaged db) t t'"
  using assms
proof (induction rule: pg_run.induct)
  case (start t)
  then have db: "database_ok db" "pg_inv db t" by (simp_all add: pg_ok_def)
  show ?case
    using start order_repository.later_refl [OF pg_repository [OF db(1)] db(2)] by simp
next
  case (more t t1 c)
  from more.prems have db: "database_ok db" by (simp add: pg_ok_def)
  from more.IH [OF more.prems] have one: "pg_ok db t1"
      "order_repository.later (pg_rows db) (pg_damaged db) t t1" by simp_all
  let ?t2 = "fst (perform (pg_ops db) h c t1)"
  have "order_repository.rows_ok (pg_inv db) (pg_rows db) ?t2 \<and>
      order_repository.later (pg_rows db) (pg_damaged db) t1 ?t2"
  proof (rule order_repository.perform_ok [OF pg_repository [OF db] _ more.hyps(2)])
    show "order_repository.rows_ok (pg_inv db) (pg_rows db) t1"
      using one(1) by (simp add: pg_ok_rows [OF db])
    show "built_fresh h u i (\<lambda>oid. pg_rows db t1 oid \<noteq> None \<or> oid \<in> pg_damaged db t1)
        (pg_storable db)" if "c = CreateOrGet u i" for u i
      using more.hyps(3) that by (simp add: pg_fresh_def)
  qed
  moreover have "pg_inv db t1" using one(1) by (simp add: pg_ok_def)
  ultimately show ?case
    using one(2) order_repository.later_trans [OF pg_repository [OF db]]
    by (simp add: pg_ok_rows [OF db])
qed


subsection \<open>Restart\<close>

lemma pred_option_some: "pred_option P m \<and> m \<noteq> None \<longleftrightarrow> (\<exists>x. m = Some x \<and> P x)"
  by (cases m) simp_all

text \<open>C3: recovery after a restart always completes on the durable store, and does exactly this: every
  readable order that had been submitted and whose fate was open becomes \<open>UNKNOWN\<close> (with the time of
  the recovery), every other readable order is as it was, no order becomes unreadable; the report
  names exactly the orders moved, and a second recovery moves none and changes no order.\<close>

theorem recovery_moves_exactly_in_flight:
  assumes "pg_ok db t"
  shows "\<exists>t' p. recover (pg_ops db) now t = (t', Inr p) \<and> pg_ok db t' \<and>
    pg_damaged db t' = pg_damaged db t \<and>
    (\<forall>oid. pg_rows db t' oid =
       (case pg_rows db t oid of None \<Rightarrow> None
        | Some r \<Rightarrow> Some (if in_flight r then r\<lparr>or_state := UNKNOWN, or_updated_at := now\<rparr> else r))) \<and>
    set (rr_interrupted p) = {oid. \<exists>r. pg_rows db t oid = Some r \<and> in_flight r} \<and>
    (\<exists>t'' p'. recover (pg_ops db) later_on t' = (t'', Inr p') \<and> rr_interrupted p' = [] \<and>
       pg_rows db t'' = pg_rows db t')"
proof -
  have db: "database_ok db" using assms by (simp add: pg_ok_def)
  note run = order_repository.recover_run [OF pg_repository [OF db]]
  have ok: "order_repository.rows_ok (pg_inv db) (pg_rows db) t"
    using assms by (simp add: pg_ok_rows [OF db])
  from run [OF ok, of now] obtain t' p where one: "recover (pg_ops db) now t = (t', Inr p)"
    "order_repository.rows_ok (pg_inv db) (pg_rows db) t'" "pg_damaged db t' = pg_damaged db t"
    "pg_rows db t' = (\<lambda>oid. map_option (recovered now) (pg_rows db t oid))"
    "set (rr_interrupted p) = {oid. pred_option in_flight (pg_rows db t oid) \<and> pg_rows db t oid \<noteq> None}"
    by auto
  from run [OF one(2), of later_on] obtain t'' p' where
    two: "recover (pg_ops db) later_on t' = (t'', Inr p')"
    "pg_rows db t'' = (\<lambda>oid. map_option (recovered later_on) (pg_rows db t' oid))"
    "set (rr_interrupted p') = {oid. pred_option in_flight (pg_rows db t' oid) \<and> pg_rows db t' oid \<noteq> None}"
    by auto
  have calm: "\<not> in_flight x" if "pg_rows db t' oid = Some x" for oid x
    using that recovered_not_in_flight by (auto simp: one(4))
  then have "set (rr_interrupted p') = {}"
    unfolding two(3) [unfolded pred_option_some] by blast
  then have "rr_interrupted p' = []" by simp
  moreover have "pg_rows db t'' = pg_rows db t'"
    using calm by (auto simp: two(2) fun_eq_iff recovered_def intro!: option.map_ident_strong)
  moreover have "pg_rows db t' oid =
      (case pg_rows db t oid of None \<Rightarrow> None
       | Some r \<Rightarrow> Some (if in_flight r then r\<lparr>or_state := UNKNOWN, or_updated_at := now\<rparr> else r))" for oid
    by (simp add: one(4) recovered_def lost_def split: option.splits)
  moreover have "set (rr_interrupted p) = {oid. \<exists>r. pg_rows db t oid = Some r \<and> in_flight r}"
    unfolding one(5) by (simp only: pred_option_some)
  moreover have "pg_ok db t'" using one(2) by (simp add: pg_ok_rows [OF db])
  ultimately show ?thesis using one(1,3) two(1) by (intro exI [of _ t'] exI [of _ p]) simp
qed

subsection \<open>A database, and a table with one order\<close>

definition example_money :: "rat \<Rightarrow> rat option" where
  "example_money x =
     (let y = of_int \<lfloor>x * 10 ^ 8 + 1 / 2\<rfloor> / 10 ^ 8 in if \<bar>y\<bar> < 10 ^ 16 then Some y else None)"

definition example_db :: "unit database" where
  "example_db =
     \<lparr>db_owner = (), db_account = (),
      db_parse_uuid = (\<lambda>s. if s = ''acct'' then Some () else None),
      db_print_uuid = (\<lambda>_. ''acct''), db_money = example_money, db_order_rows = (\<lambda>xs. xs),
      db_order_fills = (\<lambda>xs. xs), db_order_discrepancies = (\<lambda>xs. xs)\<rparr>"

lemma example_db_sel [simp]:
  "db_owner example_db = ()" "db_account example_db = ()"
  "db_parse_uuid example_db = (\<lambda>s. if s = ''acct'' then Some () else None)"
  "db_print_uuid example_db = (\<lambda>_. ''acct'')" "db_money example_db = example_money"
  "db_order_rows example_db = (\<lambda>xs. xs)" "db_order_fills example_db = (\<lambda>xs. xs)"
  "db_order_discrepancies example_db = (\<lambda>xs. xs)"
  by (simp_all add: example_db_def)

lemma example_money_grid:
  assumes "on_grid 8 x" and "\<bar>x\<bar> < 10 ^ 16"
  shows "example_money x = Some x"
proof -
  obtain n :: int where x: "x = of_int n / 10 ^ 8" using assms(1) by (auto simp: on_grid_def)
  have "\<lfloor>x * 10 ^ 8 + 1 / 2\<rfloor> = n" unfolding x by (simp add: floor_eq_iff)
  then have "of_int \<lfloor>x * 10 ^ 8 + 1 / 2\<rfloor> / 10 ^ 8 = x" unfolding x by simp
  then show ?thesis using assms(2) by (simp only: example_money_def Let_def if_True)
qed

lemma example_db_ok: "database_ok example_db"
proof -
  have grid: "on_grid 8 y \<and> \<bar>y\<bar> < 10 ^ 16" if "example_money x = Some y" for x y
  proof -
    have y: "y = of_int \<lfloor>x * 10 ^ 8 + 1 / 2\<rfloor> / 10 ^ 8" "\<bar>y\<bar> < 10 ^ 16"
      using that by (simp_all add: example_money_def Let_def split: if_splits)
    have "on_grid 8 y" unfolding on_grid_def y(1) by (rule exI) (rule refl)
    with y(2) show ?thesis by simp
  qed
  have mono: "x' \<le> y'" if "example_money x = Some x'" "example_money y = Some y'" "x \<le> y" for x y x' y'
  proof -
    have "x' = of_int \<lfloor>x * 10 ^ 8 + 1 / 2\<rfloor> / 10 ^ 8" "y' = of_int \<lfloor>y * 10 ^ 8 + 1 / 2\<rfloor> / 10 ^ 8"
      using that(1,2) by (simp_all add: example_money_def Let_def split: if_splits)
    moreover have "\<lfloor>x * 10 ^ 8 + 1 / 2\<rfloor> \<le> \<lfloor>y * 10 ^ 8 + 1 / 2\<rfloor>"
      using that(3) by (intro floor_mono) simp
    ultimately show ?thesis by (simp add: divide_right_mono)
  qed
  show ?thesis
    unfolding database_ok_def example_db_sel
    by (intro conjI allI impI; (elim conjE)?; (rule refl | assumption)?)
      (simp, erule grid [THEN conjunct1], erule grid [THEN conjunct2],
       rule example_money_grid, assumption+, rule mono)
qed

definition example_row :: "order_state \<Rightarrow> timestamp option \<Rightarrow> timestamp option \<Rightarrow> unit order_row" where
  "example_row st sent settled =
     assign_columns (example_order st sent settled) 2 None 0 None None
       (blank_row example_db (example_order st sent settled))"

lemma example_money_2: "example_money 2 = Some 2"
  by (rule example_money_grid) (simp_all add: on_grid_def exI [of _ 200000000])

lemma example_money_0: "example_money 0 = Some 0"
  by (rule example_money_grid) (simp_all add: on_grid_def exI [of _ 0])

lemma example_row_record: "row_record example_db (example_row st a b) = example_order st a b"
  by (simp add: example_row_def row_record_def assign_columns_def blank_row_def Let_def
      example_order_def example_intent_def)

lemma example_row_mine: "mine example_db w"
  by (simp add: mine_def)

lemma example_row_sound: "row_sound example_db (example_row st a b)"
  by (simp add: example_row_def row_sound_def widths_ok_def assign_columns_def blank_row_def Let_def
      example_order_def example_intent_def example_money_2 example_money_0 col_option_def fits_def)

lemma example_loadable: "loadable (example_order st a b)"
  by (simp add: loadable_def example_order_def example_intent_def order_intent_valid_def
      order_record_valid_def fills_agree_def)

lemma example_own_row:
  "own_row example_db [example_row st a b] oid =
     (if oid = ''order-1'' then Some (example_row st a b) else None)"
  by (simp add: own_row_def example_row_mine) (simp add: example_row_def)

lemma example_table_rows:
  "pg_rows example_db [example_row st a b] oid =
     (if oid = ''order-1'' then Some (example_order st a b) else None)"
  by (simp add: pg_rows_def example_own_row example_row_record example_loadable)

lemma example_table_inv: "pg_inv example_db [example_row st a b]"
  by (simp add: pg_inv_def keys_unique_def example_row_sound)

lemma example_table_ok:
  assumes "(b \<noteq> None) = is_terminal st" and "st \<in> {CREATED, VALIDATING} \<longrightarrow> a = None"
    and "st \<in> sent_states \<longrightarrow> a \<noteq> None"
  shows "pg_ok example_db [example_row st a b]"
  using example_order_ok [OF assms]
  by (simp add: pg_ok_def example_db_ok example_table_inv example_table_rows)


theorem recovery_moves_exactly_in_flight_witness:
  "\<exists>t p. recover (pg_ops example_db) 9 [example_row ACCEPTED (Some 5) None] = (t, Inr p) \<and>
     map_option or_state (pg_rows example_db t ''order-1'') = Some UNKNOWN \<and>
     set (rr_interrupted p) = {''order-1''}"
proof -
  have "pg_ok example_db [example_row ACCEPTED (Some 5) None]"
    by (rule example_table_ok) (simp_all add: is_terminal_def terminal_order_states_def)
  from recovery_moves_exactly_in_flight [OF this, of 9 10] obtain t p where
    r: "recover (pg_ops example_db) 9 [example_row ACCEPTED (Some 5) None] = (t, Inr p)"
    "\<And>oid. pg_rows example_db t oid =
       (case pg_rows example_db [example_row ACCEPTED (Some 5) None] oid of None \<Rightarrow> None
        | Some r \<Rightarrow> Some (if in_flight r then r\<lparr>or_state := UNKNOWN, or_updated_at := 9\<rparr> else r))"
    "set (rr_interrupted p) =
       {oid. \<exists>r. pg_rows example_db [example_row ACCEPTED (Some 5) None] oid = Some r \<and> in_flight r}"
    by blast
  have "in_flight (example_order ACCEPTED (Some 5) None)"
    by (simp add: in_flight_def or_is_terminal_def is_unreconciled_def reached_venue_def
        is_terminal_def terminal_order_states_def)
  with r show ?thesis
    by (intro exI [of _ t] exI [of _ p]) (simp add: example_table_rows)
qed

subsection \<open>Reading back what was written\<close>

lemma pg_add_cases:
  assumes "database_ok db" and "pg_storable db r" and "pg_add db t r = Inr t'"
  obtains w where "t' = t @ [w]" and "row_record db w = r" and "mine db w"
    and "integrity_error t w = None" and "ow_order_id w = or_order_id r"
    and "ow_client_order_id w = or_client_order_id r"
proof -
  obtain w w' where s: "set_columns db r (blank_row db r) = Inr w"
      "integrity_error t w = None" "write_children db r w = Inr w'" "t' = t @ [w']"
    using assms(3) unfolding pg_add_def by (auto simp: result_simps)
  note w = stored_new_row [OF assms(1,2) s(1)]
  have "w' = w" using s(3) write_children_new [OF w(2,3)] assms(2) by (simp add: pg_storable_def)
  moreover have "mine db w"
    using set_columns_keys(4) [OF s(1)] by (simp add: mine_def blank_row_def)
  ultimately show ?thesis using that s(2,4) w(1) set_columns_keys(1,3) [OF s(1)] by simp
qed

lemma find_append_last: "\<not> (\<exists>x \<in> set xs. P x) \<Longrightarrow> P w \<Longrightarrow> find P (xs @ [w]) = Some w"
  by (induction xs) auto



subsection \<open>A fill delivered twice\<close>

lemma write_no_new_fills:
  assumes "of_fill_id ` set (or_fills r) = of_fill_id ` set stored"
  shows "write_fills db r stored = Inr stored"
proof -
  have "filter (\<lambda>f. of_fill_id f \<notin> of_fill_id ` set stored) (or_fills r) = []"
    using assms by (auto simp: filter_empty_conv)
  then show ?thesis by (simp add: write_fills_def Let_def assms filter_id_conv)
qed

text \<open>
  What applying a fill the order already has does: the total counts it again, the fill row is not
  written again, and the row's parts disagree.
\<close>

lemma dec28_ten_16: "dec28 (10 ^ 16)"
proof (rule grid_dec28 [of 8])
  show "on_grid 8 (10 ^ 16)" unfolding on_grid_def by (rule exI [of _ "10 ^ 24"]) simp
qed simp

lemma fill_total_column:
  assumes db: "database_ok db" and row: "row_sound db w" and q: "on_grid 8 q" "0 < q"
    and le: "d_add (ow_filled_quantity w) q \<le> ow_quantity w" and nonneg: "0 \<le> ow_filled_quantity w"
  shows "db_money db (d_add (ow_filled_quantity w) q) = Some (ow_filled_quantity w + q)"
    and "d_add (ow_filled_quantity w) q = ow_filled_quantity w + q"
proof -
  have m: "db_money db (ow_filled_quantity w) = Some (ow_filled_quantity w)"
    "db_money db (ow_quantity w) = Some (ow_quantity w)"
    using row by (simp_all add: row_sound_def)
  note c = database_money(2) [OF db m(1), THEN conjunct1]
    database_money(2) [OF db m(2), THEN conjunct2]
  define b :: rat where "b = 10 ^ 16"
  have cap: "ow_quantity w < b" using c(2) unfolding b_def [symmetric] by linarith
  show sum: "d_add (ow_filled_quantity w) q = ow_filled_quantity w + q"
  proof (cases "ow_filled_quantity w + q < b")
    case True
    have "b < 10 ^ 20" by (simp add: b_def)
    then show ?thesis using c(1) q nonneg True by (intro d_add_grid) linarith+
  next
    case False
    then have "b \<le> ow_filled_quantity w + q" by linarith
    then have "b \<le> d_add (ow_filled_quantity w) q"
      unfolding d_add_def b_def by (rule ctx_round_ge [OF dec28_ten_16])
    with le cap show ?thesis by linarith
  qed
  have "on_grid 8 (ow_filled_quantity w + q)" by (rule on_grid_add [OF c(1) q(1)])
  moreover have "\<bar>ow_filled_quantity w + q\<bar> < 10 ^ 16"
    unfolding b_def [symmetric] using le cap nonneg q(2) unfolding sum by linarith
  ultimately show "db_money db (d_add (ow_filled_quantity w) q) = Some (ow_filled_quantity w + q)"
    unfolding sum using db unfolding database_ok_def by blast
qed


text \<open>An order for two, one filled; the same fill arrives again.\<close>

definition half_filled :: order_record where
  "half_filled =
     (example_order PARTIALLY_FILLED (Some 5) None)
       \<lparr>or_filled_quantity := 1, or_average_fill_price := Some 100, or_fills := [example_fill 100 1]\<rparr>"

definition half_filled_row :: "unit order_row" where
  "half_filled_row =
     (example_row PARTIALLY_FILLED (Some 5) None)
       \<lparr>ow_filled_quantity := 1, ow_average_fill_price := Some 100,
        ow_fills := [example_fill 100 1]\<rparr>"

definition twice_filled :: order_record where
  "twice_filled =
     half_filled\<lparr>or_state := FILLED, or_fills := [example_fill 100 1, example_fill 100 1],
       or_filled_quantity := 2, or_average_fill_price := Some 100, or_updated_at := 9,
       or_terminal_at := Some 9\<rparr>"

lemma half_filled_record: "row_record example_db half_filled_row = half_filled"
  by (simp add: half_filled_row_def half_filled_def example_row_def row_record_def
      assign_columns_def blank_row_def Let_def example_order_def example_intent_def)

lemma half_filled_loadable: "loadable half_filled"
  by (simp add: loadable_def half_filled_def example_order_def example_intent_def
      order_intent_valid_def order_record_valid_def fills_agree_def example_fill_def
      order_fill_valid_def d_sum_def dec_eval)

lemma example_money_int: "\<bar>n\<bar> < 10 ^ 16 \<Longrightarrow> example_money (of_int n) = Some (of_int n)"
proof (rule example_money_grid)
  show "on_grid 8 (of_int n)" by (rule on_grid_of_int)
  assume "\<bar>n\<bar> < 10 ^ 16"
  then have "of_int \<bar>n\<bar> < (of_int (10 ^ 16) :: rat)" by (simp only: of_int_less_iff)
  then show "\<bar>of_int n :: rat\<bar> < 10 ^ 16" by simp
qed

lemma example_money_1_100: "example_money 1 = Some 1" "example_money 100 = Some 100"
  using example_money_int [of 1] example_money_int [of 100] by simp_all

lemma half_filled_sel:
  "ow_order_id half_filled_row = ''order-1''"
  "ow_client_order_id half_filled_row = ''aeth-07070707070707070707''"
  "ow_fills half_filled_row = [example_fill 100 1]"
  by (simp_all add: half_filled_row_def example_row_def example_order_def)

lemma half_filled_sound: "row_sound example_db half_filled_row"
  using example_row_sound [of PARTIALLY_FILLED "Some 5" None]
  by (simp add: half_filled_row_def row_sound_def widths_ok_def example_money_1_100 col_option_def)

lemma half_filled_own: "own_row example_db [half_filled_row] ''order-1'' = Some half_filled_row"
  by (simp add: own_row_def example_row_mine half_filled_sel)

lemma half_filled_step: "fill_step (example_fill 100 1) 9 half_filled = Inr twice_filled"
proof -
  have "fill_average [example_fill 100 1, example_fill 100 1] 2 = Inr (Some 100)"
  proof -
    have "d_mul 100 1 = 100" "d_div 200 2 = Inr 100" by (simp_all add: dec_eval)
    moreover have "d_sum [100, 100] = 200" by (simp add: d_sum_def dec_eval)
    moreover have "quantize_usdt 100 = Inr 100"
      by (simp add: quantize_usdt_def USDT_PLACES_def dec_eval)
    ultimately show ?thesis by (simp add: fill_average_def example_fill_def)
  qed
  moreover have "d_add 1 1 = 2" by (simp add: dec_eval)
  ultimately show ?thesis
    by (simp add: fill_step_def half_filled_def twice_filled_def example_fill_def example_intent_def
        check_transition_def machine_simps is_terminal_def terminal_order_states_def)
qed

lemma half_filled_update:
  "\<exists>t. pg_update example_db [half_filled_row] twice_filled = Inr t"
proof -
  have cols: "set_columns example_db twice_filled half_filled_row =
      Inr (assign_columns twice_filled 2 None 2 (Some 100) None half_filled_row)"
    by (rule set_columns_Inr)
      (simp_all add: widths_ok_def assign_columns_def Let_def twice_filled_def half_filled_def
        example_order_def example_intent_def fits_def example_money_2 example_money_1_100
        col_option_def)
  have kids: "write_fills example_db twice_filled [example_fill 100 1] = Inr [example_fill 100 1]"
    by (rule write_no_new_fills) (simp add: twice_filled_def)
  have id: "or_order_id twice_filled = ''order-1''"
      "own_account example_db twice_filled"
    by (simp_all add: twice_filled_def half_filled_def own_account_def example_intent_def)
  show ?thesis
    by (simp add: pg_update_def id half_filled_own cols write_children_def kids other_rows_def
        half_filled_sel raise_if_def integrity_error_def)
qed


end
