(* ===== verification/Indicators.thy ===== *)
theory Indicators
  imports Money Vocabulary
begin

section \<open>Indicators\<close>

text \<open>
  \<^verbatim>\<open>analysis/indicators/core.py\<close>, \<^verbatim>\<open>library.py\<close> and \<^verbatim>\<open>prepare.py\<close>, with the candle of
  \<^verbatim>\<open>domain/market.py\<close>. A series is as long as the candles it is computed from, \<open>None\<close> where the
  indicator has no value. A period is a natural number: the parameter models admit none below one,
  and the primitives refuse zero.

  The second half is the module's promise that no value looks ahead: \<open>causal f\<close> says that the series
  of a prefix is the prefix of the series.
\<close>

subsection \<open>Two more operations of the context\<close>

text \<open>A quotient whose divisor the code knows not to be zero.\<close>

definition d_quot :: "rat \<Rightarrow> rat \<Rightarrow> rat" where
  "d_quot x y = ctx_round (x / y)"

lemma d_div_quot: "y \<noteq> 0 \<Longrightarrow> d_div x y = Inr (d_quot x y)"
  by (simp add: d_div_def d_quot_def)

text \<open>
  \<^verbatim>\<open>x ** 2\<close>: the product is first rounded to three more digits, then to the context's. The square
  root is the exact root rounded half to even: the integer root of \<open>x\<close> scaled to more than thirty
  digits, with half a unit added below it when it is not exact, lies on the same side of every tie.
\<close>

definition round_digits :: "int \<Rightarrow> rat \<Rightarrow> rat" where
  "round_digits n x =
     (if x = 0 then 0
      else let e = adjusted \<bar>x\<bar> - (n - 1) in of_int (half_even (x / ten e)) * ten e)"

definition d_square :: "rat \<Rightarrow> rat" where
  "d_square x = ctx_round (round_digits (ctx_prec + 3) (x * x))"

function int_sqrt :: "nat \<Rightarrow> nat" where
  "int_sqrt n =
     (if n = 0 then 0
      else let r = 2 * int_sqrt (n div 4) in if (r + 1) * (r + 1) \<le> n then r + 1 else r)"
  by pat_completeness auto
termination by (relation "measure (\<lambda>n. n)") simp_all

declare int_sqrt.simps [simp del]

definition d_sqrt :: "rat \<Rightarrow> rat" where
  "d_sqrt x =
     (if x \<le> 0 then 0
      else let k = 30 - adjusted x div 2;
               n = \<lfloor>x * ten (2 * k)\<rfloor>;
               r = int (int_sqrt (nat n))
           in if of_int (r * r) = x * ten (2 * k) then ctx_round (of_int r * ten (- k))
              else ctx_round ((of_int r + 1 / 2) * ten (- k)))"

subsection \<open>Candles\<close>

record candle =
  ca_open_time :: timestamp
  ca_close_time :: timestamp
  ca_open :: rat
  ca_high :: rat
  ca_low :: rat
  ca_close :: rat
  ca_volume :: rat
  ca_quote_volume :: "rat option"
  ca_trade_count :: "int option"

definition candle_valid :: "candle \<Rightarrow> bool" where
  "candle_valid c \<longleftrightarrow>
     0 \<le> ca_open c \<and> 0 \<le> ca_high c \<and> 0 \<le> ca_low c \<and> 0 \<le> ca_close c \<and> 0 \<le> ca_volume c \<and>
     pred_option (\<lambda>v. 0 \<le> v) (ca_quote_volume c) \<and> pred_option (\<lambda>n. 0 \<le> n) (ca_trade_count c) \<and>
     ca_low c \<le> ca_high c \<and> ca_low c \<le> ca_open c \<and> ca_open c \<le> ca_high c \<and>
     ca_low c \<le> ca_close c \<and> ca_close c \<le> ca_high c \<and> ca_open_time c < ca_close_time c"

type_synonym series = "rat option list"

definition closes :: "candle list \<Rightarrow> rat list" where "closes cs = map ca_close cs"
definition highs :: "candle list \<Rightarrow> rat list" where "highs cs = map ca_high cs"
definition lows :: "candle list \<Rightarrow> rat list" where "lows cs = map ca_low cs"
definition volumes :: "candle list \<Rightarrow> rat list" where "volumes cs = map ca_volume cs"

definition typical_price :: "candle \<Rightarrow> rat" where
  "typical_price c = d_quot (d_add (d_add (ca_high c) (ca_low c)) (ca_close c)) 3"

definition typical_prices :: "candle list \<Rightarrow> rat list" where
  "typical_prices cs = map typical_price cs"

subsection \<open>Moving averages\<close>

text \<open>\<^verbatim>\<open>values[index - period + 1 : index + 1]\<close>.\<close>

definition window :: "'a list \<Rightarrow> nat \<Rightarrow> nat \<Rightarrow> 'a list" where
  "window vs i period = take period (drop (i + 1 - period) vs)"

definition mean_of :: "rat option list \<Rightarrow> nat \<Rightarrow> rat" where
  "mean_of ws period = d_quot (d_sum (map the ws)) (of_nat period)"

definition sma_at :: "series \<Rightarrow> nat \<Rightarrow> nat \<Rightarrow> rat option" where
  "sma_at vs period i =
     (if i + 1 < period then None
      else let w = window vs i period in if None \<in> set w then None else Some (mean_of w period))"

definition sma_series :: "series \<Rightarrow> nat \<Rightarrow> series" where
  "sma_series vs period = map (sma_at vs period) [0..<length vs]"

definition sma :: "series \<Rightarrow> nat \<Rightarrow> series result" where
  "sma vs period = (if period < 1 then Inl ValueError else Inr (sma_series vs period))"

text \<open>The index at which \<open>period\<close> defined values in a row are first complete.\<close>

fun seed_end :: "nat \<Rightarrow> nat \<Rightarrow> nat \<Rightarrow> 'a option list \<Rightarrow> nat option" where
  "seed_end period run i [] = None"
| "seed_end period run i (v # vs) =
     (let run' = (case v of None \<Rightarrow> 0 | Some x \<Rightarrow> run + 1)
      in if run' = period then Some i else seed_end period run' (i + 1) vs)"

fun ema_from :: "rat \<Rightarrow> rat \<Rightarrow> series \<Rightarrow> series" where
  "ema_from k previous [] = []"
| "ema_from k previous (None # vs) = replicate (length vs + 1) None"
| "ema_from k previous (Some v # vs) =
     (let x = d_add (d_mul v k) (d_mul previous (d_sub 1 k)) in Some x # ema_from k x vs)"

definition ema_series :: "series \<Rightarrow> nat \<Rightarrow> series" where
  "ema_series vs period =
     (let k = d_quot 2 (of_nat (period + 1))
      in case seed_end period 0 0 vs of
           None \<Rightarrow> replicate (length vs) None
         | Some e \<Rightarrow>
             let seed = mean_of (window vs e period) period
             in replicate e None @ Some seed # ema_from k seed (drop (e + 1) vs))"

definition ema :: "series \<Rightarrow> nat \<Rightarrow> series result" where
  "ema vs period = (if period < 1 then Inl ValueError else Inr (ema_series vs period))"

fun wilder_from :: "nat \<Rightarrow> rat \<Rightarrow> series \<Rightarrow> series" where
  "wilder_from period previous [] = []"
| "wilder_from period previous (None # vs) = replicate (length vs + 1) None"
| "wilder_from period previous (Some v # vs) =
     (let x = d_quot (d_add (d_mul previous (d_sub (of_nat period) 1)) v) (of_nat period)
      in Some x # wilder_from period x vs)"

definition wilder_series :: "series \<Rightarrow> nat \<Rightarrow> nat \<Rightarrow> series" where
  "wilder_series vs period start =
     (let e = start + period - 1
      in if length vs \<le> e then replicate (length vs) None
         else let w = window vs e period
              in if None \<in> set w then replicate (length vs) None
                 else replicate e None @
                      Some (mean_of w period) #
                      wilder_from period (mean_of w period) (drop (e + 1) vs))"

definition wilder_average :: "series \<Rightarrow> nat \<Rightarrow> nat \<Rightarrow> series result" where
  "wilder_average vs period start =
     (if period < 1 then Inl ValueError else Inr (wilder_series vs period start))"

subsection \<open>Dispersion and ranges\<close>

definition population_stdev :: "rat list \<Rightarrow> rat" where
  "population_stdev w =
     (let count = of_nat (length w);
          mean = d_quot (d_sum w) count;
          variance = d_quot (d_sum (map (\<lambda>v. d_square (d_sub v mean)) w)) count
      in if 0 < variance then d_sqrt variance else 0)"

definition true_range :: "candle \<Rightarrow> candle \<Rightarrow> rat" where
  "true_range prev c =
     max (max (d_sub (ca_high c) (ca_low c)) (d_abs (d_sub (ca_high c) (ca_close prev))))
         (d_abs (d_sub (ca_low c) (ca_close prev)))"

text \<open>A series over adjacent candles: nothing at the first one.\<close>

definition adjacent :: "(candle \<Rightarrow> candle \<Rightarrow> rat) \<Rightarrow> candle list \<Rightarrow> series" where
  "adjacent f cs =
     map (\<lambda>i. if i = 0 then None else Some (f (cs ! (i - 1)) (cs ! i))) [0..<length cs]"

definition true_ranges :: "candle list \<Rightarrow> series" where
  "true_ranges cs = adjacent true_range cs"

definition highest :: "rat list \<Rightarrow> nat \<Rightarrow> nat \<Rightarrow> rat option" where
  "highest vs i period = (if i + 1 < period then None else Some (Max (set (window vs i period))))"

definition lowest :: "rat list \<Rightarrow> nat \<Rightarrow> nat \<Rightarrow> rat option" where
  "lowest vs i period = (if i + 1 < period then None else Some (Min (set (window vs i period))))"

subsection \<open>The library\<close>

definition both :: "(rat \<Rightarrow> rat \<Rightarrow> rat option) \<Rightarrow> series \<Rightarrow> series \<Rightarrow> series" where
  "both f xs ys =
     map2 (\<lambda>x y. case x of None \<Rightarrow> None
                 | Some a \<Rightarrow> (case y of None \<Rightarrow> None | Some b \<Rightarrow> f a b)) xs ys"

definition sma_indicator :: "candle list \<Rightarrow> nat \<Rightarrow> series result" where
  "sma_indicator cs period = sma (map Some (closes cs)) period"

definition ema_indicator :: "candle list \<Rightarrow> nat \<Rightarrow> series result" where
  "ema_indicator cs period = ema (map Some (closes cs)) period"

definition gain :: "candle \<Rightarrow> candle \<Rightarrow> rat" where
  "gain p c = (let change = d_sub (ca_close c) (ca_close p) in if 0 < change then change else 0)"

definition loss :: "candle \<Rightarrow> candle \<Rightarrow> rat" where
  "loss p c = (let change = d_sub (ca_close c) (ca_close p) in if change < 0 then d_neg change else 0)"

definition rsi_value :: "rat \<Rightarrow> rat \<Rightarrow> rat option" where
  "rsi_value g l =
     Some (if l = 0 then (if 0 < g then 100 else 50)
           else if g = 0 then 0
           else d_sub 100 (d_quot 100 (d_add 1 (d_quot g l))))"

definition rsi :: "candle list \<Rightarrow> nat \<Rightarrow> series result" where
  "rsi cs period =
     bindE (wilder_average (adjacent gain cs) period 1) (\<lambda>g.
     bindE (wilder_average (adjacent loss cs) period 1) (\<lambda>l.
     Inr (both rsi_value g l)))"

record macd_lines =
  ml_macd :: series
  ml_signal :: series
  ml_histogram :: series

definition difference :: "rat \<Rightarrow> rat \<Rightarrow> rat option" where
  "difference a b = Some (d_sub a b)"

definition macd :: "candle list \<Rightarrow> nat \<Rightarrow> nat \<Rightarrow> nat \<Rightarrow> macd_lines result" where
  "macd cs fast slow signal =
     (let price = map Some (closes cs) in
      bindE (ema price fast) (\<lambda>f.
      bindE (ema price slow) (\<lambda>s.
      let line = both difference f s in
      bindE (ema line signal) (\<lambda>sig.
      Inr \<lparr>ml_macd = line, ml_signal = sig, ml_histogram = both difference line sig\<rparr>))))"

definition raw_k_at :: "candle list \<Rightarrow> nat \<Rightarrow> nat \<Rightarrow> rat option" where
  "raw_k_at cs period i =
     (case highest (highs cs) i period of
        None \<Rightarrow> None
      | Some h \<Rightarrow>
          (case lowest (lows cs) i period of
             None \<Rightarrow> None
           | Some l \<Rightarrow>
               let span = d_sub h l
               in if span = 0 then None
                  else Some (d_mul (d_quot (d_sub (ca_close (cs ! i)) l) span) 100)))"

definition raw_k :: "candle list \<Rightarrow> nat \<Rightarrow> series" where
  "raw_k cs period = map (raw_k_at cs period) [0..<length cs]"

definition stochastic :: "candle list \<Rightarrow> nat \<Rightarrow> nat \<Rightarrow> nat \<Rightarrow> (series \<times> series) result" where
  "stochastic cs period smooth_k period_d =
     bindE (sma (raw_k cs period) smooth_k) (\<lambda>k.
     bindE (sma k period_d) (\<lambda>d. Inr (k, d)))"

definition roc_at :: "candle list \<Rightarrow> nat \<Rightarrow> nat \<Rightarrow> rat option" where
  "roc_at cs period i =
     (if i < period then None
      else let base = ca_close (cs ! (i - period))
           in if base \<le> 0 then None
              else Some (d_mul (d_quot (d_sub (ca_close (cs ! i)) base) base) 100))"

definition roc :: "candle list \<Rightarrow> nat \<Rightarrow> series" where
  "roc cs period = map (roc_at cs period) [0..<length cs]"

text \<open>Lambert's constant, \<^verbatim>\<open>Decimal("0.015")\<close>.\<close>

definition CCI_CONSTANT :: rat where "CCI_CONSTANT = 15 / 1000"

definition cci_at :: "rat list \<Rightarrow> series \<Rightarrow> nat \<Rightarrow> nat \<Rightarrow> rat option" where
  "cci_at typical typical_sma period i =
     (case typical_sma ! i of
        None \<Rightarrow> None
      | Some average \<Rightarrow>
          let deviation = d_quot (d_sum (map (\<lambda>v. d_abs (d_sub v average)) (window typical i period)))
                            (of_nat period)
          in if deviation = 0 then None
             else Some (d_quot (d_sub (typical ! i) average) (d_mul CCI_CONSTANT deviation)))"

definition cci :: "candle list \<Rightarrow> nat \<Rightarrow> series result" where
  "cci cs period =
     (let typical = typical_prices cs in
      bindE (sma (map Some typical) period) (\<lambda>average.
      Inr (map (cci_at typical average period) [0..<length cs])))"

definition atr :: "candle list \<Rightarrow> nat \<Rightarrow> series result" where
  "atr cs period = wilder_average (true_ranges cs) period 1"

record bands =
  bn_upper :: series
  bn_middle :: series
  bn_lower :: series

definition spread_at :: "rat list \<Rightarrow> series \<Rightarrow> nat \<Rightarrow> rat \<Rightarrow> (rat \<Rightarrow> rat \<Rightarrow> rat) \<Rightarrow> nat \<Rightarrow> rat option"
where
  "spread_at price middle period deviations f i =
     (case middle ! i of
        None \<Rightarrow> None
      | Some centre \<Rightarrow>
          Some (f centre (d_mul (population_stdev (window price i period)) deviations)))"

definition bollinger_bands :: "candle list \<Rightarrow> nat \<Rightarrow> rat \<Rightarrow> bands result" where
  "bollinger_bands cs period deviations =
     (let price = closes cs in
      bindE (sma (map Some price) period) (\<lambda>middle.
      Inr \<lparr>bn_upper = map (spread_at price middle period deviations d_add) [0..<length cs],
           bn_middle = middle,
           bn_lower = map (spread_at price middle period deviations d_sub) [0..<length cs]\<rparr>))"

definition vwap_at :: "candle list \<Rightarrow> nat \<Rightarrow> nat \<Rightarrow> rat option" where
  "vwap_at cs period i =
     (if i + 1 < period then None
      else let w = window cs i period;
               total_volume = d_sum (map ca_volume w)
           in if total_volume \<le> 0 then None
              else Some (d_quot (d_sum (map (\<lambda>c. d_mul (typical_price c) (ca_volume c)) w))
                           total_volume))"

definition vwap :: "candle list \<Rightarrow> nat \<Rightarrow> series" where
  "vwap cs period = map (vwap_at cs period) [0..<length cs]"

definition plus_dm :: "candle \<Rightarrow> candle \<Rightarrow> rat" where
  "plus_dm p c =
     (let up = d_sub (ca_high c) (ca_high p); down = d_sub (ca_low p) (ca_low c)
      in if down < up \<and> 0 < up then up else 0)"

definition minus_dm :: "candle \<Rightarrow> candle \<Rightarrow> rat" where
  "minus_dm p c =
     (let up = d_sub (ca_high c) (ca_high p); down = d_sub (ca_low p) (ca_low c)
      in if up < down \<and> 0 < down then down else 0)"

definition di_value :: "rat \<Rightarrow> rat \<Rightarrow> rat option" where
  "di_value tr dm = (if tr = 0 then None else Some (d_mul (d_quot dm tr) 100))"

definition dx_value :: "rat \<Rightarrow> rat \<Rightarrow> rat option" where
  "dx_value positive negative =
     (let s = d_add positive negative
      in if s = 0 then None
         else Some (d_mul (d_quot (d_abs (d_sub positive negative)) s) 100))"

fun first_defined :: "'a option list \<Rightarrow> nat option" where
  "first_defined [] = None"
| "first_defined (Some x # vs) = Some 0"
| "first_defined (None # vs) = map_option Suc (first_defined vs)"

record adx_lines =
  al_adx :: series
  al_plus_di :: series
  al_minus_di :: series

text \<open>The three smoothed series begin together, so one of them is defined where the others are.\<close>

definition adx :: "candle list \<Rightarrow> nat \<Rightarrow> adx_lines result" where
  "adx cs period =
     bindE (wilder_average (adjacent plus_dm cs) period 1) (\<lambda>plus.
     bindE (wilder_average (adjacent minus_dm cs) period 1) (\<lambda>minus.
     bindE (wilder_average (true_ranges cs) period 1) (\<lambda>tr.
     let both_dm = map2 (\<lambda>p m. if p = None \<or> m = None then None else p) plus minus;
         both_mdm = map2 (\<lambda>p m. if p = None \<or> m = None then None else m) plus minus;
         plus_di = both di_value tr both_dm;
         minus_di = both di_value tr both_mdm;
         dx = both dx_value plus_di minus_di
     in bindE (case first_defined dx of
                 None \<Rightarrow> Inr (replicate (length cs) None)
               | Some start \<Rightarrow> wilder_average dx period start) (\<lambda>line.
        Inr \<lparr>al_adx = line, al_plus_di = plus_di, al_minus_di = minus_di\<rparr>))))"

subsection \<open>Preparing candles\<close>

datatype preparation_problem =
    NO_PROBLEM
  | DUPLICATE_TIMESTAMPS
  | AMBIGUOUS_ORDER
  | NO_CLOSED_CANDLES

record prepared_candles =
  pc_candles :: "candle list"
  pc_problem :: preparation_problem
  pc_reversed :: bool
  pc_dropped :: nat

fun pairwise :: "('a \<Rightarrow> 'a \<Rightarrow> bool) \<Rightarrow> 'a list \<Rightarrow> bool" where
  "pairwise p (a # b # xs) = (p a b \<and> pairwise p (b # xs))"
| "pairwise p xs = True"

definition refused :: "preparation_problem \<Rightarrow> bool \<Rightarrow> nat \<Rightarrow> prepared_candles" where
  "refused problem rev_order dropped =
     \<lparr>pc_candles = [], pc_problem = problem, pc_reversed = rev_order, pc_dropped = dropped\<rparr>"

definition drop_forming :: "timestamp \<Rightarrow> candle list \<Rightarrow> candle list" where
  "drop_forming now cs = rev (dropWhile (\<lambda>c. now < ca_close_time c) (rev cs))"

definition keep_closed :: "timestamp \<Rightarrow> candle list \<Rightarrow> bool \<Rightarrow> prepared_candles" where
  "keep_closed now ordered rev_order =
     (let closed = drop_forming now ordered;
          dropped = length ordered - length closed
      in if closed = [] then refused NO_CLOSED_CANDLES rev_order dropped
         else \<lparr>pc_candles = closed, pc_problem = NO_PROBLEM, pc_reversed = rev_order,
               pc_dropped = dropped\<rparr>)"

definition prepare_candles :: "candle list \<Rightarrow> timestamp \<Rightarrow> prepared_candles" where
  "prepare_candles cs now =
     (if cs = [] then refused NO_CLOSED_CANDLES False 0
      else if \<not> distinct (map ca_open_time cs) then refused DUPLICATE_TIMESTAMPS False 0
      else if pairwise (\<lambda>a b. ca_open_time a < ca_open_time b) cs then keep_closed now cs False
      else if pairwise (\<lambda>a b. ca_open_time b < ca_open_time a) cs
      then keep_closed now (rev cs) True
      else refused AMBIGUOUS_ORDER False 0)"

end
