(* ===== verification/IndicatorLaws.thy ===== *)
theory IndicatorLaws
  imports Indicators
begin

section \<open>No indicator looks ahead\<close>

text \<open>
  \<open>causal f\<close>: a series as long as its input, and the series of a prefix is the prefix of the series.
  Pointwise functions, functions of an index that read no later index, and compositions of causal
  functions are causal; so are the seeded recursions.
\<close>

definition causal :: "('a list \<Rightarrow> 'b list) \<Rightarrow> bool" where
  "causal f \<longleftrightarrow> (\<forall>xs. length (f xs) = length xs) \<and> (\<forall>xs n. f (take n xs) = take n (f xs))"

named_theorems causal_intros "functions whose values do not look ahead"

lemma causalI:
  "(\<And>xs. length (f xs) = length xs) \<Longrightarrow> (\<And>xs n. n < length xs \<Longrightarrow> f (take n xs) = take n (f xs)) \<Longrightarrow>
   causal f"
  unfolding causal_def by (metis not_less take_all)

lemma causal_length: "causal f \<Longrightarrow> length (f xs) = length xs"
  by (simp add: causal_def)

lemma causal_take: "causal f \<Longrightarrow> f (take n xs) = take n (f xs)"
  by (simp add: causal_def)

text \<open>The value at an index is the last value of the prefix that ends there.\<close>

lemma causal_nth: "causal f \<Longrightarrow> i < length xs \<Longrightarrow> f xs ! i = last (f (take (Suc i) xs))"
proof -
  assume f: "causal f" and i: "i < length xs"
  have "i < length (f xs)" using i by (simp add: causal_length [OF f])
  then have "last (take (Suc i) (f xs)) = f xs ! i" by (simp add: take_Suc_conv_app_nth)
  then show "f xs ! i = last (f (take (Suc i) xs))" by (simp only: causal_take [OF f])
qed

lemma causal_map [causal_intros]: "causal (map f)"
  by (simp add: causal_def take_map)

lemma causal_id [causal_intros]: "causal (\<lambda>xs. xs)"
  by (simp add: causal_def)

lemma causal_comp: "causal f \<Longrightarrow> causal g \<Longrightarrow> causal (\<lambda>xs. g (f xs))"
  by (simp add: causal_def)

lemma causal_map_of [causal_intros]: "causal f \<Longrightarrow> causal (\<lambda>xs. map h (f xs))"
  by (rule causal_comp [OF _ causal_map])

lemma causal_map2 [causal_intros]: "causal f \<Longrightarrow> causal g \<Longrightarrow> causal (\<lambda>xs. map2 h (f xs) (g xs))"
  by (simp add: causal_def take_map take_zip)

lemma causal_both [causal_intros]: "causal f \<Longrightarrow> causal g \<Longrightarrow> causal (\<lambda>xs. both h (f xs) (g xs))"
  unfolding both_def by (rule causal_map2)

lemma causal_index:
  assumes "\<And>xs n i. i < n \<Longrightarrow> n < length xs \<Longrightarrow> h (take n xs) i = h xs i"
  shows "causal (\<lambda>xs. map (h xs) [0..<length xs])"
  by (rule causalI) (auto simp: take_map assms take_upt)

lemma window_take: "i < n \<Longrightarrow> period \<le> i + 1 \<Longrightarrow> window (take n xs) i period = window xs i period"
proof -
  assume "i < n" "period \<le> i + 1"
  then have "period \<le> n - (i + 1 - period)" by simp
  then show "window (take n xs) i period = window xs i period"
    by (simp add: window_def drop_take min_absorb1)
qed

lemma window_map: "window (map f xs) i period = map f (window xs i period)"
  by (simp add: window_def take_map drop_map)

lemma causal_adjacent [causal_intros]: "causal (adjacent f)"
  unfolding adjacent_def by (rule causal_index) simp

lemma causal_sma [causal_intros]: "causal (\<lambda>vs. sma_series vs period)"
  unfolding sma_series_def by (rule causal_index) (simp add: sma_at_def window_take)

subsection \<open>The seeded recursions\<close>

lemma length_ema_from [simp]: "length (ema_from k p vs) = length vs"
  by (induction k p vs rule: ema_from.induct) (simp_all add: Let_def)

lemma take_ema_from: "ema_from k p (take n vs) = take n (ema_from k p vs)"
proof (induction k p vs arbitrary: n rule: ema_from.induct)
  case (2 k p vs)
  then show ?case by (cases n) (simp_all add: min_def)
next
  case (3 k p v vs)
  then show ?case by (cases n) (simp_all add: Let_def)
qed simp

lemma length_wilder_from [simp]: "length (wilder_from q p vs) = length vs"
  by (induction q p vs rule: wilder_from.induct) (simp_all add: Let_def)

lemma take_wilder_from: "wilder_from q p (take n vs) = take n (wilder_from q p vs)"
proof (induction q p vs arbitrary: n rule: wilder_from.induct)
  case (2 q p vs)
  then show ?case by (cases n) (simp_all add: min_def)
next
  case (3 q p v vs)
  then show ?case by (cases n) (simp_all add: Let_def)
qed simp

lemma seed_end_bounds: "seed_end period run i vs = Some e \<Longrightarrow> i \<le> e \<and> e < i + length vs"
  by (induction vs arbitrary: run i) (fastforce simp: Let_def split: if_splits)+

lemma seed_end_window:
  "seed_end period run i vs = Some e \<Longrightarrow> period \<le> run + (e - i) + 1"
proof (induction vs arbitrary: run i)
  case (Cons v vs)
  define run' where "run' = (case v of None \<Rightarrow> 0 | Some x \<Rightarrow> run + 1)"
  have le: "run' \<le> run + 1" by (simp add: run'_def split: option.splits)
  show ?case
  proof (cases "run' = period")
    case True
    with Cons.prems le show ?thesis by (simp add: run'_def [symmetric])
  next
    case False
    with Cons.prems have s: "seed_end period run' (i + 1) vs = Some e" by (simp add: run'_def [symmetric])
    from Cons.IH [OF s] seed_end_bounds [OF s] le show ?thesis by linarith
  qed
qed simp

lemma seed_end_take:
  "seed_end period run i (take n vs) =
   (case seed_end period run i vs of None \<Rightarrow> None | Some e \<Rightarrow> if e < i + n then Some e else None)"
proof (induction vs arbitrary: run i n)
  case (Cons v vs)
  show ?case
  proof (cases n)
    case 0
    then show ?thesis
      using seed_end_bounds [of period run i "v # vs"] by (fastforce split: option.splits)
  next
    case (Suc m)
    then show ?thesis by (simp add: Cons.IH Let_def split: option.splits)
  qed
qed simp

text \<open>Nothing before the seed, the seed, and what follows it: cut before or after the seed.\<close>

lemma take_seeded:
  assumes "e < length vs" and "\<And>m. tail (take m (drop (e + 1) vs)) = take m (tail (drop (e + 1) vs))"
  shows "take n (replicate e None @ Some s # tail (drop (e + 1) vs)) =
    (if n \<le> e then replicate n None else replicate e None @ Some s # tail (drop (e + 1) (take n vs)))"
proof (cases "n \<le> e")
  case False
  then have "n - e = Suc (n - (e + 1))" by simp
  moreover have "drop (e + 1) (take n vs) = take (n - (e + 1)) (drop (e + 1) vs)"
    by (simp add: drop_take)
  ultimately show ?thesis using False assms(2) [of "n - (e + 1)"] by simp
qed (simp add: min_def)

lemma length_ema_series: "length (ema_series vs period) = length vs"
  using seed_end_bounds [of period 0 0 vs]
  by (auto simp: ema_series_def Let_def split: option.splits)

lemma causal_ema [causal_intros]: "causal (\<lambda>vs. ema_series vs period)"
proof (rule causalI)
  fix vs :: series and n
  assume n: "n < length vs"
  show "ema_series (take n vs) period = take n (ema_series vs period)"
  proof (cases "seed_end period 0 0 vs")
    case None
    with n show ?thesis by (simp add: ema_series_def seed_end_take min_def)
  next
    case (Some e)
    have e: "e < length vs" "period \<le> e + 1"
      using seed_end_bounds [OF Some] seed_end_window [OF Some] by simp_all
    let ?k = "d_quot 2 (of_nat (period + 1))"
    let ?s = "mean_of (window vs e period) period"
    have all: "take n (ema_series vs period) =
        (if n \<le> e then replicate n None
         else replicate e None @ Some ?s # ema_from ?k ?s (drop (e + 1) (take n vs)))"
      unfolding ema_series_def Some Let_def option.case
      by (rule take_seeded [OF e(1) take_ema_from])
    show ?thesis
    proof (cases "n \<le> e")
      case True
      with n show ?thesis unfolding all by (simp add: ema_series_def seed_end_take Some min_def)
    next
      case False
      then have "window (take n vs) e period = window vs e period"
        using e(2) by (simp add: window_take)
      with False show ?thesis
        unfolding all by (simp add: ema_series_def seed_end_take Some Let_def)
    qed
  qed
qed (rule length_ema_series)

lemma length_wilder_series: "length (wilder_series vs period start) = length vs"
proof (cases "length vs \<le> start + period - 1")
  case False
  define e where "e = start + period - 1"
  from False have "Suc (e + (length vs - Suc e)) = length vs" by (simp add: e_def)
  moreover have "0 < length vs" using False by linarith
  ultimately show ?thesis unfolding wilder_series_def e_def [symmetric] Let_def by simp
qed (simp add: wilder_series_def)

lemma causal_wilder [causal_intros]:
  assumes "1 \<le> period"
  shows "causal (\<lambda>vs. wilder_series vs period start)"
proof (rule causalI)
  fix vs :: series and n
  assume n: "n < length vs"
  let ?e = "start + period - 1"
  let ?w = "window vs ?e period"
  show "wilder_series (take n vs) period start = take n (wilder_series vs period start)"
  proof (cases "length vs \<le> ?e \<or> None \<in> set ?w")
    case True
    then have "take n (wilder_series vs period start) = replicate n None"
      using n by (auto simp: wilder_series_def Let_def)
    moreover have "wilder_series (take n vs) period start = replicate n None"
    proof (cases "n \<le> ?e")
      case True
      then show ?thesis using n by (simp add: wilder_series_def)
    next
      case False
      then have "window (take n vs) ?e period = ?w" using assms by (intro window_take) simp_all
      with True False n show ?thesis by (simp add: wilder_series_def Let_def)
    qed
    ultimately show ?thesis by simp
  next
    case False
    let ?s = "mean_of ?w period"
    have all: "take n (wilder_series vs period start) =
        (if n \<le> ?e then replicate n None
         else replicate ?e None @ Some ?s # wilder_from period ?s (drop (?e + 1) (take n vs)))"
      using False take_seeded [of ?e vs "wilder_from period ?s" n ?s] take_wilder_from
      by (simp add: wilder_series_def Let_def)
    show ?thesis
    proof (cases "n \<le> ?e")
      case True
      with n show ?thesis unfolding all by (simp add: wilder_series_def)
    next
      case F: False
      then have "window (take n vs) ?e period = ?w" using assms by (intro window_take) simp_all
      with F False n show ?thesis unfolding all by (simp add: wilder_series_def Let_def)
    qed
  qed
qed (rule length_wilder_series)

subsection \<open>Every line of the library\<close>

text \<open>Errors depend on the periods alone, so a prefix fails exactly when the whole does.\<close>

definition cut :: "nat \<Rightarrow> 'a list result \<Rightarrow> 'a list result" where
  "cut n r = map_sum id (take n) r"

lemma cut_simps [simp]: "cut n (Inr s) = Inr (take n s)" "cut n (Inl e) = Inl e"
  by (simp_all add: cut_def)

lemma sma_take: "sma (take n vs) period = cut n (sma vs period)"
  by (simp add: sma_def causal_take [OF causal_sma])

lemma ema_take: "ema (take n vs) period = cut n (ema vs period)"
  by (simp add: ema_def causal_take [OF causal_ema])

lemma wilder_take: "wilder_average (take n vs) period start = cut n (wilder_average vs period start)"
  by (simp add: wilder_average_def causal_take [OF causal_wilder])

lemma both_take: "both h (take n xs) (take n ys) = take n (both h xs ys)"
  by (simp add: both_def take_map take_zip)

lemma adjacent_take: "adjacent f (take n cs) = take n (adjacent f cs)"
  by (rule causal_take [OF causal_adjacent])

lemma closes_take: "map Some (closes (take n cs)) = take n (map Some (closes cs))"
  by (simp add: closes_def take_map)

lemma rsi_take: "rsi (take n cs) period = cut n (rsi cs period)"
  unfolding rsi_def adjacent_take wilder_take
  by (cases "wilder_average (adjacent gain cs) period 1";
      cases "wilder_average (adjacent loss cs) period 1") (simp_all add: both_take)

lemma atr_take: "atr (take n cs) period = cut n (atr cs period)"
  unfolding atr_def true_ranges_def adjacent_take wilder_take ..

definition cut_macd :: "nat \<Rightarrow> macd_lines \<Rightarrow> macd_lines" where
  "cut_macd n l =
     \<lparr>ml_macd = take n (ml_macd l), ml_signal = take n (ml_signal l),
      ml_histogram = take n (ml_histogram l)\<rparr>"

lemma macd_take: "macd (take n cs) fast slow signal = map_sum id (cut_macd n) (macd cs fast slow signal)"
proof (cases "ema (map Some (closes cs)) fast")
  case f: (Inr f)
  show ?thesis
  proof (cases "ema (map Some (closes cs)) slow")
    case s: (Inr s)
    show ?thesis
      unfolding macd_def Let_def closes_take ema_take f s
      by (simp add: both_take ema_take)
        (cases "ema (both difference f s) signal"; simp add: both_take cut_macd_def)
  qed (simp add: macd_def Let_def closes_take ema_take f)
qed (simp add: macd_def Let_def closes_take ema_take)

lemma extreme_take:
  "i < n \<Longrightarrow> highest (take n vs) i period = highest vs i period"
  "i < n \<Longrightarrow> lowest (take n vs) i period = lowest vs i period"
  by (simp_all add: highest_def lowest_def window_take)

lemma prices_take:
  "highs (take n cs) = take n (highs cs)" "lows (take n cs) = take n (lows cs)"
  "closes (take n cs) = take n (closes cs)" "typical_prices (take n cs) = take n (typical_prices cs)"
  by (simp_all add: highs_def lows_def closes_def typical_prices_def take_map)

lemma raw_k_at_take: "i < n \<Longrightarrow> raw_k_at (take n cs) period i = raw_k_at cs period i"
  unfolding raw_k_at_def prices_take Let_def by (simp only: extreme_take nth_take)

lemma causal_raw_k: "causal (\<lambda>cs. raw_k cs period)"
  unfolding raw_k_def by (rule causal_index) (rule raw_k_at_take)

lemma stochastic_take:
  "stochastic (take n cs) period smooth_k period_d =
   map_sum id (\<lambda>(k, d). (take n k, take n d)) (stochastic cs period smooth_k period_d)"
proof (cases "sma (raw_k cs period) smooth_k")
  case (Inr k)
  then show ?thesis
    unfolding stochastic_def causal_take [OF causal_raw_k] sma_take Inr
    by (simp add: sma_take) (cases "sma k period_d"; simp)
qed (simp add: stochastic_def causal_take [OF causal_raw_k] sma_take)

lemma causal_roc: "causal (\<lambda>cs. roc cs period)"
  unfolding roc_def by (rule causal_index) (simp add: roc_at_def Let_def)

lemma causal_vwap: "causal (\<lambda>cs. vwap cs period)"
  unfolding vwap_def by (rule causal_index) (simp add: vwap_at_def window_take)

text \<open>A line that reads a window only where an average of the same window exists.\<close>

lemma sma_defined: "sma_series vs period ! i = Some x \<Longrightarrow> i < length vs \<Longrightarrow> period \<le> i + 1"
  by (simp add: sma_series_def sma_at_def split: if_splits)

lemma averaged_take:
  assumes "\<And>i. i < n \<Longrightarrow> n < length cs \<Longrightarrow> (A ! i = None \<or> period \<le> i + 1) \<Longrightarrow>
      h (take n P) (take n A) i = h P A i"
    and "A = sma_series (map Some P) period" and "length P = length cs"
  shows "map (h (take n P) (take n A)) [0..<length (take n cs)] = take n (map (h P A) [0..<length cs])"
proof (cases "n < length cs")
  case True
  have "A ! i = None \<or> period \<le> i + 1" if "i < n" for i
    using sma_defined [of "map Some P" period i] that True assms(2,3) by (cases "A ! i") auto
  with True assms(1) show ?thesis by (auto simp: take_map)
next
  case False
  have "length A = length cs" by (simp add: assms(2,3) sma_series_def)
  with False assms(3) show ?thesis by simp
qed

lemma cci_take: "cci (take n cs) period = cut n (cci cs period)"
proof (cases "sma (map Some (typical_prices cs)) period")
  case (Inr A)
  have A: "A = sma_series (map Some (typical_prices cs)) period"
    using Inr by (simp add: sma_def split: if_splits)
  have "map (cci_at (take n (typical_prices cs)) (take n A) period) [0..<length (take n cs)] =
      take n (map (cci_at (typical_prices cs) A period) [0..<length cs])"
    by (rule averaged_take [OF _ A])
      (auto simp: cci_at_def Let_def window_take typical_prices_def split: option.splits)
  then show ?thesis
    using Inr sma_take [of n "map Some (typical_prices cs)" period]
    by (simp add: cci_def Let_def typical_prices_def take_map)
next
  case (Inl e)
  then show ?thesis
    using sma_take [of n "map Some (typical_prices cs)" period]
    by (simp add: cci_def Let_def typical_prices_def take_map)
qed

definition cut_bands :: "nat \<Rightarrow> bands \<Rightarrow> bands" where
  "cut_bands n b =
     \<lparr>bn_upper = take n (bn_upper b), bn_middle = take n (bn_middle b),
      bn_lower = take n (bn_lower b)\<rparr>"

lemma bands_take:
  "bollinger_bands (take n cs) period deviations =
   map_sum id (cut_bands n) (bollinger_bands cs period deviations)"
proof (cases "sma (map Some (closes cs)) period")
  case (Inr A)
  have A: "A = sma_series (map Some (closes cs)) period"
    using Inr by (simp add: sma_def split: if_splits)
  have "map (spread_at (take n (closes cs)) (take n A) period deviations f) [0..<length (take n cs)] =
      take n (map (spread_at (closes cs) A period deviations f) [0..<length cs])" for f
    by (rule averaged_take [OF _ A])
      (auto simp: spread_at_def window_take closes_def split: option.splits)
  then show ?thesis
    using Inr sma_take [of n "map Some (closes cs)" period]
    by (simp add: bollinger_bands_def Let_def closes_def take_map cut_bands_def)
next
  case (Inl e)
  then show ?thesis
    using sma_take [of n "map Some (closes cs)" period]
    by (simp add: bollinger_bands_def Let_def closes_def take_map)
qed

lemma length_adjacent [simp]: "length (adjacent f cs) = length cs"
  by (simp add: adjacent_def)

lemma first_defined_take:
  "first_defined (take n vs) =
   (case first_defined vs of None \<Rightarrow> None | Some s \<Rightarrow> if s < n then Some s else None)"
proof (induction vs arbitrary: n rule: first_defined.induct)
  case (2 x vs)
  then show ?case by (cases n) simp_all
next
  case (3 vs)
  then show ?case by (cases n) (simp_all split: option.splits)
qed simp

definition cut_adx :: "nat \<Rightarrow> adx_lines \<Rightarrow> adx_lines" where
  "cut_adx n l =
     \<lparr>al_adx = take n (al_adx l), al_plus_di = take n (al_plus_di l),
      al_minus_di = take n (al_minus_di l)\<rparr>"

lemma wilder_short: "length vs \<le> start \<Longrightarrow> 1 \<le> period \<Longrightarrow>
    wilder_series vs period start = replicate (length vs) None"
proof -
  assume "length vs \<le> start" "1 \<le> period"
  then have "length vs \<le> start + period - 1" by linarith
  then show ?thesis by (simp add: wilder_series_def)
qed

lemma map2_take: "map2 h (take n xs) (take n ys) = take n (map2 h xs ys)"
  by (simp add: take_map take_zip)

text \<open>The averaged directional index: the cut commutes with its start.\<close>

definition dx_average :: "series \<Rightarrow> nat \<Rightarrow> series result" where
  "dx_average dx period =
     (case first_defined dx of
        None \<Rightarrow> Inr (replicate (length dx) None)
      | Some start \<Rightarrow> wilder_average dx period start)"

lemma dx_average_take:
  assumes "1 \<le> period"
  shows "dx_average (take n dx) period = cut n (dx_average dx period)"
proof (cases "first_defined dx")
  case None
  then show ?thesis by (simp add: dx_average_def first_defined_take)
next
  case (Some s)
  show ?thesis
  proof (cases "s < n")
    case True
    then show ?thesis by (simp add: dx_average_def first_defined_take Some wilder_take)
  next
    case False
    have "take n (wilder_series dx period s) = wilder_series (take n dx) period s"
      by (simp add: causal_take [OF causal_wilder [OF assms]])
    also have "\<dots> = replicate (length (take n dx)) None"
      using False assms by (intro wilder_short) simp_all
    finally show ?thesis
      using False assms by (simp add: dx_average_def first_defined_take Some wilder_average_def)
  qed
qed

lemma adx_take: "adx (take n cs) period = map_sum id (cut_adx n) (adx cs period)"
proof (cases "1 \<le> period")
  case True
  let ?w = "\<lambda>f. wilder_series (adjacent f cs) period 1"
  have w: "wilder_average (adjacent f (take n cs)) period 1 = Inr (take n (?w f))"
      "wilder_average (adjacent f cs) period 1 = Inr (?w f)" for f
    using True by (simp_all add: adjacent_take causal_take [OF causal_wilder [OF True]] wilder_average_def)
  define P where "P = map2 (\<lambda>p m. if p = None \<or> m = None then None else p) (?w plus_dm) (?w minus_dm)"
  define M where "M = map2 (\<lambda>p m. if p = None \<or> m = None then None else m) (?w plus_dm) (?w minus_dm)"
  define p where "p = both di_value (?w true_range) P"
  define m where "m = both di_value (?w true_range) M"
  define d where "d = both dx_value p m"
  have len: "length d = length cs"
    by (simp add: d_def p_def m_def P_def M_def both_def length_wilder_series)
  have whole: "adx cs period =
      bindE (dx_average d period) (\<lambda>line. Inr \<lparr>al_adx = line, al_plus_di = p, al_minus_di = m\<rparr>)"
    unfolding adx_def true_ranges_def w dx_average_def len
    by (simp only: bindE.simps Let_def P_def [symmetric] M_def [symmetric] p_def [symmetric]
        m_def [symmetric] d_def [symmetric])
  have cut_len: "length (take n cs) = length (take n d)" by (simp add: len)
  have part: "adx (take n cs) period =
      bindE (dx_average (take n d) period)
        (\<lambda>line. Inr \<lparr>al_adx = line, al_plus_di = take n p, al_minus_di = take n m\<rparr>)"
    unfolding adx_def true_ranges_def w dx_average_def cut_len
    by (simp only: bindE.simps Let_def map2_take both_take P_def [symmetric] M_def [symmetric]
        p_def [symmetric] m_def [symmetric] d_def [symmetric])
  show ?thesis
    unfolding whole part dx_average_take [OF True]
    by (cases "dx_average d period") (simp_all add: cut_adx_def)
next
  case False
  then show ?thesis by (simp add: adx_def wilder_average_def)
qed

subsection \<open>The integer square root\<close>

lemma int_sqrt_le: "int_sqrt n * int_sqrt n \<le> n \<and> n < (int_sqrt n + 1) * (int_sqrt n + 1)"
proof (induction n rule: int_sqrt.induct)
  case (1 n)
  show ?case
  proof (cases "n = 0")
    case False
    define r where "r = int_sqrt (n div 4)"
    from 1 [OF False] have r: "r * r \<le> n div 4" "n div 4 < (r + 1) * (r + 1)" by (simp_all add: r_def)
    have lo: "2 * r * (2 * r) \<le> n" using r(1) by (simp add: algebra_simps)
    have "n < 4 * (n div 4) + 4" by presburger
    with r(2) have "n < 4 * ((r + 1) * (r + 1))" by linarith
    then have hi: "n < (2 * r + 1 + 1) * (2 * r + 1 + 1)" by (simp add: algebra_simps)
    have "int_sqrt n = (if (2 * r + 1) * (2 * r + 1) \<le> n then 2 * r + 1 else 2 * r)"
      using False by (subst int_sqrt.simps) (simp add: r_def Let_def)
    then show ?thesis using lo hi by simp
  qed (simp add: int_sqrt.simps)
qed

lemma int_sqrt_eq: "r * r \<le> n \<Longrightarrow> n < (r + 1) * (r + 1) \<Longrightarrow> int_sqrt n = r"
proof -
  assume r: "r * r \<le> n" "n < (r + 1) * (r + 1)"
  let ?s = "int_sqrt n"
  have "?s < r + 1" by (rule ccontr) (use mult_le_mono [of "r + 1" ?s "r + 1" ?s] int_sqrt_le [of n] r in linarith)
  moreover have "r < ?s + 1" by (rule ccontr) (use mult_le_mono [of "?s + 1" r "?s + 1" r] int_sqrt_le [of n] r in linarith)
  ultimately show "?s = r" by simp
qed

lemma d_sqrt_eval:
  assumes "0 < x" "adjusted x = a" "\<lfloor>x * ten (2 * (30 - a div 2))\<rfloor> = int n" "r * r \<le> n" "n < (r + 1) * (r + 1)"
    "of_int (int (r * r)) \<noteq> x * ten (2 * (30 - a div 2))"
  shows "d_sqrt x = ctx_round ((of_nat r + 1 / 2) * ten (- (30 - a div 2)))"
proof -
  have r: "int_sqrt n = r" by (rule int_sqrt_eq [OF assms(4,5)])
  show ?thesis using assms(1,6) unfolding d_sqrt_def Let_def assms(2,3) nat_int r by simp
qed

end
