(* ===== verification/IndicatorEngine.thy ===== *)
theory IndicatorEngine
  imports IndicatorLaws
begin

section \<open>The indicator catalogue and its dispatch\<close>

text \<open>
  \<^verbatim>\<open>analysis/indicators/registry.py\<close> and \<^verbatim>\<open>engine.py\<close>, with the result models of
  \<^verbatim>\<open>domain/indicators.py\<close>. The catalogue is an association list in the order of the source's
  dictionary; an entry carries its lines, its warm-up and the parameters it reports. A computed
  indicator is an association list from the name of a line to its series. The names, descriptions and
  conventions written for a reader are left out.
\<close>

subsection \<open>Parameters\<close>

record indicator_params =
  sma_period :: nat
  ema_period :: nat
  rsi_period :: nat
  atr_period :: nat
  adx_period :: nat
  roc_period :: nat
  cci_period :: nat
  vwap_period :: nat
  bb_period :: nat
  bb_deviations :: rat
  macd_fast :: nat
  macd_slow :: nat
  macd_signal :: nat
  stoch_period :: nat
  stoch_smooth_k :: nat
  stoch_period_d :: nat

definition default_params :: indicator_params where
  "default_params =
     \<lparr>sma_period = 20, ema_period = 21, rsi_period = 14, atr_period = 14, adx_period = 14,
      roc_period = 12, cci_period = 20, vwap_period = 20, bb_period = 20, bb_deviations = 2,
      macd_fast = 12, macd_slow = 26, macd_signal = 9, stoch_period = 14, stoch_smooth_k = 3,
      stoch_period_d = 3\<rparr>"

definition in_range :: "nat \<Rightarrow> nat \<Rightarrow> nat \<Rightarrow> bool" where
  "in_range low high n \<longleftrightarrow> low \<le> n \<and> n \<le> high"

definition params_valid :: "indicator_params \<Rightarrow> bool" where
  "params_valid p \<longleftrightarrow>
     in_range 2 400 (sma_period p) \<and> in_range 2 400 (ema_period p) \<and> in_range 2 200 (rsi_period p) \<and>
     in_range 2 200 (atr_period p) \<and> in_range 2 200 (adx_period p) \<and> in_range 1 200 (roc_period p) \<and>
     in_range 2 200 (cci_period p) \<and> in_range 2 400 (vwap_period p) \<and> in_range 2 400 (bb_period p) \<and>
     0 < bb_deviations p \<and> bb_deviations p \<le> 10 \<and>
     in_range 2 200 (macd_fast p) \<and> in_range 3 400 (macd_slow p) \<and> in_range 2 200 (macd_signal p) \<and>
     in_range 2 200 (stoch_period p) \<and> in_range 1 50 (stoch_smooth_k p) \<and>
     in_range 1 50 (stoch_period_d p) \<and> macd_fast p < macd_slow p"

text \<open>The model's constructor validates every field.\<close>

definition mk_params :: "indicator_params \<Rightarrow> indicator_params result" where
  "mk_params p = (if params_valid p then Inr p else Inl ValidationError)"

subsection \<open>The catalogue\<close>

datatype indicator_kind = OVERLAY | OSCILLATOR

type_synonym indicator_lines = "(string, series) dict"

record indicator_spec =
  sp_key :: string
  sp_kind :: indicator_kind
  sp_value_keys :: "string list"
  sp_parameter_names :: "string list"
  sp_compute :: "candle list \<Rightarrow> indicator_params \<Rightarrow> indicator_lines result"
  sp_warmup :: "indicator_params \<Rightarrow> nat"
  sp_used :: "indicator_params \<Rightarrow> (string, rat) dict"

definition one_line :: "string \<Rightarrow> series \<Rightarrow> indicator_lines" where
  "one_line key s = [(key, s)]"

definition spec_sma :: indicator_spec where
  "spec_sma =
     \<lparr>sp_key = ''sma'', sp_kind = OVERLAY, sp_value_keys = [''sma''],
      sp_parameter_names = [''sma_period''],
      sp_compute = (\<lambda>cs p. bindE (sma_indicator cs (sma_period p)) (\<lambda>s. Inr (one_line ''sma'' s))),
      sp_warmup = (\<lambda>p. sma_period p - 1),
      sp_used = (\<lambda>p. [(''sma_period'', of_nat (sma_period p))])\<rparr>"

definition spec_ema :: indicator_spec where
  "spec_ema =
     \<lparr>sp_key = ''ema'', sp_kind = OVERLAY, sp_value_keys = [''ema''],
      sp_parameter_names = [''ema_period''],
      sp_compute = (\<lambda>cs p. bindE (ema_indicator cs (ema_period p)) (\<lambda>s. Inr (one_line ''ema'' s))),
      sp_warmup = (\<lambda>p. ema_period p - 1),
      sp_used = (\<lambda>p. [(''ema_period'', of_nat (ema_period p))])\<rparr>"

definition spec_bollinger :: indicator_spec where
  "spec_bollinger =
     \<lparr>sp_key = ''bollinger'', sp_kind = OVERLAY, sp_value_keys = [''upper'', ''middle'', ''lower''],
      sp_parameter_names = [''bb_period'', ''bb_deviations''],
      sp_compute = (\<lambda>cs p. bindE (bollinger_bands cs (bb_period p) (bb_deviations p)) (\<lambda>b.
        Inr [(''upper'', bn_upper b), (''middle'', bn_middle b), (''lower'', bn_lower b)])),
      sp_warmup = (\<lambda>p. bb_period p - 1),
      sp_used = (\<lambda>p. [(''bb_period'', of_nat (bb_period p)), (''bb_deviations'', bb_deviations p)])\<rparr>"

definition spec_vwap :: indicator_spec where
  "spec_vwap =
     \<lparr>sp_key = ''vwap'', sp_kind = OVERLAY, sp_value_keys = [''vwap''],
      sp_parameter_names = [''vwap_period''],
      sp_compute = (\<lambda>cs p. Inr (one_line ''vwap'' (vwap cs (vwap_period p)))),
      sp_warmup = (\<lambda>p. vwap_period p - 1),
      sp_used = (\<lambda>p. [(''vwap_period'', of_nat (vwap_period p))])\<rparr>"

definition spec_rsi :: indicator_spec where
  "spec_rsi =
     \<lparr>sp_key = ''rsi'', sp_kind = OSCILLATOR, sp_value_keys = [''rsi''],
      sp_parameter_names = [''rsi_period''],
      sp_compute = (\<lambda>cs p. bindE (rsi cs (rsi_period p)) (\<lambda>s. Inr (one_line ''rsi'' s))),
      sp_warmup = rsi_period,
      sp_used = (\<lambda>p. [(''rsi_period'', of_nat (rsi_period p))])\<rparr>"

definition spec_macd :: indicator_spec where
  "spec_macd =
     \<lparr>sp_key = ''macd'', sp_kind = OSCILLATOR,
      sp_value_keys = [''macd'', ''signal'', ''histogram''],
      sp_parameter_names = [''macd_fast'', ''macd_slow'', ''macd_signal''],
      sp_compute = (\<lambda>cs p. bindE (macd cs (macd_fast p) (macd_slow p) (macd_signal p)) (\<lambda>m.
        Inr [(''macd'', ml_macd m), (''signal'', ml_signal m), (''histogram'', ml_histogram m)])),
      sp_warmup = (\<lambda>p. macd_slow p + macd_signal p - 2),
      sp_used = (\<lambda>p. [(''macd_fast'', of_nat (macd_fast p)), (''macd_slow'', of_nat (macd_slow p)),
                      (''macd_signal'', of_nat (macd_signal p))])\<rparr>"

definition spec_stochastic :: indicator_spec where
  "spec_stochastic =
     \<lparr>sp_key = ''stochastic'', sp_kind = OSCILLATOR, sp_value_keys = [''k'', ''d''],
      sp_parameter_names = [''stoch_period'', ''stoch_smooth_k'', ''stoch_period_d''],
      sp_compute = (\<lambda>cs p.
        bindE (stochastic cs (stoch_period p) (stoch_smooth_k p) (stoch_period_d p)) (\<lambda>(k, d).
        Inr [(''k'', k), (''d'', d)])),
      sp_warmup = (\<lambda>p. stoch_period p + stoch_smooth_k p + stoch_period_d p - 3),
      sp_used = (\<lambda>p. [(''stoch_period'', of_nat (stoch_period p)),
                      (''stoch_smooth_k'', of_nat (stoch_smooth_k p)),
                      (''stoch_period_d'', of_nat (stoch_period_d p))])\<rparr>"

definition spec_atr :: indicator_spec where
  "spec_atr =
     \<lparr>sp_key = ''atr'', sp_kind = OSCILLATOR, sp_value_keys = [''atr''],
      sp_parameter_names = [''atr_period''],
      sp_compute = (\<lambda>cs p. bindE (atr cs (atr_period p)) (\<lambda>s. Inr (one_line ''atr'' s))),
      sp_warmup = atr_period,
      sp_used = (\<lambda>p. [(''atr_period'', of_nat (atr_period p))])\<rparr>"

definition spec_adx :: indicator_spec where
  "spec_adx =
     \<lparr>sp_key = ''adx'', sp_kind = OSCILLATOR, sp_value_keys = [''adx'', ''plus_di'', ''minus_di''],
      sp_parameter_names = [''adx_period''],
      sp_compute = (\<lambda>cs p. bindE (adx cs (adx_period p)) (\<lambda>l.
        Inr [(''adx'', al_adx l), (''plus_di'', al_plus_di l), (''minus_di'', al_minus_di l)])),
      sp_warmup = (\<lambda>p. 2 * adx_period p - 1),
      sp_used = (\<lambda>p. [(''adx_period'', of_nat (adx_period p))])\<rparr>"

definition spec_roc :: indicator_spec where
  "spec_roc =
     \<lparr>sp_key = ''roc'', sp_kind = OSCILLATOR, sp_value_keys = [''roc''],
      sp_parameter_names = [''roc_period''],
      sp_compute = (\<lambda>cs p. Inr (one_line ''roc'' (roc cs (roc_period p)))),
      sp_warmup = roc_period,
      sp_used = (\<lambda>p. [(''roc_period'', of_nat (roc_period p))])\<rparr>"

definition spec_cci :: indicator_spec where
  "spec_cci =
     \<lparr>sp_key = ''cci'', sp_kind = OSCILLATOR, sp_value_keys = [''cci''],
      sp_parameter_names = [''cci_period''],
      sp_compute = (\<lambda>cs p. bindE (cci cs (cci_period p)) (\<lambda>s. Inr (one_line ''cci'' s))),
      sp_warmup = (\<lambda>p. cci_period p - 1),
      sp_used = (\<lambda>p. [(''cci_period'', of_nat (cci_period p))])\<rparr>"

definition INDICATORS :: "(string, indicator_spec) dict" where
  "INDICATORS =
     [(''sma'', spec_sma), (''ema'', spec_ema), (''bollinger'', spec_bollinger), (''vwap'', spec_vwap),
      (''rsi'', spec_rsi), (''macd'', spec_macd), (''stochastic'', spec_stochastic),
      (''atr'', spec_atr), (''adx'', spec_adx), (''roc'', spec_roc), (''cci'', spec_cci)]"

definition get_spec :: "string \<Rightarrow> indicator_spec option" where
  "get_spec key = map_of INDICATORS key"

record indicator_descriptor =
  de_key :: string
  de_kind :: indicator_kind
  de_value_keys :: "string list"
  de_parameters :: "string list"
  de_defaults :: "(string, rat) dict"

definition describe_indicators :: "indicator_descriptor list" where
  "describe_indicators =
     map (\<lambda>(key, s).
       \<lparr>de_key = sp_key s, de_kind = sp_kind s, de_value_keys = sp_value_keys s,
        de_parameters = sp_parameter_names s, de_defaults = sp_used s default_params\<rparr>) INDICATORS"

subsection \<open>One indicator over one series\<close>

datatype indicator_status =
    IND_READY
  | IND_WARMING_UP
  | IND_INSUFFICIENT_DATA
  | IND_UNAVAILABLE
  | IND_ERROR

definition has_value :: "indicator_status \<Rightarrow> bool" where
  "has_value s \<longleftrightarrow> s = IND_READY"

record indicator_result =
  ir_indicator :: string
  ir_kind :: indicator_kind
  ir_status :: indicator_status
  ir_parameters :: "(string, rat) dict"
  ir_value_keys :: "string list"
  ir_latest :: "(string, rat option) dict option"
  ir_latest_time :: "timestamp option"
  ir_warmup_bars :: nat
  ir_candles_used :: nat
  ir_series :: "(timestamp \<times> (string, rat option) dict) list"

definition MAX_SERIES_LIMIT :: int where "MAX_SERIES_LIMIT = 500"

text \<open>\<^verbatim>\<open>{key: lines[key][index] for key in spec.value_keys}\<close>.\<close>

definition values_at :: "indicator_lines \<Rightarrow> string list \<Rightarrow> nat \<Rightarrow> (string, rat option) dict" where
  "values_at lines keys i = map (\<lambda>key. (key, the (map_of lines key) ! i)) keys"

definition build_result ::
    "indicator_spec \<Rightarrow> candle list \<Rightarrow> indicator_params \<Rightarrow> nat \<Rightarrow> indicator_result result" where
  "build_result spec cs p series_limit =
     (let count = length cs;
          base = \<lparr>ir_indicator = sp_key spec, ir_kind = sp_kind spec,
                  ir_status = IND_INSUFFICIENT_DATA, ir_parameters = sp_used spec p,
                  ir_value_keys = sp_value_keys spec, ir_latest = None, ir_latest_time = None,
                  ir_warmup_bars = sp_warmup spec p, ir_candles_used = count, ir_series = []\<rparr>
      in if count \<le> sp_warmup spec p then Inr base
         else bindE (sp_compute spec cs p) (\<lambda>lines.
           let latest = values_at lines (sp_value_keys spec) (count - 1);
               ready = (None \<notin> snd ` set latest);
               shown = map (\<lambda>i. (ca_open_time (cs ! i), values_at lines (sp_value_keys spec) i))
                         [count - series_limit..<count]
           in Inr (base\<lparr>ir_status := if ready then IND_READY else IND_WARMING_UP,
                        ir_latest := if ready then Some latest else None,
                        ir_latest_time :=
                          if ready then Some (ca_open_time (cs ! (count - 1))) else None,
                        ir_series := if 0 < series_limit then shown else []\<rparr>)))"

text \<open>Unknown keys are skipped; the first exception ends the call.\<close>

definition calculate_indicators ::
    "candle list \<Rightarrow> string list \<Rightarrow> indicator_params \<Rightarrow> int \<Rightarrow> indicator_result list result" where
  "calculate_indicators cs keys p series_limit =
     mapE (\<lambda>spec. build_result spec cs p (nat (max 0 (min series_limit MAX_SERIES_LIMIT))))
       (List.map_filter get_spec keys)"

end
