(* ===== verification/Strategy.thy ===== *)
theory Strategy
  imports IndicatorEngine Leverage PaperDomain
begin

section \<open>The baseline strategy\<close>

text \<open>
  \<^verbatim>\<open>analysis/strategies/trend_momentum.py\<close> (the rule set over one bar's values and the
  extraction of those values from the indicator engine) and \<^verbatim>\<open>analysis/strategies/registry.py\<close>
  (the pure evaluation the backtest shares, and the live evaluation behind the freshness gate), with the
  result models of \<^verbatim>\<open>domain/strategy.py\<close>.
\<close>

datatype strategy_bias = LONG_BIAS | SHORT_BIAS | NEUTRAL

datatype strategy_status = ST_READY | ST_INSUFFICIENT_DATA | ST_STALE | ST_UNAVAILABLE | ST_ERROR

definition has_bias :: "strategy_status \<Rightarrow> bool" where
  "has_bias s \<longleftrightarrow> s = ST_READY"

definition STRATEGY_KEY :: string where "STRATEGY_KEY = ''trend_momentum''"
definition STRATEGY_VERSION :: string where "STRATEGY_VERSION = ''1.0.0''"
definition STRATEGY_KEYS :: "string list" where "STRATEGY_KEYS = [STRATEGY_KEY]"

definition REQUIRED_INDICATORS :: "string list" where
  "REQUIRED_INDICATORS = [''ema'', ''adx'', ''rsi'', ''macd'']"

subsection \<open>Parameters\<close>

record trend_params =
  tp_ema_fast :: nat
  tp_ema_slow :: nat
  tp_rsi_period :: nat
  tp_rsi_overbought :: rat
  tp_rsi_oversold :: rat
  tp_adx_period :: nat
  tp_adx_minimum :: rat
  tp_macd_fast :: nat
  tp_macd_slow :: nat
  tp_macd_signal :: nat

definition default_trend_params :: trend_params where
  "default_trend_params =
     \<lparr>tp_ema_fast = 21, tp_ema_slow = 55, tp_rsi_period = 14, tp_rsi_overbought = 70,
      tp_rsi_oversold = 30, tp_adx_period = 14, tp_adx_minimum = 20, tp_macd_fast = 12,
      tp_macd_slow = 26, tp_macd_signal = 9\<rparr>"

definition trend_params_valid :: "trend_params \<Rightarrow> bool" where
  "trend_params_valid p \<longleftrightarrow>
     in_range 2 200 (tp_ema_fast p) \<and> in_range 3 400 (tp_ema_slow p) \<and>
     in_range 2 200 (tp_rsi_period p) \<and>
     50 < tp_rsi_overbought p \<and> tp_rsi_overbought p < 100 \<and>
     0 < tp_rsi_oversold p \<and> tp_rsi_oversold p < 50 \<and>
     in_range 2 200 (tp_adx_period p) \<and> 0 \<le> tp_adx_minimum p \<and> tp_adx_minimum p \<le> 100 \<and>
     in_range 2 200 (tp_macd_fast p) \<and> in_range 3 400 (tp_macd_slow p) \<and>
     in_range 2 200 (tp_macd_signal p) \<and>
     tp_ema_fast p < tp_ema_slow p \<and> tp_macd_fast p < tp_macd_slow p"

definition as_decimals :: "trend_params \<Rightarrow> (string, rat) dict" where
  "as_decimals p =
     [(''ema_fast'', of_nat (tp_ema_fast p)), (''ema_slow'', of_nat (tp_ema_slow p)),
      (''rsi_period'', of_nat (tp_rsi_period p)), (''rsi_overbought'', tp_rsi_overbought p),
      (''rsi_oversold'', tp_rsi_oversold p), (''adx_period'', of_nat (tp_adx_period p)),
      (''adx_minimum'', tp_adx_minimum p), (''macd_fast'', of_nat (tp_macd_fast p)),
      (''macd_slow'', of_nat (tp_macd_slow p)), (''macd_signal'', of_nat (tp_macd_signal p))]"

text \<open>Two parameter sets, because the catalogue exposes one EMA at a time.\<close>

definition leg_params :: "trend_params \<Rightarrow> nat \<Rightarrow> indicator_params result" where
  "leg_params p period =
     mk_params (default_params
       \<lparr>ema_period := period, rsi_period := tp_rsi_period p, adx_period := tp_adx_period p,
        macd_fast := tp_macd_fast p, macd_slow := tp_macd_slow p, macd_signal := tp_macd_signal p\<rparr>)"

definition required_indicator_params ::
    "trend_params \<Rightarrow> (indicator_params \<times> indicator_params) result" where
  "required_indicator_params p =
     bindE (leg_params p (tp_ema_fast p)) (\<lambda>fast.
     bindE (leg_params p (tp_ema_slow p)) (\<lambda>slow. Inr (fast, slow)))"

definition warmup_bars :: "trend_params \<Rightarrow> nat" where
  "warmup_bars p =
     max (max (tp_ema_slow p - 1) (tp_rsi_period p))
         (max (2 * tp_adx_period p - 1) (tp_macd_slow p + tp_macd_signal p - 2))"

subsection \<open>The rule set\<close>

record bar_values =
  bv_ema_fast :: rat
  bv_ema_slow :: rat
  bv_adx :: rat
  bv_rsi :: rat
  bv_histogram :: rat

definition long_conditions :: "bar_values \<Rightarrow> trend_params \<Rightarrow> condition_outcome list" where
  "long_conditions v p =
     [\<lparr>co_name = ''trend'', co_satisfied = (bv_ema_slow v < bv_ema_fast v),
       co_values = [(''ema_fast'', bv_ema_fast v), (''ema_slow'', bv_ema_slow v)]\<rparr>,
      \<lparr>co_name = ''trend_strength'', co_satisfied = (tp_adx_minimum p \<le> bv_adx v),
       co_values = [(''adx'', bv_adx v), (''adx_minimum'', tp_adx_minimum p)]\<rparr>,
      \<lparr>co_name = ''momentum'', co_satisfied = (50 < bv_rsi v \<and> bv_rsi v < tp_rsi_overbought p),
       co_values = [(''rsi'', bv_rsi v), (''upper'', tp_rsi_overbought p)]\<rparr>,
      \<lparr>co_name = ''macd'', co_satisfied = (0 < bv_histogram v),
       co_values = [(''histogram'', bv_histogram v)]\<rparr>]"

definition short_conditions :: "bar_values \<Rightarrow> trend_params \<Rightarrow> condition_outcome list" where
  "short_conditions v p =
     [\<lparr>co_name = ''trend'', co_satisfied = (bv_ema_fast v < bv_ema_slow v),
       co_values = [(''ema_fast'', bv_ema_fast v), (''ema_slow'', bv_ema_slow v)]\<rparr>,
      \<lparr>co_name = ''trend_strength'', co_satisfied = (tp_adx_minimum p \<le> bv_adx v),
       co_values = [(''adx'', bv_adx v), (''adx_minimum'', tp_adx_minimum p)]\<rparr>,
      \<lparr>co_name = ''momentum'', co_satisfied = (tp_rsi_oversold p < bv_rsi v \<and> bv_rsi v < 50),
       co_values = [(''rsi'', bv_rsi v), (''lower'', tp_rsi_oversold p)]\<rparr>,
      \<lparr>co_name = ''macd'', co_satisfied = (bv_histogram v < 0),
       co_values = [(''histogram'', bv_histogram v)]\<rparr>]"

definition evaluate_conditions ::
    "bar_values \<Rightarrow> trend_params \<Rightarrow> condition_outcome list \<times> condition_outcome list \<times> strategy_bias"
where
  "evaluate_conditions v p =
     (let long = long_conditions v p; short = short_conditions v p;
          bias = if list_all co_satisfied long then LONG_BIAS
                 else if list_all co_satisfied short then SHORT_BIAS
                 else NEUTRAL
      in (long, short, bias))"

subsection \<open>The values of the last bar\<close>

definition latest_of :: "indicator_result \<Rightarrow> string \<Rightarrow> rat option" where
  "latest_of r key =
     (if ir_status r \<noteq> IND_READY then None
      else case ir_latest r of
             None \<Rightarrow> None
           | Some values \<Rightarrow> (case map_of values key of None \<Rightarrow> None | Some v \<Rightarrow> v))"

definition all_or_nothing ::
    "rat option \<Rightarrow> rat option \<Rightarrow> rat option \<Rightarrow> rat option \<Rightarrow> rat option \<Rightarrow> bar_values option" where
  "all_or_nothing fast slow adx_value rsi_val histogram =
     (if None \<in> {fast, slow, adx_value, rsi_val, histogram} then None
      else Some \<lparr>bv_ema_fast = the fast, bv_ema_slow = the slow, bv_adx = the adx_value,
                 bv_rsi = the rsi_val, bv_histogram = the histogram\<rparr>)"

text \<open>
  \<^verbatim>\<open>by_key[...]\<close> finds the result of a key among the results of the first leg; all four are
  there.
\<close>

definition by_key :: "indicator_result list \<Rightarrow> string \<Rightarrow> indicator_result result" where
  "by_key results key =
     (case find (\<lambda>r. ir_indicator r = key) results of None \<Rightarrow> Inl KeyError | Some r \<Rightarrow> Inr r)"

definition compute_indicator_values ::
    "candle list \<Rightarrow> trend_params \<Rightarrow> bar_values option result" where
  "compute_indicator_values cs p =
     bindE (required_indicator_params p) (\<lambda>(fast_params, slow_params).
     bindE (calculate_indicators cs REQUIRED_INDICATORS fast_params 0) (\<lambda>fast_results.
     bindE (calculate_indicators cs [''ema''] slow_params 0) (\<lambda>slow_results.
     bindE (by_key fast_results ''ema'') (\<lambda>fast.
     bindE (by_key fast_results ''adx'') (\<lambda>trend.
     bindE (by_key fast_results ''rsi'') (\<lambda>momentum.
     bindE (by_key fast_results ''macd'') (\<lambda>line.
     Inr (all_or_nothing (latest_of fast ''ema'') (latest_of (hd slow_results) ''ema'')
            (latest_of trend ''adx'') (latest_of momentum ''rsi'') (latest_of line ''histogram'')))))))))"

text \<open>The volatility that sizes a leverage request; the rules do not read it.\<close>

definition measure_atr_percent :: "candle list \<Rightarrow> trend_params \<Rightarrow> rat option result" where
  "measure_atr_percent cs p =
     (if cs = [] then Inr None
      else bindE (mk_params (default_params\<lparr>atr_period := tp_adx_period p\<rparr>)) (\<lambda>atr_params.
           bindE (calculate_indicators cs [''atr''] atr_params 0) (\<lambda>results.
           let last_close = ca_close (last cs) in
           Inr (case latest_of (hd results) ''atr'' of
                  None \<Rightarrow> None
                | Some v \<Rightarrow>
                    if last_close \<le> 0 then None else Some (d_mul (d_quot v last_close) 100)))))"

subsection \<open>The pure evaluation\<close>

record strategy_result =
  sr_strategy :: string
  sr_version :: string
  sr_status :: strategy_status
  sr_bias :: "strategy_bias option"
  sr_symbol :: string
  sr_timeframe :: timeframe
  sr_parameters :: "(string, rat) dict"
  sr_long_conditions :: "condition_outcome list"
  sr_short_conditions :: "condition_outcome list"
  sr_long_conditions_met :: nat
  sr_short_conditions_met :: nat
  sr_conditions_total :: nat
  sr_leverage :: "leverage_decision option"
  sr_indicators_used :: "string list"
  sr_candles_used :: nat
  sr_last_candle_time :: "timestamp option"
  sr_source :: "string option"
  sr_data_status :: "string option"
  sr_data_age_seconds :: "rat option"
  sr_evaluated_at :: "timestamp option"

text \<open>The fields every result of one evaluation shares, the others at the model's defaults.\<close>

definition strategy_base ::
    "string \<Rightarrow> string \<Rightarrow> timeframe \<Rightarrow> trend_params \<Rightarrow> strategy_status \<Rightarrow> strategy_result" where
  "strategy_base key symb tf p status =
     \<lparr>sr_strategy = key, sr_version = STRATEGY_VERSION, sr_status = status, sr_bias = None,
      sr_symbol = symb, sr_timeframe = tf, sr_parameters = as_decimals p, sr_long_conditions = [],
      sr_short_conditions = [], sr_long_conditions_met = 0, sr_short_conditions_met = 0,
      sr_conditions_total = 4, sr_leverage = None, sr_indicators_used = REQUIRED_INDICATORS,
      sr_candles_used = 0, sr_last_candle_time = None, sr_source = None, sr_data_status = None,
      sr_data_age_seconds = None, sr_evaluated_at = None\<rparr>"

definition no_bias_decision :: leverage_decision where
  "no_bias_decision =
     \<lparr>ld_requested = None, ld_exchange_max = None, ld_risk_max = None, ld_approved = None,
      ld_outcome = LEVERAGE_REJECTED, ld_reason = NO_DIRECTIONAL_BIAS, ld_binding = None,
      ld_inputs = []\<rparr>"

definition leverage_for ::
    "candle list \<Rightarrow> trend_params \<Rightarrow> strategy_bias \<Rightarrow> nat \<Rightarrow> leverage_decision result" where
  "leverage_for cs p bias conditions_met =
     (if bias = NEUTRAL then Inr no_bias_decision
      else bindE (measure_atr_percent cs p) (\<lambda>atr_percent.
           bindE (case atr_percent of
                    None \<Rightarrow> Inr None
                  | Some v \<Rightarrow> propose_leverage v (int conditions_met) 4) (\<lambda>request.
           Inr (resolve_leverage request None None False))))"

definition met :: "condition_outcome list \<Rightarrow> nat" where
  "met outcomes = length (filter co_satisfied outcomes)"

definition evaluate_from_candles ::
    "candle list \<Rightarrow> string \<Rightarrow> timeframe \<Rightarrow> trend_params \<Rightarrow> timestamp option \<Rightarrow> strategy_result result"
where
  "evaluate_from_candles cs symb tf p last_candle_time =
     bindE (compute_indicator_values cs p) (\<lambda>values.
     case values of
       None \<Rightarrow>
         Inr ((strategy_base STRATEGY_KEY symb tf p ST_INSUFFICIENT_DATA)\<lparr>sr_candles_used := length cs\<rparr>)
     | Some v \<Rightarrow>
         (case evaluate_conditions v p of (long, short, bias) \<Rightarrow>
            bindE (leverage_for cs p bias (max (met long) (met short))) (\<lambda>lev.
            Inr ((strategy_base STRATEGY_KEY symb tf p ST_READY)
              \<lparr>sr_candles_used := length cs, sr_bias := Some bias, sr_long_conditions := long,
               sr_short_conditions := short, sr_long_conditions_met := met long,
               sr_short_conditions_met := met short, sr_leverage := Some lev,
               sr_last_candle_time :=
                 (case last_candle_time of
                    Some t \<Rightarrow> Some t
                  | None \<Rightarrow> if cs = [] then None else Some (ca_open_time (last cs)))\<rparr>))))"

subsection \<open>The live evaluation, behind the freshness gate\<close>

record data_context =
  dc_symbol :: string
  dc_timeframe :: timeframe
  dc_source :: string
  dc_data_status :: string
  dc_age_seconds :: "rat option"

definition evaluate_strategy ::
    "string \<Rightarrow> candle list \<Rightarrow> data_context \<Rightarrow> timestamp \<Rightarrow> trend_params \<Rightarrow> strategy_result result"
where
  "evaluate_strategy key cs context now p =
     (let answer = (\<lambda>status.
            (strategy_base key (dc_symbol context) (dc_timeframe context) p status)
              \<lparr>sr_source := Some (dc_source context), sr_data_status := Some (dc_data_status context),
               sr_data_age_seconds := dc_age_seconds context, sr_evaluated_at := Some now\<rparr>)
      in if key \<notin> set STRATEGY_KEYS then Inr (answer ST_UNAVAILABLE)
         else if dc_data_status context \<noteq> ''OK'' then Inr (answer ST_STALE)
         else if dc_age_seconds context = None then Inr (answer ST_STALE)
         else let prepared = prepare_candles cs now in
              if pc_problem prepared \<noteq> NO_PROBLEM then Inr (answer ST_UNAVAILABLE)
              else bindE (evaluate_from_candles (pc_candles prepared) (dc_symbol context)
                            (dc_timeframe context) p None) (\<lambda>pure.
                   Inr (pure\<lparr>sr_source := Some (dc_source context),
                             sr_data_status := Some (dc_data_status context),
                             sr_data_age_seconds := dc_age_seconds context,
                             sr_evaluated_at := Some now\<rparr>)))"

end
