(* ===== verification/BacktestDomain.thy ===== *)
theory BacktestDomain
  imports Strategy
begin

section \<open>Backtest models and metrics\<close>

text \<open>
  \<^verbatim>\<open>domain/backtest.py\<close> and \<^verbatim>\<open>analysis/backtest/metrics.py\<close>: the configuration of a
  simulation, its trades and its equity curve, and the arithmetic that summarises them. A statistic
  without a defined value is \<open>None\<close>. Money is quantized to eight places and percentages to four, both
  half to even; a coefficient of more than 28 digits raises.
\<close>

subsection \<open>Records\<close>

datatype exit_reason =
    X_SIGNAL_FLIP
  | X_STOP_LOSS
  | X_TAKE_PROFIT
  | X_TRAILING_STOP
  | X_LIQUIDATION
  | X_END_OF_DATA

datatype backtest_status =
    BT_COMPLETED
  | BT_INSUFFICIENT_DATA
  | BT_UNAVAILABLE
  | BT_ERROR

record backtest_config =
  bc_starting_balance :: rat
  bc_position_size_percent :: rat
  bc_leverage :: rat
  bc_fee_bps :: rat
  bc_slippage_bps :: rat
  bc_stop_loss_percent :: "rat option"
  bc_take_profit_percent :: "rat option"
  bc_trailing_stop_percent :: "rat option"
  bc_allow_long :: bool
  bc_allow_short :: bool

definition default_backtest_config :: backtest_config where
  "default_backtest_config =
     \<lparr>bc_starting_balance = 100, bc_position_size_percent = 10, bc_leverage = 1, bc_fee_bps = 5,
      bc_slippage_bps = 2, bc_stop_loss_percent = Some 2, bc_take_profit_percent = Some 4,
      bc_trailing_stop_percent = None, bc_allow_long = True, bc_allow_short = True\<rparr>"

definition backtest_config_valid :: "backtest_config \<Rightarrow> bool" where
  "backtest_config_valid c \<longleftrightarrow>
     0 < bc_starting_balance c \<and> bc_starting_balance c \<le> 10000000 \<and>
     0 < bc_position_size_percent c \<and> bc_position_size_percent c \<le> 100 \<and>
     1 \<le> bc_leverage c \<and> bc_leverage c \<le> 25 \<and>
     0 \<le> bc_fee_bps c \<and> bc_fee_bps c \<le> 100 \<and>
     0 \<le> bc_slippage_bps c \<and> bc_slippage_bps c \<le> 100 \<and>
     pred_option (\<lambda>v. 0 < v \<and> v \<le> 90) (bc_stop_loss_percent c) \<and>
     pred_option (\<lambda>v. 0 < v \<and> v \<le> 1000) (bc_take_profit_percent c) \<and>
     pred_option (\<lambda>v. 0 < v \<and> v \<le> 90) (bc_trailing_stop_percent c) \<and>
     (bc_allow_long c \<or> bc_allow_short c)"

record bt_trade =
  tr_side :: position_side
  tr_entry_time :: timestamp
  tr_exit_time :: timestamp
  tr_entry_price :: rat
  tr_exit_price :: rat
  tr_quantity :: rat
  tr_notional :: rat
  tr_margin :: rat
  tr_leverage :: rat
  tr_exit_reason :: exit_reason
  tr_bars_held :: nat
  tr_gross_pnl :: rat
  tr_fees :: rat
  tr_net_pnl :: rat
  tr_return_percent :: rat
  tr_equity_after :: rat
  tr_max_adverse :: rat
  tr_max_favourable :: rat

definition is_win :: "bt_trade \<Rightarrow> bool" where
  "is_win t \<longleftrightarrow> 0 < tr_net_pnl t"

record equity_point =
  ep_time :: timestamp
  ep_equity :: rat
  ep_drawdown_percent :: rat
  ep_in_position :: bool

text \<open>The constructor checks \<^verbatim>\<open>Field(ge=0)\<close>.\<close>

definition mk_equity_point :: "timestamp \<Rightarrow> rat \<Rightarrow> rat \<Rightarrow> bool \<Rightarrow> equity_point result" where
  "mk_equity_point t e drawdown held =
     (if drawdown < 0 then Inl ValidationError
      else Inr \<lparr>ep_time = t, ep_equity = e, ep_drawdown_percent = drawdown, ep_in_position = held\<rparr>)"

record backtest_metrics =
  bm_total_trades :: nat
  bm_winning_trades :: nat
  bm_losing_trades :: nat
  bm_breakeven_trades :: int
  bm_win_rate_percent :: "rat option"
  bm_net_pnl :: rat
  bm_gross_profit :: rat
  bm_gross_loss :: rat
  bm_total_fees :: rat
  bm_return_percent :: rat
  bm_profit_factor :: "rat option"
  bm_average_trade :: "rat option"
  bm_average_win :: "rat option"
  bm_average_loss :: "rat option"
  bm_largest_win :: "rat option"
  bm_largest_loss :: "rat option"
  bm_max_drawdown_percent :: rat
  bm_max_drawdown_absolute :: rat
  bm_max_consecutive_losses :: nat
  bm_max_consecutive_wins :: nat
  bm_average_r :: "rat option"
  bm_sharpe_like_ratio :: "rat option"
  bm_exposure_percent :: rat
  bm_starting_balance :: rat
  bm_ending_balance :: rat
  bm_bars_tested :: nat
  bm_trades_open_at_end :: nat

definition metrics_valid :: "backtest_metrics \<Rightarrow> bool" where
  "metrics_valid m \<longleftrightarrow>
     0 \<le> bm_breakeven_trades m \<and> 0 \<le> bm_max_drawdown_percent m \<and>
     0 \<le> bm_max_drawdown_absolute m \<and> 0 \<le> bm_exposure_percent m \<and> bm_exposure_percent m \<le> 100"

definition mk_metrics :: "backtest_metrics \<Rightarrow> backtest_metrics result" where
  "mk_metrics m = (if metrics_valid m then Inr m else Inl ValidationError)"

subsection \<open>Metrics\<close>

definition q_money :: "rat \<Rightarrow> rat result" where
  "q_money v = quantize ROUND_HALF_EVEN 8 v"

definition q_pct :: "rat \<Rightarrow> rat result" where
  "q_pct v = quantize ROUND_HALF_EVEN 4 v"

text \<open>A statistic computed only when it is defined.\<close>

fun optE :: "('a \<Rightarrow> 'b result) \<Rightarrow> 'a option \<Rightarrow> 'b option result" where
  "optE f None = Inr None"
| "optE f (Some x) = bindE (f x) (\<lambda>y. Inr (Some y))"

fun longest_run_from :: "(bt_trade \<Rightarrow> bool) \<Rightarrow> nat \<Rightarrow> nat \<Rightarrow> bt_trade list \<Rightarrow> nat" where
  "longest_run_from hit current longest [] = longest"
| "longest_run_from hit current longest (t # ts) =
     (let current' = if hit t then current + 1 else 0
      in longest_run_from hit current' (max longest current') ts)"

definition longest_run :: "bt_trade list \<Rightarrow> bool \<Rightarrow> nat" where
  "longest_run ts losing =
     longest_run_from (\<lambda>t. if losing then tr_net_pnl t < 0 else 0 < tr_net_pnl t) 0 0 ts"

definition d_mean :: "rat list \<Rightarrow> rat" where
  "d_mean vs = d_quot (d_sum vs) (of_nat (length vs))"

text \<open>The statistic is undefined as soon as one planned risk is not positive.\<close>

definition planned_risk :: "rat \<Rightarrow> bt_trade \<Rightarrow> rat" where
  "planned_risk stop t = d_quot (d_mul (tr_notional t) stop) 100"

definition average_r :: "bt_trade list \<Rightarrow> backtest_config \<Rightarrow> rat option result" where
  "average_r ts c =
     (case bc_stop_loss_percent c of
        None \<Rightarrow> Inr None
      | Some stop \<Rightarrow>
          if ts = [] \<or> list_ex (\<lambda>t. planned_risk stop t \<le> 0) ts then Inr None
          else bindE (q_pct (d_mean (map (\<lambda>t. d_quot (tr_net_pnl t) (planned_risk stop t)) ts)))
                 (\<lambda>r. Inr (Some r)))"

definition SECONDS_PER_YEAR :: rat where "SECONDS_PER_YEAR = 365 * 24 * 3600"

fun bar_returns :: "rat list \<Rightarrow> rat list" where
  "bar_returns (a # b # es) = d_quot (d_sub b a) a # bar_returns (b # es)"
| "bar_returns es = []"

definition sharpe_like :: "equity_point list \<Rightarrow> timeframe \<Rightarrow> rat option" where
  "sharpe_like curve tf =
     (if length curve < 3 then None
      else if list_ex (\<lambda>pt. ep_equity pt \<le> 0) (butlast curve) then None
      else let returns = bar_returns (map ep_equity curve);
               mean = d_mean returns;
               variance = d_mean (map (\<lambda>v. d_square (d_sub v mean)) returns)
           in if variance \<le> 0 then None
              else let deviation = d_sqrt variance;
                       bars_per_year = d_quot SECONDS_PER_YEAR (of_int (timeframe_seconds tf))
                   in Some (d_mul (d_quot mean deviation) (d_sqrt bars_per_year)))"

text \<open>The peak so far and the deepest fall below it, in money.\<close>

fun drawdown_from :: "rat \<Rightarrow> rat \<Rightarrow> rat list \<Rightarrow> rat" where
  "drawdown_from peak worst [] = worst"
| "drawdown_from peak worst (e # es) =
     (let peak' = max peak e in drawdown_from peak' (max worst (d_sub peak' e)) es)"

definition ratio_percent :: "nat \<Rightarrow> nat \<Rightarrow> rat" where
  "ratio_percent a b = d_mul (d_quot (of_nat a) (of_nat b)) 100"

definition compute_metrics ::
    "bt_trade list \<Rightarrow> equity_point list \<Rightarrow> backtest_config \<Rightarrow> timeframe \<Rightarrow> nat \<Rightarrow> nat \<Rightarrow>
     backtest_metrics result"
where
  "compute_metrics ts curve c tf bars_in_position open_at_end =
     (let pnls = map tr_net_pnl ts;
          wins = filter (\<lambda>v. 0 < v) pnls;
          losses = filter (\<lambda>v. v < 0) pnls;
          gross_profit = d_sum wins;
          gross_loss = d_neg (d_sum losses);
          starting = bc_starting_balance c;
          ending = (if curve = [] then starting else ep_equity (last curve))
      in bindE (optE q_pct (if ts = [] then None else Some (ratio_percent (length wins) (length ts)))) (\<lambda>win_rate.
         bindE (q_money (d_sum pnls)) (\<lambda>net.
         bindE (q_money gross_profit) (\<lambda>profit.
         bindE (q_money gross_loss) (\<lambda>loss.
         bindE (q_money (d_sum (map tr_fees ts))) (\<lambda>fees.
         bindE (d_div (d_sub ending starting) starting) (\<lambda>growth.
         bindE (q_pct (d_mul growth 100)) (\<lambda>return_percent.
         bindE (optE q_pct (if 0 < gross_loss then Some (d_quot gross_profit gross_loss) else None)) (\<lambda>factor.
         bindE (optE q_money (if ts = [] then None else Some (d_quot (d_sum pnls) (of_nat (length ts))))) (\<lambda>average_trade.
         bindE (optE q_money (if wins = [] then None else Some (d_quot gross_profit (of_nat (length wins))))) (\<lambda>average_win.
         bindE (optE q_money (if losses = [] then None else Some (d_quot (d_neg gross_loss) (of_nat (length losses))))) (\<lambda>average_loss.
         bindE (optE q_money (if wins = [] then None else Some (Max (set wins)))) (\<lambda>largest_win.
         bindE (optE q_money (if losses = [] then None else Some (Min (set losses)))) (\<lambda>largest_loss.
         bindE (q_pct (if curve = [] then 0 else Max (set (map ep_drawdown_percent curve)))) (\<lambda>drawdown_percent.
         bindE (q_money (drawdown_from starting 0 (map ep_equity curve))) (\<lambda>drawdown_absolute.
         bindE (average_r ts c) (\<lambda>avg_r.
         bindE (optE q_pct (sharpe_like curve tf)) (\<lambda>sharpe.
         bindE (if curve = [] then Inr 0 else q_pct (ratio_percent bars_in_position (length curve))) (\<lambda>exposure_percent.
         bindE (q_money starting) (\<lambda>starting_balance.
         bindE (q_money ending) (\<lambda>ending_balance.
         mk_metrics
           \<lparr>bm_total_trades = length ts, bm_winning_trades = length wins,
            bm_losing_trades = length losses,
            bm_breakeven_trades = int (length ts) - int (length wins) - int (length losses),
            bm_win_rate_percent = win_rate, bm_net_pnl = net, bm_gross_profit = profit,
            bm_gross_loss = loss, bm_total_fees = fees, bm_return_percent = return_percent,
            bm_profit_factor = factor, bm_average_trade = average_trade,
            bm_average_win = average_win, bm_average_loss = average_loss,
            bm_largest_win = largest_win, bm_largest_loss = largest_loss,
            bm_max_drawdown_percent = drawdown_percent,
            bm_max_drawdown_absolute = drawdown_absolute,
            bm_max_consecutive_losses = longest_run ts True,
            bm_max_consecutive_wins = longest_run ts False, bm_average_r = avg_r,
            bm_sharpe_like_ratio = sharpe, bm_exposure_percent = exposure_percent,
            bm_starting_balance = starting_balance, bm_ending_balance = ending_balance,
            bm_bars_tested = length curve, bm_trades_open_at_end = open_at_end\<rparr>)))))))))))))))))))))"

end
