(* ===== verification/Backtest.thy ===== *)
theory Backtest
  imports BacktestDomain OrderIdentity "HOL-Library.Log_Nat"
begin

section \<open>The historical simulation\<close>

text \<open>
  \<^verbatim>\<open>analysis/backtest/engine.py\<close>. The local variables of \<^verbatim>\<open>run_backtest\<close> are the record
  \<open>sim\<close>; each of the four numbered steps of its loop is a definition over it, composed in the
  source's order by \<open>bar_step\<close>, and \<open>simulate\<close> is the loop. What the strategy decided on one bar waits
  in \<open>sm_pending\<close> for the next bar's open. The warnings written for a reader are values.
\<close>

subsection \<open>The bias of every bar\<close>

definition bias_at ::
    "trend_params \<Rightarrow> series \<Rightarrow> series \<Rightarrow> series \<Rightarrow> series \<Rightarrow> series \<Rightarrow> nat \<Rightarrow> strategy_bias option"
where
  "bias_at p fast slow trend momentum histogram i =
     map_option (\<lambda>v. case evaluate_conditions v p of (long, short, bias) \<Rightarrow> bias)
       (all_or_nothing (fast ! i) (slow ! i) (trend ! i) (momentum ! i) (histogram ! i))"

definition bias_series :: "candle list \<Rightarrow> trend_params \<Rightarrow> strategy_bias option list result" where
  "bias_series cs p =
     bindE (ema (map Some (closes cs)) (tp_ema_fast p)) (\<lambda>fast.
     bindE (ema (map Some (closes cs)) (tp_ema_slow p)) (\<lambda>slow.
     bindE (adx cs (tp_adx_period p)) (\<lambda>trend.
     bindE (rsi cs (tp_rsi_period p)) (\<lambda>momentum.
     bindE (macd cs (tp_macd_fast p) (tp_macd_slow p) (tp_macd_signal p)) (\<lambda>lines.
     Inr (map (bias_at p fast slow (al_adx trend) momentum (ml_histogram lines)) [0..<length cs]))))))"

definition desired_side :: "strategy_bias option \<Rightarrow> backtest_config \<Rightarrow> position_side" where
  "desired_side bias c =
     (if bias = Some LONG_BIAS \<and> bc_allow_long c then LONG
      else if bias = Some SHORT_BIAS \<and> bc_allow_short c then SHORT
      else FLAT)"

subsection \<open>Fills\<close>

definition apply_slippage :: "rat \<Rightarrow> position_side \<Rightarrow> bool \<Rightarrow> rat \<Rightarrow> rat" where
  "apply_slippage price side entering bps =
     (let factor = d_quot bps 10000; buying = ((side = LONG) = entering)
      in if buying then d_mul price (d_add 1 factor) else d_mul price (d_sub 1 factor))"

text \<open>
  The levels are compared as the source's tuples: by price, then by the reason's text, and
  \<^verbatim>\<open>LIQUIDATION\<close>, \<^verbatim>\<open>STOP_LOSS\<close>, \<^verbatim>\<open>TRAILING_STOP\<close> is the order of the three texts.
\<close>

fun reason_rank :: "exit_reason \<Rightarrow> nat" where
  "reason_rank X_END_OF_DATA = 0"
| "reason_rank X_LIQUIDATION = 1"
| "reason_rank X_SIGNAL_FLIP = 2"
| "reason_rank X_STOP_LOSS = 3"
| "reason_rank X_TAKE_PROFIT = 4"
| "reason_rank X_TRAILING_STOP = 5"

type_synonym level = "rat \<times> exit_reason"

definition below :: "level \<Rightarrow> level \<Rightarrow> bool" where
  "below a b \<longleftrightarrow> fst a < fst b \<or> (fst a = fst b \<and> reason_rank (snd a) < reason_rank (snd b))"

fun max_level :: "level \<Rightarrow> level list \<Rightarrow> level" where
  "max_level a [] = a"
| "max_level a (b # bs) = max_level (if below a b then b else a) bs"

fun min_level :: "level \<Rightarrow> level list \<Rightarrow> level" where
  "min_level a [] = a"
| "min_level a (b # bs) = min_level (if below b a then b else a) bs"

definition level_of :: "rat option \<Rightarrow> exit_reason \<Rightarrow> level list" where
  "level_of price reason = (case price of None \<Rightarrow> [] | Some v \<Rightarrow> [(v, reason)])"

definition adverse_list :: "rat option \<Rightarrow> rat option \<Rightarrow> rat option \<Rightarrow> level list" where
  "adverse_list stop liquidation trail =
     level_of stop X_STOP_LOSS @ level_of liquidation X_LIQUIDATION @ level_of trail X_TRAILING_STOP"

definition adverse_exit :: "bool \<Rightarrow> rat \<Rightarrow> rat \<Rightarrow> level list \<Rightarrow> level option" where
  "adverse_exit long high low levels =
     (case levels of
        [] \<Rightarrow> None
      | a # rest \<Rightarrow>
          let level = (if long then max_level a rest else min_level a rest)
          in if (long \<and> low \<le> fst level) \<or> (\<not> long \<and> fst level \<le> high) then Some level else None)"

definition resolve_intrabar_exit ::
    "position_side \<Rightarrow> rat \<Rightarrow> rat \<Rightarrow> rat option \<Rightarrow> rat option \<Rightarrow> rat option \<Rightarrow> rat option \<Rightarrow> level option"
where
  "resolve_intrabar_exit side high low stop target liquidation trail =
     (let long = (side = LONG)
      in case adverse_exit long high low (adverse_list stop liquidation trail) of
           Some level \<Rightarrow> Some level
         | None \<Rightarrow>
             (case target of
                None \<Rightarrow> None
              | Some t \<Rightarrow>
                  if (long \<and> t \<le> high) \<or> (\<not> long \<and> low \<le> t) then Some (t, X_TAKE_PROFIT) else None))"

subsection \<open>Positions\<close>

record sim_position =
  op_side :: position_side
  op_entry_time :: timestamp
  op_entry_index :: nat
  op_entry_price :: rat
  op_quantity :: rat
  op_notional :: rat
  op_margin :: rat
  op_entry_fee :: rat
  op_stop_price :: "rat option"
  op_target_price :: "rat option"
  op_liquidation_price :: "rat option"
  op_trail_extreme :: rat
  op_best_price :: rat
  op_worst_price :: rat

definition fee_rate :: "backtest_config \<Rightarrow> rat" where
  "fee_rate c = d_quot (bc_fee_bps c) 10000"

definition fraction :: "rat option \<Rightarrow> rat option" where
  "fraction percent = map_option (\<lambda>v. d_quot v 100) percent"

text \<open>A level a fraction below or over the fill.\<close>

definition offset_price :: "rat \<Rightarrow> bool \<Rightarrow> rat \<Rightarrow> rat" where
  "offset_price price lower f = d_mul price (if lower then d_sub 1 f else d_add 1 f)"

definition entered ::
    "backtest_config \<Rightarrow> position_side \<Rightarrow> candle \<Rightarrow> nat \<Rightarrow> rat \<Rightarrow> rat \<Rightarrow> sim_position" where
  "entered c side bar i equity fill =
     (let margin = d_quot (d_mul equity (bc_position_size_percent c)) 100;
          notional = d_mul margin (bc_leverage c);
          long = (side = LONG)
      in \<lparr>op_side = side, op_entry_time = ca_open_time bar, op_entry_index = i,
          op_entry_price = fill, op_quantity = d_quot notional fill, op_notional = notional,
          op_margin = margin, op_entry_fee = d_mul notional (fee_rate c),
          op_stop_price = map_option (offset_price fill long) (fraction (bc_stop_loss_percent c)),
          op_target_price = map_option (offset_price fill (\<not> long)) (fraction (bc_take_profit_percent c)),
          op_liquidation_price =
            (if 1 < bc_leverage c then Some (offset_price fill long (d_quot 1 (bc_leverage c))) else None),
          op_trail_extreme = fill, op_best_price = fill, op_worst_price = fill\<rparr>)"

definition open_position_at ::
    "backtest_config \<Rightarrow> position_side \<Rightarrow> candle \<Rightarrow> nat \<Rightarrow> rat \<Rightarrow> sim_position option" where
  "open_position_at c side bar i equity =
     (let fill = apply_slippage (ca_open bar) side True (bc_slippage_bps c)
      in if 0 < fill then Some (entered c side bar i equity fill) else None)"

text \<open>A move from the entry as a percentage of it.\<close>

definition excursion :: "rat \<Rightarrow> rat \<Rightarrow> rat \<Rightarrow> rat result" where
  "excursion high low base = bindE (d_div (d_sub high low) base) (\<lambda>x. Inr (d_mul x 100))"

definition exit_fill :: "backtest_config \<Rightarrow> sim_position \<Rightarrow> rat \<Rightarrow> rat" where
  "exit_fill c pos raw_price = apply_slippage raw_price (op_side pos) False (bc_slippage_bps c)"

definition gross_of :: "sim_position \<Rightarrow> rat \<Rightarrow> rat" where
  "gross_of pos fill =
     d_mul (op_quantity pos)
       (if op_side pos = LONG then d_sub fill (op_entry_price pos) else d_sub (op_entry_price pos) fill)"

definition fees_of :: "backtest_config \<Rightarrow> sim_position \<Rightarrow> rat \<Rightarrow> rat" where
  "fees_of c pos fill =
     d_add (op_entry_fee pos) (d_mul (d_mul (op_quantity pos) fill) (fee_rate c))"

text \<open>A position cannot lose more than the margin posted against it.\<close>

definition net_of :: "backtest_config \<Rightarrow> sim_position \<Rightarrow> rat \<Rightarrow> rat" where
  "net_of c pos fill =
     max (d_sub (gross_of pos fill) (fees_of c pos fill)) (d_neg (op_margin pos))"

definition close_sim_position ::
    "backtest_config \<Rightarrow> sim_position \<Rightarrow> rat \<Rightarrow> exit_reason \<Rightarrow> timestamp \<Rightarrow> nat \<Rightarrow> rat \<Rightarrow>
     (rat \<times> bt_trade) result"
where
  "close_sim_position c pos raw_price reason exit_time exit_index equity =
     (let long = (op_side pos = LONG);
          fill = exit_fill c pos raw_price;
          entry = op_entry_price pos;
          net = net_of c pos fill;
          equity' = d_add equity net
      in bindE (if long then excursion entry (op_worst_price pos) entry
                else excursion (op_worst_price pos) entry entry) (\<lambda>adverse.
         bindE (if long then excursion (op_best_price pos) entry entry
                else excursion entry (op_best_price pos) entry) (\<lambda>favourable.
         bindE (q_money entry) (\<lambda>entry_price.
         bindE (q_money fill) (\<lambda>exit_price.
         bindE (q_money (op_quantity pos)) (\<lambda>quantity.
         bindE (q_money (op_notional pos)) (\<lambda>notional.
         bindE (q_money (op_margin pos)) (\<lambda>margin.
         bindE (q_money (gross_of pos fill)) (\<lambda>gross_pnl.
         bindE (q_money (fees_of c pos fill)) (\<lambda>fees_paid.
         bindE (q_money net) (\<lambda>net_pnl.
         bindE (d_div net (op_margin pos)) (\<lambda>on_margin.
         bindE (q_pct (d_mul on_margin 100)) (\<lambda>return_percent.
         bindE (q_money equity') (\<lambda>equity_after.
         bindE (q_pct (max adverse 0)) (\<lambda>max_adverse.
         bindE (q_pct (max favourable 0)) (\<lambda>max_favourable.
         Inr (equity',
           \<lparr>tr_side = op_side pos, tr_entry_time = op_entry_time pos, tr_exit_time = exit_time,
            tr_entry_price = entry_price, tr_exit_price = exit_price, tr_quantity = quantity,
            tr_notional = notional, tr_margin = margin, tr_leverage = bc_leverage c,
            tr_exit_reason = reason, tr_bars_held = exit_index - op_entry_index pos,
            tr_gross_pnl = gross_pnl, tr_fees = fees_paid, tr_net_pnl = net_pnl,
            tr_return_percent = return_percent, tr_equity_after = equity_after,
            tr_max_adverse = max_adverse, tr_max_favourable = max_favourable\<rparr>)
         ))))))))))))))))"

subsection \<open>The four steps of a bar\<close>

record sim =
  sm_equity :: rat
  sm_peak :: rat
  sm_position :: "sim_position option"
  sm_pending :: "position_side option"
  sm_trades :: "bt_trade list"
  sm_curve :: "equity_point list"
  sm_bars_in_position :: nat

definition initial_sim :: "backtest_config \<Rightarrow> sim" where
  "initial_sim c =
     \<lparr>sm_equity = bc_starting_balance c, sm_peak = bc_starting_balance c, sm_position = None,
      sm_pending = None, sm_trades = [], sm_curve = [], sm_bars_in_position = 0\<rparr>"

text \<open>Close the position of a state at a price: its equity moves, its trade is recorded.\<close>

definition exit_at ::
    "backtest_config \<Rightarrow> sim_position \<Rightarrow> rat \<Rightarrow> exit_reason \<Rightarrow> timestamp \<Rightarrow> nat \<Rightarrow> sim \<Rightarrow> sim result"
where
  "exit_at c pos raw_price reason exit_time exit_index s =
     bindE (close_sim_position c pos raw_price reason exit_time exit_index (sm_equity s)) (\<lambda>(e, t).
     Inr (s\<lparr>sm_equity := e, sm_trades := sm_trades s @ [t], sm_position := None\<rparr>))"

definition execute_pending :: "backtest_config \<Rightarrow> nat \<Rightarrow> candle \<Rightarrow> sim \<Rightarrow> sim result" where
  "execute_pending c i bar s =
     (case sm_pending s of
        None \<Rightarrow> Inr s
      | Some side \<Rightarrow>
          bindE (case sm_position s of
                   Some pos \<Rightarrow>
                     if op_side pos \<noteq> side
                     then exit_at c pos (ca_open bar) X_SIGNAL_FLIP (ca_open_time bar) i s
                     else Inr s
                 | None \<Rightarrow> Inr s) (\<lambda>s.
          Inr ((if sm_position s = None \<and> side \<noteq> FLAT \<and> 0 < sm_equity s
                then s\<lparr>sm_position := open_position_at c side bar i (sm_equity s)\<rparr>
                else s)\<lparr>sm_pending := None\<rparr>)))"

definition seen :: "candle \<Rightarrow> sim_position \<Rightarrow> sim_position" where
  "seen bar pos =
     (if op_side pos = LONG
      then pos\<lparr>op_best_price := max (op_best_price pos) (ca_high bar),
               op_worst_price := min (op_worst_price pos) (ca_low bar)\<rparr>
      else pos\<lparr>op_best_price := min (op_best_price pos) (ca_low bar),
               op_worst_price := max (op_worst_price pos) (ca_high bar)\<rparr>)"

definition trail_level :: "backtest_config \<Rightarrow> sim_position \<Rightarrow> rat option" where
  "trail_level c pos =
     map_option (offset_price (op_trail_extreme pos) (op_side pos = LONG))
       (fraction (bc_trailing_stop_percent c))"

definition trailed :: "candle \<Rightarrow> sim_position \<Rightarrow> sim_position" where
  "trailed bar pos =
     pos\<lparr>op_trail_extreme :=
           (if op_side pos = LONG then max (op_trail_extreme pos) (ca_high bar)
            else min (op_trail_extreme pos) (ca_low bar))\<rparr>"

definition manage_position :: "backtest_config \<Rightarrow> nat \<Rightarrow> candle \<Rightarrow> sim \<Rightarrow> sim result" where
  "manage_position c i bar s =
     (case sm_position s of
        None \<Rightarrow> Inr s
      | Some held \<Rightarrow>
          let pos = seen bar held
          in case resolve_intrabar_exit (op_side pos) (ca_high bar) (ca_low bar) (op_stop_price pos)
                    (op_target_price pos) (op_liquidation_price pos) (trail_level c pos) of
               Some (price, reason) \<Rightarrow> exit_at c pos price reason (ca_open_time bar) i s
             | None \<Rightarrow> Inr (s\<lparr>sm_position := Some (trailed bar pos)\<rparr>))"

definition unrealised :: "sim_position \<Rightarrow> candle \<Rightarrow> rat" where
  "unrealised pos bar =
     (let move = (if op_side pos = LONG then d_sub (ca_close bar) (op_entry_price pos)
                  else d_sub (op_entry_price pos) (ca_close bar))
      in max (d_sub (d_mul (op_quantity pos) move) (op_entry_fee pos)) (d_neg (op_margin pos)))"

definition mark_equity :: "candle \<Rightarrow> sim \<Rightarrow> sim result" where
  "mark_equity bar s =
     (let marked = d_add (sm_equity s)
            (case sm_position s of None \<Rightarrow> 0 | Some pos \<Rightarrow> unrealised pos bar);
          peak = max (sm_peak s) marked;
          drawdown = (if 0 < peak then d_mul (d_quot (d_sub peak marked) peak) 100 else 0)
      in bindE (q_money marked) (\<lambda>equity.
         bindE (q_pct (max drawdown 0)) (\<lambda>drawdown_percent.
         bindE (mk_equity_point (ca_open_time bar) equity drawdown_percent (sm_position s \<noteq> None)) (\<lambda>pt.
         Inr (s\<lparr>sm_peak := peak, sm_curve := sm_curve s @ [pt],
                sm_bars_in_position :=
                  sm_bars_in_position s + (if sm_position s = None then 0 else 1)\<rparr>)))))"

definition held_side :: "sim \<Rightarrow> position_side" where
  "held_side s = (case sm_position s of None \<Rightarrow> FLAT | Some pos \<Rightarrow> op_side pos)"

definition schedule_next ::
    "backtest_config \<Rightarrow> nat \<Rightarrow> nat \<Rightarrow> strategy_bias option list \<Rightarrow> nat \<Rightarrow> sim \<Rightarrow> sim" where
  "schedule_next c warmup n biases i s =
     (if i + 1 < n \<and> warmup \<le> i
      then let desired = desired_side (biases ! i) c
           in if desired \<noteq> held_side s then s\<lparr>sm_pending := Some desired\<rparr> else s
      else s)"

definition bar_step ::
    "backtest_config \<Rightarrow> nat \<Rightarrow> nat \<Rightarrow> strategy_bias option list \<Rightarrow> nat \<Rightarrow> candle \<Rightarrow> sim \<Rightarrow> sim result"
where
  "bar_step c warmup n biases i bar s =
     bindE (execute_pending c i bar s) (\<lambda>s.
     bindE (manage_position c i bar s) (\<lambda>s.
     bindE (mark_equity bar s) (\<lambda>s.
     Inr (schedule_next c warmup n biases i s))))"

fun simulate ::
    "backtest_config \<Rightarrow> nat \<Rightarrow> nat \<Rightarrow> strategy_bias option list \<Rightarrow> nat \<Rightarrow> candle list \<Rightarrow> sim \<Rightarrow> sim result"
where
  "simulate c warmup n biases i [] s = Inr s"
| "simulate c warmup n biases i (bar # bars) s =
     bindE (bar_step c warmup n biases i bar s) (simulate c warmup n biases (i + 1) bars)"

subsection \<open>A run\<close>

datatype backtest_warning = NO_TRADES | FEW_TRADES nat | CLOSED_AT_END | LEVERAGE_SIMULATED rat

record backtest_result =
  br_status :: backtest_status
  br_symbol :: string
  br_timeframe :: timeframe
  br_strategy :: string
  br_strategy_version :: string
  br_config :: backtest_config
  br_metrics :: "backtest_metrics option"
  br_trades :: "bt_trade list"
  br_equity_curve :: "equity_point list"
  br_first_bar_time :: "timestamp option"
  br_last_bar_time :: "timestamp option"
  br_ran_at :: "timestamp option"
  br_warnings :: "backtest_warning list"

definition MAX_EQUITY_POINTS :: nat where "MAX_EQUITY_POINTS = 500"
definition MIN_TRADES :: nat where "MIN_TRADES = 20"

text \<open>
  The double nearest to a number: 53 significant bits, ties to even. The only doubles of the program's
  core are zero and numbers of one or more.
\<close>

definition to_double :: "rat \<Rightarrow> rat" where
  "to_double x =
     (if x < 1 then x
      else let e = 2 powi (bitlen \<lfloor>x\<rfloor> - 53) in of_int (half_even (x / e)) * e)"

definition downsample :: "equity_point list \<Rightarrow> equity_point list" where
  "downsample curve =
     (if length curve \<le> MAX_EQUITY_POINTS then curve
      else let step = to_double (of_nat (length curve) / of_nat MAX_EQUITY_POINTS);
               sampled = map (\<lambda>i. curve ! nat \<lfloor>to_double (of_nat i * step)\<rfloor>) [0..<MAX_EQUITY_POINTS]
           in butlast sampled @ [last curve])"

definition warnings_of :: "backtest_metrics \<Rightarrow> nat \<Rightarrow> backtest_config \<Rightarrow> backtest_warning list" where
  "warnings_of m open_at_end c =
     (if bm_total_trades m = 0 then [NO_TRADES]
      else if bm_total_trades m < MIN_TRADES then [FEW_TRADES (bm_total_trades m)] else []) @
     (if open_at_end \<noteq> 0 then [CLOSED_AT_END] else []) @
     (if 1 < bc_leverage c then [LEVERAGE_SIMULATED (bc_leverage c)] else [])"

definition base_result ::
    "string \<Rightarrow> timeframe \<Rightarrow> backtest_config \<Rightarrow> timestamp option \<Rightarrow> backtest_status \<Rightarrow> backtest_result"
where
  "base_result symb tf c ran_at status =
     \<lparr>br_status = status, br_symbol = upper symb, br_timeframe = tf, br_strategy = STRATEGY_KEY,
      br_strategy_version = STRATEGY_VERSION, br_config = c, br_metrics = None, br_trades = [],
      br_equity_curve = [], br_first_bar_time = None, br_last_bar_time = None, br_ran_at = ran_at,
      br_warnings = []\<rparr>"

text \<open>The position that outlives the data is closed at the last bar's close.\<close>

definition close_at_end :: "backtest_config \<Rightarrow> candle list \<Rightarrow> sim \<Rightarrow> (sim \<times> nat) result" where
  "close_at_end c cs s =
     (case sm_position s of
        None \<Rightarrow> Inr (s, 0)
      | Some pos \<Rightarrow>
          bindE (exit_at c pos (ca_close (last cs)) X_END_OF_DATA (ca_open_time (last cs))
                   (length cs - 1) s) (\<lambda>s. Inr (s, 1)))"

text \<open>The loop over the whole history.\<close>

definition replay_history :: "candle list \<Rightarrow> backtest_config \<Rightarrow> trend_params \<Rightarrow> sim result" where
  "replay_history cs c p =
     bindE (bias_series cs p) (\<lambda>biases.
     simulate c (warmup_bars p) (length cs) biases 0 cs (initial_sim c))"

definition run_backtest ::
    "candle list \<Rightarrow> string \<Rightarrow> timeframe \<Rightarrow> backtest_config \<Rightarrow> trend_params \<Rightarrow> timestamp option \<Rightarrow>
     backtest_result result"
where
  "run_backtest cs symb tf c p ran_at =
     (if length cs < warmup_bars p + 2 then Inr (base_result symb tf c ran_at BT_INSUFFICIENT_DATA)
      else bindE (replay_history cs c p) (\<lambda>s.
           bindE (close_at_end c cs s) (\<lambda>(s, open_at_end).
           bindE (compute_metrics (sm_trades s) (sm_curve s) c tf (sm_bars_in_position s) open_at_end) (\<lambda>m.
           Inr ((base_result symb tf c ran_at BT_COMPLETED)
             \<lparr>br_metrics := Some m, br_trades := sm_trades s, br_equity_curve := downsample (sm_curve s),
              br_first_bar_time := Some (ca_open_time (hd cs)),
              br_last_bar_time := Some (ca_open_time (last cs)),
              br_warnings := warnings_of m open_at_end c\<rparr>)))))"

end
