(* ===== verification/BacktestLaws.thy ===== *)
theory BacktestLaws
  imports Backtest
begin

section \<open>What the simulation keeps\<close>

text \<open>
  Lemmas about the backtest engine: results that can fail only by the overflow of a quantization, the
  account invariant of the loop (a position never holds more margin than the account has, so the account
  is never negative), and the parts of a run that a longer history cannot change.
\<close>

subsection \<open>Failing by overflow only\<close>

definition only_overflow :: "'a result \<Rightarrow> bool" where
  "only_overflow r \<longleftrightarrow> (\<forall>e. r = Inl e \<longrightarrow> e = InvalidOperation)"

named_theorems overflow_intros "computations whose only exception is the overflow of a quantization"

lemma only_overflow_Inr [overflow_intros, simp]: "only_overflow (Inr x)"
  by (simp add: only_overflow_def)

lemma only_overflow_bind [overflow_intros]:
  "only_overflow m \<Longrightarrow> (\<And>x. m = Inr x \<Longrightarrow> only_overflow (f x)) \<Longrightarrow> only_overflow (bindE m f)"
  by (cases m) (auto simp: only_overflow_def)

lemma only_overflow_quantize [overflow_intros]: "only_overflow (quantize m k x)"
  by (simp add: only_overflow_def quantize_Inl_iff)

lemma only_overflow_money [overflow_intros]: "only_overflow (q_money x)" "only_overflow (q_pct x)"
  by (simp_all add: q_money_def q_pct_def only_overflow_quantize)

lemma only_overflow_opt [overflow_intros]:
  "(\<And>x. v = Some x \<Longrightarrow> only_overflow (f x)) \<Longrightarrow> only_overflow (optE f v)"
  by (cases v) (auto intro: overflow_intros)

lemma only_overflow_div [overflow_intros]: "y \<noteq> 0 \<Longrightarrow> only_overflow (d_div x y)"
  by (simp add: d_div_def)

lemma only_overflow_excursion [overflow_intros]: "base \<noteq> 0 \<Longrightarrow> only_overflow (excursion a b base)"
  unfolding excursion_def by (intro overflow_intros)

lemma only_overflow_if [overflow_intros]:
  "only_overflow a \<Longrightarrow> only_overflow b \<Longrightarrow> only_overflow (if c then a else b)"
  by simp

subsection \<open>Quantizing money\<close>

lemma q_money_mono: "q_money x = Inr x' \<Longrightarrow> q_money y = Inr y' \<Longrightarrow> x \<le> y \<Longrightarrow> x' \<le> y'"
  unfolding q_money_def by (rule quantize_mono)

lemma q_money_nonneg: "q_money x = Inr y \<Longrightarrow> 0 \<le> x \<Longrightarrow> 0 \<le> y"
  unfolding q_money_def by (rule quantize_nonneg)

lemma q_pct_nonneg: "q_pct x = Inr y \<Longrightarrow> 0 \<le> x \<Longrightarrow> 0 \<le> y"
  unfolding q_pct_def by (rule quantize_nonneg)

lemma q_money_minus: "q_money x = Inr y \<Longrightarrow> q_money (- x) = Inr (- y)"
  by (auto simp: q_money_def quantize_Inr_iff mode.r_minus)

lemma q_pct_100: "q_pct x = Inr y \<Longrightarrow> x \<le> 100 \<Longrightarrow> y \<le> 100"
proof -
  have "on_grid 4 100" using on_grid_of_int [of 4 100] by simp
  then have "q_pct 100 = Inr 100" unfolding q_pct_def by (rule quantize_exact) simp
  then show "q_pct x = Inr y \<Longrightarrow> x \<le> 100 \<Longrightarrow> y \<le> 100"
    unfolding q_pct_def by (metis quantize_mono)
qed

lemma d_neg_dec28: "dec28 x \<Longrightarrow> d_neg x = - x"
  by (simp add: d_neg_def ctx_round_exact dec28_minus)

lemma dec28_times_100: "dec28 x \<Longrightarrow> dec28 (x * 100)"
proof -
  assume "dec28 x"
  then obtain m e where "x = of_int m * ten e" "\<bar>m\<bar> < 10 ^ 28" by (auto simp: dec28_def)
  then show ?thesis
    using ten_add [of e 2] unfolding dec28_def by (intro exI [of _ m] exI [of _ "e + 2"]) simp
qed

text \<open>A percentage of at most one hundred is at most the whole.\<close>

lemma percent_le:
  assumes "dec28 x" "0 \<le> x" "pct \<le> 100"
  shows "d_quot (d_mul x pct) 100 \<le> x"
proof -
  have "x * pct \<le> x * 100" using assms by (intro mult_left_mono)
  then have "d_mul x pct \<le> x * 100"
    unfolding d_mul_def by (intro ctx_round_le dec28_times_100 assms(1))
  then have "d_mul x pct / 100 \<le> x" by simp
  then show ?thesis unfolding d_quot_def by (rule ctx_round_le [OF assms(1)])
qed

lemma percent_pos: "0 < x \<Longrightarrow> 0 < pct \<Longrightarrow> 0 < d_quot (d_mul x pct) 100"
  by (simp add: d_quot_def d_mul_def)

lemma dec28_d_quot: "dec28 (d_quot x y)"
  by (simp add: d_quot_def dec28_ctx_round)

text \<open>A fall from a peak is at most one hundred percent of it.\<close>

lemma fall_percent:
  assumes "dec28 peak" "0 < peak" "0 \<le> x"
  shows "d_mul (d_quot (d_sub peak x) peak) 100 \<le> 100"
proof -
  have "d_sub peak x \<le> peak" unfolding d_sub_def by (rule ctx_round_le) (use assms in simp_all)
  then have "d_sub peak x / peak \<le> 1" using assms(2) by simp
  then have "d_quot (d_sub peak x) peak \<le> 1"
    unfolding d_quot_def by (intro ctx_round_le) (use dec28_power [of 0] in simp_all)
  then show ?thesis
    unfolding d_mul_def by (intro ctx_round_le) (use dec28_power [of 2] in simp_all)
qed

subsection \<open>The account invariant\<close>

definition margin_covered :: "rat \<Rightarrow> sim_position \<Rightarrow> bool" where
  "margin_covered equity pos \<longleftrightarrow>
     0 < op_entry_price pos \<and> 0 < op_margin pos \<and> op_margin pos \<le> equity \<and> dec28 (op_margin pos)"

definition trade_ok :: "bt_trade \<Rightarrow> bool" where
  "trade_ok t \<longleftrightarrow>
     0 \<le> tr_equity_after t \<and> - tr_margin t \<le> tr_net_pnl t \<and>
     0 \<le> tr_max_adverse t \<and> 0 \<le> tr_max_favourable t"

definition point_ok :: "equity_point \<Rightarrow> bool" where
  "point_ok pt \<longleftrightarrow> 0 \<le> ep_equity pt \<and> 0 \<le> ep_drawdown_percent pt \<and> ep_drawdown_percent pt \<le> 100"

definition sim_ok :: "sim \<Rightarrow> bool" where
  "sim_ok s \<longleftrightarrow>
     dec28 (sm_equity s) \<and> 0 \<le> sm_equity s \<and> dec28 (sm_peak s) \<and>
     pred_option (margin_covered (sm_equity s)) (sm_position s) \<and>
     list_all trade_ok (sm_trades s) \<and> list_all point_ok (sm_curve s) \<and>
     sm_bars_in_position s \<le> length (sm_curve s)"

lemma net_of_margin: "dec28 (op_margin pos) \<Longrightarrow> - op_margin pos \<le> net_of c pos fill"
  by (simp add: net_of_def d_neg_dec28)

lemma close_position_fields:
  assumes "close_sim_position c pos raw reason t i equity = Inr (equity', trade)"
  shows "equity' = d_add equity (net_of c pos (exit_fill c pos raw)) \<and>
    q_money equity' = Inr (tr_equity_after trade) \<and> q_money (op_margin pos) = Inr (tr_margin trade) \<and>
    q_money (net_of c pos (exit_fill c pos raw)) = Inr (tr_net_pnl trade) \<and>
    (\<exists>x y. q_pct (max x 0) = Inr (tr_max_adverse trade) \<and> q_pct (max y 0) = Inr (tr_max_favourable trade))"
  using assms unfolding close_sim_position_def Let_def
  by (simp only: bindE_Inr_iff) (elim exE conjE, clarsimp, blast)

lemma close_position_ok:
  assumes pos: "margin_covered equity pos" and e: "dec28 equity"
    and ok: "close_sim_position c pos raw reason t i equity = Inr (equity', trade)"
  shows "dec28 equity' \<and> 0 \<le> equity' \<and> trade_ok trade"
proof -
  let ?net = "net_of c pos (exit_fill c pos raw)"
  have e': "equity' = d_add equity ?net" and q: "q_money (op_margin pos) = Inr (tr_margin trade)"
      "q_money ?net = Inr (tr_net_pnl trade)" "q_money equity' = Inr (tr_equity_after trade)"
    and x: "\<exists>x y. q_pct (max x 0) = Inr (tr_max_adverse trade) \<and> q_pct (max y 0) = Inr (tr_max_favourable trade)"
    using close_position_fields [OF ok] by blast+
  have net: "- op_margin pos \<le> ?net" using pos by (simp add: margin_covered_def net_of_margin)
  then have "0 \<le> equity + ?net" using pos by (simp add: margin_covered_def)
  then have pos': "0 \<le> equity'" by (simp add: e' d_add_def)
  moreover have "- tr_margin trade \<le> tr_net_pnl trade"
    by (rule q_money_mono [OF q_money_minus [OF q(1)] q(2) net])
  moreover have "0 \<le> tr_equity_after trade" by (rule q_money_nonneg [OF q(3) pos'])
  moreover have "0 \<le> tr_max_adverse trade" "0 \<le> tr_max_favourable trade"
    using x by (auto intro: q_pct_nonneg)
  ultimately show ?thesis by (simp add: trade_ok_def e' dec28_d_add)
qed

lemma close_position_overflow:
  assumes "margin_covered equity pos"
  shows "only_overflow (close_sim_position c pos raw reason t i equity)"
  using assms unfolding close_sim_position_def Let_def margin_covered_def by (intro overflow_intros) simp_all

lemma exit_at_ok:
  assumes s: "sim_ok s" and pos: "margin_covered (sm_equity s) pos"
    and ok: "exit_at c pos raw reason t i s = Inr s'"
  shows "sim_ok s' \<and> sm_position s' = None"
proof -
  obtain e trade where e: "close_sim_position c pos raw reason t i (sm_equity s) = Inr (e, trade)"
    and s': "s' = s\<lparr>sm_equity := e, sm_trades := sm_trades s @ [trade], sm_position := None\<rparr>"
    using ok by (auto simp: exit_at_def result_simps)
  have "dec28 e \<and> 0 \<le> e \<and> trade_ok trade"
    using s by (intro close_position_ok [OF pos _ e]) (simp add: sim_ok_def)
  with s show ?thesis by (simp add: s' sim_ok_def)
qed

lemma exit_at_overflow: "margin_covered (sm_equity s) pos \<Longrightarrow> only_overflow (exit_at c pos raw reason t i s)"
  unfolding exit_at_def by (intro only_overflow_bind close_position_overflow) auto

lemma open_position_ok:
  assumes "backtest_config_valid c" and "dec28 equity" and "0 < equity"
  shows "pred_option (margin_covered equity) (open_position_at c side bar i equity)"
  using assms
  by (simp add: open_position_at_def entered_def Let_def margin_covered_def backtest_config_valid_def
      percent_le percent_pos dec28_d_quot)

lemma execute_pending_ok:
  assumes c: "backtest_config_valid c" and s: "sim_ok s" and ok: "execute_pending c i bar s = Inr s'"
  shows "sim_ok s'"
proof -
  have enter: "sim_ok ((if sm_position u = None \<and> side \<noteq> FLAT \<and> 0 < sm_equity u
      then u\<lparr>sm_position := open_position_at c side bar i (sm_equity u)\<rparr> else u)\<lparr>sm_pending := None\<rparr>)"
    if "sim_ok u" for u side
    using that open_position_ok [OF c, of "sm_equity u" side bar i] by (simp add: sim_ok_def)
  show ?thesis
  proof (cases "sm_pending s")
    case None
    with ok s show ?thesis by (simp add: execute_pending_def)
  next
    case (Some side)
    then obtain u where u: "(case sm_position s of
          Some pos \<Rightarrow> if op_side pos \<noteq> side
            then exit_at c pos (ca_open bar) X_SIGNAL_FLIP (ca_open_time bar) i s else Inr s
        | None \<Rightarrow> Inr s) = Inr u"
      and s': "s' = (if sm_position u = None \<and> side \<noteq> FLAT \<and> 0 < sm_equity u
      then u\<lparr>sm_position := open_position_at c side bar i (sm_equity u)\<rparr> else u)\<lparr>sm_pending := None\<rparr>"
      using ok by (auto simp: execute_pending_def result_simps)
    have "sim_ok u"
    proof (cases "sm_position s")
      case None
      with u s show ?thesis by simp
    next
      case (Some pos)
      with s have "margin_covered (sm_equity s) pos" by (simp add: sim_ok_def)
      with u Some s exit_at_ok show ?thesis by (auto split: if_splits)
    qed
    then show ?thesis unfolding s' by (rule enter)
  qed
qed

lemma seen_fields [simp]:
  "op_side (seen bar pos) = op_side pos" "op_entry_price (seen bar pos) = op_entry_price pos"
  "op_margin (seen bar pos) = op_margin pos" "op_quantity (seen bar pos) = op_quantity pos"
  "op_entry_fee (seen bar pos) = op_entry_fee pos"
  by (simp_all add: seen_def)

lemma trailed_fields [simp]:
  "op_side (trailed bar pos) = op_side pos" "op_entry_price (trailed bar pos) = op_entry_price pos"
  "op_margin (trailed bar pos) = op_margin pos" "op_quantity (trailed bar pos) = op_quantity pos"
  "op_entry_fee (trailed bar pos) = op_entry_fee pos"
  by (simp_all add: trailed_def)

lemma position_ok_moves [simp]:
  "margin_covered e (seen bar pos) = margin_covered e pos" "margin_covered e (trailed bar pos) = margin_covered e pos"
  by (simp_all add: margin_covered_def)

lemma manage_position_cases:
  assumes "manage_position c i bar s = r"
  obtains "sm_position s = None" "r = Inr s"
  | pos price reason where "sm_position s = Some pos"
      "resolve_intrabar_exit (op_side pos) (ca_high bar) (ca_low bar) (op_stop_price (seen bar pos))
         (op_target_price (seen bar pos)) (op_liquidation_price (seen bar pos))
         (trail_level c (seen bar pos)) = Some (price, reason)"
      "r = exit_at c (seen bar pos) price reason (ca_open_time bar) i s"
  | pos where "sm_position s = Some pos" "r = Inr (s\<lparr>sm_position := Some (trailed bar (seen bar pos))\<rparr>)"
  using assms unfolding manage_position_def Let_def
  by (auto split: option.splits)

lemma manage_position_ok:
  assumes s: "sim_ok s" and ok: "manage_position c i bar s = Inr s'"
  shows "sim_ok s'"
  using ok
proof (cases rule: manage_position_cases)
  case 1
  with s show ?thesis by simp
next
  case (2 pos price reason)
  from 2(1) s have "margin_covered (sm_equity s) (seen bar pos)" by (simp add: sim_ok_def)
  from exit_at_ok [OF s this 2(3) [symmetric]] show ?thesis ..
next
  case (3 pos)
  with s show ?thesis by (simp add: sim_ok_def)
qed

lemma unrealised_margin: "dec28 (op_margin pos) \<Longrightarrow> - op_margin pos \<le> unrealised pos bar"
  by (simp add: unrealised_def Let_def d_neg_dec28)

definition marked_equity :: "sim \<Rightarrow> candle \<Rightarrow> rat" where
  "marked_equity s bar =
     d_add (sm_equity s) (case sm_position s of None \<Rightarrow> 0 | Some pos \<Rightarrow> unrealised pos bar)"

lemma marked_equity_nonneg: "sim_ok s \<Longrightarrow> 0 \<le> marked_equity s bar"
proof (cases "sm_position s")
  case (Some pos)
  assume "sim_ok s"
  with Some have pos: "margin_covered (sm_equity s) pos" by (simp add: sim_ok_def)
  then have "- op_margin pos \<le> unrealised pos bar" by (simp add: margin_covered_def unrealised_margin)
  with pos have "0 \<le> sm_equity s + unrealised pos bar" by (simp add: margin_covered_def)
  then show ?thesis by (simp add: marked_equity_def Some d_add_def)
qed (simp add: marked_equity_def sim_ok_def d_add_def)

lemma mark_equity_ok:
  assumes s: "sim_ok s" and ok: "mark_equity bar s = Inr s'"
  shows "sim_ok s'"
proof -
  let ?m = "marked_equity s bar"
  let ?peak = "max (sm_peak s) ?m"
  let ?fall = "if 0 < ?peak then d_mul (d_quot (d_sub ?peak ?m) ?peak) 100 else 0"
  obtain equity fall pt where q: "q_money ?m = Inr equity" "q_pct (max ?fall 0) = Inr fall"
    and p: "mk_equity_point (ca_open_time bar) equity fall (sm_position s \<noteq> None) = Inr pt"
    and s': "s' = s\<lparr>sm_peak := ?peak, sm_curve := sm_curve s @ [pt],
                sm_bars_in_position := sm_bars_in_position s + (if sm_position s = None then 0 else 1)\<rparr>"
    using ok unfolding mark_equity_def Let_def marked_equity_def [symmetric]
    by (simp only: bindE_Inr_iff) (elim exE conjE, simp)
  have m: "0 \<le> ?m" using s by (rule marked_equity_nonneg)
  have "dec28 ?m" by (simp add: marked_equity_def dec28_d_add)
  with s have peak: "dec28 ?peak" by (simp add: sim_ok_def max_def)
  have "?fall \<le> 100" using fall_percent [OF peak _ m] by simp
  then have "fall \<le> 100" using q_pct_100 [OF q(2)] by simp
  moreover have "0 \<le> fall" using q_pct_nonneg [OF q(2)] by simp
  moreover have "0 \<le> equity" by (rule q_money_nonneg [OF q(1) m])
  ultimately have "point_ok pt" using p by (auto simp: mk_equity_point_def point_ok_def split: if_splits)
  with s peak show ?thesis by (simp add: s' sim_ok_def)
qed

lemma schedule_next_fields [simp]:
  "sm_equity (schedule_next c w n biases i s) = sm_equity s"
  "sm_peak (schedule_next c w n biases i s) = sm_peak s"
  "sm_position (schedule_next c w n biases i s) = sm_position s"
  "sm_trades (schedule_next c w n biases i s) = sm_trades s"
  "sm_curve (schedule_next c w n biases i s) = sm_curve s"
  "sm_bars_in_position (schedule_next c w n biases i s) = sm_bars_in_position s"
  by (simp_all add: schedule_next_def Let_def)

lemma schedule_next_ok: "sim_ok (schedule_next c w n biases i s) = sim_ok s"
  by (simp add: sim_ok_def)

lemma bar_step_cases:
  assumes "bar_step c w n biases i bar s = Inr s'"
  obtains a b d where "execute_pending c i bar s = Inr a" "manage_position c i bar a = Inr b"
    "mark_equity bar b = Inr d" "s' = schedule_next c w n biases i d"
  using assms by (auto simp: bar_step_def result_simps)

lemma bar_step_ok:
  assumes "backtest_config_valid c" and "sim_ok s" and ok: "bar_step c w n biases i bar s = Inr s'"
  shows "sim_ok s'"
  using ok
proof (rule bar_step_cases)
  fix a b d
  assume r: "execute_pending c i bar s = Inr a" "manage_position c i bar a = Inr b"
    "mark_equity bar b = Inr d" "s' = schedule_next c w n biases i d"
  have "sim_ok a" by (rule execute_pending_ok [OF assms(1,2) r(1)])
  then have "sim_ok b" by (rule manage_position_ok [OF _ r(2)])
  then have "sim_ok d" by (rule mark_equity_ok [OF _ r(3)])
  then show "sim_ok s'" by (simp add: r(4) schedule_next_ok)
qed

lemma simulate_ok:
  "backtest_config_valid c \<Longrightarrow> sim_ok s \<Longrightarrow> simulate c w n biases i bars s = Inr s' \<Longrightarrow> sim_ok s'"
  by (induction bars arbitrary: i s) (auto simp: result_simps intro: bar_step_ok)

lemma initial_sim_ok: "backtest_config_valid c \<Longrightarrow> dec28 (bc_starting_balance c) \<Longrightarrow> sim_ok (initial_sim c)"
  by (simp add: sim_ok_def initial_sim_def backtest_config_valid_def)

lemma close_at_end_ok:
  assumes s: "sim_ok s" and ok: "close_at_end c cs s = Inr (s', n)"
  shows "sim_ok s' \<and> sm_position s' = None \<and> sm_curve s' = sm_curve s"
proof (cases "sm_position s")
  case (Some pos)
  with s have pos: "margin_covered (sm_equity s) pos" by (simp add: sim_ok_def)
  obtain u where u: "exit_at c pos (ca_close (last cs)) X_END_OF_DATA (ca_open_time (last cs))
      (length cs - 1) s = Inr u" "s' = u"
    using ok Some by (auto simp: close_at_end_def result_simps)
  then have "sm_curve u = sm_curve s" by (auto simp: exit_at_def result_simps)
  with exit_at_ok [OF s pos u(1)] u(2) show ?thesis by simp
qed (use assms in \<open>simp add: close_at_end_def\<close>)

subsection \<open>Only overflow ends a run\<close>

lemma execute_pending_overflow: "sim_ok s \<Longrightarrow> only_overflow (execute_pending c i bar s)"
proof (cases "sm_pending s")
  case (Some side)
  assume s: "sim_ok s"
  have "only_overflow (case sm_position s of
          Some pos \<Rightarrow> if op_side pos \<noteq> side
            then exit_at c pos (ca_open bar) X_SIGNAL_FLIP (ca_open_time bar) i s else Inr s
        | None \<Rightarrow> Inr s)"
    using s by (cases "sm_position s") (auto simp: sim_ok_def intro: overflow_intros exit_at_overflow)
  with Some show ?thesis by (auto simp: execute_pending_def intro: overflow_intros)
qed (simp add: execute_pending_def)

lemma manage_position_overflow: "sim_ok s \<Longrightarrow> only_overflow (manage_position c i bar s)"
  by (rule manage_position_cases [where r = "manage_position c i bar s", OF refl])
    (auto simp: sim_ok_def intro: overflow_intros exit_at_overflow)

lemma mk_equity_point_overflow: "0 \<le> fall \<Longrightarrow> only_overflow (mk_equity_point t e fall held)"
  by (simp add: mk_equity_point_def)

lemma mark_equity_overflow: "only_overflow (mark_equity bar s)"
  unfolding mark_equity_def Let_def
  by (intro overflow_intros mk_equity_point_overflow) (auto dest: q_pct_nonneg)

lemma bar_step_overflow:
  "backtest_config_valid c \<Longrightarrow> sim_ok s \<Longrightarrow> only_overflow (bar_step c w n biases i bar s)"
  unfolding bar_step_def
  by (intro only_overflow_bind execute_pending_overflow manage_position_overflow mark_equity_overflow)
    (auto dest: execute_pending_ok)

lemma simulate_overflow:
  "backtest_config_valid c \<Longrightarrow> sim_ok s \<Longrightarrow> only_overflow (simulate c w n biases i bars s)"
  by (induction bars arbitrary: i s) (auto intro!: only_overflow_bind bar_step_overflow dest: bar_step_ok)

lemma close_at_end_overflow: "sim_ok s \<Longrightarrow> only_overflow (close_at_end c cs s)"
  by (auto simp: close_at_end_def sim_ok_def intro!: only_overflow_bind exit_at_overflow split: option.splits)

subsection \<open>The metrics are always valid\<close>

lemma drawdown_from_ge: "worst \<le> drawdown_from peak worst es"
proof (induction es arbitrary: peak worst)
  case (Cons e es)
  show ?case using Cons [of "max worst (d_sub (max peak e) e)" "max peak e"] by (simp add: Let_def)
qed simp

lemma ratio_percent_bounds:
  assumes "a \<le> b"
  shows "0 \<le> ratio_percent a b \<and> ratio_percent a b \<le> 100"
proof -
  have "of_nat a / of_nat b \<le> (1 :: rat)" using assms by (simp add: divide_le_eq)
  then have "d_quot (of_nat a) (of_nat b) \<le> 1"
    unfolding d_quot_def by (intro ctx_round_le) (use dec28_power [of 0] in simp_all)
  moreover have "0 \<le> d_quot (of_nat a) (of_nat b)" by (simp add: d_quot_def)
  ultimately show ?thesis
    unfolding ratio_percent_def d_mul_def
    by (intro conjI ctx_round_le) (use dec28_power [of 2] in simp_all)
qed

lemma signs_count: "length (filter (\<lambda>v. 0 < v) xs) + length (filter (\<lambda>v. v < 0) xs) \<le> length (xs :: rat list)"
  by (induction xs) auto

lemma metrics_overflow:
  assumes c: "backtest_config_valid c" and curve: "list_all point_ok curve" and n: "n \<le> length curve"
  shows "only_overflow (compute_metrics ts curve c tf n k)"
proof -
  have start: "bc_starting_balance c \<noteq> 0" using c by (simp add: backtest_config_valid_def)
  let ?fall = "if curve = [] then 0 else Max (set (map ep_drawdown_percent curve))"
  have fall: "0 \<le> ?fall"
  proof (cases "curve = []")
    case False
    then have "?fall \<in> set (map ep_drawdown_percent curve)" using Max_in [of "set (map ep_drawdown_percent curve)"] by simp
    with curve show ?thesis by (auto simp: list_all_iff point_ok_def)
  qed simp
  have worst: "0 \<le> drawdown_from (bc_starting_balance c) 0 (map ep_equity curve)"
    by (rule drawdown_from_ge)
  have exposed: "only_overflow (if curve = [] then Inr 0 else q_pct (ratio_percent n (length curve)))"
    by (intro overflow_intros)
  have pct: "0 \<le> x \<and> x \<le> 100"
    if "(if curve = [] then Inr 0 else q_pct (ratio_percent n (length curve))) = Inr x" for x
    using that ratio_percent_bounds [OF n] by (auto intro: q_pct_nonneg q_pct_100 split: if_splits)
  have count: "0 \<le> int (length ts) - int (length (filter (\<lambda>v. 0 < v) (map tr_net_pnl ts))) -
      int (length (filter (\<lambda>v. v < 0) (map tr_net_pnl ts)))"
    using signs_count [of "map tr_net_pnl ts"] by simp
  have avg: "only_overflow (average_r ts c)"
    unfolding average_r_def by (auto intro: overflow_intros split: option.splits)
  show ?thesis
    unfolding compute_metrics_def Let_def
    apply (intro only_overflow_bind only_overflow_opt only_overflow_money only_overflow_div avg exposed start)
    subgoal for x1 x2 x3 x4 x5 x6 x7 x8 x9 x10 x11 x12 x13 fallen deepest x16 x17 exposure x19 x20
      using q_pct_nonneg [of ?fall fallen] q_money_nonneg [of _ deepest] fall worst pct [of exposure] count
      by (simp add: mk_metrics_def metrics_valid_def)
    done
qed

subsection \<open>The biases are always computed, and never look ahead\<close>

lemma ema_total: "1 \<le> period \<Longrightarrow> ema vs period = Inr (ema_series vs period)"
  by (simp add: ema_def)

lemma wilder_total: "1 \<le> period \<Longrightarrow> wilder_average vs period start = Inr (wilder_series vs period start)"
  by (simp add: wilder_average_def)

lemma rsi_total:
  "1 \<le> period \<Longrightarrow>
   rsi cs period =
     Inr (both rsi_value (wilder_series (adjacent gain cs) period 1) (wilder_series (adjacent loss cs) period 1))"
  by (simp add: rsi_def wilder_total)

lemma macd_total:
  "1 \<le> fast \<Longrightarrow> 1 \<le> slow \<Longrightarrow> 1 \<le> signal \<Longrightarrow> \<exists>l. macd cs fast slow signal = Inr l"
  by (simp add: macd_def ema_total Let_def)

lemma adx_total: "1 \<le> period \<Longrightarrow> \<exists>l. adx cs period = Inr l"
  unfolding adx_def by (simp add: wilder_total Let_def split: option.splits)

lemma trend_params_periods:
  assumes "trend_params_valid p"
  shows "1 \<le> tp_ema_fast p" "1 \<le> tp_ema_slow p" "1 \<le> tp_rsi_period p" "1 \<le> tp_adx_period p"
    "1 \<le> tp_macd_fast p" "1 \<le> tp_macd_slow p" "1 \<le> tp_macd_signal p"
  using assms by (simp_all add: trend_params_valid_def in_range_def)

lemma bias_series_total:
  assumes "trend_params_valid p"
  shows "\<exists>bs. bias_series cs p = Inr bs"
  using adx_total [OF trend_params_periods(4) [OF assms], of cs]
    macd_total [OF trend_params_periods(5-7) [OF assms], of cs]
    ema_total [OF trend_params_periods(1) [OF assms]] ema_total [OF trend_params_periods(2) [OF assms]]
    rsi_total [OF trend_params_periods(3) [OF assms]]
  by (auto simp: bias_series_def)

lemma bias_series_length: "bias_series cs p = Inr bs \<Longrightarrow> length bs = length cs"
  by (auto simp: bias_series_def result_simps)

lemma bias_at_take:
  "i < n \<Longrightarrow>
   bias_at p (take n a) (take n b) (take n d) (take n e) (take n f) i = bias_at p a b d e f i"
  by (simp add: bias_at_def)

lemma bias_series_take: "bias_series (take n cs) p = cut n (bias_series cs p)"
proof -
  have shorter: "map (bias_at p (take n a) (take n b) (take n d) (take n e) (take n f)) [0..<length (take n cs)] =
      take n (map (bias_at p a b d e f) [0..<length cs])" for a b d e f
    by (cases "n \<le> length cs") (auto simp: take_map bias_at_take min_def not_le)
  show ?thesis
    unfolding bias_series_def closes_take ema_take rsi_take adx_take macd_take
    apply (cases "ema (map Some (closes cs)) (tp_ema_fast p)"; simp)
    apply (cases "ema (map Some (closes cs)) (tp_ema_slow p)"; simp)
    apply (cases "adx cs (tp_adx_period p)"; simp)
    apply (cases "rsi cs (tp_rsi_period p)"; simp)
    apply (cases "macd cs (tp_macd_fast p) (tp_macd_slow p) (tp_macd_signal p)"; simp)
    using shorter by (simp add: cut_adx_def cut_macd_def)
qed

subsection \<open>A longer history does not change what was simulated\<close>

lemma simulate_append:
  "simulate c w n biases i (xs @ ys) s =
   bindE (simulate c w n biases i xs s) (simulate c w n biases (i + length xs) ys)"
proof (induction xs arbitrary: i s)
  case (Cons x xs)
  show ?case by (cases "bar_step c w n biases i x s") (simp_all add: Cons.IH)
qed simp

definition forget_pending :: "sim \<Rightarrow> sim" where
  "forget_pending s = s\<lparr>sm_pending := None\<rparr>"

lemma forget_pending_fields [simp]:
  "sm_trades (forget_pending s) = sm_trades s" "sm_curve (forget_pending s) = sm_curve s"
  "sm_equity (forget_pending s) = sm_equity s" "sm_position (forget_pending s) = sm_position s"
  by (simp_all add: forget_pending_def)

definition acted :: "backtest_config \<Rightarrow> nat \<Rightarrow> candle \<Rightarrow> sim \<Rightarrow> sim result" where
  "acted c i bar s =
     bindE (execute_pending c i bar s) (\<lambda>s. bindE (manage_position c i bar s) (mark_equity bar))"

lemma bar_step_acted:
  "bar_step c w n biases i bar s = bindE (acted c i bar s) (\<lambda>s. Inr (schedule_next c w n biases i s))"
  by (simp add: bar_step_def acted_def bindE_assoc)

lemma forget_schedule: "forget_pending (schedule_next c w n biases i s) = forget_pending s"
  by (simp add: schedule_next_def forget_pending_def Let_def)

lemma schedule_agrees:
  "i + 1 < k \<Longrightarrow> k \<le> n \<Longrightarrow> biases ! i = biases' ! i \<Longrightarrow>
   schedule_next c w k biases' i s = schedule_next c w n biases i s"
  by (simp add: schedule_next_def)

lemma simulate_prefix:
  assumes "k = i + length xs" and "k \<le> n" and "\<And>j. j < k \<Longrightarrow> biases ! j = biases' ! j"
  shows "map_sum id forget_pending (simulate c w k biases' i xs s) =
         map_sum id forget_pending (simulate c w n biases i xs s)"
  using assms(1)
proof (induction xs arbitrary: i s)
  case (Cons x xs)
  show ?case
  proof (cases "acted c i x s")
    case (Inr a)
    show ?thesis
    proof (cases xs)
      case Nil
      then show ?thesis by (simp add: bar_step_acted Inr forget_schedule)
    next
      case (Cons y ys)
      with Cons.prems have i: "i + 1 < k" and k: "k = (i + 1) + length xs" by simp_all
      have "schedule_next c w k biases' i a = schedule_next c w n biases i a"
        by (rule schedule_agrees [OF i assms(2) assms(3)]) (use i in simp)
      then show ?thesis using Cons.IH [OF k] by (simp add: bar_step_acted Inr)
    qed
  qed (simp add: bar_step_acted)
qed simp

lemma exit_at_extends:
  "exit_at c pos raw reason t i s = Inr s' \<Longrightarrow>
   (\<exists>rest. sm_trades s' = sm_trades s @ rest) \<and> sm_curve s' = sm_curve s"
  by (auto simp: exit_at_def result_simps)

lemma execute_pending_extends:
  assumes "execute_pending c i bar s = Inr s'"
  shows "(\<exists>rest. sm_trades s' = sm_trades s @ rest) \<and> sm_curve s' = sm_curve s"
  using assms
  by (auto simp: execute_pending_def result_simps dest: exit_at_extends split: option.splits if_splits)

lemma manage_position_extends:
  assumes "manage_position c i bar s = Inr s'"
  shows "(\<exists>rest. sm_trades s' = sm_trades s @ rest) \<and> sm_curve s' = sm_curve s"
  using assms by (rule manage_position_cases) (auto dest: exit_at_extends [OF sym])

lemma mark_equity_extends:
  assumes "mark_equity bar s = Inr s'"
  shows "sm_trades s' = sm_trades s \<and> (\<exists>pt. sm_curve s' = sm_curve s @ [pt])"
  using assms by (auto simp: mark_equity_def result_simps Let_def)

lemma bar_step_extends:
  assumes "bar_step c w n biases i bar s = Inr s'"
  shows "(\<exists>rest. sm_trades s' = sm_trades s @ rest) \<and> (\<exists>pt. sm_curve s' = sm_curve s @ [pt])"
  using assms
proof (rule bar_step_cases)
  fix a b d
  assume r: "execute_pending c i bar s = Inr a" "manage_position c i bar a = Inr b"
    "mark_equity bar b = Inr d" "s' = schedule_next c w n biases i d"
  from execute_pending_extends [OF r(1)] manage_position_extends [OF r(2)] mark_equity_extends [OF r(3)]
  show ?thesis by (auto simp: r(4))
qed

lemma simulate_extends:
  assumes "simulate c w n biases i bars s = Inr s'"
  shows "(\<exists>rest. sm_trades s' = sm_trades s @ rest) \<and>
    (\<exists>pts. sm_curve s' = sm_curve s @ pts \<and> length pts = length bars)"
  using assms
proof (induction bars arbitrary: i s)
  case (Cons bar bars)
  then obtain u where u: "bar_step c w n biases i bar s = Inr u" "simulate c w n biases (i + 1) bars u = Inr s'"
    by (auto simp: result_simps)
  from bar_step_extends [OF u(1)] Cons.IH [OF u(2)] show ?case by auto
qed simp

lemma map_sum_Inr_iff: "map_sum id f r = Inr y \<longleftrightarrow> (\<exists>x. r = Inr x \<and> y = f x)"
  by (cases r) auto

lemma replay_prefix:
  assumes k: "k \<le> length cs" and ok: "replay_history cs c p = Inr s"
  shows "\<exists>s'. replay_history (take k cs) c p = Inr s' \<and> sm_curve s' = take k (sm_curve s) \<and>
    (\<exists>rest. sm_trades s = sm_trades s' @ rest)"
proof -
  have len: "length (take k cs) = k" using k by simp
  obtain bs where bs: "bias_series cs p = Inr bs"
    and sim: "simulate c (warmup_bars p) (length cs) bs 0 cs (initial_sim c) = Inr s"
    using ok by (auto simp: replay_history_def result_simps)
  obtain m where m: "simulate c (warmup_bars p) (length cs) bs 0 (take k cs) (initial_sim c) = Inr m"
    and rest: "simulate c (warmup_bars p) (length cs) bs k (drop k cs) m = Inr s"
    using sim simulate_append [of c "warmup_bars p" "length cs" bs 0 "take k cs" "drop k cs" "initial_sim c",
        unfolded len append_take_drop_id]
    by (auto simp: result_simps)
  have "map_sum id forget_pending
        (simulate c (warmup_bars p) k (take k bs) 0 (take k cs) (initial_sim c)) = Inr (forget_pending m)"
    using simulate_prefix [of k 0 "take k cs" "length cs" bs "take k bs" c "warmup_bars p" "initial_sim c"] k m
    by (simp add: len)
  then obtain s' where s': "simulate c (warmup_bars p) k (take k bs) 0 (take k cs) (initial_sim c) = Inr s'"
    and same: "forget_pending m = forget_pending s'"
    by (auto simp: map_sum_Inr_iff)
  from arg_cong [OF same, of sm_trades] arg_cong [OF same, of sm_curve]
  have fields: "sm_trades m = sm_trades s'" "sm_curve m = sm_curve s'" by simp_all
  have "length (sm_curve m) = k"
    using simulate_extends [OF m] k by (auto simp: initial_sim_def min_absorb2)
  then have "sm_curve s' = take k (sm_curve s)"
    using simulate_extends [OF rest] fields(2) by auto
  moreover have "\<exists>rest. sm_trades s = sm_trades s' @ rest"
    using simulate_extends [OF rest] fields(1) by auto
  moreover have "replay_history (take k cs) c p = Inr s'"
    using s' k by (simp add: replay_history_def bias_series_take bs min_absorb2)
  ultimately show ?thesis by blast
qed

subsection \<open>Thinning the curve\<close>

lemma to_double_error:
  assumes "1 \<le> x"
  shows "\<bar>to_double x - x\<bar> \<le> x / 2 ^ 53"
proof -
  let ?b = "bitlen \<lfloor>x\<rfloor>"
  define e where "e = (2 powi (?b - 53) :: rat)"
  have f: "0 < \<lfloor>x\<rfloor>" using assms by simp
  then have b: "0 < ?b" "2 ^ nat (?b - 1) \<le> \<lfloor>x\<rfloor>"
    using bitlen_bounds [OF f] bitlen_nonneg [of "\<lfloor>x\<rfloor>"] bitlen_eq_zero_iff [of "\<lfloor>x\<rfloor>"] f by linarith+
  have e0: "0 < e" by (simp add: e_def)
  have "to_double x - x = (of_int (half_even (x / e)) - x / e) * e"
    using assms e0 by (simp add: to_double_def e_def Let_def algebra_simps)
  then have "\<bar>to_double x - x\<bar> = \<bar>of_int (half_even (x / e)) - x / e\<bar> * e"
    using e0 by (simp add: abs_mult)
  also have "\<dots> \<le> 1 / 2 * e"
    using half_even_near [of "x / e"] e0 by (intro mult_right_mono) simp_all
  also have "1 / 2 * e = 2 ^ nat (?b - 1) / 2 ^ 53"
  proof -
    have "e = 2 powi ((?b - 1) - 52)" by (simp add: e_def)
    also have "\<dots> = 2 powi (?b - 1) / 2 powi 52" by (rule power_int_diff) simp
    also have "2 powi (?b - 1) = (2 :: rat) ^ nat (?b - 1)" using b(1) by (simp add: power_int_def)
    finally show ?thesis by simp
  qed
  also have "\<dots> \<le> x / 2 ^ 53"
  proof (rule divide_right_mono)
    have "(2 :: rat) ^ nat (?b - 1) \<le> of_int \<lfloor>x\<rfloor>" using b(2) by (metis of_int_le_iff of_int_numeral of_int_power)
    also have "\<dots> \<le> x" by simp
    finally show "2 ^ nat (?b - 1) \<le> x" .
  qed simp
  finally show ?thesis .
qed

lemma to_double_bounds: "0 \<le> x \<Longrightarrow> 0 \<le> to_double x \<and> to_double x \<le> x * (1 + 1 / 2 ^ 53)"
proof (cases "x < 1")
  case False
  then have "\<bar>to_double x - x\<bar> \<le> x / 2 ^ 53" by (intro to_double_error) simp
  moreover have "x / 2 ^ 53 \<le> x" using False by (simp add: divide_le_eq)
  moreover have "x * (1 + 1 / 2 ^ 53) = x + x / 2 ^ 53" by (simp add: algebra_simps)
  ultimately show ?thesis unfolding abs_le_iff by linarith
qed (simp add: to_double_def)

lemma sample_index:
  assumes "i < MAX_EQUITY_POINTS" and "0 < n"
  shows "nat \<lfloor>to_double (of_nat i * to_double (of_nat n / of_nat MAX_EQUITY_POINTS))\<rfloor> < n"
proof -
  let ?x = "of_nat n / 500 :: rat"
  let ?c = "1 + 1 / 2 ^ 53 :: rat"
  have i: "of_nat i \<le> (499 :: rat)" using assms(1) by (simp add: MAX_EQUITY_POINTS_def)
  have s: "0 \<le> to_double ?x" "to_double ?x \<le> ?x * ?c" using to_double_bounds [of ?x] by simp_all
  have p: "0 \<le> of_nat i * to_double ?x" using s(1) by simp
  have "of_nat i * to_double ?x \<le> 499 * (?x * ?c)" by (rule mult_mono) (use i s in simp_all)
  then have "of_nat i * to_double ?x * ?c \<le> 499 * (?x * ?c) * ?c" by (rule mult_right_mono) simp
  also have "\<dots> < of_nat n" using assms(2) by (simp add: field_simps)
  finally have "to_double (of_nat i * to_double ?x) < of_nat n" using to_double_bounds [OF p] by linarith
  then have "\<lfloor>to_double (of_nat i * to_double ?x)\<rfloor> < int n" by (simp add: floor_less_iff)
  then show ?thesis using assms(2) by (simp add: MAX_EQUITY_POINTS_def)
qed

lemma downsample_set: "set (downsample curve) \<subseteq> set curve"
proof (cases "length curve \<le> MAX_EQUITY_POINTS")
  case False
  then have n: "0 < length curve" by linarith
  let ?s = "map (\<lambda>i. curve ! nat \<lfloor>to_double (of_nat i * to_double (of_nat (length curve) / of_nat MAX_EQUITY_POINTS))\<rfloor>)
      [0..<MAX_EQUITY_POINTS]"
  have d: "downsample curve = butlast ?s @ [last curve]" using False by (simp add: downsample_def Let_def)
  have "set ?s \<subseteq> set curve" using sample_index [OF _ n] by auto
  then have "set (butlast ?s) \<subseteq> set curve" using in_set_butlastD [of _ ?s] by blast
  then show ?thesis using n unfolding d by simp
qed (simp add: downsample_def)

lemma downsample_last: "curve \<noteq> [] \<Longrightarrow> last (downsample curve) = last curve"
  by (simp add: downsample_def Let_def)

lemma downsample_length: "length (downsample curve) = min (length curve) MAX_EQUITY_POINTS"
  by (simp add: downsample_def Let_def MAX_EQUITY_POINTS_def)

subsection \<open>A whole run\<close>

lemma run_backtest_cases:
  assumes "run_backtest cs symb tf c p ran_at = Inr r"
  obtains "length cs < warmup_bars p + 2" "r = base_result symb tf c ran_at BT_INSUFFICIENT_DATA"
  | s u k m where "warmup_bars p + 2 \<le> length cs" "replay_history cs c p = Inr s" "close_at_end c cs s = Inr (u, k)"
      "compute_metrics (sm_trades u) (sm_curve u) c tf (sm_bars_in_position u) k = Inr m"
      "br_status r = BT_COMPLETED" "br_metrics r = Some m" "br_trades r = sm_trades u"
      "br_equity_curve r = downsample (sm_curve u)"
  using assms
  by (auto simp: run_backtest_def base_result_def result_simps not_less split: if_splits)

lemma replay_ok:
  "backtest_config_valid c \<Longrightarrow> dec28 (bc_starting_balance c) \<Longrightarrow> replay_history cs c p = Inr s \<Longrightarrow> sim_ok s"
  by (auto simp: replay_history_def result_simps intro: simulate_ok initial_sim_ok)

lemma run_backtest_ok:
  assumes c: "backtest_config_valid c" "dec28 (bc_starting_balance c)"
    and ok: "run_backtest cs symb tf c p ran_at = Inr r"
  shows "list_all trade_ok (br_trades r) \<and> list_all point_ok (br_equity_curve r)"
  using ok
proof (cases rule: run_backtest_cases)
  case 1
  then show ?thesis by (simp add: base_result_def)
next
  case (2 s u k m)
  have "sim_ok u" using close_at_end_ok [OF replay_ok [OF c 2(2)] 2(3)] by blast
  then show ?thesis
    using 2(7,8) downsample_set [of "sm_curve u"] by (auto simp: sim_ok_def list_all_iff)
qed

lemma run_backtest_overflow:
  assumes c: "backtest_config_valid c" "dec28 (bc_starting_balance c)" and p: "trend_params_valid p"
  shows "only_overflow (run_backtest cs symb tf c p ran_at)"
proof -
  obtain bs where bs: "bias_series cs p = Inr bs" using bias_series_total [OF p] by blast
  have sim: "only_overflow (replay_history cs c p)"
    unfolding replay_history_def bs bindE.simps by (rule simulate_overflow [OF c(1) initial_sim_ok [OF c]])
  have done': "only_overflow (compute_metrics (sm_trades u) (sm_curve u) c tf (sm_bars_in_position u) k)"
    if "replay_history cs c p = Inr s" "close_at_end c cs s = Inr (u, k)" for s u k
  proof -
    have "sim_ok u" using close_at_end_ok [OF replay_ok [OF c that(1)] that(2)] by blast
    then show ?thesis by (intro metrics_overflow c(1)) (simp_all add: sim_ok_def)
  qed
  show ?thesis
    unfolding run_backtest_def
    by (auto simp: result_simps intro!: only_overflow_if only_overflow_bind sim
        close_at_end_overflow [OF replay_ok [OF c]] done')
qed

subsection \<open>The adverse level and the longest streak\<close>

lemma max_level_Max: "fst (max_level a ls) = Max (insert (fst a) (fst ` set ls))"
proof (induction ls arbitrary: a)
  case (Cons b ls)
  have "fst (if below a b then b else a) = max (fst a) (fst b)" by (auto simp: below_def max_def)
  then show ?case using Cons.IH [of "if below a b then b else a"]
    by (cases "ls = []") (simp_all add: max.assoc)
qed simp

lemma min_level_Min: "fst (min_level a ls) = Min (insert (fst a) (fst ` set ls))"
proof (induction ls arbitrary: a)
  case (Cons b ls)
  have "fst (if below b a then b else a) = min (fst a) (fst b)" by (auto simp: below_def min_def)
  then show ?case using Cons.IH [of "if below b a then b else a"]
    by (cases "ls = []") (simp_all add: min.assoc)
qed simp

lemma adverse_exit_level:
  "map_option fst (adverse_exit long high low levels) =
   (if long then (if \<exists>v \<in> fst ` set levels. low \<le> v then Some (Max (fst ` set levels)) else None)
    else (if \<exists>v \<in> fst ` set levels. v \<le> high then Some (Min (fst ` set levels)) else None))"
proof (cases levels)
  case (Cons a rest)
  let ?S = "fst ` set levels"
  have S: "finite ?S" "?S \<noteq> {}" "?S = insert (fst a) (fst ` set rest)" by (simp_all add: Cons)
  have "(low \<le> Max ?S) = (\<exists>v \<in> ?S. low \<le> v)" using S by (simp add: Max_ge_iff)
  moreover have "(Min ?S \<le> high) = (\<exists>v \<in> ?S. v \<le> high)" using S by (simp add: Min_le_iff)
  ultimately show ?thesis
    using max_level_Max [of a rest] min_level_Min [of a rest]
    unfolding S(3) by (auto simp: adverse_exit_def Cons Let_def)
qed (simp add: adverse_exit_def)

lemma longest_run_from_ge: "longest \<le> longest_run_from hit current longest ts"
proof (induction ts arbitrary: current longest)
  case (Cons t ts)
  show ?case using Cons [of "max longest (if hit t then current + 1 else 0)" "if hit t then current + 1 else 0"]
    by (simp add: Let_def split: if_splits)
qed simp

lemma longest_run_from_streak:
  "list_all hit ys \<Longrightarrow> current \<le> longest \<Longrightarrow> current + length ys \<le> longest_run_from hit current longest (ys @ zs)"
proof (induction ys arbitrary: current longest)
  case Nil
  then show ?case using longest_run_from_ge [of longest hit current zs] by simp
next
  case (Cons y ys)
  then show ?case using Cons.IH [of "current + 1" "max longest (current + 1)"] by (simp add: Let_def)
qed

lemma longest_run_from_skip:
  "current \<le> longest \<Longrightarrow>
   \<exists>current' longest'. current' \<le> longest' \<and>
     longest_run_from hit current longest (xs @ ws) = longest_run_from hit current' longest' ws"
proof (induction xs arbitrary: current longest)
  case (Cons x xs)
  have "(if hit x then current + 1 else 0) \<le> max longest (if hit x then current + 1 else 0)" by simp
  from Cons.IH [OF this] show ?case by (simp add: Let_def)
qed auto

definition streak_in :: "('a \<Rightarrow> bool) \<Rightarrow> 'a list \<Rightarrow> nat \<Rightarrow> bool" where
  "streak_in hit ts n \<longleftrightarrow> (\<exists>xs ys zs. ts = xs @ ys @ zs \<and> list_all hit ys \<and> length ys = n)"

lemma streak_in_more: "streak_in hit ts n \<Longrightarrow> streak_in hit (ts @ us) n"
  unfolding streak_in_def by (metis append.assoc)

lemma longest_run_from_attained:
  assumes "\<exists>xs ys. pre = xs @ ys \<and> list_all hit ys \<and> length ys = current" and "streak_in hit pre longest"
  shows "streak_in hit (pre @ ts) (longest_run_from hit current longest ts)"
  using assms
proof (induction ts arbitrary: pre current longest)
  case (Cons t ts)
  let ?current = "if hit t then current + 1 else 0"
  have last_streak: "\<exists>xs ys. pre @ [t] = xs @ ys \<and> list_all hit ys \<and> length ys = ?current"
  proof (cases "hit t")
    case True
    obtain xs ys where "pre = xs @ ys" "list_all hit ys" "length ys = current" using Cons.prems(1) by blast
    with True show ?thesis by (intro exI [of _ xs] exI [of _ "ys @ [t]"]) simp
  next
    case False
    then show ?thesis by (intro exI [of _ "pre @ [t]"] exI [of _ "[]"]) simp
  qed
  then have "streak_in hit (pre @ [t]) ?current" unfolding streak_in_def by (metis append_Nil2)
  then have "streak_in hit (pre @ [t]) (max longest ?current)"
    using streak_in_more [OF Cons.prems(2), of "[t]"] by (simp add: max_def)
  from Cons.IH [OF last_streak this] show ?case by (simp add: Let_def)
qed simp

lemma longest_run_from_Max:
  "longest_run_from hit 0 0 ts = Max {length ys | xs ys zs. ts = xs @ ys @ zs \<and> list_all hit ys}"
proof (rule Max_eqI [symmetric])
  have "{length ys | xs ys zs. ts = xs @ ys @ zs \<and> list_all hit ys} \<subseteq> {..length ts}" by auto
  then show "finite {length ys | xs ys zs. ts = xs @ ys @ zs \<and> list_all hit ys}"
    by (rule finite_subset) simp
next
  fix n
  assume "n \<in> {length ys | xs ys zs. ts = xs @ ys @ zs \<and> list_all hit ys}"
  then obtain xs ys zs where n: "n = length ys" "ts = xs @ ys @ zs" "list_all hit ys" by blast
  obtain c l where "c \<le> l" "longest_run_from hit 0 0 ts = longest_run_from hit c l (ys @ zs)"
    using longest_run_from_skip [of 0 0 hit xs "ys @ zs"] n(2) by auto
  with longest_run_from_streak [OF n(3), of c l zs] n(1) show "n \<le> longest_run_from hit 0 0 ts" by simp
next
  have "streak_in hit ([] @ ts) (longest_run_from hit 0 0 ts)"
    by (rule longest_run_from_attained) (auto simp: streak_in_def)
  then show "longest_run_from hit 0 0 ts \<in> {length ys | xs ys zs. ts = xs @ ys @ zs \<and> list_all hit ys}"
    unfolding streak_in_def by (simp, metis)
qed

end
