(* ===== verification/WarmupLaws.thy ===== *)
theory WarmupLaws
  imports IndicatorLaws
begin

section \<open>Warm-up and bounds of the indicators\<close>

text \<open>
  Where a line has its first value, which lines of an indicator are defined together, and the range of
  the oscillators.
\<close>

subsection \<open>Defined values\<close>

lemma length_both [simp]: "length (both h xs ys) = min (length xs) (length ys)"
  by (simp add: both_def)

lemma both_nth:
  "i < length xs \<Longrightarrow> i < length ys \<Longrightarrow>
   both h xs ys ! i = (case xs ! i of None \<Rightarrow> None | Some a \<Rightarrow> (case ys ! i of None \<Rightarrow> None | Some b \<Rightarrow> h a b))"
  by (simp add: both_def)

lemma both_defined:
  "i < length xs \<Longrightarrow> i < length ys \<Longrightarrow> both h xs ys ! i \<noteq> None \<Longrightarrow> xs ! i \<noteq> None \<and> ys ! i \<noteq> None"
  by (auto simp: both_nth split: option.splits)

lemma ema_from_defined: "i < length vs \<Longrightarrow> ema_from k p vs ! i \<noteq> None \<Longrightarrow> vs ! i \<noteq> None"
proof (induction k p vs arbitrary: i rule: ema_from.induct)
  case (2 k p vs)
  from 2(1) have "ema_from k p (None # vs) ! i = None" by (simp del: replicate.simps)
  with 2(2) show ?case by simp
next
  case (3 k p v vs)
  then show ?case by (cases i) (auto simp: Let_def)
qed simp

lemma wilder_from_defined: "i < length vs \<Longrightarrow> wilder_from q p vs ! i \<noteq> None \<Longrightarrow> vs ! i \<noteq> None"
proof (induction q p vs arbitrary: i rule: wilder_from.induct)
  case (2 q p vs)
  from 2(1) have "wilder_from q p (None # vs) ! i = None" by (simp del: replicate.simps)
  with 2(2) show ?case by simp
next
  case (3 q p v vs)
  then show ?case by (cases i) (auto simp: Let_def)
qed simp

text \<open>The seed is an average of defined values.\<close>

lemma seed_end_defined:
  "1 \<le> period \<Longrightarrow> seed_end period run i vs = Some e \<Longrightarrow> i \<le> j \<Longrightarrow> j \<le> e \<Longrightarrow> e < j + period \<Longrightarrow>
   vs ! (j - i) \<noteq> None"
proof (induction vs arbitrary: run i)
  case (Cons v vs)
  define run' where "run' = (case v of None \<Rightarrow> 0 | Some x \<Rightarrow> run + 1)"
  show ?case
  proof (cases "run' = period")
    case True
    with Cons.prems have "v \<noteq> None" "e = i"
      by (auto simp: run'_def split: option.splits if_splits)
    with Cons.prems show ?thesis by simp
  next
    case False
    with Cons.prems(2) have s: "seed_end period run' (i + 1) vs = Some e" by (simp add: run'_def [symmetric])
    show ?thesis
    proof (cases "j = i")
      case True
      have "v \<noteq> None"
      proof
        assume "v = None"
        then have "run' = 0" by (simp add: run'_def)
        with seed_end_window [OF s] seed_end_bounds [OF s] Cons.prems(5) True show False by linarith
      qed
      with True show ?thesis by simp
    next
      case False
      with Cons.prems(3) have "i + 1 \<le> j" by simp
      from Cons.IH [OF Cons.prems(1) s this Cons.prems(4,5)] have "vs ! (j - (i + 1)) \<noteq> None" .
      moreover have "j - i = Suc (j - (i + 1))" using \<open>i + 1 \<le> j\<close> by simp
      ultimately show ?thesis by simp
    qed
  qed
qed simp

lemma ema_series_defined:
  assumes "1 \<le> period" and i: "i < length vs" and d: "ema_series vs period ! i \<noteq> None"
  shows "\<exists>e. e \<le> i \<and> (\<forall>j. j \<le> e \<longrightarrow> e < j + period \<longrightarrow> vs ! j \<noteq> None) \<and> period \<le> e + 1 \<and> vs ! i \<noteq> None"
proof (cases "seed_end period 0 0 vs")
  case None
  with d i show ?thesis by (simp add: ema_series_def)
next
  case (Some e)
  have seed: "vs ! j \<noteq> None" if "j \<le> e" "e < j + period" for j
    using seed_end_defined [OF assms(1) Some, of j] that by simp
  let ?s = "mean_of (window vs e period) period"
  have all: "ema_series vs period = replicate e None @ Some ?s # ema_from (d_quot 2 (of_nat (period + 1))) ?s (drop (e + 1) vs)"
    by (simp add: ema_series_def Some Let_def)
  have e: "e \<le> i"
  proof (rule ccontr)
    assume "\<not> e \<le> i"
    then have "ema_series vs period ! i = None" by (simp add: all nth_append)
    with d show False by simp
  qed
  have "vs ! i \<noteq> None"
  proof (cases "i = e")
    case True
    with seed [of e] assms(1) show ?thesis by simp
  next
    case False
    with e d have "ema_from (d_quot 2 (of_nat (period + 1))) ?s (drop (e + 1) vs) ! (i - e - 1) \<noteq> None"
      by (simp add: all nth_append nth_Cons')
    moreover have "i - e - 1 < length (drop (e + 1) vs)" using e False i by simp
    ultimately have "drop (e + 1) vs ! (i - e - 1) \<noteq> None" by (rule ema_from_defined [rotated])
    with e False i show ?thesis by simp
  qed
  with seed e seed_end_window [OF Some] show ?thesis by auto
qed

lemma wilder_series_defined:
  assumes "1 \<le> period" and i: "i < length vs" and d: "wilder_series vs period start ! i \<noteq> None"
  shows "start + period \<le> i + 1 \<and> vs ! i \<noteq> None"
proof -
  let ?e = "start + period - 1"
  let ?w = "window vs ?e period"
  let ?s = "mean_of ?w period"
  have e: "?e < length vs" "None \<notin> set ?w"
    using d i by (auto simp: wilder_series_def Let_def split: if_splits)
  then have all: "wilder_series vs period start = replicate ?e None @ Some ?s # wilder_from period ?s (drop (?e + 1) vs)"
    by (simp add: wilder_series_def Let_def)
  have le: "?e \<le> i"
  proof (rule ccontr)
    assume "\<not> ?e \<le> i"
    then have "wilder_series vs period start ! i = None" by (simp add: all nth_append)
    with d show False by simp
  qed
  have "vs ! i \<noteq> None"
  proof (cases "i = ?e")
    case True
    have "period - 1 < length ?w" and "?w ! (period - 1) = vs ! ?e"
      using e(1) assms(1) by (auto simp: window_def)
    with e(2) True show ?thesis by (metis nth_mem)
  next
    case False
    with le d have "wilder_from period ?s (drop (?e + 1) vs) ! (i - ?e - 1) \<noteq> None"
      by (simp add: all nth_append nth_Cons')
    moreover have "i - ?e - 1 < length (drop (?e + 1) vs)" using le False i by simp
    ultimately have "drop (?e + 1) vs ! (i - ?e - 1) \<noteq> None" by (rule wilder_from_defined [rotated])
    with le False i show ?thesis by simp
  qed
  with le assms(1) show ?thesis by simp
qed

subsection \<open>Where a line starts\<close>

text \<open>\<open>starts a s\<close>: the series has no value before index \<open>a\<close> and one at every index from there on.\<close>

definition starts :: "nat \<Rightarrow> 'a option list \<Rightarrow> bool" where
  "starts a s \<longleftrightarrow> (\<forall>i < length s. (s ! i \<noteq> None) = (a \<le> i))"

lemma startsD: "starts a s \<Longrightarrow> i < length s \<Longrightarrow> (s ! i \<noteq> None) = (a \<le> i)"
  by (simp add: starts_def)

lemma starts_Some: "starts 0 (map Some xs)"
  by (simp add: starts_def)

lemma starts_adjacent: "starts 1 (adjacent f cs)"
  by (auto simp: starts_def adjacent_def)

lemma starts_both:
  assumes "starts a xs" "starts b ys" "length xs = length ys" "\<And>x y. h x y \<noteq> None"
  shows "starts (max a b) (both h xs ys)"
  unfolding starts_def
proof (intro allI impI)
  fix i
  assume i: "i < length (both h xs ys)"
  then show "(both h xs ys ! i \<noteq> None) = (max a b \<le> i)"
    using startsD [OF assms(1), of i] startsD [OF assms(2), of i] assms(3,4)
    by (auto simp: both_nth split: option.splits)
qed

lemma starts_split:
  assumes "starts a vs" and "a \<le> length vs"
  shows "vs = replicate a None @ map Some (map the (drop a vs))"
proof (rule nth_equalityI)
  fix i
  assume i: "i < length vs"
  with startsD [OF assms(1) i] assms(2)
  show "vs ! i = (replicate a None @ map Some (map the (drop a vs))) ! i"
    by (auto simp: nth_append)
qed (use assms(2) in simp)

lemma seed_end_Nones: "1 \<le> period \<Longrightarrow> seed_end period 0 i (replicate a None @ vs) = seed_end period 0 (i + a) vs"
  by (induction a arbitrary: i) simp_all

lemma seed_end_Somes:
  "run < period \<Longrightarrow> period - run \<le> length xs \<Longrightarrow>
   seed_end period run i (map Some xs) = Some (i + (period - run) - 1)"
proof (induction xs arbitrary: run i)
  case (Cons x xs)
  show ?case
  proof (cases "run + 1 = period")
    case True
    then have "period - run = 1" by simp
    with True show ?thesis by simp
  next
    case False
    with Cons.prems have "run + 1 < period" "period - (run + 1) \<le> length xs" by simp_all
    from Cons.IH [OF this] False Cons.prems(1) show ?thesis by (simp add: Let_def)
  qed
qed simp

lemma ema_from_Somes: "None \<notin> set (ema_from k s (map Some xs))"
  by (induction xs arbitrary: s) (simp_all add: Let_def)

lemma wilder_from_Somes: "None \<notin> set (wilder_from q s (map Some xs))"
  by (induction xs arbitrary: s) (simp_all add: Let_def)

lemma starts_ema:
  assumes p: "1 \<le> period" and s: "starts a vs"
  shows "starts (a + period - 1) (ema_series vs period)"
  unfolding starts_def length_ema_series
proof (intro allI impI)
  fix i
  assume i: "i < length vs"
  show "(ema_series vs period ! i \<noteq> None) = (a + period - 1 \<le> i)"
  proof
    assume "ema_series vs period ! i \<noteq> None"
    then obtain e where e: "e \<le> i" "\<forall>j. j \<le> e \<longrightarrow> e < j + period \<longrightarrow> vs ! j \<noteq> None" "period \<le> e + 1"
      using ema_series_defined [OF p i] by blast
    have "vs ! (e + 1 - period) \<noteq> None" using e(2,3) p by simp
    with startsD [OF s, of "e + 1 - period"] e(1) i p have "a \<le> e + 1 - period" by simp
    with e show "a + period - 1 \<le> i" by linarith
  next
    assume le: "a + period - 1 \<le> i"
    define xs where "xs = map the (drop a vs)"
    have vs: "vs = replicate a None @ map Some xs"
      unfolding xs_def by (rule starts_split [OF s]) (use le i p in linarith)
    have len: "length vs = a + length xs" by (subst vs) simp
    have "seed_end period 0 0 vs = Some (a + period - 1)"
      by (subst vs) (use seed_end_Nones [OF p, of 0 a "map Some xs"] seed_end_Somes [of 0 period xs a] len le i p in simp)
    then have all: "ema_series vs period = replicate (a + period - 1) None @
        Some (mean_of (window vs (a + period - 1) period) period) #
        ema_from (d_quot 2 (of_nat (period + 1))) (mean_of (window vs (a + period - 1) period) period) (drop (a + period - 1 + 1) vs)"
      by (simp add: ema_series_def Let_def)
    have "drop (a + period - 1 + 1) vs = map Some (drop period xs)"
      using p by (subst vs) (simp add: drop_map)
    then have "None \<notin> set (drop (a + period - 1) (ema_series vs period))"
      unfolding all by (simp add: ema_from_Somes)
    moreover have "ema_series vs period ! i \<in> set (drop (a + period - 1) (ema_series vs period))"
      using le i by (auto simp: in_set_conv_nth length_ema_series intro!: exI [of _ "i - (a + period - 1)"])
    ultimately show "ema_series vs period ! i \<noteq> None" by metis
  qed
qed

lemma starts_wilder:
  assumes p: "1 \<le> period" and s: "starts a vs" and a: "a \<le> start"
  shows "starts (start + period - 1) (wilder_series vs period start)"
  unfolding starts_def length_wilder_series
proof (intro allI impI)
  fix i
  assume i: "i < length vs"
  let ?e = "start + period - 1"
  let ?w = "window vs ?e period"
  show "(wilder_series vs period start ! i \<noteq> None) = (?e \<le> i)"
  proof
    assume "wilder_series vs period start ! i \<noteq> None"
    then show "?e \<le> i" using wilder_series_defined [OF p i] by fastforce
  next
    assume le: "?e \<le> i"
    define xs where "xs = map the (drop a vs)"
    have vs: "vs = replicate a None @ map Some xs"
      unfolding xs_def by (rule starts_split [OF s]) (use le i p a in linarith)
    have tail: "drop j vs = map Some (drop (j - a) xs)" if "a \<le> j" for j
      using that by (subst vs) (simp add: drop_map)
    have "?w = take period (drop start vs)" using p by (simp add: window_def)
    also have "\<dots> = map Some (take period (drop (start - a) xs))" by (simp add: tail [OF a] take_map)
    finally have w: "None \<notin> set ?w" by auto
    then have all: "wilder_series vs period start = replicate ?e None @
        Some (mean_of ?w period) # wilder_from period (mean_of ?w period) (drop (?e + 1) vs)"
      using le i by (simp add: wilder_series_def Let_def)
    have "drop (?e + 1) vs = map Some (drop (?e + 1 - a) xs)" using a p by (intro tail) simp
    then have "None \<notin> set (drop ?e (wilder_series vs period start))"
      unfolding all by (simp add: wilder_from_Somes)
    moreover have "wilder_series vs period start ! i \<in> set (drop ?e (wilder_series vs period start))"
      using le i by (auto simp: in_set_conv_nth length_wilder_series intro!: exI [of _ "i - ?e"])
    ultimately show "wilder_series vs period start ! i \<noteq> None" by metis
  qed
qed

lemma starts_sma:
  assumes p: "1 \<le> period" and s: "starts a vs"
  shows "starts (a + period - 1) (sma_series vs period)"
  unfolding starts_def
proof (intro allI impI)
  fix i
  assume "i < length (sma_series vs period)"
  then have i: "i < length vs" by (simp add: sma_series_def)
  have member: "vs ! j \<in> set (window vs i period)" if "j \<le> i" "i < j + period" for j
  proof -
    have "j - (i + 1 - period) < length (window vs i period)"
      using that i by (simp add: window_def) arith
    moreover have "window vs i period ! (j - (i + 1 - period)) = vs ! j"
      using that i by (simp add: window_def)
    ultimately show ?thesis by (metis nth_mem)
  qed
  have "None \<notin> set (window vs i period)" if "a \<le> i + 1 - period" "period \<le> i + 1"
  proof
    assume "None \<in> set (window vs i period)"
    then obtain k where k: "k < period" "i + 1 - period + k < length vs" "vs ! (i + 1 - period + k) = None"
      by (auto simp: window_def in_set_conv_nth)
    with startsD [OF s k(2)] that(1) show False by simp
  qed
  moreover have "a \<le> i + 1 - period" if "period \<le> i + 1" "None \<notin> set (window vs i period)"
  proof -
    have "vs ! (i + 1 - period) \<in> set (window vs i period)"
      using that(1) p by (intro member) linarith+
    with that(2) have "vs ! (i + 1 - period) \<noteq> None" by metis
    with startsD [OF s, of "i + 1 - period"] i p show ?thesis by simp
  qed
  moreover have "(a + period - 1 \<le> i) = (period \<le> i + 1 \<and> a \<le> i + 1 - period)" using p by arith
  ultimately show "(sma_series vs period ! i \<noteq> None) = (a + period - 1 \<le> i)"
    using i by (auto simp: sma_series_def sma_at_def Let_def)
qed

subsection \<open>The range of the oscillators\<close>

definition all_in :: "rat \<Rightarrow> rat \<Rightarrow> series \<Rightarrow> bool" where
  "all_in low high s \<longleftrightarrow> (\<forall>v. Some v \<in> set s \<longrightarrow> low \<le> v \<and> v \<le> high)"

text \<open>An average of non-negative values is not negative, and an average of percentages is at most 100.\<close>

lemma d_sum_ge_0: "(\<And>x. x \<in> set xs \<Longrightarrow> 0 \<le> x) \<Longrightarrow> 0 \<le> d_sum xs"
  by (induction xs rule: rev_induct) (auto simp: d_sum_snoc d_add_def d_sum_def)

lemma dec28_hundreds: "n \<le> 1000 \<Longrightarrow> dec28 (100 * of_nat n)"
  by (rule dec28_scaled [of _ "100 * int n" 0]) auto

lemma d_sum_le_hundreds:
  "length xs \<le> 1000 \<Longrightarrow> (\<And>x. x \<in> set xs \<Longrightarrow> x \<le> 100) \<Longrightarrow> d_sum xs \<le> 100 * of_nat (length xs)"
proof (induction xs rule: rev_induct)
  case (snoc x xs)
  then have "d_sum xs + x \<le> 100 * of_nat (length (xs @ [x]))" by (fastforce simp: algebra_simps)
  with dec28_hundreds [of "length (xs @ [x])"] snoc.prems(1) show ?case
    unfolding d_sum_snoc d_add_def by (intro ctx_round_le)
qed (simp add: d_sum_def)

lemma mean_of_nonneg: "(\<And>v. Some v \<in> set w \<Longrightarrow> 0 \<le> v) \<Longrightarrow> None \<notin> set w \<Longrightarrow> 0 \<le> mean_of w n"
  unfolding mean_of_def d_quot_def ctx_round_nonneg_iff
  by (intro divide_nonneg_nonneg d_sum_ge_0) (auto, metis option.collapse)

lemma mean_of_percent:
  assumes "1 \<le> n" "n \<le> 1000" "length w \<le> n" "None \<notin> set w" "\<And>v. Some v \<in> set w \<Longrightarrow> v \<le> 100"
  shows "mean_of w n \<le> 100"
proof -
  have "x \<le> 100" if "x \<in> set (map the w)" for x
    using that assms(4,5) by (auto, metis option.collapse)
  then have "d_sum (map the w) \<le> 100 * of_nat (length w)"
    using d_sum_le_hundreds [of "map the w"] assms(2,3) by simp
  also have "\<dots> \<le> 100 * of_nat n" using assms(3) by simp
  finally have "d_sum (map the w) / of_nat n \<le> 100" using assms(1) by (simp add: divide_le_eq)
  then show ?thesis
    unfolding mean_of_def d_quot_def by (rule ctx_round_le [rotated]) (use dec28_power [of 2] in simp)
qed

text \<open>One more value in a Wilder average keeps a range the average and the value are in.\<close>

lemma wilder_step_nonneg:
  "1 \<le> n \<Longrightarrow> 0 \<le> prev \<Longrightarrow> 0 \<le> v \<Longrightarrow> 0 \<le> d_quot (d_add (d_mul prev (d_sub (of_nat n) 1)) v) (of_nat n)"
  by (simp add: d_quot_def d_add_def d_mul_def d_sub_def)

lemma wilder_step_percent:
  assumes "1 \<le> n" "n \<le> 1000" "prev \<le> 100" "v \<le> 100"
  shows "d_quot (d_add (d_mul prev (d_sub (of_nat n) 1)) v) (of_nat n) \<le> 100"
proof -
  have n1: "d_sub (of_nat n) 1 = of_nat (n - 1)"
    unfolding d_sub_def using assms(1,2)
    by (subst ctx_round_exact) (auto intro!: dec28_scaled [of _ "int n - 1" 0] simp: of_nat_diff)
  have "prev * of_nat (n - 1) \<le> 100 * of_nat (n - 1)" using assms(3) by (rule mult_right_mono) simp
  then have "d_mul prev (of_nat (n - 1)) \<le> 100 * of_nat (n - 1)"
    unfolding d_mul_def using assms(2) by (intro ctx_round_le dec28_hundreds) simp_all
  with assms(1,4) have "d_mul prev (of_nat (n - 1)) + v \<le> 100 * of_nat n"
    by (simp add: of_nat_diff algebra_simps)
  then have "d_add (d_mul prev (of_nat (n - 1))) v \<le> 100 * of_nat n"
    unfolding d_add_def using assms(2) by (intro ctx_round_le dec28_hundreds)
  with assms(1) have "d_add (d_mul prev (of_nat (n - 1))) v / of_nat n \<le> 100"
    by (simp add: divide_le_eq)
  then show ?thesis
    unfolding n1 d_quot_def by (rule ctx_round_le [rotated]) (use dec28_power [of 2] in simp)
qed

lemma wilder_from_in:
  assumes "\<And>prev v. P prev \<Longrightarrow> P v \<Longrightarrow> P (d_quot (d_add (d_mul prev (d_sub (of_nat n) 1)) v) (of_nat n))"
  shows "P prev \<Longrightarrow> (\<And>v. Some v \<in> set vs \<Longrightarrow> P v) \<Longrightarrow> Some x \<in> set (wilder_from n prev vs) \<Longrightarrow> P x"
proof (induction vs arbitrary: prev)
  case (Cons v vs)
  show ?case
  proof (cases v)
    case None
    with Cons.prems(3) show ?thesis by (simp split: if_splits)
  next
    case (Some y)
    let ?x = "d_quot (d_add (d_mul prev (d_sub (of_nat n) 1)) y) (of_nat n)"
    have next_P: "P ?x" by (rule assms) (use Cons.prems(1,2) Some in simp_all)
    show ?thesis
    proof (cases "x = ?x")
      case False
      with Cons.prems(3) Some have "Some x \<in> set (wilder_from n ?x vs)" by (simp add: Let_def)
      from Cons.IH [OF next_P _ this] Cons.prems(2) show ?thesis by simp
    qed (use next_P in simp)
  qed
qed simp

text \<open>Every value of a Wilder average is in a range its input is in.\<close>

lemma wilder_series_nonneg:
  assumes "1 \<le> period" "\<And>v. Some v \<in> set vs \<Longrightarrow> 0 \<le> v" "Some x \<in> set (wilder_series vs period start)"
  shows "0 \<le> x"
proof -
  let ?w = "window vs (start + period - 1) period"
  have w: "Some v \<in> set ?w \<Longrightarrow> 0 \<le> v" for v
    using assms(2) by (auto simp: window_def dest!: in_set_takeD in_set_dropD)
  have in_drop: "Some v \<in> set (drop k vs) \<Longrightarrow> 0 \<le> v" for v k
    using assms(2) by (auto dest!: in_set_dropD)
  have step: "0 \<le> d_quot (d_add (d_mul prev (d_sub (of_nat period) 1)) v) (of_nat period)"
    if "0 \<le> prev" "0 \<le> v" for prev v
    using wilder_step_nonneg [OF assms(1) that] .
  show ?thesis
    using assms(3) mean_of_nonneg [of ?w period] w
      wilder_from_in [of "\<lambda>v. 0 \<le> v" period "mean_of ?w period" "drop (start + period - 1 + 1) vs" x, OF step]
      in_drop
    by (auto simp: wilder_series_def Let_def split: if_splits)
qed

lemma wilder_series_percent:
  assumes p: "1 \<le> period" "period \<le> 1000" and v: "\<And>v. Some v \<in> set vs \<Longrightarrow> v \<le> 100"
    and x: "Some x \<in> set (wilder_series vs period start)"
  shows "x \<le> 100"
proof -
  let ?w = "window vs (start + period - 1) period"
  have w: "Some v \<in> set ?w \<Longrightarrow> v \<le> 100" for v
    using v by (auto simp: window_def dest!: in_set_takeD in_set_dropD)
  have in_drop: "Some v \<in> set (drop k vs) \<Longrightarrow> v \<le> 100" for v k
    using v by (auto dest!: in_set_dropD)
  have len: "length ?w \<le> period" by (simp add: window_def)
  have step: "d_quot (d_add (d_mul prev (d_sub (of_nat period) 1)) v) (of_nat period) \<le> 100"
    if "prev \<le> 100" "v \<le> 100" for prev v
    using wilder_step_percent [OF p that] .
  show ?thesis
    using x mean_of_percent [OF p len] w
      wilder_from_in [of "\<lambda>v. v \<le> 100" period "mean_of ?w period" "drop (start + period - 1 + 1) vs" x, OF step]
      in_drop
    by (auto simp: wilder_series_def Let_def split: if_splits)
qed

lemma set_both: "Some x \<in> set (both h xs ys) \<Longrightarrow> \<exists>a b. Some a \<in> set xs \<and> Some b \<in> set ys \<and> h a b = Some x"
  by (fastforce simp: both_def dest: set_zip_leftD set_zip_rightD split: option.splits)

lemma adjacent_values: "Some x \<in> set (adjacent f cs) \<Longrightarrow> \<exists>a b. x = f a b"
  by (auto simp: adjacent_def split: if_splits)

lemma gain_nonneg: "0 \<le> gain p c" and loss_nonneg: "0 \<le> loss p c"
  by (simp_all add: gain_def loss_def Let_def d_neg_def)

lemma rsi_value_range:
  assumes "0 \<le> g" "0 \<le> l" "rsi_value g l = Some x"
  shows "0 \<le> x \<and> x \<le> 100"
proof (cases "l = 0 \<or> g = 0")
  case False
  let ?r = "d_add 1 (d_quot g l)"
  from False assms(1,2) have "0 \<le> d_quot g l" by (simp add: d_quot_def)
  then have "1 \<le> ?r" unfolding d_add_def by (intro ctx_round_ge) (use dec28_power [of 0] in simp_all)
  then have "0 \<le> 100 / ?r" "100 / ?r \<le> 100" by (simp_all add: divide_le_eq)
  then have q: "0 \<le> d_quot 100 ?r" "d_quot 100 ?r \<le> 100"
    unfolding d_quot_def by (simp, intro ctx_round_le) (use dec28_power [of 2] in simp_all)
  from False assms(3) have x: "x = d_sub 100 (d_quot 100 ?r)" by (simp add: rsi_value_def)
  have "x \<le> 100" unfolding x d_sub_def by (rule ctx_round_le) (use dec28_power [of 2] q in simp_all)
  moreover have "0 \<le> x" unfolding x using q by (simp add: d_sub_def)
  ultimately show ?thesis by simp
qed (use assms in \<open>auto simp: rsi_value_def split: if_splits\<close>)

lemma rsi_range:
  assumes "rsi cs period = Inr s" "Some x \<in> set s"
  shows "0 \<le> x \<and> x \<le> 100"
proof -
  have p: "1 \<le> period" using assms(1) by (simp add: rsi_def wilder_average_def split: if_splits)
  then have s: "s = both rsi_value (wilder_series (adjacent gain cs) period 1) (wilder_series (adjacent loss cs) period 1)"
    using assms(1) by (simp add: rsi_def wilder_average_def)
  obtain g l where gl: "Some g \<in> set (wilder_series (adjacent gain cs) period 1)"
      "Some l \<in> set (wilder_series (adjacent loss cs) period 1)" "rsi_value g l = Some x"
    using set_both assms(2) unfolding s by blast
  have "0 \<le> g" by (rule wilder_series_nonneg [OF p _ gl(1)]) (auto dest!: adjacent_values simp: gain_nonneg)
  moreover have "0 \<le> l" by (rule wilder_series_nonneg [OF p _ gl(2)]) (auto dest!: adjacent_values simp: loss_nonneg)
  ultimately show ?thesis using gl(3) by (rule rsi_value_range)
qed

subsection \<open>The lines of the directional index\<close>

lemma plus_dm_nonneg: "0 \<le> plus_dm p c" and minus_dm_nonneg: "0 \<le> minus_dm p c"
  by (simp_all add: plus_dm_def minus_dm_def Let_def)

lemma true_range_nonneg: "0 \<le> true_range p c"
  by (simp add: true_range_def d_abs_def le_max_iff_disj)

lemma adx_parts:
  assumes p: "1 \<le> period" and l: "adx cs period = Inr l"
  obtains P M where
    "al_plus_di l = both di_value (wilder_series (true_ranges cs) period 1) P"
    "al_minus_di l = both di_value (wilder_series (true_ranges cs) period 1) M"
    "length P = length cs" "length M = length cs"
    "\<And>v. Some v \<in> set P \<Longrightarrow> 0 \<le> v" "\<And>v. Some v \<in> set M \<Longrightarrow> 0 \<le> v"
    "dx_average (both dx_value (al_plus_di l) (al_minus_di l)) period = Inr (al_adx l)"
proof -
  let ?w = "\<lambda>f. wilder_series (adjacent f cs) period 1"
  define P where "P = map2 (\<lambda>p m. if p = None \<or> m = None then None else p) (?w plus_dm) (?w minus_dm)"
  define M where "M = map2 (\<lambda>p m. if p = None \<or> m = None then None else m) (?w plus_dm) (?w minus_dm)"
  define a where "a = both di_value (wilder_series (true_ranges cs) period 1) P"
  define b where "b = both di_value (wilder_series (true_ranges cs) period 1) M"
  have len: "length P = length cs" "length M = length cs"
    by (simp_all add: P_def M_def length_wilder_series)
  have dlen: "length (both dx_value a b) = length cs"
    by (simp add: a_def b_def len length_wilder_series true_ranges_def)
  have w: "wilder_average vs period 1 = Inr (wilder_series vs period 1)" for vs
    using p by (simp add: wilder_average_def)
  have whole: "adx cs period =
      bindE (dx_average (both dx_value a b) period)
        (\<lambda>line. Inr \<lparr>al_adx = line, al_plus_di = a, al_minus_di = b\<rparr>)"
    unfolding adx_def w dx_average_def dlen
    by (simp only: bindE.simps Let_def P_def [symmetric] M_def [symmetric] a_def [symmetric] b_def [symmetric])
  have wP: "Some v \<in> set (?w plus_dm) \<Longrightarrow> 0 \<le> v" and wM: "Some v \<in> set (?w minus_dm) \<Longrightarrow> 0 \<le> v" for v
    by (rule wilder_series_nonneg [OF p]; auto dest!: adjacent_values simp: plus_dm_nonneg minus_dm_nonneg)+
  have "Some v \<in> set P \<Longrightarrow> 0 \<le> v" for v
    using wP by (auto simp: P_def dest: set_zip_leftD split: if_splits)
  moreover have "Some v \<in> set M \<Longrightarrow> 0 \<le> v" for v
    using wM by (auto simp: M_def dest: set_zip_rightD split: if_splits)
  ultimately show ?thesis
    using l len that [of P M] unfolding whole a_def b_def by (auto simp: result_simps)
qed

lemma true_range_average_nonneg:
  "1 \<le> period \<Longrightarrow> Some v \<in> set (wilder_series (true_ranges cs) period 1) \<Longrightarrow> 0 \<le> v"
  unfolding true_ranges_def
  by (rule wilder_series_nonneg) (auto dest!: adjacent_values simp: true_range_nonneg)

lemma dx_value_range:
  assumes "0 \<le> a" "0 \<le> b" "dx_value a b = Some x"
  shows "0 \<le> x \<and> x \<le> 100"
proof -
  let ?s = "d_add a b"
  let ?d = "d_abs (d_sub a b)"
  have s: "?s \<noteq> 0" and x: "x = d_mul (d_quot ?d ?s) 100"
    using assms(3) by (auto simp: dx_value_def Let_def split: if_splits)
  have s0: "0 < ?s" using s assms(1,2) by (simp add: d_add_def order_less_le)
  have "\<bar>d_sub a b\<bar> \<le> ?s"
  proof -
    have "d_sub a b \<le> ?s" unfolding d_sub_def d_add_def using assms(1,2) by (intro ctx_round_mono) simp
    moreover have "d_sub b a \<le> ?s" unfolding d_sub_def d_add_def using assms(1,2) by (intro ctx_round_mono) simp
    moreover have "d_sub b a = - d_sub a b" by (simp add: d_sub_def flip: ctx_round_minus)
    ultimately show ?thesis by linarith
  qed
  then have "?d \<le> ?s" unfolding d_abs_def by (intro ctx_round_le dec28_d_add)
  then have "?d / ?s \<le> 1" using s0 by simp
  then have "d_quot ?d ?s \<le> 1"
    unfolding d_quot_def by (intro ctx_round_le) (use dec28_power [of 0] in simp_all)
  then have "x \<le> 100"
    unfolding x d_mul_def by (intro ctx_round_le) (use dec28_power [of 2] in simp_all)
  moreover have "0 \<le> x" using s0 by (simp add: x d_mul_def d_quot_def d_abs_def)
  ultimately show ?thesis by simp
qed

lemma di_value_nonneg: "0 \<le> tr \<Longrightarrow> 0 \<le> dm \<Longrightarrow> di_value tr dm = Some x \<Longrightarrow> 0 \<le> x"
  by (auto simp: di_value_def d_mul_def d_quot_def split: if_splits)

lemma dx_average_range:
  assumes p: "1 \<le> period" "period \<le> 1000" and r: "dx_average dx period = Inr s"
    and dx: "\<And>v. Some v \<in> set dx \<Longrightarrow> 0 \<le> v \<and> v \<le> 100" and x: "Some x \<in> set s"
  shows "0 \<le> x \<and> x \<le> 100"
proof (cases "first_defined dx")
  case None
  with r x show ?thesis by (auto simp: dx_average_def)
next
  case (Some start)
  with r p have s: "s = wilder_series dx period start"
    by (simp add: dx_average_def wilder_average_def)
  show ?thesis
    using wilder_series_nonneg [OF p(1) _ x [unfolded s]] wilder_series_percent [OF p _ x [unfolded s]] dx by blast
qed

lemma adx_range:
  assumes p: "1 \<le> period" "period \<le> 1000" and l: "adx cs period = Inr l"
  shows "(\<forall>x. Some x \<in> set (al_adx l) \<longrightarrow> 0 \<le> x \<and> x \<le> 100) \<and>
    (\<forall>x. Some x \<in> set (al_plus_di l) \<longrightarrow> 0 \<le> x) \<and> (\<forall>x. Some x \<in> set (al_minus_di l) \<longrightarrow> 0 \<le> x)"
  using p(1) l
proof (rule adx_parts)
  fix P M
  let ?tr = "wilder_series (true_ranges cs) period 1"
  assume d: "al_plus_di l = both di_value ?tr P" "al_minus_di l = both di_value ?tr M"
    and nn: "\<And>v. Some v \<in> set P \<Longrightarrow> 0 \<le> v" "\<And>v. Some v \<in> set M \<Longrightarrow> 0 \<le> v"
    and a: "dx_average (both dx_value (al_plus_di l) (al_minus_di l)) period = Inr (al_adx l)"
  have di: "0 \<le> x" if "Some x \<in> set (both di_value ?tr Q)" "\<And>v. Some v \<in> set Q \<Longrightarrow> 0 \<le> v" for x Q
    using set_both [OF that(1)] that(2) true_range_average_nonneg [OF p(1)] di_value_nonneg by blast
  have plus: "0 \<le> x" if "Some x \<in> set (al_plus_di l)" for x using di [of x P] that nn d by simp
  have minus: "0 \<le> x" if "Some x \<in> set (al_minus_di l)" for x using di [of x M] that nn d by simp
  have "0 \<le> v \<and> v \<le> 100" if "Some v \<in> set (both dx_value (al_plus_di l) (al_minus_di l))" for v
    using set_both [OF that] plus minus dx_value_range by blast
  from dx_average_range [OF p a this] plus minus show ?thesis by blast
qed

subsection \<open>The lines of one indicator\<close>

lemma first_defined_Some: "first_defined vs = Some s \<Longrightarrow> s < length vs \<and> vs ! s \<noteq> None"
  by (induction vs arbitrary: s rule: first_defined.induct) (auto split: option.splits)

lemma adx_lengths:
  assumes "1 \<le> period" "adx cs period = Inr l"
  shows "length (al_adx l) = length cs" "length (al_plus_di l) = length cs" "length (al_minus_di l) = length cs"
proof -
  obtain P M where d:
    "al_plus_di l = both di_value (wilder_series (true_ranges cs) period 1) P"
    "al_minus_di l = both di_value (wilder_series (true_ranges cs) period 1) M"
    "length P = length cs" "length M = length cs"
    "dx_average (both dx_value (al_plus_di l) (al_minus_di l)) period = Inr (al_adx l)"
    using assms by (rule adx_parts)
  show di: "length (al_plus_di l) = length cs" "length (al_minus_di l) = length cs"
    using d(3,4) by (simp_all add: d(1,2) length_wilder_series true_ranges_def)
  then show "length (al_adx l) = length cs"
    using d(5) assms(1)
    by (auto simp: dx_average_def wilder_average_def length_wilder_series
        dest!: sym [where t = "al_adx l"] split: option.splits)
qed

lemma adx_defined:
  assumes p: "1 \<le> period" and l: "adx cs period = Inr l" and i: "i < length cs" "al_adx l ! i \<noteq> None"
  shows "2 * period \<le> i + 1 \<and> al_plus_di l ! i \<noteq> None \<and> al_minus_di l ! i \<noteq> None"
proof -
  let ?tr = "wilder_series (true_ranges cs) period 1"
  obtain P M where d: "al_plus_di l = both di_value ?tr P" "length P = length cs"
    and a: "dx_average (both dx_value (al_plus_di l) (al_minus_di l)) period = Inr (al_adx l)"
    using p l by (rule adx_parts)
  let ?dx = "both dx_value (al_plus_di l) (al_minus_di l)"
  note len = adx_lengths [OF p l]
  obtain start where start: "first_defined ?dx = Some start"
    using a i by (cases "first_defined ?dx") (auto simp: dx_average_def len dest!: sym [where t = "al_adx l"])
  with a p have line: "al_adx l = wilder_series ?dx period start"
    by (simp add: dx_average_def wilder_average_def)
  have w: "start + period \<le> i + 1" "?dx ! i \<noteq> None"
    using wilder_series_defined [of period i ?dx start] p i by (simp_all add: line len)
  have both_i: "al_plus_di l ! i \<noteq> None \<and> al_minus_di l ! i \<noteq> None"
    using both_defined [of i "al_plus_di l" "al_minus_di l" dx_value] w(2) i(1) len by simp
  have s: "start < length cs" "?dx ! start \<noteq> None" using first_defined_Some [OF start] len by simp_all
  then have "al_plus_di l ! start \<noteq> None"
    using both_defined [of start "al_plus_di l" "al_minus_di l" dx_value] len by simp
  then have "?tr ! start \<noteq> None"
    using both_defined [of start ?tr P di_value] s(1) d
    by (simp add: length_wilder_series true_ranges_def)
  then have "1 + period \<le> start + 1"
    using wilder_series_defined [of period start "true_ranges cs" 1] p s(1) by (simp add: true_ranges_def)
  with w(1) both_i show ?thesis by simp
qed

lemma rsi_starts:
  assumes p: "1 \<le> period" and s: "rsi cs period = Inr s"
  shows "length s = length cs \<and> starts period s"
proof -
  let ?g = "wilder_series (adjacent gain cs) period 1"
  let ?l = "wilder_series (adjacent loss cs) period 1"
  have w: "starts period (wilder_series (adjacent f cs) period 1)" for f
    using starts_wilder [OF p starts_adjacent order_refl] by simp
  have "s = both rsi_value ?g ?l" using s p by (simp add: rsi_def wilder_average_def)
  moreover have "starts (max period period) (both rsi_value ?g ?l)"
    by (rule starts_both [OF w w]) (simp_all add: length_wilder_series rsi_value_def)
  ultimately show ?thesis by (simp add: length_wilder_series)
qed

lemma atr_starts: "1 \<le> period \<Longrightarrow> atr cs period = Inr s \<Longrightarrow> length s = length cs \<and> starts period s"
  using starts_wilder [OF _ starts_adjacent order_refl, of period true_range cs]
  by (auto simp: atr_def wilder_average_def true_ranges_def length_wilder_series)

lemma closes_length [simp]: "length (closes cs) = length cs"
  by (simp add: closes_def)

lemma ema_line_starts:
  "1 \<le> period \<Longrightarrow> ema (map Some (closes cs)) period = Inr s \<Longrightarrow>
   length s = length cs \<and> starts (period - 1) s"
  using starts_ema [OF _ starts_Some, of period "closes cs"] by (auto simp: ema_def length_ema_series)

lemma sma_line_starts:
  "1 \<le> period \<Longrightarrow> sma (map Some vs) period = Inr s \<Longrightarrow> length s = length vs \<and> starts (period - 1) s"
  using starts_sma [OF _ starts_Some, of period vs] by (auto simp: sma_def sma_series_def)

lemma difference_Some: "difference a b \<noteq> None"
  by (simp add: difference_def)

lemma macd_starts:
  assumes f: "1 \<le> fast" "fast \<le> slow" and g: "1 \<le> signal" and l: "macd cs fast slow signal = Inr l"
  shows "starts (slow - 1) (ml_macd l)" "starts (slow + signal - 2) (ml_signal l)"
    "starts (slow + signal - 2) (ml_histogram l)"
    "length (ml_macd l) = length cs" "length (ml_signal l) = length cs" "length (ml_histogram l) = length cs"
proof -
  let ?f = "ema_series (map Some (closes cs)) fast"
  let ?s = "ema_series (map Some (closes cs)) slow"
  let ?m = "both difference ?f ?s"
  let ?g = "ema_series ?m signal"
  have lines: "ml_macd l = ?m" "ml_signal l = ?g" "ml_histogram l = both difference ?m ?g"
    using l f g by (auto simp: macd_def ema_def Let_def)
  have "starts (max (0 + fast - 1) (0 + slow - 1)) ?m"
    by (rule starts_both [OF starts_ema starts_ema])
      (use f in \<open>simp_all add: starts_Some length_ema_series difference_Some\<close>)
  then have m: "starts (slow - 1) ?m" using f(2) by (simp add: max_def split: if_splits)
  have "starts (slow - 1 + signal - 1) ?g" by (rule starts_ema [OF g m])
  then have s: "starts (slow + signal - 2) ?g" using f g by (simp add: numeral_2_eq_2)
  have "starts (max (slow - 1) (slow + signal - 2)) (both difference ?m ?g)"
    by (rule starts_both [OF m s]) (simp_all add: length_ema_series difference_Some)
  then have h: "starts (slow + signal - 2) (both difference ?m ?g)"
    using f g by (simp add: max_def split: if_splits)
  show "starts (slow - 1) (ml_macd l)" "starts (slow + signal - 2) (ml_signal l)"
    "starts (slow + signal - 2) (ml_histogram l)"
    unfolding lines by (rule m s h)+
  show "length (ml_macd l) = length cs" "length (ml_signal l) = length cs" "length (ml_histogram l) = length cs"
    unfolding lines by (simp_all add: length_ema_series)
qed

lemma bands_start:
  assumes p: "1 \<le> period" and b: "bollinger_bands cs period deviations = Inr b"
  shows "starts (period - 1) (bn_upper b)" "starts (period - 1) (bn_middle b)" "starts (period - 1) (bn_lower b)"
    "length (bn_upper b) = length cs" "length (bn_middle b) = length cs" "length (bn_lower b) = length cs"
proof -
  obtain s where s: "sma (map Some (closes cs)) period = Inr s" using p by (auto simp: sma_def)
  have m: "length s = length cs" "starts (period - 1) s" using sma_line_starts [OF p s] by simp_all
  have lines: "bn_upper b = map (spread_at (closes cs) s period deviations d_add) [0..<length cs]"
      "bn_middle b = s" "bn_lower b = map (spread_at (closes cs) s period deviations d_sub) [0..<length cs]"
    using b s by (auto simp: bollinger_bands_def Let_def)
  have spread: "starts (period - 1) (map (spread_at (closes cs) s period deviations f) [0..<length cs])" for f
    unfolding starts_def
  proof (intro allI impI)
    fix i
    assume i: "i < length (map (spread_at (closes cs) s period deviations f) [0..<length cs])"
    then show "(map (spread_at (closes cs) s period deviations f) [0..<length cs] ! i \<noteq> None) = (period - 1 \<le> i)"
      using startsD [OF m(2), of i] m(1) by (cases "s ! i") (simp_all add: spread_at_def)
  qed
  show "starts (period - 1) (bn_upper b)" "starts (period - 1) (bn_middle b)" "starts (period - 1) (bn_lower b)"
    unfolding lines by (rule spread m(2))+
  show "length (bn_upper b) = length cs" "length (bn_middle b) = length cs" "length (bn_lower b) = length cs"
    unfolding lines by (simp_all add: m(1))
qed

subsection \<open>Prepared candles\<close>

lemma pairwise_sorted:
  "pairwise (\<lambda>a b. f a < (f b :: int)) xs \<Longrightarrow> sorted_wrt (\<lambda>a b. f a < f b) xs"
proof (induction "\<lambda>a b. f a < f b" xs rule: pairwise.induct)
  case (1 a b xs)
  then have "sorted_wrt (\<lambda>a b. f a < f b) (b # xs)" "f a < f b" by simp_all
  then show ?case by auto
qed simp_all

lemma pairwise_snoc: "pairwise p (xs @ [a, b]) = (pairwise p (xs @ [a]) \<and> p a b)"
proof (induction xs)
  case (Cons x xs)
  then show ?case by (cases xs) auto
qed simp

lemma pairwise_rev: "pairwise (\<lambda>a b. f b < (f a :: int)) xs \<Longrightarrow> pairwise (\<lambda>a b. f a < f b) (rev xs)"
proof (induction xs)
  case (Cons x xs)
  then show ?case by (cases xs) (simp_all add: pairwise_snoc)
qed simp

lemma drop_forming_prefix: "\<exists>rest. xs = drop_forming now xs @ rest"
proof -
  let ?p = "\<lambda>c. now < ca_close_time c"
  have "rev xs = takeWhile ?p (rev xs) @ dropWhile ?p (rev xs)" by simp
  then have "xs = drop_forming now xs @ rev (takeWhile ?p (rev xs))"
    unfolding drop_forming_def by (metis rev_append rev_rev_ident)
  then show ?thesis by blast
qed

lemma drop_forming_last: "drop_forming now xs \<noteq> [] \<Longrightarrow> ca_close_time (last (drop_forming now xs)) \<le> now"
  unfolding drop_forming_def using hd_dropWhile [of "\<lambda>c. now < ca_close_time c" "rev xs"]
  by (simp add: last_rev)

end
