(* ===== verification/StrategyLaws.thy ===== *)
theory StrategyLaws
  imports BacktestLaws WarmupLaws
begin

section \<open>The strategy on a prefix is the backtest's bias\<close>

text \<open>
  The backtest computes each indicator once over the whole history; the live path computes it on the bars
  so far through the catalogue. Both read the same values: the last value of a prefix is the value of the
  whole series there, a catalogue entry refuses exactly where its line has no value, and the lines of an
  entry are defined together.
\<close>

lemma map_of_keyed: "key \<in> set keys \<Longrightarrow> map_of (map (\<lambda>k. (k, f k)) keys) key = Some (f key)"
  by (induction keys) auto

lemma build_result_latest:
  assumes lines: "sp_compute spec cs p = Inr lines" and key: "key \<in> set (sp_value_keys spec)"
    and silent: "length cs \<le> sp_warmup spec p \<Longrightarrow> the (map_of lines key) ! (length cs - 1) = None"
    and together: "the (map_of lines key) ! (length cs - 1) \<noteq> None \<Longrightarrow>
      \<forall>k \<in> set (sp_value_keys spec). the (map_of lines k) ! (length cs - 1) \<noteq> None"
  shows "\<exists>r. build_result spec cs p limit = Inr r \<and> ir_indicator r = sp_key spec \<and>
    latest_of r key = the (map_of lines key) ! (length cs - 1)"
proof (cases "length cs \<le> sp_warmup spec p")
  case True
  then show ?thesis using silent by (simp add: build_result_def latest_of_def Let_def)
next
  case False
  let ?v = "values_at lines (sp_value_keys spec) (length cs - 1)"
  have v: "map_of ?v key = Some (the (map_of lines key) ! (length cs - 1))"
    unfolding values_at_def by (rule map_of_keyed [OF key])
  have ready: "None \<notin> snd ` set ?v \<longleftrightarrow> the (map_of lines key) ! (length cs - 1) \<noteq> None"
    using together key unfolding values_at_def by force
  show ?thesis
    using False v ready by (auto simp: build_result_def latest_of_def Let_def lines)
qed

lemma leg_params_ok:
  assumes "trend_params_valid p" "in_range 2 400 period"
  shows "\<exists>q. leg_params p period = Inr q \<and> ema_period q = period \<and> rsi_period q = tp_rsi_period p \<and>
    adx_period q = tp_adx_period p \<and> macd_fast q = tp_macd_fast p \<and> macd_slow q = tp_macd_slow p \<and>
    macd_signal q = tp_macd_signal p"
  using assms
  by (simp add: leg_params_def mk_params_def params_valid_def trend_params_valid_def default_params_def in_range_def)

lemma required_specs:
  "List.map_filter get_spec REQUIRED_INDICATORS = [spec_ema, spec_adx, spec_rsi, spec_macd]"
  "List.map_filter get_spec [''ema''] = [spec_ema]"
  by (simp_all add: REQUIRED_INDICATORS_def get_spec_def INDICATORS_def List.map_filter_simps)

lemma ema_latest:
  assumes "1 \<le> ema_period q" "cs \<noteq> []"
  shows "\<exists>r. build_result spec_ema cs q limit = Inr r \<and> ir_indicator r = ''ema'' \<and>
    latest_of r ''ema'' = ema_series (map Some (closes cs)) (ema_period q) ! (length cs - 1)"
proof -
  let ?s = "ema_series (map Some (closes cs)) (ema_period q)"
  have s: "ema (map Some (closes cs)) (ema_period q) = Inr ?s" using assms(1) by (rule ema_total)
  have st: "length ?s = length cs" "starts (ema_period q - 1) ?s"
    using ema_line_starts [OF assms(1) s] by simp_all
  have c: "sp_compute spec_ema cs q = Inr [(''ema'', ?s)]"
    by (simp add: spec_ema_def ema_indicator_def s one_line_def)
  have i: "length cs - 1 < length cs" using assms(2) by (cases cs) simp_all
  have "?s ! (length cs - 1) = None" if "length cs \<le> sp_warmup spec_ema q"
    using that startsD [OF st(2), of "length cs - 1"] st(1) i
    by (cases "?s ! (length cs - 1)") (auto simp: spec_ema_def)
  then show ?thesis
    using build_result_latest [OF c, of "''ema''" limit] by (auto simp: spec_ema_def)
qed

lemma rsi_latest:
  assumes p: "1 \<le> rsi_period q" "cs \<noteq> []" and s: "rsi cs (rsi_period q) = Inr s"
  shows "\<exists>r. build_result spec_rsi cs q limit = Inr r \<and> ir_indicator r = ''rsi'' \<and>
    latest_of r ''rsi'' = s ! (length cs - 1)"
proof -
  have st: "length s = length cs" "starts (rsi_period q) s" using rsi_starts [OF p(1) s] by simp_all
  have c: "sp_compute spec_rsi cs q = Inr [(''rsi'', s)]" by (simp add: spec_rsi_def s one_line_def)
  have i: "length cs - 1 < length cs" using p(2) by (cases cs) simp_all
  have "s ! (length cs - 1) = None" if "length cs \<le> sp_warmup spec_rsi q"
    using that startsD [OF st(2), of "length cs - 1"] st(1) i
    by (cases "s ! (length cs - 1)") (auto simp: spec_rsi_def)
  then show ?thesis
    using build_result_latest [OF c, of "''rsi''" limit] by (auto simp: spec_rsi_def)
qed

lemma adx_latest:
  assumes p: "1 \<le> adx_period q" "cs \<noteq> []" and l: "adx cs (adx_period q) = Inr l"
  shows "\<exists>r. build_result spec_adx cs q limit = Inr r \<and> ir_indicator r = ''adx'' \<and>
    latest_of r ''adx'' = al_adx l ! (length cs - 1)"
proof -
  have c: "sp_compute spec_adx cs q =
      Inr [(''adx'', al_adx l), (''plus_di'', al_plus_di l), (''minus_di'', al_minus_di l)]"
    by (simp add: spec_adx_def l)
  have i: "length cs - 1 < length cs" using p(2) by (cases cs) simp_all
  note d = adx_defined [OF p(1) l i]
  have "al_adx l ! (length cs - 1) = None" if "length cs \<le> sp_warmup spec_adx q"
    using that d i p(1) by (cases "al_adx l ! (length cs - 1)") (auto simp: spec_adx_def)
  then show ?thesis
    using build_result_latest [OF c, of "''adx''" limit] d by (auto simp: spec_adx_def)
qed

lemma macd_latest:
  assumes p: "1 \<le> macd_fast q" "macd_fast q \<le> macd_slow q" "1 \<le> macd_signal q" "cs \<noteq> []"
    and l: "macd cs (macd_fast q) (macd_slow q) (macd_signal q) = Inr l"
  shows "\<exists>r. build_result spec_macd cs q limit = Inr r \<and> ir_indicator r = ''macd'' \<and>
    latest_of r ''histogram'' = ml_histogram l ! (length cs - 1)"
proof -
  note st = macd_starts [OF p(1-3) l]
  have c: "sp_compute spec_macd cs q =
      Inr [(''macd'', ml_macd l), (''signal'', ml_signal l), (''histogram'', ml_histogram l)]"
    by (simp add: spec_macd_def l)
  have i: "length cs - 1 < length cs" using p(4) by (cases cs) simp_all
  have m: "(ml_macd l ! (length cs - 1) \<noteq> None) = (macd_slow q - 1 \<le> length cs - 1)"
      "(ml_signal l ! (length cs - 1) \<noteq> None) = (macd_slow q + macd_signal q - 2 \<le> length cs - 1)"
      "(ml_histogram l ! (length cs - 1) \<noteq> None) = (macd_slow q + macd_signal q - 2 \<le> length cs - 1)"
    using startsD [OF st(1)] startsD [OF st(2)] startsD [OF st(3)] st(4-6) i by simp_all
  have silent: "ml_histogram l ! (length cs - 1) = None" if "length cs \<le> sp_warmup spec_macd q"
    using that m(3) i by (cases "ml_histogram l ! (length cs - 1)") (auto simp: spec_macd_def)
  have "ml_macd l ! (length cs - 1) \<noteq> None \<and> ml_signal l ! (length cs - 1) \<noteq> None"
    if "ml_histogram l ! (length cs - 1) \<noteq> None"
    using that m p(1-3) by linarith
  then show ?thesis
    using build_result_latest [OF c, of "''histogram''" limit] silent by (auto simp: spec_macd_def)
qed

lemma compute_indicator_values_last:
  assumes p: "trend_params_valid p" and cs: "cs \<noteq> []"
    and lines: "adx cs (tp_adx_period p) = Inr trend" "rsi cs (tp_rsi_period p) = Inr momentum"
      "macd cs (tp_macd_fast p) (tp_macd_slow p) (tp_macd_signal p) = Inr m"
  shows "compute_indicator_values cs p =
    Inr (all_or_nothing
      (ema_series (map Some (closes cs)) (tp_ema_fast p) ! (length cs - 1))
      (ema_series (map Some (closes cs)) (tp_ema_slow p) ! (length cs - 1))
      (al_adx trend ! (length cs - 1)) (momentum ! (length cs - 1)) (ml_histogram m ! (length cs - 1)))"
proof -
  note one = trend_params_periods [OF p]
  have order: "tp_macd_fast p \<le> tp_macd_slow p" using p by (simp add: trend_params_valid_def)
  obtain q where q: "leg_params p (tp_ema_fast p) = Inr q" "ema_period q = tp_ema_fast p"
      "rsi_period q = tp_rsi_period p" "adx_period q = tp_adx_period p" "macd_fast q = tp_macd_fast p"
      "macd_slow q = tp_macd_slow p" "macd_signal q = tp_macd_signal p"
    using leg_params_ok [OF p, of "tp_ema_fast p"] p by (auto simp: trend_params_valid_def in_range_def)
  obtain q' where q': "leg_params p (tp_ema_slow p) = Inr q'" "ema_period q' = tp_ema_slow p"
    using leg_params_ok [OF p, of "tp_ema_slow p"] p by (auto simp: trend_params_valid_def in_range_def)
  obtain a b d e f where r:
    "build_result spec_ema cs q 0 = Inr a" "ir_indicator a = ''ema''"
    "latest_of a ''ema'' = ema_series (map Some (closes cs)) (tp_ema_fast p) ! (length cs - 1)"
    "build_result spec_adx cs q 0 = Inr b" "ir_indicator b = ''adx''"
    "latest_of b ''adx'' = al_adx trend ! (length cs - 1)"
    "build_result spec_rsi cs q 0 = Inr d" "ir_indicator d = ''rsi''"
    "latest_of d ''rsi'' = momentum ! (length cs - 1)"
    "build_result spec_macd cs q 0 = Inr e" "ir_indicator e = ''macd''"
    "latest_of e ''histogram'' = ml_histogram m ! (length cs - 1)"
    "build_result spec_ema cs q' 0 = Inr f"
    "latest_of f ''ema'' = ema_series (map Some (closes cs)) (tp_ema_slow p) ! (length cs - 1)"
    using ema_latest [of q cs 0] ema_latest [of q' cs 0] adx_latest [of q cs trend 0]
      rsi_latest [of q cs momentum 0] macd_latest [of q cs m 0] one order cs lines
    unfolding q q' by metis
  have fast: "calculate_indicators cs REQUIRED_INDICATORS q 0 = Inr [a, b, d, e]"
    and slow: "calculate_indicators cs [''ema''] q' 0 = Inr [f]"
    unfolding calculate_indicators_def required_specs by (simp_all add: r MAX_SERIES_LIMIT_def)
  show ?thesis
    unfolding compute_indicator_values_def required_indicator_params_def q(1) q'(1)
    by (simp add: fast slow by_key_def r)
qed

text \<open>The result of a prefix is the backtest's bias at its last bar.\<close>

lemma bias_of_prefix:
  assumes p: "trend_params_valid p" and bs: "bias_series cs p = Inr bs" and i: "i < length cs"
  shows "\<exists>v. compute_indicator_values (take (i + 1) cs) p = Inr v \<and>
    bs ! i = map_option (\<lambda>v. case evaluate_conditions v p of (long, short, bias) \<Rightarrow> bias) v"
proof -
  let ?ds = "take (i + 1) cs"
  have len: "length ?ds = i + 1" "?ds \<noteq> []" using i by auto
  note one = trend_params_periods [OF p]
  obtain trend where trend: "adx ?ds (tp_adx_period p) = Inr trend" using adx_total [OF one(4)] by blast
  obtain m where m: "macd ?ds (tp_macd_fast p) (tp_macd_slow p) (tp_macd_signal p) = Inr m"
    using macd_total [OF one(5-7)] by blast
  obtain momentum where momentum: "rsi ?ds (tp_rsi_period p) = Inr momentum" using rsi_total [OF one(3)] by blast
  have "bias_series ?ds p = Inr (take (i + 1) bs)" by (simp add: bias_series_take bs)
  then have "take (i + 1) bs = map (bias_at p (ema_series (map Some (closes ?ds)) (tp_ema_fast p))
      (ema_series (map Some (closes ?ds)) (tp_ema_slow p)) (al_adx trend) momentum (ml_histogram m)) [0..<i + 1]"
    unfolding bias_series_def ema_total [OF one(1)] ema_total [OF one(2)] trend momentum m len by simp
  from arg_cong [OF this, of "\<lambda>xs. xs ! i"] have "bs ! i =
      bias_at p (ema_series (map Some (closes ?ds)) (tp_ema_fast p))
        (ema_series (map Some (closes ?ds)) (tp_ema_slow p)) (al_adx trend) momentum (ml_histogram m) i"
    by (simp add: nth_append)
  then show ?thesis
    using compute_indicator_values_last [OF p len(2) trend momentum m] len(1) by (simp add: bias_at_def)
qed

end
