(* ===== verification/BacktestExample.thy ===== *)
theory BacktestExample
  imports StrategyLaws
begin

section \<open>A complete run, evaluated\<close>

text \<open>
  Five hourly bars on which the shortest admissible parameters warm up: the fourth bar turns the bias
  long, the fifth opens the position at its open, and the data ends. Every series, every step of the
  loop, the closing trade and the metrics are computed by the simplifier; the properties of the
  backtest are witnessed on this run.
\<close>

definition bar_of :: "int \<Rightarrow> rat \<Rightarrow> rat \<Rightarrow> rat \<Rightarrow> rat \<Rightarrow> candle" where
  "bar_of t price high low final =
     \<lparr>ca_open_time = t, ca_close_time = t + 1, ca_open = price, ca_high = high, ca_low = low,
      ca_close = final, ca_volume = 1, ca_quote_volume = None, ca_trade_count = None\<rparr>"

lemma bar_of_fields [simp]:
  "ca_open_time (bar_of t p h l f) = t" "ca_open (bar_of t p h l f) = p" "ca_high (bar_of t p h l f) = h"
  "ca_low (bar_of t p h l f) = l" "ca_close (bar_of t p h l f) = f"
  by (simp_all add: bar_of_def)

definition example_bars :: "candle list" where
  "example_bars =
     [bar_of 0 100 101 99 100, bar_of 1 100 101 97 98, bar_of 2 98 100 97 99, bar_of 3 99 101 98 100,
      bar_of 4 100 102 99 101]"

definition short_params :: trend_params where
  "short_params = default_trend_params\<lparr>tp_ema_fast := 2, tp_ema_slow := 3, tp_rsi_period := 2,
     tp_adx_period := 2, tp_macd_fast := 2, tp_macd_slow := 3, tp_macd_signal := 2\<rparr>"

lemmas ind_eval = wilder_average_def wilder_series_def window_def mean_of_def d_quot_def both_def dec_eval

lemma example_closes: "closes example_bars = [100, 98, 99, 100, 101]" by (simp add: example_bars_def closes_def)
lemma example_adjacent: "adjacent f example_bars =
 [None, Some (f (bar_of 0 100 101 99 100) (bar_of 1 100 101 97 98)),
 Some (f (bar_of 1 100 101 97 98) (bar_of 2 98 100 97 99)),
 Some (f (bar_of 2 98 100 97 99) (bar_of 3 99 101 98 100)),
 Some (f (bar_of 3 99 101 98 100) (bar_of 4 100 102 99 101))]"
  by (simp add: example_bars_def adjacent_def upt_rec)

lemma example_ema:
  "ema_series (map Some (closes example_bars)) 2 =
     [None, Some 99, Some 99, Some (9966666666666666666666666667 / 10 ^ 26), Some (1005555555555555555555555556 / 10 ^ 25)]"
  "ema_series (map Some (closes example_bars)) 3 = [None, None, Some 99, Some (995 / 10), Some (10025 / 100)]"
  by (simp_all add: example_closes ema_series_def ind_eval)

lemma example_rsi:
  "rsi example_bars 2 = Inr [None, None, Some (3333333333333333333333333333 / 10 ^ 26), Some 60, Some (7777777777777777777777777778 / 10 ^ 26)]"
  by (simp add: rsi_def example_adjacent gain_def loss_def rsi_value_def ind_eval)

lemma example_adx: "\<exists>l. adx example_bars 2 = Inr l \<and> al_adx l = [None, None, None, Some 50, Some 50]"
  by (simp add: adx_def true_ranges_def example_adjacent plus_dm_def minus_dm_def true_range_def di_value_def dx_value_def ind_eval)

lemma example_difference:
  "both difference (ema_series (map Some (closes example_bars)) 2) (ema_series (map Some (closes example_bars)) 3) =
    [None, None, Some 0, Some (16666666666666666666666667 / 100000000000000000000000000), Some (763888888888888888888889 / 2500000000000000000000000)]"
  by (simp add: example_ema difference_def both_def dec_eval)

lemma example_signal:
  "ema_series [None, None, Some 0, Some (16666666666666666666666667 / 100000000000000000000000000), Some (763888888888888888888889 / 2500000000000000000000000)] 2 =
    [None, None, None, Some (83333333333333333333333335 / 10 ^ 27), Some (2314814814814814814814815116 / 10 ^ 28)]"
  by (simp add: ema_series_def ind_eval)

lemma example_macd: "\<exists>l. macd example_bars 2 3 2 = Inr l \<and>
    ml_histogram l = [None, None, None, Some (83333333333333333333333335 / 10 ^ 27), Some (740740740740740740740740884 / 10 ^ 28)]"
  unfolding macd_def Let_def ema_def by (simp add: example_difference example_signal) (simp add: both_def difference_def dec_eval)

lemma example_biases:
  "bias_series example_bars short_params = Inr [None, None, None, Some LONG_BIAS, Some NEUTRAL]"
proof -
  obtain l m where "adx example_bars 2 = Inr l" "al_adx l = [None, None, None, Some 50, Some 50]"
    "macd example_bars 2 3 2 = Inr m"
    "ml_histogram m = [None, None, None, Some (83333333333333333333333335 / 10 ^ 27), Some (740740740740740740740740884 / 10 ^ 28)]"
    using example_adx example_macd by blast
  then show ?thesis
    by (simp add: bias_series_def short_params_def default_trend_params_def ema_def example_ema example_rsi)
      (simp add: example_bars_def upt_rec bias_at_def all_or_nothing_def evaluate_conditions_def long_conditions_def short_conditions_def)
qed

definition sample_config :: backtest_config where
  "sample_config = default_backtest_config\<lparr>bc_slippage_bps := 0\<rparr>"

definition quiet :: "position_side option \<Rightarrow> equity_point list \<Rightarrow> sim" where
  "quiet pending curve = (initial_sim sample_config)\<lparr>sm_pending := pending, sm_curve := curve\<rparr>"

definition unmoved :: "timestamp \<Rightarrow> equity_point" where
  "unmoved t = \<lparr>ep_time = t, ep_equity = 100, ep_drawdown_percent = 0, ep_in_position = False\<rparr>"

lemma quiet_bar:
  "bar_step sample_config w n bs i bar (quiet None curve) =
     Inr (schedule_next sample_config w n bs i (quiet None (curve @ [unmoved (ca_open_time bar)])))"
  by (simp add: bar_step_def execute_pending_def manage_position_def mark_equity_def quiet_def initial_sim_def
    sample_config_def default_backtest_config_def q_money_def q_pct_def mk_equity_point_def unmoved_def d_quot_def dec_eval)

lemma quiet_wait: "schedule_next sample_config 3 5 bs i (quiet None curve) =
   (if i = 3 \<and> bs ! 3 = Some LONG_BIAS then quiet (Some LONG) curve else quiet None curve)"
 if "i < 3 \<or> i = 3 \<and> bs ! 3 = Some LONG_BIAS"
 using that by (auto simp: schedule_next_def desired_side_def held_side_def quiet_def initial_sim_def sample_config_def default_backtest_config_def)

definition example_position :: sim_position where
  "example_position =
     \<lparr>op_side = LONG, op_entry_time = 4, op_entry_index = 4, op_entry_price = 100, op_quantity = 1 / 10,
      op_notional = 10, op_margin = 10, op_entry_fee = 1 / 200, op_stop_price = Some 98, op_target_price = Some 104,
      op_liquidation_price = None, op_trail_extreme = 102, op_best_price = 102, op_worst_price = 99\<rparr>"

lemma example_amounts:
  "d_quot 0 10000 = 0" "d_add 1 0 = 1" "d_mul 100 1 = 100" "d_mul 100 10 = 1000" "d_quot 1000 100 = 10"
  "d_mul 10 1 = 10" "d_quot 10 100 = 1 / 10" "d_quot 5 10000 = 1 / 2000" "d_mul 10 (1 / 2000) = 1 / 200"
  "d_quot 2 100 = 1 / 50" "d_sub 1 (1 / 50) = 49 / 50" "d_mul 100 (49 / 50) = 98" "d_quot 4 100 = 1 / 25"
  "d_add 1 (1 / 25) = 26 / 25" "d_mul 100 (26 / 25) = 104" "d_sub 101 100 = 1" "d_mul (1 / 10) 1 = 1 / 10"
  "d_sub (1 / 10) (1 / 200) = 19 / 200" "d_neg 10 = -10" "d_add 100 (19 / 200) = 20019 / 200"
  "d_sub (20019 / 200) (20019 / 200) = 0" "d_quot 0 (20019 / 200) = 0" "d_mul 0 100 = 0"
  by (simp_all add: d_quot_def dec_eval)

lemma entered_bar: "execute_pending sample_config 4 (bar_of 4 100 102 99 101) (quiet (Some LONG) curve) =
   Inr ((quiet None curve)\<lparr>sm_position := Some (example_position\<lparr>op_trail_extreme := 100, op_best_price := 100, op_worst_price := 100\<rparr>)\<rparr>)"
  by (simp add: execute_pending_def quiet_def initial_sim_def sample_config_def default_backtest_config_def
    open_position_at_def apply_slippage_def entered_def fee_rate_def fraction_def offset_price_def example_position_def example_amounts Let_def)

lemma managed_bar: "manage_position sample_config 4 (bar_of 4 100 102 99 101)
   ((quiet None curve)\<lparr>sm_position := Some (example_position\<lparr>op_trail_extreme := 100, op_best_price := 100, op_worst_price := 100\<rparr>)\<rparr>) =
   Inr ((quiet None curve)\<lparr>sm_position := Some example_position\<rparr>)"
  by (simp add: manage_position_def example_position_def seen_def trailed_def resolve_intrabar_exit_def adverse_exit_def
   adverse_list_def level_of_def trail_level_def fraction_def sample_config_def default_backtest_config_def Let_def)

lemma marked_bar: "mark_equity (bar_of 4 100 102 99 101) ((quiet None curve)\<lparr>sm_position := Some example_position\<rparr>) =
   Inr ((quiet None (curve @ [\<lparr>ep_time = 4, ep_equity = 20019 / 200, ep_drawdown_percent = 0, ep_in_position = True\<rparr>]))
     \<lparr>sm_position := Some example_position, sm_peak := 20019 / 200, sm_bars_in_position := 1\<rparr>)"
  by (simp add: mark_equity_def quiet_def initial_sim_def unrealised_def example_position_def sample_config_def default_backtest_config_def mk_equity_point_def example_amounts Let_def q_money_def q_pct_def)(simp add: quantize_def Let_def dec_eval)

definition example_curve :: "equity_point list" where
  "example_curve =
     [unmoved 0, unmoved 1, unmoved 2, unmoved 3,
      \<lparr>ep_time = 4, ep_equity = 20019 / 200, ep_drawdown_percent = 0, ep_in_position = True\<rparr>]"

definition example_end :: sim where
  "example_end =
     (quiet None example_curve)
       \<lparr>sm_position := Some example_position, sm_peak := 20019 / 200, sm_bars_in_position := 1\<rparr>"

lemma example_replay: "replay_history example_bars sample_config short_params = Inr example_end"
proof -
  let ?bs = "[None, None, None, Some LONG_BIAS, Some NEUTRAL]"
  have warm: "warmup_bars short_params = 3"
    by (simp add: warmup_bars_def short_params_def default_trend_params_def)
  have last_bar: "bar_step sample_config 3 5 ?bs 4 (bar_of 4 100 102 99 101)
      (quiet (Some LONG) [unmoved 0, unmoved 1, unmoved 2, unmoved 3]) = Inr example_end"
    unfolding bar_step_def entered_bar bindE.simps managed_bar marked_bar
    by (simp add: schedule_next_def example_end_def example_curve_def)
  have start: "initial_sim sample_config = quiet None []"
    by (simp add: quiet_def initial_sim_def)
  have four: "Suc (Suc (Suc (Suc 0))) = 4" by simp
  have len: "length example_bars = 5" by (simp add: example_bars_def)
  show ?thesis
    unfolding replay_history_def example_biases bindE.simps warm start len
    by (simp add: example_bars_def quiet_bar quiet_wait) (simp add: four last_bar)
qed

definition example_trade :: bt_trade where
  "example_trade =
     \<lparr>tr_side = LONG, tr_entry_time = 4, tr_exit_time = 4, tr_entry_price = 100, tr_exit_price = 101,
      tr_quantity = 1 / 10, tr_notional = 10, tr_margin = 10, tr_leverage = 1, tr_exit_reason = X_END_OF_DATA,
      tr_bars_held = 0, tr_gross_pnl = 1 / 10, tr_fees = 201 / 20000, tr_net_pnl = 1799 / 20000,
      tr_return_percent = 8995 / 10000, tr_equity_after = 100 + 1799 / 20000, tr_max_adverse = 1,
      tr_max_favourable = 2\<rparr>"

lemma example_fields:
  "op_side example_position = LONG" "op_entry_time example_position = 4" "op_entry_index example_position = 4"
  "op_entry_price example_position = 100" "op_quantity example_position = 1 / 10"
  "op_notional example_position = 10" "op_margin example_position = 10" "op_entry_fee example_position = 1 / 200"
  "op_best_price example_position = 102" "op_worst_price example_position = 99"
  "bc_slippage_bps sample_config = 0" "bc_fee_bps sample_config = 5" "bc_leverage sample_config = 1"
  "bc_starting_balance sample_config = 100"
  by (simp_all add: example_position_def sample_config_def default_backtest_config_def)

lemma exit_amounts:
  "d_mul 101 1 = 101" "d_sub 1 0 = 1" "d_mul (1 / 10) 101 = 101 / 10" "d_mul (101 / 10) (1 / 2000) = 101 / 20000"
  "d_add (1 / 200) (101 / 20000) = 201 / 20000" "d_sub (1 / 10) (201 / 20000) = 1799 / 20000"
  "d_add 100 (1799 / 20000) = 2001799 / 20000" "d_sub 100 99 = 1" "d_sub 102 100 = 2"
  "d_div 1 100 = Inr (1 / 100)" "d_div 2 100 = Inr (1 / 50)" "d_mul (1 / 100) 100 = 1" "d_mul (1 / 50) 100 = 2"
  "d_div (1799 / 20000) 10 = Inr (1799 / 200000)" "d_mul (1799 / 200000) 100 = 1799 / 2000"
  by (simp_all add: dec_eval)

lemma exit_quantized:
  "q_money 100 = Inr 100" "q_money 101 = Inr 101" "q_money (1 / 10) = Inr (1 / 10)" "q_money 10 = Inr 10"
  "q_money (201 / 20000) = Inr (201 / 20000)" "q_money (1799 / 20000) = Inr (1799 / 20000)"
  "q_pct (1799 / 2000) = Inr (1799 / 2000)" "q_money (2001799 / 20000) = Inr (2001799 / 20000)"
  "q_pct 1 = Inr 1" "q_pct 2 = Inr 2"
  by (simp_all add: q_money_def q_pct_def dec_eval)

lemma sample_close:
  "close_sim_position sample_config example_position 101 X_END_OF_DATA 4 4 100 =
   Inr (2001799 / 20000, example_trade)"
proof -
  have fill: "exit_fill sample_config example_position 101 = 101"
    by (simp add: exit_fill_def apply_slippage_def example_fields example_amounts exit_amounts)
  have gross: "gross_of example_position 101 = 1 / 10"
    by (simp add: gross_of_def example_fields example_amounts)
  have fees: "fees_of sample_config example_position 101 = 201 / 20000"
    by (simp add: fees_of_def fee_rate_def example_fields example_amounts exit_amounts)
  have net: "net_of sample_config example_position 101 = 1799 / 20000"
    by (simp add: net_of_def gross fees exit_amounts example_fields example_amounts)
  show ?thesis
    unfolding close_sim_position_def Let_def fill gross fees net
    by (simp add: example_fields excursion_def exit_amounts exit_quantized)
      (simp add: example_trade_def)
qed

lemma example_finish:
  "close_at_end sample_config example_bars example_end =
   Inr (example_end\<lparr>sm_equity := 2001799 / 20000, sm_trades := [example_trade], sm_position := None\<rparr>, 1)"
proof -
  have e: "sm_equity example_end = 100" "sm_position example_end = Some example_position" "sm_trades example_end = []"
    by (simp_all add: example_end_def quiet_def initial_sim_def example_fields)
  have l: "ca_close (last example_bars) = 101" "ca_open_time (last example_bars) = 4" "length example_bars = 5"
    by (simp_all add: example_bars_def)
  show ?thesis unfolding close_at_end_def exit_at_def e l by (simp add: e sample_close)
qed

lemma example_roots:
  "d_sqrt (1083 / 6400000000) = 4113620667976083572127685061 / 10 ^ 31"
  "d_sqrt 8760 = 9359487165438072227155412351 / 10 ^ 26"
proof -
  have "d_sqrt (1083 / 6400000000) = ctx_round ((of_nat 4113620667976083572127685061076 + 1 / 2) * ten (- (30 - (-7) div 2)))"
    by (rule d_sqrt_eval [where n = 16921875000000000000000000000000000000000000000000000000000000]) (simp_all add: dec_eval)
  also have "\<dots> = 4113620667976083572127685061 / 10 ^ 31" by (simp add: dec_eval)
  finally show "d_sqrt (1083 / 6400000000) = 4113620667976083572127685061 / 10 ^ 31" .
  have "d_sqrt 8760 = ctx_round ((of_nat 9359487165438072227155412351259 + 1 / 2) * ten (- (30 - 3 div 2)))"
    by (rule d_sqrt_eval [where n = 87600000000000000000000000000000000000000000000000000000000000]) (simp_all add: dec_eval)
  also have "\<dots> = 9359487165438072227155412351 / 10 ^ 26" by (simp add: dec_eval)
  finally show "d_sqrt 8760 = 9359487165438072227155412351 / 10 ^ 26" .
qed

lemma example_squares:
  "d_square (- (19 / 80000)) = 361 / 6400000000" "d_square (57 / 80000) = 3249 / 6400000000"
proof -
  have r: "round_digits 31 (361 / 6400000000) = 361 / 6400000000"
      "round_digits 31 (3249 / 6400000000) = 3249 / 6400000000"
    by (simp_all add: round_digits_def dec_eval)
  have c: "ctx_round (361 / 6400000000) = 361 / 6400000000" "ctx_round (3249 / 6400000000) = 3249 / 6400000000"
    by (simp_all add: dec_eval)
  have s: "- (19 / 80000) * - (19 / 80000) = (361 / 6400000000 :: rat)" "57 / 80000 * (57 / 80000) = (3249 / 6400000000 :: rat)"
    by simp_all
  have p: "ctx_prec + 3 = 31" by (simp add: ctx_prec_def)
  show "d_square (- (19 / 80000)) = 361 / 6400000000" "d_square (57 / 80000) = 3249 / 6400000000"
    unfolding d_square_def s p r c by (rule refl)+
qed

lemma example_sharpe: "sharpe_like example_curve H1 = Some (5403702434442518412349366743 / 10 ^ 26)"
proof -
  have returns: "bar_returns (map ep_equity example_curve) = [0, 0, 0, 19 / 20000]"
    by (simp add: example_curve_def unmoved_def d_quot_def dec_eval)
  have mean: "d_mean [0, 0, 0, 19 / 20000] = 19 / 80000"
    by (simp add: d_mean_def d_quot_def dec_eval)
  have deviations: "d_sub 0 (19 / 80000) = - (19 / 80000)" "d_sub (19 / 20000) (19 / 80000) = 57 / 80000"
    by (simp_all add: dec_eval)
  have squares: "map (\<lambda>v. d_square (d_sub v (19 / 80000))) [0, 0, 0, 19 / 20000] =
      [361 / 6400000000, 361 / 6400000000, 361 / 6400000000, 3249 / 6400000000]"
    by (simp add: deviations example_squares)
  have variance: "d_mean [361 / 6400000000, 361 / 6400000000, 361 / 6400000000, 3249 / 6400000000] = 1083 / 6400000000"
    by (simp add: d_mean_def d_quot_def dec_eval)
  have year: "d_quot SECONDS_PER_YEAR (of_int (timeframe_seconds H1)) = 8760"
    by (simp add: SECONDS_PER_YEAR_def d_quot_def dec_eval)
  have curve: "length example_curve = 5" "list_ex (\<lambda>pt. ep_equity pt \<le> 0) (butlast example_curve) = False"
    by (simp_all add: example_curve_def unmoved_def)
  have "d_mul (d_quot (19 / 80000) (4113620667976083572127685061 / 10 ^ 31)) (9359487165438072227155412351 / 10 ^ 26) =
      5403702434442518412349366743 / 10 ^ 26"
    by (simp add: d_quot_def dec_eval)
  then show ?thesis
    unfolding sharpe_like_def Let_def curve returns mean squares variance year example_roots by simp
qed

lemma metric_amounts:
  "d_sum [1799 / 20000] = 1799 / 20000" "d_neg 0 = 0"
  "d_sum [201 / 20000] = 201 / 20000" "d_sub (20019 / 200) 100 = 19 / 200" "d_div (19 / 200) 100 = Inr (19 / 20000)"
  "d_mul (19 / 20000) 100 = 19 / 200" "d_quot (1799 / 20000) 1 = 1799 / 20000"
  "d_sub 100 100 = 0" "d_sub (20019 / 200) (20019 / 200) = 0"
  by (simp_all add: d_quot_def dec_eval)

lemma metric_shares: "ratio_percent 1 1 = 100" "ratio_percent 1 5 = 20"
  by (simp_all add: ratio_percent_def d_quot_def dec_eval)

lemma metric_quantized:
  "q_pct 100 = Inr 100" "q_money 0 = Inr 0" "q_pct (19 / 200) = Inr (19 / 200)" "q_pct 0 = Inr 0"
  "q_pct (5403702434442518412349366743 / 100000000000000000000000000) = Inr (540370 / 10000)" "q_pct 20 = Inr 20"
  "q_money (20019 / 200) = Inr (20019 / 200)"
  by (simp_all add: q_money_def q_pct_def dec_eval)

lemma example_average_r: "average_r [example_trade] sample_config = Inr (Some (4498 / 10000))"
proof -
  have stop: "bc_stop_loss_percent sample_config = Some 2"
    by (simp add: sample_config_def default_backtest_config_def)
  have risk: "planned_risk 2 example_trade = 1 / 5"
    by (simp add: planned_risk_def example_trade_def d_quot_def dec_eval)
  have r: "d_mean [d_quot (tr_net_pnl example_trade) (1 / 5)] = 1799 / 4000"
    by (simp add: example_trade_def d_mean_def d_quot_def dec_eval)
  moreover have "q_pct (1799 / 4000) = Inr (4498 / 10000)" by (simp add: q_pct_def dec_eval)
  ultimately show ?thesis unfolding average_r_def stop by (simp add: risk r del: divide_eq_eq_numeral1)
qed

lemma example_metrics:
  "\<exists>m. compute_metrics [example_trade] example_curve sample_config H1 1 1 = Inr m \<and>
     bm_ending_balance m = 20019 / 200"
proof -
  have t: "tr_net_pnl example_trade = 1799 / 20000" "tr_fees example_trade = 201 / 20000"
    by (simp_all add: example_trade_def)
  have c: "example_curve \<noteq> []" "length example_curve = 5" "ep_equity (last example_curve) = 20019 / 200"
    "map ep_equity example_curve = [100, 100, 100, 100, 20019 / 200]"
    "map ep_drawdown_percent example_curve = [0, 0, 0, 0, 0]"
    by (simp_all add: example_curve_def unmoved_def)
  show ?thesis
    unfolding compute_metrics_def Let_def c example_average_r example_sharpe
    by (simp add: t c example_fields d_sum_def [of "[]"] metric_amounts metric_shares [unfolded One_nat_def]
        metric_quantized exit_quantized mk_metrics_def metrics_valid_def)
qed

lemma example_run:
  "\<exists>r m. run_backtest example_bars ''BTCUSDT'' H1 sample_config short_params None = Inr r \<and>
     br_metrics r = Some m \<and> br_trades r = [example_trade] \<and> br_equity_curve r = example_curve \<and>
     bm_ending_balance m = 20019 / 200"
proof -
  obtain m where m: "compute_metrics [example_trade] example_curve sample_config H1 1 1 = Inr m"
      "bm_ending_balance m = 20019 / 200"
    using example_metrics by blast
  have long: "\<not> length example_bars < warmup_bars short_params + 2"
    by (simp add: example_bars_def warmup_bars_def short_params_def default_trend_params_def)
  have fields: "sm_curve example_end = example_curve" "sm_bars_in_position example_end = 1"
    by (simp_all add: example_end_def quiet_def)
  have "downsample example_curve = example_curve"
    by (simp add: downsample_def example_curve_def MAX_EQUITY_POINTS_def)
  then show ?thesis
    using long m by (simp add: run_backtest_def example_replay example_finish fields)
qed

end
