(* ===== verification/BacktestProperties.thy ===== *)
theory BacktestProperties
  imports BacktestExample
begin

section \<open>What the analysis and the backtest guarantee\<close>

text \<open>
  The claims of the analysis layer: no value looks ahead, the oscillators stay in their range, a line
  starts where its warm-up says; the backtest decides what the live evaluation would have decided, a
  longer history changes nothing already simulated, the account is never negative, the adverse level is
  assumed to be reached first, and only an overflow ends a run.
\<close>

subsection \<open>Indicators\<close>

text \<open>C30: no indicator looks ahead. Computed over the first n candles, every line of every indicator
  is the first n values of the line over the whole history, and a period is refused on the one
  exactly when it is refused on the other.\<close>

theorem indicators_never_look_ahead:
  "sma_indicator (take n cs) period = cut n (sma_indicator cs period) \<and>
   ema_indicator (take n cs) period = cut n (ema_indicator cs period) \<and>
   bollinger_bands (take n cs) period deviations =
     map_sum id (cut_bands n) (bollinger_bands cs period deviations) \<and>
   vwap (take n cs) period = take n (vwap cs period) \<and>
   rsi (take n cs) period = cut n (rsi cs period) \<and>
   macd (take n cs) fast slow signal = map_sum id (cut_macd n) (macd cs fast slow signal) \<and>
   stochastic (take n cs) period smooth_k period_d =
     map_sum id (\<lambda>(k, d). (take n k, take n d)) (stochastic cs period smooth_k period_d) \<and>
   atr (take n cs) period = cut n (atr cs period) \<and>
   adx (take n cs) period = map_sum id (cut_adx n) (adx cs period) \<and>
   roc (take n cs) period = take n (roc cs period) \<and>
   cci (take n cs) period = cut n (cci cs period)"
  by (intro conjI bands_take rsi_take macd_take stochastic_take atr_take adx_take cci_take
      causal_take [OF causal_vwap] causal_take [OF causal_roc])
    (simp_all only: sma_indicator_def ema_indicator_def closes_take sma_take ema_take)

text \<open>C32: the RSI and the ADX of any candles are between 0 and 100 wherever they are defined, and the
  directional indicators are never negative.\<close>

theorem oscillators_in_range:
  assumes "1 \<le> period" "period \<le> 200"
  shows "(\<exists>s. rsi cs period = Inr s \<and> (\<forall>x. Some x \<in> set s \<longrightarrow> 0 \<le> x \<and> x \<le> 100)) \<and>
    (\<exists>l. adx cs period = Inr l \<and> (\<forall>x. Some x \<in> set (al_adx l) \<longrightarrow> 0 \<le> x \<and> x \<le> 100) \<and>
      (\<forall>x. Some x \<in> set (al_plus_di l) \<longrightarrow> 0 \<le> x) \<and> (\<forall>x. Some x \<in> set (al_minus_di l) \<longrightarrow> 0 \<le> x))"
proof (intro conjI)
  show "\<exists>s. rsi cs period = Inr s \<and> (\<forall>x. Some x \<in> set s \<longrightarrow> 0 \<le> x \<and> x \<le> 100)"
    using rsi_total [OF assms(1)] rsi_range by blast
  obtain l where l: "adx cs period = Inr l" using adx_total [OF assms(1)] by blast
  have "period \<le> 1000" using assms(2) by simp
  from adx_range [OF assms(1) this l] l
  show "\<exists>l. adx cs period = Inr l \<and> (\<forall>x. Some x \<in> set (al_adx l) \<longrightarrow> 0 \<le> x \<and> x \<le> 100) \<and>
      (\<forall>x. Some x \<in> set (al_plus_di l) \<longrightarrow> 0 \<le> x) \<and> (\<forall>x. Some x \<in> set (al_minus_di l) \<longrightarrow> 0 \<le> x)"
    by blast
qed

theorem oscillators_in_range_witness:
  "(\<exists>s. rsi example_bars 2 = Inr s \<and> (\<forall>x. Some x \<in> set s \<longrightarrow> 0 \<le> x \<and> x \<le> 100)) \<and>
    (\<exists>l. adx example_bars 2 = Inr l \<and> (\<forall>x. Some x \<in> set (al_adx l) \<longrightarrow> 0 \<le> x \<and> x \<le> 100) \<and>
      (\<forall>x. Some x \<in> set (al_plus_di l) \<longrightarrow> 0 \<le> x) \<and> (\<forall>x. Some x \<in> set (al_minus_di l) \<longrightarrow> 0 \<le> x))"
  by (rule oscillators_in_range) simp_all



text \<open>The candles an analysis runs on are in strictly ascending order of their opening, end with a closed
  candle, and are an initial part of what was received, possibly reversed; a repeated opening time or an
  order that is neither ascending nor descending is refused.\<close>

theorem prepared_candles_are_ordered:
  assumes "pc_problem (prepare_candles cs now) = NO_PROBLEM"
  shows "sorted_wrt (\<lambda>a b. ca_open_time a < ca_open_time b) (pc_candles (prepare_candles cs now)) \<and>
    pc_candles (prepare_candles cs now) \<noteq> [] \<and>
    ca_close_time (last (pc_candles (prepare_candles cs now))) \<le> now \<and>
    (\<exists>rest. cs = pc_candles (prepare_candles cs now) @ rest \<or> rev cs = pc_candles (prepare_candles cs now) @ rest)"
proof -
  have kept: "sorted_wrt (\<lambda>a b. ca_open_time a < ca_open_time b) (pc_candles r) \<and> pc_candles r \<noteq> [] \<and>
      ca_close_time (last (pc_candles r)) \<le> now \<and> (\<exists>rest. xs = pc_candles r @ rest)"
    if r: "r = keep_closed now xs flag" "pc_problem r = NO_PROBLEM"
      and xs: "pairwise (\<lambda>a b. ca_open_time a < ca_open_time b) xs" for xs flag r
  proof -
    have d: "drop_forming now xs \<noteq> []" "pc_candles r = drop_forming now xs"
      using r by (auto simp: keep_closed_def refused_def Let_def split: if_splits)
    obtain rest where rest: "xs = drop_forming now xs @ rest" using drop_forming_prefix by metis
    have "sorted_wrt (\<lambda>a b. ca_open_time a < ca_open_time b) xs" by (rule pairwise_sorted [OF xs])
    then have "sorted_wrt (\<lambda>a b. ca_open_time a < ca_open_time b) (drop_forming now xs)"
      using rest by (metis sorted_wrt_append)
    moreover have "ca_close_time (last (drop_forming now xs)) \<le> now" by (rule drop_forming_last [OF d(1)])
    ultimately show ?thesis using d rest by auto
  qed
  consider (up) "pairwise (\<lambda>a b. ca_open_time a < ca_open_time b) cs" "prepare_candles cs now = keep_closed now cs False"
    | (down) "pairwise (\<lambda>a b. ca_open_time b < ca_open_time a) cs" "prepare_candles cs now = keep_closed now (rev cs) True"
    using assms by (auto simp: prepare_candles_def refused_def split: if_splits)
  then show ?thesis
  proof cases
    case up
    from kept [OF up(2) assms up(1)] show ?thesis by blast
  next
    case down
    have "pairwise (\<lambda>a b. ca_open_time a < ca_open_time b) (rev cs)" by (rule pairwise_rev [OF down(1)])
    from kept [OF down(2) assms this] show ?thesis by blast
  qed
qed

theorem prepared_candles_are_ordered_witness:
  "sorted_wrt (\<lambda>a b. ca_open_time a < ca_open_time b) (pc_candles (prepare_candles (rev example_bars) 4)) \<and>
    pc_candles (prepare_candles (rev example_bars) 4) \<noteq> [] \<and>
    ca_close_time (last (pc_candles (prepare_candles (rev example_bars) 4))) \<le> 4 \<and>
    (\<exists>rest. rev example_bars = pc_candles (prepare_candles (rev example_bars) 4) @ rest \<or>
       rev (rev example_bars) = pc_candles (prepare_candles (rev example_bars) 4) @ rest)"
  by (rule prepared_candles_are_ordered)
    (simp add: prepare_candles_def example_bars_def bar_of_def keep_closed_def drop_forming_def)

subsection \<open>The backtest\<close>

text \<open>C17: the bias the backtest computes at a bar, in one pass over the whole history, is the bias the pure
  strategy evaluation reports for the candles up to that bar, and the backtest has none exactly where
  the evaluation answers that its indicators have not warmed up.\<close>

theorem backtest_bias_is_live_bias:
  assumes "trend_params_valid p" and "bias_series cs p = Inr bs" and "i < length cs"
    and "evaluate_from_candles (take (i + 1) cs) symb tf p t = Inr r"
  shows "sr_bias r = bs ! i \<and> sr_status r = (if bs ! i = None then ST_INSUFFICIENT_DATA else ST_READY)"
proof -
  obtain v where v: "compute_indicator_values (take (i + 1) cs) p = Inr v"
    and b: "bs ! i = map_option (\<lambda>v. case evaluate_conditions v p of (long, short, bias) \<Rightarrow> bias) v"
    using bias_of_prefix [OF assms(1-3)] by blast
  show ?thesis
  proof (cases v)
    case None
    with assms(4) v b show ?thesis by (auto simp: evaluate_from_candles_def strategy_base_def)
  next
    case (Some w)
    obtain long short bias where w: "evaluate_conditions w p = (long, short, bias)" by (cases "evaluate_conditions w p")
    show ?thesis
      using assms(4) b unfolding evaluate_from_candles_def v Some bindE.simps option.case w
      by (auto simp: w strategy_base_def result_simps)
  qed
qed

theorem backtest_bias_is_live_bias_witness:
  "\<exists>r. evaluate_from_candles (take (2 + 1) example_bars) ''BTCUSDT'' H1 short_params None = Inr r \<and>
     sr_bias r = [None, None, None, Some LONG_BIAS, Some NEUTRAL] ! 2 \<and>
     sr_status r = (if [None, None, None, Some LONG_BIAS, Some NEUTRAL] ! 2 = None
                    then ST_INSUFFICIENT_DATA else ST_READY)"
proof -
  have p: "trend_params_valid short_params"
    by (simp add: trend_params_valid_def short_params_def default_trend_params_def in_range_def)
  have i: "2 < length example_bars" by (simp add: example_bars_def)
  obtain v where v: "compute_indicator_values (take (2 + 1) example_bars) short_params = Inr v"
    and n: "[None, None, None, Some LONG_BIAS, Some NEUTRAL] ! 2 =
      map_option (\<lambda>v. case evaluate_conditions v short_params of (long, short, bias) \<Rightarrow> bias) v"
    using bias_of_prefix [OF p example_biases i] by blast
  then have "v = None" by simp
  with v obtain r where r: "evaluate_from_candles (take (2 + 1) example_bars) ''BTCUSDT'' H1 short_params None = Inr r"
    by (auto simp: evaluate_from_candles_def)
  with backtest_bias_is_live_bias [OF p example_biases i r] show ?thesis by blast
qed

text \<open>C16: the backtest does not look ahead. A run over the first k candles succeeds when the run over the
  whole history does; its equity curve is the first k points of the longer run's, and every trade it
  closed is a trade of the longer run, in the same order with nothing before it.\<close>

theorem backtest_never_looks_ahead:
  assumes "k \<le> length cs" and "replay_history cs c p = Inr s"
  shows "\<exists>s'. replay_history (take k cs) c p = Inr s' \<and> sm_curve s' = take k (sm_curve s) \<and>
    (\<exists>rest. sm_trades s = sm_trades s' @ rest)"
  by (rule replay_prefix [OF assms])

theorem backtest_never_looks_ahead_witness:
  "\<exists>s'. replay_history (take 4 example_bars) sample_config short_params = Inr s' \<and>
    sm_curve s' = take 4 (sm_curve example_end) \<and> (\<exists>rest. sm_trades example_end = sm_trades s' @ rest)"
  by (rule backtest_never_looks_ahead [OF _ example_replay]) (simp add: example_bars_def)

text \<open>C18: a simulated account is never negative. In every completed run, after every trade and at every
  point of the curve the equity is at least zero, no trade loses more than the margin posted for it,
  and every drawdown is between 0 and 100 percent.\<close>

theorem backtest_account_never_negative:
  assumes "backtest_config_valid c" and "dec28 (bc_starting_balance c)"
    and "run_backtest cs symb tf c p ran_at = Inr r"
  shows "(\<forall>t \<in> set (br_trades r). 0 \<le> tr_equity_after t \<and> - tr_margin t \<le> tr_net_pnl t) \<and>
    (\<forall>pt \<in> set (br_equity_curve r). 0 \<le> ep_equity pt \<and> 0 \<le> ep_drawdown_percent pt \<and> ep_drawdown_percent pt \<le> 100)"
  using run_backtest_ok [OF assms] by (auto simp: list_all_iff trade_ok_def point_ok_def)

theorem backtest_account_never_negative_witness:
  "\<exists>r. run_backtest example_bars ''BTCUSDT'' H1 sample_config short_params None = Inr r \<and>
    br_trades r = [example_trade] \<and>
    (\<forall>t \<in> set (br_trades r). 0 \<le> tr_equity_after t \<and> - tr_margin t \<le> tr_net_pnl t) \<and>
    (\<forall>pt \<in> set (br_equity_curve r). 0 \<le> ep_equity pt \<and> 0 \<le> ep_drawdown_percent pt \<and> ep_drawdown_percent pt \<le> 100)"
proof -
  have c: "backtest_config_valid sample_config"
    by (simp add: backtest_config_valid_def sample_config_def default_backtest_config_def)
  have d: "dec28 (bc_starting_balance sample_config)"
    using dec28_power [of 2] by (simp add: example_fields)
  obtain r where r: "run_backtest example_bars ''BTCUSDT'' H1 sample_config short_params None = Inr r"
      "br_trades r = [example_trade]"
    using example_run by blast
  from backtest_account_never_negative [OF c d r(1)] r show ?thesis by blast
qed

text \<open>C19: with a valid configuration, a starting balance of at most 28 digits and valid parameters, a
  backtest returns a result or raises InvalidOperation from a quantization that needs more than 28
  digits; no candles make it divide by zero or break a validator of its result models.\<close>

theorem only_overflow_ends_a_backtest:
  assumes "backtest_config_valid c" and "dec28 (bc_starting_balance c)" and "trend_params_valid p"
  shows "(\<exists>r. run_backtest cs symb tf c p ran_at = Inr r) \<or> run_backtest cs symb tf c p ran_at = Inl InvalidOperation"
  using run_backtest_overflow [OF assms, of cs symb tf ran_at]
  by (cases "run_backtest cs symb tf c p ran_at") (auto simp: only_overflow_def)

theorem only_overflow_ends_a_backtest_witness:
  "(\<exists>r. run_backtest example_bars ''BTCUSDT'' H1 sample_config short_params None = Inr r) \<or>
   run_backtest example_bars ''BTCUSDT'' H1 sample_config short_params None = Inl InvalidOperation"
proof (rule only_overflow_ends_a_backtest)
  show "backtest_config_valid sample_config"
    by (simp add: backtest_config_valid_def sample_config_def default_backtest_config_def)
  show "dec28 (bc_starting_balance sample_config)"
    using dec28_power [of 2] by (simp add: example_fields)
  show "trend_params_valid short_params"
    by (simp add: trend_params_valid_def short_params_def default_trend_params_def in_range_def)
qed

text \<open>Inside a bar the adverse level comes first. If the bar reaches any of the stop, the trailing stop
  and the liquidation, the position leaves at the adverse level nearest the entry, whatever the target;
  only otherwise does it leave at a target the bar reached, and if it reached none it stays.\<close>

theorem adverse_level_comes_first:
  "map_option fst (resolve_intrabar_exit side high low stop target liquidation trail) =
    (let levels = set_option stop \<union> set_option liquidation \<union> set_option trail
     in if side = LONG
        then (if \<exists>v \<in> levels. low \<le> v then Some (Max levels)
              else Option.bind target (\<lambda>t. if t \<le> high then Some t else None))
        else (if \<exists>v \<in> levels. v \<le> high then Some (Min levels)
              else Option.bind target (\<lambda>t. if low \<le> t then Some t else None)))"
proof -
  let ?L = "adverse_list stop liquidation trail"
  let ?S = "set_option stop \<union> set_option liquidation \<union> set_option trail"
  have S: "fst ` set ?L = ?S" by (auto simp: adverse_list_def level_of_def split: option.splits)
  have hit: "map_option fst (adverse_exit long high low ?L) =
      (if long then (if \<exists>v \<in> ?S. low \<le> v then Some (Max ?S) else None)
       else (if \<exists>v \<in> ?S. v \<le> high then Some (Min ?S) else None))" for long
    using adverse_exit_level [of long high low ?L] unfolding S .
  show ?thesis
    using hit [of "side = LONG"]
    by (cases "adverse_exit (side = LONG) high low ?L"; cases target)
      (auto simp: resolve_intrabar_exit_def Let_def split: if_splits)
qed

text \<open>The longest losing (or winning) streak of the metrics is the greatest length of a stretch of
  consecutive trades that all lost (or all won); a trade that broke even belongs to neither.\<close>

theorem longest_run_is_the_longest:
  "longest_run ts losing =
     Max {length ys | xs ys zs. ts = xs @ ys @ zs \<and>
       list_all (\<lambda>t. if losing then tr_net_pnl t < 0 else 0 < tr_net_pnl t) ys}"
  unfolding longest_run_def by (rule longest_run_from_Max)


end
