(* ===== verification/Regime.thy ===== *)
theory Regime
  imports Strategy
begin

section \<open>Market regime and measured volatility\<close>

text \<open>
  \<^verbatim>\<open>domain/regime.py\<close> and \<^verbatim>\<open>analysis/regime.py\<close>: the indicators a classification reads, the
  measurements it reports and the rule that turns them into a regime; and the function of
  \<^verbatim>\<open>analysis/volatility.py\<close> that measures ATR for the order path. The sentences of a reason are
  left out; which inputs were missing is kept.
\<close>

subsection \<open>The assessment\<close>

record regime_measurement =
  rm_name :: string
  rm_value :: "rat option"
  rm_threshold :: "rat option"

text \<open>Which rule fired, with what the sentence names.\<close>

datatype regime_reason =
    NoCandles
  | Unmeasured "string list"
  | FastAboveSlow
  | FastBelowSlow
  | NoTrendHigh
  | NoTrendLow
  | NoTrendBetween

record regime_assessment =
  ra_regime :: market_regime
  ra_volatility_band :: volatility_band
  ra_measurements :: "regime_measurement list"
  ra_reason :: regime_reason
  ra_method :: string
  ra_candles_used :: nat

definition regime_actionable :: "regime_assessment \<Rightarrow> bool" where
  "regime_actionable a \<longleftrightarrow> is_known (ra_regime a)"

definition REGIME_METHOD :: string where "REGIME_METHOD = ''market-regime/v1''"

definition ADX_TREND_MINIMUM :: rat where "ADX_TREND_MINIMUM = 20"
definition ATR_HIGH_PERCENT :: rat where "ATR_HIGH_PERCENT = 3"
definition ATR_LOW_PERCENT :: rat where "ATR_LOW_PERCENT = 75 / 100"
definition BB_WIDTH_SQUEEZE_PERCENT :: rat where "BB_WIDTH_SQUEEZE_PERCENT = 2"

subsection \<open>Parameters\<close>

record regime_params =
  rg_ema_fast :: nat
  rg_ema_slow :: nat
  rg_adx_period :: nat
  rg_atr_period :: nat
  rg_bb_period :: nat

definition default_regime_params :: regime_params where
  "default_regime_params =
     \<lparr>rg_ema_fast = 21, rg_ema_slow = 55, rg_adx_period = 14, rg_atr_period = 14, rg_bb_period = 20\<rparr>"

definition mk_regime_params :: "regime_params \<Rightarrow> regime_params result" where
  "mk_regime_params p = (if rg_ema_slow p \<le> rg_ema_fast p then Inl ValueError else Inr p)"

definition band_of :: "rat option \<Rightarrow> volatility_band" where
  "band_of atr_percent =
     (case atr_percent of
        None \<Rightarrow> BAND_UNKNOWN
      | Some v \<Rightarrow> if ATR_HIGH_PERCENT \<le> v then BAND_HIGH
                  else if v \<le> ATR_LOW_PERCENT then BAND_LOW else BAND_NORMAL)"

subsection \<open>The measurements\<close>

record regime_inputs =
  rx_fast :: "rat option"
  rx_slow :: "rat option"
  rx_adx :: "rat option"
  rx_atr_percent :: "rat option"
  rx_bb_width :: "rat option"

definition percent_of_close :: "rat \<Rightarrow> rat option \<Rightarrow> rat option" where
  "percent_of_close close atr_value =
     (case atr_value of
        None \<Rightarrow> None
      | Some v \<Rightarrow> if 0 < close then Some (d_mul (d_quot v close) 100) else None)"

definition band_width :: "rat option \<Rightarrow> rat option \<Rightarrow> rat option \<Rightarrow> rat option" where
  "band_width up_line low_line mid_line =
     (case up_line of None \<Rightarrow> None | Some u \<Rightarrow>
     (case low_line of None \<Rightarrow> None | Some l \<Rightarrow>
     (case mid_line of None \<Rightarrow> None | Some m \<Rightarrow>
        if 0 < m then Some (d_mul (d_quot (d_sub u l) m) 100) else None)))"

definition regime_inputs_of :: "candle list \<Rightarrow> regime_params \<Rightarrow> regime_inputs result" where
  "regime_inputs_of cs p =
     bindE (mk_params (default_params
       \<lparr>ema_period := rg_ema_fast p, adx_period := rg_adx_period p,
        atr_period := rg_atr_period p, bb_period := rg_bb_period p\<rparr>)) (\<lambda>fast_params.
     bindE (mk_params (default_params\<lparr>ema_period := rg_ema_slow p\<rparr>)) (\<lambda>slow_params.
     bindE (calculate_indicators cs [''ema'', ''adx'', ''atr'', ''bollinger''] fast_params 0) (\<lambda>computed.
     bindE (calculate_indicators cs [''ema''] slow_params 0) (\<lambda>slow_results.
     bindE (by_key computed ''ema'') (\<lambda>fast.
     bindE (by_key computed ''adx'') (\<lambda>trend.
     bindE (by_key computed ''atr'') (\<lambda>vol.
     bindE (by_key computed ''bollinger'') (\<lambda>bands.
     Inr \<lparr>rx_fast = latest_of fast ''ema'', rx_slow = latest_of (hd slow_results) ''ema'',
          rx_adx = latest_of trend ''adx'',
          rx_atr_percent = percent_of_close (ca_close (last cs)) (latest_of vol ''atr''),
          rx_bb_width = band_width (latest_of bands ''upper'') (latest_of bands ''lower'')
                          (latest_of bands ''middle'')\<rparr>))))))))"

definition measurements_of :: "regime_inputs \<Rightarrow> regime_measurement list" where
  "measurements_of x =
     [\<lparr>rm_name = ''trend_strength'', rm_value = rx_adx x, rm_threshold = Some ADX_TREND_MINIMUM\<rparr>,
      \<lparr>rm_name = ''trend_direction'', rm_value = rx_fast x, rm_threshold = rx_slow x\<rparr>,
      \<lparr>rm_name = ''volatility'', rm_value = rx_atr_percent x, rm_threshold = Some ATR_HIGH_PERCENT\<rparr>,
      \<lparr>rm_name = ''band_width'', rm_value = rx_bb_width x,
       rm_threshold = Some BB_WIDTH_SQUEEZE_PERCENT\<rparr>]"

subsection \<open>The rule\<close>

definition missing_inputs :: "regime_inputs \<Rightarrow> string list" where
  "missing_inputs x =
     map fst (filter (\<lambda>(name, v). v = None)
       [(''ADX'', rx_adx x), (''EMA pair'', if rx_slow x \<noteq> None then rx_fast x else None),
        (''ATR'', rx_atr_percent x)])"

text \<open>The rule over four measured numbers, in the order of the source's early returns.\<close>

definition regime_rule :: "rat \<Rightarrow> rat \<Rightarrow> rat \<Rightarrow> rat \<Rightarrow> market_regime \<times> regime_reason" where
  "regime_rule adx_value fast slow atr_percent =
     (let trending = ADX_TREND_MINIMUM \<le> adx_value
      in if trending \<and> slow < fast then (TREND_UP, FastAboveSlow)
         else if trending \<and> fast < slow then (TREND_DOWN, FastBelowSlow)
         else if ATR_HIGH_PERCENT \<le> atr_percent then (HIGH_VOLATILITY, NoTrendHigh)
         else if atr_percent \<le> ATR_LOW_PERCENT then (LOW_VOLATILITY, NoTrendLow)
         else (RANGE, NoTrendBetween))"

definition regime_verdict :: "regime_inputs \<Rightarrow> market_regime \<times> regime_reason" where
  "regime_verdict x =
     (case (rx_adx x, rx_fast x, rx_slow x, rx_atr_percent x) of
        (Some a, Some f, Some s, Some v) \<Rightarrow> regime_rule a f s v
      | _ \<Rightarrow> (REGIME_UNKNOWN, Unmeasured (missing_inputs x)))"

definition assess :: "nat \<Rightarrow> regime_inputs \<Rightarrow> regime_assessment" where
  "assess n x =
     \<lparr>ra_regime = fst (regime_verdict x), ra_volatility_band = band_of (rx_atr_percent x),
      ra_measurements = measurements_of x, ra_reason = snd (regime_verdict x),
      ra_method = REGIME_METHOD, ra_candles_used = n\<rparr>"

definition classify_regime :: "candle list \<Rightarrow> regime_params \<Rightarrow> regime_assessment result" where
  "classify_regime cs p =
     (if cs = []
      then Inr \<lparr>ra_regime = REGIME_UNKNOWN, ra_volatility_band = BAND_UNKNOWN, ra_measurements = [],
                ra_reason = NoCandles, ra_method = REGIME_METHOD, ra_candles_used = 0\<rparr>
      else bindE (regime_inputs_of cs p) (\<lambda>x. Inr (assess (length cs) x)))"

subsection \<open>Volatility for the order path\<close>

definition VOLATILITY_PERIOD :: nat where "VOLATILITY_PERIOD = 14"
definition MIN_CANDLES_FOR_ATR :: nat where "MIN_CANDLES_FOR_ATR = VOLATILITY_PERIOD + 1"

definition last_value :: "series \<Rightarrow> rat option" where
  "last_value s = (case filter (\<lambda>v. v \<noteq> None) (rev s) of [] \<Rightarrow> None | v # vs \<Rightarrow> v)"

text \<open>\<^verbatim>\<open>quantize\<close> without a mode rounds half to even.\<close>

definition measured_volatility :: "candle list \<Rightarrow> volatility_measurement result" where
  "measured_volatility cs =
     (if cs = [] then mk_volatility_measurement CANDLES_UNAVAILABLE None 0
      else if length cs < MIN_CANDLES_FOR_ATR
      then mk_volatility_measurement VOL_INSUFFICIENT_HISTORY None (int (length cs))
      else bindE (atr cs VOLATILITY_PERIOD) (\<lambda>s.
        case last_value s of
          None \<Rightarrow> mk_volatility_measurement VOL_INSUFFICIENT_HISTORY None (int (length cs))
        | Some v \<Rightarrow>
            if ca_close (last cs) \<le> 0
            then mk_volatility_measurement VOL_INSUFFICIENT_HISTORY None (int (length cs))
            else bindE (quantize ROUND_HALF_EVEN 4 (d_mul (d_quot v (ca_close (last cs))) 100)) (\<lambda>q.
              mk_volatility_measurement MEASURED (Some q) (int (length cs)))))"

end
