(* ===== verification/PositionFacts.thy ===== *)
theory PositionFacts
  imports Regime PaperEngine
begin

section \<open>Measured facts about an open position\<close>

text \<open>
  The vocabulary of \<^verbatim>\<open>domain/intelligence.py\<close> and \<^verbatim>\<open>analysis/position/metrics.py\<close>: the excursions,
  break-even price, distances and R multiples of one open position, each absent where it cannot be
  computed and then named in \<open>pm_unavailable\<close>. An evidence row keeps its name and its verdict; the
  strings it shows a reader are left out.
\<close>

subsection \<open>The vocabulary\<close>

datatype data_quality = QUALITY_OK | DEGRADED | QUALITY_UNAVAILABLE

datatype brain_state = SUPPORTIVE | BRAIN_NEUTRAL | WEAKENING | ADVERSE | BRAIN_UNAVAILABLE

definition state_measured :: "brain_state \<Rightarrow> bool" where
  "state_measured s \<longleftrightarrow> s \<noteq> BRAIN_UNAVAILABLE"

datatype brain_name =
    BRAIN_MARKET
  | BRAIN_TECHNICAL
  | BRAIN_REGIME
  | BRAIN_MOMENTUM_VOLUME
  | BRAIN_STRUCTURE
  | BRAIN_POSITION
  | BRAIN_RISK
  | BRAIN_EXIT

record evidence_row =
  ev_name :: string
  ev_satisfied :: "bool option"

text \<open>Where a reading came from: the source of the mark, or a name.\<close>

datatype brain_source = OfMark "price_basis option" | Named "string option"

record brain_result =
  br_brain :: brain_name
  br_state :: brain_state
  br_evidence :: "evidence_row list"
  br_data_quality :: data_quality
  br_source :: brain_source
  br_observed_at :: timestamp

definition brain_usable :: "brain_result \<Rightarrow> bool" where
  "brain_usable r \<longleftrightarrow> state_measured (br_state r) \<and> br_data_quality r \<noteq> QUALITY_UNAVAILABLE"

datatype thesis_state =
    THESIS_VALID
  | THESIS_WEAKENING
  | THESIS_REVERSAL_WARNING
  | THESIS_TARGET_APPROACHING
  | THESIS_RISK_INCREASING
  | THESIS_EXIT_CONDITION_MET
  | THESIS_INSUFFICIENT_DATA
  | THESIS_BLOCKED_BY_RISK

datatype position_decision =
    HOLD
  | PROTECT
  | TRAIL
  | PARTIAL_EXIT
  | EXIT
  | DECISION_INSUFFICIENT_DATA
  | BLOCKED_BY_RISK

record thesis_alignment =
  tl_value :: rat
  tl_conditions_held :: nat
  tl_conditions_total :: nat

definition thesis_alignment_valid :: "thesis_alignment \<Rightarrow> bool" where
  "thesis_alignment_valid a \<longleftrightarrow> 0 \<le> tl_value a \<and> tl_value a \<le> 100 \<and> 0 < tl_conditions_total a"

subsection \<open>The metrics\<close>

record position_metrics =
  pm_time_in_trade_seconds :: rat
  pm_best_price :: "rat option"
  pm_worst_price :: "rat option"
  pm_mfe_per_unit :: "rat option"
  pm_mae_per_unit :: "rat option"
  pm_mfe_percent :: "rat option"
  pm_mae_percent :: "rat option"
  pm_break_even_price :: "rat option"
  pm_stop_distance_percent :: "rat option"
  pm_target_distance_percent :: "rat option"
  pm_liquidation_distance_percent :: "rat option"
  pm_r_multiple_now :: "rat option"
  pm_remaining_r :: "rat option"
  pm_unrealized_pnl :: "rat option"
  pm_unavailable :: "string list"

definition nonnegative_if_given :: "rat option \<Rightarrow> bool" where
  "nonnegative_if_given x \<longleftrightarrow> (case x of None \<Rightarrow> True | Some v \<Rightarrow> 0 \<le> v)"

definition position_metrics_valid :: "position_metrics \<Rightarrow> bool" where
  "position_metrics_valid m \<longleftrightarrow>
     0 \<le> pm_time_in_trade_seconds m \<and> nonnegative_if_given (pm_mfe_per_unit m) \<and>
     nonnegative_if_given (pm_mae_per_unit m) \<and> nonnegative_if_given (pm_mfe_percent m) \<and>
     nonnegative_if_given (pm_mae_percent m) \<and> positive_if_given (pm_break_even_price m)"

definition percent_places :: nat where "percent_places = 4"

definition pct :: "rat \<Rightarrow> rat \<Rightarrow> rat option result" where
  "pct numerator denominator =
     (if denominator \<le> 0 then Inr None
      else bindE (quantize ROUND_HALF_EVEN percent_places (d_mul (d_quot numerator denominator) 100))
             (\<lambda>v. Inr (Some v)))"

text \<open>
  The price at which closing nets zero after both fees, solved because the exit fee depends on it.
\<close>

definition break_even :: "paper_position \<Rightarrow> rat \<Rightarrow> rat option" where
  "break_even p taker_fee_bps =
     (if pp_quantity p \<le> 0 then None
      else let fee_rate = d_quot taker_fee_bps BPS;
               entry_cost = d_mul (pp_entry_price p) (pp_quantity p);
               long = (pp_side p = LONG);
               denominator = d_mul (pp_quantity p) (if long then d_sub 1 fee_rate else d_add 1 fee_rate)
           in if denominator \<le> 0 then None
              else let price = d_quot (if long then d_add entry_cost (pp_entry_fee p)
                                       else d_sub entry_cost (pp_entry_fee p)) denominator
                   in if 0 < price then Some price else None)"

text \<open>How far \<open>x\<close> lies beyond \<open>base\<close> in the direction of a position, and against it.\<close>

definition gap_beyond :: "bool \<Rightarrow> rat \<Rightarrow> rat \<Rightarrow> rat" where
  "gap_beyond long x base = (if long then d_sub x base else d_sub base x)"

definition floored_gap :: "bool \<Rightarrow> rat \<Rightarrow> rat option \<Rightarrow> rat option" where
  "floored_gap long entry extreme =
     map_option (\<lambda>v. let move = gap_beyond long v entry in if 0 < move then move else 0) extreme"

definition distance_percent :: "bool \<Rightarrow> rat \<Rightarrow> rat option \<Rightarrow> rat option result" where
  "distance_percent ahead mark level =
     (case level of None \<Rightarrow> Inr None | Some v \<Rightarrow> pct (gap_beyond ahead mark v) mark)"

definition in_r :: "rat \<Rightarrow> rat option \<Rightarrow> rat option result" where
  "in_r move planned =
     (case planned of
        None \<Rightarrow> Inr None
      | Some risk \<Rightarrow>
          if risk \<le> 0 then Inr None
          else bindE (quantize ROUND_HALF_EVEN percent_places (d_quot move risk)) (\<lambda>v. Inr (Some v)))"

definition planned_risk_of :: "paper_position \<Rightarrow> rat option" where
  "planned_risk_of p =
     (case pp_thesis p of None \<Rightarrow> None | Some t \<Rightarrow> th_planned_risk_per_unit t)"

record level_distances =
  lv_stop :: "rat option"
  lv_target :: "rat option"
  lv_liquidation :: "rat option"
  lv_r_now :: "rat option"
  lv_remaining_r :: "rat option"
  lv_unavailable :: "string list"

definition when_absent :: "'a option \<Rightarrow> string list \<Rightarrow> string list" where
  "when_absent x names = (if x = None then names else [])"

definition marked_distances :: "paper_position \<Rightarrow> rat \<Rightarrow> level_distances result" where
  "marked_distances p mark =
     (let long = (pp_side p = LONG);
          planned = planned_risk_of p;
          no_r = (case planned of None \<Rightarrow> True | Some r \<Rightarrow> r \<le> 0)
      in bindE (distance_percent long mark (pp_stop_price p)) (\<lambda>stop.
         bindE (distance_percent (\<not> long) mark (pp_target_price p)) (\<lambda>target.
         bindE (distance_percent long mark (pp_liquidation_price p)) (\<lambda>liquidation.
         bindE (in_r (gap_beyond long mark (pp_entry_price p)) planned) (\<lambda>now.
         bindE (case pp_stop_price p of
                  None \<Rightarrow> Inr None
                | Some s \<Rightarrow> in_r (gap_beyond long mark s) planned) (\<lambda>remaining.
         Inr \<lparr>lv_stop = stop, lv_target = target, lv_liquidation = liquidation, lv_r_now = now,
              lv_remaining_r = remaining,
              lv_unavailable =
                when_absent (pp_stop_price p) [''stop_distance_percent''] @
                when_absent (pp_target_price p) [''target_distance_percent''] @
                when_absent (pp_liquidation_price p) [''liquidation_distance_percent''] @
                (if no_r then [''r_multiple_now'', ''remaining_r'']
                 else when_absent (pp_stop_price p) [''remaining_r''])\<rparr>))))))"

definition unmarked_distances :: level_distances where
  "unmarked_distances =
     \<lparr>lv_stop = None, lv_target = None, lv_liquidation = None, lv_r_now = None,
      lv_remaining_r = None,
      lv_unavailable = [''stop_distance_percent'', ''target_distance_percent'',
        ''liquidation_distance_percent'', ''r_multiple_now'', ''remaining_r'']\<rparr>"

text \<open>\<^verbatim>\<open>tuple(dict.fromkeys(names))\<close>: the first occurrence of every name.\<close>

definition first_occurrences :: "'a list \<Rightarrow> 'a list" where
  "first_occurrences xs = rev (remdups (rev xs))"

definition pct_option :: "rat option \<Rightarrow> rat \<Rightarrow> rat option result" where
  "pct_option numerator denominator =
     (case numerator of None \<Rightarrow> Inr None | Some v \<Rightarrow> pct v denominator)"

definition compute_position_metrics ::
    "paper_position \<Rightarrow> timestamp \<Rightarrow> rat \<Rightarrow> position_metrics result" where
  "compute_position_metrics p now taker_fee_bps =
     (let long = (pp_side p = LONG);
          mfe = floored_gap long (pp_entry_price p) (pp_best_price p);
          mae = floored_gap (\<not> long) (pp_entry_price p) (pp_worst_price p);
          even_price = break_even p taker_fee_bps
      in bindE (case pp_mark_price p of
                  None \<Rightarrow> Inr unmarked_distances
                | Some mark \<Rightarrow> marked_distances p mark) (\<lambda>lv.
         bindE (pct_option mfe (pp_entry_price p)) (\<lambda>mfe_pct.
         bindE (pct_option mae (pp_entry_price p)) (\<lambda>mae_pct.
         bindE (case pp_unrealized_pnl p of
                  None \<Rightarrow> Inr None
                | Some v \<Rightarrow> bindE (quantize_usdt v) (\<lambda>q. Inr (Some q))) (\<lambda>pnl.
         construct position_metrics_valid
           \<lparr>pm_time_in_trade_seconds = max (total_seconds now (pp_opened_at p)) 0,
            pm_best_price = pp_best_price p, pm_worst_price = pp_worst_price p,
            pm_mfe_per_unit = mfe, pm_mae_per_unit = mae, pm_mfe_percent = mfe_pct,
            pm_mae_percent = mae_pct, pm_break_even_price = even_price,
            pm_stop_distance_percent = lv_stop lv, pm_target_distance_percent = lv_target lv,
            pm_liquidation_distance_percent = lv_liquidation lv,
            pm_r_multiple_now = lv_r_now lv, pm_remaining_r = lv_remaining_r lv,
            pm_unrealized_pnl = pnl,
            pm_unavailable = first_occurrences
              (when_absent (pp_best_price p) [''mfe''] @ when_absent (pp_worst_price p) [''mae''] @
               when_absent even_price [''break_even_price''] @ lv_unavailable lv @
               when_absent (pp_unrealized_pnl p) [''unrealized_pnl''])\<rparr>)))))"

end
