(* ===== verification/Setup.thy ===== *)
theory Setup
  imports Regime
begin

section \<open>Trade setups\<close>

text \<open>
  \<^verbatim>\<open>domain/setup.py\<close> and \<^verbatim>\<open>analysis/setup.py\<close>: from candles to a scored, explainable reading
  with real levels, or a named refusal. The explanatory sentences are left out; everything else a
  model carries is kept, and the validators run where the code constructs a model.
\<close>

subsection \<open>The models\<close>

datatype setup_direction = SETUP_LONG | SETUP_SHORT | NO_SIGNAL

datatype setup_status =
    ACTIONABLE
  | NO_ACTIONABLE_SETUP
  | SETUP_INSUFFICIENT_DATA
  | SETUP_STALE
  | SETUP_UNAVAILABLE

definition is_actionable :: "setup_status \<Rightarrow> bool" where
  "is_actionable s \<longleftrightarrow> s = ACTIONABLE"

datatype stop_model = STOP_FIXED_PERCENT | STOP_ATR | STOP_STRUCTURE

definition setup_score_component_valid :: "setup_score_component \<Rightarrow> bool" where
  "setup_score_component_valid c \<longleftrightarrow>
     0 \<le> sc_normalized c \<and> sc_normalized c \<le> 1 \<and> 0 \<le> sc_weight c \<and> sc_weight c \<le> 1 \<and>
     0 \<le> sc_contribution c"

record setup_score =
  ss_value :: rat
  ss_components :: "setup_score_component list"
  ss_method :: string

definition contribution_total :: "setup_score_component list \<Rightarrow> rat" where
  "contribution_total cs = d_sum (map sc_contribution cs)"

definition setup_score_valid :: "setup_score \<Rightarrow> bool" where
  "setup_score_valid s \<longleftrightarrow>
     0 \<le> ss_value s \<and> ss_value s \<le> 100 \<and>
     \<not> 1 / 100 < d_abs (d_sub (contribution_total (ss_components s)) (ss_value s))"

record risk_reward =
  rr_entry_price :: rat
  rr_stop_price :: rat
  rr_take_profit_price :: rat
  rr_risk_per_unit :: rat
  rr_reward_per_unit :: rat
  rr_ratio :: rat
  rr_stop_model :: stop_model
  rr_stop_distance_percent :: rat
  rr_take_profit_r_multiple :: rat

definition risk_reward_valid :: "risk_reward \<Rightarrow> bool" where
  "risk_reward_valid r \<longleftrightarrow>
     0 < rr_entry_price r \<and> 0 < rr_stop_price r \<and> 0 < rr_take_profit_price r \<and>
     0 < rr_risk_per_unit r \<and> 0 < rr_reward_per_unit r \<and> 0 < rr_ratio r \<and>
     0 < rr_stop_distance_percent r \<and> 0 < rr_take_profit_r_multiple r"

record trade_setup =
  ts_symbol :: string
  ts_timeframe :: timeframe
  ts_strategy :: string
  ts_strategy_version :: string
  ts_status :: setup_status
  ts_direction :: setup_direction
  ts_score :: "setup_score option"
  ts_risk_reward :: "risk_reward option"
  ts_regime :: "regime_assessment option"
  ts_conditions :: "condition_outcome list"
  ts_opposing_conditions :: "condition_outcome list"
  ts_indicators_used :: "string list"
  ts_candles_used :: nat
  ts_last_candle_time :: "timestamp option"
  ts_data_source :: "string option"
  ts_data_status :: "string option"
  ts_data_age_seconds :: "rat option"
  ts_evaluated_at :: "timestamp option"

definition trade_setup_valid :: "trade_setup \<Rightarrow> bool" where
  "trade_setup_valid s \<longleftrightarrow>
     (ts_status s = ACTIONABLE \<longrightarrow>
        ts_direction s \<noteq> NO_SIGNAL \<and> ts_score s \<noteq> None \<and> ts_risk_reward s \<noteq> None)"

subsection \<open>Weights, references and parameters\<close>

definition SETUP_METHOD :: string where "SETUP_METHOD = ''setup-score/v1''"

definition SETUP_WEIGHTS :: "(string, rat) dict" where
  "SETUP_WEIGHTS =
     [(''trend_alignment'', 25 / 100), (''momentum_alignment'', 20 / 100),
      (''regime_agreement'', 20 / 100), (''risk_reward'', 20 / 100),
      (''volatility_fitness'', 10 / 100), (''volume_confirmation'', 5 / 100)]"

definition RR_REFERENCE :: rat where "RR_REFERENCE = 3"
definition VOLUME_REFERENCE :: rat where "VOLUME_REFERENCE = 15 / 10"
definition VOLUME_BASELINE_BARS :: nat where "VOLUME_BASELINE_BARS = 20"

record setup_params =
  su_stop_model :: stop_model
  su_stop_percent :: rat
  su_atr_multiple :: rat
  su_structure_lookback :: nat
  su_take_profit_r :: rat

definition default_setup_params :: setup_params where
  "default_setup_params =
     \<lparr>su_stop_model = STOP_ATR, su_stop_percent = 2, su_atr_multiple = 15 / 10,
      su_structure_lookback = 20, su_take_profit_r = 2\<rparr>"

definition setup_params_valid :: "setup_params \<Rightarrow> bool" where
  "setup_params_valid p \<longleftrightarrow>
     \<not> (su_stop_percent p \<le> 0 \<or> 90 \<le> su_stop_percent p) \<and>
     \<not> (su_atr_multiple p \<le> 0 \<or> 10 < su_atr_multiple p) \<and>
     \<not> (su_structure_lookback p < 2 \<or> 500 < su_structure_lookback p) \<and>
     \<not> (su_take_profit_r p \<le> 0 \<or> 20 < su_take_profit_r p)"

definition mk_setup_params :: "setup_params \<Rightarrow> setup_params result" where
  "mk_setup_params p = (if setup_params_valid p then Inr p else Inl ValueError)"

subsection \<open>Levels\<close>

text \<open>\<^verbatim>\<open>candles[-(n + 1):-1]\<close>: up to \<open>n\<close> candles before the last one.\<close>

definition before_last :: "nat \<Rightarrow> candle list \<Rightarrow> candle list" where
  "before_last n cs = drop (length cs - (n + 1)) (butlast cs)"

definition structure_level :: "candle list \<Rightarrow> nat \<Rightarrow> setup_direction \<Rightarrow> rat option" where
  "structure_level cs lookback direction =
     (let w = before_last lookback cs
      in if w = [] then None
         else if direction = SETUP_LONG then Some (Min (ca_low ` set w))
         else Some (Max (ca_high ` set w)))"

definition offset_stop :: "setup_direction \<Rightarrow> rat \<Rightarrow> rat \<Rightarrow> rat" where
  "offset_stop direction entry offset =
     (if direction = SETUP_LONG then d_sub entry offset else d_add entry offset)"

definition stop_level ::
    "candle list \<Rightarrow> setup_direction \<Rightarrow> setup_params \<Rightarrow> rat option \<Rightarrow> rat option" where
  "stop_level cs direction p atr_percent =
     (let entry = ca_close (last cs)
      in case su_stop_model p of
           STOP_FIXED_PERCENT \<Rightarrow>
             Some (offset_stop direction entry (d_quot (d_mul entry (su_stop_percent p)) 100))
         | STOP_ATR \<Rightarrow>
             (case atr_percent of
                None \<Rightarrow> None
              | Some v \<Rightarrow>
                  if v \<le> 0 then None
                  else Some (offset_stop direction entry
                         (d_quot (d_mul entry (d_mul v (su_atr_multiple p))) 100)))
         | STOP_STRUCTURE \<Rightarrow> structure_level cs (su_structure_lookback p) direction)"

definition levels_from ::
    "rat \<Rightarrow> rat \<Rightarrow> setup_direction \<Rightarrow> setup_params \<Rightarrow> risk_reward option result" where
  "levels_from entry stop direction p =
     (if stop \<le> 0 then Inr None
      else if direction = SETUP_LONG \<and> entry \<le> stop then Inr None
      else if direction = SETUP_SHORT \<and> stop \<le> entry then Inr None
      else let risk = d_abs (d_sub entry stop)
           in if risk \<le> 0 then Inr None
              else let reward = d_mul risk (su_take_profit_r p);
                       target = (if direction = SETUP_LONG then d_add entry reward
                                 else d_sub entry reward)
                   in if target \<le> 0 then Inr None
                      else bindE (d_div reward risk) (\<lambda>ratio.
                           bindE (construct risk_reward_valid
                             \<lparr>rr_entry_price = entry, rr_stop_price = stop,
                              rr_take_profit_price = target, rr_risk_per_unit = risk,
                              rr_reward_per_unit = reward, rr_ratio = ratio,
                              rr_stop_model = su_stop_model p,
                              rr_stop_distance_percent = d_mul (d_quot risk entry) 100,
                              rr_take_profit_r_multiple = su_take_profit_r p\<rparr>) (\<lambda>r. Inr (Some r))))"

definition derive_risk_reward ::
    "candle list \<Rightarrow> setup_direction \<Rightarrow> setup_params \<Rightarrow> rat option \<Rightarrow> risk_reward option result" where
  "derive_risk_reward cs direction p atr_percent =
     (if direction = NO_SIGNAL \<or> cs = [] then Inr None
      else if ca_close (last cs) \<le> 0 then Inr None
      else case stop_level cs direction p atr_percent of
             None \<Rightarrow> Inr None
           | Some stop \<Rightarrow> levels_from (ca_close (last cs)) stop direction p)"

subsection \<open>The score\<close>

definition clamp_unit :: "rat \<Rightarrow> rat" where
  "clamp_unit v = (if v < 0 then 0 else if 1 < v then 1 else v)"

definition round_cent :: "rat \<Rightarrow> rat result" where
  "round_cent v = quantize ROUND_HALF_UP 2 v"

definition score_component ::
    "string \<Rightarrow> rat \<Rightarrow> rat option \<Rightarrow> setup_score_component result" where
  "score_component name normalized raw =
     (case map_of SETUP_WEIGHTS name of
        None \<Rightarrow> Inl KeyError
      | Some weight \<Rightarrow>
          let bounded = clamp_unit normalized
          in bindE (round_cent (d_mul (d_mul bounded weight) 100)) (\<lambda>contribution.
             construct setup_score_component_valid
               \<lparr>sc_name = name, sc_raw_value = raw, sc_normalized = bounded, sc_weight = weight,
                sc_contribution = contribution\<rparr>))"

definition atr_percent_of :: "regime_assessment \<Rightarrow> rat option" where
  "atr_percent_of a =
     (case find (\<lambda>m. rm_name m = ''volatility'') (ra_measurements a) of
        None \<Rightarrow> None | Some m \<Rightarrow> rm_value m)"

definition volume_ratio_over :: "nat \<Rightarrow> candle list \<Rightarrow> rat option" where
  "volume_ratio_over bars cs =
     (if length cs < 2 then None
      else let w = before_last bars cs
           in if w = [] then None
              else let total = d_sum (map ca_volume w)
                   in if total \<le> 0 then None
                      else let baseline = d_quot total (of_nat (length w))
                           in if baseline \<le> 0 then None
                              else Some (d_quot (ca_volume (last cs)) baseline))"

definition volume_ratio :: "candle list \<Rightarrow> rat option" where
  "volume_ratio cs = volume_ratio_over VOLUME_BASELINE_BARS cs"

definition regime_agreement :: "market_regime \<Rightarrow> setup_direction \<Rightarrow> rat" where
  "regime_agreement regime direction =
     (if regime = REGIME_UNKNOWN then 0
      else if (regime = TREND_UP \<and> direction = SETUP_LONG) \<or>
              (regime = TREND_DOWN \<and> direction = SETUP_SHORT) then 1
      else if (regime = TREND_DOWN \<and> direction = SETUP_LONG) \<or>
              (regime = TREND_UP \<and> direction = SETUP_SHORT) then 0
      else 5 / 10)"

definition volatility_fitness :: "rat option \<Rightarrow> rat" where
  "volatility_fitness atr_percent =
     (case atr_percent of
        None \<Rightarrow> 0
      | Some v \<Rightarrow>
          if v \<le> 0 then 0
          else if v < ATR_LOW_PERCENT then d_quot v ATR_LOW_PERCENT
          else if ATR_HIGH_PERCENT < v
          then clamp_unit (d_sub 1 (d_quot (d_sub v ATR_HIGH_PERCENT) ATR_HIGH_PERCENT))
          else 1)"

text \<open>\<^verbatim>\<open>by_name\<close> keeps the last condition of a name.\<close>

definition hits :: "condition_outcome list \<Rightarrow> string list \<Rightarrow> nat" where
  "hits conditions keys =
     length (filter (\<lambda>key. case find (\<lambda>c. co_name c = key) (rev conditions) of
                             None \<Rightarrow> False | Some c \<Rightarrow> co_satisfied c) keys)"

definition volume_norm :: "rat option \<Rightarrow> rat" where
  "volume_norm ratio = (case ratio of None \<Rightarrow> 0 | Some v \<Rightarrow> clamp_unit (d_quot v VOLUME_REFERENCE))"

definition score_setup ::
    "condition_outcome list \<Rightarrow> market_regime \<Rightarrow> setup_direction \<Rightarrow> risk_reward \<Rightarrow> rat option \<Rightarrow>
     rat option \<Rightarrow> setup_score result" where
  "score_setup conditions regime direction rr atr_percent ratio =
     (let trend_hits = hits conditions [''trend'', ''trend_strength''];
          momentum_hits = hits conditions [''momentum'', ''macd'']
      in bindE (mapE (\<lambda>(name, normalized, raw). score_component name normalized raw)
           [(''trend_alignment'', d_quot (of_nat trend_hits) 2, Some (of_nat trend_hits)),
            (''momentum_alignment'', d_quot (of_nat momentum_hits) 2, Some (of_nat momentum_hits)),
            (''regime_agreement'', regime_agreement regime direction, None),
            (''risk_reward'', clamp_unit (d_quot (rr_ratio rr) RR_REFERENCE), Some (rr_ratio rr)),
            (''volatility_fitness'', volatility_fitness atr_percent, atr_percent),
            (''volume_confirmation'', volume_norm ratio, ratio)]) (\<lambda>components.
         bindE (round_cent (contribution_total components)) (\<lambda>value.
         construct setup_score_valid
           \<lparr>ss_value = value, ss_components = components, ss_method = SETUP_METHOD\<rparr>)))"

subsection \<open>Building a setup\<close>

definition SETUP_INDICATORS :: "string list" where
  "SETUP_INDICATORS = REQUIRED_INDICATORS @ [''atr'', ''bollinger'']"

text \<open>The fields every exit of one evaluation shares, the others at the model's defaults.\<close>

definition blank_setup ::
    "candle list \<Rightarrow> string \<Rightarrow> timeframe \<Rightarrow> (string \<times> string \<times> rat option \<times> timestamp) option \<Rightarrow>
     setup_status \<Rightarrow> setup_direction \<Rightarrow> trade_setup" where
  "blank_setup cs symb tf provenance status direction =
     \<lparr>ts_symbol = symb, ts_timeframe = tf, ts_strategy = STRATEGY_KEY,
      ts_strategy_version = STRATEGY_VERSION, ts_status = status, ts_direction = direction,
      ts_score = None, ts_risk_reward = None, ts_regime = None, ts_conditions = [],
      ts_opposing_conditions = [], ts_indicators_used = SETUP_INDICATORS,
      ts_candles_used = length cs,
      ts_last_candle_time = (if cs = [] then None else Some (ca_close_time (last cs))),
      ts_data_source = map_option fst provenance,
      ts_data_status = map_option (fst \<circ> snd) provenance,
      ts_data_age_seconds = (case provenance of None \<Rightarrow> None | Some (s, st, age, t) \<Rightarrow> age),
      ts_evaluated_at = map_option (snd \<circ> snd \<circ> snd) provenance\<rparr>"

definition emit_setup :: "trade_setup \<Rightarrow> trade_setup result" where
  "emit_setup s = construct trade_setup_valid s"

definition directed_setup ::
    "candle list \<Rightarrow> setup_params \<Rightarrow> regime_assessment \<Rightarrow> setup_direction \<Rightarrow> trade_setup \<Rightarrow>
     trade_setup result" where
  "directed_setup cs p regime direction base =
     bindE (derive_risk_reward cs direction p (atr_percent_of regime)) (\<lambda>levels.
     case levels of
       None \<Rightarrow> emit_setup (base\<lparr>ts_status := NO_ACTIONABLE_SETUP\<rparr>)
     | Some rr \<Rightarrow>
         bindE (score_setup (ts_conditions base) (ra_regime regime) direction rr
                  (atr_percent_of regime) (volume_ratio cs)) (\<lambda>score.
         emit_setup (base\<lparr>ts_status := ACTIONABLE, ts_score := Some score,
                          ts_risk_reward := Some rr\<rparr>)))"

definition build_setup ::
    "candle list \<Rightarrow> string \<Rightarrow> timeframe \<Rightarrow> trend_params \<Rightarrow> setup_params \<Rightarrow>
     (string \<times> string \<times> rat option \<times> timestamp) option \<Rightarrow> trade_setup result" where
  "build_setup cs symb tf sp p provenance =
     (let blank = blank_setup cs symb tf provenance
      in bindE (compute_indicator_values cs sp) (\<lambda>values.
         case values of
           None \<Rightarrow> emit_setup (blank SETUP_INSUFFICIENT_DATA NO_SIGNAL)
         | Some v \<Rightarrow>
             (case evaluate_conditions v sp of (long, short, bias) \<Rightarrow>
                bindE (mk_regime_params (default_regime_params
                  \<lparr>rg_ema_fast := tp_ema_fast sp, rg_ema_slow := tp_ema_slow sp,
                   rg_adx_period := tp_adx_period sp\<rparr>)) (\<lambda>rp.
                bindE (classify_regime cs rp) (\<lambda>regime.
                case bias of
                  LONG_BIAS \<Rightarrow>
                    directed_setup cs p regime SETUP_LONG
                      ((blank NO_ACTIONABLE_SETUP SETUP_LONG)
                        \<lparr>ts_regime := Some regime, ts_conditions := long,
                         ts_opposing_conditions := short\<rparr>)
                | SHORT_BIAS \<Rightarrow>
                    directed_setup cs p regime SETUP_SHORT
                      ((blank NO_ACTIONABLE_SETUP SETUP_SHORT)
                        \<lparr>ts_regime := Some regime, ts_conditions := short,
                         ts_opposing_conditions := long\<rparr>)
                | NEUTRAL \<Rightarrow>
                    emit_setup ((blank NO_ACTIONABLE_SETUP NO_SIGNAL)
                      \<lparr>ts_regime := Some regime, ts_conditions := long,
                       ts_opposing_conditions := short\<rparr>))))))"

text \<open>The live evaluation: two conditions refuse, and both answer \<open>SETUP_STALE\<close>.\<close>

definition evaluate_setup ::
    "candle list \<Rightarrow> data_context \<Rightarrow> timestamp \<Rightarrow> trend_params \<Rightarrow> setup_params \<Rightarrow> trade_setup result"
where
  "evaluate_setup cs context now sp p =
     (let provenance = Some (dc_source context, dc_data_status context, dc_age_seconds context, now);
          stale = blank_setup cs (dc_symbol context) (dc_timeframe context) provenance SETUP_STALE NO_SIGNAL
      in if dc_data_status context \<noteq> ''OK'' then emit_setup stale
         else if dc_age_seconds context = None then emit_setup stale
         else build_setup cs (dc_symbol context) (dc_timeframe context) sp p provenance)"

end
