(* ===== verification/Brains.thy ===== *)
theory Brains
  imports PositionFacts Setup
begin

section \<open>The brains\<close>

text \<open>
  \<^verbatim>\<open>analysis/position/brains.py\<close>: eight independent readings of one open position, each a verdict
  with the evidence rows it rests on, or unavailable.
\<close>

definition TARGET_PROXIMITY :: rat where "TARGET_PROXIMITY = 80 / 100"
definition STOP_PROXIMITY_R :: rat where "STOP_PROXIMITY_R = 25 / 100"
definition VOLUME_FADE :: rat where "VOLUME_FADE = 60 / 100"

record position_observation =
  ob_position :: paper_position
  ob_metrics :: position_metrics
  ob_now :: timestamp
  ob_candles :: "candle list option"
  ob_regime :: "regime_assessment option"
  ob_strategy_params :: trend_params
  ob_risk_lock :: risk_lock_state
  ob_risk_lock_reason :: "string option"
  ob_unreconciled_orders :: int

definition ob_is_long :: "position_observation \<Rightarrow> bool" where
  "ob_is_long x \<longleftrightarrow> pp_side (ob_position x) = LONG"

definition ob_mark :: "position_observation \<Rightarrow> rat option" where
  "ob_mark x = pp_mark_price (ob_position x)"

definition reading ::
    "brain_name \<Rightarrow> brain_state \<Rightarrow> evidence_row list \<Rightarrow> data_quality \<Rightarrow> brain_source \<Rightarrow>
     position_observation \<Rightarrow> brain_result" where
  "reading brain state rows quality source x =
     \<lparr>br_brain = brain, br_state = state, br_evidence = rows, br_data_quality = quality,
      br_source = source, br_observed_at = ob_now x\<rparr>"

definition row :: "string \<Rightarrow> bool option \<Rightarrow> evidence_row" where
  "row name satisfied = \<lparr>ev_name = name, ev_satisfied = satisfied\<rparr>"

definition unavailable :: "brain_name \<Rightarrow> position_observation \<Rightarrow> string \<Rightarrow> brain_result" where
  "unavailable brain x name =
     reading brain BRAIN_UNAVAILABLE [row name None] QUALITY_UNAVAILABLE
       (OfMark (pp_mark_source (ob_position x))) x"

subsection \<open>Market\<close>

definition market_brain :: "position_observation \<Rightarrow> brain_result" where
  "market_brain x =
     (let p = ob_position x in
      if pp_mark_price p = None then unavailable BRAIN_MARKET x ''mark_usable''
      else let fine = (pp_mark_status p = Some OK);
               quality = (if fine then QUALITY_OK else DEGRADED)
           in reading BRAIN_MARKET (if quality = QUALITY_OK then SUPPORTIVE else BRAIN_NEUTRAL)
                [row ''mark_usable'' (Some True), row ''mark_status'' (Some fine)]
                quality (OfMark (pp_mark_source p)) x)"

subsection \<open>Technical\<close>

definition current_conditions :: "position_observation \<Rightarrow> condition_outcome list option result" where
  "current_conditions x =
     (case ob_candles x of
        None \<Rightarrow> Inr None
      | Some cs \<Rightarrow>
          if cs = [] then Inr None
          else bindE (compute_indicator_values cs (ob_strategy_params x)) (\<lambda>values.
            case values of
              None \<Rightarrow> Inr None
            | Some v \<Rightarrow>
                (case evaluate_conditions v (ob_strategy_params x) of
                   (long, short, bias) \<Rightarrow> Inr (Some (if ob_is_long x then long else short)))))"

text \<open>\<^verbatim>\<open>now_by_name\<close> keeps the last condition of a name.\<close>

definition condition_named :: "condition_outcome list \<Rightarrow> string \<Rightarrow> condition_outcome option" where
  "condition_named now name = find (\<lambda>c. co_name c = name) (rev now)"

definition recheck :: "condition_outcome list \<Rightarrow> condition_outcome \<Rightarrow> evidence_row" where
  "recheck now original =
     row (co_name original) (map_option co_satisfied (condition_named now (co_name original)))"

definition conditions_held :: "condition_outcome list \<Rightarrow> condition_outcome list \<Rightarrow> nat" where
  "conditions_held now original =
     length (filter (\<lambda>c. ev_satisfied (recheck now c) = Some True) original)"

definition thesis_verdict :: "nat \<Rightarrow> nat \<Rightarrow> brain_state" where
  "thesis_verdict held originals =
     (if held = originals then SUPPORTIVE else if held * 3 \<le> originals then ADVERSE else WEAKENING)"

definition technical_brain :: "position_observation \<Rightarrow> brain_result result" where
  "technical_brain x =
     (case Option.bind (pp_thesis (ob_position x)) th_strategy of
        None \<Rightarrow> Inr (unavailable BRAIN_TECHNICAL x ''entry_conditions_recorded'')
      | Some context \<Rightarrow>
          let original = sx_entry_conditions context in
          if original = [] then Inr (unavailable BRAIN_TECHNICAL x ''entry_conditions_recorded'')
          else bindE (current_conditions x) (\<lambda>current.
            case current of
              None \<Rightarrow> Inr (unavailable BRAIN_TECHNICAL x ''indicators_available'')
            | Some now \<Rightarrow>
                Inr (reading BRAIN_TECHNICAL
                       (thesis_verdict (conditions_held now original) (length original))
                       (map (recheck now) original) QUALITY_OK
                       (Named (sx_data_source context)) x)))"

subsection \<open>Regime\<close>

definition supportive_regime :: "bool \<Rightarrow> market_regime" where
  "supportive_regime long = (if long then TREND_UP else TREND_DOWN)"

definition opposing_regime :: "bool \<Rightarrow> market_regime" where
  "opposing_regime long = (if long then TREND_DOWN else TREND_UP)"

definition entry_regime_of :: "position_observation \<Rightarrow> market_regime option" where
  "entry_regime_of x =
     Option.bind (Option.bind (pp_thesis (ob_position x)) th_strategy) sx_regime"

definition regime_brain :: "position_observation \<Rightarrow> brain_result" where
  "regime_brain x =
     (case ob_regime x of
        None \<Rightarrow> unavailable BRAIN_REGIME x ''regime_classified''
      | Some a \<Rightarrow>
          let current = ra_regime a; long = ob_is_long x in
          if current = REGIME_UNKNOWN then unavailable BRAIN_REGIME x ''regime_classified''
          else reading BRAIN_REGIME
                 (if current = opposing_regime long then ADVERSE
                  else if current = supportive_regime long then SUPPORTIVE else BRAIN_NEUTRAL)
                 ([row ''regime_now'' (Some (current = supportive_regime long)),
                   row ''volatility_band'' None] @
                  (case entry_regime_of x of
                     None \<Rightarrow> []
                   | Some e \<Rightarrow> [row ''regime_since_entry'' (Some (current = e))]))
                 QUALITY_OK (Named (Some (ra_method a))) x)"

subsection \<open>Momentum and volume\<close>

definition relative_volume :: "candle list \<Rightarrow> rat option" where
  "relative_volume cs = volume_ratio_over 20 cs"

definition latest_value :: "indicator_result list \<Rightarrow> string \<Rightarrow> string \<Rightarrow> rat option" where
  "latest_value results key field =
     (case find (\<lambda>r. ir_indicator r = key) results of None \<Rightarrow> None | Some r \<Rightarrow> latest_of r field)"

text \<open>Whether a reading supports the side: above the midline for a long, below it for a short.\<close>

definition supports_side :: "bool \<Rightarrow> rat \<Rightarrow> rat \<Rightarrow> bool" where
  "supports_side long midline v \<longleftrightarrow> (if long then midline < v else v < midline)"

definition momentum_rows :: "bool \<Rightarrow> rat option \<Rightarrow> rat option \<Rightarrow> rat option \<Rightarrow> evidence_row list" where
  "momentum_rows long histogram roc_value rsi_val =
     (case histogram of None \<Rightarrow> [] | Some v \<Rightarrow> [row ''macd_histogram'' (Some (supports_side long 0 v))]) @
     (case roc_value of None \<Rightarrow> [] | Some v \<Rightarrow> [row ''rate_of_change'' (Some (supports_side long 0 v))]) @
     (case rsi_val of None \<Rightarrow> [] | Some v \<Rightarrow> [row ''rsi'' (Some (supports_side long 50 v))])"

definition volume_row :: "rat option \<Rightarrow> evidence_row" where
  "volume_row ratio = row ''relative_volume'' (map_option (\<lambda>v. \<not> v \<le> VOLUME_FADE) ratio)"

definition momentum_state :: "nat \<Rightarrow> nat \<Rightarrow> brain_state" where
  "momentum_state measured against =
     (if measured = 0 then BRAIN_UNAVAILABLE
      else if against = 0 then SUPPORTIVE
      else if against = measured then ADVERSE else WEAKENING)"

definition momentum_volume_brain :: "position_observation \<Rightarrow> brain_result result" where
  "momentum_volume_brain x =
     (case ob_candles x of
        None \<Rightarrow> Inr (unavailable BRAIN_MOMENTUM_VOLUME x ''candles_available'')
      | Some cs \<Rightarrow>
          if cs = [] then Inr (unavailable BRAIN_MOMENTUM_VOLUME x ''candles_available'')
          else let sp = ob_strategy_params x in
            bindE (mk_params (default_params
              \<lparr>rsi_period := tp_rsi_period sp, macd_fast := tp_macd_fast sp,
               macd_slow := tp_macd_slow sp, macd_signal := tp_macd_signal sp\<rparr>)) (\<lambda>params.
            bindE (calculate_indicators cs [''rsi'', ''macd'', ''roc''] params 0) (\<lambda>results.
            let rsi_val = latest_value results ''rsi'' ''rsi'';
                histogram = latest_value results ''macd'' ''histogram'';
                roc_value = latest_value results ''roc'' ''roc''
            in if rsi_val = None \<and> histogram = None \<and> roc_value = None
               then Inr (unavailable BRAIN_MOMENTUM_VOLUME x ''indicators_available'')
               else let rows = momentum_rows (ob_is_long x) histogram roc_value rsi_val;
                        measured = length rows;
                        against = length (filter (\<lambda>r. ev_satisfied r = Some False) rows)
                    in Inr (reading BRAIN_MOMENTUM_VOLUME (momentum_state measured against)
                              (rows @ [volume_row (relative_volume cs)])
                              (if measured = 3 then QUALITY_OK else DEGRADED)
                              (OfMark (pp_mark_source (ob_position x))) x))))"

subsection \<open>Structure, deliberately unbuilt\<close>

definition structure_brain :: "position_observation \<Rightarrow> brain_result" where
  "structure_brain x =
     reading BRAIN_STRUCTURE BRAIN_UNAVAILABLE [row ''smc_capability'' None] QUALITY_UNAVAILABLE
       (Named None) x"

subsection \<open>Position\<close>

definition near_target :: "paper_position \<Rightarrow> rat \<Rightarrow> rat \<Rightarrow> bool" where
  "near_target p mark target =
     (let span = d_abs (d_sub target (pp_entry_price p));
          travelled = d_abs (d_sub mark (pp_entry_price p))
      in 0 < span \<and> TARGET_PROXIMITY \<le> d_quot travelled span)"

definition target_row :: "position_observation \<Rightarrow> rat \<Rightarrow> evidence_row list" where
  "target_row x mark =
     (case pm_target_distance_percent (ob_metrics x) of
        None \<Rightarrow> []
      | Some d \<Rightarrow>
          (case pp_target_price (ob_position x) of
             None \<Rightarrow> []
           | Some target \<Rightarrow>
               [row ''target_proximity'' (Some (near_target (ob_position x) mark target))]))"

definition near_stop :: "position_observation \<Rightarrow> bool" where
  "near_stop x \<longleftrightarrow>
     (case pm_remaining_r (ob_metrics x) of None \<Rightarrow> False | Some r \<Rightarrow> r \<le> STOP_PROXIMITY_R)"

definition position_brain :: "position_observation \<Rightarrow> brain_result" where
  "position_brain x =
     (case ob_mark x of
        None \<Rightarrow> unavailable BRAIN_POSITION x ''mark_usable''
      | Some mark \<Rightarrow>
          let target = target_row x mark;
              at_target = (\<exists>r \<in> set target. ev_satisfied r = Some True)
          in reading BRAIN_POSITION
               (if near_stop x then ADVERSE else if at_target then WEAKENING else BRAIN_NEUTRAL)
               ([row ''unrealized_pnl'' None, row ''time_in_trade'' None, row ''mfe'' None,
                 row ''mae'' None] @ target @
                [row ''remaining_r''
                   (map_option (\<lambda>r. \<not> r \<le> STOP_PROXIMITY_R) (pm_remaining_r (ob_metrics x)))])
               QUALITY_OK (OfMark (pp_mark_source (ob_position x))) x)"

subsection \<open>Risk\<close>

definition risk_blocked :: "position_observation \<Rightarrow> bool" where
  "risk_blocked x \<longleftrightarrow> blocks_entries (ob_risk_lock x) \<or> 0 < ob_unreconciled_orders x"

definition risk_brain :: "position_observation \<Rightarrow> brain_result" where
  "risk_brain x =
     (let stop_recorded = (pp_stop_price (ob_position x) \<noteq> None)
      in reading BRAIN_RISK
           (if \<not> risk_blocked x \<and> \<not> stop_recorded then WEAKENING
            else if risk_blocked x then ADVERSE else SUPPORTIVE)
           [row ''risk_lock'' (Some (\<not> blocks_entries (ob_risk_lock x))),
            row ''reconciliation'' (Some (ob_unreconciled_orders x = 0)),
            row ''liquidation_distance'' None, row ''stop_present'' (Some stop_recorded)]
           QUALITY_OK (Named (Some ''risk-engine'')) x)"

subsection \<open>Exit\<close>

definition result_named :: "brain_result list \<Rightarrow> brain_name \<Rightarrow> brain_result option" where
  "result_named results name = find (\<lambda>r. br_brain r = name) (rev results)"

definition state_named :: "brain_result list \<Rightarrow> brain_name \<Rightarrow> brain_state option" where
  "state_named results name = map_option br_state (result_named results name)"

definition exit_brain :: "position_observation \<Rightarrow> brain_result list \<Rightarrow> brain_result" where
  "exit_brain x upstream =
     (let technical = state_named upstream BRAIN_TECHNICAL;
          regime = state_named upstream BRAIN_REGIME;
          thesis_broken = (technical = Some ADVERSE);
          regime_opposed = (regime = Some ADVERSE);
          momentum_opposed = (state_named upstream BRAIN_MOMENTUM_VOLUME = Some ADVERSE);
          levels_violated = (state_named upstream BRAIN_POSITION = Some ADVERSE);
          confirmed = (thesis_broken \<and> (regime_opposed \<or> momentum_opposed \<or> levels_violated));
          state = (if confirmed then ADVERSE
                   else if thesis_broken \<or> regime_opposed \<or> technical = Some WEAKENING then WEAKENING
                   else if technical = None \<or> technical = Some BRAIN_UNAVAILABLE
                   then BRAIN_UNAVAILABLE else SUPPORTIVE)
      in reading BRAIN_EXIT state
           [row ''thesis_conditions'' (map_option (\<lambda>s. s = SUPPORTIVE) technical),
            row ''regime_opposed''
              (case regime of
                 None \<Rightarrow> None
               | Some s \<Rightarrow> if state_measured s then Some (\<not> regime_opposed) else None),
            row ''position_levels'' (Some (\<not> levels_violated)),
            row ''confirmed_reversal'' (Some (\<not> confirmed))]
           (if state = BRAIN_UNAVAILABLE then QUALITY_UNAVAILABLE else QUALITY_OK)
           (Named (Some ''position-intelligence'')) x)"

end
