(* ===== verification/Orchestrator.thy ===== *)
theory Orchestrator
  imports Brains
begin

section \<open>The decision ladder\<close>

text \<open>
  \<^verbatim>\<open>analysis/position/orchestrator.py\<close>: every brain is run and a fixed ladder returns the first
  condition that matches. A reason is the sentence's kind with what it names; an evidence row whose
  text is quoted is given by its name.
\<close>

datatype advice_reason =
    LockText string
  | OrdersAwait int
  | LockEngaged risk_lock_state
  | RiskTakesPrecedence
  | Quoted brain_name string
  | NothingReadable
  | NotDecidedUnread
  | ThesisIsTheQuestion
  | ConfirmedReversal
  | AdverseUnconfirmed
  | NoConditionHolds
  | RegimeOpposes
  | MostlyCovered
  | SomeConditionsFailed
  | EveryConditionHolds
  | NoStopRecorded
  | ProfitNotAReason rat

record position_intelligence =
  pn_symbol :: string
  pn_position_id :: string
  pn_decision :: position_decision
  pn_thesis_state :: thesis_state
  pn_reasons :: "advice_reason list"
  pn_brain_results :: "brain_result list"
  pn_thesis_alignment :: "thesis_alignment option"
  pn_risk_state :: risk_lock_state
  pn_data_quality :: data_quality
  pn_evaluated_at :: timestamp
  pn_partial_exit_available :: bool
  pn_unavailable_capabilities :: "string list"

definition UNAVAILABLE_CAPABILITIES :: "string list" where
  "UNAVAILABLE_CAPABILITIES = [''PARTIAL_EXIT'', ''STRUCTURE/SMC'', ''AUTONOMOUS_EXECUTION'']"

definition alignment :: "brain_result \<Rightarrow> thesis_alignment option result" where
  "alignment technical =
     (if \<not> state_measured (br_state technical) then Inr None
      else let checked = filter (\<lambda>r. ev_satisfied r \<noteq> None) (br_evidence technical)
           in if checked = [] then Inr None
              else let held = length (filter (\<lambda>r. ev_satisfied r = Some True) checked)
                   in bindE (quantize ROUND_HALF_UP 2
                        (d_mul (d_quot (of_nat held) (of_nat (length checked))) 100)) (\<lambda>value.
                      bindE (construct thesis_alignment_valid
                        \<lparr>tl_value = value, tl_conditions_held = held,
                         tl_conditions_total = length checked\<rparr>) (\<lambda>a. Inr (Some a))))"

definition risk_note :: "position_observation \<Rightarrow> advice_reason list" where
  "risk_note x =
     (case pm_unrealized_pnl (ob_metrics x) of
        None \<Rightarrow> []
      | Some pnl \<Rightarrow> if 0 < pnl then [ProfitNotAReason pnl] else [])"

text \<open>\<^verbatim>\<open>reason or (...)\<close>: an empty text counts as none.\<close>

definition blocked_reason :: "position_observation \<Rightarrow> advice_reason" where
  "blocked_reason x =
     (case ob_risk_lock_reason x of
        Some (c # cs) \<Rightarrow> LockText (c # cs)
      | _ \<Rightarrow> if ob_unreconciled_orders x \<noteq> 0 then OrdersAwait (ob_unreconciled_orders x)
             else LockEngaged (ob_risk_lock x))"

definition first_row :: "brain_result \<Rightarrow> advice_reason" where
  "first_row r =
     (case br_evidence r of [] \<Rightarrow> NothingReadable | e # es \<Rightarrow> Quoted (br_brain r) (ev_name e))"

type_synonym advice = "position_decision \<times> thesis_state \<times> advice_reason list"

text \<open>The ladder over the results of the brains; the first rung that applies decides.\<close>

definition resolve ::
    "position_observation \<Rightarrow> brain_result \<Rightarrow> brain_result \<Rightarrow> brain_result \<Rightarrow> brain_result \<Rightarrow>
     brain_result \<Rightarrow> brain_result \<Rightarrow> advice" where
  "resolve x market technical regime position risk exit_result =
     (if risk_blocked x then
        (BLOCKED_BY_RISK, THESIS_BLOCKED_BY_RISK, [blocked_reason x, RiskTakesPrecedence])
      else if \<not> brain_usable market then
        (DECISION_INSUFFICIENT_DATA, THESIS_INSUFFICIENT_DATA, [first_row market, NotDecidedUnread])
      else if \<not> state_measured (br_state technical) then
        (DECISION_INSUFFICIENT_DATA, THESIS_INSUFFICIENT_DATA,
         [first_row technical, ThesisIsTheQuestion])
      else if br_state exit_result = ADVERSE then
        (EXIT, THESIS_EXIT_CONDITION_MET,
         ConfirmedReversal #
         map (\<lambda>e. Quoted BRAIN_EXIT (ev_name e))
           (filter (\<lambda>e. ev_satisfied e = Some False) (br_evidence exit_result)))
      else if br_state technical = ADVERSE \<or> br_state regime = ADVERSE then
        (PROTECT, THESIS_REVERSAL_WARNING,
         AdverseUnconfirmed # (if br_state technical = ADVERSE then [NoConditionHolds] else []) @
         (if br_state regime = ADVERSE then [RegimeOpposes] else []))
      else if \<exists>e \<in> set (br_evidence position).
                ev_name e = ''target_proximity'' \<and> ev_satisfied e = Some True then
        (TRAIL, THESIS_TARGET_APPROACHING, [MostlyCovered])
      else if br_state technical = WEAKENING \<or> br_state exit_result = WEAKENING then
        (HOLD, THESIS_WEAKENING, SomeConditionsFailed # risk_note x)
      else
        (HOLD, THESIS_VALID,
         EveryConditionHolds # (if br_state risk = WEAKENING then [NoStopRecorded] else []) @
         risk_note x))"

definition worst_quality :: "brain_result list \<Rightarrow> data_quality" where
  "worst_quality results =
     (let qualities = map br_data_quality (filter (\<lambda>r. br_brain r \<noteq> BRAIN_STRUCTURE) results)
      in if QUALITY_UNAVAILABLE \<in> set qualities then QUALITY_UNAVAILABLE
         else if DEGRADED \<in> set qualities then DEGRADED else QUALITY_OK)"

definition evaluate_position :: "position_observation \<Rightarrow> position_intelligence result" where
  "evaluate_position x =
     (let market = market_brain x; regime = regime_brain x; structure = structure_brain x;
          position = position_brain x; risk = risk_brain x
      in bindE (technical_brain x) (\<lambda>technical.
         bindE (momentum_volume_brain x) (\<lambda>momentum.
         let upstream = [market, technical, regime, momentum, structure, position, risk];
             exit_result = exit_brain x upstream;
             results = upstream @ [exit_result]
         in case resolve x market technical regime position risk exit_result of
              (advised, state, reasons) \<Rightarrow>
                bindE (alignment technical) (\<lambda>aligned.
                Inr \<lparr>pn_symbol = pp_symbol (ob_position x),
                     pn_position_id = pp_position_id (ob_position x),
                     pn_decision = advised, pn_thesis_state = state, pn_reasons = reasons,
                     pn_brain_results = results, pn_thesis_alignment = aligned,
                     pn_risk_state = ob_risk_lock x, pn_data_quality = worst_quality results,
                     pn_evaluated_at = ob_now x, pn_partial_exit_available = False,
                     pn_unavailable_capabilities = UNAVAILABLE_CAPABILITIES\<rparr>))))"

end
