(* ===== verification/RegimeLaws.thy ===== *)
theory RegimeLaws
  imports Regime StrategyLaws
begin

section \<open>What a classification reads\<close>

text \<open>
  A classification is always produced, from the last value of five lines; the lines of a prefix end
  where the lines of the whole history pass, so a classification never looks ahead.
\<close>

lemma single_line_latest:
  assumes c: "sp_compute spec cs q = Inr (one_line key s)" "sp_value_keys spec = [key]"
    and st: "length s = length cs" "starts (sp_warmup spec q) s" and cs: "cs \<noteq> []"
  shows "\<exists>r. build_result spec cs q limit = Inr r \<and> ir_indicator r = sp_key spec \<and>
    latest_of r key = s ! (length cs - 1)"
proof -
  have i: "length cs - 1 < length cs" using cs by (cases cs) simp_all
  have "s ! (length cs - 1) = None" if "length cs \<le> sp_warmup spec q"
    using that startsD [OF st(2), of "length cs - 1"] st(1) i
    by (cases "s ! (length cs - 1)") auto
  then show ?thesis
    using build_result_latest [OF c(1), of key limit] c(2) by (auto simp: one_line_def)
qed

lemma atr_latest:
  assumes "1 \<le> atr_period q" "cs \<noteq> []"
  shows "\<exists>r. build_result spec_atr cs q limit = Inr r \<and> ir_indicator r = ''atr'' \<and>
    latest_of r ''atr'' = wilder_series (true_ranges cs) (atr_period q) 1 ! (length cs - 1)"
proof -
  let ?s = "wilder_series (true_ranges cs) (atr_period q) 1"
  have s: "atr cs (atr_period q) = Inr ?s" using assms(1) by (simp add: atr_def wilder_total)
  show ?thesis
    using single_line_latest [of spec_atr cs q "''atr''" ?s limit] atr_starts [OF assms(1) s] assms(2)
    by (simp add: spec_atr_def s)
qed

lemma bands_latest:
  assumes p: "1 \<le> bb_period q" "cs \<noteq> []" and b: "bollinger_bands cs (bb_period q) (bb_deviations q) = Inr b"
  shows "\<exists>r. build_result spec_bollinger cs q limit = Inr r \<and> ir_indicator r = ''bollinger'' \<and>
    latest_of r ''upper'' = bn_upper b ! (length cs - 1) \<and>
    latest_of r ''middle'' = bn_middle b ! (length cs - 1) \<and>
    latest_of r ''lower'' = bn_lower b ! (length cs - 1)"
proof -
  let ?i = "length cs - 1"
  note st = bands_start [OF p(1) b]
  have i: "?i < length cs" using p(2) by (cases cs) simp_all
  have c: "sp_compute spec_bollinger cs q =
      Inr [(''upper'', bn_upper b), (''middle'', bn_middle b), (''lower'', bn_lower b)]"
    by (simp add: spec_bollinger_def b)
  have d: "(bn_upper b ! ?i \<noteq> None) = (bb_period q - 1 \<le> ?i)" "(bn_middle b ! ?i \<noteq> None) = (bb_period q - 1 \<le> ?i)"
      "(bn_lower b ! ?i \<noteq> None) = (bb_period q - 1 \<le> ?i)"
    using startsD [OF st(1)] startsD [OF st(2)] startsD [OF st(3)] st(4-6) i by simp_all
  have "\<exists>r. build_result spec_bollinger cs q limit = Inr r \<and> ir_indicator r = ''bollinger'' \<and>
      latest_of r key = the (map_of [(''upper'', bn_upper b), (''middle'', bn_middle b), (''lower'', bn_lower b)] key) ! ?i"
    if key: "key \<in> {''upper'', ''middle'', ''lower''}" for key
    using build_result_latest [OF c, of key limit] key d i
    by (cases "bb_period q - 1 \<le> ?i") (auto simp: spec_bollinger_def)
  from this [of "''upper''"] this [of "''middle''"] this [of "''lower''"]
  show ?thesis by auto
qed

definition regime_params_valid :: "regime_params \<Rightarrow> bool" where
  "regime_params_valid p \<longleftrightarrow>
     in_range 2 400 (rg_ema_fast p) \<and> in_range 2 400 (rg_ema_slow p) \<and> rg_ema_fast p < rg_ema_slow p \<and>
     in_range 2 200 (rg_adx_period p) \<and> in_range 2 200 (rg_atr_period p) \<and> in_range 2 400 (rg_bb_period p)"

definition inputs_at ::
    "candle list \<Rightarrow> regime_params \<Rightarrow> adx_lines \<Rightarrow> bands \<Rightarrow> nat \<Rightarrow> regime_inputs" where
  "inputs_at cs p trend b i =
     \<lparr>rx_fast = ema_series (map Some (closes cs)) (rg_ema_fast p) ! i,
      rx_slow = ema_series (map Some (closes cs)) (rg_ema_slow p) ! i,
      rx_adx = al_adx trend ! i,
      rx_atr_percent = percent_of_close (ca_close (cs ! i)) (wilder_series (true_ranges cs) (rg_atr_period p) 1 ! i),
      rx_bb_width = band_width (bn_upper b ! i) (bn_lower b ! i) (bn_middle b ! i)\<rparr>"

lemma regime_specs:
  "List.map_filter get_spec [''ema'', ''adx'', ''atr'', ''bollinger''] =
     [spec_ema, spec_adx, spec_atr, spec_bollinger]"
  by (simp add: get_spec_def INDICATORS_def List.map_filter_simps)

lemma bollinger_total: "1 \<le> period \<Longrightarrow> \<exists>b. bollinger_bands cs period dev = Inr b"
  by (simp add: bollinger_bands_def sma_def Let_def)

lemma regime_inputs_last:
  assumes p: "regime_params_valid p" and cs: "cs \<noteq> []"
    and lines: "adx cs (rg_adx_period p) = Inr trend" "bollinger_bands cs (rg_bb_period p) 2 = Inr b"
  shows "regime_inputs_of cs p = Inr (inputs_at cs p trend b (length cs - 1))"
proof -
  define q where "q = default_params\<lparr>ema_period := rg_ema_fast p, adx_period := rg_adx_period p,
        atr_period := rg_atr_period p, bb_period := rg_bb_period p\<rparr>"
  define q' where "q' = default_params\<lparr>ema_period := rg_ema_slow p\<rparr>"
  have mk: "mk_params q = Inr q" "mk_params q' = Inr q'"
    using p by (simp_all add: q_def q'_def mk_params_def params_valid_def default_params_def
        regime_params_valid_def in_range_def)
  have f: "ema_period q = rg_ema_fast p" "adx_period q = rg_adx_period p" "atr_period q = rg_atr_period p"
      "bb_period q = rg_bb_period p" "bb_deviations q = 2" "ema_period q' = rg_ema_slow p"
    by (simp_all add: q_def q'_def default_params_def)
  have one: "1 \<le> ema_period q" "1 \<le> ema_period q'" "1 \<le> adx_period q" "1 \<le> atr_period q" "1 \<le> bb_period q"
    using p by (simp_all add: f regime_params_valid_def in_range_def)
  obtain r where r:
    "build_result spec_ema cs q 0 = Inr r" "ir_indicator r = ''ema''"
    "latest_of r ''ema'' = ema_series (map Some (closes cs)) (rg_ema_fast p) ! (length cs - 1)"
    using ema_latest [OF one(1) cs] unfolding f by blast
  obtain r' where r':
    "build_result spec_ema cs q' 0 = Inr r'"
    "latest_of r' ''ema'' = ema_series (map Some (closes cs)) (rg_ema_slow p) ! (length cs - 1)"
    using ema_latest [OF one(2) cs] unfolding f by blast
  obtain a where a: "build_result spec_adx cs q 0 = Inr a" "ir_indicator a = ''adx''"
    "latest_of a ''adx'' = al_adx trend ! (length cs - 1)"
    using adx_latest [OF one(3) cs, unfolded f, OF lines(1)] by blast
  obtain t where t: "build_result spec_atr cs q 0 = Inr t" "ir_indicator t = ''atr''"
    "latest_of t ''atr'' = wilder_series (true_ranges cs) (rg_atr_period p) 1 ! (length cs - 1)"
    using atr_latest [OF one(4) cs] unfolding f by blast
  obtain d where d: "build_result spec_bollinger cs q 0 = Inr d" "ir_indicator d = ''bollinger''"
    "latest_of d ''upper'' = bn_upper b ! (length cs - 1)"
    "latest_of d ''middle'' = bn_middle b ! (length cs - 1)"
    "latest_of d ''lower'' = bn_lower b ! (length cs - 1)"
    using bands_latest [OF one(5) cs, unfolded f, OF lines(2)] by blast
  have fast: "calculate_indicators cs [''ema'', ''adx'', ''atr'', ''bollinger''] q 0 = Inr [r, a, t, d]"
    and slow: "calculate_indicators cs [''ema''] q' 0 = Inr [r']"
    unfolding calculate_indicators_def regime_specs required_specs
    by (simp_all add: r r' a t d MAX_SERIES_LIMIT_def)
  show ?thesis
    unfolding regime_inputs_of_def q_def [symmetric] q'_def [symmetric] mk
    by (simp add: fast slow by_key_def r r' a t d inputs_at_def cs last_conv_nth)
qed

lemma classify_regime_last:
  assumes "regime_params_valid p" "cs \<noteq> []"
    "adx cs (rg_adx_period p) = Inr trend" "bollinger_bands cs (rg_bb_period p) 2 = Inr b"
  shows "classify_regime cs p = Inr (assess (length cs) (inputs_at cs p trend b (length cs - 1)))"
  using regime_inputs_last [OF assms] assms(2) by (simp add: classify_regime_def)

lemma classify_regime_total:
  assumes "regime_params_valid p"
  shows "\<exists>a. classify_regime cs p = Inr a"
proof (cases "cs = []")
  case True
  then show ?thesis by (simp add: classify_regime_def)
next
  case False
  have "1 \<le> rg_adx_period p" "1 \<le> rg_bb_period p"
    using assms by (simp_all add: regime_params_valid_def in_range_def)
  with classify_regime_last [OF assms False] adx_total bollinger_total show ?thesis by metis
qed

lemma ema_series_take: "ema_series (map Some (closes (take n cs))) k = take n (ema_series (map Some (closes cs)) k)"
  using causal_take [OF causal_ema, where n = n and xs = "map Some (closes cs)"] by (simp add: closes_take)

lemma inputs_at_take:
  assumes p: "regime_params_valid p" and i: "i < length cs"
    and lines: "adx cs (rg_adx_period p) = Inr trend" "bollinger_bands cs (rg_bb_period p) 2 = Inr b"
  shows "classify_regime (take (i + 1) cs) p = Inr (assess (i + 1) (inputs_at cs p trend b i))"
proof -
  let ?n = "i + 1"
  have one: "1 \<le> rg_atr_period p" using p by (simp add: regime_params_valid_def in_range_def)
  have len: "length (take ?n cs) = ?n" "take ?n cs \<noteq> []" using i by auto
  have t: "adx (take ?n cs) (rg_adx_period p) = Inr (cut_adx ?n trend)"
    "bollinger_bands (take ?n cs) (rg_bb_period p) 2 = Inr (cut_bands ?n b)"
    unfolding adx_take bands_take lines by simp_all
  have w: "wilder_series (true_ranges (take ?n cs)) (rg_atr_period p) 1 =
      take ?n (wilder_series (true_ranges cs) (rg_atr_period p) 1)"
    using atr_take [of ?n cs "rg_atr_period p"] one by (simp add: atr_def wilder_total)
  have "inputs_at (take ?n cs) p (cut_adx ?n trend) (cut_bands ?n b) i = inputs_at cs p trend b i"
    unfolding inputs_at_def w ema_series_take
    by (simp add: cut_adx_def cut_bands_def)
  then show ?thesis
    using classify_regime_last [OF p len(2) t] unfolding len(1) by simp
qed

text \<open>A regime is only ever known once every required line has warmed up.\<close>

lemma regime_known_iff:
  "ra_regime (assess n x) \<noteq> REGIME_UNKNOWN \<longleftrightarrow>
   rx_adx x \<noteq> None \<and> rx_fast x \<noteq> None \<and> rx_slow x \<noteq> None \<and> rx_atr_percent x \<noteq> None"
  by (auto simp: assess_def regime_verdict_def regime_rule_def Let_def split: option.splits)

lemma regime_known_warm:
  assumes p: "regime_params_valid p" and cs: "cs \<noteq> []" and a: "classify_regime cs p = Inr a"
    and known: "ra_regime a \<noteq> REGIME_UNKNOWN"
  shows "rg_ema_slow p \<le> length cs" "2 * rg_adx_period p \<le> length cs" "rg_atr_period p < length cs"
    "0 < ca_close (last cs)"
proof -
  have one: "1 \<le> rg_adx_period p" "1 \<le> rg_bb_period p" "1 \<le> rg_ema_slow p" "1 \<le> rg_atr_period p"
    using p by (simp_all add: regime_params_valid_def in_range_def)
  obtain trend b where l: "adx cs (rg_adx_period p) = Inr trend" "bollinger_bands cs (rg_bb_period p) 2 = Inr b"
    using adx_total [OF one(1)] bollinger_total [OF one(2)] by metis
  let ?i = "length cs - 1"
  have i: "?i < length cs" using cs by (cases cs) simp_all
  have d: "al_adx trend ! ?i \<noteq> None" "ema_series (map Some (closes cs)) (rg_ema_slow p) ! ?i \<noteq> None"
      "percent_of_close (ca_close (cs ! ?i)) (wilder_series (true_ranges cs) (rg_atr_period p) 1 ! ?i) \<noteq> None"
    using known classify_regime_last [OF p cs l] a unfolding regime_known_iff [of "length cs"]
    by (auto simp: regime_known_iff inputs_at_def)
  show "2 * rg_adx_period p \<le> length cs"
    using adx_defined [OF one(1) l(1) i d(1)] i by linarith
  have "rg_ema_slow p - 1 \<le> ?i"
    using ema_line_starts [OF one(3) ema_total [OF one(3)]] startsD d(2) i by metis
  then show "rg_ema_slow p \<le> length cs" using i one(3) by linarith
  have w: "wilder_series (true_ranges cs) (rg_atr_period p) 1 ! ?i \<noteq> None" and c: "0 < ca_close (cs ! ?i)"
    using d(3) by (auto simp: percent_of_close_def split: option.splits if_splits)
  have s: "atr cs (rg_atr_period p) = Inr (wilder_series (true_ranges cs) (rg_atr_period p) 1)"
    using one(4) by (simp add: atr_def wilder_total)
  have "rg_atr_period p \<le> ?i"
    using atr_starts [OF one(4) s] startsD w i by metis
  then show "rg_atr_period p < length cs" using i by linarith
  show "0 < ca_close (last cs)" using c cs by (simp add: last_conv_nth)
qed

end
