(* ===== verification/SetupLaws.thy ===== *)
theory SetupLaws
  imports Setup RegimeLaws
begin

section \<open>What a setup promises\<close>

text \<open>
  The score is between 0 and 100 and equals its components exactly; the levels of a setup are on the
  right sides of the entry; a setup is always produced, and passes its own validator.
\<close>

subsection \<open>The score\<close>

lemma clamp_unit_range: "0 \<le> clamp_unit v" "clamp_unit v \<le> 1"
  by (simp_all add: clamp_unit_def)

lemma grid_numeral: "on_grid k (numeral n)"
  using on_grid_of_int [of k "numeral n"] by simp

lemma weighted_range:
  assumes "0 \<le> v" "v \<le> 1" "0 \<le> w" "w \<le> 1" "dec28 w" "dec28 (w * 100)"
  shows "0 \<le> d_mul (d_mul v w) 100" "d_mul (d_mul v w) 100 \<le> w * 100"
proof -
  have m: "0 \<le> d_mul v w" "d_mul v w \<le> w"
    using assms by (auto simp: d_mul_def mult_left_le_one_le intro!: ctx_round_le)
  then show "0 \<le> d_mul (d_mul v w) 100" by (simp add: d_mul_def)
  show "d_mul (d_mul v w) 100 \<le> w * 100"
    unfolding d_mul_def [of "d_mul v w"] using m by (intro ctx_round_le assms) simp
qed

lemma round_cent_le:
  assumes "0 \<le> x" "x \<le> of_int m" "m \<le> 1000"
  shows "\<exists>y. round_cent x = Inr y \<and> 0 \<le> y \<and> y \<le> of_int m \<and> on_grid 2 y"
proof -
  have le: "x \<le> 1000" using assms(2,3) by (meson of_int_le_numeral_iff order_trans)
  obtain y where y: "quantize ROUND_HALF_UP 2 x = Inr y"
    using quantize_fits [of x 2 ROUND_HALF_UP] assms(1) le by auto
  have top: "0 \<le> m" using assms(1,2) by (metis of_int_0_le_iff order_trans)
  have "quantize ROUND_HALF_UP 2 (of_int m) = Inr (of_int m :: rat)"
    using assms(3) top by (intro quantize_exact on_grid_of_int) simp
  from quantize_mono [OF y this assms(2)] quantize_nonneg [OF y assms(1)] quantize_grid [OF y] y
  show ?thesis by (auto simp: round_cent_def)
qed

lemma score_component_ok:
  assumes w: "map_of SETUP_WEIGHTS name = Some (of_int m / 100)" and m: "0 \<le> m" "m \<le> 100"
  shows "\<exists>c. score_component name v raw = Inr c \<and> sc_name c = name \<and> setup_score_component_valid c \<and>
    0 \<le> sc_contribution c \<and> sc_contribution c \<le> of_int m \<and> on_grid 2 (sc_contribution c)"
proof -
  let ?w = "of_int m / 100 :: rat"
  have d: "dec28 ?w" "dec28 (?w * 100)"
    using m dec28_scaled [of ?w m 2] dec28_scaled [of "of_int m" m 0] by simp_all
  have wr: "0 \<le> ?w" "?w \<le> 1" using m by simp_all
  obtain y where y: "round_cent (d_mul (d_mul (clamp_unit v) ?w) 100) = Inr y" "0 \<le> y" "y \<le> of_int m" "on_grid 2 y"
    using round_cent_le [of "d_mul (d_mul (clamp_unit v) ?w) 100" m]
      weighted_range [OF clamp_unit_range wr d] m by auto
  show ?thesis
    using y wr clamp_unit_range [of v] by (simp add: score_component_def w Let_def setup_score_component_valid_def result_simps construct_def)
qed

lemma grid_sum_exact:
  "\<forall>x \<in> set xs. 0 \<le> x \<and> on_grid k x \<Longrightarrow> sum_list xs \<le> 1000 \<Longrightarrow> k \<le> 20 \<Longrightarrow> d_sum xs = sum_list xs"
proof (induction xs rule: rev_induct)
  case (snoc x xs)
  have le: "sum_list xs \<le> 1000" using snoc.prems by simp
  have s: "0 \<le> sum_list xs" using snoc.prems by (intro sum_list_nonneg) auto
  have grid: "on_grid k (sum_list xs)" using snoc.prems(1) by (induction xs) (auto intro: grid_intros)
  have "(10 :: rat) ^ k \<le> 10 ^ 20" using snoc.prems(3) by (rule power_increasing) simp
  then have "1000 * 10 ^ k < (10 ^ 28 :: rat)" by simp
  then have "1000 < (10 ^ 28 / 10 ^ k :: rat)" by (simp add: field_simps)
  then have "dec28 (sum_list xs + x)"
    using snoc.prems s by (intro grid_dec28 [of k] on_grid_add grid) auto
  then show ?case
    using snoc.IH snoc.prems le by (simp add: d_sum_snoc d_add_def ctx_round_exact)
qed (simp add: d_sum_def)

lemma score_setup_ok:
  "\<exists>s. score_setup conditions regime direction rr atr_percent ratio = Inr s \<and> setup_score_valid s \<and>
     ss_value s = sum_list (map sc_contribution (ss_components s)) \<and>
     map sc_name (ss_components s) = map fst SETUP_WEIGHTS \<and>
     (\<forall>c \<in> set (ss_components s). setup_score_component_valid c)"
proof -
  have each: "\<exists>c. score_component name v raw = Inr c \<and> sc_name c = name \<and> setup_score_component_valid c \<and>
      0 \<le> sc_contribution c \<and> sc_contribution c \<le> of_int m \<and> on_grid 2 (sc_contribution c)"
    if "(name, of_int m / 100) \<in> set SETUP_WEIGHTS" "m \<in> {5, 10, 20, 25}" for name v raw m
  proof (rule score_component_ok)
    show "map_of SETUP_WEIGHTS name = Some (of_int m / 100)"
      using that(1) by (intro map_of_is_SomeI) (simp_all add: SETUP_WEIGHTS_def)
  qed (use that(2) in auto)
  let ?th = "of_nat (hits conditions [''trend'', ''trend_strength'']) :: rat"
  let ?mh = "of_nat (hits conditions [''momentum'', ''macd'']) :: rat"
  obtain c1 where c1: "score_component ''trend_alignment'' (d_quot ?th 2) (Some ?th) = Inr c1"
      "sc_name c1 = ''trend_alignment''" "setup_score_component_valid c1"
      "0 \<le> sc_contribution c1" "sc_contribution c1 \<le> 25" "on_grid 2 (sc_contribution c1)"
    using each [of "''trend_alignment''" 25] by (auto simp: SETUP_WEIGHTS_def)
  obtain c2 where c2: "score_component ''momentum_alignment'' (d_quot ?mh 2) (Some ?mh) = Inr c2"
      "sc_name c2 = ''momentum_alignment''" "setup_score_component_valid c2"
      "0 \<le> sc_contribution c2" "sc_contribution c2 \<le> 20" "on_grid 2 (sc_contribution c2)"
    using each [of "''momentum_alignment''" 20] by (auto simp: SETUP_WEIGHTS_def)
  obtain c3 where c3: "score_component ''regime_agreement'' (regime_agreement regime direction) None = Inr c3"
      "sc_name c3 = ''regime_agreement''" "setup_score_component_valid c3"
      "0 \<le> sc_contribution c3" "sc_contribution c3 \<le> 20" "on_grid 2 (sc_contribution c3)"
    using each [of "''regime_agreement''" 20] by (auto simp: SETUP_WEIGHTS_def)
  obtain c4 where c4: "score_component ''risk_reward'' (clamp_unit (d_quot (rr_ratio rr) RR_REFERENCE)) (Some (rr_ratio rr)) = Inr c4"
      "sc_name c4 = ''risk_reward''" "setup_score_component_valid c4"
      "0 \<le> sc_contribution c4" "sc_contribution c4 \<le> 20" "on_grid 2 (sc_contribution c4)"
    using each [of "''risk_reward''" 20] by (auto simp: SETUP_WEIGHTS_def)
  obtain c5 where c5: "score_component ''volatility_fitness'' (volatility_fitness atr_percent) atr_percent = Inr c5"
      "sc_name c5 = ''volatility_fitness''" "setup_score_component_valid c5"
      "0 \<le> sc_contribution c5" "sc_contribution c5 \<le> 10" "on_grid 2 (sc_contribution c5)"
    using each [of "''volatility_fitness''" 10] by (auto simp: SETUP_WEIGHTS_def)
  obtain c6 where c6: "score_component ''volume_confirmation'' (volume_norm ratio) ratio = Inr c6"
      "sc_name c6 = ''volume_confirmation''" "setup_score_component_valid c6"
      "0 \<le> sc_contribution c6" "sc_contribution c6 \<le> 5" "on_grid 2 (sc_contribution c6)"
    using each [of "''volume_confirmation''" 5] by (auto simp: SETUP_WEIGHTS_def)
  let ?cs = "[c1, c2, c3, c4, c5, c6]"
  let ?t = "sum_list (map sc_contribution ?cs)"
  have t: "0 \<le> ?t" "?t \<le> 100" using c1 c2 c3 c4 c5 c6 by simp_all
  have total: "contribution_total ?cs = ?t"
    unfolding contribution_total_def
    by (rule grid_sum_exact [where k = 2]) (use c1 c2 c3 c4 c5 c6 t in simp_all)
  have grid: "on_grid 2 ?t" using c1 c2 c3 c4 c5 c6 by (auto intro!: grid_intros)
  have r: "round_cent ?t = Inr ?t"
    unfolding round_cent_def using t by (intro quantize_exact grid) simp
  have v: "setup_score_valid \<lparr>ss_value = ?t, ss_components = ?cs, ss_method = SETUP_METHOD\<rparr>"
    using t unfolding setup_score_valid_def by (simp only: setup_score.simps total) (simp add: d_sub_def d_abs_def)
  have comps: "mapE (\<lambda>(name, normalized, raw). score_component name normalized raw)
           [(''trend_alignment'', d_quot ?th 2, Some ?th), (''momentum_alignment'', d_quot ?mh 2, Some ?mh),
            (''regime_agreement'', regime_agreement regime direction, None),
            (''risk_reward'', clamp_unit (d_quot (rr_ratio rr) RR_REFERENCE), Some (rr_ratio rr)),
            (''volatility_fitness'', volatility_fitness atr_percent, atr_percent),
            (''volume_confirmation'', volume_norm ratio, ratio)] = Inr ?cs"
    by (simp add: c1(1) c2(1) c3(1) c4(1) c5(1) c6(1))
  have "score_setup conditions regime direction rr atr_percent ratio =
      Inr \<lparr>ss_value = ?t, ss_components = ?cs, ss_method = SETUP_METHOD\<rparr>"
    by (simp only: score_setup_def Let_def comps bindE.simps total r construct_def v if_True)
  moreover have "map sc_name ?cs = map fst SETUP_WEIGHTS"
    by (simp add: c1(2) c2(2) c3(2) c4(2) c5(2) c6(2) SETUP_WEIGHTS_def)
  moreover have "\<forall>c \<in> set ?cs. setup_score_component_valid c"
    by (simp add: c1(3) c2(3) c3(3) c4(3) c5(3) c6(3))
  ultimately show ?thesis using v by (metis setup_score.select_convs(1,2))
qed

subsection \<open>The levels\<close>

text \<open>The sides of a set of levels, and the arithmetic that ties them to the parameters.\<close>

definition levels_ok :: "setup_direction \<Rightarrow> setup_params \<Rightarrow> rat \<Rightarrow> risk_reward \<Rightarrow> bool" where
  "levels_ok direction p entry r \<longleftrightarrow>
     rr_entry_price r = entry \<and> 0 < rr_stop_price r \<and> 0 < rr_take_profit_price r \<and>
     (direction = SETUP_LONG \<longrightarrow> rr_stop_price r < entry \<and> entry \<le> rr_take_profit_price r) \<and>
     (direction = SETUP_SHORT \<longrightarrow> rr_take_profit_price r \<le> entry \<and> entry < rr_stop_price r) \<and>
     rr_risk_per_unit r = ctx_round \<bar>entry - rr_stop_price r\<bar> \<and>
     rr_reward_per_unit r = d_mul (rr_risk_per_unit r) (su_take_profit_r p) \<and>
     rr_stop_model r = su_stop_model p \<and> risk_reward_valid r"

lemma ctx_round_idem: "ctx_round (ctx_round x) = ctx_round x"
  by (rule ctx_round_exact [OF dec28_ctx_round])

lemma d_abs_sub: "d_abs (d_sub x y) = ctx_round \<bar>x - y\<bar>"
proof (cases "0 \<le> x - y")
  case True
  then show ?thesis by (simp add: d_abs_def d_sub_def ctx_round_idem abs_of_nonneg)
next
  case False
  then have "ctx_round (x - y) < 0" by (simp add: ctx_round_neg)
  then have "\<bar>ctx_round (x - y)\<bar> = ctx_round (- (x - y))" by (simp only: abs_of_neg ctx_round_minus)
  with False show ?thesis by (simp add: d_abs_def d_sub_def ctx_round_idem abs_of_neg)
qed

lemma levels_from_ok:
  assumes p: "setup_params_valid p" and e: "0 < entry" "dec28 entry" and d: "direction \<noteq> NO_SIGNAL"
  shows "levels_from entry stop direction p = Inr None \<or>
    (\<exists>r. levels_from entry stop direction p = Inr (Some r) \<and> levels_ok direction p entry r)"
proof (cases "levels_from entry stop direction p = Inr None")
  case False
  define risk where "risk = d_abs (d_sub entry stop)"
  define reward where "reward = d_mul risk (su_take_profit_r p)"
  define target where "target = (if direction = SETUP_LONG then d_add entry reward else d_sub entry reward)"
  have side: "\<not> stop \<le> 0" "direction = SETUP_LONG \<Longrightarrow> stop < entry" "direction = SETUP_SHORT \<Longrightarrow> entry < stop"
      "\<not> risk \<le> 0" "\<not> target \<le> 0"
    using False by (auto simp: levels_from_def Let_def risk_def reward_def target_def split: if_splits)
  have r: "0 < reward" using side(4) p by (simp add: reward_def d_mul_def setup_params_valid_def)
  have t: "direction = SETUP_LONG \<Longrightarrow> entry \<le> target" "direction = SETUP_SHORT \<Longrightarrow> target \<le> entry"
    using r e(2) by (auto simp: target_def d_add_def d_sub_def intro!: ctx_round_ge ctx_round_le)
  have pos: "0 < d_quot reward risk" "0 < d_mul (d_quot risk entry) 100" "0 < su_take_profit_r p"
    using r side(4) e(1) p by (simp_all add: d_quot_def d_mul_def setup_params_valid_def)
  have div: "d_div reward risk = Inr (d_quot reward risk)" using side(4) by (intro d_div_quot) simp
  let ?r = "\<lparr>rr_entry_price = entry, rr_stop_price = stop, rr_take_profit_price = target,
      rr_risk_per_unit = risk, rr_reward_per_unit = reward, rr_ratio = d_quot reward risk,
      rr_stop_model = su_stop_model p, rr_stop_distance_percent = d_mul (d_quot risk entry) 100,
      rr_take_profit_r_multiple = su_take_profit_r p\<rparr>"
  have v: "risk_reward_valid ?r" using side e r pos by (simp add: risk_reward_valid_def)
  have "levels_from entry stop direction p = Inr (Some ?r)"
    using side v div unfolding levels_from_def Let_def risk_def [symmetric] reward_def [symmetric] target_def [symmetric]
    by (cases direction) (auto simp: construct_def)
  moreover have "levels_ok direction p entry ?r"
    using side t v by (simp add: levels_ok_def risk_def d_abs_sub reward_def)
  ultimately show ?thesis by blast
qed simp

lemma derive_risk_reward_ok:
  assumes p: "setup_params_valid p" and e: "cs \<noteq> [] \<Longrightarrow> dec28 (ca_close (last cs))"
  shows "derive_risk_reward cs direction p atr_percent = Inr None \<or>
    (\<exists>r. derive_risk_reward cs direction p atr_percent = Inr (Some r) \<and> direction \<noteq> NO_SIGNAL \<and> cs \<noteq> [] \<and>
       levels_ok direction p (ca_close (last cs)) r)"
  using levels_from_ok [OF p, of "ca_close (last cs)" direction] e
  by (auto simp: derive_risk_reward_def split: option.splits)

subsection \<open>A setup is always produced\<close>

text \<open>What a reader of a setup may rely on.\<close>

definition setup_ok :: "candle list \<Rightarrow> setup_params \<Rightarrow> trade_setup \<Rightarrow> bool" where
  "setup_ok cs p s \<longleftrightarrow>
     trade_setup_valid s \<and>
     (ts_status s = ACTIONABLE \<longrightarrow>
        (\<exists>r score. ts_risk_reward s = Some r \<and> ts_score s = Some score \<and>
           levels_ok (ts_direction s) p (ca_close (last cs)) r \<and> setup_score_valid score \<and>
           ss_value score = sum_list (map sc_contribution (ss_components score)))) \<and>
     (ts_status s \<noteq> ACTIONABLE \<longrightarrow> ts_risk_reward s = None \<and> ts_score s = None)"

lemma directed_setup_ok:
  assumes p: "setup_params_valid p" and e: "cs \<noteq> [] \<Longrightarrow> dec28 (ca_close (last cs))"
    and base: "ts_direction base = direction" "ts_score base = None" "ts_risk_reward base = None"
  shows "\<exists>s. directed_setup cs p regime direction base = Inr s \<and> setup_ok cs p s"
proof -
  have "derive_risk_reward cs direction p (atr_percent_of regime) = Inr None \<or>
    (\<exists>r. derive_risk_reward cs direction p (atr_percent_of regime) = Inr (Some r) \<and> direction \<noteq> NO_SIGNAL \<and>
       cs \<noteq> [] \<and> levels_ok direction p (ca_close (last cs)) r)"
    using derive_risk_reward_ok [OF p] e by blast
  then show ?thesis
  proof (elim disjE exE conjE, goal_cases)
    case 1
    then show ?case
      by (simp add: directed_setup_def emit_setup_def construct_def setup_ok_def trade_setup_valid_def base)
  next
    case (2 r)
    then show ?case
      using score_setup_ok [of "ts_conditions base" "ra_regime regime" direction r "atr_percent_of regime" "volume_ratio cs"]
      by (auto simp add: directed_setup_def emit_setup_def construct_def setup_ok_def trade_setup_valid_def base)
  qed
qed

lemma compute_indicator_values_total:
  assumes "trend_params_valid sp"
  shows "\<exists>v. compute_indicator_values cs sp = Inr v"
proof (cases "cs = []")
  case True
  obtain q where q: "leg_params sp (tp_ema_fast sp) = Inr q"
    using leg_params_ok [OF assms, of "tp_ema_fast sp"] assms by (auto simp: trend_params_valid_def in_range_def)
  obtain q' where q': "leg_params sp (tp_ema_slow sp) = Inr q'"
    using leg_params_ok [OF assms, of "tp_ema_slow sp"] assms by (auto simp: trend_params_valid_def in_range_def)
  show ?thesis
    unfolding compute_indicator_values_def required_indicator_params_def q q' calculate_indicators_def required_specs
    by (simp add: True build_result_def by_key_def spec_ema_def spec_adx_def spec_rsi_def spec_macd_def Let_def)
next
  case False
  note one = trend_params_periods [OF assms]
  from compute_indicator_values_last [OF assms False] adx_total [OF one(4)] macd_total [OF one(5-7)]
    rsi_total [OF one(3)] show ?thesis by metis
qed

lemma setup_regime_params:
  assumes "trend_params_valid sp"
  shows "\<exists>rp. mk_regime_params (default_regime_params
      \<lparr>rg_ema_fast := tp_ema_fast sp, rg_ema_slow := tp_ema_slow sp, rg_adx_period := tp_adx_period sp\<rparr>) = Inr rp \<and>
    regime_params_valid rp"
  using assms by (auto simp: trend_params_valid_def in_range_def mk_regime_params_def regime_params_valid_def
      default_regime_params_def)

lemma setup_ok_inactive:
  "ts_status s \<noteq> ACTIONABLE \<Longrightarrow> ts_score s = None \<Longrightarrow> ts_risk_reward s = None \<Longrightarrow>
   emit_setup s = Inr s \<and> setup_ok cs p s"
  by (simp add: emit_setup_def construct_def setup_ok_def trade_setup_valid_def)

lemma blank_setup_fields [simp]:
  "ts_status (blank_setup cs symb tf v st d) = st" "ts_direction (blank_setup cs symb tf v st d) = d"
  "ts_score (blank_setup cs symb tf v st d) = None" "ts_risk_reward (blank_setup cs symb tf v st d) = None"
  by (simp_all add: blank_setup_def)

lemma build_setup_ok:
  assumes sp: "trend_params_valid sp" and p: "setup_params_valid p"
    and e: "cs \<noteq> [] \<Longrightarrow> dec28 (ca_close (last cs))"
  shows "\<exists>s. build_setup cs symb tf sp p v = Inr s \<and> setup_ok cs p s"
proof -
  obtain vals where vals: "compute_indicator_values cs sp = Inr vals"
    using compute_indicator_values_total [OF sp] by blast
  obtain rp where rp: "mk_regime_params (default_regime_params
      \<lparr>rg_ema_fast := tp_ema_fast sp, rg_ema_slow := tp_ema_slow sp, rg_adx_period := tp_adx_period sp\<rparr>) = Inr rp"
      "regime_params_valid rp"
    using setup_regime_params [OF sp] by blast
  obtain regime where regime: "classify_regime cs rp = Inr regime"
    using classify_regime_total [OF rp(2)] by blast
  show ?thesis
  proof (cases vals)
    case None
    show ?thesis
      using setup_ok_inactive [of "blank_setup cs symb tf v SETUP_INSUFFICIENT_DATA NO_SIGNAL" cs p]
      by (simp add: build_setup_def vals None)
  next
    case (Some x)
    obtain long short bias where c: "evaluate_conditions x sp = (long, short, bias)"
      by (cases "evaluate_conditions x sp") auto
    show ?thesis
    proof (cases bias)
      case NEUTRAL
      show ?thesis
        using setup_ok_inactive [of "(blank_setup cs symb tf v NO_ACTIONABLE_SETUP NO_SIGNAL)
            \<lparr>ts_regime := Some regime, ts_conditions := long, ts_opposing_conditions := short\<rparr>" cs p]
        by (simp add: build_setup_def vals Some c rp(1) regime NEUTRAL)
    qed (simp_all add: build_setup_def vals Some c rp(1) regime directed_setup_ok [OF p e])
  qed
qed

end
