(* ===== verification/AdviceLaws.thy ===== *)
theory AdviceLaws
  imports Orchestrator SetupLaws
begin

section \<open>What the advice rests on\<close>

text \<open>
  The verdict of every brain as a condition on the observation, the ladder in terms of those
  conditions, and what the ladder does not read.
\<close>

subsection \<open>The verdicts\<close>

lemma reading_fields [simp]:
  "br_brain (reading b s rows q src x) = b" "br_state (reading b s rows q src x) = s"
  "br_evidence (reading b s rows q src x) = rows" "br_data_quality (reading b s rows q src x) = q"
  by (simp_all add: reading_def)

lemma row_fields [simp]: "ev_name (row name v) = name" "ev_satisfied (row name v) = v"
  by (simp_all add: row_def)

lemma unavailable_fields [simp]:
  "br_brain (unavailable b x name) = b" "br_state (unavailable b x name) = BRAIN_UNAVAILABLE"
  "br_evidence (unavailable b x name) = [row name None]"
  "br_data_quality (unavailable b x name) = QUALITY_UNAVAILABLE"
  by (simp_all add: unavailable_def)

lemma brain_names [simp]:
  "br_brain (market_brain x) = BRAIN_MARKET" "br_brain (regime_brain x) = BRAIN_REGIME"
  "br_brain (structure_brain x) = BRAIN_STRUCTURE" "br_brain (position_brain x) = BRAIN_POSITION"
  "br_brain (risk_brain x) = BRAIN_RISK" "br_brain (exit_brain x upstream) = BRAIN_EXIT"
  by (simp_all add: market_brain_def regime_brain_def structure_brain_def position_brain_def risk_brain_def
      exit_brain_def Let_def split: option.splits)

lemma technical_name: "technical_brain x = Inr t \<Longrightarrow> br_brain t = BRAIN_TECHNICAL"
  by (auto simp: technical_brain_def Let_def result_simps split: option.splits if_splits)

lemma momentum_name: "momentum_volume_brain x = Inr m \<Longrightarrow> br_brain m = BRAIN_MOMENTUM_VOLUME"
  by (auto simp: momentum_volume_brain_def Let_def result_simps split: option.splits if_splits)

lemma market_usable: "brain_usable (market_brain x) \<longleftrightarrow> pp_mark_price (ob_position x) \<noteq> None"
  by (auto simp: market_brain_def brain_usable_def state_measured_def Let_def)

lemma position_adverse: "br_state (position_brain x) = ADVERSE \<longleftrightarrow> ob_mark x \<noteq> None \<and> near_stop x"
  by (auto simp: position_brain_def Let_def split: option.splits)

text \<open>The part of the evaluation that runs the brains.\<close>

lemma evaluate_position_Inr:
  assumes "evaluate_position x = Inr a"
  obtains t m where "technical_brain x = Inr t" "momentum_volume_brain x = Inr m"
    "(pn_decision a, pn_thesis_state a, pn_reasons a) =
       resolve x (market_brain x) t (regime_brain x) (position_brain x) (risk_brain x)
         (exit_brain x [market_brain x, t, regime_brain x, m, structure_brain x, position_brain x, risk_brain x])"
    "pn_brain_results a = [market_brain x, t, regime_brain x, m, structure_brain x, position_brain x, risk_brain x,
       exit_brain x [market_brain x, t, regime_brain x, m, structure_brain x, position_brain x, risk_brain x]]"
    "alignment t = Inr (pn_thesis_alignment a)"
proof -
  from assms obtain t m where tm: "technical_brain x = Inr t" "momentum_volume_brain x = Inr m"
    by (auto simp: evaluate_position_def Let_def result_simps)
  let ?e = "exit_brain x [market_brain x, t, regime_brain x, m, structure_brain x, position_brain x, risk_brain x]"
  obtain d s r where res: "resolve x (market_brain x) t (regime_brain x) (position_brain x) (risk_brain x) ?e = (d, s, r)"
    by (metis prod.exhaust)
  have *: "pn_decision a = d" "pn_thesis_state a = s" "pn_reasons a = r"
    "pn_brain_results a = [market_brain x, t, regime_brain x, m, structure_brain x, position_brain x, risk_brain x, ?e]"
    "alignment t = Inr (pn_thesis_alignment a)"
    using assms by (auto simp: evaluate_position_def Let_def tm res result_simps)
  show ?thesis by (rule that [OF tm]) (use * res in simp_all)
qed

text \<open>The exit brain over the seven upstream results.\<close>

lemma exit_state:
  fixes x t m
  defines "up \<equiv> [market_brain x, t, regime_brain x, m, structure_brain x, position_brain x, risk_brain x]"
  assumes t: "br_brain t = BRAIN_TECHNICAL" and m: "br_brain m = BRAIN_MOMENTUM_VOLUME"
  shows "br_state (exit_brain x up) =
    (if br_state t = ADVERSE \<and> (br_state (regime_brain x) = ADVERSE \<or> br_state m = ADVERSE \<or>
          br_state (position_brain x) = ADVERSE) then ADVERSE
     else if br_state t = ADVERSE \<or> br_state (regime_brain x) = ADVERSE \<or> br_state t = WEAKENING then WEAKENING
     else if br_state t = BRAIN_UNAVAILABLE then BRAIN_UNAVAILABLE else SUPPORTIVE)"
proof -
  have "state_named up BRAIN_TECHNICAL = Some (br_state t)"
    "state_named up BRAIN_REGIME = Some (br_state (regime_brain x))"
    "state_named up BRAIN_MOMENTUM_VOLUME = Some (br_state m)"
    "state_named up BRAIN_POSITION = Some (br_state (position_brain x))"
    by (simp_all add: up_def state_named_def result_named_def t m)
  then show ?thesis by (simp add: exit_brain_def Let_def)
qed

text \<open>The ladder, rung by rung.\<close>

definition rung :: "position_observation \<Rightarrow> brain_state \<Rightarrow> brain_state \<Rightarrow> position_decision" where
  "rung x technical momentum =
     (if risk_blocked x then BLOCKED_BY_RISK
      else if pp_mark_price (ob_position x) = None \<or> technical = BRAIN_UNAVAILABLE then DECISION_INSUFFICIENT_DATA
      else if technical = ADVERSE \<and>
        (br_state (regime_brain x) = ADVERSE \<or> momentum = ADVERSE \<or> near_stop x) then EXIT
      else if technical = ADVERSE \<or> br_state (regime_brain x) = ADVERSE then PROTECT
      else if \<exists>r \<in> set (target_row x (the (ob_mark x))). ev_satisfied r = Some True then TRAIL
      else HOLD)"

lemma target_rows:
  "(\<exists>e \<in> set (br_evidence (position_brain x)). ev_name e = ''target_proximity'' \<and> ev_satisfied e = Some True) \<longleftrightarrow>
   ob_mark x \<noteq> None \<and> (\<exists>r \<in> set (target_row x (the (ob_mark x))). ev_satisfied r = Some True)"
  by (cases "ob_mark x") (auto simp: position_brain_def target_row_def Let_def split: option.splits)

lemma decision_rung:
  assumes "evaluate_position x = Inr a"
  shows "\<exists>t m. technical_brain x = Inr t \<and> momentum_volume_brain x = Inr m \<and>
    pn_decision a = rung x (br_state t) (br_state m)"
  using assms
proof (rule evaluate_position_Inr)
  fix t m
  let ?e = "exit_brain x [market_brain x, t, regime_brain x, m, structure_brain x, position_brain x, risk_brain x]"
  assume tm: "technical_brain x = Inr t" "momentum_volume_brain x = Inr m"
    and d: "(pn_decision a, pn_thesis_state a, pn_reasons a) =
      resolve x (market_brain x) t (regime_brain x) (position_brain x) (risk_brain x) ?e"
  note e = exit_state [OF technical_name [OF tm(1)] momentum_name [OF tm(2)], of x]
  have "pn_decision a = fst (resolve x (market_brain x) t (regime_brain x) (position_brain x) (risk_brain x) ?e)"
    using d by (metis fst_conv)
  also have "\<dots> = rung x (br_state t) (br_state m)"
    unfolding resolve_def rung_def target_rows market_usable e position_adverse
    by (auto simp: state_measured_def ob_mark_def)
  finally show ?thesis using tm by blast
qed

subsection \<open>Advice is always given\<close>

lemma build_result_total: "sp_compute spec cs p = Inr lines \<Longrightarrow> \<exists>r. build_result spec cs p limit = Inr r"
  by (simp add: build_result_def Let_def)

lemma current_conditions_total:
  assumes "trend_params_valid (ob_strategy_params x)"
  shows "\<exists>c. current_conditions x = Inr c"
proof (cases "ob_candles x")
  case (Some cs)
  obtain v where v: "compute_indicator_values cs (ob_strategy_params x) = Inr v"
    using compute_indicator_values_total [OF assms] by blast
  show ?thesis by (cases v) (auto simp: current_conditions_def Some v split: prod.splits)
qed (simp add: current_conditions_def)

lemma technical_brain_total:
  assumes "trend_params_valid (ob_strategy_params x)"
  shows "\<exists>t. technical_brain x = Inr t"
proof -
  obtain c where "current_conditions x = Inr c" using current_conditions_total [OF assms] by blast
  then show ?thesis by (auto simp: technical_brain_def Let_def split: option.splits)
qed

lemma momentum_specs:
  "List.map_filter get_spec [''rsi'', ''macd'', ''roc''] = [spec_rsi, spec_macd, spec_roc]"
  by (simp add: get_spec_def INDICATORS_def List.map_filter_simps)

lemma momentum_brain_total:
  assumes "trend_params_valid (ob_strategy_params x)"
  shows "\<exists>m. momentum_volume_brain x = Inr m"
proof (cases "ob_candles x")
  case (Some cs)
  let ?sp = "ob_strategy_params x"
  define q where "q = default_params
      \<lparr>rsi_period := tp_rsi_period ?sp, macd_fast := tp_macd_fast ?sp, macd_slow := tp_macd_slow ?sp,
       macd_signal := tp_macd_signal ?sp\<rparr>"
  have mk: "mk_params q = Inr q"
    using assms by (simp add: q_def mk_params_def params_valid_def default_params_def trend_params_valid_def in_range_def)
  have f: "rsi_period q = tp_rsi_period ?sp" "macd_fast q = tp_macd_fast ?sp" "macd_slow q = tp_macd_slow ?sp"
      "macd_signal q = tp_macd_signal ?sp"
    by (simp_all add: q_def default_params_def)
  note one = trend_params_periods [OF assms]
  obtain l where l: "macd cs (macd_fast q) (macd_slow q) (macd_signal q) = Inr l"
    using macd_total [OF one(5-7)] unfolding f by blast
  obtain s where s: "sp_compute spec_rsi cs q = Inr s"
    using rsi_total [OF one(3), of cs] by (auto simp: spec_rsi_def f)
  obtain r1 where r1: "build_result spec_rsi cs q 0 = Inr r1"
    using build_result_total [OF s] by blast
  obtain r2 where r2: "build_result spec_macd cs q 0 = Inr r2"
    using build_result_total [of spec_macd cs q] l by (auto simp: spec_macd_def)
  obtain r3 where r3: "build_result spec_roc cs q 0 = Inr r3"
    using build_result_total [of spec_roc cs q] by (auto simp: spec_roc_def)
  have c: "calculate_indicators cs [''rsi'', ''macd'', ''roc''] q 0 = Inr [r1, r2, r3]"
    unfolding calculate_indicators_def momentum_specs by (simp add: r1 r2 r3 MAX_SERIES_LIMIT_def)
  show ?thesis
    unfolding momentum_volume_brain_def Some Let_def q_def [symmetric] by (simp add: mk c)
qed (simp add: momentum_volume_brain_def)

lemma alignment_total:
  "\<exists>a. alignment t = Inr a \<and> (\<forall>v. a = Some v \<longrightarrow> thesis_alignment_valid v \<and>
     tl_conditions_held v \<le> tl_conditions_total v)"
proof -
  let ?checked = "filter (\<lambda>r. ev_satisfied r \<noteq> None) (br_evidence t)"
  let ?held = "length (filter (\<lambda>r. ev_satisfied r = Some True) ?checked)"
  show ?thesis
  proof (cases "\<not> state_measured (br_state t) \<or> ?checked = []")
    case True
    then show ?thesis by (auto simp: alignment_def Let_def)
  next
    case False
    have le: "?held \<le> length ?checked" by (rule length_filter_le)
    have n: "0 < length ?checked" using False by simp
    have "(of_nat ?held :: rat) \<le> of_nat (length ?checked)" using le by (simp only: of_nat_le_iff)
    then have q: "0 \<le> d_quot (of_nat ?held) (of_nat (length ?checked))"
      "d_quot (of_nat ?held) (of_nat (length ?checked)) \<le> 1"
      using n dec28_power [of 0] by (auto simp: d_quot_def intro!: ctx_round_le)
    have h: "0 \<le> d_mul (d_quot (of_nat ?held) (of_nat (length ?checked))) 100"
      "d_mul (d_quot (of_nat ?held) (of_nat (length ?checked))) 100 \<le> of_int 100"
      using q dec28_hundreds [of 1] by (auto simp: d_mul_def intro!: ctx_round_le)
    from round_cent_le [OF h]
    obtain y where y: "quantize ROUND_HALF_UP 2 (d_mul (d_quot (of_nat ?held) (of_nat (length ?checked))) 100) = Inr y"
        "0 \<le> y" "y \<le> 100"
      by (auto simp: round_cent_def)
    show ?thesis
      using False y n le unfolding alignment_def Let_def
      by (simp add: construct_def thesis_alignment_valid_def)
  qed
qed

lemma evaluate_position_total:
  assumes "trend_params_valid (ob_strategy_params x)"
  shows "\<exists>a. evaluate_position x = Inr a"
proof -
  obtain t m where tm: "technical_brain x = Inr t" "momentum_volume_brain x = Inr m"
    using technical_brain_total [OF assms] momentum_brain_total [OF assms] by metis
  obtain al where "alignment t = Inr al" using alignment_total by blast
  then show ?thesis by (auto simp: evaluate_position_def Let_def tm split: prod.splits)
qed

subsection \<open>What the ladder does not read\<close>

definition with_profit :: "rat option \<Rightarrow> rat option \<Rightarrow> position_observation \<Rightarrow> position_observation" where
  "with_profit v v' x =
     x\<lparr>ob_position := (ob_position x)\<lparr>pp_unrealized_pnl := v\<rparr>,
       ob_metrics := (ob_metrics x)\<lparr>pm_unrealized_pnl := v'\<rparr>\<rparr>"

fun profit_note :: "advice_reason \<Rightarrow> bool" where
  "profit_note (ProfitNotAReason v) = True"
| "profit_note _ = False"

lemma with_profit_simps:
  "ob_now (with_profit v v' x) = ob_now x" "ob_candles (with_profit v v' x) = ob_candles x"
  "ob_regime (with_profit v v' x) = ob_regime x"
  "ob_strategy_params (with_profit v v' x) = ob_strategy_params x"
  "ob_risk_lock (with_profit v v' x) = ob_risk_lock x"
  "ob_risk_lock_reason (with_profit v v' x) = ob_risk_lock_reason x"
  "ob_unreconciled_orders (with_profit v v' x) = ob_unreconciled_orders x"
  "ob_position (with_profit v v' x) = (ob_position x)\<lparr>pp_unrealized_pnl := v\<rparr>"
  "ob_metrics (with_profit v v' x) = (ob_metrics x)\<lparr>pm_unrealized_pnl := v'\<rparr>"
  by (simp_all add: with_profit_def)

lemma position_profit:
  "near_target (p\<lparr>pp_unrealized_pnl := v\<rparr>) = near_target p"
  "pp_side (p\<lparr>pp_unrealized_pnl := v\<rparr>) = pp_side p"
  "pp_mark_price (p\<lparr>pp_unrealized_pnl := v\<rparr>) = pp_mark_price p"
  "pp_mark_source (p\<lparr>pp_unrealized_pnl := v\<rparr>) = pp_mark_source p"
  "pp_mark_status (p\<lparr>pp_unrealized_pnl := v\<rparr>) = pp_mark_status p"
  "pp_thesis (p\<lparr>pp_unrealized_pnl := v\<rparr>) = pp_thesis p"
  "pp_target_price (p\<lparr>pp_unrealized_pnl := v\<rparr>) = pp_target_price p"
  "pp_stop_price (p\<lparr>pp_unrealized_pnl := v\<rparr>) = pp_stop_price p"
  "pm_target_distance_percent (m\<lparr>pm_unrealized_pnl := v\<rparr>) = pm_target_distance_percent m"
  "pm_remaining_r (m\<lparr>pm_unrealized_pnl := v\<rparr>) = pm_remaining_r m"
  by (simp_all add: near_target_def fun_eq_iff)

lemma with_profit_reads:
  "reading b s rows q src (with_profit v v' x) = reading b s rows q src x"
  "unavailable b (with_profit v v' x) name = unavailable b x name"
  "ob_is_long (with_profit v v' x) = ob_is_long x" "ob_mark (with_profit v v' x) = ob_mark x"
  "risk_blocked (with_profit v v' x) = risk_blocked x"
  "near_stop (with_profit v v' x) = near_stop x"
  "target_row (with_profit v v' x) mark = target_row x mark"
  "entry_regime_of (with_profit v v' x) = entry_regime_of x"
  unfolding reading_def unavailable_def ob_is_long_def ob_mark_def risk_blocked_def near_stop_def
      target_row_def entry_regime_of_def with_profit_simps position_profit by (rule refl)+

lemma with_profit_more:
  "current_conditions (with_profit v v' x) = current_conditions x"
  "blocked_reason (with_profit v v' x) = blocked_reason x"
  unfolding current_conditions_def blocked_reason_def with_profit_simps with_profit_reads by (rule refl)+

lemma with_profit_brains:
  "market_brain (with_profit v v' x) = market_brain x"
  "technical_brain (with_profit v v' x) = technical_brain x"
  "regime_brain (with_profit v v' x) = regime_brain x"
  "momentum_volume_brain (with_profit v v' x) = momentum_volume_brain x"
  "structure_brain (with_profit v v' x) = structure_brain x"
  "position_brain (with_profit v v' x) = position_brain x"
  "risk_brain (with_profit v v' x) = risk_brain x"
  "exit_brain (with_profit v v' x) upstream = exit_brain x upstream"
  unfolding market_brain_def technical_brain_def regime_brain_def momentum_volume_brain_def
      structure_brain_def position_brain_def risk_brain_def exit_brain_def with_profit_reads with_profit_more
      with_profit_simps position_profit Let_def by (rule refl)+

lemma risk_note_profit: "filter (\<lambda>r. \<not> profit_note r) (risk_note x) = []"
  by (simp add: risk_note_def split: option.splits)

fun forget_profit :: "advice \<Rightarrow> advice" where
  "forget_profit (d, s, rs) = (d, s, filter (\<lambda>r. \<not> profit_note r) rs)"

lemma resolve_profit:
  "forget_profit (resolve (with_profit v v' x) m t r p k e) = forget_profit (resolve x m t r p k e)"
  unfolding resolve_def with_profit_reads with_profit_more if_distrib [of forget_profit] forget_profit.simps
  by (simp only: filter_append filter.simps risk_note_profit)

subsection \<open>A broken thesis\<close>

lemma thesis_verdict_adverse:
  "0 < n \<Longrightarrow> thesis_verdict held n = ADVERSE \<longleftrightarrow> 3 * held \<le> n"
  by (auto simp: thesis_verdict_def)

definition thesis_broken :: "position_observation \<Rightarrow> bool" where
  "thesis_broken x \<longleftrightarrow>
     (\<exists>context now. Option.bind (pp_thesis (ob_position x)) th_strategy = Some context \<and>
        sx_entry_conditions context \<noteq> [] \<and> current_conditions x = Inr (Some now) \<and>
        3 * conditions_held now (sx_entry_conditions context) \<le> length (sx_entry_conditions context))"

lemma technical_adverse:
  "technical_brain x = Inr t \<Longrightarrow> br_state t = ADVERSE \<longleftrightarrow> thesis_broken x"
proof -
  assume t: "technical_brain x = Inr t"
  show ?thesis
  proof (cases "Option.bind (pp_thesis (ob_position x)) th_strategy")
    case (Some ctx)
    show ?thesis
    proof (cases "sx_entry_conditions ctx = [] \<or> current_conditions x = Inr None")
      case True
      with t show ?thesis by (auto simp: technical_brain_def thesis_broken_def Some Let_def split: if_splits)
    next
      case False
      with t obtain now where "current_conditions x = Inr (Some now)"
        by (auto simp: technical_brain_def Some Let_def result_simps)
      with t False show ?thesis
        by (auto simp: technical_brain_def thesis_broken_def Some Let_def thesis_verdict_adverse)
    qed
  qed (use t in \<open>auto simp: technical_brain_def thesis_broken_def\<close>)
qed

text \<open>Every condition of the rule set holds again.\<close>

lemma technical_supportive:
  assumes c: "Option.bind (pp_thesis (ob_position x)) th_strategy = Some context" "sx_entry_conditions context \<noteq> []"
    and now: "current_conditions x = Inr (Some now)"
    and all: "\<forall>c \<in> set (sx_entry_conditions context). \<exists>d. condition_named now (co_name c) = Some d \<and> co_satisfied d"
  shows "\<exists>t. technical_brain x = Inr t \<and> br_state t = SUPPORTIVE"
proof -
  have "filter (\<lambda>c. ev_satisfied (recheck now c) = Some True) (sx_entry_conditions context) = sx_entry_conditions context"
    using all by (intro filter_True) (auto simp: recheck_def)
  then show ?thesis
    by (simp add: technical_brain_def c Let_def now conditions_held_def thesis_verdict_def)
qed

end
