(* ===== verification/MetricsLaws.thy ===== *)
theory MetricsLaws
  imports PositionFacts BacktestLaws
begin

section \<open>What the metrics of a position say\<close>

text \<open>
  A metric is missing exactly when its name is listed; the break-even price is break-even up to the
  rounding of the context.
\<close>

subsection \<open>Absent is named\<close>

lemma pct_some: "0 < d \<Longrightarrow> pct n d = Inr r \<Longrightarrow> r \<noteq> None"
  by (auto simp: pct_def result_simps)

lemma distance_none: "0 < mark \<Longrightarrow> distance_percent ahead mark level = Inr r \<Longrightarrow> (r = None) = (level = None)"
  using pct_some by (auto simp: distance_percent_def split: option.splits)

lemma in_r_none: "in_r move planned = Inr r \<Longrightarrow> (r = None) = (case planned of None \<Rightarrow> True | Some k \<Rightarrow> k \<le> 0)"
  by (auto simp: in_r_def result_simps split: option.splits if_splits)

lemma set_first_occurrences [simp]: "set (first_occurrences xs) = set xs"
  by (simp add: first_occurrences_def)

lemma distinct_first_occurrences: "distinct (first_occurrences xs)"
  by (simp add: first_occurrences_def)

lemma in_when_absent [simp]: "n \<in> set (when_absent x ns) \<longleftrightarrow> x = None \<and> n \<in> set ns"
  by (simp add: when_absent_def)

lemma marked_names:
  assumes "0 < mark" "marked_distances p mark = Inr lv"
  shows "(''stop_distance_percent'' \<in> set (lv_unavailable lv)) = (lv_stop lv = None)"
    "(''target_distance_percent'' \<in> set (lv_unavailable lv)) = (lv_target lv = None)"
    "(''liquidation_distance_percent'' \<in> set (lv_unavailable lv)) = (lv_liquidation lv = None)"
    "(''r_multiple_now'' \<in> set (lv_unavailable lv)) = (lv_r_now lv = None)"
    "(''remaining_r'' \<in> set (lv_unavailable lv)) = (lv_remaining_r lv = None)"
    "set (lv_unavailable lv) \<subseteq> {''stop_distance_percent'', ''target_distance_percent'',
       ''liquidation_distance_percent'', ''r_multiple_now'', ''remaining_r''}"
  using assms(2) distance_none [OF assms(1)] in_r_none
  by (auto simp: marked_distances_def Let_def result_simps split: option.splits if_splits)

lemma marked_target:
  assumes "0 < mark" "marked_distances p mark = Inr lv"
  shows "(lv_target lv = None) = (pp_target_price p = None)"
proof -
  have "distance_percent (pp_side p \<noteq> LONG) mark (pp_target_price p) = Inr (lv_target lv)"
    using assms(2) unfolding marked_distances_def Let_def result_simps by auto
  then show ?thesis by (rule distance_none [OF assms(1)])
qed

lemma marked_remaining:
  assumes "marked_distances p mark = Inr lv" "pp_stop_price p = None"
  shows "lv_remaining_r lv = None"
  using assms(1) unfolding marked_distances_def Let_def result_simps assms(2) by auto

lemma unmarked_names: "lv_unavailable unmarked_distances =
    [''stop_distance_percent'', ''target_distance_percent'', ''liquidation_distance_percent'', ''r_multiple_now'', ''remaining_r'']"
  "lv_stop unmarked_distances = None" "lv_target unmarked_distances = None"
  "lv_liquidation unmarked_distances = None" "lv_r_now unmarked_distances = None" "lv_remaining_r unmarked_distances = None"
  by (simp_all add: unmarked_distances_def)

text \<open>Which field a name stands for.\<close>

definition named_fields :: "position_metrics \<Rightarrow> (string \<times> rat option) list" where
  "named_fields m =
     [(''mfe'', pm_mfe_per_unit m), (''mae'', pm_mae_per_unit m), (''break_even_price'', pm_break_even_price m),
      (''stop_distance_percent'', pm_stop_distance_percent m),
      (''target_distance_percent'', pm_target_distance_percent m),
      (''liquidation_distance_percent'', pm_liquidation_distance_percent m),
      (''r_multiple_now'', pm_r_multiple_now m), (''remaining_r'', pm_remaining_r m),
      (''unrealized_pnl'', pm_unrealized_pnl m)]"

lemma metrics_names:
  assumes m: "compute_position_metrics p now fee = Inr m"
    and mark: "\<And>v. pp_mark_price p = Some v \<Longrightarrow> 0 < v"
  shows "\<forall>(name, field) \<in> set (named_fields m). (name \<in> set (pm_unavailable m)) = (field = None)"
    "set (pm_unavailable m) \<subseteq> fst ` set (named_fields m)" "distinct (pm_unavailable m)"
proof -
  obtain lv mp ap pnl where r:
    "(case pp_mark_price p of None \<Rightarrow> Inr unmarked_distances | Some v \<Rightarrow> marked_distances p v) = Inr lv"
    "(case pp_unrealized_pnl p of None \<Rightarrow> Inr None | Some v \<Rightarrow> bindE (quantize_usdt v) (\<lambda>q. Inr (Some q))) = Inr pnl"
    and eq: "m = \<lparr>pm_time_in_trade_seconds = max (total_seconds now (pp_opened_at p)) 0,
            pm_best_price = pp_best_price p, pm_worst_price = pp_worst_price p,
            pm_mfe_per_unit = floored_gap (pp_side p = LONG) (pp_entry_price p) (pp_best_price p),
            pm_mae_per_unit = floored_gap (pp_side p \<noteq> LONG) (pp_entry_price p) (pp_worst_price p),
            pm_mfe_percent = mp, pm_mae_percent = ap, pm_break_even_price = break_even p fee,
            pm_stop_distance_percent = lv_stop lv, pm_target_distance_percent = lv_target lv,
            pm_liquidation_distance_percent = lv_liquidation lv,
            pm_r_multiple_now = lv_r_now lv, pm_remaining_r = lv_remaining_r lv,
            pm_unrealized_pnl = pnl,
            pm_unavailable = first_occurrences
              (when_absent (pp_best_price p) [''mfe''] @ when_absent (pp_worst_price p) [''mae''] @
               when_absent (break_even p fee) [''break_even_price''] @ lv_unavailable lv @
               when_absent (pp_unrealized_pnl p) [''unrealized_pnl''])\<rparr>"
    using m unfolding compute_position_metrics_def Let_def by (auto simp: result_simps)
  have lv: "(''stop_distance_percent'' \<in> set (lv_unavailable lv)) = (lv_stop lv = None)"
    "(''target_distance_percent'' \<in> set (lv_unavailable lv)) = (lv_target lv = None)"
    "(''liquidation_distance_percent'' \<in> set (lv_unavailable lv)) = (lv_liquidation lv = None)"
    "(''r_multiple_now'' \<in> set (lv_unavailable lv)) = (lv_r_now lv = None)"
    "(''remaining_r'' \<in> set (lv_unavailable lv)) = (lv_remaining_r lv = None)"
    "set (lv_unavailable lv) \<subseteq> {''stop_distance_percent'', ''target_distance_percent'',
       ''liquidation_distance_percent'', ''r_multiple_now'', ''remaining_r''}"
    using r(1) mark marked_names [of _ p lv] unmarked_names by (auto split: option.splits)
  have pnl: "(pnl = None) = (pp_unrealized_pnl p = None)"
    using r(2) by (auto simp: result_simps split: option.splits)
  have ex: "(floored_gap l e b = None) = (b = None)" for l e b by (simp add: floored_gap_def)
  show "distinct (pm_unavailable m)" unfolding eq by (simp add: distinct_first_occurrences)
  have nin: "''mfe'' \<notin> set (lv_unavailable lv)" "''mae'' \<notin> set (lv_unavailable lv)"
      "''break_even_price'' \<notin> set (lv_unavailable lv)" "''unrealized_pnl'' \<notin> set (lv_unavailable lv)"
    using lv(6) by auto
  show "\<forall>(name, field) \<in> set (named_fields m). (name \<in> set (pm_unavailable m)) = (field = None)"
    unfolding eq named_fields_def by (simp add: lv(1-5) nin pnl ex)
  show "set (pm_unavailable m) \<subseteq> fst ` set (named_fields m)"
  proof -
    have "set (lv_unavailable lv) \<subseteq> fst ` set (named_fields m)"
      by (rule subset_trans [OF lv(6)]) (simp add: eq named_fields_def)
    moreover have "set (when_absent y [n]) \<subseteq> fst ` set (named_fields m)"
      if "n \<in> fst ` set (named_fields m)" for n and y :: "rat option"
      using that by (cases y) (simp_all add: when_absent_def del: in_when_absent)
    ultimately show ?thesis
      by (simp add: eq del: in_when_absent) (simp add: named_fields_def)
  qed
qed

subsection \<open>The break-even price\<close>

text \<open>Equal up to \<open>k\<close> roundings of the context, for values that are not negative.\<close>

definition ulp :: rat where "ulp = 1 + 1 / 10 ^ 27"

definition about :: "nat \<Rightarrow> rat \<Rightarrow> rat \<Rightarrow> bool" where
  "about k x y \<longleftrightarrow> x \<le> y * ulp ^ k \<and> y \<le> x * ulp ^ k"

lemma ulp_ge_1 [simp]: "1 \<le> ulp" "0 < ulp" "0 \<le> ulp"
  by (simp_all add: ulp_def)

lemma about_refl: "0 \<le> x \<Longrightarrow> about k x x"
  by (simp add: about_def mult_left_mono [of 1, simplified] one_le_power mult_le_cancel_left1)

lemma about_sym: "about k x y \<Longrightarrow> about k y x"
  by (simp add: about_def)

lemma about_trans:
  assumes "about k x y" "about l y z"
  shows "about (k + l) x z"
proof -
  have "x \<le> (z * ulp ^ l) * ulp ^ k"
    by (rule order_trans [of _ "y * ulp ^ k"]) (use assms in \<open>auto simp: about_def\<close>)
  moreover have "z \<le> (x * ulp ^ k) * ulp ^ l"
    by (rule order_trans [of _ "y * ulp ^ l"]) (use assms in \<open>auto simp: about_def\<close>)
  ultimately show ?thesis by (simp add: about_def power_add mult_ac)
qed

lemma about_mono:
  assumes "about k x y" "k \<le> l" "0 \<le> x" "0 \<le> y"
  shows "about l x y"
  using assms power_increasing [of k l ulp] unfolding about_def
  by (meson mult_left_mono order_trans ulp_ge_1)

lemma about_mult:
  assumes "about k x y" "about l x' y'" "0 \<le> x" "0 \<le> y" "0 \<le> x'" "0 \<le> y'"
  shows "about (k + l) (x * x') (y * y')"
proof -
  have "x * x' \<le> (y * ulp ^ k) * (y' * ulp ^ l)" "y * y' \<le> (x * ulp ^ k) * (x' * ulp ^ l)"
    using assms by (auto simp: about_def intro!: mult_mono)
  then show ?thesis by (simp add: about_def power_add mult_ac)
qed

lemma about_inverse: "about k x y \<Longrightarrow> 0 < x \<Longrightarrow> 0 < y \<Longrightarrow> about k (1 / x) (1 / y)"
  by (simp add: about_def field_simps)

lemma about_divide:
  assumes "about k x y" "about l x' y'" "0 \<le> x" "0 \<le> y" "0 < x'" "0 < y'"
  shows "about (k + l) (x / x') (y / y')"
  using about_mult [OF assms(1) about_inverse [OF assms(2,5,6)]] assms by simp

lemma about_add:
  assumes "about k x y" "about k x' y'"
  shows "about k (x + x') (y + y')"
  using assms by (auto simp: about_def distrib_right intro!: add_mono)

lemma about_ctx_round:
  assumes "0 \<le> x"
  shows "about 1 (ctx_round x) x"
proof -
  have e: "\<bar>ctx_round x - x\<bar> \<le> x / (2 * 10 ^ 27)" using ctx_round_error [of x] assms by simp
  have "ctx_round x \<le> x + x / (2 * 10 ^ 27)" using e by linarith
  also have "\<dots> \<le> x * ulp" using assms by (simp add: ulp_def distrib_left)
  finally have up: "ctx_round x \<le> x * ulp" .
  have "x - x / (2 * 10 ^ 27) \<le> ctx_round x" using e by linarith
  then have "(x - x / (2 * 10 ^ 27)) * ulp \<le> ctx_round x * ulp" by (rule mult_right_mono) simp
  moreover have "x \<le> (x - x / (2 * 10 ^ 27)) * ulp" using assms by (simp add: ulp_def algebra_simps)
  ultimately have "x \<le> ctx_round x * ulp" by (rule order_trans [rotated])
  with up show ?thesis by (simp add: about_def)
qed

text \<open>A small part of one, and what is left of one without it.\<close>

lemma about_one_minus:
  assumes "about 1 f' f" "0 \<le> f" "0 \<le> f'" "f \<le> 1 / 4" "f' \<le> 1 / 2"
  shows "about 1 (1 - f') (1 - f)"
proof -
  let ?v = "1 / 10 ^ 27 :: rat"
  have f: "f' \<le> f + f * ?v" "f \<le> f' + f' * ?v"
    using assms(1) by (simp_all add: about_def ulp_def distrib_left)
  have "f * ?v \<le> (1 - f') * ?v" "f' * ?v \<le> (1 - f) * ?v"
    using assms by (intro mult_right_mono; simp)+
  with f show ?thesis unfolding about_def ulp_def by (simp add: algebra_simps)
qed

lemma about_abs:
  assumes "about 6 x y" "0 \<le> y" "0 \<le> x"
  shows "\<bar>x - y\<bar> \<le> y * (7 / 10 ^ 27)"
proof -
  have u: "ulp ^ 6 \<le> 1 + 7 / 10 ^ 27" "(1 - 7 / 10 ^ 27) * ulp ^ 6 \<le> 1"
    by (simp_all add: ulp_def power_divide)
  have "x \<le> y * ulp ^ 6" "y \<le> x * ulp ^ 6" using assms(1) by (simp_all add: about_def)
  moreover have "y * ulp ^ 6 \<le> y * (1 + 7 / 10 ^ 27)" by (rule mult_left_mono [OF u(1) assms(2)])
  moreover have "y * (1 - 7 / 10 ^ 27) \<le> x"
  proof -
    have "y * (1 - 7 / 10 ^ 27) \<le> (x * ulp ^ 6) * (1 - 7 / 10 ^ 27)"
      using \<open>y \<le> x * ulp ^ 6\<close> by (rule mult_right_mono) simp
    also have "\<dots> = x * ((1 - 7 / 10 ^ 27) * ulp ^ 6)" by simp
    also have "\<dots> \<le> x * 1" by (rule mult_left_mono [OF u(2) assms(3)])
    finally show ?thesis by simp
  qed
  ultimately have "x \<le> y + y * (7 / 10 ^ 27)" "y - y * (7 / 10 ^ 27) \<le> x"
    by (simp_all only: distrib_left right_diff_distrib mult_1_right)
  then show ?thesis unfolding abs_le_iff by linarith
qed

text \<open>
  What is left of a position of \<open>quantity\<close> opened at \<open>entry\<close> with \<open>entry_fee\<close> and closed at
  \<open>price\<close>, exactly: the result before fees, less the fee of the entry and of the exit.
\<close>

definition exact_net :: "paper_position \<Rightarrow> rat \<Rightarrow> rat \<Rightarrow> rat" where
  "exact_net p fee_bps price =
     (if pp_side p = LONG then price - pp_entry_price p else pp_entry_price p - price) * pp_quantity p -
     pp_entry_fee p - price * pp_quantity p * (fee_bps / 10000)"

lemma break_even_net:
  assumes p: "0 < pp_entry_price p" "0 \<le> pp_entry_fee p" and fee: "0 \<le> fee_bps" "fee_bps \<le> 2500"
    and price: "break_even p fee_bps = Some price"
  shows "\<bar>exact_net p fee_bps price\<bar> \<le> (pp_entry_price p * pp_quantity p + pp_entry_fee p) / 10 ^ 26"
proof -
  define q where "q = pp_quantity p"
  define E where "E = pp_entry_price p"
  define F where "F = pp_entry_fee p"
  define f where "f = fee_bps / 10000"
  define f' where "f' = d_quot fee_bps BPS"
  define long where "long = (pp_side p = LONG)"
  define C where "C = E * q"
  define C' where "C' = d_mul E q"
  define k where "k = (if long then 1 - f else 1 + f)"
  define k' where "k' = (if long then d_sub 1 f' else d_add 1 f')"
  define S where "S = (if long then C' + F else C' - F)"
  have q: "0 < q" and pr: "0 < price" "price = d_quot (ctx_round S) (d_mul q k')" "\<not> d_mul q k' \<le> 0"
    using price unfolding break_even_def Let_def q_def E_def F_def f'_def long_def C'_def k'_def S_def
    by (auto simp: d_add_def d_sub_def split: if_splits)
  have pos: "0 < E" "0 \<le> F" "0 \<le> f" "f \<le> 1 / 4" "0 < C"
    using p fee q by (simp_all add: E_def F_def f_def C_def)
  have f': "about 1 f' f" "0 \<le> f'"
    using about_ctx_round [of f] pos(3) by (simp_all add: f'_def d_quot_def BPS_def f_def)
  have "f' \<le> f * ulp" using f'(1) by (simp add: about_def)
  also have "\<dots> \<le> 1 / 4 * 2" using pos by (intro mult_mono) (simp_all add: ulp_def)
  finally have f'2: "f' \<le> 1 / 2" by simp
  have kk: "about 2 k' k" "0 < k" "0 < k'"
  proof -
    have "about 1 (1 - f') (1 - f)" "about 1 (1 + f') (1 + f)"
      using about_one_minus [OF f'(1) pos(3) f'(2) pos(4) f'2] about_add [OF about_refl f'(1)] by simp_all
    then have "about 1 (if long then 1 - f' else 1 + f') k" by (simp add: k_def)
    moreover have "about 1 k' (if long then 1 - f' else 1 + f')"
      using about_ctx_round [of "1 - f'"] about_ctx_round [of "1 + f'"] f'(2) f'2
      by (simp add: k'_def d_sub_def d_add_def)
    ultimately show "about 2 k' k" using about_trans [of 1 k' _ 1 k] by (simp add: numeral_2_eq_2)
    show "0 < k" "0 < k'" using pos f'(2) f'2 by (simp_all add: k_def k'_def d_sub_def d_add_def)
  qed
  have D: "about 3 (d_mul q k') (q * k)" "0 < d_mul q k'"
  proof -
    have "about 1 (d_mul q k') (q * k')" using about_ctx_round [of "q * k'"] q kk by (simp add: d_mul_def)
    moreover have "about 2 (q * k') (q * k)"
      using about_mult [OF about_refl [of q 0] kk(1)] q kk by (simp add: numeral_2_eq_2)
    ultimately show "about 3 (d_mul q k') (q * k)"
      using about_trans [of 1 "d_mul q k'" "q * k'" 2 "q * k"] by (simp add: numeral_3_eq_3)
  qed (use pr in simp)
  have S: "0 < S" using pr by (simp add: d_quot_def divide_less_0_iff zero_less_divide_iff)
  have "about 4 (ctx_round S / d_mul q k') (S / (q * k))"
    using about_divide [OF about_ctx_round [of S] D(1)] S D(2) q kk by simp
  moreover have "about 1 price (ctx_round S / d_mul q k')"
    using about_ctx_round [of "ctx_round S / d_mul q k'"] S D(2) unfolding pr(2) by (simp add: d_quot_def)
  ultimately have "about 5 price (S / (q * k))"
    using about_trans [of 1 price _ 4 "S / (q * k)"] by simp
  then have "about 5 (price * (q * k)) (S / (q * k) * (q * k))"
    using about_mult [OF _ about_refl [of "q * k" 0]] q kk pr S by fastforce
  then have "about 6 (price * (q * k)) S"
    using about_mono [of 5 _ S 6] q kk pr S by simp
  from about_abs [OF this] have 1: "\<bar>price * (q * k) - S\<bar> \<le> S * (7 / 10 ^ 27)" using S q kk pr by simp
  have "about 1 C' C" using about_ctx_round [of C] pos by (simp add: C'_def C_def d_mul_def)
  then have C: "C' \<le> C * ulp" "C \<le> C' * ulp" by (simp_all add: about_def)
  have 2: "\<bar>C' - C\<bar> \<le> C * (2 / 10 ^ 27)"
  proof -
    have "C' * (1 / 10 ^ 27) \<le> C * 2 * (1 / 10 ^ 27)"
      using C(1) pos by (intro mult_right_mono) (simp_all add: ulp_def)
    with C pos(5) have "C' - C \<le> C * (2 / 10 ^ 27)" "C - C' \<le> C * (2 / 10 ^ 27)"
      by (simp_all add: ulp_def algebra_simps)
    then show ?thesis unfolding abs_le_iff by linarith
  qed
  have 3: "S * (7 / 10 ^ 27) \<le> (C + C * (2 / 10 ^ 27) + F) * (7 / 10 ^ 27)"
  proof (rule mult_right_mono)
    have "C' \<le> C + C * (2 / 10 ^ 27)" using 2 unfolding abs_le_iff by linarith
    with pos(2) show "S \<le> C + C * (2 / 10 ^ 27) + F" unfolding S_def by (cases long; simp only: if_True if_False; linarith)
  qed simp
  have net: "exact_net p fee_bps price =
      (if long then price * (q * k) - (C + F) else (C - F) - price * (q * k))"
    by (simp add: exact_net_def long_def k_def C_def f_def E_def q_def F_def algebra_simps)
  have "\<bar>exact_net p fee_bps price\<bar> \<le> \<bar>price * (q * k) - S\<bar> + \<bar>C' - C\<bar>"
    unfolding net S_def by (cases long; simp only: if_True if_False; arith)
  also have "\<dots> \<le> (C + C * (2 / 10 ^ 27) + F) * (7 / 10 ^ 27) + C * (2 / 10 ^ 27)"
    using 1 2 3 by linarith
  also have "\<dots> \<le> (C + F) / 10 ^ 26" using pos by (simp add: field_simps)
  finally show ?thesis by (simp add: C_def E_def q_def F_def)
qed

end
