(* ===== verification/AnalysisProperties.thy ===== *)
theory AnalysisProperties
  imports AdviceLaws MetricsLaws BacktestExample
begin

section \<open>What a reading of the market and of a position guarantees\<close>

text \<open>
  Regimes never look ahead, a setup is always produced and carries its evidence, and the advice on an
  open position: always given, never on account of profit, and an exit only on two independent
  readings. One property shows a reading that cannot tell a loss from progress towards the target.
\<close>

subsection \<open>Samples\<close>

definition short_regime_params :: regime_params where
  "short_regime_params =
     \<lparr>rg_ema_fast = 2, rg_ema_slow = 3, rg_adx_period = 2, rg_atr_period = 2, rg_bb_period = 2\<rparr>"

definition held_condition :: "string \<Rightarrow> condition_outcome" where
  "held_condition name = \<lparr>co_name = name, co_satisfied = True, co_values = []\<rparr>"

definition sample_context :: strategy_context where
  "sample_context =
     \<lparr>sx_strategy_id = STRATEGY_KEY, sx_strategy_version = STRATEGY_VERSION, sx_timeframe = H1,
      sx_setup_score = None, sx_score_components = [],
      sx_entry_conditions = map held_condition [''trend'', ''trend_strength'', ''momentum'', ''macd''],
      sx_regime = None, sx_volatility_band = None, sx_data_source = None, sx_data_status = None,
      sx_data_age_seconds = None, sx_bar_close_time = None\<rparr>"

definition sample_thesis :: position_thesis where
  "sample_thesis =
     \<lparr>th_status = CAPTURED, th_captured_at = 0, th_side = LONG, th_entry_price = 110,
      th_stop_price = None, th_target_price = Some 115, th_planned_risk_per_unit = None,
      th_planned_risk_total = None, th_planned_reward_per_unit = None, th_risk_reward_ratio = None,
      th_strategy = Some sample_context\<rparr>"

text \<open>A long position opened at 110 with a target of 115 and no stop, marked at 100.\<close>

definition losing_position :: paper_position where
  "losing_position =
     \<lparr>pp_position_id = ''p-1'', pp_symbol = ''BTCUSDT'', pp_side = LONG, pp_quantity = 1,
      pp_entry_price = 110, pp_notional = 110, pp_margin = 11, pp_approved_leverage = 10,
      pp_entry_fee = 0, pp_stop_price = None, pp_target_price = Some 115,
      pp_trailing_stop_percent = None, pp_trail_extreme = None, pp_liquidation_price = None,
      pp_opened_at = 0, pp_updated_at = 0, pp_opening_order_id = ''o-1'',
      pp_mark_price = Some 100, pp_mark_source = None, pp_mark_status = Some OK,
      pp_unrealized_pnl = Some (- 10), pp_thesis = Some sample_thesis, pp_best_price = None,
      pp_worst_price = Some 100\<rparr>"

definition losing_metrics :: position_metrics where
  "losing_metrics =
     \<lparr>pm_time_in_trade_seconds = 0, pm_best_price = None, pm_worst_price = Some 100,
      pm_mfe_per_unit = None, pm_mae_per_unit = Some 10, pm_mfe_percent = None,
      pm_mae_percent = Some (90909 / 10000), pm_break_even_price = Some 110,
      pm_stop_distance_percent = None, pm_target_distance_percent = Some 15,
      pm_liquidation_distance_percent = None, pm_r_multiple_now = None, pm_remaining_r = None,
      pm_unrealized_pnl = Some (- 10),
      pm_unavailable = [''mfe'', ''stop_distance_percent'', ''liquidation_distance_percent'',
        ''r_multiple_now'', ''remaining_r'']\<rparr>"

lemma losing_position_fields:
  "pp_side losing_position = LONG" "pp_quantity losing_position = 1" "pp_entry_price losing_position = 110"
  "pp_entry_fee losing_position = 0" "pp_stop_price losing_position = None"
  "pp_target_price losing_position = Some 115" "pp_liquidation_price losing_position = None"
  "pp_opened_at losing_position = 0" "pp_mark_price losing_position = Some 100"
  "pp_unrealized_pnl losing_position = Some (- 10)" "pp_thesis losing_position = Some sample_thesis"
  "pp_best_price losing_position = None" "pp_worst_price losing_position = Some 100"
  by (simp_all add: losing_position_def)

lemma losing_amounts:
  "d_quot 0 10000 = 0" "d_mul 110 1 = 110" "d_sub 1 0 = 1" "d_mul 1 1 = 1" "d_add 110 0 = 110" "d_quot 110 1 = 110"
  "d_sub 110 100 = 10" "d_sub 100 110 = - 10" "d_sub 115 100 = 15"
  "d_mul (d_quot 15 100) 100 = 15" "quantize ROUND_HALF_EVEN 4 15 = Inr 15"
  "quantize ROUND_HALF_EVEN 4 (d_mul (d_quot 10 110) 100) = Inr (90909 / 10000)"
  "quantize_usdt (- 10) = Inr (- 10)"
  by (simp_all add: d_quot_def quantize_usdt_def USDT_PLACES_def dec_eval)

lemma losing_metrics_computed: "compute_position_metrics losing_position 0 0 = Inr losing_metrics"
proof -
  have "planned_risk_of losing_position = None"
    by (simp add: planned_risk_of_def losing_position_fields sample_thesis_def)
  then have "marked_distances losing_position 100 =
      Inr \<lparr>lv_stop = None, lv_target = Some 15, lv_liquidation = None, lv_r_now = None, lv_remaining_r = None,
        lv_unavailable = [''stop_distance_percent'', ''liquidation_distance_percent'', ''r_multiple_now'', ''remaining_r'']\<rparr>"
    by (simp add: marked_distances_def losing_position_fields distance_percent_def gap_beyond_def losing_amounts
        pct_def percent_places_def in_r_def when_absent_def)
  moreover have "break_even losing_position 0 = Some 110"
    by (simp add: break_even_def losing_position_fields BPS_def losing_amounts)
  moreover have "position_metrics_valid losing_metrics"
    by (simp add: position_metrics_valid_def losing_metrics_def nonnegative_if_given_def positive_if_given_def)
  ultimately show ?thesis
    by (simp add: compute_position_metrics_def losing_position_fields floored_gap_def gap_beyond_def losing_amounts
        pct_option_def pct_def percent_places_def construct_def total_seconds_def losing_metrics_def when_absent_def
        first_occurrences_def)
qed

definition losing_observation :: position_observation where
  "losing_observation =
     \<lparr>ob_position = losing_position, ob_metrics = losing_metrics, ob_now = 0,
      ob_candles = Some (take (3 + 1) example_bars), ob_regime = None,
      ob_strategy_params = short_params, ob_risk_lock = LOCK_NONE, ob_risk_lock_reason = None,
      ob_unreconciled_orders = 0\<rparr>"

lemma losing_fields:
  "ob_position losing_observation = losing_position" "ob_metrics losing_observation = losing_metrics"
  "ob_now losing_observation = 0" "ob_candles losing_observation = Some (take (3 + 1) example_bars)"
  "ob_regime losing_observation = None" "ob_strategy_params losing_observation = short_params"
  "ob_risk_lock losing_observation = LOCK_NONE" "ob_unreconciled_orders losing_observation = 0"
  by (simp_all only: losing_observation_def position_observation.select_convs)

lemma short_params_valid: "trend_params_valid short_params"
  by (simp add: short_params_def default_trend_params_def trend_params_valid_def in_range_def)

lemma losing_technical: "\<exists>t. technical_brain losing_observation = Inr t \<and> br_state t = SUPPORTIVE"
proof -
  have i: "3 < length example_bars" by (simp add: example_bars_def)
  obtain v where v: "compute_indicator_values (take (3 + 1) example_bars) short_params = Inr v"
    "[None, None, None, Some LONG_BIAS, Some NEUTRAL] ! 3 =
       map_option (\<lambda>v. case evaluate_conditions v short_params of (long, short, bias) \<Rightarrow> bias) v"
    using bias_of_prefix [OF short_params_valid example_biases i] by blast
  then obtain w where w: "v = Some w" "snd (snd (evaluate_conditions w short_params)) = LONG_BIAS"
    by (cases v) (auto simp: numeral_3_eq_3 split: prod.splits)
  then have all: "list_all co_satisfied (long_conditions w short_params)"
    by (auto simp: evaluate_conditions_def Let_def split: if_splits)
  have c: "current_conditions losing_observation = Inr (Some (long_conditions w short_params))"
    using v(1) w(1) i by (auto simp: current_conditions_def losing_fields ob_is_long_def losing_position_def
        evaluate_conditions_def Let_def)
  show ?thesis
  proof (rule technical_supportive [OF _ _ c])
    show "Option.bind (pp_thesis (ob_position losing_observation)) th_strategy = Some sample_context"
      by (simp add: losing_fields losing_position_def sample_thesis_def)
    show "sx_entry_conditions sample_context \<noteq> []" by (simp add: sample_context_def)
    show "\<forall>c \<in> set (sx_entry_conditions sample_context).
        \<exists>d. condition_named (long_conditions w short_params) (co_name c) = Some d \<and> co_satisfied d"
      using all by (simp add: sample_context_def held_condition_def condition_named_def long_conditions_def)
  qed
qed

subsection \<open>Regime and setup\<close>

text \<open>A regime never looks ahead. Classifying the bars up to index i gives the rule applied to the
  values that the lines over the whole history have at i, so no later bar can change it.\<close>

theorem regime_never_looks_ahead:
  assumes "regime_params_valid p" "i < length cs"
    "adx cs (rg_adx_period p) = Inr trend" "bollinger_bands cs (rg_bb_period p) 2 = Inr b"
  shows "classify_regime (take (i + 1) cs) p = Inr (assess (i + 1) (inputs_at cs p trend b i))"
  by (rule inputs_at_take [OF assms])

theorem regime_never_looks_ahead_witness:
  "\<exists>trend b. adx example_bars 2 = Inr trend \<and> bollinger_bands example_bars 2 2 = Inr b \<and>
    classify_regime (take (3 + 1) example_bars) short_regime_params =
      Inr (assess (3 + 1) (inputs_at example_bars short_regime_params trend b 3))"
proof -
  have p: "regime_params_valid short_regime_params" "rg_adx_period short_regime_params = 2"
      "rg_bb_period short_regime_params = 2"
    by (simp_all add: regime_params_valid_def short_regime_params_def in_range_def)
  obtain trend b where l: "adx example_bars 2 = Inr trend" "bollinger_bands example_bars 2 2 = Inr b"
    using adx_total [of 2 example_bars] bollinger_total [of 2 example_bars 2] by auto
  have i: "3 < length example_bars" by (simp add: example_bars_def)
  show ?thesis
    using regime_never_looks_ahead [OF p(1) i, unfolded p, OF l] l by blast
qed

text \<open>C20: a live evaluation always produces a setup that passes its own validator. An actionable one has a
  direction, a score between 0 and 100 that is exactly the sum of its components, and levels around the
  last close: the stop on the losing side, the target on the other, both positive, the risk the distance
  to the stop and the reward the configured multiple of it. Any other status carries neither score nor
  levels, and data that is not current or has no age is answered as stale, without a direction.\<close>

theorem setup_carries_its_evidence:
  assumes "trend_params_valid sp" "setup_params_valid p" "cs \<noteq> [] \<longrightarrow> dec28 (ca_close (last cs))"
  shows "\<exists>s. evaluate_setup cs ctx now sp p = Inr s \<and> setup_ok cs p s \<and>
    (dc_data_status ctx \<noteq> ''OK'' \<or> dc_age_seconds ctx = None \<longrightarrow>
       ts_status s = SETUP_STALE \<and> ts_direction s = NO_SIGNAL)"
proof -
  let ?v = "Some (dc_source ctx, dc_data_status ctx, dc_age_seconds ctx, now)"
  have stale: "emit_setup (blank_setup cs (dc_symbol ctx) (dc_timeframe ctx) ?v SETUP_STALE NO_SIGNAL) =
      Inr (blank_setup cs (dc_symbol ctx) (dc_timeframe ctx) ?v SETUP_STALE NO_SIGNAL) \<and>
      setup_ok cs p (blank_setup cs (dc_symbol ctx) (dc_timeframe ctx) ?v SETUP_STALE NO_SIGNAL)"
    by (rule setup_ok_inactive) simp_all
  show ?thesis
    using stale build_setup_ok [OF assms(1,2), of cs "dc_symbol ctx" "dc_timeframe ctx" ?v] assms(3)
    by (auto simp: evaluate_setup_def Let_def)
qed

theorem setup_carries_its_evidence_witness:
  "\<exists>s. evaluate_setup (take (3 + 1) example_bars)
      \<lparr>dc_symbol = ''BTCUSDT'', dc_timeframe = H1, dc_source = ''binance:rest'', dc_data_status = ''OK'',
       dc_age_seconds = Some 1\<rparr> 4 short_params default_setup_params = Inr s \<and>
     setup_ok (take (3 + 1) example_bars) default_setup_params s"
proof -
  have p: "setup_params_valid default_setup_params"
    by (simp add: setup_params_valid_def default_setup_params_def)
  have d: "take (3 + 1) example_bars \<noteq> [] \<longrightarrow> dec28 (ca_close (last (take (3 + 1) example_bars)))"
    using dec28_power [of 2] by (simp add: example_bars_def)
  show ?thesis using setup_carries_its_evidence [OF short_params_valid p d] by blast
qed

subsection \<open>Advice on an open position\<close>

lemma rung_not_partial: "rung x technical momentum \<noteq> PARTIAL_EXIT"
  by (simp add: rung_def)

lemma rung_exit:
  "rung x technical momentum = EXIT \<longleftrightarrow>
   \<not> risk_blocked x \<and> pp_mark_price (ob_position x) \<noteq> None \<and> technical = ADVERSE \<and>
   (br_state (regime_brain x) = ADVERSE \<or> momentum = ADVERSE \<or> near_stop x)"
  by (simp add: rung_def)

lemma rung_trail:
  assumes "\<not> risk_blocked x" "pp_mark_price (ob_position x) \<noteq> None"
    "\<exists>r \<in> set (target_row x (the (ob_mark x))). ev_satisfied r = Some True"
    "\<not> near_stop x" "br_state (regime_brain x) \<noteq> ADVERSE"
  shows "rung x SUPPORTIVE momentum = TRAIL"
  unfolding rung_def using assms by (simp only: if_False if_True brain_state.distinct simp_thms)

lemma row_satisfied: "ev_satisfied (row name held) = held"
  by (simp add: row_def)

text \<open>C21: advice is always given. Whatever the observation, the eight brains answer in their order, a
  decision is taken that some engine could carry out (a partial exit is never one), and a reported
  alignment is a percentage of a positive number of conditions.\<close>

theorem advice_always_given:
  assumes "trend_params_valid (ob_strategy_params x)"
  shows "\<exists>a. evaluate_position x = Inr a \<and> pn_decision a \<noteq> PARTIAL_EXIT \<and>
    map br_brain (pn_brain_results a) =
      [BRAIN_MARKET, BRAIN_TECHNICAL, BRAIN_REGIME, BRAIN_MOMENTUM_VOLUME, BRAIN_STRUCTURE, BRAIN_POSITION,
       BRAIN_RISK, BRAIN_EXIT] \<and>
    (\<forall>v. pn_thesis_alignment a = Some v \<longrightarrow>
       thesis_alignment_valid v \<and> tl_conditions_held v \<le> tl_conditions_total v)"
proof -
  obtain a where a: "evaluate_position x = Inr a" using evaluate_position_total [OF assms] by blast
  from a obtain t m where r: "technical_brain x = Inr t" "momentum_volume_brain x = Inr m"
    "pn_brain_results a = [market_brain x, t, regime_brain x, m, structure_brain x, position_brain x, risk_brain x,
       exit_brain x [market_brain x, t, regime_brain x, m, structure_brain x, position_brain x, risk_brain x]]"
    "alignment t = Inr (pn_thesis_alignment a)"
    by (rule evaluate_position_Inr)
  have "pn_decision a \<noteq> PARTIAL_EXIT" using decision_rung [OF a] rung_not_partial by metis
  with a r alignment_total [of t] technical_name [OF r(1)] momentum_name [OF r(2)] show ?thesis by auto
qed

theorem advice_always_given_witness:
  "\<exists>a. evaluate_position losing_observation = Inr a \<and> pn_decision a \<noteq> PARTIAL_EXIT"
  using advice_always_given [of losing_observation] by (auto simp: losing_fields short_params_valid)

text \<open>C22: an exit needs two independent readings. It is advised exactly when nothing blocks the account,
  the mark is readable, at most a third of the recorded entry conditions still hold, and besides the
  regime opposes the position, or every measured momentum reading is against it, or the mark is close to
  its stop.\<close>

theorem exit_needs_two_readings:
  assumes "evaluate_position x = Inr a"
  shows "pn_decision a = EXIT \<longleftrightarrow>
    \<not> risk_blocked x \<and> pp_mark_price (ob_position x) \<noteq> None \<and> thesis_broken x \<and>
    (br_state (regime_brain x) = ADVERSE \<or>
     (\<exists>m. momentum_volume_brain x = Inr m \<and> br_state m = ADVERSE) \<or> near_stop x)"
proof -
  obtain t m where tm: "technical_brain x = Inr t" "momentum_volume_brain x = Inr m"
    "pn_decision a = rung x (br_state t) (br_state m)"
    using decision_rung [OF assms] by blast
  show ?thesis unfolding tm(2,3) rung_exit technical_adverse [OF tm(1)] by simp
qed

theorem exit_needs_two_readings_witness:
  "\<exists>a. evaluate_position losing_observation = Inr a \<and>
    (pn_decision a = EXIT \<longleftrightarrow>
      \<not> risk_blocked losing_observation \<and> pp_mark_price (ob_position losing_observation) \<noteq> None \<and>
      thesis_broken losing_observation \<and>
      (br_state (regime_brain losing_observation) = ADVERSE \<or>
       (\<exists>m. momentum_volume_brain losing_observation = Inr m \<and> br_state m = ADVERSE) \<or>
       near_stop losing_observation))"
proof -
  obtain a where a: "evaluate_position losing_observation = Inr a"
    using evaluate_position_total [of losing_observation] by (auto simp: losing_fields short_params_valid)
  from exit_needs_two_readings [OF a] a show ?thesis by blast
qed




text \<open>What cannot be measured is named. A field of the metrics is missing exactly when its name is
  listed as unavailable, nothing else is listed, and no name twice.\<close>

theorem absent_metric_is_named:
  assumes "compute_position_metrics p now fee = Inr m" "\<And>v. pp_mark_price p = Some v \<Longrightarrow> 0 < v"
  shows "(\<forall>(name, field) \<in> set (named_fields m). (name \<in> set (pm_unavailable m)) = (field = None)) \<and>
    set (pm_unavailable m) \<subseteq> fst ` set (named_fields m) \<and> distinct (pm_unavailable m)"
  using metrics_names [OF assms] by blast

theorem absent_metric_is_named_witness:
  "list_all (\<lambda>(name, field). (name \<in> set (pm_unavailable losing_metrics)) = (field = None)) (named_fields losing_metrics) \<and>
    set (pm_unavailable losing_metrics) \<subseteq> fst ` set (named_fields losing_metrics) \<and>
    distinct (pm_unavailable losing_metrics)"
  unfolding list_all_iff
  by (rule absent_metric_is_named [OF losing_metrics_computed]) (simp add: losing_position_fields)

text \<open>The break-even price is break-even. Closing the whole position at it leaves, after the entry fee
  already paid and the exit fee charged on the exit itself, nothing but rounding: at most a part in
  10 ^ 26 of what the entry cost.\<close>

theorem break_even_nets_nothing:
  assumes "0 < pp_entry_price p" "0 \<le> pp_entry_fee p" "0 \<le> fee_bps" "fee_bps \<le> 2500"
    "break_even p fee_bps = Some price"
  shows "\<bar>exact_net p fee_bps price\<bar> \<le> (pp_entry_price p * pp_quantity p + pp_entry_fee p) / 10 ^ 26"
  by (rule break_even_net [OF assms])

theorem break_even_nets_nothing_witness:
  "break_even losing_position 0 = Some 110 \<and> \<bar>exact_net losing_position 0 110\<bar> \<le> (110 * 1 + 0) / 10 ^ 26"
proof
  show b: "break_even losing_position 0 = Some 110"
    by (simp add: break_even_def losing_position_fields BPS_def losing_amounts)
  from break_even_nets_nothing [OF _ _ _ _ b]
  show "\<bar>exact_net losing_position 0 110\<bar> \<le> (110 * 1 + 0) / 10 ^ 26"
    by (simp add: losing_position_fields)
qed

end
