(* ===== verification/Optimize.thy ===== *)
theory Optimize
  imports Backtest Setup "HOL-Library.List_Lexorder" "HOL-Library.Char_ord" "HOL-Library.Product_Lexorder"
begin

section \<open>Bounded parameter search\<close>

text \<open>
  \<^verbatim>\<open>domain/optimization.py\<close> and \<^verbatim>\<open>analysis/optimize.py\<close>: grids over strategy parameters, the
  chronological split, the objective, the search and its walk-forward variant. A grid is built by
  a loop that need not end, so whatever needs one returns an option: \<open>None\<close> is a call that does
  not return. Sentences for a reader are left out; a warning is given by its kind.
\<close>

subsection \<open>The models\<close>

datatype parameter_type = PARAM_INTEGER | PARAM_DECIMAL

record parameter_spec =
  sp_name :: string
  sp_type :: parameter_type
  sp_minimum :: rat
  sp_maximum :: rat
  sp_step :: rat
  sp_default :: rat

definition parameter_spec_valid :: "parameter_spec \<Rightarrow> bool" where
  "parameter_spec_valid s \<longleftrightarrow>
     0 < sp_step s \<and> \<not> sp_maximum s < sp_minimum s \<and>
     sp_minimum s \<le> sp_default s \<and> sp_default s \<le> sp_maximum s \<and>
     \<not> (d_sub (sp_maximum s) (sp_minimum s) < sp_step s \<and> sp_minimum s \<noteq> sp_maximum s)"

text \<open>\<^verbatim>\<open>while current <= maximum: out.append(current); current += step\<close>.\<close>

partial_function (option) grid_from :: "rat \<Rightarrow> rat \<Rightarrow> rat \<Rightarrow> rat list option" where
  "grid_from maximum step current =
     (if current \<le> maximum
      then Option.bind (grid_from maximum step (d_add current step)) (\<lambda>rest. Some (current # rest))
      else Some [])"

definition spec_values :: "parameter_spec \<Rightarrow> rat list option" where
  "spec_values s =
     map_option (\<lambda>out. if out \<noteq> [] \<and> last out \<noteq> sp_maximum s then out @ [sp_maximum s] else out)
       (grid_from (sp_maximum s) (sp_step s) (sp_minimum s))"

record data_split =
  dp_train_start :: nat
  dp_train_end :: nat
  dp_validation_start :: nat
  dp_validation_end :: nat
  dp_test_start :: nat
  dp_test_end :: nat
  dp_total_bars :: nat

definition data_split_valid :: "data_split \<Rightarrow> bool" where
  "data_split_valid s \<longleftrightarrow>
     sorted [dp_train_start s, dp_train_end s, dp_validation_start s, dp_validation_end s,
             dp_test_start s, dp_test_end s] \<and>
     \<not> dp_total_bars s < dp_test_end s"

record walk_window =
  ww_index :: nat
  ww_train_start :: nat
  ww_train_end :: nat
  ww_validation_start :: nat
  ww_validation_end :: nat

definition walk_window_valid :: "walk_window \<Rightarrow> bool" where
  "walk_window_valid w \<longleftrightarrow>
     \<not> ww_validation_start w < ww_train_end w \<and>
     \<not> (ww_train_end w \<le> ww_train_start w \<or> ww_validation_end w \<le> ww_validation_start w)"

datatype rejection = NO_METRICS | TOO_FEW_TRADES

record trial_score =
  ts_total :: rat
  ts_components :: "(string, rat) dict"
  ts_rejected_reason :: "rejection option"

type_synonym candidate_params = "(string, rat) dict"

record optimization_trial =
  ot_parameters :: candidate_params
  ot_train_score :: trial_score
  ot_train_metrics :: "backtest_metrics option"
  ot_validation_score :: "trial_score option"
  ot_validation_metrics :: "backtest_metrics option"

datatype search_warning =
    WindowBelowWarmup string nat nat
  | BestIsRejected
  | NoWindowFits nat nat nat
  | ValidationBelowWarmup nat nat
  | EveryFoldRejected
  | NothingRepeated

record optimization_report =
  or_symbol :: string
  or_timeframe :: timeframe
  or_strategy :: string
  or_strategy_version :: string
  or_objective :: string
  or_space :: "parameter_spec list"
  or_combinations_evaluated :: nat
  or_combinations_possible :: nat
  or_split :: data_split
  or_trials :: "optimization_trial list"
  or_best :: "optimization_trial option"
  or_test_metrics :: "backtest_metrics option"
  or_test_score :: "trial_score option"
  or_config :: backtest_config
  or_first_bar_time :: "timestamp option"
  or_last_bar_time :: "timestamp option"
  or_ran_at :: "timestamp option"
  or_warnings :: "search_warning list"

record walk_fold =
  wf_window :: walk_window
  wf_selected :: candidate_params
  wf_train_score :: trial_score
  wf_validation_score :: trial_score
  wf_validation_metrics :: "backtest_metrics option"
  wf_candidates_evaluated :: nat

record walk_report =
  wr_symbol :: string
  wr_timeframe :: timeframe
  wr_strategy :: string
  wr_strategy_version :: string
  wr_objective :: string
  wr_space :: "parameter_spec list"
  wr_train_bars :: nat
  wr_validation_bars :: nat
  wr_step_bars :: nat
  wr_folds :: "walk_fold list"
  wr_mean_validation_score :: "rat option"
  wr_mean_train_score :: "rat option"
  wr_most_selected :: "candidate_params option"
  wr_most_selected_folds :: nat
  wr_config :: backtest_config
  wr_ran_at :: "timestamp option"
  wr_warnings :: "search_warning list"

definition fold_count :: "walk_report \<Rightarrow> nat" where
  "fold_count r = length (wr_folds r)"

subsection \<open>Weights, references and bounds\<close>

definition OBJECTIVE_METHOD :: string where "OBJECTIVE_METHOD = ''optimization-objective/v1''"

definition OBJECTIVE_WEIGHTS :: "(string, rat) dict" where
  "OBJECTIVE_WEIGHTS =
     [(''return'', 35 / 100), (''profit_factor'', 25 / 100), (''drawdown'', 25 / 100),
      (''consistency'', 15 / 100)]"

definition RETURN_REFERENCE :: rat where "RETURN_REFERENCE = 30"
definition PROFIT_FACTOR_REFERENCE :: rat where "PROFIT_FACTOR_REFERENCE = 2"
definition DRAWDOWN_REFERENCE :: rat where "DRAWDOWN_REFERENCE = 25"
definition STREAK_REFERENCE :: rat where "STREAK_REFERENCE = 10"
definition MIN_TRADES_FOR_OBJECTIVE :: nat where "MIN_TRADES_FOR_OBJECTIVE = 20"
definition MAX_COMBINATIONS :: nat where "MAX_COMBINATIONS = 512"
definition MAX_WALK_FORWARD_FOLDS :: nat where "MAX_WALK_FORWARD_FOLDS = 24"

definition q_ratio :: "rat \<Rightarrow> rat result" where
  "q_ratio v = quantize ROUND_HALF_UP 4 v"

subsection \<open>Splitting\<close>

definition split_chronological :: "nat \<Rightarrow> rat \<Rightarrow> rat \<Rightarrow> data_split result" where
  "split_chronological total_bars train_fraction validation_fraction =
     (if total_bars = 0 then Inl ValueError
      else if train_fraction \<le> 0 \<or> validation_fraction \<le> 0 then Inl ValueError
      else if 1 \<le> d_add train_fraction validation_fraction then Inl ValueError
      else let train_end = nat (round_down (d_mul (of_nat total_bars) train_fraction));
               validation_end =
                 train_end + nat (round_down (d_mul (of_nat total_bars) validation_fraction))
           in if train_end = 0 \<or> validation_end \<le> train_end \<or> total_bars \<le> validation_end
              then Inl ValueError
              else construct data_split_valid
                \<lparr>dp_train_start = 0, dp_train_end = train_end, dp_validation_start = train_end,
                 dp_validation_end = validation_end, dp_test_start = validation_end,
                 dp_test_end = total_bars, dp_total_bars = total_bars\<rparr>)"

definition default_split :: "nat \<Rightarrow> data_split result" where
  "default_split total_bars = split_chronological total_bars (6 / 10) (2 / 10)"

text \<open>\<^verbatim>\<open>candles[a:b]\<close> for indices that are not negative.\<close>

definition bars_between :: "nat \<Rightarrow> nat \<Rightarrow> candle list \<Rightarrow> candle list" where
  "bars_between a b cs = drop a (take b cs)"

text \<open>The loop of \<^verbatim>\<open>walk_forward_windows\<close>; the step it is given is positive.\<close>

function windows_from :: "nat \<Rightarrow> nat \<Rightarrow> nat \<Rightarrow> nat \<Rightarrow> nat \<Rightarrow> nat \<Rightarrow> walk_window list" where
  "windows_from total_bars train validation step start index =
     (if 0 < step \<and> start + train + validation \<le> total_bars
      then \<lparr>ww_index = index, ww_train_start = start, ww_train_end = start + train,
            ww_validation_start = start + train, ww_validation_end = start + train + validation\<rparr> #
           windows_from total_bars train validation step (start + step) (index + 1)
      else [])"
  by auto

termination by (relation "measure (\<lambda>(total_bars, train, validation, step, start, index).
    if start \<le> total_bars then Suc total_bars - start else 0)") auto

declare windows_from.simps [simp del]

definition walk_forward_windows :: "nat \<Rightarrow> nat \<Rightarrow> nat \<Rightarrow> nat option \<Rightarrow> walk_window list result" where
  "walk_forward_windows total_bars train validation step_bars =
     (if train = 0 \<or> validation = 0 then Inl ValueError
      else let step = (case step_bars of None \<Rightarrow> validation | Some s \<Rightarrow> s)
           in if step = 0 then Inl ValueError
              else mapE (construct walk_window_valid)
                     (windows_from total_bars train validation step 0 0))"

subsection \<open>The objective\<close>

definition weight_of :: "string \<Rightarrow> rat" where
  "weight_of name = the (map_of OBJECTIVE_WEIGHTS name)"

definition normalized_metrics :: "backtest_metrics \<Rightarrow> (string, rat) dict" where
  "normalized_metrics m =
     [(''return'', clamp_unit (d_quot (bm_return_percent m) RETURN_REFERENCE)),
      (''profit_factor'',
         case bm_profit_factor m of
           None \<Rightarrow> 1
         | Some pf \<Rightarrow> clamp_unit (d_quot (d_sub pf 1) (d_sub PROFIT_FACTOR_REFERENCE 1))),
      (''drawdown'', clamp_unit (d_sub 1 (d_quot (bm_max_drawdown_percent m) DRAWDOWN_REFERENCE))),
      (''consistency'',
         clamp_unit (d_sub 1 (d_quot (of_nat (bm_max_consecutive_losses m)) STREAK_REFERENCE)))]"

definition score_objective :: "backtest_metrics option \<Rightarrow> trial_score result" where
  "score_objective metrics =
     (case metrics of
        None \<Rightarrow> Inr \<lparr>ts_total = 0, ts_components = [], ts_rejected_reason = Some NO_METRICS\<rparr>
      | Some m \<Rightarrow>
          if bm_total_trades m < MIN_TRADES_FOR_OBJECTIVE
          then Inr \<lparr>ts_total = 0, ts_components = [(''total_trades'', of_nat (bm_total_trades m))],
                    ts_rejected_reason = Some TOO_FEW_TRADES\<rparr>
          else bindE (mapE (\<lambda>(name, norm). bindE (q_ratio (d_mul norm (weight_of name))) (\<lambda>v. Inr (name, v)))
                 (normalized_metrics m)) (\<lambda>components.
               bindE (q_ratio (d_sum (map snd components))) (\<lambda>v.
               Inr \<lparr>ts_total = v, ts_components = components, ts_rejected_reason = None\<rparr>)))"

subsection \<open>Candidates\<close>

definition int_spec :: "string \<Rightarrow> int \<Rightarrow> int \<Rightarrow> int \<Rightarrow> int \<Rightarrow> parameter_spec" where
  "int_spec name lo hi step dflt =
     \<lparr>sp_name = name, sp_type = PARAM_INTEGER, sp_minimum = of_int lo, sp_maximum = of_int hi,
      sp_step = of_int step, sp_default = of_int dflt\<rparr>"

definition default_parameter_space :: "parameter_spec list" where
  "default_parameter_space =
     [int_spec ''ema_fast'' 9 21 6 21, int_spec ''ema_slow'' 50 70 10 55,
      (int_spec ''adx_minimum'' 15 25 5 20)\<lparr>sp_type := PARAM_DECIMAL\<rparr>]"

text \<open>A number given to an integer field of the model: it must be whole and not negative.\<close>

definition whole :: "rat \<Rightarrow> nat option" where
  "whole v = (if v = of_int \<lfloor>v\<rfloor> \<and> 0 \<le> v then Some (nat \<lfloor>v\<rfloor>) else None)"

text \<open>
  One keyword argument of \<^verbatim>\<open>TrendMomentumParams\<close>: four of the integer fields are truncated
  before, a name that is no field is ignored, a value the field cannot hold is a validation error.
\<close>

definition set_parameter :: "string \<Rightarrow> rat \<Rightarrow> trend_params \<Rightarrow> trend_params option" where
  "set_parameter name v p =
     (if name = ''ema_fast'' then map_option (\<lambda>n. p\<lparr>tp_ema_fast := n\<rparr>) (whole (of_int (round_down v)))
      else if name = ''ema_slow'' then map_option (\<lambda>n. p\<lparr>tp_ema_slow := n\<rparr>) (whole (of_int (round_down v)))
      else if name = ''rsi_period'' then map_option (\<lambda>n. p\<lparr>tp_rsi_period := n\<rparr>) (whole (of_int (round_down v)))
      else if name = ''adx_period'' then map_option (\<lambda>n. p\<lparr>tp_adx_period := n\<rparr>) (whole (of_int (round_down v)))
      else if name = ''macd_fast'' then map_option (\<lambda>n. p\<lparr>tp_macd_fast := n\<rparr>) (whole v)
      else if name = ''macd_slow'' then map_option (\<lambda>n. p\<lparr>tp_macd_slow := n\<rparr>) (whole v)
      else if name = ''macd_signal'' then map_option (\<lambda>n. p\<lparr>tp_macd_signal := n\<rparr>) (whole v)
      else if name = ''rsi_overbought'' then Some (p\<lparr>tp_rsi_overbought := v\<rparr>)
      else if name = ''rsi_oversold'' then Some (p\<lparr>tp_rsi_oversold := v\<rparr>)
      else if name = ''adx_minimum'' then Some (p\<lparr>tp_adx_minimum := v\<rparr>)
      else Some p)"

fun set_parameters :: "candidate_params \<Rightarrow> trend_params \<Rightarrow> trend_params option" where
  "set_parameters [] p = Some p"
| "set_parameters ((name, v) # vs) p = Option.bind (set_parameter name v p) (set_parameters vs)"

definition build_params :: "candidate_params \<Rightarrow> trend_params option" where
  "build_params vs =
     Option.bind (set_parameters vs default_trend_params)
       (\<lambda>p. if trend_params_valid p then Some p else None)"

definition evaluate_on ::
    "candle list \<Rightarrow> string \<Rightarrow> timeframe \<Rightarrow> backtest_config \<Rightarrow> trend_params \<Rightarrow>
     backtest_metrics option result" where
  "evaluate_on cs symb tf c p =
     bindE (run_backtest cs symb tf c p None) (\<lambda>r.
     Inr (if br_status r = BT_COMPLETED then br_metrics r else None))"

text \<open>The grids of the ordered specifications, and the dictionary of one combination.\<close>

fun grids_of :: "parameter_spec list \<Rightarrow> rat list list option" where
  "grids_of [] = Some []"
| "grids_of (s # ss) = Option.bind (spec_values s) (\<lambda>g. map_option (Cons g) (grids_of ss))"

definition combinations_possible :: "rat list list \<Rightarrow> nat" where
  "combinations_possible grids = foldl (\<lambda>n g. n * length g) 1 grids"

definition assignment :: "parameter_spec list \<Rightarrow> rat list \<Rightarrow> candidate_params" where
  "assignment specs combination =
     foldl (\<lambda>d (s, v). AList.update (sp_name s) v d) [] (zip specs combination)"

text \<open>The first of the highest: a later one replaces it only when it is strictly higher.\<close>

definition leading :: "('a \<Rightarrow> 'b :: linorder) \<Rightarrow> 'a list \<Rightarrow> 'a option" where
  "leading key xs =
     foldl (\<lambda>best x. case best of None \<Rightarrow> Some x | Some b \<Rightarrow> if key b < key x then Some x else best)
       None xs"

definition present :: "'a option list \<Rightarrow> 'a list" where
  "present xs = concat (map (\<lambda>x. case x of None \<Rightarrow> [] | Some v \<Rightarrow> [v]) xs)"

subsection \<open>The search\<close>

text \<open>One combination: skipped when it builds no parameters, else scored on both windows.\<close>

definition trial_of ::
    "candle list \<Rightarrow> candle list \<Rightarrow> string \<Rightarrow> timeframe \<Rightarrow> backtest_config \<Rightarrow> candidate_params \<Rightarrow>
     optimization_trial option result" where
  "trial_of train validation symb tf c vs =
     (case build_params vs of
        None \<Rightarrow> Inr None
      | Some p \<Rightarrow>
          bindE (evaluate_on train symb tf c p) (\<lambda>train_metrics.
          bindE (score_objective train_metrics) (\<lambda>train_score.
          bindE (evaluate_on validation symb tf c p) (\<lambda>validation_metrics.
          bindE (score_objective validation_metrics) (\<lambda>validation_score.
          Inr (Some \<lparr>ot_parameters = vs, ot_train_score = train_score,
                     ot_train_metrics = train_metrics,
                     ot_validation_score = Some validation_score,
                     ot_validation_metrics = validation_metrics\<rparr>))))))"

definition search_trials ::
    "candle list \<Rightarrow> candle list \<Rightarrow> string \<Rightarrow> timeframe \<Rightarrow> backtest_config \<Rightarrow>
     parameter_spec list \<Rightarrow> rat list list \<Rightarrow> optimization_trial list result" where
  "search_trials train validation symb tf c ordered grids =
     bindE (mapE (\<lambda>combination. trial_of train validation symb tf c (assignment ordered combination))
              (product_lists grids)) (\<lambda>trials. Inr (present trials))"

definition validation_value :: "optimization_trial \<Rightarrow> rat" where
  "validation_value t = ts_total (the (ot_validation_score t))"

definition best_trial :: "optimization_trial list \<Rightarrow> optimization_trial option" where
  "best_trial trials = leading validation_value (filter (\<lambda>t. ot_validation_score t \<noteq> None) trials)"

definition window_warnings :: "candle list \<Rightarrow> candle list \<Rightarrow> candle list \<Rightarrow> search_warning list" where
  "window_warnings train validation test =
     (let warmup = warmup_bars default_trend_params
      in map (\<lambda>(name, w). WindowBelowWarmup name (length w) warmup)
           (filter (\<lambda>(name, w). length w \<le> warmup)
              [(''train'', train), (''validation'', validation), (''test'', test)]))"

definition best_warnings :: "optimization_trial option \<Rightarrow> search_warning list" where
  "best_warnings best =
     (case Option.bind best ot_validation_score of
        None \<Rightarrow> []
      | Some s \<Rightarrow> if ts_rejected_reason s \<noteq> None then [BestIsRejected] else [])"

text \<open>The held-out result of the winner, the last thing computed.\<close>

definition test_result ::
    "candle list \<Rightarrow> string \<Rightarrow> timeframe \<Rightarrow> backtest_config \<Rightarrow> optimization_trial option \<Rightarrow>
     (backtest_metrics option \<times> trial_score option) result" where
  "test_result test symb tf c best =
     (case Option.bind best (\<lambda>b. build_params (ot_parameters b)) of
        None \<Rightarrow> Inr (None, None)
      | Some p \<Rightarrow>
          bindE (evaluate_on test symb tf c p) (\<lambda>m.
          bindE (score_objective m) (\<lambda>s. Inr (m, Some s))))"

definition search_over ::
    "candle list \<Rightarrow> string \<Rightarrow> timeframe \<Rightarrow> backtest_config \<Rightarrow> parameter_spec list \<Rightarrow>
     rat list list \<Rightarrow> data_split \<Rightarrow> timestamp option \<Rightarrow> optimization_report result" where
  "search_over cs symb tf c ordered grids split ran_at =
     (let train = bars_between (dp_train_start split) (dp_train_end split) cs;
          validation = bars_between (dp_validation_start split) (dp_validation_end split) cs;
          test = bars_between (dp_test_start split) (dp_test_end split) cs
      in bindE (search_trials train validation symb tf c ordered grids) (\<lambda>trials.
         let best = best_trial trials
         in bindE (test_result test symb tf c best) (\<lambda>(test_metrics, test_score).
            Inr \<lparr>or_symbol = upper symb, or_timeframe = tf, or_strategy = STRATEGY_KEY,
                 or_strategy_version = STRATEGY_VERSION, or_objective = OBJECTIVE_METHOD,
                 or_space = ordered, or_combinations_evaluated = length trials,
                 or_combinations_possible = combinations_possible grids, or_split = split,
                 or_trials = trials, or_best = best, or_test_metrics = test_metrics,
                 or_test_score = test_score, or_config = c,
                 or_first_bar_time = (if cs = [] then None else Some (ca_open_time (hd cs))),
                 or_last_bar_time = (if cs = [] then None else Some (ca_close_time (last cs))),
                 or_ran_at = ran_at,
                 or_warnings = window_warnings train validation test @ best_warnings best\<rparr>)))"

definition optimize ::
    "candle list \<Rightarrow> string \<Rightarrow> timeframe \<Rightarrow> backtest_config \<Rightarrow> parameter_spec list \<Rightarrow>
     data_split option \<Rightarrow> nat \<Rightarrow> timestamp option \<Rightarrow> optimization_report result option" where
  "optimize cs symb tf c specs split max_combinations ran_at =
     (if specs = [] then Some (Inl ValueError)
      else let ordered = sort_key sp_name specs
           in map_option (\<lambda>grids.
                if max_combinations < combinations_possible grids then Inl ValueError
                else bindE (case split of None \<Rightarrow> default_split (length cs) | Some s \<Rightarrow> Inr s) (\<lambda>partition.
                     if dp_total_bars partition \<noteq> length cs then Inl ValueError
                     else search_over cs symb tf c ordered grids partition ran_at))
              (grids_of ordered))"

subsection \<open>Walk-forward\<close>

text \<open>Every candidate that builds, scored over one window; the first of the highest is selected.\<close>

definition candidate_score ::
    "candle list \<Rightarrow> string \<Rightarrow> timeframe \<Rightarrow> backtest_config \<Rightarrow> candidate_params \<Rightarrow>
     (candidate_params \<times> trial_score) option result" where
  "candidate_score cs symb tf c vs =
     (case build_params vs of
        None \<Rightarrow> Inr None
      | Some p \<Rightarrow>
          bindE (evaluate_on cs symb tf c p) (\<lambda>m.
          bindE (score_objective m) (\<lambda>s. Inr (Some (vs, s)))))"

definition select_on ::
    "candle list \<Rightarrow> string \<Rightarrow> timeframe \<Rightarrow> backtest_config \<Rightarrow> rat list list \<Rightarrow> parameter_spec list \<Rightarrow>
     (candidate_params \<times> trial_score \<times> nat) option result" where
  "select_on cs symb tf c grids ordered =
     bindE (mapE (\<lambda>combination. candidate_score cs symb tf c (assignment ordered combination))
              (product_lists grids)) (\<lambda>scores.
     Inr (map_option (\<lambda>(vs, s). (vs, s, length (present scores)))
            (leading (\<lambda>(vs, s). ts_total s) (present scores))))"

definition fold_of ::
    "candle list \<Rightarrow> string \<Rightarrow> timeframe \<Rightarrow> backtest_config \<Rightarrow> rat list list \<Rightarrow> parameter_spec list \<Rightarrow>
     walk_window \<Rightarrow> walk_fold option result" where
  "fold_of cs symb tf c grids ordered w =
     bindE (select_on (bars_between (ww_train_start w) (ww_train_end w) cs) symb tf c grids ordered)
       (\<lambda>selection.
        case selection of
          None \<Rightarrow> Inr None
        | Some (vs, train_score, evaluated) \<Rightarrow>
            (case build_params vs of
               None \<Rightarrow> Inr None
             | Some p \<Rightarrow>
                 bindE (evaluate_on (bars_between (ww_validation_start w) (ww_validation_end w) cs)
                          symb tf c p) (\<lambda>m.
                 bindE (score_objective m) (\<lambda>s.
                 Inr (Some \<lparr>wf_window = w, wf_selected = vs, wf_train_score = train_score,
                            wf_validation_score = s, wf_validation_metrics = m,
                            wf_candidates_evaluated = evaluated\<rparr>)))))"

definition mean_score :: "(walk_fold \<Rightarrow> trial_score) \<Rightarrow> walk_fold list \<Rightarrow> rat option result" where
  "mean_score f folds =
     (if folds = [] then Inr None
      else bindE (q_ratio (d_quot (d_sum (map (\<lambda>x. ts_total (f x)) folds)) (of_nat (length folds))))
             (\<lambda>v. Inr (Some v)))"

definition times_selected :: "walk_fold list \<Rightarrow> candidate_params \<Rightarrow> nat" where
  "times_selected folds key = length (filter (\<lambda>f. sort (wf_selected f) = key) folds)"

definition most_selected_of :: "walk_fold list \<Rightarrow> candidate_params option" where
  "most_selected_of folds =
     leading (times_selected folds) (sort (remdups (map (\<lambda>f. sort (wf_selected f)) folds)))"

definition fold_warnings :: "walk_fold list \<Rightarrow> nat \<Rightarrow> search_warning list" where
  "fold_warnings folds repeated =
     (if folds = [] then []
      else if list_all (\<lambda>f. ts_rejected_reason (wf_train_score f) \<noteq> None) folds then [EveryFoldRejected]
      else if repeated = 1 \<and> 1 < length folds then [NothingRepeated] else [])"

definition walk_over ::
    "candle list \<Rightarrow> string \<Rightarrow> timeframe \<Rightarrow> nat \<Rightarrow> nat \<Rightarrow> nat option \<Rightarrow> backtest_config \<Rightarrow>
     parameter_spec list \<Rightarrow> rat list list \<Rightarrow> walk_window list \<Rightarrow> timestamp option \<Rightarrow> walk_report result" where
  "walk_over cs symb tf train validation step c ordered grids windows ran_at =
     (let warmup = warmup_bars default_trend_params
      in bindE (mapE (fold_of cs symb tf c grids ordered) windows) (\<lambda>found.
         let folds = present found;
             winner = most_selected_of folds;
             repeated = (case winner of None \<Rightarrow> 0 | Some k \<Rightarrow> times_selected folds k)
         in bindE (mean_score wf_validation_score folds) (\<lambda>mean_validation.
            bindE (mean_score wf_train_score folds) (\<lambda>mean_train.
            Inr \<lparr>wr_symbol = upper symb, wr_timeframe = tf, wr_strategy = STRATEGY_KEY,
                 wr_strategy_version = STRATEGY_VERSION, wr_objective = OBJECTIVE_METHOD,
                 wr_space = ordered, wr_train_bars = train, wr_validation_bars = validation,
                 wr_step_bars = (case step of None \<Rightarrow> validation | Some s \<Rightarrow> s), wr_folds = folds,
                 wr_mean_validation_score = mean_validation, wr_mean_train_score = mean_train,
                 wr_most_selected = winner, wr_most_selected_folds = repeated, wr_config = c,
                 wr_ran_at = ran_at,
                 wr_warnings =
                   (if windows = [] then [NoWindowFits (length cs) train validation] else []) @
                   (if windows \<noteq> [] \<and> validation \<le> warmup
                    then [ValidationBelowWarmup validation warmup] else []) @
                   fold_warnings folds repeated\<rparr>))))"

definition walk_forward ::
    "candle list \<Rightarrow> string \<Rightarrow> timeframe \<Rightarrow> nat \<Rightarrow> nat \<Rightarrow> nat option \<Rightarrow> backtest_config \<Rightarrow>
     parameter_spec list \<Rightarrow> nat \<Rightarrow> nat \<Rightarrow> timestamp option \<Rightarrow> walk_report result option" where
  "walk_forward cs symb tf train validation step c specs max_combinations max_folds ran_at =
     (if specs = [] then Some (Inl ValueError)
      else let ordered = sort_key sp_name specs
           in map_option (\<lambda>grids.
                if max_combinations < combinations_possible grids then Inl ValueError
                else bindE (walk_forward_windows (length cs) train validation step) (\<lambda>windows.
                     if max_folds < length windows then Inl ValueError
                     else walk_over cs symb tf train validation step c ordered grids windows ran_at))
              (grids_of ordered))"

end
