(* ===== verification/OptimizeLaws.thy ===== *)
theory OptimizeLaws
  imports Optimize SetupLaws BacktestLaws "HOL-Library.Sublist"
begin

section \<open>What the search promises\<close>

text \<open>
  Grids end when the step survives rounding, and then reach both ends; the objective is a number
  between 0 and 1 that equals its components; the first of the highest is selected; the bars of a
  window alone decide what is selected on it.
\<close>

subsection \<open>Grids\<close>

lemma grid_step:
  assumes "\<bar>current\<bar> + step \<le> step * 10 ^ 27"
  shows "current + step / 2 \<le> d_add current step" "d_add current step \<le> current + 3 / 2 * step"
proof -
  have step: "0 \<le> step"
  proof (rule ccontr)
    assume "\<not> 0 \<le> step"
    then have "step * 10 ^ 27 < step" by simp
    with assms abs_ge_zero [of current] show False by linarith
  qed
  have "\<bar>ctx_round (current + step) - (current + step)\<bar> \<le> \<bar>current + step\<bar> / (2 * 10 ^ 27)"
    by (rule ctx_round_error)
  also have "\<dots> \<le> (\<bar>current\<bar> + step) / (2 * 10 ^ 27)"
    using step by (intro divide_right_mono) auto
  also have "\<dots> \<le> (step * 10 ^ 27) / (2 * 10 ^ 27)"
    using assms by (intro divide_right_mono) auto
  finally have "\<bar>d_add current step - (current + step)\<bar> \<le> step / 2" by (simp add: d_add_def)
  then show "current + step / 2 \<le> d_add current step" "d_add current step \<le> current + 3 / 2 * step"
    by linarith+
qed

definition grid_ok :: "rat \<Rightarrow> rat \<Rightarrow> rat \<Rightarrow> rat list \<Rightarrow> bool" where
  "grid_ok step lo hi out \<longleftrightarrow>
     out \<noteq> [] \<and> hd out = lo \<and> last out = hi \<and> successively (\<lambda>a b. a < b \<and> b \<le> a + 3 / 2 * step) out"

lemma grid_from_some:
  assumes "0 < step" "max \<bar>lo\<bar> \<bar>hi\<bar> + step \<le> step * 10 ^ 27" "lo \<le> current" "current \<le> hi"
  shows "\<exists>out. grid_from hi step current = Some out \<and> out \<noteq> [] \<and> hd out = current \<and> last out \<le> hi \<and>
    hi \<le> last out + 3 / 2 * step \<and> successively (\<lambda>a b. a < b \<and> b \<le> a + 3 / 2 * step) out"
  using assms(3,4)
proof (induction "nat \<lceil>(hi - current) / (step / 2)\<rceil>" arbitrary: current rule: less_induct)
  case less
  let ?next = "d_add current step"
  have "\<bar>current\<bar> \<le> max \<bar>lo\<bar> \<bar>hi\<bar>" using less.prems by auto
  with assms(2) have "\<bar>current\<bar> + step \<le> step * 10 ^ 27" by linarith
  note step = grid_step [OF this]
  show ?case
  proof (cases "?next \<le> hi")
    case True
    have "hi - ?next \<le> (hi - current) - step / 2" using step(1) by linarith
    then have "(hi - ?next) / (step / 2) \<le> ((hi - current) - step / 2) / (step / 2)"
      using assms(1) by (intro divide_right_mono) simp_all
    also have "\<dots> = (hi - current) / (step / 2) - 1"
      using assms(1) by (simp add: diff_divide_distrib)
    finally have "(hi - ?next) / (step / 2) \<le> (hi - current) / (step / 2) - 1" .
    moreover have "0 \<le> (hi - ?next) / (step / 2)" using True assms(1) by simp
    ultimately have "nat \<lceil>(hi - ?next) / (step / 2)\<rceil> < nat \<lceil>(hi - current) / (step / 2)\<rceil>"
      by linarith
    moreover have "lo \<le> ?next" using step(1) less.prems assms(1) by linarith
    ultimately obtain out where out: "grid_from hi step ?next = Some out" "out \<noteq> []" "hd out = ?next"
        "last out \<le> hi" "hi \<le> last out + 3 / 2 * step"
        "successively (\<lambda>a b. a < b \<and> b \<le> a + 3 / 2 * step) out"
      using less.hyps [of ?next] True by blast
    have "grid_from hi step current = Some (current # out)"
      using less.prems out(1) by (subst grid_from.simps) simp
    moreover have "successively (\<lambda>a b. a < b \<and> b \<le> a + 3 / 2 * step) (current # out)"
      using out(2,3,6) step assms(1) by (cases out) auto
    ultimately show ?thesis using out by simp
  next
    case False
    then have "grid_from hi step ?next = Some []" by (subst grid_from.simps) simp
    then have "grid_from hi step current = Some [current]"
      using less.prems by (subst grid_from.simps) simp
    then show ?thesis using False step(2) less.prems by simp
  qed
qed

lemma spec_values_ok:
  assumes "parameter_spec_valid s"
    "max \<bar>sp_minimum s\<bar> \<bar>sp_maximum s\<bar> + sp_step s \<le> sp_step s * 10 ^ 27"
  shows "\<exists>out. spec_values s = Some out \<and> grid_ok (sp_step s) (sp_minimum s) (sp_maximum s) out"
proof -
  have v: "0 < sp_step s" "sp_minimum s \<le> sp_maximum s"
    using assms(1) by (auto simp: parameter_spec_valid_def)
  obtain out where out: "grid_from (sp_maximum s) (sp_step s) (sp_minimum s) = Some out" "out \<noteq> []"
      "hd out = sp_minimum s" "last out \<le> sp_maximum s" "sp_maximum s \<le> last out + 3 / 2 * sp_step s"
      "successively (\<lambda>a b. a < b \<and> b \<le> a + 3 / 2 * sp_step s) out"
    using grid_from_some [OF v(1) assms(2) order_refl v(2)] by blast
  then show ?thesis
    by (cases "last out = sp_maximum s") (auto simp: spec_values_def grid_ok_def successively_append_iff)
qed

text \<open>A step below the last of 28 digits is lost, and the loop stays where it is.\<close>

lemma grid_from_stuck:
  assumes "current \<le> hi" "d_add current step = current"
  shows "grid_from hi step current = None"
proof (cases "grid_from hi step current")
  case (Some out)
  have "grid_from hi step current = Option.bind (grid_from hi step current) (\<lambda>rest. Some (current # rest))"
    using assms by (subst grid_from.simps) simp
  with Some have "out = current # out" by simp
  then show ?thesis by simp
qed

subsection \<open>The first of the highest\<close>

lemma leading_snoc:
  "leading key (xs @ [x]) =
   (case leading key xs of None \<Rightarrow> Some x | Some b \<Rightarrow> if key b < key x then Some x else Some b)"
  by (simp add: leading_def split: option.splits)

lemma leading_Nil [simp]: "leading key [] = None"
  by (simp add: leading_def)

lemma leading_first:
  "xs \<noteq> [] \<Longrightarrow> \<exists>i < length xs. leading key xs = Some (xs ! i) \<and>
     (\<forall>x \<in> set xs. key x \<le> key (xs ! i)) \<and> (\<forall>j < i. key (xs ! j) < key (xs ! i))"
proof (induction xs rule: rev_induct)
  case (snoc x xs)
  show ?case
  proof (cases "xs = []")
    case True
    then show ?thesis by (simp add: leading_def)
  next
    case False
    with snoc.IH obtain i where i: "i < length xs" "leading key xs = Some (xs ! i)"
        "\<forall>y \<in> set xs. key y \<le> key (xs ! i)" "\<forall>j < i. key (xs ! j) < key (xs ! i)"
      by blast
    show ?thesis
    proof (cases "key (xs ! i) < key x")
      case True
      then have "\<forall>j < length xs. key (xs ! j) < key x"
        using i(3) by (meson le_less_trans nth_mem)
      then show ?thesis
        using True i order.strict_trans1 [OF _ True]
        by (intro exI [of _ "length xs"]) (auto simp: leading_snoc nth_append intro: order.strict_implies_order)
    next
      case False
      then show ?thesis
        using i by (intro exI [of _ i]) (auto simp: leading_snoc nth_append)
    qed
  qed
qed simp

lemma leading_None [simp]: "leading key xs = None \<longleftrightarrow> xs = []"
  using leading_first [of xs key] by (cases xs) auto

lemma leading_in: "leading key xs = Some x \<Longrightarrow> x \<in> set xs"
  using leading_first [of xs key] by (cases "xs = []") auto

subsection \<open>The objective\<close>

lemma q_ratio_unit:
  assumes "0 \<le> x" "x \<le> of_int m / 100" "m \<le> 100"
  shows "\<exists>y. q_ratio x = Inr y \<and> 0 \<le> y \<and> y \<le> of_int m / 100 \<and> on_grid 4 y"
proof -
  have le: "of_int m / 100 \<le> (1 :: rat)" using assms(3) by simp
  obtain y where y: "quantize ROUND_HALF_UP 4 x = Inr y"
    using quantize_fits [of x 4 ROUND_HALF_UP] assms(1,2) le by auto
  have grid: "on_grid 4 (of_int m / 100 :: rat)"
    unfolding on_grid_def by (rule exI [of _ "m * 100"]) simp
  have "0 \<le> (of_int m / 100 :: rat)" using assms(1,2) by linarith
  then have "quantize ROUND_HALF_UP 4 (of_int m / 100 :: rat) = Inr (of_int m / 100)"
    using le by (intro quantize_exact grid) simp
  from quantize_mono [OF y this assms(2)] quantize_nonneg [OF y assms(1)] quantize_grid [OF y] y
  show ?thesis by (auto simp: q_ratio_def)
qed

lemma component_ok:
  assumes w: "weight_of name = of_int m / 100" "0 \<le> m" "m \<le> 100" and v: "0 \<le> v" "v \<le> 1"
  shows "\<exists>y. q_ratio (d_mul v (weight_of name)) = Inr y \<and> 0 \<le> y \<and> y \<le> of_int m / 100 \<and> on_grid 4 y"
proof -
  have "dec28 (weight_of name)" unfolding w(1) using w(2,3) by (intro dec28_scaled [of _ m 2]) simp_all
  moreover have "v * weight_of name \<le> weight_of name"
    using w v by (intro mult_left_le_one_le) simp_all
  ultimately have "d_mul v (weight_of name) \<le> of_int m / 100"
    unfolding d_mul_def w(1) by (rule ctx_round_le)
  moreover have "0 \<le> d_mul v (weight_of name)" using w v by (simp add: d_mul_def)
  ultimately show ?thesis using q_ratio_unit w(3) by blast
qed

lemma normalized_unit: "\<forall>(name, v) \<in> set (normalized_metrics m). 0 \<le> v \<and> v \<le> 1"
  by (auto simp: normalized_metrics_def clamp_unit_range split: option.splits)

lemma weights_listed:
  "weight_of ''return'' = of_int 35 / 100" "weight_of ''profit_factor'' = of_int 25 / 100"
  "weight_of ''drawdown'' = of_int 25 / 100" "weight_of ''consistency'' = of_int 15 / 100"
  by (simp_all add: weight_of_def OBJECTIVE_WEIGHTS_def)

lemma score_objective_ok:
  "\<exists>s. score_objective metrics = Inr s \<and> 0 \<le> ts_total s \<and> ts_total s \<le> 1 \<and>
     (ts_rejected_reason s = None \<longleftrightarrow> (\<exists>m. metrics = Some m \<and> MIN_TRADES_FOR_OBJECTIVE \<le> bm_total_trades m)) \<and>
     (ts_rejected_reason s \<noteq> None \<longrightarrow> ts_total s = 0) \<and>
     (ts_rejected_reason s = None \<longrightarrow>
        map fst (ts_components s) = map fst OBJECTIVE_WEIGHTS \<and>
        ts_total s = sum_list (map snd (ts_components s)))"
proof (cases "\<exists>m. metrics = Some m \<and> MIN_TRADES_FOR_OBJECTIVE \<le> bm_total_trades m")
  case False
  then show ?thesis by (auto simp: score_objective_def split: option.splits)
next
  case True
  then obtain m where m: "metrics = Some m" "\<not> bm_total_trades m < MIN_TRADES_FOR_OBJECTIVE" by auto
  obtain a b c d where n: "normalized_metrics m = [(''return'', a), (''profit_factor'', b), (''drawdown'', c), (''consistency'', d)]"
    by (simp add: normalized_metrics_def)
  have u: "0 \<le> a" "a \<le> 1" "0 \<le> b" "b \<le> 1" "0 \<le> c" "c \<le> 1" "0 \<le> d" "d \<le> 1"
    using normalized_unit [of m] by (auto simp: n)
  obtain w x y z where
    w: "q_ratio (d_mul a (weight_of ''return'')) = Inr w" "0 \<le> w" "w \<le> 35 / 100" "on_grid 4 w" and
    x: "q_ratio (d_mul b (weight_of ''profit_factor'')) = Inr x" "0 \<le> x" "x \<le> 25 / 100" "on_grid 4 x" and
    y: "q_ratio (d_mul c (weight_of ''drawdown'')) = Inr y" "0 \<le> y" "y \<le> 25 / 100" "on_grid 4 y" and
    z: "q_ratio (d_mul d (weight_of ''consistency'')) = Inr z" "0 \<le> z" "z \<le> 15 / 100" "on_grid 4 z"
    using component_ok [OF weights_listed(1) _ _ u(1,2)] component_ok [OF weights_listed(2) _ _ u(3,4)]
      component_ok [OF weights_listed(3) _ _ u(5,6)] component_ok [OF weights_listed(4) _ _ u(7,8)]
    by auto
  let ?xs = "[w, x, y, z]"
  have sum: "d_sum ?xs = sum_list ?xs"
    by (rule grid_sum_exact [where k = 4]) (use w x y z in simp_all)
  have grid: "on_grid 4 (sum_list ?xs)"
    using w x y z by (auto intro!: grid_intros)
  have range: "0 \<le> sum_list ?xs" "sum_list ?xs \<le> 1" using w x y z by simp_all
  have "q_ratio (sum_list ?xs) = Inr (sum_list ?xs)"
    unfolding q_ratio_def using range by (intro quantize_exact grid) simp
  then have "score_objective metrics =
      Inr \<lparr>ts_total = sum_list ?xs,
        ts_components = [(''return'', w), (''profit_factor'', x), (''drawdown'', y), (''consistency'', z)],
        ts_rejected_reason = None\<rparr>"
    using m sum w(1) x(1) y(1) z(1) by (simp add: score_objective_def n)
  then show ?thesis using range True by (simp add: OBJECTIVE_WEIGHTS_def)
qed

subsection \<open>What the search reads\<close>

lemma search_over_Inr:
  assumes "search_over cs symb tf c ordered grids split ran_at = Inr r"
  shows "or_split r = split \<and> or_best r = best_trial (or_trials r) \<and>
    search_trials (bars_between (dp_train_start split) (dp_train_end split) cs)
      (bars_between (dp_validation_start split) (dp_validation_end split) cs) symb tf c ordered grids =
      Inr (or_trials r)"
  using assms by (auto simp: search_over_def Let_def result_simps split: prod.splits)

lemma optimize_Inr:
  assumes "optimize cs symb tf c specs split limit ran_at = Some (Inr r)"
  obtains grids where "grids_of (sort_key sp_name specs) = Some grids"
    "combinations_possible grids \<le> limit"
    "(case split of None \<Rightarrow> default_split (length cs) | Some s \<Rightarrow> Inr s) = Inr (or_split r)"
    "search_over cs symb tf c (sort_key sp_name specs) grids (or_split r) ran_at = Inr r"
proof -
  from assms obtain grids where g: "grids_of (sort_key sp_name specs) = Some grids"
    "\<not> limit < combinations_possible grids"
    "bindE (case split of None \<Rightarrow> default_split (length cs) | Some s \<Rightarrow> Inr s) (\<lambda>partition.
       if dp_total_bars partition \<noteq> length cs then Inl ValueError
       else search_over cs symb tf c (sort_key sp_name specs) grids partition ran_at) = Inr r"
    by (auto simp: optimize_def Let_def split: if_splits)
  from g(3) obtain p where p: "(case split of None \<Rightarrow> default_split (length cs) | Some s \<Rightarrow> Inr s) = Inr p"
    "search_over cs symb tf c (sort_key sp_name specs) grids p ran_at = Inr r"
    by (auto simp: result_simps split: if_splits)
  have "or_split r = p" using search_over_Inr [OF p(2)] by simp
  with g p show thesis by (intro that) simp_all
qed

lemma default_split_valid: "default_split n = Inr p \<Longrightarrow> data_split_valid p"
  by (auto simp: default_split_def split_chronological_def Let_def result_simps split: if_splits)

lemma split_used:
  assumes "(case split of None \<Rightarrow> default_split n | Some s \<Rightarrow> Inr s) = Inr p"
    "\<And>s. split = Some s \<Longrightarrow> data_split_valid s"
  shows "data_split_valid p"
  using assms by (cases split) (auto intro: default_split_valid)

lemma bars_between_cong:
  assumes "take n cs = take n cs'" "b \<le> n"
  shows "bars_between a b cs = bars_between a b cs'"
proof -
  have "take b cs = take b (take n cs)" "take b cs' = take b (take n cs')"
    using assms(2) by (simp_all add: min_absorb1)
  with assms(1) show ?thesis by (simp add: bars_between_def)
qed

lemma search_reads:
  assumes "optimize cs symb tf c specs split limit ran_at = Some (Inr r)"
    "optimize cs' symb tf c specs split limit ran_at' = Some (Inr r')"
    "\<And>s. split = Some s \<Longrightarrow> data_split_valid s"
    "length cs = length cs'" "take (dp_validation_end (or_split r)) cs = take (dp_validation_end (or_split r)) cs'"
  shows "or_trials r = or_trials r' \<and> or_best r = or_best r'"
proof -
  obtain grids where g: "grids_of (sort_key sp_name specs) = Some grids"
    "(case split of None \<Rightarrow> default_split (length cs) | Some s \<Rightarrow> Inr s) = Inr (or_split r)"
    "search_over cs symb tf c (sort_key sp_name specs) grids (or_split r) ran_at = Inr r"
    using assms(1) by (rule optimize_Inr)
  obtain grids' where g': "grids_of (sort_key sp_name specs) = Some grids'"
    "(case split of None \<Rightarrow> default_split (length cs') | Some s \<Rightarrow> Inr s) = Inr (or_split r')"
    "search_over cs' symb tf c (sort_key sp_name specs) grids' (or_split r') ran_at' = Inr r'"
    using assms(2) by (rule optimize_Inr)
  have eq: "grids = grids'" using g(1) g'(1) by simp
  have split_eq: "or_split r = or_split r'" using g(2) g'(2) unfolding assms(4) by simp
  have v: "data_split_valid (or_split r)" by (rule split_used [OF g(2) assms(3)])
  note bars = bars_between_cong [OF assms(5)]
  have "search_trials (bars_between (dp_train_start (or_split r)) (dp_train_end (or_split r)) cs)
      (bars_between (dp_validation_start (or_split r)) (dp_validation_end (or_split r)) cs) symb tf c
      (sort_key sp_name specs) grids =
    search_trials (bars_between (dp_train_start (or_split r)) (dp_train_end (or_split r)) cs')
      (bars_between (dp_validation_start (or_split r)) (dp_validation_end (or_split r)) cs') symb tf c
      (sort_key sp_name specs) grids"
    using v by (subst (1 2) bars) (auto simp: data_split_valid_def)
  then show ?thesis using search_over_Inr [OF g(3)] search_over_Inr [OF g'(3)] eq split_eq by simp
qed

text \<open>Every trial of a search carries a validation score.\<close>

lemma in_present: "x \<in> set (present xs) \<longleftrightarrow> Some x \<in> set xs"
  by (force simp: present_def split: option.splits)

lemma present_append: "present (xs @ ys) = present xs @ present ys"
  by (simp add: present_def)

lemma trial_scored: "trial_of train validation symb tf c vs = Inr (Some t) \<Longrightarrow> ot_validation_score t \<noteq> None"
  by (auto simp: trial_of_def result_simps split: option.splits)

lemma search_trials_scored:
  assumes "search_trials train validation symb tf c ordered grids = Inr ts" "t \<in> set ts"
  shows "ot_validation_score t \<noteq> None"
proof -
  obtain found where f: "mapE (\<lambda>k. trial_of train validation symb tf c (assignment ordered k)) (product_lists grids) = Inr found"
    "ts = present found"
    using assms(1) by (auto simp: search_trials_def result_simps)
  then have "Some t \<in> set found" using assms(2) by (simp add: in_present)
  then show ?thesis using mapE_Inr_set [OF f(1)] trial_scored by blast
qed

lemma best_trial_first:
  assumes "\<forall>t \<in> set ts. ot_validation_score t \<noteq> None" "best_trial ts = Some b"
  shows "\<exists>i < length ts. b = ts ! i \<and> (\<forall>t \<in> set ts. validation_value t \<le> validation_value b) \<and>
    (\<forall>j < i. validation_value (ts ! j) < validation_value b)"
proof -
  have f: "filter (\<lambda>t. ot_validation_score t \<noteq> None) ts = ts" using assms(1) by (simp add: filter_id_conv)
  have "ts \<noteq> []" using assms(2) by (auto simp: best_trial_def)
  with leading_first [of ts validation_value] assms(2) show ?thesis
    unfolding best_trial_def f by auto
qed

subsection \<open>Walking forward\<close>

lemma mapE_append_Inr:
  "mapE f (xs @ ys) = Inr zs \<Longrightarrow> \<exists>us vs. mapE f xs = Inr us \<and> mapE f ys = Inr vs \<and> zs = us @ vs"
  by (induction xs arbitrary: zs) (auto simp: result_simps)

lemma windows_from_within:
  "w \<in> set (windows_from n train validation step start index) \<Longrightarrow>
   start \<le> ww_train_start w \<and> ww_train_end w = ww_train_start w + train \<and>
   ww_validation_start w = ww_train_end w \<and> ww_validation_end w = ww_validation_start w + validation \<and>
   ww_validation_end w \<le> n"
proof (induction n train validation step start index rule: windows_from.induct)
  case (1 n train validation step start index)
  show ?case
  proof (cases "0 < step \<and> start + train + validation \<le> n")
    case True
    then show ?thesis using 1 by (subst (asm) windows_from.simps) fastforce
  next
    case False
    then show ?thesis using "1.prems" by (subst (asm) windows_from.simps) simp
  qed
qed

lemma windows_from_prefix:
  "n \<le> m \<Longrightarrow> prefix (windows_from n train validation step start index) (windows_from m train validation step start index)"
proof (induction n train validation step start index rule: windows_from.induct)
  case (1 n train validation step start index)
  show ?case
  proof (cases "0 < step \<and> start + train + validation \<le> n")
    case True
    then have w: "windows_from k train validation step start index =
        \<lparr>ww_index = index, ww_train_start = start, ww_train_end = start + train,
         ww_validation_start = start + train, ww_validation_end = start + train + validation\<rparr> #
        windows_from k train validation step (start + step) (index + 1)" if "n \<le> k" for k
      using that by (subst windows_from.simps) simp
    show ?thesis using "1.IH" [OF True "1.prems"] by (simp add: w "1.prems")
  next
    case False
    then have "windows_from n train validation step start index = []"
      by (subst windows_from.simps) simp
    then show ?thesis by simp
  qed
qed

lemma windows_from_nth:
  "k < length (windows_from n train validation step start index) \<Longrightarrow>
   windows_from n train validation step start index ! k =
     \<lparr>ww_index = index + k, ww_train_start = start + k * step, ww_train_end = start + k * step + train,
      ww_validation_start = start + k * step + train,
      ww_validation_end = start + k * step + train + validation\<rparr>"
proof (induction n train validation step start index arbitrary: k rule: windows_from.induct)
  case (1 n train validation step start index)
  show ?case
  proof (cases "0 < step \<and> start + train + validation \<le> n")
    case True
    then have w: "windows_from n train validation step start index =
        \<lparr>ww_index = index, ww_train_start = start, ww_train_end = start + train,
         ww_validation_start = start + train, ww_validation_end = start + train + validation\<rparr> #
        windows_from n train validation step (start + step) (index + 1)"
      by (subst windows_from.simps) simp
    show ?thesis
    proof (cases k)
      case (Suc j)
      then have j: "j < length (windows_from n train validation step (start + step) (index + 1))"
        using "1.prems" unfolding w by simp
      show ?thesis using "1.IH" [OF True j] unfolding w by (simp add: Suc algebra_simps)
    qed (simp add: w)
  next
    case False
    then have "windows_from n train validation step start index = []"
      by (subst windows_from.simps) simp
    then show ?thesis using "1.prems" by simp
  qed
qed

lemma construct_all: "mapE (construct valid) xs = Inr ys \<Longrightarrow> ys = xs \<and> (\<forall>x \<in> set xs. valid x)"
  by (induction xs arbitrary: ys) (auto simp: result_simps construct_def split: if_splits)

lemma construct_valid: "(\<And>x. x \<in> set xs \<Longrightarrow> valid x) \<Longrightarrow> mapE (construct valid) xs = Inr xs"
  by (induction xs) (simp_all add: construct_def)

lemma mapE_total:
  assumes "\<And>x. x \<in> set xs \<Longrightarrow> \<exists>y. f x = Inr y \<and> P y"
  shows "\<exists>ys. mapE f xs = Inr ys \<and> (\<forall>y \<in> set ys. P y)"
  using assms by (induction xs) (simp, fastforce)

lemma walk_forward_windows_Inr:
  assumes "walk_forward_windows n train validation step = Inr ws"
  shows "0 < train \<and> 0 < validation \<and>
    ws = windows_from n train validation (case step of None \<Rightarrow> validation | Some s \<Rightarrow> s) 0 0"
  using assms by (auto simp: walk_forward_windows_def Let_def dest: construct_all split: if_splits)

lemma fold_of_cong:
  assumes "take n cs = take n cs'" "ww_train_end w \<le> n" "ww_validation_end w \<le> n"
  shows "fold_of cs symb tf c grids ordered w = fold_of cs' symb tf c grids ordered w"
  unfolding fold_of_def bars_between_cong [OF assms(1,2)] bars_between_cong [OF assms(1,3)] by (rule refl)

lemma mapE_cong: "(\<And>x. x \<in> set xs \<Longrightarrow> f x = g x) \<Longrightarrow> mapE f xs = mapE g xs"
  by (induction xs) auto

lemma walk_forward_Inr:
  assumes "walk_forward cs symb tf train validation step c specs limit folds ran_at = Some (Inr r)"
  obtains grids ws found where "grids_of (sort_key sp_name specs) = Some grids"
    "walk_forward_windows (length cs) train validation step = Inr ws" "length ws \<le> folds"
    "mapE (fold_of cs symb tf c grids (sort_key sp_name specs)) ws = Inr found" "wr_folds r = present found"
proof -
  from assms obtain grids where g: "grids_of (sort_key sp_name specs) = Some grids"
    "bindE (walk_forward_windows (length cs) train validation step) (\<lambda>windows.
       if folds < length windows then Inl ValueError
       else walk_over cs symb tf train validation step c (sort_key sp_name specs) grids windows ran_at) = Inr r"
    by (auto simp: walk_forward_def Let_def split: if_splits)
  then obtain ws where w: "walk_forward_windows (length cs) train validation step = Inr ws" "\<not> folds < length ws"
    "walk_over cs symb tf train validation step c (sort_key sp_name specs) grids ws ran_at = Inr r"
    by (auto simp: result_simps split: if_splits)
  from w(3) obtain found where "mapE (fold_of cs symb tf c grids (sort_key sp_name specs)) ws = Inr found"
    "wr_folds r = present found"
    by (auto simp: walk_over_def Let_def result_simps)
  with g w show thesis by (intro that) simp_all
qed

lemma walk_forward_prefix:
  assumes "walk_forward cs symb tf train validation step c specs limit folds ran_at = Some (Inr r)"
    "walk_forward (take n cs) symb tf train validation step c specs limit folds ran_at' = Some (Inr r')"
  shows "prefix (wr_folds r') (wr_folds r)"
proof -
  let ?specs = "sort_key sp_name specs"
  obtain grids ws found where g: "grids_of ?specs = Some grids"
    "walk_forward_windows (length cs) train validation step = Inr ws" "length ws \<le> folds"
    "mapE (fold_of cs symb tf c grids ?specs) ws = Inr found" "wr_folds r = present found"
    using assms(1) by (rule walk_forward_Inr)
  obtain grids' ws' found' where g': "grids_of ?specs = Some grids'"
    "walk_forward_windows (length (take n cs)) train validation step = Inr ws'" "length ws' \<le> folds"
    "mapE (fold_of (take n cs) symb tf c grids' ?specs) ws' = Inr found'" "wr_folds r' = present found'"
    using assms(2) by (rule walk_forward_Inr)
  have eq: "grids' = grids" using g(1) g'(1) by simp
  have w: "ws = windows_from (length cs) train validation (case step of None \<Rightarrow> validation | Some s \<Rightarrow> s) 0 0"
    "ws' = windows_from (length (take n cs)) train validation (case step of None \<Rightarrow> validation | Some s \<Rightarrow> s) 0 0"
    using walk_forward_windows_Inr [OF g(2)] walk_forward_windows_Inr [OF g'(2)] by simp_all
  have "prefix ws' ws" unfolding w by (rule windows_from_prefix) simp
  then obtain rest where rest: "ws = ws' @ rest" by (rule prefixE)
  have same: "fold_of (take n cs) symb tf c grids ?specs x = fold_of cs symb tf c grids ?specs x"
    if x: "x \<in> set ws'" for x
  proof (rule fold_of_cong [where n = "length (take n cs)"])
    show "take (length (take n cs)) (take n cs) = take (length (take n cs)) cs"
      by (simp add: min_def)
    show "ww_train_end x \<le> length (take n cs)" "ww_validation_end x \<le> length (take n cs)"
      using windows_from_within x unfolding w(2) by fastforce+
  qed
  have "mapE (fold_of cs symb tf c grids ?specs) ws' = Inr found'"
    using g'(4) mapE_cong [of ws', OF same] unfolding eq by simp
  then obtain vs where "found = found' @ vs"
    using g(4) mapE_append_Inr [of "fold_of cs symb tf c grids ?specs" ws' rest found] rest by auto
  then show ?thesis using g(5) g'(5) by (simp add: present_append)
qed

end
