(* ===== verification/SearchProperties.thy ===== *)
theory SearchProperties
  imports OptimizeLaws BacktestExample
begin

section \<open>What a parameter search guarantees\<close>

text \<open>
  The held-out bars never influence a search, the winner is the first of the highest on validation,
  walking forward never looks ahead, the objective stays between 0 and 1, and a grid ends exactly
  when its step survives the rounding of the decimal context.
\<close>

subsection \<open>Samples\<close>

definition one_value :: parameter_spec where
  "one_value = int_spec ''ema_fast'' 10 10 1 10"

definition sample_params :: trend_params where
  "sample_params = default_trend_params\<lparr>tp_ema_fast := 10\<rparr>"

definition other_bars :: "candle list" where
  "other_bars = take 4 example_bars @ [bar_of 4 100 140 60 70]"

lemma evaluate_short: "length cs < warmup_bars p + 2 \<Longrightarrow> evaluate_on cs symb tf c p = Inr None"
  by (simp add: evaluate_on_def run_backtest_def base_result_def)

lemma one_value_grid: "grids_of [one_value] = Some [[10]]"
proof -
  have "\<not> d_add 10 1 \<le> 10" by (simp add: dec_eval)
  then have "grid_from 10 1 10 = Some [10]" by (subst grid_from.simps, subst grid_from.simps) simp
  then show ?thesis by (simp add: one_value_def int_spec_def spec_values_def)
qed

lemma one_value_assigned: "assignment [one_value] [10] = [(''ema_fast'', 10)]"
  by (simp add: assignment_def one_value_def int_spec_def)

lemma one_value_params: "build_params [(''ema_fast'', 10)] = Some sample_params"
  by (simp add: build_params_def set_parameter_def whole_def round_down_def sample_params_def
      default_trend_params_def trend_params_valid_def in_range_def)

lemma sample_warmup: "warmup_bars sample_params = 54"
  by (simp add: warmup_bars_def sample_params_def default_trend_params_def)

lemma sample_split: "default_split 5 =
   Inr \<lparr>dp_train_start = 0, dp_train_end = 3, dp_validation_start = 3, dp_validation_end = 4,
     dp_test_start = 4, dp_test_end = 5, dp_total_bars = 5\<rparr>"
proof -
  have "d_mul 5 (6 / 10) = 3" "d_mul 5 (2 / 10) = 1" "d_add (6 / 10) (2 / 10) = 8 / 10"
    by (simp_all add: dec_eval)
  then show ?thesis
    by (simp add: default_split_def split_chronological_def round_down_def construct_def data_split_valid_def)
qed

definition rejected_score :: trial_score where
  "rejected_score = \<lparr>ts_total = 0, ts_components = [], ts_rejected_reason = Some NO_METRICS\<rparr>"

lemma score_nothing: "score_objective None = Inr rejected_score"
  by (simp add: score_objective_def rejected_score_def)

definition rejected_trial :: optimization_trial where
  "rejected_trial =
     \<lparr>ot_parameters = [(''ema_fast'', 10)], ot_train_score = rejected_score, ot_train_metrics = None,
      ot_validation_score = Some rejected_score, ot_validation_metrics = None\<rparr>"

lemma sample_trials:
  assumes "length train < 56" "length validation < 56"
  shows "search_trials train validation symb tf c [one_value] [[10]] = Inr [rejected_trial]"
  using assms by (simp add: search_trials_def one_value_assigned trial_of_def one_value_params evaluate_short
      sample_warmup score_nothing present_def rejected_trial_def)

lemma one_combination: "combinations_possible [[10]] = 1"
  by (simp add: combinations_possible_def)

lemma sample_search:
  assumes "length cs = 5"
  shows "\<exists>r. optimize cs symb tf c [one_value] None 512 None = Some (Inr r) \<and>
    dp_validation_end (or_split r) = 4 \<and> or_best r = Some rejected_trial"
proof -
  have b: "best_trial [rejected_trial] = Some rejected_trial"
    by (simp add: best_trial_def leading_def rejected_trial_def)
  have "test_result test symb tf c (Some rejected_trial) = Inr (None, Some rejected_score)"
    if "length test < 56" for test
    using that by (simp add: test_result_def rejected_trial_def one_value_params evaluate_short sample_warmup score_nothing)
  then show ?thesis
    by (simp add: optimize_def one_value_grid one_combination assms sample_split search_over_def
        sample_trials bars_between_def b Let_def del: grids_of.simps)
qed

definition rejected_fold :: "walk_fold option \<Rightarrow> bool" where
  "rejected_fold y \<longleftrightarrow> (\<exists>f. y = Some f \<and> wf_train_score f = rejected_score \<and> wf_validation_score f = rejected_score)"

lemma sample_fold:
  assumes "length cs \<le> 5"
  shows "\<exists>y. fold_of cs symb tf c [[10]] [one_value] w = Inr y \<and> rejected_fold y"
proof -
  have short: "evaluate_on (bars_between a b cs) symb tf c sample_params = Inr None" for a b
    by (rule evaluate_short) (use assms in \<open>simp add: sample_warmup bars_between_def\<close>)
  have "select_on (bars_between a b cs) symb tf c [[10]] [one_value] =
      Inr (Some ([(''ema_fast'', 10)], rejected_score, 1))" for a b
    by (simp add: select_on_def candidate_score_def one_value_assigned one_value_params short score_nothing
        present_def leading_def)
  then show ?thesis by (simp add: fold_of_def one_value_params short score_nothing rejected_fold_def)
qed

lemma sample_windows:
  assumes "length cs \<le> 5"
  shows "walk_forward_windows (length cs) 2 1 None = Inr (windows_from (length cs) 2 1 1 0 0) \<and>
    length (windows_from (length cs) 2 1 1 0 0) \<le> 24"
proof
  let ?ws = "windows_from (length cs) 2 1 1 0 0"
  have "mapE (construct walk_window_valid) ?ws = Inr ?ws"
    by (rule construct_valid) (auto dest!: windows_from_within simp: walk_window_valid_def)
  then show "walk_forward_windows (length cs) 2 1 None = Inr ?ws"
    by (simp add: walk_forward_windows_def)
  show "length ?ws \<le> 24"
  proof (rule ccontr)
    assume "\<not> length ?ws \<le> 24"
    then have ten: "10 < length ?ws" by simp
    have "ww_validation_end (?ws ! 10) = 13" using windows_from_nth [OF ten] by simp
    then show False
      using windows_from_within [OF nth_mem [OF ten]] assms by simp
  qed
qed

lemma mean_rejected:
  assumes "\<forall>x \<in> set folds. f x = rejected_score"
  shows "mean_score f folds = Inr (if folds = [] then None else Some 0)"
proof -
  have zeros: "map (\<lambda>x. ts_total (f x)) folds = map (\<lambda>x. 0) folds"
    using assms by (simp add: rejected_score_def)
  have "d_sum (map (\<lambda>x. 0) folds) = 0"
    by (induction folds rule: rev_induct) (simp_all add: d_sum_snoc d_add_def, simp add: d_sum_def)
  moreover have "q_ratio 0 = Inr 0" unfolding q_ratio_def by (rule quantize_exact) simp_all
  ultimately show ?thesis unfolding mean_score_def zeros by (simp add: d_quot_def)
qed

lemma sample_walk:
  assumes "length cs \<le> 5"
  shows "\<exists>r. walk_forward cs symb tf 2 1 None c [one_value] 512 24 None = Some (Inr r)"
proof -
  let ?ws = "windows_from (length cs) 2 1 1 0 0"
  obtain found where found: "mapE (fold_of cs symb tf c [[10]] [one_value]) ?ws = Inr found" "\<forall>x \<in> set found. rejected_fold x"
    using mapE_total [of ?ws "fold_of cs symb tf c [[10]] [one_value]" rejected_fold, OF sample_fold [OF assms]] by blast
  have "wf_train_score x = rejected_score \<and> wf_validation_score x = rejected_score" if "x \<in> set (present found)" for x
    using bspec [OF found(2), of "Some x"] that by (simp add: in_present rejected_fold_def)
  then have all: "\<forall>x \<in> set (present found). wf_train_score x = rejected_score"
    "\<forall>x \<in> set (present found). wf_validation_score x = rejected_score"
    by simp_all
  have "\<exists>r. walk_over cs symb tf 2 1 None c [one_value] [[10]] ?ws None = Inr r"
    unfolding walk_over_def Let_def found(1) bindE.simps mean_rejected [OF all(1)] mean_rejected [OF all(2)] by blast
  moreover have "sort_key sp_name [one_value] = [one_value]" by simp
  ultimately show ?thesis
    using sample_windows [OF assms]
    by (auto simp: walk_forward_def one_value_grid one_combination simp del: grids_of.simps)
qed

definition sample_metrics :: backtest_metrics where
  "sample_metrics =
     \<lparr>bm_total_trades = 25, bm_winning_trades = 15, bm_losing_trades = 10, bm_breakeven_trades = 0,
      bm_win_rate_percent = Some 60, bm_net_pnl = 15, bm_gross_profit = 45, bm_gross_loss = 30,
      bm_total_fees = 0, bm_return_percent = 15, bm_profit_factor = Some (15 / 10),
      bm_average_trade = None, bm_average_win = None, bm_average_loss = None, bm_largest_win = None,
      bm_largest_loss = None, bm_max_drawdown_percent = 10, bm_max_drawdown_absolute = 10,
      bm_max_consecutive_losses = 4, bm_max_consecutive_wins = 5, bm_average_r = None,
      bm_sharpe_like_ratio = None, bm_exposure_percent = 50, bm_starting_balance = 100,
      bm_ending_balance = 115, bm_bars_tested = 1000, bm_trades_open_at_end = 0\<rparr>"

lemma sample_norms:
  "d_quot 15 30 = 1 / 2" "d_sub (15 / 10) 1 = 1 / 2" "d_sub 2 1 = 1" "d_quot (1 / 2) 1 = 1 / 2"
  "d_quot 10 25 = 4 / 10" "d_quot 4 10 = 4 / 10" "d_sub 1 (4 / 10) = 6 / 10"
  by (simp_all add: d_quot_def dec_eval)

lemma sample_products:
  "d_mul (1 / 2) (35 / 100) = 175 / 1000" "d_mul (1 / 2) (25 / 100) = 125 / 1000"
  "d_mul (6 / 10) (25 / 100) = 15 / 100" "d_mul (6 / 10) (15 / 100) = 9 / 100"
  by (simp_all add: dec_eval)

lemma sample_rounded:
  "q_ratio (175 / 1000) = Inr (175 / 1000)" "q_ratio (125 / 1000) = Inr (125 / 1000)"
  "q_ratio (15 / 100) = Inr (15 / 100)" "q_ratio (9 / 100) = Inr (9 / 100)" "q_ratio (54 / 100) = Inr (54 / 100)"
  "d_sum [175 / 1000, 125 / 1000, 15 / 100, 9 / 100] = 54 / 100"
  by (simp_all add: q_ratio_def dec_eval)

lemma sample_normalized:
  "normalized_metrics sample_metrics =
      [(''return'', 1 / 2), (''profit_factor'', 1 / 2), (''drawdown'', 6 / 10), (''consistency'', 6 / 10)]"
proof -
  have m: "bm_return_percent sample_metrics = 15" "bm_profit_factor sample_metrics = Some (15 / 10)"
    "bm_max_drawdown_percent sample_metrics = 10" "bm_max_consecutive_losses sample_metrics = 4"
    by (simp_all add: sample_metrics_def)
  have c: "clamp_unit (1 / 2) = 1 / 2" "clamp_unit (6 / 10) = 6 / 10" by (simp_all add: clamp_unit_def)
  show ?thesis
    unfolding normalized_metrics_def m option.case RETURN_REFERENCE_def PROFIT_FACTOR_REFERENCE_def
      DRAWDOWN_REFERENCE_def STREAK_REFERENCE_def of_nat_numeral sample_norms c ..
qed

lemma sample_weights:
  "weight_of ''return'' = 35 / 100" "weight_of ''profit_factor'' = 25 / 100"
  "weight_of ''drawdown'' = 25 / 100" "weight_of ''consistency'' = 15 / 100"
  using weights_listed by simp_all

lemma sample_scored: "\<exists>s. score_objective (Some sample_metrics) = Inr s \<and> ts_total s = 54 / 100"
proof -
  have n: "(bm_total_trades sample_metrics < MIN_TRADES_FOR_OBJECTIVE) = False"
    by (simp add: sample_metrics_def MIN_TRADES_FOR_OBJECTIVE_def)
  show ?thesis
    unfolding score_objective_def option.case n if_False sample_normalized mapE.simps prod.case
      sample_weights sample_products sample_rounded bindE.simps list.map snd_conv
    by (intro exI conjI) (rule refl, simp)
qed

definition endless_spec :: parameter_spec where
  "endless_spec = int_spec ''adx_minimum'' (10 ^ 29) (10 ^ 30) 1 (10 ^ 29)"

subsection \<open>Searching\<close>

text \<open>C24: the held-out bars never influence a search. Two runs over histories that agree up to the end of
  the validation window, however different their test windows, evaluate the same trials to the same
  scores and choose the same winner.\<close>

theorem search_ignores_held_out:
  assumes "optimize cs symb tf c specs split limit t = Some (Inr r)"
    "optimize cs' symb tf c specs split limit t' = Some (Inr r')"
    "\<And>s. split = Some s \<Longrightarrow> data_split_valid s" "length cs = length cs'"
    "take (dp_validation_end (or_split r)) cs = take (dp_validation_end (or_split r)) cs'"
  shows "or_trials r = or_trials r' \<and> or_best r = or_best r'"
  by (rule search_reads [OF assms])

theorem search_ignores_held_out_witness:
  "\<exists>r r'. optimize example_bars ''X'' M15 sample_config [one_value] None 512 None = Some (Inr r) \<and>
     optimize other_bars ''X'' M15 sample_config [one_value] None 512 None = Some (Inr r') \<and>
     or_trials r = or_trials r' \<and> or_best r = Some rejected_trial \<and> or_best r = or_best r'"
proof -
  have l: "length example_bars = 5" "length other_bars = 5" "length example_bars = length other_bars"
    by (simp_all add: example_bars_def other_bars_def)
  obtain r where r: "optimize example_bars ''X'' M15 sample_config [one_value] None 512 None = Some (Inr r)"
      "dp_validation_end (or_split r) = 4" "or_best r = Some rejected_trial"
    using sample_search [OF l(1)] by blast
  obtain r' where r': "optimize other_bars ''X'' M15 sample_config [one_value] None 512 None = Some (Inr r')"
    using sample_search [OF l(2)] by blast
  have "take (dp_validation_end (or_split r)) example_bars = take (dp_validation_end (or_split r)) other_bars"
    by (simp add: r(2) other_bars_def l)
  from search_ignores_held_out [OF r(1) r' _ l(3) this] r r' show ?thesis by auto
qed

text \<open>C28: the winner is the first of the highest on validation. It is one of the trials, no trial has a
  higher validation score, and every earlier one a strictly lower score; its train score plays no part.\<close>

theorem winner_is_first_on_validation:
  assumes "optimize cs symb tf c specs split limit t = Some (Inr r)" "or_best r = Some b"
  shows "\<exists>i < length (or_trials r). b = or_trials r ! i \<and>
    (\<forall>x \<in> set (or_trials r). validation_value x \<le> validation_value b) \<and>
    (\<forall>j < i. validation_value (or_trials r ! j) < validation_value b)"
proof -
  obtain grids where "search_over cs symb tf c (sort_key sp_name specs) grids (or_split r) t = Inr r"
    using assms(1) by (rule optimize_Inr)
  note s = search_over_Inr [OF this]
  have scored: "\<forall>x \<in> set (or_trials r). ot_validation_score x \<noteq> None"
    using s search_trials_scored by blast
  show ?thesis using s assms(2) by (intro best_trial_first [OF scored]) simp
qed

theorem winner_is_first_on_validation_witness:
  "\<exists>r i. optimize example_bars ''X'' M15 sample_config [one_value] None 512 None = Some (Inr r) \<and>
     i < length (or_trials r) \<and> or_best r = Some (or_trials r ! i)"
proof -
  obtain r where r: "optimize example_bars ''X'' M15 sample_config [one_value] None 512 None = Some (Inr r)"
      "or_best r = Some rejected_trial"
    using sample_search [of example_bars "''X''" M15 sample_config] by (auto simp: example_bars_def)
  from winner_is_first_on_validation [OF r] r show ?thesis by metis
qed

text \<open>C25: walking forward never looks ahead. The folds over the first n bars are the first folds over the
  whole history: no later bar changes what a fold selected or how it scored.\<close>

theorem walk_forward_never_looks_ahead:
  assumes "walk_forward cs symb tf train validation step c specs limit folds t = Some (Inr r)"
    "walk_forward (take n cs) symb tf train validation step c specs limit folds t' = Some (Inr r')"
  shows "prefix (wr_folds r') (wr_folds r)"
  by (rule walk_forward_prefix [OF assms])

theorem walk_forward_never_looks_ahead_witness:
  "\<exists>r r'. walk_forward example_bars ''X'' M15 2 1 None sample_config [one_value] 512 24 None = Some (Inr r) \<and>
     walk_forward (take 4 example_bars) ''X'' M15 2 1 None sample_config [one_value] 512 24 None = Some (Inr r') \<and>
     prefix (wr_folds r') (wr_folds r)"
proof -
  have l: "length example_bars \<le> 5" "length (take 4 example_bars) \<le> 5" by (simp_all add: example_bars_def)
  obtain r where r: "walk_forward example_bars ''X'' M15 2 1 None sample_config [one_value] 512 24 None = Some (Inr r)"
    using sample_walk [OF l(1)] by blast
  obtain r' where r': "walk_forward (take 4 example_bars) ''X'' M15 2 1 None sample_config [one_value] 512 24 None = Some (Inr r')"
    using sample_walk [OF l(2)] by blast
  from walk_forward_never_looks_ahead [OF r r'] r r' show ?thesis by blast
qed

text \<open>The objective is a number between 0 and 1. Every result of a backtest is scored; a run of fewer
  than twenty trades, or without metrics, is rejected with zero, and any other total is exactly the sum
  of its four rounded components.\<close>

theorem objective_is_bounded:
  "\<exists>s. score_objective metrics = Inr s \<and> 0 \<le> ts_total s \<and> ts_total s \<le> 1 \<and>
     (ts_rejected_reason s = None \<longleftrightarrow> (\<exists>m. metrics = Some m \<and> MIN_TRADES_FOR_OBJECTIVE \<le> bm_total_trades m)) \<and>
     (ts_rejected_reason s \<noteq> None \<longrightarrow> ts_total s = 0) \<and>
     (ts_rejected_reason s = None \<longrightarrow>
        map fst (ts_components s) = map fst OBJECTIVE_WEIGHTS \<and>
        ts_total s = sum_list (map snd (ts_components s)))"
  by (rule score_objective_ok)

theorem objective_is_bounded_witness:
  "\<exists>s. score_objective (Some sample_metrics) = Inr s \<and> ts_total s = 54 / 100 \<and>
     sum_list (map snd (ts_components s)) = 54 / 100"
proof -
  have "MIN_TRADES_FOR_OBJECTIVE \<le> bm_total_trades sample_metrics"
    by (simp add: MIN_TRADES_FOR_OBJECTIVE_def sample_metrics_def)
  with objective_is_bounded [of "Some sample_metrics"] sample_scored show ?thesis by auto
qed

text \<open>C26: a grid ends and reaches both ends. When the step is not below the last digit the decimal context
  keeps of the range, the values are produced, the first is the minimum and the last the maximum, and
  each is above the one before it by no more than one and a half steps.\<close>

theorem grid_reaches_both_ends:
  assumes "parameter_spec_valid s"
    "max \<bar>sp_minimum s\<bar> \<bar>sp_maximum s\<bar> + sp_step s \<le> sp_step s * 10 ^ 27"
  shows "\<exists>out. spec_values s = Some out \<and> out \<noteq> [] \<and> hd out = sp_minimum s \<and> last out = sp_maximum s \<and>
    successively (\<lambda>a b. a < b \<and> b \<le> a + 3 / 2 * sp_step s) out"
  using spec_values_ok [OF assms] by (simp add: grid_ok_def)

theorem grid_reaches_both_ends_witness:
  "\<exists>out. spec_values (int_spec ''ema_fast'' 9 21 6 21) = Some out \<and> hd out = 9 \<and> last out = 21"
proof -
  have v: "parameter_spec_valid (int_spec ''ema_fast'' 9 21 6 21)"
    by (simp add: parameter_spec_valid_def int_spec_def dec_eval)
  have "max \<bar>sp_minimum (int_spec ''ema_fast'' 9 21 6 21)\<bar> \<bar>sp_maximum (int_spec ''ema_fast'' 9 21 6 21)\<bar> +
      sp_step (int_spec ''ema_fast'' 9 21 6 21) \<le> sp_step (int_spec ''ema_fast'' 9 21 6 21) * 10 ^ 27"
    by (simp add: int_spec_def)
  from grid_reaches_both_ends [OF v this] show ?thesis by (auto simp: int_spec_def)
qed

text \<open>C27: a bounded search need not return. A specification that its validator accepts can have a step the
  decimal context loses against the minimum; its grid is then built for ever, before the ceiling on
  the number of combinations is looked at.\<close>

theorem bounded_search_never_returns:
  "parameter_spec_valid endless_spec \<and> optimize cs symb tf c [endless_spec] split limit t = None \<and>
   walk_forward cs symb tf train validation step c [endless_spec] limit folds t = None"
proof -
  have fields: "sp_minimum endless_spec = 10 ^ 29" "sp_maximum endless_spec = 10 ^ 30" "sp_step endless_spec = 1"
      "sp_default endless_spec = 10 ^ 29"
    by (simp_all add: endless_spec_def int_spec_def)
  have "d_add (10 ^ 29) 1 = 10 ^ 29" by (simp add: dec_eval)
  then have "grid_from (10 ^ 30) 1 (10 ^ 29) = None" by (intro grid_from_stuck) simp_all
  then have "spec_values endless_spec = None" by (simp only: spec_values_def fields option.map)
  then have "grids_of (sort_key sp_name [endless_spec]) = None" by simp
  moreover have "parameter_spec_valid endless_spec"
    unfolding parameter_spec_valid_def fields by (simp add: dec_eval)
  ultimately show ?thesis by (simp add: optimize_def walk_forward_def del: grids_of.simps)
qed

end
