(* ===== verification/Snapshot.thy ===== *)
theory Snapshot
  imports PaperDomain
begin

section \<open>The snapshot of a paper account\<close>

text \<open>
  \<^verbatim>\<open>engines/paper/snapshot.py\<close>: one account as a JSON document and back. A text that \<^verbatim>\<open>str\<close> or
  \<^verbatim>\<open>isoformat\<close> prints of a value, and the document \<^verbatim>\<open>model_dump\<close> writes of an order, a trade or a
  thesis, is a leaf holding the value it was printed from; reading it back is reading the value, and
  for a model running its validators again. A leaf of the wrong kind raises where it is read.
\<close>

subsection \<open>Documents\<close>

datatype json =
    JNull
  | JBool bool
  | JInt int
  | JText string
  | JDecimal rat
  | JTime timestamp
  | JDate int
  | JSide position_side
  | JLock risk_lock_state
  | JStatus data_status
  | JBasis price_basis
  | JThesis position_thesis
  | JOrder paper_order
  | JTrade paper_trade
  | JList "json list"
  | JObject "(string \<times> json) list"

type_synonym json_object = "(string \<times> json) list"

definition SCHEMA_VERSION :: int where "SCHEMA_VERSION = 2"

text \<open>\<^verbatim>\<open>raw[k]\<close> and \<^verbatim>\<open>raw.get(k)\<close>.\<close>

definition item :: "json_object \<Rightarrow> string \<Rightarrow> json result" where
  "item d k = (case map_of d k of None \<Rightarrow> Inl KeyError | Some x \<Rightarrow> Inr x)"

definition got :: "json_object \<Rightarrow> string \<Rightarrow> json" where
  "got d k = (case map_of d k of None \<Rightarrow> JNull | Some x \<Rightarrow> x)"

definition dec_out :: "rat option \<Rightarrow> json" where
  "dec_out x = (case x of None \<Rightarrow> JNull | Some v \<Rightarrow> JDecimal v)"

fun undec :: "json \<Rightarrow> rat option result" where
  "undec JNull = Inr None"
| "undec (JDecimal v) = Inr (Some v)"
| "undec (JInt n) = Inr (Some (of_int n))"
| "undec _ = Inl InvalidOperation"

definition time_out :: "timestamp option \<Rightarrow> json" where
  "time_out x = (case x of None \<Rightarrow> JNull | Some t \<Rightarrow> JTime t)"

fun untime :: "json \<Rightarrow> timestamp option result" where
  "untime JNull = Inr None"
| "untime (JTime t) = Inr (Some t)"
| "untime _ = Inl ValueError"

text \<open>A required value that is absent is a \<^verbatim>\<open>SnapshotSchemaMismatch\<close>, a kind of \<^verbatim>\<open>ValueError\<close>.\<close>

definition needed :: "'a option \<Rightarrow> 'a result" where
  "needed x = (case x of None \<Rightarrow> Inl ValueError | Some v \<Rightarrow> Inr v)"

fun text_in :: "json \<Rightarrow> string result" where
  "text_in (JText t) = Inr t"
| "text_in _ = Inl TypeError"

fun side_in :: "json \<Rightarrow> position_side result" where
  "side_in (JSide x) = Inr x"
| "side_in _ = Inl TypeError"

fun int_in :: "json \<Rightarrow> int result" where
  "int_in (JInt n) = Inr n"
| "int_in JNull = Inl TypeError"
| "int_in _ = Inl ValueError"

fun truth_in :: "json \<Rightarrow> bool" where
  "truth_in JNull = False"
| "truth_in (JBool b) = b"
| "truth_in (JInt n) = (n \<noteq> 0)"
| "truth_in _ = True"

subsection \<open>Positions\<close>

definition position_out :: "mutable_position \<Rightarrow> json" where
  "position_out p = JObject
     [(''position_id'', JText (mp_position_id p)),
      (''symbol'', JText (mp_symbol p)),
      (''side'', JSide (mp_side p)),
      (''quantity'', dec_out (Some (mp_quantity p))),
      (''entry_price'', dec_out (Some (mp_entry_price p))),
      (''notional'', dec_out (Some (mp_notional p))),
      (''margin'', dec_out (Some (mp_margin p))),
      (''approved_leverage'', dec_out (Some (mp_approved_leverage p))),
      (''entry_fee'', dec_out (Some (mp_entry_fee p))),
      (''opened_at'', time_out (Some (mp_opened_at p))),
      (''updated_at'', time_out (Some (mp_updated_at p))),
      (''opening_order_id'', JText (mp_opening_order_id p)),
      (''stop_price'', dec_out (mp_stop_price p)),
      (''target_price'', dec_out (mp_target_price p)),
      (''trailing_stop_percent'', dec_out (mp_trailing_stop_percent p)),
      (''trail_extreme'', dec_out (mp_trail_extreme p)),
      (''liquidation_price'', dec_out (mp_liquidation_price p)),
      (''mark_price'', dec_out (mp_mark_price p)),
      (''mark_source'', case mp_mark_source p of None \<Rightarrow> JNull | Some x \<Rightarrow> JBasis x),
      (''mark_status'', case mp_mark_status p of None \<Rightarrow> JNull | Some x \<Rightarrow> JStatus x),
      (''best_price'', dec_out (mp_best_price p)),
      (''worst_price'', dec_out (mp_worst_price p)),
      (''thesis'', case mp_thesis p of None \<Rightarrow> JNull | Some x \<Rightarrow> JThesis x)]"

fun basis_in :: "json \<Rightarrow> price_basis option result" where
  "basis_in JNull = Inr None"
| "basis_in (JBasis x) = Inr (Some x)"
| "basis_in _ = Inl TypeError"

fun status_in :: "json \<Rightarrow> data_status option result" where
  "status_in JNull = Inr None"
| "status_in (JStatus x) = Inr (Some x)"
| "status_in _ = Inl TypeError"

fun thesis_in :: "json \<Rightarrow> position_thesis option result" where
  "thesis_in JNull = Inr None"
| "thesis_in (JThesis x) = bindE (construct position_thesis_valid x) (\<lambda>t. Inr (Some t))"
| "thesis_in _ = Inl ValidationError"

definition position_fields :: "json_object \<Rightarrow> mutable_position result" where
  "position_fields raw =
     bindE (bindE (item raw ''opened_at'') untime) (\<lambda>opened.
     bindE (bindE (item raw ''updated_at'') untime) (\<lambda>updated.
     bindE (bindE (item raw ''quantity'') undec) (\<lambda>quantity.
     bindE (bindE (item raw ''entry_price'') undec) (\<lambda>entry.
     bindE (bindE (item raw ''notional'') undec) (\<lambda>notional.
     bindE (bindE (item raw ''margin'') undec) (\<lambda>margin.
     bindE (bindE (item raw ''approved_leverage'') undec) (\<lambda>leverage.
     bindE (bindE (item raw ''entry_fee'') undec) (\<lambda>fee.
     bindE (needed opened) (\<lambda>opened.
     bindE (needed updated) (\<lambda>updated.
     bindE (needed quantity) (\<lambda>quantity.
     bindE (needed entry) (\<lambda>entry.
     bindE (needed notional) (\<lambda>notional.
     bindE (needed margin) (\<lambda>margin.
     bindE (needed leverage) (\<lambda>leverage.
     bindE (needed fee) (\<lambda>fee.
     bindE (bindE (item raw ''position_id'') text_in) (\<lambda>position_id.
     bindE (bindE (item raw ''symbol'') text_in) (\<lambda>symbol.
     bindE (bindE (item raw ''side'') side_in) (\<lambda>side.
     bindE (bindE (item raw ''opening_order_id'') text_in) (\<lambda>order_id.
     bindE (undec (got raw ''stop_price'')) (\<lambda>stop.
     bindE (undec (got raw ''target_price'')) (\<lambda>target.
     bindE (undec (got raw ''trailing_stop_percent'')) (\<lambda>trailing.
     bindE (undec (got raw ''trail_extreme'')) (\<lambda>extreme.
     bindE (undec (got raw ''liquidation_price'')) (\<lambda>liquidation.
     bindE (undec (got raw ''mark_price'')) (\<lambda>mark.
     bindE (basis_in (got raw ''mark_source'')) (\<lambda>source.
     bindE (status_in (got raw ''mark_status'')) (\<lambda>status.
     bindE (undec (got raw ''best_price'')) (\<lambda>best.
     bindE (undec (got raw ''worst_price'')) (\<lambda>worst.
     bindE (thesis_in (got raw ''thesis'')) (\<lambda>thesis.
     Inr \<lparr>mp_position_id = position_id, mp_symbol = symbol, mp_side = side, mp_quantity = quantity,
          mp_entry_price = entry, mp_notional = notional, mp_margin = margin,
          mp_approved_leverage = leverage, mp_entry_fee = fee, mp_opened_at = opened,
          mp_updated_at = updated, mp_opening_order_id = order_id, mp_stop_price = stop,
          mp_target_price = target, mp_trailing_stop_percent = trailing, mp_trail_extreme = extreme,
          mp_liquidation_price = liquidation, mp_mark_price = mark, mp_mark_source = source,
          mp_mark_status = status, mp_thesis = thesis, mp_best_price = best,
          mp_worst_price = worst\<rparr>)))))))))))))))))))))))))))))))"

fun position_in :: "json \<Rightarrow> mutable_position result" where
  "position_in (JObject raw) = position_fields raw"
| "position_in _ = Inl TypeError"

subsection \<open>The session\<close>

definition session_out :: "mutable_session \<Rightarrow> json" where
  "session_out s = JObject
     [(''session_date'', JDate (ms_session_date s)),
      (''profit_target'', dec_out (Some (ms_profit_target s))),
      (''loss_limit'', dec_out (Some (ms_loss_limit s))),
      (''realized_pnl'', dec_out (Some (ms_realized_pnl s))),
      (''fees'', dec_out (Some (ms_fees s))),
      (''trades_closed'', JInt (ms_trades_closed s)),
      (''orders_submitted'', JInt (ms_orders_submitted s)),
      (''orders_rejected'', JInt (ms_orders_rejected s)),
      (''lock_state'', JLock (ms_lock_state s)),
      (''locked_at'', time_out (ms_locked_at s))]"

fun date_in :: "json \<Rightarrow> int result" where
  "date_in (JDate d) = Inr d"
| "date_in _ = Inl ValueError"

fun lock_in :: "json \<Rightarrow> risk_lock_state result" where
  "lock_in (JLock x) = Inr x"
| "lock_in _ = Inl ValueError"

definition session_fields :: "json_object \<Rightarrow> mutable_session result" where
  "session_fields raw =
     bindE (bindE (item raw ''profit_target'') undec) (\<lambda>target.
     bindE (bindE (item raw ''loss_limit'') undec) (\<lambda>limit.
     bindE (bindE (item raw ''realized_pnl'') undec) (\<lambda>realized.
     bindE (bindE (item raw ''fees'') undec) (\<lambda>fees.
     bindE (needed target) (\<lambda>target.
     bindE (needed limit) (\<lambda>limit.
     bindE (needed realized) (\<lambda>realized.
     bindE (needed fees) (\<lambda>fees.
     bindE (bindE (item raw ''session_date'') date_in) (\<lambda>day.
     bindE (bindE (item raw ''trades_closed'') int_in) (\<lambda>closed.
     bindE (bindE (item raw ''orders_submitted'') int_in) (\<lambda>submitted.
     bindE (bindE (item raw ''orders_rejected'') int_in) (\<lambda>rejected.
     bindE (bindE (item raw ''lock_state'') lock_in) (\<lambda>lock.
     bindE (untime (got raw ''locked_at'')) (\<lambda>locked_at.
     Inr \<lparr>ms_session_date = day, ms_profit_target = target, ms_loss_limit = limit,
          ms_realized_pnl = realized, ms_fees = fees, ms_trades_closed = closed,
          ms_orders_submitted = submitted, ms_orders_rejected = rejected, ms_lock_state = lock,
          ms_locked_at = locked_at\<rparr>))))))))))))))"

fun session_in :: "json \<Rightarrow> mutable_session option result" where
  "session_in JNull = Inr None"
| "session_in (JObject raw) = bindE (session_fields raw) (\<lambda>s. Inr (Some s))"
| "session_in _ = Inl TypeError"

subsection \<open>The account\<close>

definition to_snapshot :: "paper_state \<Rightarrow> json" where
  "to_snapshot s = JObject
     [(''schema_version'', JInt SCHEMA_VERSION),
      (''account_id'', JText (ps_account_id s)),
      (''created_at'', time_out (Some (ps_created_at s))),
      (''updated_at'', time_out (Some (ps_updated_at s))),
      (''starting_balance'', dec_out (Some (ps_starting_balance s))),
      (''balance'', dec_out (Some (ps_balance s))),
      (''realized_pnl'', dec_out (Some (ps_realized_pnl s))),
      (''total_fees'', dec_out (Some (ps_total_fees s))),
      (''autonomous_enabled'', JBool (ps_autonomous_enabled s)),
      (''emergency_stopped'', JBool (ps_emergency_stopped s)),
      (''sequence'', JInt (int (ps_sequence s))),
      (''positions'', JObject (map (\<lambda>(k, p). (k, position_out p)) (ps_positions s))),
      (''order_log'', JList (map JOrder (ps_order_log s))),
      (''trades'', JList (map JTrade (ps_trades s))),
      (''session'', case ps_session s of None \<Rightarrow> JNull | Some x \<Rightarrow> session_out x)]"

fun order_in :: "json \<Rightarrow> paper_order result" where
  "order_in (JOrder x) = construct paper_order_valid x"
| "order_in _ = Inl ValidationError"

fun trade_in :: "json \<Rightarrow> paper_trade result" where
  "trade_in (JTrade x) = Inr x"
| "trade_in _ = Inl ValidationError"

text \<open>An absent list or mapping is empty.\<close>

definition list_in :: "(json \<Rightarrow> 'a result) \<Rightarrow> json_object \<Rightarrow> string \<Rightarrow> 'a list result" where
  "list_in f raw k =
     (case map_of raw k of None \<Rightarrow> Inr [] | Some (JList xs) \<Rightarrow> mapE f xs | Some _ \<Rightarrow> Inl TypeError)"

definition positions_in :: "json_object \<Rightarrow> (string, mutable_position) dict result" where
  "positions_in raw =
     (case map_of raw ''positions'' of
        None \<Rightarrow> Inr []
      | Some (JObject d) \<Rightarrow> mapE (\<lambda>(k, x). bindE (position_in x) (\<lambda>p. Inr (k, p))) d
      | Some _ \<Rightarrow> Inl TypeError)"

text \<open>The idempotency index is rebuilt from the log: the last order of an id wins.\<close>

definition index_of :: "paper_order list \<Rightarrow> (string, paper_order) dict" where
  "index_of entries = foldl (\<lambda>d o'. AList.update (po_client_order_id o') o' d) [] entries"

definition snapshot_fields :: "json_object \<Rightarrow> paper_state result" where
  "snapshot_fields raw =
     bindE (bindE (item raw ''created_at'') untime) (\<lambda>created.
     bindE (bindE (item raw ''updated_at'') untime) (\<lambda>updated.
     bindE (bindE (item raw ''starting_balance'') undec) (\<lambda>starting.
     bindE (bindE (item raw ''balance'') undec) (\<lambda>balance.
     bindE (bindE (item raw ''realized_pnl'') undec) (\<lambda>realized.
     bindE (bindE (item raw ''total_fees'') undec) (\<lambda>fees.
     bindE (needed created) (\<lambda>created.
     bindE (needed updated) (\<lambda>updated.
     bindE (needed starting) (\<lambda>starting.
     bindE (needed balance) (\<lambda>balance.
     bindE (needed realized) (\<lambda>realized.
     bindE (needed fees) (\<lambda>fees.
     bindE (list_in order_in raw ''order_log'') (\<lambda>entries.
     bindE (bindE (item raw ''account_id'') text_in) (\<lambda>account_id.
     bindE (positions_in raw) (\<lambda>positions.
     bindE (list_in trade_in raw ''trades'') (\<lambda>trades.
     bindE (session_in (got raw ''session'')) (\<lambda>session.
     bindE (case map_of raw ''sequence'' of None \<Rightarrow> Inr 0 | Some x \<Rightarrow> int_in x) (\<lambda>sequence.
     Inr \<lparr>ps_account_id = account_id, ps_created_at = created, ps_updated_at = updated,
          ps_starting_balance = starting, ps_balance = balance, ps_realized_pnl = realized,
          ps_total_fees = fees, ps_autonomous_enabled = truth_in (got raw ''autonomous_enabled''),
          ps_emergency_stopped = truth_in (got raw ''emergency_stopped''), ps_positions = positions,
          ps_orders_by_client_id = index_of entries, ps_order_log = entries, ps_trades = trades,
          ps_session = session, ps_sequence = nat sequence\<rparr>))))))))))))))))))"

fun from_snapshot :: "json \<Rightarrow> paper_state result" where
  "from_snapshot (JObject raw) =
     (if got raw ''schema_version'' \<noteq> JInt SCHEMA_VERSION then Inl ValueError else snapshot_fields raw)"
| "from_snapshot _ = Inl TypeError"

subsection \<open>Reading back what was written\<close>

lemma undec_out [simp]: "undec (dec_out x) = Inr x"
  by (cases x) (simp_all add: dec_out_def)

lemma untime_out [simp]: "untime (time_out x) = Inr x"
  by (cases x) (simp_all add: time_out_def)

text \<open>Whose models pass their validators when they are read again.\<close>

definition snapshot_ok :: "paper_state \<Rightarrow> bool" where
  "snapshot_ok s \<longleftrightarrow> list_all paper_order_valid (ps_order_log s) \<and>
     list_all (\<lambda>p. case mp_thesis p of None \<Rightarrow> True | Some t \<Rightarrow> position_thesis_valid t)
       (values_of (ps_positions s))"

lemma position_back:
  assumes "case mp_thesis p of None \<Rightarrow> True | Some t \<Rightarrow> position_thesis_valid t"
  shows "position_in (position_out p) = Inr p"
proof -
  have thesis: "thesis_in (case mp_thesis p of None \<Rightarrow> JNull | Some x \<Rightarrow> JThesis x) = Inr (mp_thesis p)"
    using assms by (cases "mp_thesis p") (simp_all add: construct_def)
  have basis: "basis_in (case mp_mark_source p of None \<Rightarrow> JNull | Some x \<Rightarrow> JBasis x) = Inr (mp_mark_source p)"
    by (cases "mp_mark_source p") simp_all
  have status: "status_in (case mp_mark_status p of None \<Rightarrow> JNull | Some x \<Rightarrow> JStatus x) = Inr (mp_mark_status p)"
    by (cases "mp_mark_status p") simp_all
  show ?thesis
    by (simp add: position_out_def position_fields_def item_def got_def needed_def thesis basis status)
qed

lemma positions_back:
  assumes "list_all (\<lambda>p. case mp_thesis p of None \<Rightarrow> True | Some t \<Rightarrow> position_thesis_valid t) (values_of d)"
  shows "mapE (\<lambda>(k, x). bindE (position_in x) (\<lambda>p. Inr (k, p))) (map (\<lambda>(k, p). (k, position_out p)) d) = Inr d"
  using assms by (induction d) (auto simp: values_of_def position_back)

lemma orders_back: "list_all paper_order_valid entries \<Longrightarrow> mapE order_in (map JOrder entries) = Inr entries"
  by (induction entries) (simp_all add: construct_def)

lemma trades_back: "mapE trade_in (map JTrade ts) = Inr ts"
  by (induction ts) simp_all

lemma session_back: "session_in (case s of None \<Rightarrow> JNull | Some x \<Rightarrow> session_out x) = Inr s"
  by (cases s) (simp_all add: session_out_def session_fields_def item_def got_def needed_def)

lemma snapshot_back:
  assumes "snapshot_ok s"
  shows "from_snapshot (to_snapshot s) = Inr (s\<lparr>ps_orders_by_client_id := index_of (ps_order_log s)\<rparr>)"
  using assms
  by (simp add: to_snapshot_def snapshot_fields_def item_def got_def needed_def list_in_def positions_in_def
      snapshot_ok_def positions_back orders_back trades_back session_back)

end
