(* ===== verification/PaperService.thy ===== *)
theory PaperService
  imports PaperTrading Snapshot RiskEngine OrderEngine Orchestrator
begin

section \<open>The paper trading service\<close>

text \<open>
  \<^verbatim>\<open>services/paper.py\<close>, the single risk authority of every paper order, and the store it writes
  its state back to (\<^verbatim>\<open>adapters/persistence/paper.py\<close>). What a call reads from outside during its
  run, the clock, the answers of the market data service, the count of the order store and whether
  a write to the database lands, is the record \<open>outside\<close>; every method runs under the write lock
  or reads a frozen snapshot, so each is one action.
\<close>

subsection \<open>What is read from outside\<close>

datatype 'a lookup = Answered 'a | NotListed | VenueFailed

text \<open>Of \<^verbatim>\<open>Ticker\<close> and \<^verbatim>\<open>Symbol\<close>, the fields the service reads.\<close>

record ticker_quote =
  tq_last_price :: rat
  tq_bid_price :: "rat option"
  tq_ask_price :: "rat option"

record listed_symbol =
  ls_filters :: symbol_filters
  ls_max_leverage :: "int option"

text \<open>
  \<open>ow_pending\<close> is the answer of the order engine's \<open>reconciliation_pending\<close>, \<open>None\<close> when no order
  store is bound.
\<close>

record outside =
  ow_now :: timestamp
  ow_exchange :: string
  ow_ticker :: "string \<Rightarrow> ticker_quote observation lookup"
  ow_symbol :: "string \<Rightarrow> listed_symbol lookup"
  ow_klines :: "string \<Rightarrow> timeframe \<Rightarrow> nat \<Rightarrow> candle list observation lookup"
  ow_pending :: "int result option"
  ow_read_lands :: bool
  ow_write_lands :: bool

record service_settings =
  st_engine :: paper_config
  st_paper_enabled :: bool
  st_max_open_positions :: int
  st_max_position_notional :: rat
  st_max_portfolio_exposure :: rat
  st_max_leverage :: rat
  st_max_data_age_seconds :: rat
  st_entry_cooldown_seconds :: rat
  st_manual_cooldown_seconds :: rat
  st_max_atr_percent :: rat
  st_taker_fee_bps :: rat

record service =
  sv_paper :: paper_state
  sv_last_entry_at :: "(string, timestamp) dict"
  sv_store_bound :: bool
  sv_store_healthy :: bool
  sv_stored :: "json option"

definition MANUAL_RISK_CANDLES :: nat where "MANUAL_RISK_CANDLES = 60"
definition MANUAL_RISK_TIMEFRAME :: timeframe where "MANUAL_RISK_TIMEFRAME = M15"
definition INTELLIGENCE_CANDLES :: nat where "INTELLIGENCE_CANDLES = 300"
definition INTELLIGENCE_TIMEFRAME :: timeframe where "INTELLIGENCE_TIMEFRAME = H1"

subsection \<open>The snapshot store\<close>

definition store_durability :: "service \<Rightarrow> durability" where
  "store_durability s = (if sv_store_healthy s then DURABLE else IN_MEMORY)"

definition service_durability :: "service \<Rightarrow> durability" where
  "service_durability s = (if \<not> sv_store_bound s then IN_MEMORY else store_durability s)"

definition store_save :: "outside \<Rightarrow> service \<Rightarrow> service" where
  "store_save w s =
     (if ow_write_lands w then s\<lparr>sv_stored := Some (to_snapshot (sv_paper s)), sv_store_healthy := True\<rparr>
      else s\<lparr>sv_store_healthy := False\<rparr>)"

definition persist :: "outside \<Rightarrow> (service, unit) act" where
  "persist w = modifyA (\<lambda>s. if sv_store_bound s then store_save w s else s)"

text \<open>
  A document that cannot be read counts as none; an exception outside the four kinds the handler
  names gets through.
\<close>

definition document_state :: "json option \<Rightarrow> paper_state option result" where
  "document_state stored =
     (case stored of
        None \<Rightarrow> Inr None
      | Some doc \<Rightarrow>
          (case from_snapshot doc of
             Inr p \<Rightarrow> Inr (Some p)
           | Inl e \<Rightarrow>
               if e \<in> {ValueError, ValidationError, KeyError, TypeError} then Inr None else Inl e))"

definition store_load :: "outside \<Rightarrow> (service, paper_state option) act" where
  "store_load w =
     (if ow_read_lands w then bindA (readA sv_stored) (\<lambda>stored. liftA (document_state stored))
      else thenA (modifyA (\<lambda>s. s\<lparr>sv_store_healthy := False\<rparr>)) (returnA None))"

text \<open>\<^verbatim>\<open>restore\<close>: whether a stored state was adopted.\<close>

definition restore :: "outside \<Rightarrow> (service, bool) act" where
  "restore w =
     bindA (readA sv_store_bound) (\<lambda>bound.
     if \<not> bound then returnA False
     else bindA (store_load w) (\<lambda>stored.
          case stored of
            None \<Rightarrow> returnA False
          | Some state \<Rightarrow> thenA (modifyA (\<lambda>s. s\<lparr>sv_paper := state\<rparr>)) (returnA True)))"

text \<open>An engine method inside the service: it sees the engine's state and the service's durability.\<close>

definition on_engine :: "(durability \<Rightarrow> (paper_state, 'a) act) \<Rightarrow> (service, 'a) act" where
  "on_engine m s =
     (case m (service_durability s) (sv_paper s) of (t, r) \<Rightarrow> (s\<lparr>sv_paper := t\<rparr>, r))"

subsection \<open>Prices\<close>

definition mark_from_observation :: "string \<Rightarrow> ticker_quote observation \<Rightarrow> mark_price" where
  "mark_from_observation symbol ob =
     \<lparr>mk_symbol = symbol, mk_status = ob_status ob, mk_source = ob_source ob,
      mk_last_price = map_option tq_last_price (ob_value ob),
      mk_bid_price = Option.bind (ob_value ob) tq_bid_price,
      mk_ask_price = Option.bind (ob_value ob) tq_ask_price,
      mk_age_seconds = age_seconds ob\<rparr>"

definition unusable_mark :: "outside \<Rightarrow> string \<Rightarrow> data_status \<Rightarrow> mark_price" where
  "unusable_mark w symbol status =
     \<lparr>mk_symbol = symbol, mk_status = status, mk_source = ow_exchange w @ '':rest'',
      mk_last_price = None, mk_bid_price = None, mk_ask_price = None, mk_age_seconds = None\<rparr>"

definition mark_of :: "outside \<Rightarrow> string \<Rightarrow> mark_price result" where
  "mark_of w symbol =
     (case ow_ticker w symbol of
        NotListed \<Rightarrow> Inl SymbolNotFoundError
      | VenueFailed \<Rightarrow> Inr (unusable_mark w (upper symbol) ERROR)
      | Answered ob \<Rightarrow> Inr (mark_from_observation (upper symbol) ob))"

definition open_marks :: "outside \<Rightarrow> (service, marks) act" where
  "open_marks w =
     bindA (readA (\<lambda>s. open_symbols (sv_paper s))) (\<lambda>symbols.
     liftA (mapE (\<lambda>x. bindE (mark_of w x) (\<lambda>m. Inr (x, m))) symbols))"

definition metadata_of :: "outside \<Rightarrow> string \<Rightarrow> listed_symbol option result" where
  "metadata_of w symbol =
     (case ow_symbol w symbol of
        NotListed \<Rightarrow> Inr None | VenueFailed \<Rightarrow> Inl AetherisError | Answered l \<Rightarrow> Inr (Some l))"

text \<open>An order store that exists and will not answer blocks, as one unreconciled order does.\<close>

definition pending_orders :: "outside \<Rightarrow> int" where
  "pending_orders w =
     (case ow_pending w of None \<Rightarrow> 0 | Some (Inl e) \<Rightarrow> 1 | Some (Inr n) \<Rightarrow> n)"

definition measure_volatility :: "outside \<Rightarrow> string \<Rightarrow> timestamp \<Rightarrow> volatility_measurement result" where
  "measure_volatility w symbol now =
     (case ow_klines w symbol MANUAL_RISK_TIMEFRAME MANUAL_RISK_CANDLES of
        NotListed \<Rightarrow> mk_volatility_measurement CANDLES_UNAVAILABLE None 0
      | VenueFailed \<Rightarrow> mk_volatility_measurement CANDLES_UNAVAILABLE None 0
      | Answered ob \<Rightarrow>
          if ob_status ob = STALE then mk_volatility_measurement CANDLES_STALE None 0
          else let raw = (case ob_value ob of None \<Rightarrow> [] | Some cs \<Rightarrow> cs);
                   prepared = prepare_candles raw now
               in if pc_problem prepared \<noteq> NO_PROBLEM
                  then mk_volatility_measurement CANDLES_UNAVAILABLE None 0
                  else measured_volatility (pc_candles prepared))"

subsection \<open>What the risk engine is given\<close>

definition proposed_margin :: "submit_order_request \<Rightarrow> mark_price \<Rightarrow> rat result" where
  "proposed_margin req mark =
     (case sr_margin req of
        Some m \<Rightarrow> Inr m
      | None \<Rightarrow>
          (case (sr_quantity req, mk_last_price mark) of
             (Some q, Some price) \<Rightarrow> quantize_usdt (d_mul q price)
           | _ \<Rightarrow> Inr 0))"

definition AUTONOMOUS_ORIGIN :: string where "AUTONOMOUS_ORIGIN = ''autonomous-loop''"

definition policy_of :: "service_settings \<Rightarrow> string \<Rightarrow> risk_policy" where
  "policy_of st origin =
     \<lparr>rp_max_open_positions = st_max_open_positions st,
      rp_max_position_notional = st_max_position_notional st,
      rp_max_portfolio_exposure = st_max_portfolio_exposure st,
      rp_max_leverage = st_max_leverage st,
      rp_max_data_age_seconds = st_max_data_age_seconds st,
      rp_entry_cooldown_seconds =
        (if origin = AUTONOMOUS_ORIGIN then st_entry_cooldown_seconds st
         else st_manual_cooldown_seconds st),
      rp_max_atr_percent = st_max_atr_percent st\<rparr>"

definition account_view ::
    "service_settings \<Rightarrow> paper_account \<Rightarrow> string \<Rightarrow> int \<Rightarrow> service \<Rightarrow> risk_account_view" where
  "account_view st account symbol pending s =
     \<lparr>av_balance = pa_balance account, av_available_balance = pa_available_balance account,
      av_equity = pa_equity account, av_margin_used = pa_margin_used account,
      av_open_symbols = map pp_symbol (pa_positions account),
      av_open_position_count = int (length (pa_positions account)),
      av_total_notional = d_sum (map pp_notional (pa_positions account)),
      av_session_realized_pnl = ds_realized_pnl (pa_session account),
      av_daily_profit_target = ds_profit_target (pa_session account),
      av_daily_loss_limit = ds_loss_limit (pa_session account),
      av_lock_state = ds_lock_state (pa_session account),
      av_emergency_stopped = ps_emergency_stopped (sv_paper s),
      av_mode_enabled = st_paper_enabled st, av_unreconciled_orders = pending,
      av_last_entry_at = map_of (sv_last_entry_at s) symbol\<rparr>"

definition market_view ::
    "string \<Rightarrow> mark_price \<Rightarrow> volatility_measurement \<Rightarrow> listed_symbol \<Rightarrow> risk_market_view" where
  "market_view symbol mark volatility listed =
     \<lparr>mv_symbol = symbol, mv_status = mk_status mark, mv_age_seconds = mk_age_seconds mark,
      mv_last_price = mk_last_price mark, mv_atr_percent = vm_atr_percent volatility,
      mv_volatility_status = vm_status volatility, mv_filters = Some (ls_filters listed),
      mv_exchange_max_leverage = map_option of_int (ls_max_leverage listed)\<rparr>"

definition proposal_of ::
    "string \<Rightarrow> submit_order_request \<Rightarrow> rat \<Rightarrow> rat \<Rightarrow> string \<Rightarrow> risk_proposal" where
  "proposal_of symbol req margin asked origin =
     \<lparr>pr_symbol = symbol, pr_side = sr_side req, pr_requested_margin = margin,
      pr_requested_leverage = asked,
      pr_stop_loss_percent = sr_stop_loss_percent req,
      pr_take_profit_percent = sr_take_profit_percent req,
      pr_trailing_stop_percent = sr_trailing_stop_percent req, pr_origin = origin,
      pr_bias = None, pr_conditions_met = None, pr_conditions_total = None\<rparr>"

definition unresolvable_leverage :: leverage_decision where
  "unresolvable_leverage =
     \<lparr>ld_requested = None, ld_exchange_max = None, ld_risk_max = None, ld_approved = None,
      ld_outcome = LEVERAGE_REJECTED, ld_reason = INSUFFICIENT_DATA, ld_binding = None,
      ld_inputs = []\<rparr>"

text \<open>The verdict on one order, from everything the service gathered about it.\<close>

definition rule_on ::
    "service_settings \<Rightarrow> outside \<Rightarrow> string \<Rightarrow> submit_order_request \<Rightarrow> rat \<Rightarrow> string \<Rightarrow> mark_price \<Rightarrow>
     listed_symbol \<Rightarrow> volatility_measurement \<Rightarrow> paper_account \<Rightarrow> service \<Rightarrow> risk_verdict result" where
  "rule_on st w symbol req asked origin mark listed volatility account s =
     bindE (proposed_margin req mark) (\<lambda>margin.
     evaluate (proposal_of symbol req margin asked origin)
       (account_view st account symbol (pending_orders w) s)
       (market_view symbol mark volatility listed) (policy_of st origin) (ow_now w))"

subsection \<open>Submitting\<close>

definition approved_request :: "submit_order_request \<Rightarrow> risk_verdict \<Rightarrow> submit_order_request" where
  "approved_request req v = req\<lparr>sr_margin := rv_approved_margin v, sr_quantity := None\<rparr>"

definition note_entry :: "string \<Rightarrow> timestamp \<Rightarrow> paper_order_result \<Rightarrow> (service, unit) act" where
  "note_entry symbol now outcome =
     modifyA (\<lambda>s. if pr_accepted outcome
                  then s\<lparr>sv_last_entry_at := AList.update symbol now (sv_last_entry_at s)\<rparr> else s)"

text \<open>What follows the replay check for a listed symbol.\<close>

definition submit_listed ::
    "service_settings \<Rightarrow> outside \<Rightarrow> submit_order_request \<Rightarrow> rat \<Rightarrow> string \<Rightarrow> string \<Rightarrow> marks \<Rightarrow>
     listed_symbol \<Rightarrow> (service, paper_order_result) act" where
  "submit_listed st w req asked origin symbol marks listed =
     bindA (liftA (case map_of marks symbol of Some m \<Rightarrow> Inr m | None \<Rightarrow> mark_of w symbol)) (\<lambda>mark.
     bindA (liftA (measure_volatility w symbol (ow_now w))) (\<lambda>volatility.
     bindA (on_engine (\<lambda>dur. snapshot (st_engine st) dur (ow_now w) marks)) (\<lambda>account.
     bindA (\<lambda>s. (s, rule_on st w symbol req asked origin mark listed volatility account s))
       (\<lambda>verdict.
     if \<not> rv_approved verdict then
       (case rv_code verdict of
          None \<Rightarrow> raiseA ValueError
        | Some code \<Rightarrow>
            on_engine (\<lambda>dur. refuse_order (st_engine st) dur req (ow_now w) code (rv_leverage verdict)
              marks (rv_checks_performed verdict) (rv_risk_max_leverage verdict)))
     else
       bindA (on_engine (\<lambda>dur. submit_order (st_engine st) dur (approved_request req verdict)
                (ow_now w) mark (Some (ls_filters listed)) (rv_leverage verdict)
                (st_paper_enabled st) marks (rv_checks_performed verdict)
                (rv_risk_max_leverage verdict))) (\<lambda>outcome.
       thenA (note_entry symbol (ow_now w) outcome) (returnA outcome))))))"

definition submit_unseen ::
    "service_settings \<Rightarrow> outside \<Rightarrow> submit_order_request \<Rightarrow> rat \<Rightarrow> string \<Rightarrow> string \<Rightarrow> marks \<Rightarrow>
     (service, paper_order_result) act" where
  "submit_unseen st w req asked origin symbol marks =
     bindA (liftA (metadata_of w symbol)) (\<lambda>listed.
     case listed of
       None \<Rightarrow>
         on_engine (\<lambda>dur. submit_order (st_engine st) dur req (ow_now w)
           (unusable_mark w symbol UNAVAILABLE) None unresolvable_leverage (st_paper_enabled st)
           marks [] None)
     | Some l \<Rightarrow> submit_listed st w req asked origin symbol marks l)"

definition submit_locked ::
    "service_settings \<Rightarrow> outside \<Rightarrow> submit_order_request \<Rightarrow> rat \<Rightarrow> string \<Rightarrow>
     (service, paper_order_result) act" where
  "submit_locked st w req asked origin =
     (let symbol = upper (submit_order_request.sr_symbol req) in
      bindA (open_marks w) (\<lambda>marks.
      case sr_client_order_id req of
        None \<Rightarrow> submit_unseen st w req asked origin symbol marks
      | Some cid \<Rightarrow>
          bindA (on_engine (\<lambda>dur. replay (st_engine st) dur cid (ow_now w) marks)) (\<lambda>replayed.
          case replayed of
            Some r \<Rightarrow> returnA r
          | None \<Rightarrow> submit_unseen st w req asked origin symbol marks)))"

text \<open>A method whose result is written back when it did not raise.\<close>

definition persisted :: "outside \<Rightarrow> (service, 'a) act \<Rightarrow> (service, 'a) act" where
  "persisted w m = bindA m (\<lambda>r. thenA (persist w) (returnA r))"

definition submit_service ::
    "service_settings \<Rightarrow> outside \<Rightarrow> submit_order_request \<Rightarrow> rat \<Rightarrow> string \<Rightarrow>
     (service, paper_order_result) act" where
  "submit_service st w req asked origin =
     persisted w (submit_locked st w req asked origin)"

subsection \<open>The other methods\<close>

definition get_account :: "service_settings \<Rightarrow> outside \<Rightarrow> (service, paper_account) act" where
  "get_account st w =
     bindA (open_marks w) (\<lambda>marks.
     on_engine (\<lambda>dur. snapshot (st_engine st) dur (ow_now w) marks))"

definition tick_service ::
    "service_settings \<Rightarrow> outside \<Rightarrow> (service, paper_account \<times> paper_trade list) act" where
  "tick_service st w =
     persisted w (bindA (open_marks w) (\<lambda>marks.
       on_engine (\<lambda>dur. tick (st_engine st) dur (ow_now w) marks)))"

definition close_service ::
    "service_settings \<Rightarrow> outside \<Rightarrow> string \<Rightarrow> paper_exit_reason \<Rightarrow> (service, paper_order_result) act" where
  "close_service st w symbol reason =
     persisted w (bindA (open_marks w) (\<lambda>marks.
       let key = upper symbol in
       bindA (liftA (case map_of marks key of Some m \<Rightarrow> Inr m | None \<Rightarrow> mark_of w key)) (\<lambda>mark.
       on_engine (\<lambda>dur. close_position (st_engine st) dur key (ow_now w) mark reason marks))))"

definition reset_service :: "service_settings \<Rightarrow> outside \<Rightarrow> rat option \<Rightarrow> (service, paper_account) act" where
  "reset_service st w starting_balance =
     persisted w (on_engine (\<lambda>dur. reset_account (st_engine st) dur (ow_now w) starting_balance))"

definition emergency_service :: "service_settings \<Rightarrow> outside \<Rightarrow> bool \<Rightarrow> (service, paper_account) act" where
  "emergency_service st w engaged =
     persisted w (on_engine (\<lambda>dur. set_emergency_stop (st_engine st) dur engaged (ow_now w)))"

text \<open>
  The advice on an open position; candles only from an observation that is \<open>OK\<close>. The sentence that
  explains a lock is not kept by the account model, so the advice has none to quote.
\<close>

definition intelligence_candles :: "outside \<Rightarrow> string \<Rightarrow> candle list option" where
  "intelligence_candles w symbol =
     (case ow_klines w symbol INTELLIGENCE_TIMEFRAME INTELLIGENCE_CANDLES of
        Answered ob \<Rightarrow> if ob_status ob = OK then ob_value ob else None
      | _ \<Rightarrow> None)"

definition position_advice ::
    "service_settings \<Rightarrow> outside \<Rightarrow> string \<Rightarrow> (service, position_intelligence option) act" where
  "position_advice st w symbol =
     bindA (open_marks w) (\<lambda>marks.
     bindA (on_engine (\<lambda>dur. snapshot (st_engine st) dur (ow_now w) marks)) (\<lambda>account.
     case find (\<lambda>p. pp_symbol p = upper symbol) (pa_positions account) of
       None \<Rightarrow> returnA None
     | Some p \<Rightarrow>
         let candles = intelligence_candles w (pp_symbol p) in
         bindA (liftA (case candles of
                         None \<Rightarrow> Inr None
                       | Some cs \<Rightarrow> bindE (classify_regime cs default_regime_params) (\<lambda>a. Inr (Some a))))
           (\<lambda>regime.
         bindA (liftA (compute_position_metrics p (ow_now w) (st_taker_fee_bps st))) (\<lambda>metrics.
         bindA (liftA (evaluate_position
             \<lparr>ob_position = p, ob_metrics = metrics, ob_now = ow_now w, ob_candles = candles,
              ob_regime = regime, ob_strategy_params = default_trend_params,
              ob_risk_lock = ds_lock_state (pa_session account), ob_risk_lock_reason = None,
              ob_unreconciled_orders = pending_orders w\<rparr>)) (\<lambda>a.
         returnA (Some a))))))"

end
