(* ===== verification/Autonomous.thy ===== *)
theory Autonomous
  imports PaperService
begin

section \<open>The autonomous paper-trading loop\<close>

text \<open>
  \<^verbatim>\<open>services/autonomous.py\<close> and \<^verbatim>\<open>domain/autonomous.py\<close>: arming, the background task, one
  iteration over the configured symbols, and the bounded log of decisions. Everything that may
  change between two reads is a sequence of \<open>outside\<close> records: the first serves the management pass,
  two more each symbol. Sentences for a reader are left out.
\<close>

subsection \<open>Decisions\<close>

datatype autonomous_action = ENTERED | REFUSED | MANAGED | CLOSED | NO_SIGNAL_FOUND | SKIPPED

datatype loop_state = DISABLED_BY_CONFIG | DISARMED | ARMED | LOOP_FAILED

record autonomous_decision =
  ad_decision_id :: string
  ad_sequence :: nat
  ad_decided_at :: timestamp
  ad_symbol :: string
  ad_timeframe :: timeframe
  ad_action :: autonomous_action
  ad_bar_close_time :: "timestamp option"
  ad_strategy :: "string option"
  ad_strategy_status :: "strategy_status option"
  ad_bias :: "strategy_bias option"
  ad_conditions_met :: "nat option"
  ad_conditions_total :: "nat option"
  ad_rejection_code :: "risk_rejection_code option"
  ad_leverage :: "leverage_decision option"
  ad_risk_max_leverage :: "rat option"
  ad_checks_performed :: "string list"
  ad_side :: "order_side option"
  ad_position_side :: "position_side option"
  ad_exit_reason :: "paper_exit_reason option"
  ad_client_order_id :: "string option"
  ad_order_id :: "string option"
  ad_position_id :: "string option"
  ad_trade_id :: "string option"
  ad_proposed_margin :: "rat option"
  ad_realized_pnl :: "rat option"
  ad_source :: "string option"
  ad_data_status :: "string option"
  ad_data_age_seconds :: "rat option"
  ad_atr_percent :: "rat option"

record loop_settings =
  lo_permitted :: bool
  lo_symbols :: "string list"
  lo_timeframe :: timeframe
  lo_interval_seconds :: rat
  lo_max_symbols :: nat
  lo_candle_limit :: nat
  lo_position_size_percent :: rat
  lo_requested_leverage :: rat
  lo_stop_loss_percent :: "rat option"
  lo_take_profit_percent :: "rat option"
  lo_trailing_stop_percent :: "rat option"
  lo_close_on_signal_flip :: bool
  lo_max_consecutive_failures :: nat
  lo_outage_iterations :: nat
  lo_outage_backoff :: rat
  lo_max_decision_log :: nat
  lo_service :: service_settings

text \<open>The task: none created, running, or ended (its object stays).\<close>

datatype task = NoTask | Running | Ended

record auto_loop =
  al_service :: service
  al_armed :: bool
  al_failure :: "py_error option"
  al_task :: task
  al_stop :: bool
  al_decisions :: "autonomous_decision list"
  al_sequence :: nat
  al_iterations :: nat
  al_entries :: nat
  al_refusals :: nat
  al_closes :: nat
  al_last_iteration_at :: "timestamp option"
  al_last_duration :: "rat option"
  al_consecutive_failures :: "(string, nat) dict"
  al_excluded :: "(string, nat) dict"
  al_last_entry_at :: "(string, timestamp) dict"
  al_failure_iterations :: nat

definition fresh_loop :: "service \<Rightarrow> auto_loop" where
  "fresh_loop sv =
     \<lparr>al_service = sv, al_armed = False, al_failure = None, al_task = NoTask, al_stop = False,
      al_decisions = [], al_sequence = 0, al_iterations = 0, al_entries = 0, al_refusals = 0,
      al_closes = 0, al_last_iteration_at = None, al_last_duration = None,
      al_consecutive_failures = [], al_excluded = [], al_last_entry_at = [], al_failure_iterations = 0\<rparr>"

subsection \<open>Arming and status\<close>

definition loop_state_of :: "loop_settings \<Rightarrow> auto_loop \<Rightarrow> loop_state" where
  "loop_state_of cfg l =
     (if al_failure l \<noteq> None then LOOP_FAILED
      else if \<not> lo_permitted cfg then DISABLED_BY_CONFIG
      else if al_armed l then ARMED else DISARMED)"

record loop_status =
  lt_state :: loop_state
  lt_enabled :: bool
  lt_permitted_by_config :: bool
  lt_paper_mode_enabled :: bool
  lt_symbols :: "string list"
  lt_excluded_symbols :: "(string, nat) dict"
  lt_timeframe :: timeframe
  lt_interval_seconds :: rat
  lt_iterations :: nat
  lt_decisions_recorded :: nat
  lt_entries :: nat
  lt_refusals :: nat
  lt_closes :: nat
  lt_last_iteration_at :: "timestamp option"
  lt_last_duration :: "rat option"
  lt_failure :: "py_error option"
  lt_venue_outage :: bool

definition loop_status_of :: "loop_settings \<Rightarrow> auto_loop \<Rightarrow> loop_status" where
  "loop_status_of cfg l =
     \<lparr>lt_state = loop_state_of cfg l, lt_enabled = al_armed l, lt_permitted_by_config = lo_permitted cfg,
      lt_paper_mode_enabled = st_paper_enabled (lo_service cfg), lt_symbols = lo_symbols cfg,
      lt_excluded_symbols = al_excluded l, lt_timeframe = lo_timeframe cfg,
      lt_interval_seconds = lo_interval_seconds cfg, lt_iterations = al_iterations l,
      lt_decisions_recorded = al_sequence l, lt_entries = al_entries l, lt_refusals = al_refusals l,
      lt_closes = al_closes l, lt_last_iteration_at = al_last_iteration_at l,
      lt_last_duration = al_last_duration l, lt_failure = al_failure l,
      lt_venue_outage = (lo_outage_iterations cfg \<le> al_failure_iterations l)\<rparr>"

definition arm :: "loop_settings \<Rightarrow> bool \<Rightarrow> (auto_loop, loop_status) act" where
  "arm cfg enabled =
     (if enabled \<and> \<not> lo_permitted cfg then raiseA AetherisError
      else if enabled \<and> \<not> st_paper_enabled (lo_service cfg) then raiseA AetherisError
      else thenA (modifyA (\<lambda>l. (if enabled then l\<lparr>al_failure := None\<rparr> else l)\<lparr>al_armed := enabled\<rparr>))
             (readA (loop_status_of cfg)))"

definition start_task :: "loop_settings \<Rightarrow> auto_loop \<Rightarrow> auto_loop" where
  "start_task cfg l =
     (if al_task l \<noteq> NoTask \<or> \<not> lo_permitted cfg then l else l\<lparr>al_stop := False, al_task := Running\<rparr>)"

definition close_task :: "auto_loop \<Rightarrow> auto_loop" where
  "close_task l = l\<lparr>al_armed := False, al_stop := True, al_task := NoTask\<rparr>"

text \<open>How long the task sleeps; longer while the venue fails every symbol.\<close>

definition sleep_seconds :: "loop_settings \<Rightarrow> auto_loop \<Rightarrow> rat" where
  "sleep_seconds cfg l =
     (if lo_outage_iterations cfg \<le> al_failure_iterations l
      then lo_interval_seconds cfg * lo_outage_backoff cfg else lo_interval_seconds cfg)"

subsection \<open>The decision log\<close>

definition blank_decision ::
    "loop_settings \<Rightarrow> string \<Rightarrow> autonomous_action \<Rightarrow> timestamp \<Rightarrow> autonomous_decision" where
  "blank_decision cfg symbol action now =
     \<lparr>ad_decision_id = [], ad_sequence = 0, ad_decided_at = now, ad_symbol = symbol,
      ad_timeframe = lo_timeframe cfg, ad_action = action, ad_bar_close_time = None,
      ad_strategy = None, ad_strategy_status = None, ad_bias = None, ad_conditions_met = None,
      ad_conditions_total = None, ad_rejection_code = None, ad_leverage = None,
      ad_risk_max_leverage = None, ad_checks_performed = [], ad_side = None, ad_position_side = None,
      ad_exit_reason = None, ad_client_order_id = None, ad_order_id = None, ad_position_id = None,
      ad_trade_id = None, ad_proposed_margin = None, ad_realized_pnl = None, ad_source = None,
      ad_data_status = None, ad_data_age_seconds = None, ad_atr_percent = None\<rparr>"

text \<open>\<^verbatim>\<open>a or b\<close> on optional texts: an empty text counts as none.\<close>

definition or_else :: "string option \<Rightarrow> string option \<Rightarrow> string option" where
  "or_else a b = (case a of Some (c # cs) \<Rightarrow> a | _ \<Rightarrow> b)"

text \<open>A decision that names the analysis it rests on; the side chooses whose conditions are counted.\<close>

definition analysed_decision ::
    "loop_settings \<Rightarrow> string \<Rightarrow> autonomous_action \<Rightarrow> timestamp \<Rightarrow> strategy_result \<Rightarrow> timestamp \<Rightarrow>
     order_side option \<Rightarrow> string option \<Rightarrow> string option \<Rightarrow> rat option \<Rightarrow> autonomous_decision" where
  "analysed_decision cfg symbol action now result bar_close side source status age =
     (blank_decision cfg symbol action now)
       \<lparr>ad_bar_close_time := Some bar_close, ad_strategy := Some STRATEGY_KEY,
        ad_strategy_status := Some (sr_status result), ad_bias := sr_bias result,
        ad_conditions_met := Some (if side \<noteq> Some SELL then sr_long_conditions_met result
                                   else sr_short_conditions_met result),
        ad_conditions_total := Some (sr_conditions_total result), ad_side := side,
        ad_source := or_else source (sr_source result),
        ad_data_status := or_else status (sr_data_status result),
        ad_data_age_seconds := (case age of None \<Rightarrow> sr_data_age_seconds result | Some a \<Rightarrow> age)\<rparr>"

definition record_decision ::
    "loop_settings \<Rightarrow> autonomous_decision \<Rightarrow> (auto_loop, autonomous_decision) act" where
  "record_decision cfg d l =
     (let n = al_sequence l + 1;
          d' = d\<lparr>ad_decision_id := seq_id ''auto-decision-'' n, ad_sequence := n\<rparr>;
          log = al_decisions l @ [d']
      in (l\<lparr>al_sequence := n, al_decisions := drop (length log - lo_max_decision_log cfg) log\<rparr>, Inr d'))"

definition latest_decisions :: "nat \<Rightarrow> auto_loop \<Rightarrow> autonomous_decision list" where
  "latest_decisions limit l =
     rev (if limit = 0 then al_decisions l
          else drop (length (al_decisions l) - limit) (al_decisions l))"

subsection \<open>Identity and measurement\<close>

fun timeframe_value :: "timeframe \<Rightarrow> string" where
  "timeframe_value M1 = ''1m''"
| "timeframe_value M5 = ''5m''"
| "timeframe_value M15 = ''15m''"
| "timeframe_value H1 = ''1h''"
| "timeframe_value H4 = ''4h''"
| "timeframe_value D1 = ''1d''"

definition build_client_order_id :: "string \<Rightarrow> timeframe \<Rightarrow> timestamp \<Rightarrow> order_side \<Rightarrow> string" where
  "build_client_order_id symbol tf bar_close side =
     ''auto-'' @ upper symbol @ ''-'' @ timeframe_value tf @ ''-'' @ nat_str (nat (bar_close div 1000)) @
     ''-'' @ order_side_value side"

definition loop_atr_percent :: "candle list \<Rightarrow> rat option result" where
  "loop_atr_percent cs =
     (if length cs < 14 + 1 then Inr None
      else bindE (atr cs 14) (\<lambda>series.
           case last_value series of
             None \<Rightarrow> Inr None
           | Some v \<Rightarrow>
               let close = ca_close (last cs)
               in if close \<le> 0 then Inr None
                  else bindE (quantize ROUND_HALF_EVEN 4 (d_mul (d_quot v close) 100)) (\<lambda>q. Inr (Some q))))"

fun status_text :: "data_status \<Rightarrow> string" where
  "status_text OK = ''OK''"
| "status_text STALE = ''STALE''"
| "status_text UNAVAILABLE = ''UNAVAILABLE''"
| "status_text ERROR = ''ERROR''"

subsection \<open>One symbol\<close>

definition on_service :: "(service, 'a) act \<Rightarrow> (auto_loop, 'a) act" where
  "on_service m l = (case m (al_service l) of (sv, r) \<Rightarrow> (l\<lparr>al_service := sv\<rparr>, r))"

definition opposed :: "position_side \<Rightarrow> strategy_bias option \<Rightarrow> bool" where
  "opposed side bias \<longleftrightarrow>
     (side = LONG \<and> bias = Some SHORT_BIAS) \<or> (side = SHORT \<and> bias = Some LONG_BIAS)"

definition manage_open ::
    "loop_settings \<Rightarrow> outside \<Rightarrow> string \<Rightarrow> position_side \<Rightarrow> strategy_result \<Rightarrow> timestamp \<Rightarrow> timestamp \<Rightarrow>
     (auto_loop, autonomous_decision) act" where
  "manage_open cfg w symbol side result now bar_close =
     (let base = (\<lambda>action. (analysed_decision cfg symbol action now result bar_close None None None None)
                   \<lparr>ad_position_side := Some side\<rparr>)
      in if lo_close_on_signal_flip cfg \<and> opposed side (sr_bias result) \<and> sr_status result = ST_READY then
           bindA (on_service (close_service (lo_service cfg) w symbol SIGNAL_FLIP)) (\<lambda>outcome.
           case (pr_accepted outcome, pr_trade outcome) of
             (True, Some trade) \<Rightarrow>
               thenA (modifyA (\<lambda>l. l\<lparr>al_closes := al_closes l + 1\<rparr>))
                 (record_decision cfg ((base CLOSED)
                    \<lparr>ad_exit_reason := Some SIGNAL_FLIP, ad_trade_id := Some (pt_trade_id trade),
                     ad_realized_pnl := Some (pt_net_pnl trade)\<rparr>))
           | _ \<Rightarrow>
               record_decision cfg ((base MANAGED)
                 \<lparr>ad_rejection_code := po_rejection_code (pr_order outcome)\<rparr>))
         else record_decision cfg (base MANAGED))"

definition entry_request ::
    "loop_settings \<Rightarrow> string \<Rightarrow> order_side \<Rightarrow> rat \<Rightarrow> string \<Rightarrow> strategy_result \<Rightarrow> timestamp \<Rightarrow>
     submit_order_request" where
  "entry_request cfg symbol side margin cid result bar_close =
     \<lparr>submit_order_request.sr_symbol = symbol, sr_side = side, sr_quantity = None, sr_margin = Some margin,
      sr_stop_loss_percent = lo_stop_loss_percent cfg,
      sr_take_profit_percent = lo_take_profit_percent cfg,
      sr_trailing_stop_percent = lo_trailing_stop_percent cfg, sr_client_order_id = Some cid,
      sr_strategy_context = Some
        \<lparr>sx_strategy_id = sr_strategy result, sx_strategy_version = sr_version result,
         sx_timeframe = sr_timeframe result, sx_setup_score = None, sx_score_components = [],
         sx_entry_conditions = (if sr_bias result = Some LONG_BIAS then sr_long_conditions result
                                else sr_short_conditions result),
         sx_regime = None, sx_volatility_band = None, sx_data_source = sr_source result,
         sx_data_status = sr_data_status result, sx_data_age_seconds = sr_data_age_seconds result,
         sx_bar_close_time = Some bar_close\<rparr>\<rparr>"

definition propose_entry ::
    "loop_settings \<Rightarrow> outside \<Rightarrow> string \<Rightarrow> strategy_result \<Rightarrow> paper_account \<Rightarrow> rat option \<Rightarrow> timestamp \<Rightarrow>
     timestamp \<Rightarrow> string option \<Rightarrow> (auto_loop, autonomous_decision) act" where
  "propose_entry cfg w symbol result account atr_pct bar_close now source =
     (let side = (if sr_bias result = Some LONG_BIAS then BUY else SELL);
          cid = build_client_order_id symbol (lo_timeframe cfg) bar_close side
      in bindA (liftA (quantize_usdt (d_quot (d_mul (pa_available_balance account)
                  (lo_position_size_percent cfg)) 100))) (\<lambda>margin.
         bindA (on_service (submit_service (lo_service cfg) w
                  (entry_request cfg symbol side margin cid result bar_close)
                  (lo_requested_leverage cfg) AUTONOMOUS_ORIGIN)) (\<lambda>outcome.
         let base = (\<lambda>action.
               (analysed_decision cfg symbol action now result bar_close (Some side) source None None)
                 \<lparr>ad_atr_percent := atr_pct, ad_client_order_id := Some cid,
                  ad_leverage := po_leverage (pr_order outcome),
                  ad_risk_max_leverage := pr_risk_max_leverage outcome,
                  ad_checks_performed := pr_checks_performed outcome\<rparr>)
         in if \<not> pr_accepted outcome then
              thenA (modifyA (\<lambda>l. l\<lparr>al_refusals := al_refusals l + 1\<rparr>))
                (record_decision cfg ((base REFUSED)
                   \<lparr>ad_rejection_code := po_rejection_code (pr_order outcome),
                    ad_proposed_margin := Some margin\<rparr>))
            else
              thenA (modifyA (\<lambda>l. l\<lparr>al_entries := al_entries l + 1,
                                    al_last_entry_at := AList.update symbol now (al_last_entry_at l)\<rparr>))
                (record_decision cfg ((base ENTERED)
                   \<lparr>ad_order_id := Some (po_order_id (pr_order outcome)),
                    ad_position_id := map_option pp_position_id (pr_position outcome),
                    ad_proposed_margin := Some (case pr_position outcome of
                      None \<Rightarrow> margin | Some p \<Rightarrow> pp_margin p)\<rparr>)))))"

definition klines_of :: "outside \<Rightarrow> string \<Rightarrow> loop_settings \<Rightarrow> candle list observation result" where
  "klines_of w symbol cfg =
     (case ow_klines w symbol (lo_timeframe cfg) (lo_candle_limit cfg) of
        NotListed \<Rightarrow> Inl SymbolNotFoundError | VenueFailed \<Rightarrow> Inl AetherisError | Answered ob \<Rightarrow> Inr ob)"

text \<open>The decision on one symbol, and whether the symbol failed.\<close>

definition evaluate_symbol ::
    "loop_settings \<Rightarrow> outside \<Rightarrow> string \<Rightarrow> paper_account \<Rightarrow> timestamp \<Rightarrow>
     (auto_loop, autonomous_decision \<times> bool) act" where
  "evaluate_symbol cfg w symbol account now =
     bindA (liftA (klines_of w symbol cfg)) (\<lambda>observed.
     let source = Some (ob_source observed); status = Some (status_text (ob_status observed));
         age = age_seconds observed;
         prepared = prepare_candles (case ob_value observed of None \<Rightarrow> [] | Some cs \<Rightarrow> cs) now;
         cs = pc_candles prepared
     in if pc_problem prepared \<noteq> NO_PROBLEM \<or> cs = [] then
          bindA (record_decision cfg ((blank_decision cfg symbol SKIPPED now)
                   \<lparr>ad_source := or_else source None, ad_data_status := or_else status None,
                    ad_data_age_seconds := age\<rparr>)) (\<lambda>d. returnA (d, True))
        else let bar_close = ca_close_time (last cs) in
          bindA (liftA (evaluate_from_candles cs symbol (lo_timeframe cfg) default_trend_params
                          (Some bar_close))) (\<lambda>result.
          bindA (liftA (loop_atr_percent cs)) (\<lambda>atr_pct.
          case find (\<lambda>p. pp_symbol p = symbol) (pa_positions account) of
            Some p \<Rightarrow>
              bindA (manage_open cfg w symbol (pp_side p) result now bar_close) (\<lambda>d. returnA (d, False))
          | None \<Rightarrow>
              if sr_status result \<noteq> ST_READY then
                bindA (record_decision cfg ((analysed_decision cfg symbol SKIPPED now result bar_close
                         None source status age)\<lparr>ad_atr_percent := atr_pct\<rparr>)) (\<lambda>d. returnA (d, True))
              else if sr_bias result = None \<or> sr_bias result = Some NEUTRAL then
                bindA (record_decision cfg ((analysed_decision cfg symbol NO_SIGNAL_FOUND now result
                         bar_close None source status age)\<lparr>ad_atr_percent := atr_pct\<rparr>)) (\<lambda>d. returnA (d, False))
              else
                bindA (propose_entry cfg w symbol result account atr_pct bar_close now source)
                  (\<lambda>d. returnA (d, False)))))"

text \<open>Both handlers of \<^verbatim>\<open>run_once\<close>: whatever an evaluation raises is recorded as skipped and failed.\<close>

definition attempt_symbol ::
    "loop_settings \<Rightarrow> outside \<Rightarrow> string \<Rightarrow> paper_account \<Rightarrow> timestamp \<Rightarrow>
     (auto_loop, autonomous_decision \<times> bool) act" where
  "attempt_symbol cfg w symbol account now l =
     (case evaluate_symbol cfg w symbol account now l of
        (l', Inr x) \<Rightarrow> (l', Inr x)
      | (l', Inl e) \<Rightarrow>
          bindA (record_decision cfg (blank_decision cfg symbol SKIPPED now)) (\<lambda>d. returnA (d, True)) l')"

subsection \<open>One iteration\<close>

definition note_failure :: "loop_settings \<Rightarrow> string \<Rightarrow> auto_loop \<Rightarrow> auto_loop" where
  "note_failure cfg symbol l =
     (let count = (case map_of (al_consecutive_failures l) symbol of None \<Rightarrow> 0 | Some n \<Rightarrow> n) + 1;
          noted = l\<lparr>al_consecutive_failures := AList.update symbol count (al_consecutive_failures l)\<rparr>
      in if lo_max_consecutive_failures cfg \<le> count
         then noted\<lparr>al_excluded := AList.update symbol count (al_excluded l)\<rparr> else noted)"

definition note_outcome :: "loop_settings \<Rightarrow> string \<Rightarrow> bool \<Rightarrow> auto_loop \<Rightarrow> auto_loop" where
  "note_outcome cfg symbol failed l =
     (if failed then note_failure cfg symbol l
      else l\<lparr>al_consecutive_failures := AList.delete symbol (al_consecutive_failures l)\<rparr>)"

definition universe :: "loop_settings \<Rightarrow> auto_loop \<Rightarrow> string list" where
  "universe cfg l =
     take (lo_max_symbols cfg) (filter (\<lambda>x. x \<notin> set (keys_of (al_excluded l))) (lo_symbols cfg))"

definition finish_iteration ::
    "timestamp \<Rightarrow> timestamp \<Rightarrow> nat \<Rightarrow> nat \<Rightarrow> auto_loop \<Rightarrow> auto_loop" where
  "finish_iteration started finished failures evaluated l =
     l\<lparr>al_iterations := al_iterations l + 1, al_last_iteration_at := Some started,
       al_last_duration := Some (total_seconds finished started),
       al_failure_iterations :=
         (if 0 < evaluated \<and> evaluated \<le> failures then al_failure_iterations l + 1 else 0)\<rparr>"

definition record_closed ::
    "loop_settings \<Rightarrow> timestamp \<Rightarrow> paper_trade \<Rightarrow> (auto_loop, autonomous_decision) act" where
  "record_closed cfg now trade =
     thenA (modifyA (\<lambda>l. l\<lparr>al_closes := al_closes l + 1\<rparr>))
       (record_decision cfg ((blank_decision cfg (pt_symbol trade) CLOSED now)
          \<lparr>ad_exit_reason := Some (pt_exit_reason trade), ad_position_side := Some (pt_side trade),
           ad_trade_id := Some (pt_trade_id trade), ad_realized_pnl := Some (pt_net_pnl trade)\<rparr>))"

fun mapA :: "('x \<Rightarrow> ('s, 'y) act) \<Rightarrow> 'x list \<Rightarrow> ('s, 'y list) act" where
  "mapA f [] = returnA []"
| "mapA f (x # xs) = bindA (f x) (\<lambda>y. bindA (mapA f xs) (\<lambda>ys. returnA (y # ys)))"

text \<open>The symbols in order, each followed by a fresh view of the account for the next.\<close>

fun evaluate_universe ::
    "loop_settings \<Rightarrow> (nat \<Rightarrow> outside) \<Rightarrow> nat \<Rightarrow> timestamp \<Rightarrow> string list \<Rightarrow> paper_account \<Rightarrow>
     (auto_loop, (autonomous_decision \<times> bool) list) act" where
  "evaluate_universe cfg ws i now [] account = returnA []"
| "evaluate_universe cfg ws i now (symbol # symbols) account =
     bindA (attempt_symbol cfg (ws i) symbol account now) (\<lambda>x.
     thenA (modifyA (note_outcome cfg symbol (snd x)))
    (bindA (on_service (get_account (lo_service cfg) (ws (i + 1)))) (\<lambda>account'.
     bindA (evaluate_universe cfg ws (i + 2) now symbols account') (\<lambda>xs. returnA (x # xs)))))"

definition run_once ::
    "loop_settings \<Rightarrow> (nat \<Rightarrow> outside) \<Rightarrow> timestamp \<Rightarrow> (auto_loop, autonomous_decision list) act" where
  "run_once cfg ws finished =
     (let started = ow_now (ws 0) in
      bindA (readA (universe cfg)) (\<lambda>symbols.
      if symbols = [] then
        bindA (record_decision cfg (blank_decision cfg ''-'' SKIPPED started)) (\<lambda>d.
        thenA (modifyA (finish_iteration started finished 0 0)) (returnA [d]))
      else
        bindA (on_service (tick_service (lo_service cfg) (ws 0))) (\<lambda>(account, closed).
        bindA (mapA (record_closed cfg started) closed) (\<lambda>closings.
        bindA (evaluate_universe cfg ws 1 started symbols account) (\<lambda>xs.
        thenA (modifyA (finish_iteration started finished (length (filter snd xs)) (length symbols)))
          (returnA (closings @ map fst xs)))))))"

text \<open>
  One turn of \<^verbatim>\<open>_supervise\<close>: an iteration when armed. An exception is recorded, disarms, and ends
  the task; a stop that was asked for ends it too.
\<close>

definition supervise_turn :: "loop_settings \<Rightarrow> (nat \<Rightarrow> outside) \<Rightarrow> timestamp \<Rightarrow> auto_loop \<Rightarrow> auto_loop" where
  "supervise_turn cfg ws finished l =
     (if al_task l \<noteq> Running then l
      else if al_stop l then l\<lparr>al_task := Ended\<rparr>
      else if \<not> al_armed l then l
      else case run_once cfg ws finished l of
             (l', Inr ds) \<Rightarrow> l'
           | (l', Inl e) \<Rightarrow> l'\<lparr>al_failure := Some e, al_armed := False, al_task := Ended\<rparr>)"

text \<open>What can happen to the loop: a turn of its task, a request to arm or disarm, a start.\<close>

inductive loop_step :: "loop_settings \<Rightarrow> auto_loop \<Rightarrow> auto_loop \<Rightarrow> bool" for cfg where
  turn: "loop_step cfg l (supervise_turn cfg ws finished l)"
| armed: "arm cfg enabled l = (l', r) \<Longrightarrow> loop_step cfg l l'"
| started: "loop_step cfg l (start_task cfg l)"

end
