(* ===== verification/ServiceLaws.thy ===== *)
theory ServiceLaws
  imports Autonomous PaperProperties RiskProperties
begin

section \<open>What the service's calls keep and answer\<close>

subsection \<open>Calls that only read\<close>

text \<open>The one thing a read may change: the day's session.\<close>

definition only_session :: "paper_state \<Rightarrow> paper_state \<Rightarrow> bool" where
  "only_session p q \<longleftrightarrow> (\<exists>x. q = p\<lparr>ps_session := x\<rparr>)"

lemma only_session_refl [simp]: "only_session p p"
  unfolding only_session_def by (rule exI [of _ "ps_session p"]) simp

lemma only_session_trans: "only_session p q \<Longrightarrow> only_session q r \<Longrightarrow> only_session p r"
  by (auto simp: only_session_def)

lemma only_session_sel:
  assumes "only_session p q"
  shows "ps_emergency_stopped q = ps_emergency_stopped p" "ps_positions q = ps_positions p"
    "ps_balance q = ps_balance p" "ps_orders_by_client_id q = ps_orders_by_client_id p"
  using assms by (auto simp: only_session_def)

lemma session_only: "keeps X (only_session p) (ensure_session cfg now)"
proof -
  have "only_session p (q\<lparr>ps_session := x\<rparr>)" if q: "only_session p q" for q x
  proof -
    obtain y where "q = p\<lparr>ps_session := y\<rparr>" using q unfolding only_session_def by (elim exE)
    then show ?thesis unfolding only_session_def by (intro exI [of _ x]) simp
  qed
  then show ?thesis by (simp add: keeps_def triple_def ensure_session_def)
qed

lemma account_only: "keeps X (only_session p) (build_account cfg dur now marks)"
  unfolding build_account_def by (intro keep_rules session_only)

lemma snapshot_only: "keeps X (only_session p) (snapshot cfg dur now marks)"
  unfolding snapshot_def by (intro keep_rules session_only account_only)

lemma replay_outcome_only: "keeps X (only_session p) (replay_outcome cfg dur now marks symbol o')"
  unfolding replay_outcome_def by (intro keep_rules account_only)

lemma replay_only: "keeps X (only_session p) (replay cfg dur cid now marks)"
  unfolding replay_def by (intro keep_rules session_only replay_outcome_only)

text \<open>A service state read from another: the account but for its session, and everything else.\<close>

definition read_of :: "service \<Rightarrow> service \<Rightarrow> bool" where
  "read_of s t \<longleftrightarrow> only_session (sv_paper s) (sv_paper t) \<and> t\<lparr>sv_paper := sv_paper s\<rparr> = s"

lemma read_of_refl [simp]: "read_of s s"
  by (simp add: read_of_def)

lemma read_of_sel:
  assumes "read_of s t"
  shows "sv_last_entry_at t = sv_last_entry_at s" "sv_store_bound t = sv_store_bound s"
    "sv_store_healthy t = sv_store_healthy s" "sv_stored t = sv_stored s"
  using assms unfolding read_of_def by (metis service.select_convs service.surjective service.update_convs(1))+

lemma read_of_paper: "read_of s t \<Longrightarrow> only_session (sv_paper s) (sv_paper t)"
  by (simp add: read_of_def)

lemma engine_reads:
  assumes "\<And>dur p. keeps X (only_session p) (m dur)"
  shows "keeps X (read_of s) (on_engine m)"
  unfolding keeps_def
proof (rule tripleI)
  fix t
  assume t: "read_of s t"
  obtain p r where run: "m (service_durability t) (sv_paper t) = (p, r)"
    by (cases "m (service_durability t) (sv_paper t)")
  have shown: "on_engine m t = (t\<lparr>sv_paper := p\<rparr>, r)" by (simp add: on_engine_def run)
  have read: "read_of s (t\<lparr>sv_paper := p\<rparr>)" if "only_session (sv_paper s) p"
    using t that by (simp add: read_of_def)
  have "triple X (only_session (sv_paper s)) (m (service_durability t))
      (\<lambda>_. only_session (sv_paper s)) (only_session (sv_paper s))"
    using assms by (simp only: keeps_def)
  note kept = triple_Inr [OF this read_of_paper [OF t]] triple_Inl [OF this read_of_paper [OF t]]
  show "case on_engine m t of (s', Inr x) \<Rightarrow> read_of s s' | (s', Inl e) \<Rightarrow> e \<in> X \<or> read_of s s'"
  proof (cases r)
    case (Inl e)
    then show ?thesis using kept(2) [of p e] run read by (cases "e \<in> X") (simp_all add: shown)
  next
    case (Inr x)
    then show ?thesis using kept(1) [of p x] run read by (simp add: shown)
  qed
qed

lemma open_marks_keeps [keep_rules]: "keeps X P (open_marks w)"
  unfolding open_marks_def by (intro keep_rules)

lemma account_reads: "keeps X (read_of s) (get_account st w)"
  unfolding get_account_def by (intro keep_rules engine_reads snapshot_only)

lemma advice_reads: "keeps X (read_of s) (position_advice st w symbol)"
  unfolding position_advice_def by (intro keep_rules engine_reads snapshot_only)

subsection \<open>What an accepted order needs\<close>

lemma answers_iff: "(\<And>x. F x) \<Longrightarrow> answers F m"
  by (simp add: answers_def triple_def split: prod.splits sum.splits)

lemma answers_mono: "answers F m \<Longrightarrow> (\<And>x. F x \<Longrightarrow> G x) \<Longrightarrow> answers G m"
  unfolding answers_def by (erule triple_weaken) simp_all

lemma answers_read: "(\<And>s. answers F (k (f s))) \<Longrightarrow> answers F (bindA (readA f) k)"
  by (simp add: answers_def triple_def bindA_def readA_def)

lemma answers_engine:
  assumes "\<And>dur. answers F (m dur)"
  shows "answers F (on_engine m)"
  unfolding answers_def
proof (rule tripleI)
  fix s
  obtain p r where run: "m (service_durability s) (sv_paper s) = (p, r)"
    by (cases "m (service_durability s) (sv_paper s)")
  then show "case on_engine m s of (s', Inr x) \<Rightarrow> F x | (s', Inl e) \<Rightarrow> e \<in> {} \<or> True"
    using answers_run [OF assms, of "service_durability s" "sv_paper s" p]
    by (cases r) (simp_all add: on_engine_def)
qed

text \<open>An answer that is not a new fill.\<close>

definition no_new_fill :: "paper_order_result \<Rightarrow> bool" where
  "no_new_fill r \<longleftrightarrow> \<not> pr_accepted r \<or> po_idempotent_replay (pr_order r)"

lemma reject_fills_nothing:
  "answers no_new_fill (reject cfg dur symbol req cid code now marks lev ro checks rmax)"
  unfolding reject_def by (intro answer_rules) (simp add: result_of_def no_new_fill_def)

lemma refuse_fills_nothing:
  "answers no_new_fill (refuse_order cfg dur req now code lev marks checks rmax)"
  unfolding refuse_order_def by (intro answer_rules reject_fills_nothing)

lemma replay_fills_nothing:
  "answers no_new_fill (replay_outcome cfg dur now marks symbol o')"
  unfolding replay_outcome_def by (intro answer_rules) (simp add: result_of_def no_new_fill_def)

lemma replayed_fills_nothing:
  "answers (\<lambda>r. case r of None \<Rightarrow> True | Some x \<Rightarrow> no_new_fill x) (replay cfg dur cid now marks)"
proof -
  have "answers (\<lambda>r. case r of None \<Rightarrow> True | Some x \<Rightarrow> no_new_fill x)
      (bindA (replay_outcome cfg dur now marks symbol o') (\<lambda>r. returnA (Some r)))" for symbol o'
    using replay_fills_nothing unfolding answers_def
    by (rule triple_bind) (auto intro: triple_return)
  note outcome = this
  show ?thesis unfolding replay_def by (intro answer_rules outcome) simp
qed

lemma unusable_price_fills_nothing:
  assumes "price_problem cfg mark \<noteq> None"
  shows "answers no_new_fill (submit_order cfg dur req now mark filters lev en marks checks rmax)"
proof -
  have early: "\<exists>code. early_refusal cfg en mark req s = Some code" for s
    using assms by (auto simp: early_refusal_def split: option.splits)
  have gate: "answers no_new_fill (bindA (readA (early_refusal cfg en mark req)) (\<lambda>early. case early of
        Some code \<Rightarrow> reject cfg dur symbol req cid code now mk None False [] None | None \<Rightarrow> k))"
    for symbol cid mk k
  proof (rule answers_read)
    fix s
    show "answers no_new_fill (case early_refusal cfg en mark req s of
        Some code \<Rightarrow> reject cfg dur symbol req cid code now mk None False [] None | None \<Rightarrow> k)"
      using early [of s] reject_fills_nothing by auto
  qed
  show ?thesis
    unfolding submit_order_def Let_def
    by (rule gate answer_rules replay_fills_nothing)+
qed

subsection \<open>The authority of an entry\<close>

definition entry_authority ::
    "service_settings \<Rightarrow> outside \<Rightarrow> string \<Rightarrow> string \<Rightarrow> service \<Rightarrow> bool" where
  "entry_authority st w symbol origin s \<longleftrightarrow>
     st_paper_enabled st \<and> \<not> ps_emergency_stopped (sv_paper s) \<and> pending_orders w \<le> 0 \<and>
     (\<exists>l. ow_symbol w symbol = Answered l) \<and>
     (\<exists>ob age. ow_ticker w symbol = Answered ob \<and> ob_status ob = OK \<and> ob_value ob \<noteq> None \<and>
        age_seconds ob = Some age \<and> age \<le> st_max_data_age_seconds st) \<and>
     (\<exists>v p. measure_volatility w symbol (ow_now w) = Inr v \<and> vm_status v = MEASURED \<and>
        vm_atr_percent v = Some p \<and> p \<le> st_max_atr_percent st) \<and>
     (\<forall>t. map_of (sv_last_entry_at s) symbol = Some t \<longrightarrow>
        0 < rp_entry_cooldown_seconds (policy_of st origin) \<longrightarrow>
        rp_entry_cooldown_seconds (policy_of st origin) \<le> total_seconds (ow_now w) t)"

definition leverage_within :: "rat \<Rightarrow> rat \<Rightarrow> leverage_decision \<Rightarrow> bool" where
  "leverage_within asked most d \<longleftrightarrow>
     (\<exists>lev. ld_approved d = Some lev \<and> 1 \<le> lev \<and> lev \<le> asked \<and> (1 < lev \<longrightarrow> lev \<le> most))"

lemma usable_mark_answered:
  assumes "mark_of w symbol = Inr m" and "mk_status m = OK" and "mk_last_price m \<noteq> None"
  shows "\<exists>ob. ow_ticker w symbol = Answered ob \<and> ob_status ob = OK \<and> ob_value ob \<noteq> None \<and>
    age_seconds ob = mk_age_seconds m"
  using assms
  by (auto simp: mark_of_def unusable_mark_def mark_from_observation_def split: lookup.splits)

lemma verdict_authority:
  assumes v: "rule_on st w symbol req asked origin m listed vol account s = Inr v" "rv_approved v"
    and m: "mark_of w symbol = Inr m" and l: "ow_symbol w symbol = Answered listed"
    and vol: "measure_volatility w symbol (ow_now w) = Inr vol"
  shows "entry_authority st w symbol origin s \<and> leverage_within asked (st_max_leverage st) (rv_leverage v)"
proof -
  let ?a = "account_view st account symbol (pending_orders w) s"
  let ?m = "market_view symbol m vol listed"
  obtain margin where ev: "evaluate (proposal_of symbol req margin asked origin) ?a ?m
      (policy_of st origin) (ow_now w) = Inr v"
    using v(1) by (auto simp: rule_on_def result_simps)
  have pass: "mode_check ?a = None" "emergency_check ?a = None" "reconciliation_check ?a = None"
    "market_check ?m (policy_of st origin) = None"
    "cooldown_check ?a (policy_of st origin) (ow_now w) = None"
    "volatility_check ?m (policy_of st origin) = None"
    using evaluate_approved [OF ev v(2)] by (simp_all add: entry_checks_pass)
  have price: "mk_status m = OK" "mk_last_price m \<noteq> None"
    "\<exists>age. mk_age_seconds m = Some age \<and> age \<le> st_max_data_age_seconds st"
    using pass(4) unfolding market_check_None by (simp_all add: market_view_def policy_of_def)
  have "entry_authority st w symbol origin s"
    using pass(1-3) pass(5) [unfolded cooldown_check_None] pass(6) [unfolded volatility_check_None]
      usable_mark_answered [OF m price(1,2)] price(3) l vol
    by (auto simp: entry_authority_def mode_check_def emergency_check_def reconciliation_check_def
        account_view_def market_view_def policy_of_def not_less split: if_splits)
  moreover have "leverage_within asked (st_max_leverage st) (rv_leverage v)"
  proof -
    from approved_decision [OF ev v(2)] obtain rmax rq lev where
      d: "derive_risk_max_leverage (sr_stop_loss_percent req) margin (ds_realized_pnl (pa_session account))
         (ds_loss_limit (pa_session account)) (st_max_leverage st) = Inr rmax"
      and rq: "requested_leverage rq = asked"
      and lev: "ld_approved (resolve_leverage (Some rq) (mv_exchange_max_leverage ?m) rmax True) = Some lev"
      and dec: "rv_leverage v = resolve_leverage (Some rq) (mv_exchange_max_leverage ?m) rmax True"
      by (auto simp: proposal_of_def account_view_def policy_of_def)
    have "lev \<le> st_max_leverage st" if "1 < lev"
    proof (cases rmax)
      case None
      with lev that show ?thesis unfolding resolve_leverage_approved approved_spec_def
        by (auto simp: leverage_simps min_known_def split: if_splits option.splits)
    next
      case (Some c)
      with d have "derive_risk_max_leverage (sr_stop_loss_percent req) margin
          (ds_realized_pnl (pa_session account)) (ds_loss_limit (pa_session account))
          (st_max_leverage st) = Inr (Some c)" by simp
      from derive_range [OF this] resolve_leverage_bounds(5) [OF lev Some] show ?thesis by simp
    qed
    then show ?thesis
      using lev dec rq resolve_leverage_bounds(1,2) [OF lev] by (auto simp: leverage_within_def)
  qed
  ultimately show ?thesis by simp
qed

definition filled_at :: "leverage_decision \<Rightarrow> paper_order_result \<Rightarrow> bool" where
  "filled_at d r \<longleftrightarrow> no_new_fill r \<or> po_leverage (pr_order r) = Some d"

lemma open_leverage:
  "answers (\<lambda>r. po_leverage (pr_order r) = Some lev)
     (open_position cfg dur req symbol cid price source age q n m lev now marks checks rmax)"
proof -
  have filed: "answers (\<lambda>r. po_leverage (pr_order r) = Some lev) (bindA (liftA (construct paper_order_valid
      (filled_order a cid symbol req q price fill lev now))) k)"
    if "\<And>o'. po_leverage o' = Some lev \<Longrightarrow> answers (\<lambda>r. po_leverage (pr_order r) = Some lev) (k o')" for a fill k
    unfolding answers_def
  proof (rule triple_lift)
    fix o'
    assume "construct paper_order_valid (filled_order a cid symbol req q price fill lev now) = Inr o'"
    then have "po_leverage o' = Some lev" by (auto simp: construct_def filled_order_def split: if_splits)
    from that [OF this] show "triple {} (\<lambda>_. True) (k o') (\<lambda>r _. po_leverage (pr_order r) = Some lev) (\<lambda>_. True)"
      by (simp only: answers_def)
  qed simp
  show ?thesis
    unfolding open_position_def Let_def
    by (rule filed | rule answer_rules | simp add: result_of_def)+
qed

lemma submit_leverage:
  "answers (filled_at lev) (submit_order cfg dur req now mark filters lev en marks checks rmax)"
proof -
  have none: "no_new_fill r \<Longrightarrow> filled_at lev r" for r by (simp add: filled_at_def)
  have op: "answers (filled_at lev)
      (open_position cfg dur req symbol cid price source age q n m lev now mk checks rmax)"
    for symbol cid price source age q n m mk
    by (rule answers_mono [OF open_leverage]) (simp add: filled_at_def)
  have sum: "(\<And>x. answers F (f x)) \<Longrightarrow> (\<And>y. answers F (g y)) \<Longrightarrow>
      answers F (case c of Inl x \<Rightarrow> f x | Inr y \<Rightarrow> g y)" for F f g and c :: "'x + 'y"
    by (cases c) simp_all
  have prod: "(\<And>x y. answers F (f x y)) \<Longrightarrow> answers F (case c of (x, y) \<Rightarrow> f x y)" for F f and c :: "'x \<times> 'y"
    by (cases c) simp
  show ?thesis
    unfolding submit_order_def Let_def
    by (rule op answers_mono [OF reject_fills_nothing none] answers_mono [OF replay_fills_nothing none]
        sum prod answer_rules | assumption)+
qed

subsection \<open>The size of an approval\<close>

lemma evaluate_sized:
  assumes "evaluate p a m pol now = Inr v" and "rv_approved v" and "mv_filters m = Some f"
  shows "\<exists>lev price n0 q0 q. ld_approved (rv_leverage v) = Some lev \<and> mv_last_price m = Some price \<and>
    quantize_usdt (d_mul (pr_requested_margin p) lev) = Inr n0 \<and> d_div n0 price = Inr q0 \<and>
    floor_to_step q0 (sf_step_size f) = Inr q \<and> rv_approved_quantity v = Some q"
proof -
  from evaluate_approved [OF assms(1,2)] obtain checks where
    "leverage_stage p a m pol checks = Inr v" by blast
  then obtain rmax rq lev checks' where
    lev: "ld_approved (resolve_leverage (Some rq) (mv_exchange_max_leverage m) rmax True) = Some lev"
    and sz: "sizing p a m pol (resolve_leverage (Some rq) (mv_exchange_max_leverage m) rmax True)
       lev rmax checks' = Inr v"
    using assms(2) by (rule leverage_stage_approved) blast
  obtain price n0 q0 q n checks2 where s: "mv_last_price m = Some price"
    "quantize_usdt (d_mul (pr_requested_margin p) lev) = Inr n0" "d_div n0 price = Inr q0"
    "apply_filters (mv_filters m) price q0 n0 = Inr (Inr (q, n))"
    "ceilings a pol (resolve_leverage (Some rq) (mv_exchange_max_leverage m) rmax True)
       lev q n rmax checks2 = Inr v"
    using sz assms(2) by (rule sizing_approved) blast
  from ceilings_approved [OF s(5) assms(2)] apply_filters_sized [OF s(4)] s(1-3) lev assms(3)
  show ?thesis by simp
qed

lemma rule_on_sized:
  assumes "rule_on st w symbol req asked origin mark listed vol account s = Inr v" and "rv_approved v"
  shows "\<exists>margin lev price n x y. proposed_margin req mark = Inr margin \<and>
    ld_approved (rv_leverage v) = Some lev \<and> mk_last_price mark = Some price \<and>
    quantize_usdt (d_mul margin lev) = Inr n \<and> d_div n price = Inr x \<and>
    floor_to_step x (sf_step_size (ls_filters listed)) = Inr y \<and> rv_approved_quantity v = Some y"
proof -
  obtain margin where m: "proposed_margin req mark = Inr margin"
    "evaluate (proposal_of symbol req margin asked origin)
       (account_view st account symbol (pending_orders w) s) (market_view symbol mark vol listed)
       (policy_of st origin) (ow_now w) = Inr v"
    using assms(1) by (auto simp: rule_on_def result_simps)
  from evaluate_sized [OF m(2) assms(2), of "ls_filters listed"] m(1) show ?thesis
    by (auto simp: market_view_def proposal_of_def)
qed

subsection \<open>Submitting under the authority\<close>

definition true_marks :: "outside \<Rightarrow> marks \<Rightarrow> bool" where
  "true_marks w marks \<longleftrightarrow> (\<forall>x m. map_of marks x = Some m \<longrightarrow> mark_of w x = Inr m)"

lemma open_marks_true: "answers (true_marks w) (open_marks w)"
proof -
  have "true_marks w marks"
    if "mapE (\<lambda>x. bindE (mark_of w x) (\<lambda>m. Inr (x, m))) symbols = Inr marks" for symbols marks
    unfolding true_marks_def
  proof (intro allI impI)
    fix x m
    assume "map_of marks x = Some m"
    then have "(x, m) \<in> set marks" by (rule map_of_SomeD)
    from mapE_Inr_set [OF that this] show "mark_of w x = Inr m" by (auto simp: result_simps)
  qed
  then have "answers (true_marks w) (liftA (mapE (\<lambda>x. bindE (mark_of w x) (\<lambda>m. Inr (x, m))) symbols))"
    for symbols
    by (auto simp: answers_def triple_def liftA_def split: sum.splits)
  then show ?thesis unfolding open_marks_def by (intro answer_rules)
qed

lemma triple_probe:
  assumes "\<And>s x. P s \<Longrightarrow> f s = Inr x \<Longrightarrow> triple X P (k x) R E" and "\<And>s. P s \<Longrightarrow> E s"
  shows "triple X P (bindA (\<lambda>s. (s, f s)) k) R E"
proof (rule tripleI)
  fix s
  assume P: "P s"
  show "case bindA (\<lambda>s. (s, f s)) k s of (s', Inr x) \<Rightarrow> R x s' | (s', Inl e) \<Rightarrow> e \<in> X \<or> E s'"
  proof (cases "f s")
    case (Inl e)
    then show ?thesis using assms(2) [OF P] by (simp add: bindA_def)
  next
    case (Inr x)
    then show ?thesis using assms(1) [OF P Inr] P by (simp add: bindA_def triple_def)
  qed
qed

lemma answers_triple: "answers F m \<Longrightarrow> (\<And>x. F x \<Longrightarrow> G x) \<Longrightarrow> triple X P m (\<lambda>x _. G x) (\<lambda>_. True)"
  by (fastforce simp: answers_def triple_def split: prod.splits sum.splits)

lemma authority_read: "read_of s t \<Longrightarrow> entry_authority st w symbol origin t = entry_authority st w symbol origin s"
  using only_session_sel(1) [OF read_of_paper, of s t] read_of_sel(1) [of s t]
  by (simp add: entry_authority_def)

text \<open>Every new fill is preceded by a verdict, made of what the service then read, that grants it.\<close>

definition granted ::
    "service_settings \<Rightarrow> outside \<Rightarrow> string \<Rightarrow> rat \<Rightarrow> string \<Rightarrow> service \<Rightarrow> paper_order_result \<Rightarrow> bool" where
  "granted st w symbol asked origin s r \<longleftrightarrow>
     no_new_fill r \<or> entry_authority st w symbol origin s \<and>
       (\<exists>d. po_leverage (pr_order r) = Some d \<and> leverage_within asked (st_max_leverage st) d)"

lemma listed_granted:
  assumes marks: "true_marks w marks" and listed: "ow_symbol w symbol = Answered l"
  shows "triple {} (read_of s) (submit_listed st w req asked origin symbol marks l)
    (\<lambda>r _. granted st w symbol asked origin s r) (\<lambda>_. True)"
proof -
  have mark: "mark_of w symbol = Inr m"
    if "(case map_of marks symbol of Some m \<Rightarrow> Inr m | None \<Rightarrow> mark_of w symbol) = Inr m" for m
    using that marks by (cases "map_of marks symbol") (auto simp: true_marks_def)
  have filled: "triple {} (read_of s)
      (bindA (on_engine (\<lambda>dur. submit_order (st_engine st) dur (approved_request req v) (ow_now w) m
           (Some (ls_filters l)) (rv_leverage v) (st_paper_enabled st) marks (rv_checks_performed v)
           (rv_risk_max_leverage v)))
        (\<lambda>outcome. thenA (note_entry symbol (ow_now w) outcome) (returnA outcome)))
      (\<lambda>r _. granted st w symbol asked origin s r) (\<lambda>_. True)"
    if "entry_authority st w symbol origin s" "leverage_within asked (st_max_leverage st) (rv_leverage v)"
    for v m
  proof (rule triple_bind [where Q = "\<lambda>r _. granted st w symbol asked origin s r"])
    show "triple {} (read_of s) (on_engine (\<lambda>dur. submit_order (st_engine st) dur (approved_request req v)
        (ow_now w) m (Some (ls_filters l)) (rv_leverage v) (st_paper_enabled st) marks
        (rv_checks_performed v) (rv_risk_max_leverage v)))
        (\<lambda>r _. granted st w symbol asked origin s r) (\<lambda>_. True)"
      using that by (intro answers_triple [OF answers_engine [OF submit_leverage]])
        (auto simp: filled_at_def granted_def)
    show "triple {} (\<lambda>_. granted st w symbol asked origin s r)
        (thenA (note_entry symbol (ow_now w) r) (returnA r))
        (\<lambda>r _. granted st w symbol asked origin s r) (\<lambda>_. True)" for r
      by (simp add: triple_def thenA_def note_entry_def bindA_def modifyA_def returnA_def)
  qed
  show ?thesis
    unfolding submit_listed_def
  proof (intro triple_lift keeps_bind_triple [OF engine_reads [OF snapshot_only]] triple_probe; assumption?)
    fix m vol account t v
    assume t: "read_of s t" and m: "(case map_of marks symbol of Some m \<Rightarrow> Inr m | None \<Rightarrow> mark_of w symbol) = Inr m"
      and vol: "measure_volatility w symbol (ow_now w) = Inr vol"
      and v: "rule_on st w symbol req asked origin m l vol account t = Inr v"
    show "triple {} (read_of s) (if \<not> rv_approved v then
         (case rv_code v of
            None \<Rightarrow> raiseA ValueError
          | Some code \<Rightarrow> on_engine (\<lambda>dur. refuse_order (st_engine st) dur req (ow_now w) code (rv_leverage v)
                marks (rv_checks_performed v) (rv_risk_max_leverage v)))
       else bindA (on_engine (\<lambda>dur. submit_order (st_engine st) dur (approved_request req v) (ow_now w) m
              (Some (ls_filters l)) (rv_leverage v) (st_paper_enabled st) marks (rv_checks_performed v)
              (rv_risk_max_leverage v)))
            (\<lambda>outcome. thenA (note_entry symbol (ow_now w) outcome) (returnA outcome)))
      (\<lambda>r _. granted st w symbol asked origin s r) (\<lambda>_. True)"
    proof (cases "rv_approved v")
      case True
      from verdict_authority [OF v True mark [OF m] listed vol] authority_read [OF t] True
      show ?thesis by (simp add: filled)
    next
      case False
      have "triple {} (read_of s) (on_engine (\<lambda>dur. refuse_order (st_engine st) dur req (ow_now w) code
          (rv_leverage v) marks (rv_checks_performed v) (rv_risk_max_leverage v)))
          (\<lambda>r _. granted st w symbol asked origin s r) (\<lambda>_. True)" for code
        by (rule answers_triple [OF answers_engine [OF refuse_fills_nothing]]) (simp add: granted_def)
      with False show ?thesis by (auto simp: triple_def raiseA_def split: option.split)
    qed
  qed simp_all
qed

lemma unseen_granted:
  assumes "true_marks w marks"
  shows "triple {} (read_of s) (submit_unseen st w req asked origin symbol marks)
    (\<lambda>r _. granted st w symbol asked origin s r) (\<lambda>_. True)"
  unfolding submit_unseen_def
proof (rule triple_lift)
  fix listed
  assume l: "metadata_of w symbol = Inr listed"
  show "triple {} (read_of s) (case listed of
       None \<Rightarrow>
         on_engine (\<lambda>dur. submit_order (st_engine st) dur req (ow_now w)
           (unusable_mark w symbol UNAVAILABLE) None unresolvable_leverage (st_paper_enabled st)
           marks [] None)
     | Some l \<Rightarrow> submit_listed st w req asked origin symbol marks l)
    (\<lambda>r _. granted st w symbol asked origin s r) (\<lambda>_. True)"
  proof (cases listed)
    case None
    have "price_problem (st_engine st) (unusable_mark w symbol UNAVAILABLE) \<noteq> None"
      by (simp add: price_problem_def unusable_mark_def check_market_data_def)
    from answers_triple [OF answers_engine [OF unusable_price_fills_nothing [OF this]]] None
    show ?thesis by (auto simp: granted_def)
  next
    case (Some x)
    with l have "ow_symbol w symbol = Answered x"
      by (auto simp: metadata_of_def split: lookup.splits)
    from listed_granted [OF assms this] Some show ?thesis by simp
  qed
qed simp

lemma locked_granted:
  "triple {} (read_of s) (submit_locked st w req asked origin)
    (\<lambda>r _. granted st w (upper (submit_order_request.sr_symbol req)) asked origin s r) (\<lambda>_. True)"
proof -
  let ?G = "granted st w (upper (submit_order_request.sr_symbol req)) asked origin s"
  have marked: "triple {} (read_of s) (open_marks w) (\<lambda>marks t. read_of s t \<and> true_marks w marks) (\<lambda>_. True)"
    using open_marks_keeps [of "{}" "read_of s" w] open_marks_true [of w]
    unfolding keeps_def answers_def triple_def by (fastforce split: prod.splits sum.splits)
  have replayed: "triple {} (read_of s) (on_engine (\<lambda>dur. replay (st_engine st) dur cid (ow_now w) marks))
      (\<lambda>x t. read_of s t \<and> (\<forall>r. x = Some r \<longrightarrow> no_new_fill r)) (\<lambda>_. True)" for cid marks
  proof -
    let ?m = "on_engine (\<lambda>dur. replay (st_engine st) dur cid (ow_now w) marks)"
    have "keeps {} (read_of s) ?m" by (rule engine_reads) (rule replay_only)
    moreover have "answers (\<lambda>x. case x of None \<Rightarrow> True | Some r \<Rightarrow> no_new_fill r) ?m"
      by (rule answers_engine) (rule replayed_fills_nothing)
    ultimately show ?thesis
      unfolding keeps_def answers_def triple_def by (fastforce split: prod.splits sum.splits)
  qed
  show ?thesis
    unfolding submit_locked_def Let_def
  proof (rule triple_bind [OF marked], rule triple_guard)
    fix marks
    assume true: "true_marks w marks"
    show "triple {} (read_of s) (case sr_client_order_id req of
          None \<Rightarrow> submit_unseen st w req asked origin (upper (submit_order_request.sr_symbol req)) marks
        | Some cid \<Rightarrow> bindA (on_engine (\<lambda>dur. replay (st_engine st) dur cid (ow_now w) marks)) (\<lambda>replayed.
            case replayed of
              Some r \<Rightarrow> returnA r
            | None \<Rightarrow> submit_unseen st w req asked origin (upper (submit_order_request.sr_symbol req)) marks))
        (\<lambda>r _. ?G r) (\<lambda>_. True)"
    proof (cases "sr_client_order_id req")
      case None
      with unseen_granted [OF true] show ?thesis by simp
    next
      case (Some cid)
      have "triple {} (\<lambda>t. read_of s t \<and> (\<forall>r. x = Some r \<longrightarrow> no_new_fill r)) (case x of
              Some r \<Rightarrow> returnA r
            | None \<Rightarrow> submit_unseen st w req asked origin (upper (submit_order_request.sr_symbol req)) marks)
          (\<lambda>r _. ?G r) (\<lambda>_. True)" for x
        using unseen_granted [OF true, of s st req asked origin]
        by (cases x) (auto simp: granted_def triple_def returnA_def)
      from triple_bind [OF replayed this] Some show ?thesis by simp
    qed
  qed
qed

lemma persisted_answers:
  assumes "triple {} P m (\<lambda>x _. F x) (\<lambda>_. True)"
  shows "triple {} P (persisted w m) (\<lambda>x _. F x) (\<lambda>_. True)"
  unfolding persisted_def
  by (rule triple_bind [OF assms])
    (simp add: triple_def thenA_def persist_def bindA_def modifyA_def returnA_def)

subsection \<open>What is written down\<close>

text \<open>A service that claims durability has, but for the day's session, its account in the store.\<close>

definition saved :: "service \<Rightarrow> bool" where
  "saved s \<longleftrightarrow> (service_durability s = DURABLE \<longrightarrow>
     (\<exists>p. sv_stored s = Some (to_snapshot p) \<and> only_session p (sv_paper s)))"

text \<open>The calls that returned; one that raised is not followed by a write.\<close>

inductive service_call :: "service_settings \<Rightarrow> service \<Rightarrow> service \<Rightarrow> bool" for st where
  submitted: "submit_service st w req asked origin s = (t, Inr r) \<Longrightarrow> service_call st s t"
| ticked: "tick_service st w s = (t, Inr x) \<Longrightarrow> service_call st s t"
| closed: "close_service st w symbol reason s = (t, Inr r) \<Longrightarrow> service_call st s t"
| reset: "reset_service st w balance s = (t, Inr a) \<Longrightarrow> service_call st s t"
| stopped: "emergency_service st w engaged s = (t, Inr a) \<Longrightarrow> service_call st s t"
| viewed: "get_account st w s = (t, Inr a) \<Longrightarrow> service_call st s t"
| advised: "position_advice st w symbol s = (t, Inr x) \<Longrightarrow> service_call st s t"

lemma store_save_saves: "sv_store_bound s \<Longrightarrow> saved (store_save w s)"
  by (auto simp: saved_def store_save_def service_durability_def store_durability_def)

lemma persisted_saves:
  assumes "persisted w m s = (t, Inr r)"
  shows "saved t"
proof -
  obtain u where "t = (if sv_store_bound u then store_save w u else u)"
    using assms
    by (auto simp: persisted_def persist_def thenA_def bindA_def modifyA_def returnA_def
        split: prod.splits sum.splits)
  then show ?thesis
    using store_save_saves [of u w] by (auto simp: saved_def service_durability_def)
qed

lemma read_saves: "saved s \<Longrightarrow> read_of s t \<Longrightarrow> saved t"
  using read_of_sel [of s t] read_of_paper [of s t]
  by (auto simp: saved_def service_durability_def store_durability_def intro: only_session_trans)

lemma reads_run:
  assumes "\<And>s. keeps {} (read_of s) m" and "m s = (t, r)"
  shows "read_of s t"
  using keeps_run [OF assms(1), of s s] assms(2) by simp

lemma service_call_saves:
  assumes "service_call st s t" and "saved s"
  shows "saved t"
  using assms
proof cases
  case viewed
  then show ?thesis using read_saves [OF assms(2)] reads_run [OF account_reads] by blast
next
  case advised
  then show ?thesis using read_saves [OF assms(2)] reads_run [OF advice_reads] by blast
qed (auto simp: submit_service_def tick_service_def close_service_def reset_service_def
    emergency_service_def intro: persisted_saves)

lemma service_calls_save: "(service_call st)\<^sup>*\<^sup>* s t \<Longrightarrow> saved s \<Longrightarrow> saved t"
  by (induction rule: rtranclp_induct) (auto intro: service_call_saves)

text \<open>The account that comes back from a document this build wrote.\<close>

definition read_back :: "paper_state \<Rightarrow> paper_state" where
  "read_back p = p\<lparr>ps_orders_by_client_id := index_of (ps_order_log p)\<rparr>"

lemma restore_stored:
  assumes "restore w s = (t, r)" and "sv_store_bound s" and "ow_read_lands w"
    and "sv_stored s = Some (to_snapshot p)" and "snapshot_ok p"
  shows "r = Inr True \<and> sv_paper t = read_back p"
  using assms
  by (auto simp: restore_def store_load_def document_state_def snapshot_back read_back_def bindA_def readA_def
      liftA_def thenA_def modifyA_def returnA_def simp del: from_snapshot.simps)

lemma snapshot_ok_session: "snapshot_ok (p\<lparr>ps_session := x\<rparr>) = snapshot_ok p"
  by (simp add: snapshot_ok_def)

lemma index_of_find: "map_of (index_of entries) k = find (\<lambda>o'. po_client_order_id o' = k) (rev entries)"
  by (induction entries rule: rev_induct) (auto simp: index_of_def dict_simps)

text \<open>The emergency stop of a service whose account cannot be shown.\<close>

lemma stop_unwritten:
  assumes "p \<in> set (values_of (ps_positions (sv_paper s)))" and "mp_margin p \<le> 0"
    and "emergency_service st w True s = (t, r)"
  shows "(\<exists>e. r = Inl e) \<and> ps_emergency_stopped (sv_paper t) \<and> sv_stored t = sv_stored s \<and>
    service_durability t = service_durability s"
proof -
  let ?q = "sv_paper s"
  let ?q1 = "?q\<lparr>ps_session := Some (ensured_session (st_engine st) (ow_now w) ?q),
    ps_emergency_stopped := True, ps_updated_at := ow_now w\<rparr>"
  have "p \<in> set (values_of (ps_positions ?q1))" using assms(1) by simp
  from build_account_raises [OF this assms(2)] obtain e where
    "build_account (st_engine st) (service_durability s) (ow_now w) [] ?q1 = (?q1, Inl e)" by blast
  then have "set_emergency_stop (st_engine st) (service_durability s) True (ow_now w) ?q = (?q1, Inl e)"
    by (simp add: set_emergency_stop_def then_session then_modify)
  with assms(3) have "t = s\<lparr>sv_paper := ?q1\<rparr>" "r = Inl e"
    by (simp_all add: emergency_service_def persisted_def bindA_def on_engine_def)
  then show ?thesis by (simp add: service_durability_def store_durability_def)
qed

end
