(* ===== verification/LoopLaws.thy ===== *)
theory LoopLaws
  imports ServiceLaws
begin

section \<open>Laws of the autonomous loop\<close>

subsection \<open>The decision log\<close>

text \<open>From \<open>l0\<close>, the decisions \<open>ds\<close> were recorded: numbered consecutively, kept up to the limit.\<close>

definition recorded :: "loop_settings \<Rightarrow> auto_loop \<Rightarrow> autonomous_decision list \<Rightarrow> auto_loop \<Rightarrow> bool" where
  "recorded cfg l0 ds l \<longleftrightarrow>
     al_sequence l = al_sequence l0 + length ds \<and>
     map ad_sequence ds = map (\<lambda>i. al_sequence l0 + i) [1..<length ds + 1] \<and>
     al_decisions l = last_n (lo_max_decision_log cfg) (al_decisions l0 @ ds)"

lemma recorded_start: "length (al_decisions l) \<le> lo_max_decision_log cfg \<Longrightarrow> recorded cfg l [] l"
  by (simp add: recorded_def last_n_def)

lemma last_n_again: "last_n k (last_n k xs @ [x]) = last_n k (xs @ [x])"
  by (cases "k \<le> length xs") (auto simp: last_n_def Suc_diff_le)

lemma recorded_frame:
  assumes "al_sequence (f l) = al_sequence l" and "al_decisions (f l) = al_decisions l"
  shows "recorded cfg l0 ds (f l) = recorded cfg l0 ds l"
  using assms by (simp add: recorded_def)

lemma recorded_modify:
  assumes "\<And>l. al_sequence (f l) = al_sequence l" and "\<And>l. al_decisions (f l) = al_decisions l"
  shows "keeps X (recorded cfg l0 ds) (modifyA f)"
  using recorded_frame [of f, OF assms] by (intro keeps_modify) simp

lemma recorded_service: "keeps X (recorded cfg l0 ds) (on_service m)"
  unfolding keeps_def
proof (rule tripleI)
  fix l
  assume l: "recorded cfg l0 ds l"
  have "recorded cfg l0 ds (l\<lparr>al_service := sv\<rparr>)" for sv using l by (simp add: recorded_def)
  then show "case on_service m l of (l', Inr x) \<Rightarrow> recorded cfg l0 ds l'
      | (l', Inl e) \<Rightarrow> e \<in> X \<or> recorded cfg l0 ds l'"
    by (simp add: on_service_def split: prod.split sum.split)
qed

text \<open>An action that records exactly one decision, the one it returns, as its last change.\<close>

definition decides :: "loop_settings \<Rightarrow> (autonomous_decision \<Rightarrow> bool) \<Rightarrow> ('a \<Rightarrow> autonomous_decision) \<Rightarrow>
    (auto_loop, 'a) act \<Rightarrow> bool" where
  "decides cfg F g m \<longleftrightarrow>
     (\<forall>l0 ds. triple {} (recorded cfg l0 ds) m (\<lambda>x l. recorded cfg l0 (ds @ [g x]) l \<and> F (g x))
        (recorded cfg l0 ds))"

named_theorems decide_rules "actions that record one decision, by their shape"

lemma decides_record [decide_rules]:
  assumes "\<And>i n. F (d\<lparr>ad_decision_id := i, ad_sequence := n\<rparr>)"
  shows "decides cfg F (\<lambda>x. x) (record_decision cfg d)"
  unfolding decides_def
proof (intro allI tripleI)
  fix l0 ds l
  assume l: "recorded cfg l0 ds l"
  let ?n = "al_sequence l + 1"
  let ?d = "d\<lparr>ad_decision_id := seq_id ''auto-decision-'' ?n, ad_sequence := ?n\<rparr>"
  have "recorded cfg l0 (ds @ [?d]) (l\<lparr>al_sequence := ?n,
      al_decisions := last_n (lo_max_decision_log cfg) (al_decisions l @ [?d])\<rparr>)"
    using l by (simp add: recorded_def last_n_again del: append_assoc) (simp add: last_n_again flip: append_assoc)
  then show "case record_decision cfg d l of
      (l', Inr x) \<Rightarrow> recorded cfg l0 (ds @ [x]) l' \<and> F x | (l', Inl e) \<Rightarrow> e \<in> {} \<or> recorded cfg l0 ds l'"
    using assms by (simp add: record_decision_def Let_def last_n_def)
qed

lemma decides_bind [decide_rules]:
  assumes "\<And>l0 ds. keeps {} (recorded cfg l0 ds) m" and "\<And>x. decides cfg F g (k x)"
  shows "decides cfg F g (bindA m k)"
  using assms(2) unfolding decides_def by (intro allI keeps_bind_triple [OF assms(1)]) auto

lemma decides_then [decide_rules]:
  assumes "\<And>l0 ds. keeps {} (recorded cfg l0 ds) m" and "decides cfg F g k"
  shows "decides cfg F g (thenA m k)"
  unfolding thenA_def by (intro decides_bind assms)

lemma decides_return [decide_rules]:
  "decides cfg F (\<lambda>x. x) m \<Longrightarrow> (\<And>d. g (h d) = d) \<Longrightarrow> decides cfg F g (bindA m (\<lambda>d. returnA (h d)))"
  unfolding decides_def by (intro allI triple_bind) (auto intro: triple_return)

lemma decides_if [decide_rules]:
  "decides cfg F g a \<Longrightarrow> decides cfg F g b \<Longrightarrow> decides cfg F g (if c then a else b)"
  by simp

lemma decides_option [decide_rules]:
  "decides cfg F g a \<Longrightarrow> (\<And>x. decides cfg F g (f x)) \<Longrightarrow>
   decides cfg F g (case c of None \<Rightarrow> a | Some x \<Rightarrow> f x)"
  by (cases c) simp_all

lemma decides_let [decide_rules]: "(\<And>x. decides cfg F g (f x)) \<Longrightarrow> decides cfg F g (Let v f)"
  by (simp add: Let_def)

lemma manage_decides: "decides cfg (\<lambda>d. ad_symbol d = symbol) (\<lambda>x. x)
    (manage_open cfg w symbol side result now bar_close)"
proof -
  have case_both: "decides cfg F g a \<Longrightarrow> (\<And>x. decides cfg F g (f x)) \<Longrightarrow>
      decides cfg F g (case (b, c) of (True, Some x) \<Rightarrow> f x | _ \<Rightarrow> a)" for F g a f b and c :: "'x option"
    by (cases b; cases c) simp_all
  show ?thesis
    unfolding manage_open_def Let_def
    by (intro decide_rules case_both recorded_service recorded_modify)
      (simp_all add: analysed_decision_def blank_decision_def)
qed

lemma propose_decides: "decides cfg (\<lambda>d. ad_symbol d = symbol) (\<lambda>x. x)
    (propose_entry cfg w symbol result account atr_pct bar_close now source)"
  unfolding propose_entry_def Let_def
  by (intro decide_rules recorded_service recorded_modify keep_rules)
    (simp_all add: analysed_decision_def blank_decision_def)

lemma evaluate_decides: "decides cfg (\<lambda>d. ad_symbol d = symbol) fst
    (evaluate_symbol cfg w symbol account now)"
  unfolding evaluate_symbol_def Let_def
  by (rule decides_if decides_option decides_return [where h = "\<lambda>d. (d, True)"]
      decides_return [where h = "\<lambda>d. (d, False)"] manage_decides propose_decides decides_record
      decides_bind [OF keeps_lift] | simp add: analysed_decision_def blank_decision_def)+

lemma triple_run:
  "triple X P m Q E \<Longrightarrow> P s \<Longrightarrow>
   (case m s of (s', Inr x) \<Rightarrow> Q x s' | (s', Inl e) \<Rightarrow> e \<in> X \<or> E s')"
  by (simp add: triple_def)

lemma attempt_decides: "decides cfg (\<lambda>d. ad_symbol d = symbol) fst
    (attempt_symbol cfg w symbol account now)"
proof -
  let ?F = "\<lambda>d. ad_symbol d = symbol"
  let ?skip = "bindA (record_decision cfg (blank_decision cfg symbol SKIPPED now)) (\<lambda>d. returnA (d, True))"
  have skip: "decides cfg ?F fst ?skip"
    by (intro decide_rules) (simp_all add: blank_decision_def)
  show ?thesis
    unfolding decides_def
  proof (intro allI tripleI)
    fix l0 ds l
    assume l: "recorded cfg l0 ds l"
    obtain l1 r where run: "evaluate_symbol cfg w symbol account now l = (l1, r)"
      by (cases "evaluate_symbol cfg w symbol account now l")
    have ev: "triple {} (recorded cfg l0 ds) (evaluate_symbol cfg w symbol account now)
        (\<lambda>x l. recorded cfg l0 (ds @ [fst x]) l \<and> ?F (fst x)) (recorded cfg l0 ds)"
      using evaluate_decides unfolding decides_def by blast
    show "case attempt_symbol cfg w symbol account now l of
        (l', Inr x) \<Rightarrow> recorded cfg l0 (ds @ [fst x]) l' \<and> ?F (fst x)
      | (l', Inl e) \<Rightarrow> e \<in> {} \<or> recorded cfg l0 ds l'"
    proof (cases r)
      case (Inr x)
      with triple_Inr [OF ev l, of l1 x] run show ?thesis by (simp add: attempt_symbol_def)
    next
      case (Inl e)
      with triple_Inl [OF ev l, of l1 e] run have "recorded cfg l0 ds l1" by simp
      moreover have "triple {} (recorded cfg l0 ds) ?skip
          (\<lambda>x l. recorded cfg l0 (ds @ [fst x]) l \<and> ?F (fst x)) (recorded cfg l0 ds)"
        using skip unfolding decides_def by blast
      ultimately have "case ?skip l1 of (l', Inr x) \<Rightarrow> recorded cfg l0 (ds @ [fst x]) l' \<and> ?F (fst x)
          | (l', Inl e) \<Rightarrow> e \<in> {} \<or> recorded cfg l0 ds l'"
        by (rule triple_run [rotated])
      then show ?thesis by (simp only: attempt_symbol_def run Inl prod.case sum.case)
    qed
  qed
qed

subsection \<open>An iteration\<close>

lemma note_outcome_log: "keeps X (recorded cfg l0 ds) (modifyA (note_outcome cfg' symbol failed))"
  by (rule recorded_modify) (simp_all add: note_outcome_def note_failure_def Let_def)

lemma universe_decided:
  "triple {} (recorded cfg l0 ds) (evaluate_universe cfg ws i now symbols account)
     (\<lambda>xs l. recorded cfg l0 (ds @ map fst xs) l \<and> map (\<lambda>x. ad_symbol (fst x)) xs = symbols) (\<lambda>_. True)"
proof (induction symbols arbitrary: ds i account)
  case Nil
  then show ?case by (simp add: triple_return)
next
  case (Cons symbol symbols)
  have first: "triple {} (recorded cfg l0 ds) (attempt_symbol cfg (ws i) symbol account now)
      (\<lambda>x l. recorded cfg l0 (ds @ [fst x]) l \<and> ad_symbol (fst x) = symbol) (\<lambda>_. True)"
    using attempt_decides [of cfg symbol "ws i" account now] unfolding decides_def
    by (elim allE) (erule triple_weaken, simp_all)
  have rest: "triple {} (recorded cfg l0 (ds @ [fst x]))
      (bindA (evaluate_universe cfg ws (i + 2) now symbols account') (\<lambda>xs. returnA (x # xs)))
      (\<lambda>xs l. recorded cfg l0 (ds @ map fst xs) l \<and> map (\<lambda>x. ad_symbol (fst x)) xs = symbol # symbols)
      (\<lambda>_. True)" if "ad_symbol (fst x) = symbol" for x account'
    by (rule triple_bind [OF Cons.IH]) (simp add: triple_return that)
  show ?case
    unfolding evaluate_universe.simps
    by (rule triple_bind [OF first], rule triple_guard,
        rule keeps_then_triple [OF note_outcome_log], rule keeps_bind_triple [OF recorded_service],
        rule rest) simp_all
qed

lemma closings_recorded:
  "triple {} (recorded cfg l0 ds) (mapA (record_closed cfg now) trades)
     (\<lambda>cs l. recorded cfg l0 (ds @ cs) l \<and> map ad_symbol cs = map pt_symbol trades \<and>
        list_all (\<lambda>d. ad_action d = CLOSED) cs) (\<lambda>_. True)"
proof (induction trades arbitrary: ds)
  case Nil
  then show ?case by (simp add: triple_return)
next
  case (Cons trade trades)
  let ?F = "\<lambda>d. ad_symbol d = pt_symbol trade \<and> ad_action d = CLOSED"
  have "decides cfg ?F (\<lambda>x. x) (record_closed cfg now trade)"
    unfolding record_closed_def by (intro decide_rules recorded_modify) (simp_all add: blank_decision_def)
  then have first: "triple {} (recorded cfg l0 ds) (record_closed cfg now trade)
      (\<lambda>x l. recorded cfg l0 (ds @ [x]) l \<and> ?F x) (\<lambda>_. True)"
    unfolding decides_def by (elim allE) (erule triple_weaken, simp_all)
  have rest: "triple {} (recorded cfg l0 (ds @ [x]))
      (bindA (mapA (record_closed cfg now) trades) (\<lambda>ys. returnA (x # ys)))
      (\<lambda>cs l. recorded cfg l0 (ds @ cs) l \<and> map ad_symbol cs = map pt_symbol (trade # trades) \<and>
        list_all (\<lambda>d. ad_action d = CLOSED) cs) (\<lambda>_. True)" if "?F x" for x
    by (rule triple_bind [OF Cons.IH]) (simp add: triple_return that)
  show ?case
    unfolding mapA.simps by (rule triple_bind [OF first], rule triple_guard, rule rest)
qed

lemma run_once_recorded:
  assumes "run_once cfg ws finished l = (l', Inr ds)" and "length (al_decisions l) \<le> lo_max_decision_log cfg"
  shows "recorded cfg l ds l' \<and> (\<exists>cs own. ds = cs @ own \<and> list_all (\<lambda>d. ad_action d = CLOSED) cs \<and>
    map ad_symbol own = (if universe cfg l = [] then [''-''] else universe cfg l))"
proof -
  have finish: "keeps {} (recorded cfg l ds) (modifyA (finish_iteration a b f e))" for ds a b f e
    by (rule recorded_modify) (simp_all add: finish_iteration_def)
  let ?us = "universe cfg l"
  let ?Q = "\<lambda>ds l'. recorded cfg l ds l' \<and> (\<exists>cs own. ds = cs @ own \<and>
    list_all (\<lambda>d. ad_action d = CLOSED) cs \<and> map ad_symbol own = (if ?us = [] then [''-''] else ?us))"
  note start = recorded_start [OF assms(2)]
  show ?thesis
  proof (cases "?us = []")
    case True
    let ?m = "bindA (record_decision cfg (blank_decision cfg ''-'' SKIPPED (ow_now (ws 0)))) (\<lambda>d.
        thenA (modifyA (finish_iteration (ow_now (ws 0)) finished 0 0)) (returnA [d]))"
    have "decides cfg (\<lambda>d. ad_symbol d = ''-'') (\<lambda>x. x)
        (record_decision cfg (blank_decision cfg ''-'' SKIPPED (ow_now (ws 0))))"
      by (rule decides_record) (simp add: blank_decision_def)
    then have first: "triple {} (recorded cfg l []) (record_decision cfg (blank_decision cfg ''-'' SKIPPED (ow_now (ws 0))))
        (\<lambda>x l'. recorded cfg l [x] l' \<and> ad_symbol x = ''-'') (\<lambda>_. True)"
      unfolding decides_def by (elim allE [of _ l] allE [of _ "[]"]) (erule triple_weaken, simp_all)
    have own: "triple {} (recorded cfg l [x]) (returnA [x]) ?Q (\<lambda>_. True)" if "ad_symbol x = ''-''" for x
      by (rule triple_return, rule conjI, assumption, rule exI [of _ "[]"], rule exI [of _ "[x]"])
        (simp add: that True)
    have "triple {} (recorded cfg l []) ?m ?Q (\<lambda>_. True)"
      by (rule triple_bind [OF first], rule triple_guard, rule keeps_then_triple [OF finish own]) simp_all
    from triple_Inr [OF this start] assms(1) True show ?thesis
      by (simp add: run_once_def Let_def bindA_def [of "readA _"] readA_def)
  next
    case False
    let ?rest = "\<lambda>(account, closed). bindA (mapA (record_closed cfg (ow_now (ws 0))) closed) (\<lambda>closings.
        bindA (evaluate_universe cfg ws 1 (ow_now (ws 0)) ?us account) (\<lambda>xs.
        thenA (modifyA (finish_iteration (ow_now (ws 0)) finished (length (filter snd xs)) (length ?us)))
          (returnA (closings @ map fst xs))))"
    have "triple {} (recorded cfg l []) (?rest x) ?Q (\<lambda>_. True)" for x
      unfolding split_beta
      by (rule triple_bind [OF closings_recorded], rule triple_guard, rule triple_bind [OF universe_decided],
          intro triple_guard keeps_then_triple [OF finish])
        (auto intro!: triple_return exI simp: False comp_def)
    then have "triple {} (recorded cfg l []) (bindA (on_service (tick_service (lo_service cfg) (ws 0))) ?rest)
        ?Q (\<lambda>_. True)"
      by (rule keeps_bind_triple [OF recorded_service]) simp
    from triple_Inr [OF this start] assms(1) False show ?thesis
      by (simp add: run_once_def Let_def bindA_def [of "readA _"] readA_def)
  qed
qed

subsection \<open>A task that has ended, a universe that is empty\<close>

lemma arm_frame:
  assumes "arm cfg enabled l = (l', r)"
  shows "al_task l' = al_task l \<and> al_service l' = al_service l \<and> al_iterations l' = al_iterations l \<and>
    al_decisions l' = al_decisions l \<and> al_excluded l' = al_excluded l \<and>
    al_failure_iterations l' = al_failure_iterations l"
  using assms
  by (auto simp: arm_def thenA_def bindA_def modifyA_def readA_def raiseA_def split: if_splits)

lemma start_frame:
  "al_service (start_task cfg l) = al_service l" "al_iterations (start_task cfg l) = al_iterations l"
  "al_decisions (start_task cfg l) = al_decisions l" "al_excluded (start_task cfg l) = al_excluded l"
  "al_failure_iterations (start_task cfg l) = al_failure_iterations l"
  "al_task l = Ended \<Longrightarrow> al_task (start_task cfg l) = Ended"
  by (simp_all add: start_task_def)

lemma arm_permitted:
  assumes "lo_permitted cfg" and "st_paper_enabled (lo_service cfg)"
  shows "\<exists>l' st. arm cfg True l = (l', Inr st) \<and> loop_state_of cfg l' = ARMED \<and> lt_state st = ARMED \<and>
    al_task l' = al_task l"
  using assms
  by (simp add: arm_def thenA_def bindA_def modifyA_def readA_def loop_status_of_def loop_state_of_def)

lemma ended_stays:
  assumes "(loop_step cfg)\<^sup>*\<^sup>* l l'" and "al_task l = Ended"
  shows "al_task l' = Ended \<and> al_iterations l' = al_iterations l \<and> al_decisions l' = al_decisions l \<and>
    al_service l' = al_service l"
  using assms
proof (induction rule: rtranclp_induct)
  case (step x y)
  then have x: "al_task x = Ended \<and> al_iterations x = al_iterations l \<and> al_decisions x = al_decisions l \<and>
      al_service x = al_service l" by simp
  from step.hyps(2) show ?case
  proof cases
    case (turn ws finished)
    with x show ?thesis by (simp add: supervise_turn_def)
  next
    case (armed enabled r)
    with x arm_frame [OF armed] show ?thesis by simp
  next
    case started
    with x show ?thesis by (simp add: start_frame)
  qed
qed simp

lemma run_once_empty:
  assumes "universe cfg l = []"
  shows "\<exists>l' d. run_once cfg ws finished l = (l', Inr [d]) \<and> al_service l' = al_service l \<and>
    al_excluded l' = al_excluded l \<and> al_failure_iterations l' = 0 \<and> al_iterations l' = al_iterations l + 1"
  using assms
  by (simp add: run_once_def bindA_def readA_def record_decision_def thenA_def modifyA_def returnA_def
      finish_iteration_def Let_def)

lemma turn_empty:
  assumes "universe cfg l = []"
  shows "al_service (supervise_turn cfg ws finished l) = al_service l \<and>
    al_excluded (supervise_turn cfg ws finished l) = al_excluded l"
  using run_once_empty [OF assms, of ws finished] by (auto simp: supervise_turn_def)

lemma empty_stays:
  assumes "(loop_step cfg)\<^sup>*\<^sup>* l l'" and "universe cfg l = []"
  shows "al_service l' = al_service l \<and> universe cfg l' = []"
proof -
  have "al_service l' = al_service l \<and> al_excluded l' = al_excluded l"
    using assms
  proof (induction rule: rtranclp_induct)
    case (step x y)
    then have x: "al_service x = al_service l" "al_excluded x = al_excluded l" by simp_all
    with step.prems have "universe cfg x = []" by (simp add: universe_def)
    from step.hyps(2) this x show ?case
      by cases (auto simp: turn_empty start_frame dest: arm_frame)
  qed simp
  with assms(2) show ?thesis by (simp add: universe_def)
qed

subsection \<open>A bar that was already traded\<close>

text \<open>A submission under an order id the account still knows is answered by the stored order.\<close>

lemma replay_known:
  assumes "map_of (ps_orders_by_client_id p) cid = Some o'" and "replay cfg dur cid now marks p = (q, Inr x)"
  shows "\<exists>r. x = Some r \<and> pr_order r = o'\<lparr>po_idempotent_replay := True\<rparr> \<and> pr_accepted r = is_filled o'"
proof -
  have "answers (\<lambda>r. pr_order r = o'\<lparr>po_idempotent_replay := True\<rparr> \<and> pr_accepted r = is_filled o')
      (replay_outcome cfg dur now marks (po_symbol o') o')"
    unfolding replay_outcome_def by (intro answer_rules) (simp add: result_of_def)
  then have "answers (\<lambda>x. \<exists>r. x = Some r \<and> pr_order r = o'\<lparr>po_idempotent_replay := True\<rparr> \<and>
      pr_accepted r = is_filled o')
      (thenA (ensure_session cfg now)
        (bindA (replay_outcome cfg dur now marks (po_symbol o') o') (\<lambda>r. returnA (Some r))))"
    unfolding answers_def
    by (intro keeps_then_triple [OF keeps_True] triple_bind) (auto intro: triple_return)
  from answers_run [OF this] assms show ?thesis
    by (simp add: replay_def bindA_def [of "readA _"] readA_def)
qed

lemma submit_known:
  assumes "map_of (ps_orders_by_client_id (sv_paper s)) cid = Some o'" and "sr_client_order_id req = Some cid"
    and "submit_service st w req asked origin s = (t, Inr r)"
  shows "pr_accepted r = is_filled o' \<and> pr_order r = o'\<lparr>po_idempotent_replay := True\<rparr> \<and>
    only_session (sv_paper s) (sv_paper t)"
proof -
  let ?m = "submit_locked st w req asked origin"
  obtain u where u: "?m s = (u, Inr r)" and t: "sv_paper t = sv_paper u"
    using assms(3)
    by (auto simp: submit_service_def persisted_def persist_def thenA_def bindA_def modifyA_def returnA_def
        store_save_def split: prod.splits sum.splits if_splits)
  obtain v marks where v: "open_marks w s = (v, Inr marks)"
      "bindA (on_engine (\<lambda>dur. replay (st_engine st) dur cid (ow_now w) marks)) (\<lambda>replayed.
          case replayed of
            Some r \<Rightarrow> returnA r
          | None \<Rightarrow> submit_unseen st w req asked origin (upper (submit_order_request.sr_symbol req)) marks) v
        = (u, Inr r)"
    using u assms(2)
    by (auto simp: submit_locked_def Let_def bindA_def [of "open_marks w"] split: prod.splits sum.splits)
  have "keeps {} (\<lambda>x. x = s) (open_marks w)" by (rule open_marks_keeps)
  from keeps_run [OF this, of s] v(1) have vs: "v = s" by simp
  obtain p x where p: "replay (st_engine st) (service_durability s) cid (ow_now w) marks (sv_paper s) = (p, Inr x)"
    using v(2) vs
    by (auto simp: bindA_def on_engine_def split: prod.splits sum.splits)
  from replay_known [OF assms(1) p] obtain r' where r': "x = Some r'"
    "pr_order r' = o'\<lparr>po_idempotent_replay := True\<rparr>" "pr_accepted r' = is_filled o'" by blast
  have "u = s\<lparr>sv_paper := p\<rparr>" "r = r'"
    using v(2) vs p r'(1) by (simp_all add: bindA_def on_engine_def returnA_def)
  moreover have "only_session (sv_paper s) p"
  proof -
    have "keeps {} (only_session (sv_paper s))
        (replay (st_engine st) (service_durability s) cid (ow_now w) marks)" by (rule replay_only)
    from keeps_run [OF this, of "sv_paper s"] p show ?thesis by simp
  qed
  ultimately show ?thesis using r' t by simp
qed

lemma propose_known:
  assumes known: "map_of (ps_orders_by_client_id (sv_paper (al_service l)))
      (build_client_order_id symbol (lo_timeframe cfg) bar_close
         (if sr_bias result = Some LONG_BIAS then BUY else SELL)) = Some o'" and filled: "is_filled o'"
    and run: "propose_entry cfg w symbol result account atr_pct bar_close now source l = (l', Inr d)"
  shows "ad_action d = ENTERED \<and> al_entries l' = al_entries l + 1 \<and>
    ad_order_id d = Some (po_order_id o') \<and>
    only_session (sv_paper (al_service l)) (sv_paper (al_service l'))"
proof -
  let ?side = "if sr_bias result = Some LONG_BIAS then BUY else SELL"
  let ?cid = "build_client_order_id symbol (lo_timeframe cfg) bar_close ?side"
  obtain margin where m: "quantize_usdt (d_quot (d_mul (pa_available_balance account)
      (lo_position_size_percent cfg)) 100) = Inr margin"
    using run by (cases "quantize_usdt (d_quot (d_mul (pa_available_balance account)
      (lo_position_size_percent cfg)) 100)") (simp_all add: propose_entry_def Let_def bindA_liftA raiseA_def)
  let ?req = "entry_request cfg symbol ?side margin ?cid result bar_close"
  obtain sv r where s: "submit_service (lo_service cfg) w ?req (lo_requested_leverage cfg) AUTONOMOUS_ORIGIN
      (al_service l) = (sv, r)"
    by (cases "submit_service (lo_service cfg) w ?req (lo_requested_leverage cfg) AUTONOMOUS_ORIGIN (al_service l)")
  note step = run [unfolded propose_entry_def Let_def m bindA_liftA sum.case]
  obtain res where r: "r = Inr res"
    using step s by (cases r) (simp_all add: bindA_def on_service_def)
  have "sr_client_order_id ?req = Some ?cid" by (simp add: entry_request_def)
  from submit_known [OF known this s [unfolded r]] filled have
    res: "pr_accepted res" "pr_order res = o'\<lparr>po_idempotent_replay := True\<rparr>"
      "only_session (sv_paper (al_service l)) (sv_paper sv)" by simp_all
  from step s r res show ?thesis
    by (auto simp: bindA_def on_service_def thenA_def modifyA_def record_decision_def Let_def
        analysed_decision_def blank_decision_def)
qed

end
