(* ===== verification/ServiceProperties.thy ===== *)
theory ServiceProperties
  imports LoopLaws
begin

section \<open>Properties of the paper service and the autonomous loop\<close>

subsection \<open>The single risk authority\<close>

text \<open>C7: whatever a submission to the service answers, manual or autonomous, it is a refusal, a replay of
  an order already placed, or a new fill for which, in what the service read during the call, paper mode was
  enabled, no stop was engaged, no durable order awaited reconciliation (an order store that did not
  answer counts as one that does), the venue lists the symbol, its ticker was answered OK and fresh
  enough, volatility was measured from candles and is below the ceiling, and the cooldown of that caller had
  passed; and the order carries the leverage of the verdict, at most what was asked and, above one, at
  most the configured ceiling.\<close>

theorem entry_has_every_authority:
  assumes "submit_service st w req asked origin s = (t, Inr r)"
  shows "\<not> pr_accepted r \<or> po_idempotent_replay (pr_order r) \<or>
    st_paper_enabled st \<and> \<not> ps_emergency_stopped (sv_paper s) \<and> pending_orders w \<le> 0 \<and>
    (\<exists>l. ow_symbol w (upper (submit_order_request.sr_symbol req)) = Answered l) \<and>
    (\<exists>ob age. ow_ticker w (upper (submit_order_request.sr_symbol req)) = Answered ob \<and> ob_status ob = OK \<and>
       ob_value ob \<noteq> None \<and> age_seconds ob = Some age \<and> age \<le> st_max_data_age_seconds st) \<and>
    (\<exists>v p. measure_volatility w (upper (submit_order_request.sr_symbol req)) (ow_now w) = Inr v \<and>
       vm_status v = MEASURED \<and> vm_atr_percent v = Some p \<and> p \<le> st_max_atr_percent st) \<and>
    (\<forall>t. map_of (sv_last_entry_at s) (upper (submit_order_request.sr_symbol req)) = Some t \<longrightarrow>
       0 < rp_entry_cooldown_seconds (policy_of st origin) \<longrightarrow>
       rp_entry_cooldown_seconds (policy_of st origin) \<le> total_seconds (ow_now w) t) \<and>
    (\<exists>d lev. po_leverage (pr_order r) = Some d \<and> ld_approved d = Some lev \<and> 1 \<le> lev \<and> lev \<le> asked \<and>
       (1 < lev \<longrightarrow> lev \<le> st_max_leverage st))"
proof -
  from triple_Inr [OF persisted_answers [OF locked_granted] read_of_refl assms [unfolded submit_service_def]]
  have "granted st w (upper (submit_order_request.sr_symbol req)) asked origin s r" .
  then show ?thesis
    unfolding granted_def no_new_fill_def entry_authority_def leverage_within_def by blast
qed

subsection \<open>Sizes given as a quantity\<close>

text \<open>C15: a request that names a quantity is not filled at that quantity: the service converts it to a margin
  at the last price, and the verdict multiplies that margin by the approved leverage again, so the
  approved quantity is the requested one times the leverage, down to the venue's step.\<close>

theorem requested_quantity_is_levered:
  assumes "rule_on st w symbol req asked origin mark listed vol account s = Inr v" and "rv_approved v"
    and "sr_margin req = None" and "sr_quantity req = Some q" and "mk_last_price mark = Some price"
  shows "\<exists>margin lev notional x y. quantize_usdt (d_mul q price) = Inr margin \<and>
    ld_approved (rv_leverage v) = Some lev \<and> quantize_usdt (d_mul margin lev) = Inr notional \<and>
    d_div notional price = Inr x \<and> floor_to_step x (sf_step_size (ls_filters listed)) = Inr y \<and>
    rv_approved_quantity v = Some y"
proof -
  from rule_on_sized [OF assms(1,2)] assms(3-5) show ?thesis
    by (auto simp: proposed_margin_def)
qed

subsection \<open>Durability\<close>

text \<open>C10: an account written to the store reads back exactly, every amount, position, order and trade, and
  its idempotency index is the newest order of each id in the log, whatever the index was before; a
  document of another schema version is refused as a whole.\<close>

theorem snapshot_round_trip:
  assumes "list_all paper_order_valid (ps_order_log p)"
    and "list_all (\<lambda>q. case mp_thesis q of None \<Rightarrow> True | Some t \<Rightarrow> position_thesis_valid t)
       (values_of (ps_positions p))"
  shows "(\<exists>index. from_snapshot (to_snapshot p) = Inr (p\<lparr>ps_orders_by_client_id := index\<rparr>) \<and>
      (\<forall>k. map_of index k = find (\<lambda>o'. po_client_order_id o' = k) (rev (ps_order_log p)))) \<and>
    (got d ''schema_version'' = JInt n \<and> n \<noteq> 2 \<longrightarrow> from_snapshot (JObject d) = Inl ValueError)"
proof -
  have "snapshot_ok p" using assms by (simp add: snapshot_ok_def)
  from snapshot_back [OF this] index_of_find show ?thesis by (simp add: SCHEMA_VERSION_def) blast
qed


text \<open>C12: a call that raises after it changed the account is not followed by a write, and the claim of
  durability stays: with a position of margin zero on the books, engaging the emergency stop raises, the
  stop holds in memory only, and a restart comes back without it.\<close>

theorem raised_stop_is_not_kept:
  assumes "p \<in> set (values_of (ps_positions (sv_paper s)))" and "mp_margin p \<le> 0"
    and "emergency_service st w True s = (t, r)" and "sv_store_bound s1" and "sv_stored s1 = sv_stored t"
    and "sv_stored s = Some (to_snapshot q)" and "snapshot_ok q" and "\<not> ps_emergency_stopped q"
    and "ow_read_lands w'" and "restore w' s1 = (u, b)"
  shows "(\<exists>e. r = Inl e) \<and> ps_emergency_stopped (sv_paper t) \<and>
    service_durability t = service_durability s \<and> \<not> ps_emergency_stopped (sv_paper u)"
  using stop_unwritten [OF assms(1-3)] restore_stored [OF assms(10,4,9) _ assms(7)] assms(5,6,8)
  by (auto simp: read_back_def)

subsection \<open>The loop\<close>


text \<open>C8: once an exception has ended the task, no request revives it: whatever is asked afterwards
  (arming, starting, turns of the task) no iteration runs, no decision is recorded and the account is not
  touched, while arming again still answers that the loop is armed.\<close>

theorem rearmed_loop_never_runs:
  assumes "al_task l = Running" and "\<not> al_stop l" and "al_armed l"
    and "run_once cfg ws finished l = (l1, Inl e)"
    and "(loop_step cfg)\<^sup>*\<^sup>* (supervise_turn cfg ws finished l) l'"
    and "lo_permitted cfg" and "st_paper_enabled (lo_service cfg)"
  shows "al_iterations l' = al_iterations l1 \<and> al_decisions l' = al_decisions l1 \<and>
    al_service l' = al_service l1 \<and>
    (\<exists>l2 st. arm cfg True l' = (l2, Inr st) \<and> lt_state st = ARMED \<and> al_task l2 = Ended)"
proof -
  have "supervise_turn cfg ws finished l = l1\<lparr>al_failure := Some e, al_armed := False, al_task := Ended\<rparr>"
    using assms(1-4) by (simp add: supervise_turn_def)
  with ended_stays [OF assms(5)] arm_permitted [OF assms(6,7), of l'] show ?thesis by auto
qed

text \<open>C9: once every configured symbol has been dropped for its failures, no later iteration manages the
  account: whatever prices return and however often the loop is armed again, stops and targets of the
  open positions are no longer looked at, although each iteration reports success.\<close>

theorem dropped_universe_abandons_positions:
  assumes "universe cfg l = []" and "(loop_step cfg)\<^sup>*\<^sup>* l l'"
  shows "al_service l' = al_service l \<and>
    (\<exists>l2 d. run_once cfg ws finished l' = (l2, Inr [d]) \<and> al_service l2 = al_service l \<and>
       al_iterations l2 = al_iterations l' + 1 \<and> al_failure_iterations l2 = 0)"
proof -
  from empty_stays [OF assms(2,1)] have "al_service l' = al_service l" "universe cfg l' = []" by simp_all
  with run_once_empty [of cfg l' ws finished] show ?thesis by auto
qed

text \<open>C14: a second entry on a bar already traded opens nothing: the account, but for its session, is as
  before. It is nevertheless recorded as ENTERED and counted as an entry.\<close>

theorem second_entry_on_a_bar_is_a_replay:
  assumes "map_of (ps_orders_by_client_id (sv_paper (al_service l)))
      (build_client_order_id symbol (lo_timeframe cfg) bar_close
         (if sr_bias result = Some LONG_BIAS then BUY else SELL)) = Some o'" and "is_filled o'"
    and "propose_entry cfg w symbol result account atr_pct bar_close now source l = (l', Inr d)"
  shows "(\<exists>x. sv_paper (al_service l') = (sv_paper (al_service l))\<lparr>ps_session := x\<rparr>) \<and>
    ad_action d = ENTERED \<and> al_entries l' = al_entries l + 1 \<and> ad_order_id d = Some (po_order_id o')"
  using propose_known [OF assms] by (simp add: only_session_def)

subsection \<open>A concrete service for the witnesses\<close>

definition sample_settings :: service_settings where
  "sample_settings =
     \<lparr>st_engine = example_config, st_paper_enabled = True, st_max_open_positions = 3,
      st_max_position_notional = 5000, st_max_portfolio_exposure = 10000, st_max_leverage = 10,
      st_max_data_age_seconds = 5, st_entry_cooldown_seconds = 900, st_manual_cooldown_seconds = 0,
      st_max_atr_percent = 8, st_taker_fee_bps = 4\<rparr>"

text \<open>A venue that lists nothing and writes that land.\<close>

definition empty_world :: "timestamp \<Rightarrow> outside" where
  "empty_world now =
     \<lparr>ow_now = now, ow_exchange = ''v'', ow_ticker = (\<lambda>_. NotListed), ow_symbol = (\<lambda>_. NotListed),
      ow_klines = (\<lambda>_ _ _. VenueFailed), ow_pending = None, ow_read_lands = True, ow_write_lands = True\<rparr>"

definition sample_service :: "paper_state \<Rightarrow> service" where
  "sample_service p =
     \<lparr>sv_paper = p, sv_last_entry_at = [], sv_store_bound = True, sv_store_healthy = True,
      sv_stored = Some (to_snapshot p)\<rparr>"

lemma empty_world_sel:
  "ow_now (empty_world t) = t" "ow_symbol (empty_world t) x = NotListed"
  "ow_ticker (empty_world t) x = NotListed" "ow_klines (empty_world t) x f n = VenueFailed"
  "ow_read_lands (empty_world t)" "ow_write_lands (empty_world t)"
  by (simp_all add: empty_world_def)

lemma sample_service_simps:
  "sv_paper (sample_service p) = p" "service_durability (sample_service p) = DURABLE"
  "sv_stored (sample_service p) = Some (to_snapshot p)" "sv_store_bound (sample_service p)"
  by (simp_all add: sample_service_def service_durability_def store_durability_def)

lemma open_marks_none: "ps_positions (sv_paper s) = [] \<Longrightarrow> open_marks w s = (s, Inr [])"
  by (simp add: open_marks_def bindA_def readA_def liftA_def open_symbols_def keys_of_def)

lemma bind_marks_none: "ps_positions (sv_paper s) = [] \<Longrightarrow> bindA (open_marks w) f s = f [] s"
  by (simp add: bindA_def [of "open_marks w"] open_marks_none)

lemma bind_engine:
  "m (service_durability s) (sv_paper s) = (p, Inr x) \<Longrightarrow> bindA (on_engine m) f s = f x (s\<lparr>sv_paper := p\<rparr>)"
  by (simp add: bindA_def [of "on_engine m"] on_engine_def)

theorem entry_has_every_authority_witness:
  "\<exists>t r. submit_service (sample_settings\<lparr>st_paper_enabled := False\<rparr>) (empty_world 5)
      (example_request\<lparr>sr_client_order_id := Some ''c''\<rparr>) 1 ''manual''
      (sample_service (fresh_state 10000 0)) = (t, Inr r) \<and>
    (\<not> pr_accepted r \<or> po_idempotent_replay (pr_order r))"
proof -
  let ?st = "sample_settings\<lparr>st_paper_enabled := False\<rparr>" and ?w = "empty_world 5"
  let ?s = "sample_service (fresh_state 10000 0)"
  have req: "example_request\<lparr>sr_client_order_id := Some ''c''\<rparr> = example_request"
    by (simp add: example_request_def)
  obtain p r where p: "submit_order example_config DURABLE example_request 5
      (unusable_mark ?w ''X'' UNAVAILABLE) None unresolvable_leverage False [] [] None (fresh_state 10000 0)
      = (p, Inr r)"
    using example_paper_off by blast
  have free: "map_of (ps_orders_by_client_id (fresh_state 10000 0)) ''c'' = None"
    and none: "ps_positions (sv_paper ?s) = []"
    by (simp_all add: fresh_state_def sample_service_def)
  have st: "st_engine ?st = example_config" "st_paper_enabled ?st = False"
    "submit_order_request.sr_symbol example_request = ''X''" "sr_client_order_id example_request = Some ''c''"
    by (simp_all add: sample_settings_def example_request_def)
  have unknown: "bindA (on_engine (\<lambda>dur. replay example_config dur ''c'' now [])) f ?s = f None ?s" for now
    and f :: "paper_order_result option \<Rightarrow> (service, paper_order_result) act"
    using free by (subst bind_engine) (auto simp: replay_def bind_read sample_service_def returnA_def)
  have refused: "on_engine (\<lambda>dur. submit_order example_config dur example_request 5
      (unusable_mark ?w ''X'' UNAVAILABLE) None unresolvable_leverage False [] [] None) ?s
      = (?s\<lparr>sv_paper := p\<rparr>, Inr r)"
    using p by (simp add: on_engine_def sample_service_simps)
  have "submit_locked ?st ?w example_request 1 ''manual'' ?s = (?s\<lparr>sv_paper := p\<rparr>, Inr r)"
    using refused
    by (simp add: submit_locked_def st upper_X bind_marks_none [OF none]
        unknown submit_unseen_def metadata_of_def bindA_liftA empty_world_sel)
  then obtain t where t: "submit_service ?st ?w example_request 1 ''manual'' ?s = (t, Inr r)"
    by (simp add: submit_service_def persisted_def thenA_def bindA_def persist_def modifyA_def returnA_def)
  from entry_has_every_authority [OF this] have "\<not> pr_accepted r \<or> po_idempotent_replay (pr_order r)"
    by (simp add: sample_settings_def)
  with t show ?thesis unfolding req by blast
qed

text \<open>One unit at a price of 100, asked for at ten times leverage on a listed symbol.\<close>

definition one_unit :: submit_order_request where
  "one_unit = example_request\<lparr>sr_stop_loss_percent := Some 2\<rparr>"

definition sample_listing :: listed_symbol where
  "sample_listing =
     \<lparr>ls_filters = \<lparr>sf_tick_size = 1, sf_step_size = 1, sf_min_quantity = 1, sf_max_quantity = None,
        sf_min_price = None, sf_max_price = None, sf_min_notional = None, sf_market_step_size = None,
        sf_market_min_quantity = None, sf_market_max_quantity = None\<rparr>,
      ls_max_leverage = Some 10\<rparr>"

definition sample_view :: paper_account where
  "sample_view =
     \<lparr>pa_account_id = ''a'', pa_mode = PAPER, pa_created_at = 0, pa_updated_at = 0,
      pa_starting_balance = 1000, pa_balance = 1000, pa_equity = 1000, pa_available_balance = 1000,
      pa_margin_used = 0, pa_realized_pnl = 0, pa_unrealized_pnl = None, pa_total_fees = 0,
      pa_positions = [], pa_open_orders = [], pa_recent_orders = [], pa_recent_trades = [],
      pa_session = \<lparr>ds_session_date = 0, ds_realized_pnl = 0, ds_fees = 0, ds_trades_closed = 0,
        ds_orders_submitted = 0, ds_orders_rejected = 0, ds_profit_target = 50, ds_loss_limit = - 50,
        ds_lock_state = LOCK_NONE, ds_locked_at = None\<rparr>,
      pa_autonomous_enabled = False, pa_durability = DURABLE, pa_mark_source = None, pa_mark_status = None\<rparr>"

definition calm :: volatility_measurement where
  "calm = \<lparr>vm_status = MEASURED, vm_atr_percent = Some 2, vm_candles_used = 60\<rparr>"

lemma one_unit_amounts:
  "d_mul 1 100 = 100" "quantize_usdt 100 = Inr 100" "d_mul 100 10 = 1000" "quantize_usdt 1000 = Inr 1000"
  "d_div 1000 100 = Inr 10" "floor_to_step 10 1 = Inr 10" "d_mul 10 100 = 1000" "d_add 0 1000 = 1000"
  "d_div 1000 10 = Inr 100"
  by (simp_all add: quantize_usdt_def USDT_PLACES_def floor_to_step_def dec_eval)

lemma one_unit_approved:
  "\<exists>v. rule_on sample_settings (empty_world 5) ''X'' one_unit 10 ''manual'' (example_mark 100)
      sample_listing calm sample_view (sample_service (fresh_state 10000 0)) = Inr v \<and> rv_approved v \<and>
    ld_approved (rv_leverage v) = Some 10"
proof -
  let ?p = "proposal_of ''X'' one_unit 100 10 ''manual''"
  let ?a = "account_view sample_settings sample_view ''X'' 0 (sample_service (fresh_state 10000 0))"
  let ?m = "market_view ''X'' (example_mark 100) calm sample_listing"
  let ?pol = "policy_of sample_settings ''manual''"
  have derive: "derive_risk_max_leverage (Some 2) 100 0 (- 50) 10 = Inr (Some 10)"
  proof -
    have e: "d_mul 2 2 = 4" "d_div 100 4 = Inr 25" "d_sub 0 (- 50) = 50" "d_mul 100 2 = 200"
      "d_div 200 100 = Inr 2" "d_div 50 2 = Inr 25" "quantize ROUND_DOWN 2 10 = Inr 10"
      by (simp_all add: dec_eval)
    show ?thesis
      by (simp add: derive_risk_max_leverage_def LEVERAGE_MIN_def LEVERAGE_MAX_def
          LIQUIDATION_SAFETY_FACTOR_def Let_def e)
  qed
  note amounts = one_unit_amounts
  note views = proposal_of_def account_view_def market_view_def policy_of_def one_unit_def example_request_def
    sample_settings_def sample_view_def sample_service_def fresh_state_def example_mark_def calm_def
    sample_listing_def AUTONOMOUS_ORIGIN_def
  have pass: "list_all (\<lambda>c. snd c = None) (entry_checks ?p ?a ?m ?pol 5)"
    by (simp add: entry_checks_pass mode_check_def emergency_check_def reconciliation_check_def
        lock_check_def blocks_entries_def market_check_None symbol_check_def slots_check_def
        cooldown_check_None volatility_check_None views)
  then obtain names where run: "run_checks (entry_checks ?p ?a ?m ?pol 5) = (names, None)"
    using run_checks_None [of "entry_checks ?p ?a ?m ?pol 5"] by blast
  have sum: "d_sum [] = 0" by (simp add: d_sum_def)
  have "\<exists>v. evaluate ?p ?a ?m ?pol 5 = Inr v \<and> rv_approved v \<and>
      ld_approved (rv_leverage v) = Some 10"
    unfolding evaluate_def run
    by (simp add: leverage_stage_def views derive mk_leverage_request_def leverage_simps sizing_def
        apply_filters_def after_filters_def ceilings_def approve_def check_verdict_def amounts sum)
  moreover have "proposed_margin one_unit (example_mark 100) = Inr 100"
    by (simp add: proposed_margin_def one_unit_def example_request_def example_mark_def amounts)
  moreover have "pending_orders (empty_world 5) = 0" by (simp add: pending_orders_def empty_world_def)
  ultimately show ?thesis by (simp add: rule_on_def empty_world_sel)
qed

theorem requested_quantity_is_levered_witness:
  "\<exists>v. rule_on sample_settings (empty_world 5) ''X'' one_unit 10 ''manual'' (example_mark 100)
      sample_listing calm sample_view (sample_service (fresh_state 10000 0)) = Inr v \<and>
    sr_quantity one_unit = Some 1 \<and> rv_approved_quantity v = Some 10"
proof -
  obtain v where v: "rule_on sample_settings (empty_world 5) ''X'' one_unit 10 ''manual'' (example_mark 100)
      sample_listing calm sample_view (sample_service (fresh_state 10000 0)) = Inr v"
    "rv_approved v" "ld_approved (rv_leverage v) = Some 10"
    using one_unit_approved by blast
  have req: "sr_margin one_unit = None" "sr_quantity one_unit = Some 1" "mk_last_price (example_mark 100) = Some 100"
    by (simp_all add: one_unit_def example_request_def example_mark_def)
  have "rv_approved_quantity v = Some 10"
    using requested_quantity_is_levered [OF v(1,2) req] v(3)
    by (simp add: one_unit_amounts sample_listing_def)
  with v(1) req(2) show ?thesis by blast
qed

lemma stop_on_nothing:
  assumes "ps_positions (sv_paper s) = []" and "ps_balance (sv_paper s) = 10000" and "ps_session (sv_paper s) = None"
  shows "\<exists>t a. emergency_service sample_settings w True s = (t, Inr a) \<and> ps_emergency_stopped (sv_paper t) \<and>
    snapshot_ok (sv_paper t) = snapshot_ok (sv_paper s) \<and>
    (sv_store_bound s \<and> ow_write_lands w \<longrightarrow> sv_store_bound t \<and> service_durability t = DURABLE)"
proof -
  let ?p = "sv_paper s"
  let ?x = "new_session example_config (date_of (ow_now w))"
  let ?q = "?p\<lparr>ps_session := Some ?x, ps_emergency_stopped := True, ps_updated_at := ow_now w\<rparr>"
  have day: "ensured_session example_config (ow_now w) ?p = ?x" "ensured_session example_config (ow_now w) ?q = ?x"
    using assms(3) by (simp_all add: ensured_session_def new_session_def)
  have "on_grid 8 (10000 :: rat)" using on_grid_of_int [of 8 10000] by simp
  then obtain a where "build_account example_config (service_durability s) (ow_now w) [] ?q
      = (?q\<lparr>ps_session := Some ?x\<rparr>, Inr a)"
    using account_of_nothing [of ?q example_config "ow_now w" "service_durability s" "[]"] assms(1,2) day(2)
    by (auto simp: new_session_def)
  then have "set_emergency_stop example_config (service_durability s) True (ow_now w) ?p = (?q, Inr a)"
    by (simp add: set_emergency_stop_def then_session then_modify day)
  then have "emergency_service sample_settings w True s =
      (if sv_store_bound s then store_save w (s\<lparr>sv_paper := ?q\<rparr>) else s\<lparr>sv_paper := ?q\<rparr>, Inr a)"
    by (simp add: emergency_service_def persisted_def bindA_def on_engine_def thenA_def persist_def modifyA_def
        returnA_def sample_settings_def)
  then show ?thesis by (auto simp: store_save_def service_durability_def store_durability_def snapshot_ok_def)
qed

lemma fresh_sample:
  "ps_positions (sv_paper (sample_service (fresh_state 10000 0))) = []"
  "ps_balance (sv_paper (sample_service (fresh_state 10000 0))) = 10000"
  "ps_session (sv_paper (sample_service (fresh_state 10000 0))) = None"
  by (simp_all add: sample_service_def fresh_state_def)

theorem snapshot_round_trip_witness:
  "from_snapshot (to_snapshot ((fresh_state 10000 0)\<lparr>ps_sequence := 7, ps_emergency_stopped := True\<rparr>)) =
     Inr ((fresh_state 10000 0)\<lparr>ps_sequence := 7, ps_emergency_stopped := True\<rparr>) \<and>
   from_snapshot (JObject [(''schema_version'', JInt 1)]) = Inl ValueError"
proof -
  let ?p = "(fresh_state 10000 0)\<lparr>ps_sequence := 7, ps_emergency_stopped := True\<rparr>"
  have p: "ps_order_log ?p = []" "ps_positions ?p = []" "ps_orders_by_client_id ?p = []"
    by (simp_all add: fresh_state_def)
  then have ok: "list_all paper_order_valid (ps_order_log ?p)"
    "list_all (\<lambda>q. case mp_thesis q of None \<Rightarrow> True | Some t \<Rightarrow> position_thesis_valid t) (values_of (ps_positions ?p))"
    by (simp_all add: values_of_def)
  from snapshot_round_trip [OF ok, of "[(''schema_version'', JInt 1)]" 1] p obtain index where
    index: "from_snapshot (to_snapshot ?p) = Inr (?p\<lparr>ps_orders_by_client_id := index\<rparr>)"
      "\<And>k. map_of index k = None" "from_snapshot (JObject [(''schema_version'', JInt 1)]) = Inl ValueError"
    by (auto simp: got_def simp del: from_snapshot.simps)
  have "index = []"
  proof (cases index)
    case (Cons q rest)
    with index(2) [of "fst q"] show ?thesis by (cases q) simp
  qed simp
  with index p show ?thesis by (simp add: fresh_state_def del: from_snapshot.simps)
qed


theorem raised_stop_is_not_kept_witness:
  "\<exists>t e u b. emergency_service sample_settings (empty_world 5) True
      (sample_service (PaperProperties.example_account 0)) = (t, Inl e) \<and>
    restore (empty_world 9) t = (u, b) \<and> ps_emergency_stopped (sv_paper t) \<and>
    \<not> ps_emergency_stopped (sv_paper u)"
proof -
  let ?s = "sample_service (PaperProperties.example_account 0)"
  have held: "example_held 0 \<in> set (values_of (ps_positions (sv_paper ?s)))" "mp_margin (example_held 0) \<le> 0"
    by (simp_all add: sample_service_simps PaperProperties.example_account_def values_of_def example_held_def)
  obtain t r where t: "emergency_service sample_settings (empty_world 5) True ?s = (t, r)"
    by (cases "emergency_service sample_settings (empty_world 5) True ?s")
  obtain u b where u: "restore (empty_world 9) t = (u, b)" by (cases "restore (empty_world 9) t")
  have kept: "sv_store_bound t"
    using t
    by (auto simp: emergency_service_def persisted_def bindA_def thenA_def persist_def modifyA_def returnA_def
        on_engine_def sample_service_def store_save_def split: prod.splits sum.splits if_splits)
  have old: "sv_stored ?s = Some (to_snapshot (PaperProperties.example_account 0))"
    "snapshot_ok (PaperProperties.example_account 0)"
    "\<not> ps_emergency_stopped (PaperProperties.example_account 0)"
    by (simp_all add: sample_service_simps snapshot_ok_def PaperProperties.example_account_def fresh_state_def
        values_of_def example_held_def)
  from raised_stop_is_not_kept [OF held t kept refl old _ u] t u show ?thesis
    by (auto simp: empty_world_sel)
qed

subsection \<open>A concrete loop for the witnesses\<close>

definition sample_loop :: loop_settings where
  "sample_loop =
     \<lparr>lo_permitted = True, lo_symbols = [''X''], lo_timeframe = M15, lo_interval_seconds = 60,
      lo_max_symbols = 5, lo_candle_limit = 300, lo_position_size_percent = 5, lo_requested_leverage = 1,
      lo_stop_loss_percent = Some 2, lo_take_profit_percent = Some 4, lo_trailing_stop_percent = None,
      lo_close_on_signal_flip = True, lo_max_consecutive_failures = 3, lo_outage_iterations = 5,
      lo_outage_backoff = 4, lo_max_decision_log = 500, lo_service = sample_settings\<rparr>"

lemma sample_loop_sel:
  "lo_permitted sample_loop" "lo_symbols sample_loop = [''X'']" "lo_service sample_loop = sample_settings"
  "lo_max_symbols sample_loop = 5" "lo_max_decision_log sample_loop = 500" "lo_timeframe sample_loop = M15"
  "lo_position_size_percent sample_loop = 5" "st_paper_enabled sample_settings"
  "st_engine sample_settings = example_config" "lo_max_consecutive_failures sample_loop = 3"
  by (simp_all add: sample_loop_def sample_settings_def)

text \<open>An account without positions whose day has begun or not.\<close>

definition resting :: "paper_state \<Rightarrow> bool" where
  "resting p \<longleftrightarrow> ps_positions p = [] \<and> ps_balance p = 10000 \<and>
     (ps_session p = None \<or> ps_session p = Some (new_session example_config (date_of 5)))"

lemma resting_day: "resting p \<Longrightarrow> ensured_session example_config 5 p = new_session example_config (date_of 5)"
  by (auto simp: resting_def ensured_session_def new_session_def)

lemma resting_account:
  assumes "resting p"
  shows "\<exists>q a. build_account example_config dur 5 marks p = (q, Inr a) \<and> resting q"
proof -
  have "on_grid 8 (10000 :: rat)" using on_grid_of_int [of 8 10000] by simp
  with account_of_nothing [of p example_config 5 dur marks] assms resting_day [OF assms]
  show ?thesis by (auto simp: resting_def new_session_def)
qed

lemma resting_snapshot:
  assumes "resting p"
  shows "\<exists>q a. snapshot example_config dur 5 marks p = (q, Inr a) \<and> resting q"
proof -
  have "resting (p\<lparr>ps_session := Some (ensured_session example_config 5 p)\<rparr>)"
    using assms resting_day [OF assms] by (simp add: resting_def)
  from resting_account [OF this] show ?thesis by (simp add: snapshot_def then_session)
qed

lemma resting_tick:
  assumes "resting p"
  shows "\<exists>q a. tick example_config dur 5 marks p = (q, Inr (a, [])) \<and> resting q"
proof -
  let ?p = "p\<lparr>ps_session := Some (ensured_session example_config 5 p), ps_updated_at := 5\<rparr>"
  have "resting ?p" "ps_positions p = []"
    using assms resting_day [OF assms] by (simp_all add: resting_def)
  from resting_account [OF this(1), of dur marks] this(2) show ?thesis
    by (auto simp: tick_def then_session then_modify bind_read keys_of_def act_simps returnA_def
        bindA_def [of "build_account _ _ _ _"])
qed

lemma resting_view:
  assumes "resting (sv_paper s)"
  shows "\<exists>t a. get_account sample_settings (empty_world 5) s = (t, Inr a) \<and> resting (sv_paper t)"
proof -
  have "ps_positions (sv_paper s) = []" using assms by (simp add: resting_def)
  with resting_snapshot [OF assms, of "service_durability s" "[]"] show ?thesis
    by (auto simp: get_account_def bind_marks_none on_engine_def sample_loop_sel empty_world_sel)
qed

lemma resting_pass:
  assumes "resting (sv_paper s)"
  shows "\<exists>t a. tick_service sample_settings (empty_world 5) s = (t, Inr (a, [])) \<and> resting (sv_paper t)"
proof -
  have "ps_positions (sv_paper s) = []" using assms by (simp add: resting_def)
  moreover obtain q a where q: "tick example_config (service_durability s) 5 [] (sv_paper s) = (q, Inr (a, []))"
    "resting q" using resting_tick [OF assms] by blast
  ultimately have "bindA (open_marks (empty_world 5)) (\<lambda>marks. on_engine (\<lambda>dur. tick example_config dur 5 marks)) s
      = (s\<lparr>sv_paper := q\<rparr>, Inr (a, []))"
    by (simp add: bind_marks_none on_engine_def)
  then have "tick_service sample_settings (empty_world 5) s =
      (if sv_store_bound s then store_save (empty_world 5) (s\<lparr>sv_paper := q\<rparr>) else s\<lparr>sv_paper := q\<rparr>, Inr (a, []))"
    by (simp add: tick_service_def persisted_def sample_loop_sel empty_world_sel bind_run_Inr thenA_def
        persist_def modifyA_def returnA_def bindA_def [of "\<lambda>s. (_ s, Inr ())"])
  with q(2) show ?thesis by (auto simp: store_save_def)
qed

text \<open>One iteration over a symbol whose candles cannot be had.\<close>

lemma sample_iteration:
  "\<exists>l' ds. run_once sample_loop (\<lambda>_. empty_world 5) 6 (fresh_loop (sample_service (fresh_state 10000 0))) =
     (l', Inr ds) \<and> length ds = 1"
proof -
  let ?l = "fresh_loop (sample_service (fresh_state 10000 0))" and ?w = "empty_world 5"
  have view: "\<exists>t a. on_service (get_account sample_settings ?w) l = (l\<lparr>al_service := t\<rparr>, Inr a)"
    if "resting (sv_paper (al_service l))" for l
    using resting_view [OF that] by (auto simp: on_service_def)
  have "resting (sv_paper (al_service ?l))"
    by (simp add: fresh_loop_def sample_service_simps resting_def fresh_state_def)
  from resting_pass [OF this] obtain sv a where
    sv: "tick_service sample_settings ?w (al_service ?l) = (sv, Inr (a, []))" "resting (sv_paper sv)" by blast
  have pass: "bindA (on_service (tick_service sample_settings ?w)) f ?l = f (a, []) (?l\<lparr>al_service := sv\<rparr>)"
    for f :: "paper_account \<times> paper_trade list \<Rightarrow> (auto_loop, autonomous_decision list) act"
    using sv(1) by (simp add: bindA_def on_service_def)
  have us: "universe sample_loop ?l = [''X'']"
    by (simp add: universe_def sample_loop_sel fresh_loop_def keys_of_def)
  obtain l1 d where d: "attempt_symbol sample_loop ?w ''X'' a 5 (?l\<lparr>al_service := sv\<rparr>) = (l1, Inr (d, True))"
      "al_service l1 = sv"
    by (simp add: attempt_symbol_def evaluate_symbol_def klines_of_def empty_world_sel bindA_liftA raiseA_def
        bindA_def [of "record_decision _ _"] record_decision_def Let_def returnA_def)
  have "resting (sv_paper (al_service (note_outcome sample_loop ''X'' True l1)))"
    using sv(2) d(2) by (simp add: note_outcome_def note_failure_def Let_def)
  from view [OF this] obtain t a' where
    t: "on_service (get_account sample_settings ?w) (note_outcome sample_loop ''X'' True l1) =
      (note_outcome sample_loop ''X'' True l1\<lparr>al_service := t\<rparr>, Inr a')" by blast
  have steps: "bindA (attempt_symbol sample_loop ?w ''X'' a 5) f (?l\<lparr>al_service := sv\<rparr>) = f (d, True) l1"
    "bindA (on_service (get_account sample_settings ?w)) g (note_outcome sample_loop ''X'' True l1) =
      g a' (note_outcome sample_loop ''X'' True l1\<lparr>al_service := t\<rparr>)"
    for f :: "autonomous_decision \<times> bool \<Rightarrow> (auto_loop, (autonomous_decision \<times> bool) list) act"
      and g :: "paper_account \<Rightarrow> (auto_loop, (autonomous_decision \<times> bool) list) act"
    using d(1) t by (simp_all add: bindA_def)
  have "evaluate_universe sample_loop (\<lambda>_. ?w) 1 5 [''X''] a (?l\<lparr>al_service := sv\<rparr>) =
      (note_outcome sample_loop ''X'' True l1\<lparr>al_service := t\<rparr>, Inr [(d, True)])"
    by (simp add: steps then_modify bindA_returnA sample_loop_sel) (simp add: returnA_def)
  then have "bindA (evaluate_universe sample_loop (\<lambda>_. ?w) 1 5 [''X''] a) f (?l\<lparr>al_service := sv\<rparr>) =
      f [(d, True)] (note_outcome sample_loop ''X'' True l1\<lparr>al_service := t\<rparr>)"
    for f :: "(autonomous_decision \<times> bool) list \<Rightarrow> (auto_loop, autonomous_decision list) act"
    by (rule bind_run_Inr)
  then show ?thesis
    by (simp add: run_once_def Let_def bind_read us sample_loop_sel pass empty_world_sel act_simps then_modify
        del: evaluate_universe.simps) (simp add: returnA_def)
qed


text \<open>An armed loop over a service that holds a position the venue no longer lists.\<close>

definition armed_loop :: auto_loop where
  "armed_loop = (fresh_loop (sample_service (PaperProperties.example_account 200)))
     \<lparr>al_armed := True, al_task := Running\<rparr>"

lemma armed_loop_fails:
  "run_once sample_loop (\<lambda>_. empty_world 5) 6 armed_loop = (armed_loop, Inl SymbolNotFoundError)"
proof -
  have us: "universe sample_loop armed_loop = [''X'']"
    by (simp add: universe_def sample_loop_sel armed_loop_def fresh_loop_def keys_of_def)
  have keys: "open_symbols (sv_paper (al_service armed_loop)) = [''X'']"
    by (simp add: armed_loop_def fresh_loop_def sample_service_simps PaperProperties.example_account_def
        open_symbols_def keys_of_def)
  then have "open_marks (empty_world 5) (al_service armed_loop) = (al_service armed_loop, Inl SymbolNotFoundError)"
    by (simp add: open_marks_def bind_read liftA_def mark_of_def empty_world_sel)
  then have "tick_service sample_settings (empty_world 5) (al_service armed_loop) =
      (al_service armed_loop, Inl SymbolNotFoundError)"
    by (simp add: tick_service_def persisted_def bindA_def)
  then have "on_service (tick_service sample_settings (empty_world 5)) armed_loop =
      (armed_loop, Inl SymbolNotFoundError)"
    by (simp add: on_service_def)
  then show ?thesis
    by (simp add: run_once_def Let_def bind_read us sample_loop_sel)
      (simp add: bindA_def)
qed

theorem rearmed_loop_never_runs_witness:
  "\<exists>l'. (loop_step sample_loop)\<^sup>*\<^sup>* (supervise_turn sample_loop (\<lambda>_. empty_world 5) 6 armed_loop) l' \<and>
    loop_state_of sample_loop l' = ARMED \<and> al_iterations l' = 0 \<and> al_service l' = al_service armed_loop"
proof -
  let ?l = "supervise_turn sample_loop (\<lambda>_. empty_world 5) 6 armed_loop"
  obtain l' st where l': "arm sample_loop True ?l = (l', Inr st)" "loop_state_of sample_loop l' = ARMED"
    using arm_permitted [of sample_loop ?l] by (auto simp: sample_loop_sel)
  have run: "(loop_step sample_loop)\<^sup>*\<^sup>* ?l l'" using armed [OF l'(1)] by blast
  have l: "al_task armed_loop = Running" "\<not> al_stop armed_loop" "al_armed armed_loop" "al_iterations armed_loop = 0"
    by (simp_all add: armed_loop_def fresh_loop_def)
  from rearmed_loop_never_runs [OF l(1-3) armed_loop_fails run] run l'(2) l(4) show ?thesis
    by (auto simp: sample_loop_sel)
qed

text \<open>The same loop after its only symbol failed three times in a row.\<close>

definition dropped_loop :: auto_loop where
  "dropped_loop = (note_failure sample_loop ''X'' ^^ 3) armed_loop"

theorem dropped_universe_abandons_positions_witness:
  "\<exists>l'. (loop_step sample_loop)\<^sup>*\<^sup>* dropped_loop l' \<and> loop_state_of sample_loop l' = ARMED \<and>
    open_symbols (sv_paper (al_service l')) = [''X'']"
proof -
  have empty: "universe sample_loop dropped_loop = []"
    by (simp add: dropped_loop_def armed_loop_def fresh_loop_def eval_nat_numeral note_failure_def Let_def
        universe_def keys_of_def) (simp add: sample_loop_def)
  have keys: "open_symbols (sv_paper (al_service dropped_loop)) = [''X'']"
    by (simp add: dropped_loop_def armed_loop_def fresh_loop_def eval_nat_numeral note_failure_def Let_def
        sample_service_simps PaperProperties.example_account_def open_symbols_def keys_of_def)
  obtain l' st where l': "arm sample_loop True dropped_loop = (l', Inr st)" "loop_state_of sample_loop l' = ARMED"
    using arm_permitted [of sample_loop dropped_loop] by (auto simp: sample_loop_sel)
  have run: "(loop_step sample_loop)\<^sup>*\<^sup>* dropped_loop l'" using armed [OF l'(1)] by blast
  from dropped_universe_abandons_positions [OF empty run] run l'(2) keys show ?thesis by auto
qed

text \<open>A loop whose position of this bar was opened and stopped out already.\<close>

definition long_result :: strategy_result where
  "long_result =
     \<lparr>sr_strategy = ''s'', sr_version = ''1'', sr_status = ST_READY, sr_bias = Some LONG_BIAS,
      sr_symbol = ''X'', sr_timeframe = M15, sr_parameters = [], sr_long_conditions = [],
      sr_short_conditions = [], sr_long_conditions_met = 5, sr_short_conditions_met = 0,
      sr_conditions_total = 5, sr_leverage = None, sr_indicators_used = [], sr_candles_used = 300,
      sr_last_candle_time = None, sr_source = None, sr_data_status = None, sr_data_age_seconds = None,
      sr_evaluated_at = None\<rparr>"

definition traded_order :: paper_order where
  "traded_order =
     \<lparr>po_order_id = ''o'', po_client_order_id = build_client_order_id ''X'' M15 4 BUY, po_symbol = ''X'',
      po_side = BUY, po_order_type = MARKET, po_state = FILLED, po_reduce_only = False,
      po_requested_quantity = 1, po_filled_quantity = 1, po_average_fill_price = Some 100, po_fills = [],
      po_leverage = None, po_created_at = 4, po_updated_at = 4, po_rejection_code = None,
      po_idempotent_replay = False\<rparr>"

definition traded_loop :: auto_loop where
  "traded_loop = fresh_loop (sample_service ((fresh_state 10000 0)
     \<lparr>ps_orders_by_client_id := [(build_client_order_id ''X'' M15 4 BUY, traded_order)]\<rparr>))"

lemma traded_again:
  "\<exists>l' d. propose_entry sample_loop (empty_world 5) ''X'' long_result sample_view None 4 5 None traded_loop =
     (l', Inr d)"
proof -
  let ?cid = "build_client_order_id ''X'' M15 4 BUY" and ?s = "al_service traded_loop" and ?w = "empty_world 5"
  let ?req = "\<lambda>m. entry_request sample_loop ''X'' BUY m ?cid long_result 4"
  have p: "resting (sv_paper ?s)" "map_of (ps_orders_by_client_id (sv_paper ?s)) ?cid = Some traded_order"
    by (simp_all add: traded_loop_def fresh_loop_def sample_service_simps resting_def fresh_state_def)
  have margin: "quantize_usdt (d_quot (d_mul (pa_available_balance sample_view) 5) 100) = Inr 50"
    by (simp add: sample_view_def quantize_usdt_def USDT_PLACES_def dec_eval d_quot_def)
  let ?p = "(sv_paper ?s)\<lparr>ps_session := Some (ensured_session example_config 5 (sv_paper ?s))\<rparr>"
  have "resting ?p" using p(1) resting_day [OF p(1)] by (simp add: resting_def)
  from resting_account [OF this, of DURABLE "[]"] obtain q a where
    q: "build_account example_config DURABLE 5 [] ?p = (q, Inr a)" by blast
  have none: "ps_positions (sv_paper ?s) = []" using p(1) by (simp add: resting_def)
  have dur: "service_durability ?s = DURABLE"
    by (simp add: traded_loop_def fresh_loop_def sample_service_simps)
  have "\<exists>r. replay example_config DURABLE ?cid 5 [] (sv_paper ?s) = (q, Inr (Some r))"
    by (simp add: replay_def bind_read p(2) then_session replay_outcome_def none position_model_option_def
        act_simps bindA_assoc)
      (simp add: bindA_def q returnA_def)
  then obtain r where r: "replay example_config DURABLE ?cid 5 [] (sv_paper ?s) = (q, Inr (Some r))" by blast
  have known: "bindA (on_engine (\<lambda>dur. replay example_config dur ?cid 5 [])) f ?s = f (Some r) (?s\<lparr>sv_paper := q\<rparr>)"
    for f :: "paper_order_result option \<Rightarrow> (service, paper_order_result) act"
    using r dur by (intro bind_engine) simp
  have "submit_locked sample_settings ?w (?req m) 1 AUTONOMOUS_ORIGIN ?s = (?s\<lparr>sv_paper := q\<rparr>, Inr r)" for m
    by (simp add: submit_locked_def bind_marks_none [OF none] entry_request_def sample_loop_sel empty_world_sel
        known) (simp add: returnA_def)
  then obtain sv where "\<And>m. submit_service sample_settings ?w (?req m) 1 AUTONOMOUS_ORIGIN ?s = (sv, Inr r)"
    by (simp add: submit_service_def persisted_def thenA_def bindA_def persist_def modifyA_def returnA_def)
  then have "bindA (on_service (submit_service sample_settings ?w (?req m) 1 AUTONOMOUS_ORIGIN)) f traded_loop =
      f r (traded_loop\<lparr>al_service := sv\<rparr>)"
    for m and f :: "paper_order_result \<Rightarrow> (auto_loop, autonomous_decision) act"
    by (simp add: bindA_def on_service_def)
  then show ?thesis
    by (simp add: propose_entry_def Let_def long_result_def [THEN arg_cong [of _ _ sr_bias]] sample_loop_sel margin
        bindA_liftA sample_loop_def [THEN arg_cong [of _ _ lo_requested_leverage]])
      (simp add: thenA_def bindA_def modifyA_def record_decision_def Let_def)
qed

theorem second_entry_on_a_bar_is_a_replay_witness:
  "\<exists>l' d. propose_entry sample_loop (empty_world 5) ''X'' long_result sample_view None 4 5 None traded_loop =
     (l', Inr d) \<and> ad_action d = ENTERED \<and> al_entries l' = 1 \<and>
     open_symbols (sv_paper (al_service l')) = []"
proof -
  obtain l' d where run: "propose_entry sample_loop (empty_world 5) ''X'' long_result sample_view None 4 5 None
      traded_loop = (l', Inr d)" using traded_again by blast
  have known: "map_of (ps_orders_by_client_id (sv_paper (al_service traded_loop)))
      (build_client_order_id ''X'' (lo_timeframe sample_loop) 4
        (if sr_bias long_result = Some LONG_BIAS then BUY else SELL)) = Some traded_order"
    and filled: "is_filled traded_order"
    by (simp_all add: traded_loop_def fresh_loop_def sample_service_simps sample_loop_sel long_result_def
        is_filled_def traded_order_def)
  have start: "al_entries traded_loop = 0" "open_symbols (sv_paper (al_service traded_loop)) = []"
    by (simp_all add: traded_loop_def fresh_loop_def sample_service_simps open_symbols_def keys_of_def
        fresh_state_def)
  from second_entry_on_a_bar_is_a_replay [OF known filled run] start run show ?thesis
    by (auto simp: open_symbols_def)
qed

end
