(* ===== verification/Spec2Isabelle.thy ===== *)
theory Spec2Isabelle
  imports CoreProperties OrderProperties RiskProperties PaperProperties DurableProperties BacktestProperties
    AnalysisProperties SearchProperties ServiceProperties
begin

text \<open>
  \<^bold>\<open>Aetheris: the decision and accounting core.\<close>

  Aetheris (\<^verbatim>\<open>src/backend/src/aetheris\<close>) is a trading backend in Python. Its own logic is in three
  engines, all of them pure or over a small store, with I/O kept in adapters and services:
  an order is first judged by the \<^emph>\<open>risk engine\<close>, its life at the venue is kept by the
  \<^emph>\<open>order lifecycle engine\<close>, and without a venue it is filled by the \<^emph>\<open>paper engine\<close>.

  \<^bold>\<open>Theories.\<close>

  \<^item> \<open>Prelude\<close>: results (\<open>py_error + 'a\<close>), actions \<open>'s \<Rightarrow> 's \<times> 'a result\<close>, time stamps in microseconds,
    dictionaries as association lists in insertion order. \<open>Actions\<close>: triples and preserved predicates
    over actions, with a rule for every combinator.
  \<^item> \<open>Decimal\<close>, \<open>Money\<close>: Python's decimals as exact rationals, each operation rounded by the default
    context (28 digits, ties to even); \<open>core/money.py\<close>.
  \<^item> \<open>Vocabulary\<close>: \<open>domain/enums.py\<close>, \<open>core/freshness.py\<close>, the refusal codes of \<open>core/errors.py\<close>.
  \<^item> \<open>Leverage\<close>: \<open>domain/leverage.py\<close>, \<open>analysis/leverage.py\<close>.
  \<^item> \<open>OrderDomain\<close>, \<open>OrderMachine\<close>, \<open>OrderIdentity\<close>: \<open>domain/order.py\<close>, \<open>engines/order/machine.py\<close>,
    \<open>engines/order/identity.py\<close>. \<open>OrderStore\<close>: the repository interface of
    \<open>engines/order/store.py\<close> as the locale \<open>order_repository\<close>, interpreted on the in-memory store.
    \<open>Reconcile\<close>: \<open>engines/order/reconcile.py\<close>. \<open>OrderEngine\<close>: every operation of
    \<open>engines/order/engine.py\<close> over any repository. \<open>OrderLifecycle\<close>, \<open>OrderHistory\<close>: what each
    operation keeps and how a stored order may evolve, proved once in the locale; histories of calls.
    \<open>OrderProperties\<close>: the properties.
  \<^item> \<open>OrderTable\<close>: the PostgreSQL repository of \<open>adapters/persistence/orders.py\<close> over the tables of
    \<open>adapters/persistence/models.py\<close>, the database's own behaviour a parameter; \<open>OrderTableLaws\<close>: its
    invariant and the proof that it keeps the repository contract, so that the engine's lemmas hold
    over it; \<open>DurableProperties\<close>: histories, restart, read-back, and the replayed fill.
  \<^item> \<open>RiskPolicy\<close>, \<open>RiskEngine\<close>, \<open>RiskProperties\<close>: \<open>engines/risk\<close>.
  \<^item> \<open>PaperDomain\<close>, \<open>PaperEngine\<close>, \<open>PaperTrading\<close>: \<open>domain/paper.py\<close>, \<open>domain/thesis.py\<close>,
    \<open>engines/paper\<close>; \<open>PaperLedger\<close>: the ledger invariant.

  \<^bold>\<open>Conventions.\<close> A dataclass or a pydantic model is a record and its validators a predicate checked
  where the code constructs the model; fields that only carry text for a reader are left out. An
  exception is the left value of a result. An action returns the state also when it raises, since the
  in-memory stores keep what was written before an exception. Hash functions and random local ids
  are parameters. Every recursion is structural over a finite input, so there is no fuel.

  \<^bold>\<open>Not modelled.\<close> HTTP, venue adapters, services, connections, the analysis pipeline, backtests and
  configuration: see the component list. Floating point occurs only in ages and cooldowns, which are
  exact rationals here.
\<close>

end
